(* ===== verification/Prelude.thy ===== *)
theory Prelude imports Main "HOL-Library.Multiset" begin

text \<open>
  Shared vocabulary of the development: how JavaScript values, promises and arrays are
  represented, the lemmas every component uses about them, and the interfaces of deterministic machines (an
  invariant, a discipline of the events, a weight that is bounded by their cost, facts that earlier events
  established) whose run lemmas the stateful components instantiate.
\<close>

named_theorems model_defs \<open>definitions a component unfolds in its own proofs\<close>

subsection \<open>Promises and settled outcomes\<close>

text \<open>
  The settled result of an awaited computation is a sum: \<open>Inl\<close> for a rejection (or a throw),
  \<open>Inr\<close> for a value. A promise object that other code holds is one of three states, and only
  the first call of its resolve or reject function counts.
\<close>

datatype ('e, 'a) promise = Pending | Resolved 'a | Rejected 'e

fun settle :: "('e, 'a) promise \<Rightarrow> 'e + 'a \<Rightarrow> ('e, 'a) promise" where
  "settle Pending (Inr x) = Resolved x"
| "settle Pending (Inl e) = Rejected e"
| "settle p _ = p"

fun of_outcome :: "'e + 'a \<Rightarrow> ('e, 'a) promise" where
  "of_outcome (Inr x) = Resolved x"
| "of_outcome (Inl e) = Rejected e"

lemma settle_Pending [simp]: "settle Pending r = of_outcome r"
  by (cases r) simp_all

lemma settle_settled [simp]: "p \<noteq> Pending \<Longrightarrow> settle p r = p"
  by (cases p; cases r) simp_all

lemma of_outcome_not_Pending [simp]: "of_outcome r \<noteq> Pending" "Pending \<noteq> of_outcome r"
  by (cases r; simp)+

lemma of_outcome_inj [simp]: "of_outcome r = of_outcome r' \<longleftrightarrow> r = r'"
  by (cases r; cases r') auto

lemma settle_is_Pending [simp]: "settle p r = Pending \<longleftrightarrow> False"
  by (cases p; cases r) simp_all

subsection \<open>Arrays\<close>

text \<open>\<open>Array.prototype.indexOf\<close>, with \<open>-1\<close> for an absent element.\<close>

fun index_of :: "'a \<Rightarrow> 'a list \<Rightarrow> int" where
  "index_of x [] = -1"
| "index_of x (y # ys) =
     (if y = x then 0 else if index_of x ys < 0 then -1 else index_of x ys + 1)"

lemma index_of_absent: "x \<notin> set xs \<Longrightarrow> index_of x xs = -1"
  by (induction xs) auto

lemma index_of_ge: "-1 \<le> index_of x xs"
  by (induction xs) auto

lemma index_of_present: "x \<in> set xs \<Longrightarrow> 0 \<le> index_of x xs"
  by (induction xs) auto

lemma index_of_neg_iff: "index_of x xs < 0 \<longleftrightarrow> x \<notin> set xs"
  using index_of_absent index_of_present by fastforce

text \<open>
  \<open>Array.prototype.splice(start, 1)\<close>: a negative start counts from the end, and a start
  past the end removes nothing.
\<close>

definition remove_nth :: "nat \<Rightarrow> 'a list \<Rightarrow> 'a list" where
  "remove_nth i xs = take i xs @ drop (Suc i) xs"

definition splice1 :: "int \<Rightarrow> 'a list \<Rightarrow> 'a list" where
  "splice1 start xs =
     (let n = int (length xs);
          i = (if start < 0 then max (n + start) 0 else min start n)
      in remove_nth (nat i) xs)"

lemma set_remove_nth: "set (remove_nth i xs) \<subseteq> set xs"
  using set_take_subset [of i xs] set_drop_subset [of "Suc i" xs] by (simp add: remove_nth_def)

lemma length_remove_nth: "length (remove_nth i xs) = (if i < length xs then length xs - 1 else length xs)"
  by (simp add: remove_nth_def)

lemma splice1_minus_1: "splice1 (-1) xs = butlast xs"
proof (cases xs rule: rev_cases)
  case Nil
  then show ?thesis by (simp add: splice1_def remove_nth_def)
next
  case (snoc ys y)
  then show ?thesis by (simp add: splice1_def remove_nth_def nat_minus_as_int)
qed

lemma splice1_0 [simp]: "splice1 0 (x # xs) = xs"
  by (simp add: splice1_def remove_nth_def)

lemma splice1_Cons:
  assumes "0 \<le> i" and "i < int (length xs)"
  shows "splice1 (i + 1) (x # xs) = x # splice1 i xs"
  using assms by (simp add: splice1_def remove_nth_def nat_add_distrib min_def Let_def)

lemma index_of_less: "x \<in> set xs \<Longrightarrow> index_of x xs < int (length xs)"
  by (induction xs) auto

lemma splice1_index_of:
  "x \<in> set xs \<Longrightarrow> splice1 (index_of x xs) xs = remove1 x xs"
proof (induction xs)
  case Nil
  then show ?case by simp
next
  case (Cons y ys)
  show ?case
  proof (cases "y = x")
    case True
    then show ?thesis by simp
  next
    case False
    with Cons.prems have x: "x \<in> set ys" by simp
    with False Cons.IH index_of_present [OF x] index_of_less [OF x] show ?thesis
      by (simp add: splice1_Cons)
  qed
qed

text \<open>\<open>lodash.orderBy(xs, key, 'asc' / 'desc')\<close>: stable in both directions.\<close>

definition order_asc :: "('a \<Rightarrow> int) \<Rightarrow> 'a list \<Rightarrow> 'a list" where
  "order_asc k xs = sort_key k xs"

definition order_desc :: "('a \<Rightarrow> int) \<Rightarrow> 'a list \<Rightarrow> 'a list" where
  "order_desc k xs = sort_key (\<lambda>x. - k x) xs"

lemma set_order [simp]: "set (order_asc k xs) = set xs" "set (order_desc k xs) = set xs"
  by (simp_all add: order_asc_def order_desc_def)

lemma mset_order [simp]: "mset (order_asc k xs) = mset xs" "mset (order_desc k xs) = mset xs"
  by (simp_all add: order_asc_def order_desc_def)

lemma length_order [simp]: "length (order_asc k xs) = length xs" "length (order_desc k xs) = length xs"
  by (simp_all add: order_asc_def order_desc_def)

lemma sorted_order_asc: "sorted (map k (order_asc k xs))"
  by (simp add: order_asc_def)

lemma sorted_order_desc: "sorted_wrt (\<lambda>x y. k y \<le> k x) (order_desc k xs)"
proof -
  have "sorted (map (\<lambda>x. - k x) (order_desc k xs))" by (simp add: order_desc_def)
  then show ?thesis by (simp add: sorted_map)
qed

lemma last_of_descending:
  fixes f :: "'a \<Rightarrow> 'b::order"
  shows "sorted_wrt (\<lambda>x y. f y \<le> f x) xs \<Longrightarrow> x \<in> set xs \<Longrightarrow> f (last xs) \<le> f x"
  by (induction xs) (auto dest: last_in_set split: if_splits)

lemma filter_order [simp]:
  "filter P (order_asc k xs) = order_asc k (filter P xs)"
  "filter P (order_desc k xs) = order_desc k (filter P xs)"
  by (simp_all add: order_asc_def order_desc_def filter_sort)

subsection \<open>Association lists as JavaScript objects\<close>

lemma map_of_filter_fst: "P k \<Longrightarrow> map_of (filter (\<lambda>kv. P (fst kv)) kvs) k = map_of kvs k"
  by (induction kvs) auto

lemma distinct_map_remove1: "distinct (map f xs) \<Longrightarrow> distinct (map f (remove1 x xs))"
proof (induction xs)
  case (Cons y ys)
  then show ?case using set_remove1_subset [of x ys] by auto
qed simp

subsection \<open>Interval timers\<close>

text \<open>
  The live timers of \<open>setInterval\<close>, by id and kind, against the fields in which a store keeps
  the ids: a timer whose id no field holds could never be cleared.
\<close>

definition timer_of :: "'k \<Rightarrow> nat option \<Rightarrow> (nat \<times> 'k) list" where
  "timer_of p i = (case i of None \<Rightarrow> [] | Some n \<Rightarrow> [(n, p)])"

definition timers_ok :: "(nat \<times> 'k) list \<Rightarrow> nat \<Rightarrow> ('k \<Rightarrow> nat option) \<Rightarrow> bool" where
  "timers_ok live next field \<longleftrightarrow> distinct (map fst live) \<and> (\<forall>t \<in> set live. fst t < next)
     \<and> (\<forall>p. filter (\<lambda>t. snd t = p) live = timer_of p (field p))"

lemma timers_ok_add:
  "timers_ok live next field \<Longrightarrow> field p = None \<Longrightarrow> timers_ok (live @ [(next, p)]) (Suc next) (field(p := Some next))"
  by (auto simp: timers_ok_def timer_of_def less_Suc_eq)

lemma timers_ok_remove:
  assumes "timers_ok live next field" and "field p = Some i"
  shows "timers_ok (filter (\<lambda>t. fst t \<noteq> i) live) next (field(p := None))"
proof -
  from assms have p: "filter (\<lambda>t. snd t = p) live = [(i, p)]" by (simp add: timers_ok_def timer_of_def)
  then have "(i, p) \<in> set (filter (\<lambda>t. snd t = p) live)" by simp
  then have i: "(i, p) \<in> set live" by simp
  from assms have d: "distinct (map fst live)" by (simp add: timers_ok_def)
  have other: "snd t \<noteq> q \<or> fst t \<noteq> i" if "t \<in> set live" "q \<noteq> p" for t q
    using that i d by (metis eq_key_imp_eq_value prod.collapse)
  have "filter (\<lambda>t. snd t = q \<and> fst t \<noteq> i) live = timer_of q ((field(p := None)) q)" for q
  proof (cases "q = p")
    case True
    from p have "filter (\<lambda>t. fst t \<noteq> i) (filter (\<lambda>t. snd t = p) live) = []" by simp
    with True show ?thesis by (simp add: timer_of_def conj_commute)
  next
    case False
    with other have "filter (\<lambda>t. snd t = q \<and> fst t \<noteq> i) live = filter (\<lambda>t. snd t = q) live"
      by (intro filter_cong) auto
    with False assms show ?thesis by (simp add: timers_ok_def)
  qed
  with assms d show ?thesis
    by (auto simp: timers_ok_def distinct_map_filter conj_commute)
qed

subsection \<open>Machines: runs over event lists\<close>

fun run :: "('s \<Rightarrow> 'e \<Rightarrow> 's) \<Rightarrow> 's \<Rightarrow> 'e list \<Rightarrow> 's" where
  "run step s [] = s"
| "run step s (e # es) = run step (step s e) es"

lemma run_append [simp]: "run step s (es @ es') = run step (run step s es) es'"
  by (induction es arbitrary: s) simp_all

locale machine =
  fixes step :: "'s \<Rightarrow> 'e \<Rightarrow> 's"
    and inv :: "'s \<Rightarrow> bool"
  assumes step_inv: "inv s \<Longrightarrow> inv (step s e)"
begin

lemma run_inv: "inv s \<Longrightarrow> inv (run step s es)"
  by (induction es arbitrary: s) (simp_all add: step_inv)

end

text \<open>A machine whose invariant needs a discipline of its events, as most stores do of the answers they get.\<close>

locale guarded_machine =
  fixes step :: "'s \<Rightarrow> 'e \<Rightarrow> 's"
    and inv :: "'s \<Rightarrow> bool"
    and ok :: "'e \<Rightarrow> bool"
  assumes step_inv: "inv s \<Longrightarrow> ok e \<Longrightarrow> inv (step s e)"
begin

lemma run_inv: "inv s \<Longrightarrow> list_all ok es \<Longrightarrow> inv (run step s es)"
  by (induction es arbitrary: s) (simp_all add: step_inv)

end

sublocale machine \<subseteq> unguarded: guarded_machine step inv "\<lambda>_. True"
  by unfold_locales (rule step_inv)

text \<open>
  What has happened so far: \<open>fresh\<close> says what an event in a state establishes, and a machine is traced when its states only
  rest on what was established before.
\<close>

fun history :: "('s \<Rightarrow> 'e \<Rightarrow> 's) \<Rightarrow> ('s \<Rightarrow> 'e \<Rightarrow> 'm set) \<Rightarrow> 's \<Rightarrow> 'e list \<Rightarrow> 'm set" where
  "history step fresh s [] = {}"
| "history step fresh s (e # es) = fresh s e \<union> history step fresh (step s e) es"

lemma history_split:
  "m \<in> history step fresh s es \<Longrightarrow> \<exists>es1 e es2. es = es1 @ e # es2 \<and> m \<in> fresh (run step s es1) e"
proof (induction es arbitrary: s)
  case (Cons e es)
  show ?case
  proof (cases "m \<in> fresh s e")
    case True
    then have "e # es = [] @ e # es \<and> m \<in> fresh (run step s []) e" by simp
    then show ?thesis by blast
  next
    case False
    with Cons obtain es1 e' es2 where "es = es1 @ e' # es2" "m \<in> fresh (run step (step s e) es1) e'" by fastforce
    then have "e # es = (e # es1) @ e' # es2 \<and> m \<in> fresh (run step s (e # es1)) e'" by simp
    then show ?thesis by blast
  qed
qed simp

locale traced_machine =
  fixes step :: "'s \<Rightarrow> 'e \<Rightarrow> 's"
    and fresh :: "'s \<Rightarrow> 'e \<Rightarrow> 'm set"
    and ok :: "'m set \<Rightarrow> 's \<Rightarrow> bool"
  assumes step_ok: "ok M s \<Longrightarrow> fresh s e \<subseteq> M \<Longrightarrow> ok M (step s e)"
    and ok_mono: "ok M s \<Longrightarrow> M \<subseteq> N \<Longrightarrow> ok N s"
begin

lemma run_ok: "ok M s \<Longrightarrow> ok (M \<union> history step fresh s es) (run step s es)"
proof (induction es arbitrary: s M)
  case (Cons e es)
  then have "ok (M \<union> fresh s e) (step s e)" by (intro step_ok) (auto intro: ok_mono)
  from Cons.IH [OF this] show ?case by (simp add: Un_assoc)
qed simp

end

locale counted_machine = guarded_machine step inv ok
  for step :: "'s \<Rightarrow> 'e \<Rightarrow> 's" and inv :: "'s \<Rightarrow> bool" and ok :: "'e \<Rightarrow> bool" +
  fixes weight :: "'s \<Rightarrow> nat"
    and cost :: "'e \<Rightarrow> nat"
  assumes step_weight: "inv s \<Longrightarrow> ok e \<Longrightarrow> weight (step s e) \<le> weight s + cost e"
begin

lemma run_weight: "inv s \<Longrightarrow> list_all ok es \<Longrightarrow> weight (run step s es) \<le> weight s + sum_list (map cost es)"
proof (induction es arbitrary: s)
  case Nil
  then show ?case by simp
next
  case (Cons e es)
  from Cons.prems have "weight (run step (step s e) es) \<le> weight (step s e) + sum_list (map cost es)"
    by (intro Cons.IH step_inv) simp_all
  moreover from Cons.prems have "weight (step s e) \<le> weight s + cost e" by (simp add: step_weight)
  ultimately show ?case by simp
qed

end

end
