(* ===== verification/Actions.thy ===== *)
theory Actions imports Prelude begin

text \<open>
  The action bus of the renderer, \<^verbatim>\<open>source/renderer/app/actions/lib/Action.js\<close>: containers
  call \<open>trigger\<close>, stores subscribe with \<open>listen\<close> and \<open>once\<close>. An entry of the listener array
  is a function object; what matters of it is its identity, which \<open>remove\<close> compares, and
  whether it is the wrapper closure that \<open>once\<close> pushes. A trigger returns the array it leaves
  and the calls it makes, in order. A listener's own body is outside the model: it neither
  subscribes to nor unsubscribes from the action that is being triggered.
\<close>

datatype 'l entry = Plain 'l | OnceWrapper 'l

record 'l action =
  listeners :: "'l entry list"

definition new_action :: "'l action" where
  "new_action = \<lparr>listeners = []\<rparr>"

definition listen :: "'l \<Rightarrow> 'l action \<Rightarrow> 'l action" where
  "listen l a = a\<lparr>listeners := listeners a @ [Plain l]\<rparr>"

definition remove_listener :: "'l \<Rightarrow> 'l action \<Rightarrow> 'l action" where
  "remove_listener l a =
     a\<lparr>listeners := splice1 (index_of (Plain l) (listeners a)) (listeners a)\<rparr>"

definition removeAll :: "'l action \<Rightarrow> 'l action" where
  "removeAll a = a\<lparr>listeners := []\<rparr>"

definition once :: "'l \<Rightarrow> 'l action \<Rightarrow> 'l action" where
  "once l a = a\<lparr>listeners := listeners a @ [OnceWrapper l]\<rparr>"

text \<open>
  \<open>forEach\<close> fixes the number of indices it visits when it starts, reads the array afresh at
  each index and skips an index that no longer exists. The wrapper of \<open>once\<close> first removes,
  then calls.
\<close>

fun visit :: "nat \<Rightarrow> nat \<Rightarrow> 'p \<Rightarrow> 'l action \<Rightarrow> ('l \<times> 'p) list \<Rightarrow> 'l action \<times> ('l \<times> 'p) list" where
  "visit 0 k p a calls = (a, calls)"
| "visit (Suc n) k p a calls =
     (if k < length (listeners a)
      then (case listeners a ! k of
              Plain l \<Rightarrow> visit n (Suc k) p a (calls @ [(l, p)])
            | OnceWrapper l \<Rightarrow> visit n (Suc k) p (remove_listener l a) (calls @ [(l, p)]))
      else visit n (Suc k) p a calls)"

definition trigger :: "'p \<Rightarrow> 'l action \<Rightarrow> 'l action \<times> ('l \<times> 'p) list" where
  "trigger p a = visit (length (listeners a)) 0 p a []"

definition resetAllActions :: "'l action list \<Rightarrow> 'l action list" where
  "resetAllActions actions = map removeAll actions"

lemmas action_defs [model_defs] =
  new_action_def listen_def remove_listener_def removeAll_def once_def trigger_def

subsection \<open>Visiting ordinary listeners\<close>

lemma visit_plain:
  assumes "listeners a = xs @ map Plain ms" and "length ms \<le> n"
  shows "visit n (length xs) p a calls = (a, calls @ map (\<lambda>m. (m, p)) ms)"
  using assms
proof (induction n arbitrary: xs ms calls)
  case 0
  then show ?case by simp
next
  case (Suc n)
  show ?case
  proof (cases ms)
    case Nil
    with Suc.prems have "visit (Suc n) (length xs) p a calls = visit n (length xs + 1) p a calls"
      by simp
    moreover have "visit n k p a calls = (a, calls)" if "length (listeners a) \<le> k" for k
      using that by (induction n arbitrary: k) auto
    ultimately show ?thesis using Nil Suc.prems by simp
  next
    case (Cons m ms')
    with Suc.prems have "listeners a = (xs @ [Plain m]) @ map Plain ms'" and "length ms' \<le> n"
      by simp_all
    then have "visit n (length (xs @ [Plain m])) p a (calls @ [(m, p)])
        = (a, (calls @ [(m, p)]) @ map (\<lambda>m. (m, p)) ms')"
      by (rule Suc.IH)
    with Cons Suc.prems show ?thesis by (simp add: nth_append)
  qed
qed

lemma remove_listener_listeners:
  "listeners (remove_listener l a) =
     (if Plain l \<in> set (listeners a) then remove1 (Plain l) (listeners a)
      else butlast (listeners a))"
  by (simp add: remove_listener_def splice1_index_of index_of_absent splice1_minus_1)

subsection \<open>Properties\<close>

text \<open>
  A trigger calls every subscribed listener exactly once, in the order of subscription,
  and leaves the subscriptions alone, as long as all of them were made with \<open>listen\<close>.
\<close>

theorem trigger_calls_listeners_in_order:
  "trigger p (fold listen ls new_action) =
     (fold listen ls new_action, map (\<lambda>l. (l, p)) ls)"
proof -
  have *: "listeners (fold listen ls a) = listeners a @ map Plain ls" for a :: "'a action"
    by (induction ls arbitrary: a) (simp_all add: listen_def)
  have ls: "listeners (fold listen ls new_action) = [] @ map Plain ls"
    unfolding * by (simp add: new_action_def)
  show ?thesis
    using visit_plain [OF ls order_refl, of p "[]"] ls by (simp add: trigger_def)
qed

text \<open>
  \<open>remove\<close> takes out the first subscription of the given listener; for a listener that is
  not subscribed it takes out the subscription made last, whoever made it
  (\<open>splice(-1, 1)\<close>).
\<close>

theorem remove_listener_effect:
  "listeners (remove_listener l a) =
     (if Plain l \<in> set (listeners a) then remove1 (Plain l) (listeners a)
      else butlast (listeners a))"
  by (rule remove_listener_listeners)

text \<open>
  A \<open>once\<close> subscription followed by ordinary ones: the trigger calls the once listener,
  drops the last ordinary listener without ever calling it, and leaves the once wrapper in
  place, so that the next trigger calls it again.
\<close>

theorem once_drops_last_listener:
  assumes "l \<notin> set ms" and "ms \<noteq> []"
  shows "trigger p (fold listen ms (once l new_action)) =
     (fold listen (butlast ms) (once l new_action),
      (l, p) # map (\<lambda>m. (m, p)) (butlast ms))"
proof -
  have *: "fold listen xs a = a\<lparr>listeners := listeners a @ map Plain xs\<rparr>" for xs and a :: "'a action"
    by (induction xs arbitrary: a) (simp_all add: listen_def)
  let ?a = "fold listen ms (once l new_action)"
  let ?b = "fold listen (butlast ms) (once l new_action)"
  have a: "?a = \<lparr>listeners = OnceWrapper l # map Plain ms\<rparr>"
    by (simp add: * once_def new_action_def)
  have b: "?b = \<lparr>listeners = [OnceWrapper l] @ map Plain (butlast ms)\<rparr>"
    by (simp add: * once_def new_action_def)
  have rem: "remove_listener l ?a = ?b"
    using assms remove_listener_listeners [of l ?a]
    by (auto simp: a b map_butlast remove_listener_def)
  have "trigger p ?a = visit (length ms) 1 p ?b [(l, p)]"
    unfolding trigger_def by (simp add: rem [symmetric]) (simp add: a)
  also have "\<dots> = (?b, [(l, p)] @ map (\<lambda>m. (m, p)) (butlast ms))"
    using visit_plain [of ?b "[OnceWrapper l]" "butlast ms" "length ms" p "[(l, p)]"]
    by (simp add: b)
  finally show ?thesis by simp
qed

theorem once_drops_last_listener_witness:
  "trigger ''tx'' (fold listen [1, 2] (once (0::nat) new_action)) =
     (fold listen [1] (once 0 new_action), [(0, ''tx''), (1, ''tx'')])"
  using once_drops_last_listener [of "0::nat" "[1, 2]" "''tx''"] by simp

end
