(* ===== verification/Ipc.thy ===== *)
theory Ipc imports Prelude begin

text \<open>
  The two messaging layers between the main and the renderer process,
  \<^verbatim>\<open>source/common/ipc/lib/IpcChannel.js\<close> and \<^verbatim>\<open>IpcConversation.js\<close>. One endpoint is a
  record of the listeners on its receiver, of the promises its requests returned, and of the
  messages it sent. The receiver itself is Node's \<open>EventEmitter\<close>: an emit calls the listeners
  registered for the channel at that moment, in order, and a \<open>once\<close> listener is gone before it
  runs. Requests are numbered, and the number stands for the promise and its handler closure.
\<close>

datatype channel_name = JStr string | NotAString

datatype ipc_error = InvalidChannelName | ChannelAlreadyExists string

subsection \<open>Channel construction and the singleton tables\<close>

record channel =
  name :: string
  broadcastChannel :: string
  requestChannel :: string
  responseChannel :: string

definition mk_channel :: "string \<Rightarrow> channel" where
  "mk_channel n = \<lparr>name = n,
     broadcastChannel = n @ ''-broadcast'',
     requestChannel = n @ ''-request'',
     responseChannel = n @ ''-response''\<rparr>"

definition new_IpcChannel ::
  "channel_name \<Rightarrow> (string \<rightharpoonup> channel) \<Rightarrow> ipc_error + (channel \<times> (string \<rightharpoonup> channel))" where
  "new_IpcChannel nm instances =
     (case nm of
        NotAString \<Rightarrow> Inl InvalidChannelName
      | JStr n \<Rightarrow>
          if n = '''' then Inl InvalidChannelName
          else (case instances n of
                  Some existing \<Rightarrow> Inr (existing, instances)
                | None \<Rightarrow> (let c = mk_channel n in Inr (c, instances(n \<mapsto> c)))))"

definition new_IpcConversation ::
  "channel_name \<Rightarrow> string set \<Rightarrow> ipc_error + (string \<times> string set)" where
  "new_IpcConversation nm instances =
     (case nm of
        NotAString \<Rightarrow> Inl InvalidChannelName
      | JStr n \<Rightarrow>
          if n = '''' then Inl InvalidChannelName
          else if n \<in> instances then Inl (ChannelAlreadyExists n)
          else Inr (n, insert n instances))"

subsection \<open>An endpoint of an IpcChannel\<close>

type_synonym 'm reply = "'m + 'm" \<comment> \<open>\<open>Inr\<close> for \<open>isOk\<close>, \<open>Inl\<close> for a rejection\<close>

record 'm endpoint =
  once_on :: "(string \<times> nat) list"             \<comment> \<open>\<open>receiver.once\<close>: channel, promise\<close>
  promises :: "('m, 'm) promise list"
  outbox :: "(string \<times> 'm) list"

definition new_endpoint :: "'m endpoint" where
  "new_endpoint = \<lparr>once_on = [], promises = [], outbox = []\<rparr>"

definition channel_send :: "channel \<Rightarrow> 'm \<Rightarrow> 'm endpoint \<Rightarrow> 'm endpoint" where
  "channel_send c msg ep =
     ep\<lparr>outbox := outbox ep @ [(broadcastChannel c, msg)],
        once_on := once_on ep @ [(responseChannel c, length (promises ep))],
        promises := promises ep @ [Pending]\<rparr>"

definition channel_request :: "channel \<Rightarrow> 'm \<Rightarrow> 'm endpoint \<Rightarrow> 'm endpoint" where
  "channel_request c msg ep =
     ep\<lparr>outbox := outbox ep @ [(requestChannel c, msg)],
        once_on := once_on ep @ [(responseChannel c, length (promises ep))],
        promises := promises ep @ [Pending]\<rparr>"

fun settle_all :: "'m reply \<Rightarrow> nat list \<Rightarrow> ('m, 'm) promise list \<Rightarrow> ('m, 'm) promise list" where
  "settle_all r [] ps = ps"
| "settle_all r (i # is) ps = settle_all r is (ps[i := settle (ps ! i) r])"

definition receive_response :: "string \<Rightarrow> 'm reply \<Rightarrow> 'm endpoint \<Rightarrow> 'm endpoint" where
  "receive_response ch r ep =
     ep\<lparr>once_on := filter (\<lambda>(c, _). c \<noteq> ch) (once_on ep),
        promises := settle_all r (map snd (filter (\<lambda>(c, _). c = ch) (once_on ep))) (promises ep)\<rparr>"

text \<open>
  The serving side: \<open>onReceive\<close> answers broadcasts, \<open>onRequest\<close> answers requests, both on the
  response channel, with the flag that tells a resolved handler from a rejected one. The
  handler is a parameter, its settled outcome the value of its application.
\<close>

definition onReceive ::
  "channel \<Rightarrow> ('m \<Rightarrow> 'm reply) \<Rightarrow> (string \<times> 'm) \<Rightarrow> (string \<times> 'm reply) option" where
  "onReceive c handler m =
     (if fst m = broadcastChannel c then Some (responseChannel c, handler (snd m)) else None)"

definition onRequest ::
  "channel \<Rightarrow> ('m \<Rightarrow> 'm reply) \<Rightarrow> (string \<times> 'm) \<Rightarrow> (string \<times> 'm reply) option" where
  "onRequest c handler m =
     (if fst m = requestChannel c then Some (responseChannel c, handler (snd m)) else None)"

subsection \<open>An endpoint of an IpcConversation\<close>

text \<open>
  Each request draws a fresh conversation id from the \<^verbatim>\<open>uuid\<close> package; the ids are an argument.
  A permanent listener filters by that id and removes itself after its own answer.
\<close>

record 'm conversation =
  handlers :: "(string \<times> string \<times> nat) list"    \<comment> \<open>\<open>receiver.on\<close>: channel, id, promise\<close>
  answers :: "('m, 'm) promise list"
  sent :: "(string \<times> string \<times> 'm) list"

definition new_conversation :: "'m conversation" where
  "new_conversation = \<lparr>handlers = [], answers = [], sent = []\<rparr>"

definition conv_request :: "string \<Rightarrow> string \<Rightarrow> 'm \<Rightarrow> 'm conversation \<Rightarrow> 'm conversation" where
  "conv_request ch uuid msg cv =
     cv\<lparr>handlers := handlers cv @ [(ch, uuid, length (answers cv))],
        sent := sent cv @ [(ch, uuid, msg)],
        answers := answers cv @ [Pending]\<rparr>"

fun conv_handle ::
  "'m reply \<Rightarrow> string \<Rightarrow> (string \<times> string \<times> nat) list \<Rightarrow> 'm conversation \<Rightarrow> 'm conversation" where
  "conv_handle r messageId [] cv = cv"
| "conv_handle r messageId ((ch, i, p) # hs) cv =
     conv_handle r messageId hs
       (if messageId \<noteq> i then cv
        else cv\<lparr>answers := (answers cv)[p := settle (answers cv ! p) r],
                handlers := remove1 (ch, i, p) (handlers cv)\<rparr>)"

definition conv_receive :: "string \<Rightarrow> string \<Rightarrow> 'm reply \<Rightarrow> 'm conversation \<Rightarrow> 'm conversation" where
  "conv_receive ch messageId r cv =
     conv_handle r messageId (filter (\<lambda>h. fst h = ch) (handlers cv)) cv"

definition conv_onRequest ::
  "string \<Rightarrow> ('m \<Rightarrow> 'm reply) \<Rightarrow> (string \<times> string \<times> 'm) \<Rightarrow> (string \<times> string \<times> 'm reply) option" where
  "conv_onRequest ch handler m =
     (case m of (c, i, x) \<Rightarrow> if c = ch then Some (ch, i, handler x) else None)"


lemmas ipc_defs [model_defs] =
  channel_send_def channel_request_def receive_response_def conv_request_def conv_receive_def

subsection \<open>One response settles every pending request of an IpcChannel\<close>

datatype 'm call = Send 'm | Request 'm

fun issue :: "channel \<Rightarrow> 'm call \<Rightarrow> 'm endpoint \<Rightarrow> 'm endpoint" where
  "issue c (Send m) ep = channel_send c m ep"
| "issue c (Request m) ep = channel_request c m ep"

lemma issue_fields [simp]:
  "once_on (issue c x ep) = once_on ep @ [(responseChannel c, length (promises ep))]"
  "promises (issue c x ep) = promises ep @ [Pending]"
  by (cases x; simp add: ipc_defs)+

lemma fold_issue_once_on:
  "once_on (fold (issue c) xs ep) = once_on ep @
     map (\<lambda>i. (responseChannel c, i)) [length (promises ep)..<length (promises ep) + length xs]"
proof (induction xs arbitrary: ep)
  case (Cons x xs)
  have "[n..<n + Suc k] = n # [Suc n..<Suc n + k]" for n k by (simp add: upt_conv_Cons)
  with Cons show ?case by simp
qed simp

lemma fold_issue_promises:
  "promises (fold (issue c) xs ep) = promises ep @ replicate (length xs) Pending"
  by (induction xs arbitrary: ep) simp_all

lemmas fold_issue = fold_issue_once_on fold_issue_promises

lemma length_settle_all [simp]: "length (settle_all r is ps) = length ps"
  by (induction r "is" ps rule: settle_all.induct) simp_all

lemma settle_all_nth:
  assumes "distinct is" and "k < length ps"
  shows "settle_all r is ps ! k = (if k \<in> set is then settle (ps ! k) r else ps ! k)"
  using assms
proof (induction r "is" ps rule: settle_all.induct)
  case (2 r i "is" ps)
  then show ?case by (cases "i = k") auto
qed simp

lemma settle_all_Pending:
  "settle_all r [0..<n] (replicate n Pending) = replicate n (of_outcome r)"
  by (rule nth_equalityI) (auto simp: settle_all_nth)

lemma receive_response_idle:
  assumes "\<forall>(c, _) \<in> set (once_on ep). c \<noteq> ch"
  shows "receive_response ch r ep = ep"
proof -
  from assms have "filter (\<lambda>(c, _). c \<noteq> ch) (once_on ep) = once_on ep"
    by (intro filter_True) auto
  moreover from assms have "filter (\<lambda>(c, _). c = ch) (once_on ep) = []"
    by (auto simp: filter_empty_conv)
  ultimately show ?thesis by (simp add: receive_response_def)
qed

text \<open>
  Requests and broadcasts of one IpcChannel share its response channel: however many of
  them are under way, the first response settles them all, with its own value, and every later
  response changes nothing.
\<close>

theorem first_response_settles_all:
  "receive_response (responseChannel c) r' (receive_response (responseChannel c) r (fold (issue c) xs new_endpoint))
     = receive_response (responseChannel c) r (fold (issue c) xs new_endpoint)
   \<and> promises (receive_response (responseChannel c) r (fold (issue c) xs new_endpoint))
     = replicate (length xs) (of_outcome r)"
proof
  let ?ep = "fold (issue c) xs new_endpoint"
  have on: "once_on ?ep = map (\<lambda>i. (responseChannel c, i)) [0..<length xs]"
    and ps: "promises ?ep = replicate (length xs) Pending"
    by (simp_all add: fold_issue new_endpoint_def)
  have "once_on (receive_response (responseChannel c) r ?ep) = []"
    by (simp add: receive_response_def on filter_empty_conv)
  then show "receive_response (responseChannel c) r' (receive_response (responseChannel c) r ?ep)
      = receive_response (responseChannel c) r ?ep"
    by (intro receive_response_idle) simp
  have "map snd (filter (\<lambda>(c', _). c' = responseChannel c) (once_on ?ep)) = [0..<length xs]"
    by (simp add: on filter_map comp_def)
  then show "promises (receive_response (responseChannel c) r ?ep)
      = replicate (length xs) (of_outcome r)"
    by (simp add: receive_response_def ps settle_all_Pending)
qed

subsection \<open>A conversation routes every answer to its own request\<close>

datatype 'm conv_event = Ask string string 'm | Answer string string "'m reply"

fun conv_step :: "'m conversation \<Rightarrow> 'm conv_event \<Rightarrow> 'm conversation" where
  "conv_step cv (Ask ch i m) = conv_request ch i m cv"
| "conv_step cv (Answer ch i r) = conv_receive ch i r cv"

fun asked :: "'m conv_event list \<Rightarrow> string list" where
  "asked [] = []"
| "asked (Ask ch i m # es) = i # asked es"
| "asked (Answer ch i r # es) = asked es"

fun first_answer :: "string \<Rightarrow> string \<Rightarrow> 'm conv_event list \<Rightarrow> 'm reply option" where
  "first_answer ch i [] = None"
| "first_answer ch i (Ask ch' j m # es) = first_answer ch i es"
| "first_answer ch i (Answer ch' j r # es) =
     (if ch' = ch \<and> j = i then Some r else first_answer ch i es)"

definition conv_ok :: "'m conversation \<Rightarrow> bool" where
  "conv_ok cv \<longleftrightarrow> distinct (map (fst \<circ> snd) (handlers cv)) \<and> distinct (map (snd \<circ> snd) (handlers cv))
     \<and> (\<forall>h \<in> set (handlers cv). snd (snd h) < length (answers cv))"

lemma asked_append [simp]: "asked (es @ es') = asked es @ asked es'"
  by (induction es rule: asked.induct) simp_all

lemma conv_handle_absent:
  "i \<notin> (fst \<circ> snd) ` set hs \<Longrightarrow> conv_handle r i hs cv = cv"
  by (induction r i hs cv rule: conv_handle.induct) auto

lemma conv_handle_present:
  assumes "distinct (map (fst \<circ> snd) hs)" and "(ch, i, p) \<in> set hs"
  shows "conv_handle r i hs cv =
    cv\<lparr>answers := (answers cv)[p := settle (answers cv ! p) r],
       handlers := remove1 (ch, i, p) (handlers cv)\<rparr>"
  using assms
proof (induction r i hs cv rule: conv_handle.induct)
  case (1 r i cv)
  then show ?case by simp
next
  case (2 r i ch' j q hs cv)
  show ?case
  proof (cases "i = j")
    case True
    with "2.prems" have "(ch', j, q) = (ch, i, p)" by (force simp: image_iff)
    moreover from True "2.prems" have "i \<notin> (fst \<circ> snd) ` set hs" by simp
    ultimately show ?thesis using True by (simp add: conv_handle_absent)
  next
    case False
    with 2 show ?thesis by auto
  qed
qed

lemma conv_receive_cases:
  assumes "conv_ok cv"
  obtains "\<forall>p. (ch, i, p) \<notin> set (handlers cv)" "conv_receive ch i r cv = cv"
  | p where "(ch, i, p) \<in> set (handlers cv)"
      "conv_receive ch i r cv = cv\<lparr>answers := (answers cv)[p := settle (answers cv ! p) r],
         handlers := remove1 (ch, i, p) (handlers cv)\<rparr>"
proof (cases "\<exists>p. (ch, i, p) \<in> set (handlers cv)")
  case True
  then obtain p where p: "(ch, i, p) \<in> set (handlers cv)" by blast
  let ?hs = "filter (\<lambda>h. fst h = ch) (handlers cv)"
  from assms have "distinct (map (fst \<circ> snd) ?hs)"
    unfolding conv_ok_def by (intro distinct_map_filter) simp
  moreover from p have "(ch, i, p) \<in> set ?hs" by simp
  ultimately show ?thesis
    using p that(2) by (simp add: conv_receive_def conv_handle_present)
next
  case False
  then have "i \<notin> (fst \<circ> snd) ` set (filter (\<lambda>h. fst h = ch) (handlers cv))" by auto
  with False that(1) show ?thesis by (simp add: conv_receive_def conv_handle_absent)
qed

lemma length_answers_step:
  "length (answers (conv_step cv e)) = length (answers cv) + (case e of Ask _ _ _ \<Rightarrow> 1 | _ \<Rightarrow> 0)"
proof -
  have "length (answers (conv_handle r i hs cv)) = length (answers cv)" for r i hs and cv :: "'a conversation"
    by (induction r i hs cv rule: conv_handle.induct) auto
  then show ?thesis by (cases e) (simp_all add: ipc_defs)
qed

lemma asked_Cons: "asked (e # es) = asked [e] @ asked es"
  using asked_append [of "[e]" es] by simp

lemma length_answers_run:
  "length (answers (run conv_step cv es)) = length (answers cv) + length (asked es)"
proof (induction es arbitrary: cv)
  case (Cons e es)
  then show ?case by (simp add: asked_Cons [of e es] length_answers_step) (cases e; simp)
qed simp

definition open_ids :: "'m conversation \<Rightarrow> string set" where
  "open_ids cv = (fst \<circ> snd) ` set (handlers cv)"

lemma handlers_conv_handle: "set (handlers (conv_handle r i hs cv)) \<subseteq> set (handlers cv)"
proof (induction r i hs cv rule: conv_handle.induct)
  case (2 r i ch j p hs cv)
  have "set (remove1 (ch, j, p) (handlers cv)) \<subseteq> set (handlers cv)" by (rule set_remove1_subset)
  with 2 show ?case by (cases "i = j") auto
qed simp

lemma open_ids_step: "open_ids (conv_step cv e) \<subseteq> open_ids cv \<union> set (asked [e])"
proof (cases e)
  case (Ask ch i m)
  then show ?thesis by (auto simp: ipc_defs open_ids_def)
next
  case (Answer ch i r)
  have "set (handlers (conv_receive ch i r cv)) \<subseteq> set (handlers cv)"
    unfolding conv_receive_def by (rule handlers_conv_handle)
  with Answer show ?thesis by (auto simp: open_ids_def)
qed

lemma conv_ok_step:
  assumes ok: "conv_ok cv" and fresh: "set (asked [e]) \<inter> open_ids cv = {}"
  shows "conv_ok (conv_step cv e)"
proof (cases e)
  case (Ask ch i m)
  with assms show ?thesis
    by (auto simp: conv_ok_def conv_request_def open_ids_def less_Suc_eq image_iff)
next
  case (Answer ch i r)
  show ?thesis
  proof (rule conv_receive_cases [OF ok, of ch i r])
    assume "conv_receive ch i r cv = cv"
    with ok Answer show ?thesis by simp
  next
    fix p
    assume "conv_receive ch i r cv = cv\<lparr>answers := (answers cv)[p := settle (answers cv ! p) r],
         handlers := remove1 (ch, i, p) (handlers cv)\<rparr>"
    with ok Answer show ?thesis
      using set_remove1_subset [of "(ch, i, p)" "handlers cv"]
      by (auto simp: conv_ok_def distinct_map_remove1)
  qed
qed

lemma conv_ok_run:
  assumes "conv_ok cv" and "distinct (asked es)" and "set (asked es) \<inter> open_ids cv = {}"
  shows "conv_ok (run conv_step cv es)"
    and "open_ids (run conv_step cv es) \<subseteq> open_ids cv \<union> set (asked es)"
proof -
  from assms have "conv_ok (run conv_step cv es)
    \<and> open_ids (run conv_step cv es) \<subseteq> open_ids cv \<union> set (asked es)"
  proof (induction es arbitrary: cv)
    case Nil
    then show ?case by simp
  next
    case (Cons e es)
    note split = asked_Cons [of e es]
    have sub: "open_ids (conv_step cv e) \<subseteq> open_ids cv \<union> set (asked [e])" by (rule open_ids_step)
    from Cons.prems have "conv_ok (conv_step cv e)"
      unfolding split by (intro conv_ok_step) auto
    moreover have "distinct (asked es)" using Cons.prems(2) unfolding split by simp
    moreover have "set (asked es) \<inter> open_ids (conv_step cv e) = {}"
      using Cons.prems(2,3) sub unfolding split by auto
    ultimately have "conv_ok (run conv_step (conv_step cv e) es)
      \<and> open_ids (run conv_step (conv_step cv e) es) \<subseteq> open_ids (conv_step cv e) \<union> set (asked es)"
      by (rule Cons.IH)
    with sub show ?case unfolding split by auto
  qed
  then show "conv_ok (run conv_step cv es)"
    and "open_ids (run conv_step cv es) \<subseteq> open_ids cv \<union> set (asked es)" by blast+
qed

text \<open>
  The state of one request: its handler is registered and its promise pending, or the handler
  is gone and the promise settled for good.
\<close>

definition awaiting :: "string \<Rightarrow> string \<Rightarrow> nat \<Rightarrow> 'm conversation \<Rightarrow> bool" where
  "awaiting ch i p cv \<longleftrightarrow> (ch, i, p) \<in> set (handlers cv) \<and> p < length (answers cv) \<and> answers cv ! p = Pending"

definition finished :: "nat \<Rightarrow> 'm reply \<Rightarrow> 'm conversation \<Rightarrow> bool" where
  "finished p r cv \<longleftrightarrow> p \<notin> (snd \<circ> snd) ` set (handlers cv) \<and> p < length (answers cv)
     \<and> answers cv ! p = of_outcome r"

lemma finished_step:
  assumes ok: "conv_ok cv" and "finished p r cv"
  shows "finished p r (conv_step cv e)"
proof (cases e)
  case (Ask ch i m)
  with assms show ?thesis by (auto simp: finished_def conv_request_def nth_append)
next
  case (Answer ch i r')
  show ?thesis
  proof (rule conv_receive_cases [OF ok, of ch i r'])
    assume "conv_receive ch i r' cv = cv"
    with assms Answer show ?thesis by simp
  next
    fix q
    assume q: "(ch, i, q) \<in> set (handlers cv)" and
      eq: "conv_receive ch i r' cv = cv\<lparr>answers := (answers cv)[q := settle (answers cv ! q) r'],
         handlers := remove1 (ch, i, q) (handlers cv)\<rparr>"
    from q assms(2) have "q \<noteq> p" by (force simp: finished_def)
    moreover have "(snd \<circ> snd) ` set (remove1 (ch, i, q) (handlers cv)) \<subseteq> (snd \<circ> snd) ` set (handlers cv)"
      by (intro image_mono set_remove1_subset)
    ultimately show ?thesis using assms(2) Answer eq by (auto simp: finished_def)
  qed
qed

lemma awaiting_step:
  assumes ok: "conv_ok cv" and aw: "awaiting ch i p cv"
  shows "case first_answer ch i [e] of None \<Rightarrow> awaiting ch i p (conv_step cv e)
     | Some r \<Rightarrow> finished p r (conv_step cv e)"
proof (cases e)
  case (Ask ch' j m)
  with aw show ?thesis by (auto simp: awaiting_def conv_request_def nth_append)
next
  case (Answer ch' j r)
  show ?thesis
  proof (rule conv_receive_cases [OF ok, of ch' j r])
    assume none: "\<forall>q. (ch', j, q) \<notin> set (handlers cv)" and eq: "conv_receive ch' j r cv = cv"
    from aw none have "\<not> (ch' = ch \<and> j = i)" by (auto simp: awaiting_def)
    with aw Answer eq show ?thesis by auto
  next
    fix q
    assume q: "(ch', j, q) \<in> set (handlers cv)" and
      eq: "conv_receive ch' j r cv = cv\<lparr>answers := (answers cv)[q := settle (answers cv ! q) r],
         handlers := remove1 (ch', j, q) (handlers cv)\<rparr>"
    have ids: "inj_on (fst \<circ> snd) (set (handlers cv))" and pos: "inj_on (snd \<circ> snd) (set (handlers cv))"
      and dist: "distinct (handlers cv)"
      using ok by (simp_all add: conv_ok_def distinct_map)
    from aw have p: "(ch, i, p) \<in> set (handlers cv)" by (simp add: awaiting_def)
    show ?thesis
    proof (cases "ch' = ch \<and> j = i")
      case True
      with inj_onD [OF ids _ q p] have "q = p" by simp
      have "p \<notin> (snd \<circ> snd) ` set (remove1 (ch, i, p) (handlers cv))"
        using inj_onD [OF pos _ _ p] dist by auto
      with True \<open>q = p\<close> aw eq Answer show ?thesis by (simp add: awaiting_def finished_def)
    next
      case False
      with inj_onD [OF pos _ q p] have "q \<noteq> p" by auto
      with False aw eq Answer show ?thesis
        by (auto simp: awaiting_def in_set_remove1)
    qed
  qed
qed

lemma finished_run:
  assumes "conv_ok cv" and "distinct (asked es)" and "set (asked es) \<inter> open_ids cv = {}"
    and "finished p r cv"
  shows "finished p r (run conv_step cv es)"
  using assms
proof (induction es arbitrary: cv)
  case (Cons e es)
  note split = asked_Cons [of e es]
  have "conv_ok (conv_step cv e)"
    using Cons.prems unfolding split by (intro conv_ok_step) auto
  moreover have "finished p r (conv_step cv e)" using Cons.prems by (intro finished_step)
  moreover have "set (asked es) \<inter> open_ids (conv_step cv e) = {}"
    using Cons.prems(2,3) open_ids_step [of cv e] unfolding split by auto
  moreover have "distinct (asked es)" using Cons.prems(2) unfolding split by simp
  ultimately show ?case using Cons.IH by simp
qed simp

lemma awaiting_run:
  assumes "conv_ok cv" and "distinct (asked es)" and "set (asked es) \<inter> open_ids cv = {}"
    and "awaiting ch i p cv"
  shows "case first_answer ch i es of None \<Rightarrow> awaiting ch i p (run conv_step cv es)
     | Some r \<Rightarrow> finished p r (run conv_step cv es)"
  using assms
proof (induction es arbitrary: cv)
  case (Cons e es)
  note split = asked_Cons [of e es]
  have ok: "conv_ok (conv_step cv e)"
    using Cons.prems unfolding split by (intro conv_ok_step) auto
  have dist: "distinct (asked es)" using Cons.prems(2) unfolding split by simp
  have fresh: "set (asked es) \<inter> open_ids (conv_step cv e) = {}"
    using Cons.prems(2,3) open_ids_step [of cv e] unfolding split by auto
  have step: "case first_answer ch i [e] of None \<Rightarrow> awaiting ch i p (conv_step cv e)
     | Some r \<Rightarrow> finished p r (conv_step cv e)"
    using Cons.prems by (intro awaiting_step)
  have fa: "first_answer ch i (e # es) =
      (case first_answer ch i [e] of None \<Rightarrow> first_answer ch i es | Some r \<Rightarrow> Some r)"
    by (cases e) simp_all
  show ?case
  proof (cases "first_answer ch i [e]")
    case None
    with step Cons.IH [OF ok dist fresh] fa show ?thesis by (simp split: option.splits)
  next
    case (Some r)
    with step finished_run [OF ok dist fresh, of p r] fa show ?thesis by simp
  qed
qed simp

text \<open>
  C7. Every request of a conversation gets its own answer. In any interleaving of requests and
  answers, on any number of channels, with fresh conversation ids, the promise of a request is
  settled by the first later answer that carries its channel and its id, and by no other; with
  no such answer it stays pending.
\<close>

theorem conversation_routes_answers:
  assumes "distinct (asked (before @ Ask ch i m # after))"
  shows "answers (run conv_step new_conversation (before @ Ask ch i m # after)) ! length (asked before)
     = (case first_answer ch i after of None \<Rightarrow> Pending | Some r \<Rightarrow> of_outcome r)"
proof -
  let ?cv = "run conv_step new_conversation before"
  let ?cv' = "conv_step ?cv (Ask ch i m)"
  let ?p = "length (asked before)"
  have init: "conv_ok new_conversation" "open_ids new_conversation = {}"
    by (simp_all add: conv_ok_def new_conversation_def open_ids_def)
  have ok: "conv_ok ?cv" and ids: "open_ids ?cv \<subseteq> set (asked before)"
    using conv_ok_run [OF init(1), of before] assms init(2) by auto
  have len: "length (answers ?cv) = ?p"
    by (simp add: length_answers_run new_conversation_def)
  have ok': "conv_ok ?cv'" using ok ids assms by (intro conv_ok_step) auto
  have fresh: "set (asked after) \<inter> open_ids ?cv' = {}"
    using open_ids_step [of ?cv "Ask ch i m"] ids assms by auto
  have "awaiting ch i ?p ?cv'" using len [symmetric] by (simp add: awaiting_def conv_request_def)
  with ok' fresh assms have "case first_answer ch i after of
      None \<Rightarrow> awaiting ch i ?p (run conv_step ?cv' after)
    | Some r \<Rightarrow> finished ?p r (run conv_step ?cv' after)"
    by (intro awaiting_run) auto
  then show ?thesis
    by (auto simp: awaiting_def finished_def split: option.splits)
qed

theorem conversation_routes_answers_witness:
  "answers (run conv_step new_conversation
      [Ask ''c'' ''u'' (1::nat), Ask ''c'' ''v'' 2, Answer ''c'' ''v'' (Inr 20), Answer ''c'' ''u'' (Inl 9)]) ! 0
    = Rejected 9"
  using conversation_routes_answers
    [of "[]" "''c''" "''u''" "1::nat" "[Ask ''c'' ''v'' 2, Answer ''c'' ''v'' (Inr 20), Answer ''c'' ''u'' (Inl 9)]"]
  by simp

subsection \<open>Construction\<close>

text \<open>
  A channel name is good for one instance. \<open>new IpcChannel\<close> hands the existing instance out
  again and changes nothing, \<open>new IpcConversation\<close> throws; both refuse an empty name and a name
  that is not a string, and a channel's three wire names are pairwise distinct.
\<close>

theorem channel_construction:
  "(new_IpcChannel nm inst = Inr (c, inst') \<longrightarrow> new_IpcChannel nm inst' = Inr (c, inst'))
   \<and> (new_IpcConversation nm names = Inr (n, names') \<longrightarrow>
        nm = JStr n \<and> new_IpcConversation nm names' = Inl (ChannelAlreadyExists n))
   \<and> (nm = NotAString \<or> nm = JStr [] \<longrightarrow>
        new_IpcChannel nm inst = Inl InvalidChannelName
        \<and> new_IpcConversation nm names = Inl InvalidChannelName)
   \<and> distinct [broadcastChannel (mk_channel n), requestChannel (mk_channel n), responseChannel (mk_channel n)]"
  by (auto simp: new_IpcChannel_def new_IpcConversation_def mk_channel_def Let_def
      split: channel_name.splits option.splits if_splits)

theorem channel_construction_witness:
  "new_IpcConversation (JStr ''tls'') (insert ''tls'' {}) = Inl (ChannelAlreadyExists ''tls'')"
  using channel_construction [of "JStr ''tls''" Map.empty _ _ "{}" "''tls''" "{''tls''}"]
  by (simp add: new_IpcConversation_def)

end
