(* ===== verification/Requests.thy ===== *)
theory Requests imports Prelude begin

text \<open>
  The request objects every store wraps its API calls in,
  \<^verbatim>\<open>source/renderer/app/stores/lib/Request.js\<close> and its subclass \<^verbatim>\<open>CachedRequest.js\<close>. The
  wrapped method is outside the model: each call of it is a flight, numbered in the order of
  issue, that the environment answers at most once. \<open>ApiCallType\<close> objects are shared between
  \<open>_apiCalls\<close> and \<open>_currentApiCall\<close> and are mutated through either, so they live in a store
  indexed by allocation order. The callbacks given to \<open>setTimeout\<close> form a queue that fires in
  the order of registration (the delays 0 and 1 of the source are one timer tick in
  Electron's event loop).
\<close>

datatype request_class = PlainRequest | CachedRequest

datatype ('r, 'e) timer =
    StartExecuting "nat option"          \<comment> \<open>the call whose cached result is shown meanwhile\<close>
  | Finish nat "'e + 'r"                 \<comment> \<open>flight, outcome\<close>
  | PatchResult "'r option \<Rightarrow> 'r option option"

record ('a, 'r, 'e) request =
  cls :: request_class
  result :: "'r option"
  error :: "'e option"
  isExecuting :: bool
  isError :: bool
  wasExecuted :: bool
  promise :: "nat option"
  isWaitingForResponse :: bool
  currentApiCall :: "nat option"
  apiCalls :: "nat list"
  isInvalidated :: bool
  calls :: "('a \<times> 'r option) list"      \<comment> \<open>store of \<open>ApiCallType\<close> objects\<close>
  flights :: "('a \<times> ('e, 'r) promise) list"
  in_flight :: "nat list"
  timers :: "('r, 'e) timer list"

definition new_request :: "request_class \<Rightarrow> ('a, 'r, 'e) request" where
  "new_request c = \<lparr>cls = c, result = None, error = None, isExecuting = False, isError = False,
     wasExecuted = False, promise = None, isWaitingForResponse = False, currentApiCall = None,
     apiCalls = [], isInvalidated = True, calls = [], flights = [], in_flight = [], timers = []\<rparr>"

subsection \<open>Issuing a call\<close>

text \<open>What both \<open>execute\<close> methods do once they decided to call the method.\<close>

definition launch :: "'a \<Rightarrow> nat option \<Rightarrow> ('a, 'r, 'e) request \<Rightarrow> ('a, 'r, 'e) request" where
  "launch args shown s =
     s\<lparr>timers := timers s @ [StartExecuting shown],
       promise := Some (length (flights s)),
       in_flight := in_flight s @ [length (flights s)],
       flights := flights s @ [(args, Pending)],
       isWaitingForResponse := True\<rparr>"

definition execute_plain :: "'a \<Rightarrow> ('a, 'r, 'e) request \<Rightarrow> ('a, 'r, 'e) request" where
  "execute_plain args s =
     (if isWaitingForResponse s then s
      else (let s1 = launch args None s
            in s1\<lparr>currentApiCall := Some (length (calls s1)), calls := calls s1 @ [(args, None)]\<rparr>))"

definition findApiCall :: "'a \<Rightarrow> ('a, 'r, 'e) request \<Rightarrow> nat option" where
  "findApiCall args s = find (\<lambda>c. fst (calls s ! c) = args) (apiCalls s)"

definition addApiCall :: "'a \<Rightarrow> ('a, 'r, 'e) request \<Rightarrow> ('a, 'r, 'e) request" where
  "addApiCall args s =
     s\<lparr>apiCalls := apiCalls s @ [length (calls s)], calls := calls s @ [(args, None)]\<rparr>"

definition select_call :: "'a \<Rightarrow> ('a, 'r, 'e) request \<Rightarrow> ('a, 'r, 'e) request" where
  "select_call args s =
     (case findApiCall args s of
        Some c \<Rightarrow>
          if Some c \<noteq> currentApiCall s then s\<lparr>isInvalidated := True, currentApiCall := Some c\<rparr> else s
      | None \<Rightarrow> (addApiCall args s)\<lparr>isInvalidated := True, currentApiCall := Some (length (calls s))\<rparr>)"

definition execute_cached :: "'a \<Rightarrow> ('a, 'r, 'e) request \<Rightarrow> ('a, 'r, 'e) request" where
  "execute_cached args s =
     (if isWaitingForResponse s then s
      else (let s1 = select_call args s
            in if \<not> isInvalidated s1 then s1 else launch args (findApiCall args s) s1))"

definition execute :: "'a \<Rightarrow> ('a, 'r, 'e) request \<Rightarrow> ('a, 'r, 'e) request" where
  "execute args s =
     (case cls s of PlainRequest \<Rightarrow> execute_plain args s | CachedRequest \<Rightarrow> execute_cached args s)"

subsection \<open>Timers\<close>

definition write_current :: "'r option \<Rightarrow> ('a, 'r, 'e) request \<Rightarrow> ('a, 'r, 'e) request" where
  "write_current r s =
     (case currentApiCall s of
        None \<Rightarrow> s
      | Some c \<Rightarrow> s\<lparr>calls := (calls s)[c := (fst (calls s ! c), r)]\<rparr>)"

definition settle_flight :: "nat \<Rightarrow> 'e + 'r \<Rightarrow> ('a, 'r, 'e) request \<Rightarrow> ('a, 'r, 'e) request" where
  "settle_flight n r s =
     s\<lparr>flights := (flights s)[n := (fst (flights s ! n), settle (snd (flights s ! n)) r)]\<rparr>"

fun fire :: "('r, 'e) timer \<Rightarrow> ('a, 'r, 'e) request \<Rightarrow> ('a, 'r, 'e) request" where
  "fire (StartExecuting shown) s =
     (let s1 = s\<lparr>isExecuting := True\<rparr>
      in (case shown of None \<Rightarrow> s1 | Some c \<Rightarrow> s1\<lparr>result := snd (calls s ! c)\<rparr>))"
| "fire (Finish n (Inr r)) s =
     settle_flight n (Inr r)
       ((write_current (Some r) (s\<lparr>result := Some r\<rparr>))
         \<lparr>isExecuting := False, wasExecuted := True,
          isInvalidated := (if cls s = CachedRequest then False else isInvalidated s),
          isWaitingForResponse := False\<rparr>)"
| "fire (Finish n (Inl e)) s =
     settle_flight n (Inl e)
       (s\<lparr>error := Some e, isExecuting := False, isError := True, wasExecuted := True,
          isWaitingForResponse := False\<rparr>)"
| "fire (PatchResult modify) s =
     (let s1 = (case modify (result s) of None \<Rightarrow> s | Some v \<Rightarrow> s\<lparr>result := v\<rparr>)
      in write_current (result s1) s1)"

subsection \<open>The other operations\<close>

definition reset :: "('a, 'r, 'e) request \<Rightarrow> ('a, 'r, 'e) request" where
  "reset s =
     s\<lparr>result := None, error := None, isError := False, isExecuting := False, wasExecuted := False,
       isWaitingForResponse := False, currentApiCall := None,
       isInvalidated := (if cls s = CachedRequest then True else isInvalidated s)\<rparr>"

definition invalidate :: "bool \<Rightarrow> ('a, 'r, 'e) request \<Rightarrow> ('a, 'r, 'e) request" where
  "invalidate immediately s =
     (let s1 = s\<lparr>isInvalidated := True\<rparr>
      in (case currentApiCall s1 of
            None \<Rightarrow> s1
          | Some c \<Rightarrow> if immediately then execute (fst (calls s1 ! c)) s1 else s1))"

definition removeCacheForCallWith :: "'a \<Rightarrow> ('a, 'r, 'e) request \<Rightarrow> ('a, 'r, 'e) request" where
  "removeCacheForCallWith args s = s\<lparr>apiCalls := filter (\<lambda>c. fst (calls s ! c) \<noteq> args) (apiCalls s)\<rparr>"

definition patch :: "('r option \<Rightarrow> 'r option option) \<Rightarrow> ('a, 'r, 'e) request \<Rightarrow> ('a, 'r, 'e) request" where
  "patch modify s = s\<lparr>timers := timers s @ [PatchResult modify]\<rparr>"

definition isExecutingWithArgs :: "'a \<Rightarrow> ('a, 'r, 'e) request \<Rightarrow> bool" where
  "isExecutingWithArgs args s \<longleftrightarrow> isExecuting s \<and>
     (case currentApiCall s of None \<Rightarrow> False | Some c \<Rightarrow> fst (calls s ! c) = args)"

definition isExecutingFirstTime :: "('a, 'r, 'e) request \<Rightarrow> bool" where
  "isExecutingFirstTime s \<longleftrightarrow> \<not> wasExecuted s \<and> isExecuting s"

datatype not_executed_yet = NotExecutedYetError

definition then_promise :: "('a, 'r, 'e) request \<Rightarrow> not_executed_yet + nat" where
  "then_promise s = (case promise s of None \<Rightarrow> Inl NotExecutedYetError | Some n \<Rightarrow> Inr n)"

text \<open>What a caller of \<open>execute().promise\<close> waits for, and the outcome once it has one.\<close>

definition flight_of :: "('a, 'r, 'e) request \<Rightarrow> nat" where
  "flight_of r = (case promise r of None \<Rightarrow> 0 | Some n \<Rightarrow> n)"

definition outcome_of :: "nat \<Rightarrow> ('a, 'r, 'e) request \<Rightarrow> ('e + 'r) option" where
  "outcome_of n r =
     (if n < length (flights r)
      then (case snd (flights r ! n) of
              Pending \<Rightarrow> None | Resolved x \<Rightarrow> Some (Inr x) | Rejected e \<Rightarrow> Some (Inl e))
      else None)"

subsection \<open>Runs\<close>

datatype ('a, 'r, 'e) request_event =
    Execute 'a
  | Respond nat "'e + 'r"     \<comment> \<open>the API answers a flight\<close>
  | Tick                      \<comment> \<open>the oldest timer fires\<close>
  | Reset
  | Invalidate bool
  | RemoveCache 'a
  | Patch "'r option \<Rightarrow> 'r option option"

fun request_step :: "('a, 'r, 'e) request \<Rightarrow> ('a, 'r, 'e) request_event \<Rightarrow> ('a, 'r, 'e) request" where
  "request_step s (Execute args) = execute args s"
| "request_step s (Respond n r) =
     (if n \<in> set (in_flight s)
      then s\<lparr>in_flight := remove1 n (in_flight s), timers := timers s @ [Finish n r]\<rparr> else s)"
| "request_step s Tick =
     (case timers s of [] \<Rightarrow> s | t # ts \<Rightarrow> fire t (s\<lparr>timers := ts\<rparr>))"
| "request_step s Reset = reset s"
| "request_step s (Invalidate now) = (if cls s = CachedRequest then invalidate now s else s)"
| "request_step s (RemoveCache args) =
     (if cls s = CachedRequest then removeCacheForCallWith args s else s)"
| "request_step s (Patch modify) = patch modify s"

lemmas request_defs [model_defs] =
  launch_def execute_plain_def addApiCall_def select_call_def execute_cached_def execute_def
  write_current_def settle_flight_def reset_def invalidate_def removeCacheForCallWith_def patch_def

subsection \<open>Coherence of requests and cache\<close>

fun finishing :: "('r, 'e) timer \<Rightarrow> nat list" where
  "finishing (Finish n r) = [n]"
| "finishing _ = []"

definition outstanding :: "('a, 'r, 'e) request \<Rightarrow> nat list" where
  "outstanding s = in_flight s @ concat (map finishing (timers s))"

text \<open>
  A request that is used without \<open>reset\<close> and \<open>patch\<close>: at most one flight is under way, its
  arguments are those of the current call, and every cached result and the shown result come
  from a flight that resolved with it.
\<close>

definition refs_ok :: "('a, 'r, 'e) request \<Rightarrow> bool" where
  "refs_ok s \<longleftrightarrow> (\<forall>c \<in> set (apiCalls s). c < length (calls s))
     \<and> (\<forall>c. currentApiCall s = Some c \<longrightarrow> c < length (calls s))
     \<and> (\<forall>c. StartExecuting (Some c) \<in> set (timers s) \<longrightarrow> c < length (calls s))
     \<and> (\<forall>f. PatchResult f \<notin> set (timers s))
     \<and> distinct (apiCalls s)
     \<and> (\<forall>c \<in> set (apiCalls s). \<forall>d \<in> set (apiCalls s). fst (calls s ! c) = fst (calls s ! d) \<longrightarrow> c = d)"

definition flight_ok :: "('a, 'r, 'e) request \<Rightarrow> bool" where
  "flight_ok s \<longleftrightarrow>
     (if isWaitingForResponse s
      then (\<exists>n c. outstanding s = [n] \<and> n < length (flights s) \<and> currentApiCall s = Some c
              \<and> flights s ! n = (fst (calls s ! c), Pending))
      else outstanding s = [])"

definition results_ok :: "('a, 'r, 'e) request \<Rightarrow> bool" where
  "results_ok s \<longleftrightarrow>
     (\<forall>c r. c < length (calls s) \<and> snd (calls s ! c) = Some r
        \<longrightarrow> (fst (calls s ! c), Resolved r) \<in> set (flights s))
     \<and> (\<forall>r. result s = Some r \<longrightarrow> Resolved r \<in> snd ` set (flights s))"

definition coherent :: "('a, 'r, 'e) request \<Rightarrow> bool" where
  "coherent s \<longleftrightarrow> refs_ok s \<and> flight_ok s \<and> results_ok s"

fun disciplined :: "('a, 'r, 'e) request_event \<Rightarrow> bool" where
  "disciplined Reset = False"
| "disciplined (Patch _) = False"
| "disciplined _ = True"

lemma coherent_new: "coherent (new_request c)"
  by (simp add: coherent_def refs_ok_def flight_ok_def results_ok_def outstanding_def new_request_def)

lemma find_Some_apiCall:
  "findApiCall args s = Some c \<Longrightarrow> c \<in> set (apiCalls s) \<and> fst (calls s ! c) = args"
  by (auto simp: findApiCall_def find_Some_iff)

lemma find_None_apiCall:
  "findApiCall args s = None \<Longrightarrow> args \<notin> (\<lambda>c. fst (calls s ! c)) ` set (apiCalls s)"
  by (auto simp: findApiCall_def find_None_iff)

lemma outstanding_launch [simp]: "outstanding (launch args shown s) = in_flight s @ length (flights s) # concat (map finishing (timers s))"
  by (simp add: launch_def outstanding_def)

text \<open>Launching keeps coherence when nothing is under way and the current call has these arguments.\<close>

lemma coherent_launch:
  assumes "coherent s" and "\<not> isWaitingForResponse s"
    and "currentApiCall s = Some c" and "fst (calls s ! c) = args"
    and "\<forall>d. shown = Some d \<longrightarrow> d < length (calls s)"
  shows "coherent (launch args shown s)"
proof -
  from assms(1,2) have "in_flight s = []" "concat (map finishing (timers s)) = []"
    by (auto simp: coherent_def flight_ok_def outstanding_def)
  with assms show ?thesis
    by (auto simp: coherent_def refs_ok_def flight_ok_def results_ok_def launch_def outstanding_def
        nth_append)
qed

lemma coherent_select:
  assumes "coherent s" and "\<not> isWaitingForResponse s"
  shows "coherent (select_call args s)"
    and "\<exists>c. currentApiCall (select_call args s) = Some c \<and> fst (calls (select_call args s) ! c) = args"
    and "\<not> isWaitingForResponse (select_call args s)"
proof -
  show "coherent (select_call args s)"
  proof (cases "findApiCall args s")
    case None
    from assms find_None_apiCall [OF None] show ?thesis
      by (auto simp: None coherent_def refs_ok_def flight_ok_def results_ok_def outstanding_def
          select_call_def addApiCall_def nth_append less_Suc_eq)
  next
    case (Some c)
    with assms find_Some_apiCall [OF Some] show ?thesis
      by (auto simp: coherent_def refs_ok_def flight_ok_def results_ok_def outstanding_def select_call_def)
  qed
  show "\<exists>c. currentApiCall (select_call args s) = Some c \<and> fst (calls (select_call args s) ! c) = args"
  proof (cases "findApiCall args s")
    case (Some c)
    with find_Some_apiCall [OF Some] show ?thesis
      by (cases "currentApiCall s = Some c") (auto simp: select_call_def)
  qed (simp add: select_call_def addApiCall_def)
  show "\<not> isWaitingForResponse (select_call args s)"
    using assms(2) by (simp add: select_call_def addApiCall_def split: option.splits)
qed

lemma length_calls_select: "length (calls s) \<le> length (calls (select_call args s))"
  by (simp add: select_call_def addApiCall_def split: option.splits)

lemma coherent_execute:
  assumes "coherent s"
  shows "coherent (execute args s)"
proof (cases "isWaitingForResponse s")
  case True
  with assms show ?thesis by (simp add: request_defs split: request_class.splits)
next
  case False
  show ?thesis
  proof (cases "cls s")
    case PlainRequest
    from assms False have "in_flight s = []" "concat (map finishing (timers s)) = []"
      by (auto simp: coherent_def flight_ok_def outstanding_def)
    then show ?thesis
      using False PlainRequest assms
      by (auto simp: coherent_def refs_ok_def flight_ok_def results_ok_def outstanding_def
          execute_def execute_plain_def launch_def nth_append less_Suc_eq)
  next
    case CachedRequest
    obtain c where c: "currentApiCall (select_call args s) = Some c" "fst (calls (select_call args s) ! c) = args"
      using coherent_select(2) [OF assms False] by blast
    have "d < length (calls (select_call args s))" if "findApiCall args s = Some d" for d
      using assms find_Some_apiCall [OF that] length_calls_select [of s args]
      by (auto simp: coherent_def refs_ok_def intro: order_less_le_trans)
    with coherent_launch [OF coherent_select(1,3) [OF assms False, of args] c]
    show ?thesis
      using False CachedRequest coherent_select(1) [OF assms False, of args]
      by (simp add: execute_def execute_cached_def Let_def)
  qed
qed

lemma coherent_respond:
  assumes "coherent s"
  shows "coherent (request_step s (Respond n r))"
proof (cases "n \<in> set (in_flight s)")
  case True
  then have ne: "outstanding s \<noteq> []" by (auto simp: outstanding_def)
  with assms obtain c where w: "isWaitingForResponse s" and out: "outstanding s = [n]"
    and c: "n < length (flights s)" "currentApiCall s = Some c" "flights s ! n = (fst (calls s ! c), Pending)"
    using True by (auto simp: coherent_def flight_ok_def outstanding_def append_eq_Cons_conv split: if_splits)
  have "in_flight s = [n]" and "concat (map finishing (timers s)) = []"
    using out True by (auto simp: outstanding_def append_eq_Cons_conv)
  then have "flight_ok (request_step s (Respond n r))"
    using w c by (simp add: flight_ok_def outstanding_def)
  moreover have "refs_ok (request_step s (Respond n r))" and "results_ok (request_step s (Respond n r))"
    using assms by (simp_all add: coherent_def refs_ok_def results_ok_def)
  ultimately show ?thesis by (simp add: coherent_def)
qed (use assms in simp)

lemma fst_update_same: "fst (xs[c := (fst (xs ! c), y)] ! d) = fst (xs ! d)"
  by (cases "c = d"; cases "c < length xs") (simp_all add: list_update_beyond)

lemma coherent_tick:
  assumes "coherent s" and "timers s = t # ts"
  shows "coherent (fire t (s\<lparr>timers := ts\<rparr>))"
proof (cases t)
  case (StartExecuting shown)
  have "Resolved r \<in> snd ` set (flights s)"
    if "c < length (calls s)" "snd (calls s ! c) = Some r" for c r
    using assms(1) that by (force simp: coherent_def results_ok_def)
  moreover have "c < length (calls s)" if "shown = Some c" for c
    using assms StartExecuting that by (simp add: coherent_def refs_ok_def)
  ultimately have "results_ok (fire t (s\<lparr>timers := ts\<rparr>))"
    using assms StartExecuting by (cases shown) (simp_all add: coherent_def results_ok_def)
  moreover have "refs_ok (fire t (s\<lparr>timers := ts\<rparr>))"
    using assms StartExecuting by (cases shown) (simp_all add: coherent_def refs_ok_def)
  moreover have "flight_ok (fire t (s\<lparr>timers := ts\<rparr>))"
    using assms StartExecuting
    by (cases shown; cases "isWaitingForResponse s") (simp_all add: coherent_def flight_ok_def outstanding_def)
  ultimately show ?thesis by (simp add: coherent_def)
next
  case (Finish n res)
  with assms have out: "n \<in> set (outstanding s)" by (simp add: outstanding_def)
  with assms(1) obtain c where w: "isWaitingForResponse s" and o: "outstanding s = [n]"
    and n: "n < length (flights s)" and c: "currentApiCall s = Some c"
    and f: "flights s ! n = (fst (calls s ! c), Pending)"
    by (auto simp: coherent_def flight_ok_def split: if_splits)
  have rest: "in_flight s = []" "concat (map finishing ts) = []"
    using o Finish assms(2) by (auto simp: outstanding_def append_eq_Cons_conv)
  have cl: "c < length (calls s)" using assms(1) c by (simp add: coherent_def refs_ok_def)
  have keep: "x \<in> set ((flights s)[n := y])" if "x \<in> set (flights s)" "snd x \<noteq> Pending" for x y
    using that f n by (metis in_set_conv_nth length_list_update nth_list_update_neq snd_conv)
  have new: "y \<in> set ((flights s)[n := y])" for y using n by (rule set_update_memI)
  show ?thesis
  proof (cases res)
    case (Inl e)
    have "refs_ok (fire t (s\<lparr>timers := ts\<rparr>))"
      using assms Finish Inl by (auto simp: coherent_def refs_ok_def settle_flight_def)
    moreover have "flight_ok (fire t (s\<lparr>timers := ts\<rparr>))"
      using rest Finish Inl by (simp add: flight_ok_def outstanding_def settle_flight_def)
    moreover have "results_ok (fire t (s\<lparr>timers := ts\<rparr>))"
    proof -
      have "(fst (calls s ! d), Resolved r) \<in> set ((flights s)[n := (fst (calls s ! c), Rejected e)])"
        if "d < length (calls s)" "snd (calls s ! d) = Some r" for d r
        using that assms(1) by (intro keep) (simp_all add: coherent_def results_ok_def)
      moreover have "Resolved r \<in> snd ` set ((flights s)[n := (fst (calls s ! c), Rejected e)])"
        if "result s = Some r" for r
      proof -
        from that assms(1) obtain x where "x \<in> set (flights s)" "snd x = Resolved r"
          by (auto simp: coherent_def results_ok_def)
        with keep [of x] show ?thesis by force
      qed
      ultimately show ?thesis using Finish Inl by (simp add: results_ok_def settle_flight_def f)
    qed
    ultimately show ?thesis by (simp add: coherent_def)
  next
    case (Inr r)
    have "refs_ok (fire t (s\<lparr>timers := ts\<rparr>))"
      using assms Finish Inr
      by (simp add: coherent_def refs_ok_def settle_flight_def write_current_def c fst_update_same)
    moreover have "flight_ok (fire t (s\<lparr>timers := ts\<rparr>))"
      using rest Finish Inr by (simp add: flight_ok_def outstanding_def settle_flight_def write_current_def c)
    moreover have "results_ok (fire t (s\<lparr>timers := ts\<rparr>))"
    proof -
      have "(fst (calls s ! d), Resolved r') \<in> set ((flights s)[n := (fst (calls s ! c), Resolved r)])"
        if "d < length (calls s)" "snd (((calls s)[c := (fst (calls s ! c), Some r)]) ! d) = Some r'" for d r'
        using that assms(1) cl keep new
        by (cases "d = c") (auto simp: coherent_def results_ok_def)
      moreover have "Resolved r \<in> snd ` set ((flights s)[n := (fst (calls s ! c), Resolved r)])"
        using new by force
      ultimately show ?thesis
        using Finish Inr cl
        by (auto simp: results_ok_def settle_flight_def write_current_def c f nth_list_update)
    qed
    ultimately show ?thesis by (simp add: coherent_def)
  qed
next
  case (PatchResult f)
  with assms show ?thesis by (auto simp: coherent_def refs_ok_def)
qed

lemma coherent_step:
  assumes "coherent s" and "disciplined e"
  shows "coherent (request_step s e)"
proof (cases e)
  case (Respond n r)
  with coherent_respond [OF assms(1)] show ?thesis by blast
next
  case Tick
  with coherent_tick [OF assms(1)] assms(1) show ?thesis by (simp split: list.splits)
next
  case (Invalidate now)
  have "coherent (s\<lparr>isInvalidated := True\<rparr>)"
    using assms(1) by (cases "isWaitingForResponse s")
      (simp_all add: coherent_def refs_ok_def flight_ok_def results_ok_def outstanding_def)
  with Invalidate assms(1) show ?thesis
    by (auto simp: invalidate_def Let_def coherent_execute split: option.splits)
next
  case (RemoveCache args)
  with assms(1) show ?thesis
    by (auto simp: removeCacheForCallWith_def coherent_def refs_ok_def flight_ok_def results_ok_def outstanding_def)
qed (use assms in \<open>simp_all add: coherent_execute\<close>)

interpretation request: guarded_machine request_step coherent disciplined
  by unfold_locales (rule coherent_step)

subsection \<open>Properties\<close>

lemma new_request_simps [simp]:
  "cls (new_request c) = c" "isWaitingForResponse (new_request c) = False"
  "isInvalidated (new_request c) = True" "timers (new_request c) = []" "flights (new_request c) = []"
  by (simp_all add: new_request_def)

text \<open>
  C8. As long as nobody calls \<open>reset\<close> or \<open>patch\<close>, a request has at most one flight under way
  whatever the order of executes, answers, timers, invalidations and cache removals; no two
  cache entries have the same arguments, and every result a cache entry holds is what some
  flight with exactly those arguments resolved to.
\<close>

theorem cache_coherence:
  assumes "list_all disciplined es"
  shows "length (outstanding (run request_step (new_request k) es)) \<le> 1
     \<and> (\<forall>c \<in> set (apiCalls (run request_step (new_request k) es)).
          \<forall>d \<in> set (apiCalls (run request_step (new_request k) es)).
            fst (calls (run request_step (new_request k) es) ! c) = fst (calls (run request_step (new_request k) es) ! d) \<longrightarrow> c = d)
     \<and> (\<forall>c \<in> set (apiCalls (run request_step (new_request k) es)). \<forall>r.
          snd (calls (run request_step (new_request k) es) ! c) = Some r
          \<longrightarrow> (fst (calls (run request_step (new_request k) es) ! c), Resolved r)
                \<in> set (flights (run request_step (new_request k) es)))"
proof -
  let ?s = "run request_step (new_request k) es"
  have inv: "coherent ?s"
    using coherent_new assms by (rule request.run_inv)
  then have "length (outstanding ?s) \<le> 1"
    by (cases "isWaitingForResponse ?s") (auto simp: coherent_def flight_ok_def)
  moreover from inv have "\<forall>c \<in> set (apiCalls ?s). \<forall>d \<in> set (apiCalls ?s). fst (calls ?s ! c) = fst (calls ?s ! d) \<longrightarrow> c = d"
    by (simp add: coherent_def refs_ok_def)
  moreover from inv have "\<forall>c \<in> set (apiCalls ?s). \<forall>r. snd (calls ?s ! c) = Some r
      \<longrightarrow> (fst (calls ?s ! c), Resolved r) \<in> set (flights ?s)"
    by (simp add: coherent_def refs_ok_def results_ok_def)
  ultimately show ?thesis by blast
qed

theorem cache_coherence_witness:
  "length (outstanding (run request_step (new_request CachedRequest :: (nat, nat, nat) request)
      [Execute 1, Execute 2, Respond 0 (Inr 5), Tick, Execute 2])) \<le> 1"
  using cache_coherence [of "[Execute 1, Execute 2, Respond 0 (Inr 5), Tick, Execute 2] :: (nat, nat, nat) request_event list" CachedRequest]
  by simp

lemma launch_cached:
  assumes "coherent s" and "cls s = CachedRequest" and "\<not> isWaitingForResponse s" and "isInvalidated s"
  obtains s1 c where "execute a s = launch a (findApiCall a s) s1"
    and "currentApiCall s1 = Some c" and "c \<in> set (apiCalls s1)" and "c < length (calls s1)"
    and "fst (calls s1 ! c) = a" and "flights s1 = flights s" and "timers s1 = timers s"
    and "in_flight s1 = in_flight s" and "cls s1 = cls s" and "coherent s1"
    and "isInvalidated s1" and "isError s1 = isError s" and "error s1 = error s"
proof -
  let ?s1 = "select_call a s"
  have co: "coherent ?s1" using assms by (intro coherent_select)
  obtain c where c: "currentApiCall ?s1 = Some c" "fst (calls ?s1 ! c) = a"
    using coherent_select(2) [OF assms(1,3)] by blast
  have inv: "isInvalidated ?s1" using assms(4) by (simp add: select_call_def split: option.splits)
  have "c \<in> set (apiCalls ?s1)"
  proof (cases "findApiCall a s")
    case (Some d)
    with c(1) find_Some_apiCall [OF Some] show ?thesis
      by (cases "currentApiCall s = Some d") (auto simp: select_call_def)
  qed (use c in \<open>simp add: select_call_def addApiCall_def\<close>)
  moreover have "c < length (calls ?s1)" using co c by (simp add: coherent_def refs_ok_def)
  moreover have "execute a s = launch a (findApiCall a s) ?s1"
    using assms inv by (simp add: execute_def execute_cached_def)
  ultimately show ?thesis
    using c co inv that [of ?s1 c] by (simp add: select_call_def addApiCall_def split: option.splits)
qed

lemma findApiCall_present:
  assumes "coherent s" and "c \<in> set (apiCalls s)"
  shows "findApiCall (fst (calls s ! c)) s = Some c"
proof (cases "findApiCall (fst (calls s ! c)) s")
  case None
  with assms(2) find_None_apiCall [OF None] show ?thesis by blast
next
  case (Some d)
  with assms find_Some_apiCall [OF Some] show ?thesis by (auto simp: coherent_def refs_ok_def)
qed

lemma execute_hit:
  assumes "coherent t" and "cls t = CachedRequest" and "\<not> isInvalidated t"
    and "currentApiCall t = Some c" and "c \<in> set (apiCalls t)" and "fst (calls t ! c) = a"
  shows "execute a t = t"
proof -
  have "findApiCall a t = Some c" using findApiCall_present [OF assms(1,5)] assms(6) by simp
  with assms show ?thesis by (simp add: execute_def execute_cached_def select_call_def)
qed

lemma execute_other:
  assumes "cls t = CachedRequest" and "\<not> isWaitingForResponse t"
    and "currentApiCall t = Some c" and "fst (calls t ! c) \<noteq> b"
  shows "flights (execute b t) = flights t @ [(b, Pending)]"
proof -
  have "findApiCall b t \<noteq> Some c" using assms(4) find_Some_apiCall [of b t c] by auto
  with assms show ?thesis
    by (cases "findApiCall b t")
      (auto simp: execute_def execute_cached_def select_call_def addApiCall_def launch_def)
qed

text \<open>
  An answered call is served from the cache: once a cached request has executed with some
  arguments and its flight resolved, the result is that value and executing again with the same
  arguments changes nothing at all, while other arguments start a new flight.
\<close>

theorem cached_result_is_reused:
  assumes "coherent s" and "cls s = CachedRequest" and "\<not> isWaitingForResponse s"
    and "isInvalidated s" and "timers s = []"
  shows "result (run request_step s [Execute a, Respond (length (flights s)) (Inr r), Tick, Tick]) = Some r
    \<and> request_step (run request_step s [Execute a, Respond (length (flights s)) (Inr r), Tick, Tick]) (Execute a)
        = run request_step s [Execute a, Respond (length (flights s)) (Inr r), Tick, Tick]
    \<and> (b \<noteq> a \<longrightarrow> (\<exists>fs. flights (request_step
          (run request_step s [Execute a, Respond (length (flights s)) (Inr r), Tick, Tick]) (Execute b))
        = fs @ [(b, Pending)] \<and> fs = flights s @ [(a, Resolved r)]))"
proof -
  let ?es = "[Execute a, Respond (length (flights s)) (Inr r), Tick, Tick] :: ('a, 'b, 'c) request_event list"
  let ?t = "run request_step s ?es"
  have co: "coherent ?t" using assms(1) by (simp add: coherent_step del: request_step.simps)
  obtain s1 c where s1: "execute a s = launch a (findApiCall a s) s1"
      "currentApiCall s1 = Some c" "c \<in> set (apiCalls s1)" "c < length (calls s1)"
      "fst (calls s1 ! c) = a" "flights s1 = flights s" "timers s1 = timers s"
      "cls s1 = cls s"
    using launch_cached [OF assms(1-4)] by metis
  have t: "result ?t = Some r" "currentApiCall ?t = Some c" "\<not> isInvalidated ?t" "\<not> isWaitingForResponse ?t"
      "c \<in> set (apiCalls ?t)" "fst (calls ?t ! c) = a" "cls ?t = CachedRequest"
      "flights ?t = flights s @ [(a, Resolved r)]"
    using s1 assms(2,5)
    by (cases "findApiCall a s"; simp add: launch_def settle_flight_def write_current_def)+
  have "request_step ?t (Execute a) = ?t"
    unfolding request_step.simps by (rule execute_hit [OF co t(7,3,2,5,6)])
  moreover have "flights (request_step ?t (Execute b)) = flights ?t @ [(b, Pending)]" if "b \<noteq> a"
    unfolding request_step.simps using execute_other [OF t(7,4,2)] t(6) that by metis
  ultimately show ?thesis using t(1,8) by metis
qed

theorem cached_result_is_reused_witness:
  "result (run request_step (new_request CachedRequest :: (nat, string, nat) request)
     [Execute 7, Respond 0 (Inr ''ok''), Tick, Tick]) = Some ''ok''"
  using cached_result_is_reused [of "new_request CachedRequest :: (nat, string, nat) request" 7 "''ok''" 8]
  by (simp add: coherent_new)

text \<open>
  A failed call can be repeated at once: executing again with the same arguments starts a new
  flight. When that one succeeds the request shows its result, but the error and the error flag
  of the earlier failure are still set.
\<close>

theorem error_survives_success:
  assumes "coherent s" and "\<not> isWaitingForResponse s" and "timers s = []"
    and "cls s = CachedRequest \<longrightarrow> isInvalidated s"
  shows "flights (run request_step s [Execute a, Respond (length (flights s)) (Inl e), Tick, Tick, Execute a])
           = flights s @ [(a, Rejected e), (a, Pending)]
     \<and> result (run request_step s [Execute a, Respond (length (flights s)) (Inl e), Tick, Tick,
          Execute a, Respond (Suc (length (flights s))) (Inr r), Tick, Tick]) = Some r
     \<and> isError (run request_step s [Execute a, Respond (length (flights s)) (Inl e), Tick, Tick,
          Execute a, Respond (Suc (length (flights s))) (Inr r), Tick, Tick])
     \<and> error (run request_step s [Execute a, Respond (length (flights s)) (Inl e), Tick, Tick,
          Execute a, Respond (Suc (length (flights s))) (Inr r), Tick, Tick]) = Some e"
proof (cases "cls s")
  case PlainRequest
  with assms show ?thesis
    by (simp add: execute_def execute_plain_def launch_def settle_flight_def write_current_def)
next
  case CachedRequest
  let ?es = "[Execute a, Respond (length (flights s)) (Inl e), Tick, Tick] :: ('a, 'b, 'c) request_event list"
  let ?t = "run request_step s ?es"
  have co: "coherent ?t" using assms(1) by (simp add: coherent_step del: request_step.simps)
  obtain s1 c where s1: "execute a s = launch a (findApiCall a s) s1" "currentApiCall s1 = Some c"
      "flights s1 = flights s" "timers s1 = timers s" "cls s1 = cls s" "isInvalidated s1"
    using launch_cached [of s a] assms CachedRequest by metis
  have t: "\<not> isWaitingForResponse ?t" "cls ?t = CachedRequest" "isInvalidated ?t" "timers ?t = []"
      "isError ?t" "error ?t = Some e" "flights ?t = flights s @ [(a, Rejected e)]"
    using s1 assms(3) CachedRequest
    by (cases "findApiCall a s"; simp add: launch_def settle_flight_def)+
  obtain s2 d where s2: "execute a ?t = launch a (findApiCall a ?t) s2" "currentApiCall s2 = Some d"
      "flights s2 = flights ?t" "timers s2 = timers ?t" "cls s2 = cls ?t"
      "isError s2 = isError ?t" "error s2 = error ?t"
    using launch_cached [OF co t(2,1,3), of a] by metis
  have split: "run request_step s (?es @ es) = run request_step ?t es" for es by (rule run_append)
  have "flights (run request_step s (?es @ [Execute a])) = flights s @ [(a, Rejected e), (a, Pending)]"
    unfolding split using s2 t by (simp add: launch_def)
  moreover have "result (run request_step s (?es @ [Execute a, Respond (Suc (length (flights s))) (Inr r), Tick, Tick])) = Some r
    \<and> isError (run request_step s (?es @ [Execute a, Respond (Suc (length (flights s))) (Inr r), Tick, Tick]))
    \<and> error (run request_step s (?es @ [Execute a, Respond (Suc (length (flights s))) (Inr r), Tick, Tick])) = Some e"
    unfolding split using s2 t
    by (cases "findApiCall a ?t") (simp_all add: launch_def settle_flight_def write_current_def)
  ultimately show ?thesis by simp
qed

theorem error_survives_success_witness:
  "isError (run request_step (new_request PlainRequest :: (nat, nat, nat) request)
     [Execute 1, Respond 0 (Inl 9), Tick, Tick, Execute 1, Respond 1 (Inr 5), Tick, Tick])"
  using error_survives_success [of "new_request PlainRequest :: (nat, nat, nat) request" 1 9 5]
  by (simp add: coherent_new)

text \<open>
  \<open>reset\<close> does not cancel a flight. When a cached request is reset while a call with
  arguments \<open>a\<close> is under way and is executed with \<open>b\<close> before the answer comes, the answer to
  \<open>a\<close> is stored as the cached result of \<open>b\<close>, is shown as its result, and a further execute with
  \<open>b\<close> is taken as answered.
\<close>

theorem stale_answer_poisons_cache:
  assumes "a \<noteq> b"
  shows "result (run request_step (new_request CachedRequest)
            [Execute a, Reset, Execute b, Respond 0 (Inr ra), Tick, Tick, Tick]) = Some ra
     \<and> (\<exists>c. findApiCall b (run request_step (new_request CachedRequest)
            [Execute a, Reset, Execute b, Respond 0 (Inr ra), Tick, Tick, Tick]) = Some c
         \<and> calls (run request_step (new_request CachedRequest)
            [Execute a, Reset, Execute b, Respond 0 (Inr ra), Tick, Tick, Tick]) ! c = (b, Some ra))
     \<and> request_step (run request_step (new_request CachedRequest)
            [Execute a, Reset, Execute b, Respond 0 (Inr ra), Tick, Tick, Tick]) (Execute b)
       = run request_step (new_request CachedRequest)
            [Execute a, Reset, Execute b, Respond 0 (Inr ra), Tick, Tick, Tick]"
  using assms
  by (simp add: new_request_def findApiCall_def execute_def execute_cached_def select_call_def addApiCall_def
      launch_def reset_def settle_flight_def write_current_def)

theorem stale_answer_poisons_cache_witness:
  "result (run request_step (new_request CachedRequest :: (nat, nat, nat) request)
     [Execute 1, Reset, Execute 2, Respond 0 (Inr 10), Tick, Tick, Tick]) = Some 10"
  by (rule stale_answer_poisons_cache [THEN conjunct1]) simp

end
