(* ===== verification/NodeUtils.thy ===== *)
theory NodeUtils imports Prelude begin

text \<open>
  The process helpers under the node manager: \<^verbatim>\<open>source/main/bcc/utils.js\<close> (polling for a
  condition, storage keys, process names), \<^verbatim>\<open>source/main/utils/processes.js\<close> and the process
  methods of \<^verbatim>\<open>source/main/bcc/BccNode.js\<close> that only observe and kill operating system
  processes. The operating system is a parameter: what \<^verbatim>\<open>find-process\<close> answers at a time (in
  milliseconds), \<open>None\<close> standing for a throw, and whether a kill signal can be sent.
\<close>

subsection \<open>Polling\<close>

text \<open>
  \<open>checkCondition\<close> asks the condition, and asks again \<open>retryEvery\<close> later until \<open>timeout\<close> has
  been waited. With \<open>retryEvery = 0\<close> it may poll forever, so the value is an option; a result
  carries the time at which the promise settled. The condition is what it evaluates to when
  asked at a time.
\<close>

partial_function (option) checkCondition ::
  "(nat \<Rightarrow> bool) \<Rightarrow> nat \<Rightarrow> nat \<Rightarrow> nat \<Rightarrow> nat \<Rightarrow> (nat + nat) option" where
  "checkCondition condition timeout retryEvery timeWaited now =
     (if condition now then Some (Inr now)
      else if timeWaited \<ge> timeout then Some (Inl now)
      else checkCondition condition timeout retryEvery (timeWaited + retryEvery) (now + retryEvery))"

definition promisedCondition :: "(nat \<Rightarrow> bool) \<Rightarrow> nat \<Rightarrow> nat \<Rightarrow> nat \<Rightarrow> (nat + nat) option" where
  "promisedCondition cond timeout retryEvery now = checkCondition cond timeout retryEvery 0 now"

definition default_timeout :: nat where "default_timeout = 5000"
definition default_retryEvery :: nat where "default_retryEvery = 1000"

text \<open>The polls before the one that settles are those at multiples of \<open>retryEvery\<close>.\<close>

lemma checkCondition_result:
  assumes "0 < retryEvery"
  shows "\<exists>k. checkCondition cond timeout retryEvery waited now
           = Some ((if cond (now + k * retryEvery) then Inr else Inl) (now + k * retryEvery))
         \<and> (\<forall>j < k. \<not> cond (now + j * retryEvery) \<and> waited + j * retryEvery < timeout)
         \<and> (cond (now + k * retryEvery) \<or> timeout \<le> waited + k * retryEvery)"
proof (induction "timeout - waited" arbitrary: waited now rule: less_induct)
  case less
  show ?case
  proof (cases "cond now \<or> timeout \<le> waited")
    case True
    then show ?thesis
      by (intro exI [of _ 0]) (auto simp: checkCondition.simps [of cond timeout retryEvery waited now])
  next
    case False
    with assms have "timeout - (waited + retryEvery) < timeout - waited" by linarith
    from less [OF this, of "now + retryEvery"] obtain k where k:
      "checkCondition cond timeout retryEvery (waited + retryEvery) (now + retryEvery)
         = Some ((if cond (now + retryEvery + k * retryEvery) then Inr else Inl) (now + retryEvery + k * retryEvery))"
      "\<forall>j < k. \<not> cond (now + retryEvery + j * retryEvery) \<and> waited + retryEvery + j * retryEvery < timeout"
      "cond (now + retryEvery + k * retryEvery) \<or> timeout \<le> waited + retryEvery + k * retryEvery"
      by blast
    have "\<forall>j < Suc k. \<not> cond (now + j * retryEvery) \<and> waited + j * retryEvery < timeout"
    proof (intro allI impI)
      fix j assume "j < Suc k"
      then show "\<not> cond (now + j * retryEvery) \<and> waited + j * retryEvery < timeout"
        using False k(2) by (cases j) (auto simp: add.assoc)
    qed
    moreover have "checkCondition cond timeout retryEvery waited now
        = Some ((if cond (now + Suc k * retryEvery) then Inr else Inl) (now + Suc k * retryEvery))"
      using False k(1) by (simp add: checkCondition.simps [of cond timeout retryEvery waited now] add.assoc)
    moreover have "cond (now + Suc k * retryEvery) \<or> timeout \<le> waited + Suc k * retryEvery"
      using k(3) by (simp add: add.assoc)
    ultimately show ?thesis by blast
  qed
qed

subsection \<open>Names and keys\<close>

definition NetworkNameOptions :: "(string \<times> string) list" where
  "NetworkNameOptions =
     [(''mainnet'', ''mainnet''), (''testnet'', ''testnet''), (''staging'', ''staging''),
      (''sophie_qa'', ''sophie_qa''), (''aurum_purple'', ''aurum_purple''),
      (''selfnode'', ''selfnode''), (''development'', ''development'')]"

definition getNetworkName :: "string \<Rightarrow> string" where
  "getNetworkName network =
     (case map_of NetworkNameOptions network of Some n \<Rightarrow> n | None \<Rightarrow> ''development'')"

definition deriveStorageKeys :: "string \<Rightarrow> string" where
  "deriveStorageKeys network = getNetworkName network @ ''-PREVIOUS-BCC-PID''"

datatype implementation = Bcc | Selfnode

definition BccProcessNameOptions :: "implementation \<Rightarrow> (string \<times> string) list" where
  "BccProcessNameOptions i =
     (case i of
        Bcc \<Rightarrow> [(''win32'', ''bcc-node.exe''), (''linux'', ''bcc-node''), (''darwin'', ''bcc-node'')]
      | Selfnode \<Rightarrow> [(''win32'', ''local-cluster.exe''), (''linux'', ''local-cluster''), (''darwin'', ''local-cluster'')])"

definition deriveProcessNames :: "string \<Rightarrow> implementation \<Rightarrow> bool \<Rightarrow> string" where
  "deriveProcessNames platform nodeImplementation isSelfnode =
     (case map_of (BccProcessNameOptions (if isSelfnode then Selfnode else nodeImplementation)) platform of
        Some n \<Rightarrow> n | None \<Rightarrow> ''bcc-node'')"

subsection \<open>Looking at and killing a process\<close>

record process =
  pid_of :: nat
  proc_name :: string

record os =
  find_pid :: "nat \<Rightarrow> nat \<Rightarrow> process list option"   \<comment> \<open>time, pid; \<open>None\<close>: the lookup throws\<close>
  can_kill :: "nat \<Rightarrow> nat \<Rightarrow> bool"                  \<comment> \<open>time, pid: \<open>process.kill\<close> does not throw\<close>

definition getProcess :: "os \<Rightarrow> nat \<Rightarrow> nat \<Rightarrow> string \<Rightarrow> process option" where
  "getProcess os now pid name =
     (case find_pid os now pid of
        None \<Rightarrow> None
      | Some [] \<Rightarrow> None
      | Some (p # _) \<Rightarrow> if proc_name p = name then Some p else None)"

definition isProcessRunning :: "os \<Rightarrow> nat \<Rightarrow> nat \<Rightarrow> string \<Rightarrow> bool" where
  "isProcessRunning os now pid name = (case getProcess os now pid name of None \<Rightarrow> False | Some _ \<Rightarrow> True)"

text \<open>\<open>Inr t\<close>: resolved at time \<open>t\<close>; \<open>Inl t\<close>: rejected at time \<open>t\<close>.\<close>

definition killProcessWithName :: "os \<Rightarrow> nat \<Rightarrow> nat \<Rightarrow> nat \<Rightarrow> string \<Rightarrow> (nat + nat) option" where
  "killProcessWithName os killTimeout now pid name =
     (if can_kill os now pid
      then promisedCondition (\<lambda>t. \<not> isProcessRunning os t pid name) killTimeout default_retryEvery now
      else Some (Inl now))"

definition ensureProcessIsNotRunning :: "os \<Rightarrow> nat \<Rightarrow> nat \<Rightarrow> nat \<Rightarrow> string \<Rightarrow> (nat + nat) option" where
  "ensureProcessIsNotRunning os killTimeout now pid name =
     (if isProcessRunning os now pid name then killProcessWithName os killTimeout now pid name
      else Some (Inr now))"

definition ensurePreviousBccNodeIsNotRunning ::
  "os \<Rightarrow> nat \<Rightarrow> nat \<Rightarrow> nat option \<Rightarrow> string \<Rightarrow> (nat + nat) option" where
  "ensurePreviousBccNodeIsNotRunning os killTimeout now previousPID name =
     (case previousPID of
        None \<Rightarrow> Some (Inr now)
      | Some pid \<Rightarrow> ensureProcessIsNotRunning os killTimeout now pid name)"

definition canBeStarted :: "bool \<Rightarrow> os \<Rightarrow> nat \<Rightarrow> nat \<Rightarrow> nat option \<Rightarrow> string \<Rightarrow> bool option" where
  "canBeStarted isConnected os killTimeout now previousPID name =
     (if isConnected then Some False
      else map_option (\<lambda>r. case r of Inr _ \<Rightarrow> True | Inl _ \<Rightarrow> False)
             (ensurePreviousBccNodeIsNotRunning os killTimeout now previousPID name))"

lemmas process_defs [model_defs] =
  getProcess_def isProcessRunning_def killProcessWithName_def ensureProcessIsNotRunning_def
  ensurePreviousBccNodeIsNotRunning_def canBeStarted_def

lemma promisedCondition_poll:
  assumes "0 < retryEvery"
  shows "(\<exists>k. (\<forall>j < k. \<not> cond (now + j * retryEvery)) \<and>
       ((promisedCondition cond timeout retryEvery now = Some (Inr (now + k * retryEvery))
          \<and> cond (now + k * retryEvery))
      \<or> (promisedCondition cond timeout retryEvery now = Some (Inl (now + k * retryEvery))
          \<and> \<not> cond (now + k * retryEvery) \<and> timeout \<le> k * retryEvery))
     \<and> k * retryEvery < timeout + retryEvery)"
proof -
  from checkCondition_result [OF assms, of cond timeout 0 now] obtain k where k:
    "promisedCondition cond timeout retryEvery now
       = Some ((if cond (now + k * retryEvery) then Inr else Inl) (now + k * retryEvery))"
    "\<forall>j < k. \<not> cond (now + j * retryEvery) \<and> j * retryEvery < timeout"
    "cond (now + k * retryEvery) \<or> timeout \<le> k * retryEvery"
    by (auto simp: promisedCondition_def)
  have "k * retryEvery < timeout + retryEvery"
  proof (cases k)
    case (Suc j)
    with k(2) have "j * retryEvery < timeout" by simp
    with Suc show ?thesis by simp
  qed (use assms in simp)
  with k show ?thesis by (auto split: if_splits)
qed

lemma ensureProcessIsNotRunning_outcome:
  "(\<exists>t. now \<le> t \<and> t < now + killTimeout + default_retryEvery \<and>
      (ensureProcessIsNotRunning os killTimeout now pid name = Some (Inr t)
         \<and> \<not> isProcessRunning os t pid name
     \<or> ensureProcessIsNotRunning os killTimeout now pid name = Some (Inl t)
         \<and> isProcessRunning os now pid name
         \<and> (\<not> can_kill os now pid \<or> isProcessRunning os t pid name \<and> now + killTimeout \<le> t)))"
proof (cases "isProcessRunning os now pid name \<and> can_kill os now pid")
  case True
  from promisedCondition_poll [of default_retryEvery "\<lambda>t. \<not> isProcessRunning os t pid name" now killTimeout]
  obtain k where "k * default_retryEvery < killTimeout + default_retryEvery"
    "(promisedCondition (\<lambda>t. \<not> isProcessRunning os t pid name) killTimeout default_retryEvery now
        = Some (Inr (now + k * default_retryEvery)) \<and> \<not> isProcessRunning os (now + k * default_retryEvery) pid name)
     \<or> (promisedCondition (\<lambda>t. \<not> isProcessRunning os t pid name) killTimeout default_retryEvery now
        = Some (Inl (now + k * default_retryEvery)) \<and> isProcessRunning os (now + k * default_retryEvery) pid name
        \<and> killTimeout \<le> k * default_retryEvery)"
    by (auto simp: default_retryEvery_def)
  with True show ?thesis
    by (intro exI [of _ "now + k * default_retryEvery"])
      (auto simp: ensureProcessIsNotRunning_def killProcessWithName_def)
next
  case False
  then show ?thesis
    by (intro exI [of _ now])
      (auto simp: ensureProcessIsNotRunning_def killProcessWithName_def default_retryEvery_def)
qed

subsection \<open>Properties\<close>

text \<open>
  A promised condition always settles when it polls at a positive interval. It resolves
  exactly when the condition holds at one of the polls it makes, at the first such poll, and it
  rejects no later than one interval after the timeout.
\<close>

theorem promisedCondition_settles:
  assumes "0 < retryEvery"
  shows "(\<exists>k. (\<forall>j < k. \<not> cond (now + j * retryEvery)) \<and>
       ((promisedCondition cond timeout retryEvery now = Some (Inr (now + k * retryEvery))
          \<and> cond (now + k * retryEvery))
      \<or> (promisedCondition cond timeout retryEvery now = Some (Inl (now + k * retryEvery))
          \<and> \<not> cond (now + k * retryEvery) \<and> timeout \<le> k * retryEvery))
     \<and> k * retryEvery < timeout + retryEvery)"
  using assms by (rule promisedCondition_poll)

theorem promisedCondition_settles_witness:
  "\<exists>k. (\<forall>j < k. \<not> (2500 \<le> 0 + j * 1000)) \<and>
     (promisedCondition (\<lambda>t. 2500 \<le> t) 5000 1000 0 = Some (Inr (0 + k * 1000)) \<or>
      promisedCondition (\<lambda>t. 2500 \<le> t) 5000 1000 0 = Some (Inl (0 + k * 1000)))"
  using promisedCondition_settles [of 1000 "\<lambda>t. 2500 \<le> t" 0 5000] by auto

text \<open>
  Making sure that a process is gone always ends. When it succeeds, the process was
  observed not to run at some time no later than the kill timeout and one polling interval after
  the start; it fails only when the process was running and the signal could not be sent or
  the process was still running when the timeout had passed.
\<close>

theorem ensureProcessIsNotRunning_correct:
  "(\<exists>t. now \<le> t \<and> t < now + killTimeout + default_retryEvery \<and>
      (ensureProcessIsNotRunning os killTimeout now pid name = Some (Inr t)
         \<and> \<not> isProcessRunning os t pid name
     \<or> ensureProcessIsNotRunning os killTimeout now pid name = Some (Inl t)
         \<and> isProcessRunning os now pid name
         \<and> (\<not> can_kill os now pid \<or> isProcessRunning os t pid name \<and> now + killTimeout \<le> t)))"
  by (rule ensureProcessIsNotRunning_outcome)

theorem ensureProcessIsNotRunning_correct_witness:
  "\<exists>t. ensureProcessIsNotRunning \<lparr>find_pid = (\<lambda>_ _. None), can_kill = (\<lambda>_ _. False)\<rparr> 10000 0 7 ''bcc-node''
     = Some (Inr t)"
  using ensureProcessIsNotRunning_correct
    [of 0 10000 "\<lparr>find_pid = (\<lambda>_ _. None), can_kill = (\<lambda>_ _. False)\<rparr>" 7 "''bcc-node''"]
  by (auto simp: isProcessRunning_def getProcess_def)

text \<open>
  A node is refused a start exactly when it is connected, or a process with the stored pid
  and the node's name is running and cannot be made to go. A lookup that throws counts as no
  such process running.
\<close>

theorem canBeStarted_cases:
  "canBeStarted con os killTimeout now previousPID name =
     Some (\<not> con \<and> (case previousPID of None \<Rightarrow> True
        | Some pid \<Rightarrow> (\<exists>t. ensureProcessIsNotRunning os killTimeout now pid name = Some (Inr t))))
   \<and> (find_pid os now pid = None \<longrightarrow> canBeStarted False os killTimeout now (Some pid) name = Some True)"
proof
  show "canBeStarted con os killTimeout now previousPID name =
     Some (\<not> con \<and> (case previousPID of None \<Rightarrow> True
        | Some pid \<Rightarrow> (\<exists>t. ensureProcessIsNotRunning os killTimeout now pid name = Some (Inr t))))"
  proof (cases previousPID)
    case (Some p)
    from ensureProcessIsNotRunning_outcome [of now killTimeout os p name]
    obtain r where "ensureProcessIsNotRunning os killTimeout now p name = Some r" by blast
    with Some show ?thesis
      by (cases r) (auto simp: canBeStarted_def ensurePreviousBccNodeIsNotRunning_def)
  qed (simp add: canBeStarted_def ensurePreviousBccNodeIsNotRunning_def)
  show "find_pid os now pid = None \<longrightarrow> canBeStarted False os killTimeout now (Some pid) name = Some True"
    by (simp add: process_defs)
qed

theorem canBeStarted_cases_witness:
  "canBeStarted False \<lparr>find_pid = (\<lambda>_ _. None), can_kill = (\<lambda>_ _. False)\<rparr> 10000 0 (Some 7) ''bcc-node'' = Some True"
  by (rule canBeStarted_cases [THEN conjunct2, THEN mp]) simp

end
