(* ===== verification/BccNode.thy ===== *)
theory BccNode imports NodeUtils begin

text \<open>
  The manager of the node and wallet processes, \<^verbatim>\<open>source/main/bcc/BccNode.js\<close>, with its callers
  in \<^verbatim>\<open>source/main/bcc/setup.js\<close> and \<^verbatim>\<open>source/main/index.js\<close>.

  Every method of the class is asynchronous and any two of them can be under way at the same
  time, so a call is a task: a stack of frames, one per suspended function, the frame on top
  being what is awaited. A \<open>leaf\<close> frame waits for the environment; its outcome (resolved,
  rejected, launched with these pids and port) is chosen by the event that resumes it, for every
  order of resumption. \<open>Settled\<close> stands for a promise that is settled already and is resumed by a
  later microtask. What runs between two awaits is one step. The outcomes of the process leaves
  are those of the theory \<open>NodeUtils\<close>; here any outcome is allowed, which covers them.
\<close>

datatype node_state =
  STARTING | RUNNING | EXITING | STOPPING | STOPPED | UPDATING | UPDATED | CRASHED | ERRORED
  | UNRECOVERABLE

record config =
  startupMaxRetries :: nat
  isSelfnode :: bool          \<comment> \<open>of \<open>environment\<close>\<close>

record launcher =             \<comment> \<open>the mutable node object\<close>
  node_pid :: "nat option"
  node_wpid :: "nat option"
  node_connected :: bool

record bcc_status =           \<comment> \<open>what the renderer last reported\<close>
  isNodeResponding :: bool
  isNodeSyncing :: bool
  isNodeInSync :: bool
  hasBeenConnected :: bool

record tls =
  port :: nat

datatype outcome = Fulfil bool | Reject | Spawned nat nat nat  \<comment> \<open>pid, wallet pid, port\<close>

datatype leaf =
    LeafDead | LeafCanStart | LeafLauncher | LeafNodeStart nat | LeafSelfnode | LeafNodeStop
  | LeafProcessExit | LeafEnsure | LeafUpdated | LeafStore
  | LeafTimer nat | LeafFault

datatype frame =
    Leaf leaf
  | Settled outcome
  | NeverSettles
  | StartChecked "config option" bool
  | StartLauncherReady | StartNodeStarted nat | StartSelfnodeReady
  | StopDead "nat option" | StopNodeStopped | StopExited | StopStored | StopKilled
  | KillDead "nat option" | KillWaited | KillStored | KillStoredAgain
  | RestartStopped "config option" bool | RestartWaited "config option" bool | RestartStarted
  | UpdateSeen | UpdateExited | UpdateKilled
  | ErrorRestarted
  | ExitWaited int "nat option" "config option" | ExitEnsured int "config option" | ExitStored
  | CrashTimer | SetupRestarted | AwaitedUpdate | SafeExitStopped
  | FaultConfirmed

datatype effect = BState node_state | BTls "tls option" | ExitApp int | KillSignal | FaultSent

record bcc_node =
  st :: node_state
  startupTries :: nat
  cfg :: "config option"
  nodes :: "launcher list"          \<comment> \<open>allocated node objects\<close>
  node :: "nat option"
  tlsConfig :: "tls option"
  storedPid :: "nat option"         \<comment> \<open>electron-store, \<open>PREVIOUS_BCC_PID\<close>\<close>
  exitsOnStop :: bool
  injectedFaults :: "string list"
  status :: "bcc_status option"
  disk_ok :: bool                   \<comment> \<open>reads and writes of electron-store do not throw\<close>
  tls_files_ok :: bool              \<comment> \<open>the certificate files can be read\<close>
  trace :: "effect list"
  tasks :: "frame list list"

definition new_BccNode :: bcc_node where
  "new_BccNode = \<lparr>st = STOPPED, startupTries = 0, cfg = None, nodes = [], node = None,
     tlsConfig = None, storedPid = None, exitsOnStop = False, injectedFaults = [], status = None,
     disk_ok = True, tls_files_ok = True, trace = [], tasks = []\<rparr>"

subsection \<open>Synchronous methods\<close>

definition emit :: "effect \<Rightarrow> bcc_node \<Rightarrow> bcc_node" where
  "emit x s = s\<lparr>trace := trace s @ [x]\<rparr>"

definition spawn_task :: "frame list \<Rightarrow> bcc_node \<Rightarrow> bcc_node" where
  "spawn_task fs s = s\<lparr>tasks := tasks s @ [fs]\<rparr>"

text \<open>The delay of the automatic restart, from the \<open>onCrashed\<close> listener of \<^verbatim>\<open>setup.js\<close>.\<close>

definition restartTimeout :: "bcc_node \<Rightarrow> nat" where
  "restartTimeout s = (if startupTries s > 0 then 30000 else 1000)"

definition onCrashed :: "bcc_node \<Rightarrow> bcc_node" where
  "onCrashed s = spawn_task [Leaf (LeafTimer (restartTimeout s)), CrashTimer] s"

definition changeToState :: "node_state \<Rightarrow> bcc_node \<Rightarrow> bcc_node" where
  "changeToState x s =
     (let s1 = emit (BState x) (s\<lparr>st := x\<rparr>) in if x = CRASHED then onCrashed s1 else s1)"

definition broadcastTlsConfig :: "bcc_node \<Rightarrow> bcc_node" where
  "broadcastTlsConfig s = emit (BTls (tlsConfig s)) s"

definition reset :: "bcc_node \<Rightarrow> bcc_node" where
  "reset s = s\<lparr>node := None, tlsConfig := None\<rparr>"

definition isUnrecoverable :: "config \<Rightarrow> bcc_node \<Rightarrow> bool" where
  "isUnrecoverable c s \<longleftrightarrow> startupTries s \<ge> startupMaxRetries c"

definition isConnected :: "bcc_node \<Rightarrow> bool" where
  "isConnected s \<longleftrightarrow> (case node s of None \<Rightarrow> False | Some n \<Rightarrow> node_connected (nodes s ! n))"

text \<open>The getters \<open>pid\<close> and \<open>status\<close>: the process ids of the node object, 0 in the status when there is none.\<close>

definition get_pid :: "bcc_node \<Rightarrow> nat option" where
  "get_pid s = (case node s of None \<Rightarrow> None | Some n \<Rightarrow> node_pid (nodes s ! n))"

definition get_status :: "bcc_node \<Rightarrow> bcc_status option \<times> nat \<times> nat" where
  "get_status s =
     (case node s of
        None \<Rightarrow> (status s, 0, 0)
      | Some n \<Rightarrow> (let l = nodes s ! n; or0 = (\<lambda>p. case p of None \<Rightarrow> 0 | Some x \<Rightarrow> x)
                  in (status s, or0 (node_pid l), or0 (node_wpid l))))"

definition saveStatus :: "bcc_status option \<Rightarrow> bcc_node \<Rightarrow> bcc_node" where
  "saveStatus x s = s\<lparr>status := x\<rparr>"

definition exitOnStop :: "bcc_node \<Rightarrow> bcc_node" where
  "exitOnStop s = s\<lparr>exitsOnStop := True\<rparr>"

definition handleBccReplyPortMessage :: "nat \<Rightarrow> bcc_node \<Rightarrow> bcc_node" where
  "handleBccReplyPortMessage p s =
     (let s1 = s\<lparr>tlsConfig := Some \<lparr>port = p\<rparr>\<rparr>
      in if st s1 = STARTING
         then (broadcastTlsConfig (changeToState RUNNING s1))\<lparr>startupTries := 0\<rparr>
         else s1)"

definition handleBccFaultInjectionResponse :: "string list \<Rightarrow> bcc_node \<Rightarrow> bcc_node" where
  "handleBccFaultInjectionResponse fs s = s\<lparr>injectedFaults := fs\<rparr>"

definition handleBccNodeMessage :: "nat option \<Rightarrow> string list option \<Rightarrow> bcc_node \<Rightarrow> bcc_node" where
  "handleBccNodeMessage replyPort fInjects s =
     (let s1 = (case replyPort of None \<Rightarrow> s | Some p \<Rightarrow> handleBccReplyPortMessage p s)
      in (case fInjects of None \<Rightarrow> s1 | Some fs \<Rightarrow> handleBccFaultInjectionResponse fs s1))"

lemmas sync_defs [model_defs] =
  emit_def spawn_task_def onCrashed_def changeToState_def broadcastTlsConfig_def reset_def
  saveStatus_def exitOnStop_def handleBccReplyPortMessage_def handleBccFaultInjectionResponse_def
  handleBccNodeMessage_def

subsection \<open>First segments of the asynchronous methods\<close>

text \<open>
  Each of these runs up to the first await and gives the frames that wait, the innermost first.
\<close>

definition isDead :: "bcc_node \<Rightarrow> frame" where
  "isDead s = (if isConnected s then Settled (Fulfil False)
               else if node s = None then Settled (Fulfil True) else Leaf LeafDead)"

definition canBeStarted_frame :: "bcc_node \<Rightarrow> frame" where
  "canBeStarted_frame s = (if isConnected s then Settled (Fulfil False)
     else if storedPid s = None \<and> disk_ok s then Settled (Fulfil True) else Leaf LeafCanStart)"

definition begin_start :: "config option \<Rightarrow> bool \<Rightarrow> bcc_node \<Rightarrow> frame list" where
  "begin_start c isForced s = [canBeStarted_frame s, StartChecked c isForced]"

definition begin_stop :: "bcc_node \<Rightarrow> frame list" where
  "begin_stop s = [isDead s, StopDead (node s)]"

definition begin_kill :: "bcc_node \<Rightarrow> frame list" where
  "begin_kill s = [isDead s, KillDead (node s)]"

text \<open>
  \<open>if (this._isNodeProcessNotRunningAnymore()) return\<close>: the call gives a promise, which is
  always truthy, so the method returns at once.
\<close>

definition waitForBccToExitOrKillIt :: "bcc_node \<Rightarrow> frame" where
  "waitForBccToExitOrKillIt s = Settled (Fulfil True)"

definition restart_continue :: "config option \<Rightarrow> bool \<Rightarrow> bcc_node \<Rightarrow> frame list" where
  "restart_continue c isForced s = [waitForBccToExitOrKillIt s, RestartWaited c isForced]"

definition begin_restart :: "bool \<Rightarrow> bcc_node \<Rightarrow> frame list" where
  "begin_restart isForced s =
     (if isConnected s then begin_stop s @ [RestartStopped (cfg s) isForced]
      else restart_continue (cfg s) isForced s)"

definition begin_expectNodeUpdate :: "bcc_node \<Rightarrow> bcc_node \<times> frame list" where
  "begin_expectNodeUpdate s = (changeToState UPDATING s, [Leaf LeafUpdated, UpdateSeen])"

definition begin_storeProcessStates :: "bcc_node \<Rightarrow> bcc_node \<times> frame" where
  "begin_storeProcessStates s =
     (case node s of
        None \<Rightarrow> (s, Settled (Fulfil True))
      | Some n \<Rightarrow>
          (case node_pid (nodes s ! n) of
             None \<Rightarrow> (s, Leaf LeafStore)     \<comment> \<open>electron-store is given \<open>undefined\<close>\<close>
           | Some p \<Rightarrow> if disk_ok s then (s\<lparr>storedPid := Some p\<rparr>, Settled (Fulfil True))
                       else (s, Settled Reject)))"

definition begin_handleBccNodeError :: "bcc_node \<Rightarrow> bcc_node" where
  "begin_handleBccNodeError s =
     (case cfg s of
        None \<Rightarrow> s
      | Some c \<Rightarrow>
          if isUnrecoverable c s then changeToState UNRECOVERABLE s
          else (let s1 = changeToState ERRORED s
                in spawn_task (begin_restart False s1 @ [ErrorRestarted]) s1))"

definition begin_handleBccNodeExit :: "int \<Rightarrow> bcc_node \<Rightarrow> bcc_node" where
  "begin_handleBccNodeExit code s =
     (let s1 = (if st s = RUNNING then changeToState EXITING s else s)
      in spawn_task [Leaf LeafProcessExit, ExitWaited code (node s) (cfg s)] s1)"

definition begin_setFault :: "bcc_node \<Rightarrow> bcc_node" where
  "begin_setFault s =
     (case node s of None \<Rightarrow> s | Some _ \<Rightarrow> spawn_task [Leaf LeafFault, FaultConfirmed] (emit FaultSent s))"

lemmas begin_defs [model_defs] =
  isDead_def canBeStarted_frame_def begin_start_def begin_stop_def begin_kill_def
  waitForBccToExitOrKillIt_def restart_continue_def begin_restart_def begin_expectNodeUpdate_def
  begin_storeProcessStates_def begin_handleBccNodeError_def begin_handleBccNodeExit_def
  begin_setFault_def

subsection \<open>Resuming a suspended function\<close>

datatype control = Return outcome | Await "frame list"

definition start_checked :: "config option \<Rightarrow> bool \<Rightarrow> bcc_node \<Rightarrow> bcc_node \<times> control" where
  "start_checked c isForced s =
     (case c of
        None \<Rightarrow> (s, Return Reject)       \<comment> \<open>TypeError: no config yet\<close>
      | Some c' \<Rightarrow>
          if isUnrecoverable c' s \<and> \<not> isForced then (s, Return Reject)
          else (changeToState STARTING (s\<lparr>cfg := c, startupTries := Suc (startupTries s)\<rparr>),
                if isSelfnode c' then Await [Leaf LeafSelfnode, StartSelfnodeReady]
                else Await [Leaf LeafLauncher, StartLauncherReady]))"

definition new_node :: "launcher \<Rightarrow> bcc_node \<Rightarrow> bcc_node" where
  "new_node l s = s\<lparr>node := Some (length (nodes s)), nodes := nodes s @ [l]\<rparr>"

definition start_failed :: "bcc_node \<Rightarrow> bcc_node \<times> control" where
  "start_failed s = (begin_handleBccNodeError s, Return Reject)"

definition then_store :: "frame \<Rightarrow> bcc_node \<Rightarrow> bcc_node \<times> control" where
  "then_store k s = (let (s1, f) = begin_storeProcessStates s in (s1, Await [f, k]))"

definition stop_catch :: "bcc_node \<Rightarrow> bcc_node \<times> control" where
  "stop_catch s = (s, Await (begin_kill s @ [StopKilled]))"

definition restart_catch :: "bcc_node \<Rightarrow> bcc_node \<times> control" where
  "restart_catch s = (if st s \<noteq> UNRECOVERABLE then changeToState ERRORED s else s, Return Reject)"

definition BCC_UPDATE_EXIT_CODE :: int where "BCC_UPDATE_EXIT_CODE = 20"

definition exit_finish :: "int \<Rightarrow> config option \<Rightarrow> bcc_node \<Rightarrow> bcc_node \<times> control" where
  "exit_finish code c s =
     then_store ExitStored
       (if st s = STOPPING then changeToState STOPPED s
        else if st s = UPDATING \<and> code = BCC_UPDATE_EXIT_CODE then changeToState UPDATED s
        else if (case c of None \<Rightarrow> False | Some c \<Rightarrow> isUnrecoverable c s) then changeToState UNRECOVERABLE s
        else changeToState CRASHED s)"

definition fulfilled :: "outcome \<Rightarrow> bool" where
  "fulfilled r \<longleftrightarrow> r \<noteq> Reject"

text \<open>After the awaits of \<open>start\<close>: the guards, the launch, the spawned processes.\<close>

fun resume_start :: "outcome \<Rightarrow> frame \<Rightarrow> bcc_node \<Rightarrow> bcc_node \<times> control" where
  "resume_start r (StartChecked c isForced) s =
     (if r = Fulfil True then start_checked c isForced s else (s, Return Reject))"
| "resume_start r StartSelfnodeReady s =
     (case r of
        Spawned p w q \<Rightarrow>
          (handleBccNodeMessage (Some q) None
             (new_node \<lparr>node_pid = Some p, node_wpid = Some p, node_connected = True\<rparr> s), Return (Fulfil True))
      | _ \<Rightarrow> start_failed s)"
| "resume_start r StartLauncherReady s =
     (if fulfilled r
      then (new_node \<lparr>node_pid = None, node_wpid = None, node_connected = False\<rparr> s,
            Await [Leaf (LeafNodeStart (length (nodes s))), StartNodeStarted (length (nodes s))])
      else start_failed s)"
| "resume_start r (StartNodeStarted n) s =
     (case r of
        Spawned p w q \<Rightarrow>
          (let s1 = s\<lparr>nodes := (nodes s)[n := \<lparr>node_pid = Some p, node_wpid = Some w, node_connected = True\<rparr>]\<rparr>
           in if tls_files_ok s1 then (handleBccNodeMessage (Some q) None s1, Return (Fulfil True))
              else start_failed s1)
      | _ \<Rightarrow> start_failed s)"
| "resume_start r f s = (s, Await [f])"

text \<open>After the awaits of \<open>stop\<close>.\<close>

fun resume_stop :: "outcome \<Rightarrow> frame \<Rightarrow> bcc_node \<Rightarrow> bcc_node \<times> control" where
  "resume_stop r (StopDead n) s =
     (case r of
        Fulfil True \<Rightarrow> (s, Return (Fulfil True))
      | Fulfil False \<Rightarrow>
          (changeToState STOPPING s,
           Await (if n \<noteq> None then [Leaf LeafNodeStop, StopNodeStopped] else [Leaf LeafProcessExit, StopExited]))
      | _ \<Rightarrow> (s, Return Reject))"
| "resume_stop r StopNodeStopped s =
     (if fulfilled r then (s, Await [Leaf LeafProcessExit, StopExited]) else stop_catch s)"
| "resume_stop r StopExited s = (if fulfilled r then then_store StopStored s else stop_catch s)"
| "resume_stop r StopStored s = (if fulfilled r then (reset s, Return (Fulfil True)) else stop_catch s)"
| "resume_stop r StopKilled s = (s, Return r)"
| "resume_stop r f s = (s, Await [f])"

text \<open>After the awaits of \<open>kill\<close>; the promise is settled only where the executor calls resolve or reject.\<close>

fun resume_kill :: "outcome \<Rightarrow> frame \<Rightarrow> bcc_node \<Rightarrow> bcc_node \<times> control" where
  "resume_kill r (KillDead n) s =
     (if r = Fulfil False
      then (let s1 = (if n \<noteq> None then emit KillSignal s else s)
            in (s1, Await [waitForBccToExitOrKillIt s1, KillWaited]))
      else (s, Await [NeverSettles]))"
| "resume_kill r KillWaited s = then_store (if fulfilled r then KillStored else KillStoredAgain) s"
| "resume_kill r KillStored s =
     (if fulfilled r then (reset (changeToState STOPPED s), Return (Fulfil True))
      else then_store KillStoredAgain s)"
| "resume_kill r KillStoredAgain s =
     (if fulfilled r then (reset s, Return Reject) else (s, Await [NeverSettles]))"
| "resume_kill r f s = (s, Await [f])"

text \<open>After the awaits of \<open>restart\<close>.\<close>

fun resume_restart :: "outcome \<Rightarrow> frame \<Rightarrow> bcc_node \<Rightarrow> bcc_node \<times> control" where
  "resume_restart r (RestartStopped c isForced) s =
     (if fulfilled r then (s, Await (restart_continue c isForced s)) else restart_catch s)"
| "resume_restart r (RestartWaited c isForced) s =
     (if fulfilled r
      then (if exitsOnStop s then (emit (ExitApp 0) s, Return (Fulfil True))
            else (s, Await (begin_start c isForced s @ [RestartStarted])))
      else restart_catch s)"
| "resume_restart r RestartStarted s = (if fulfilled r then (s, Return (Fulfil True)) else restart_catch s)"
| "resume_restart r f s = (s, Await [f])"

text \<open>After the awaits of \<open>expectNodeUpdate\<close>.\<close>

fun resume_update :: "outcome \<Rightarrow> frame \<Rightarrow> bcc_node \<Rightarrow> bcc_node \<times> control" where
  "resume_update r UpdateSeen s =
     (if fulfilled r then (s, Await [Leaf LeafProcessExit, UpdateExited])
      else (s, Await (begin_kill s @ [UpdateKilled])))"
| "resume_update r UpdateExited s =
     (if fulfilled r then (s, Return (Fulfil True)) else (s, Await (begin_kill s @ [UpdateKilled])))"
| "resume_update r UpdateKilled s = (s, Return r)"
| "resume_update r f s = (s, Await [f])"

text \<open>After the awaits of \<open>_handleBccNodeExit\<close>.\<close>

fun resume_exit :: "outcome \<Rightarrow> frame \<Rightarrow> bcc_node \<Rightarrow> bcc_node \<times> control" where
  "resume_exit r (ExitWaited code n c) s =
     (if fulfilled r \<or> n = None then exit_finish code c s
      else (s, Await [Leaf LeafEnsure, ExitEnsured code c]))"
| "resume_exit r (ExitEnsured code c) s = exit_finish code c s"
| "resume_exit r ExitStored s = (if fulfilled r then (reset s, Return (Fulfil True)) else (s, Return Reject))"
| "resume_exit r f s = (s, Await [f])"

text \<open>The callers that wait for a method: the error handler, the timer of \<open>onCrashed\<close>, the update handler of \<^verbatim>\<open>setup.js\<close>, \<open>safeExit\<close> and \<open>setFault\<close>.\<close>

fun resume_caller :: "outcome \<Rightarrow> frame \<Rightarrow> bcc_node \<Rightarrow> bcc_node \<times> control" where
  "resume_caller r ErrorRestarted s = (s, Return r)"
| "resume_caller r CrashTimer s = (s, Await (begin_restart False s @ [SetupRestarted]))"
| "resume_caller r SetupRestarted s = (s, Return (Fulfil True))"
| "resume_caller r AwaitedUpdate s = (if fulfilled r then (emit (ExitApp 20) s, Return (Fulfil True)) else (s, Return Reject))"
| "resume_caller r SafeExitStopped s = (emit (ExitApp 0) s, Return (Fulfil True))"
| "resume_caller r FaultConfirmed s = (s, Return r)"
| "resume_caller r f s = (s, Await [f])"

fun resume_frame :: "outcome \<Rightarrow> frame \<Rightarrow> bcc_node \<Rightarrow> bcc_node \<times> control" where
  "resume_frame r (StartChecked c isForced) s = resume_start r (StartChecked c isForced) s"
| "resume_frame r StartSelfnodeReady s = resume_start r StartSelfnodeReady s"
| "resume_frame r StartLauncherReady s = resume_start r StartLauncherReady s"
| "resume_frame r (StartNodeStarted n) s = resume_start r (StartNodeStarted n) s"
| "resume_frame r (StopDead n) s = resume_stop r (StopDead n) s"
| "resume_frame r StopNodeStopped s = resume_stop r StopNodeStopped s"
| "resume_frame r StopExited s = resume_stop r StopExited s"
| "resume_frame r StopStored s = resume_stop r StopStored s"
| "resume_frame r StopKilled s = resume_stop r StopKilled s"
| "resume_frame r (KillDead n) s = resume_kill r (KillDead n) s"
| "resume_frame r KillWaited s = resume_kill r KillWaited s"
| "resume_frame r KillStored s = resume_kill r KillStored s"
| "resume_frame r KillStoredAgain s = resume_kill r KillStoredAgain s"
| "resume_frame r (RestartStopped c isForced) s = resume_restart r (RestartStopped c isForced) s"
| "resume_frame r (RestartWaited c isForced) s = resume_restart r (RestartWaited c isForced) s"
| "resume_frame r RestartStarted s = resume_restart r RestartStarted s"
| "resume_frame r UpdateSeen s = resume_update r UpdateSeen s"
| "resume_frame r UpdateExited s = resume_update r UpdateExited s"
| "resume_frame r UpdateKilled s = resume_update r UpdateKilled s"
| "resume_frame r (ExitWaited code n c) s = resume_exit r (ExitWaited code n c) s"
| "resume_frame r (ExitEnsured code c) s = resume_exit r (ExitEnsured code c) s"
| "resume_frame r ExitStored s = resume_exit r ExitStored s"
| "resume_frame r ErrorRestarted s = resume_caller r ErrorRestarted s"
| "resume_frame r CrashTimer s = resume_caller r CrashTimer s"
| "resume_frame r SetupRestarted s = resume_caller r SetupRestarted s"
| "resume_frame r AwaitedUpdate s = resume_caller r AwaitedUpdate s"
| "resume_frame r SafeExitStopped s = resume_caller r SafeExitStopped s"
| "resume_frame r FaultConfirmed s = resume_caller r FaultConfirmed s"
| "resume_frame r f s = (s, Await [f])"

text \<open>Which outcomes the environment can give a leaf.\<close>

fun allowed :: "leaf \<Rightarrow> outcome \<Rightarrow> bcc_node \<Rightarrow> bool" where
  "allowed (LeafNodeStart _) r s = (case r of Fulfil _ \<Rightarrow> False | _ \<Rightarrow> True)"
| "allowed LeafSelfnode r s = (case r of Fulfil _ \<Rightarrow> False | _ \<Rightarrow> True)"
| "allowed LeafDead r s = (case r of Fulfil _ \<Rightarrow> True | _ \<Rightarrow> False)"
| "allowed LeafCanStart r s = (case r of Fulfil _ \<Rightarrow> True | _ \<Rightarrow> False)"
| "allowed LeafUpdated r s = (case r of Fulfil _ \<Rightarrow> st s = UPDATED | Reject \<Rightarrow> True | _ \<Rightarrow> False)"
| "allowed (LeafTimer _) r s = (r = Fulfil True)"
| "allowed _ r s = (case r of Spawned _ _ _ \<Rightarrow> False | _ \<Rightarrow> True)"

fun continue_with :: "control \<Rightarrow> frame list \<Rightarrow> frame list" where
  "continue_with (Await fs) rest = fs @ rest"
| "continue_with (Return r) [] = []"
| "continue_with (Return r) (f # rest) = Settled r # f # rest"

definition advance :: "nat \<Rightarrow> outcome \<Rightarrow> frame \<Rightarrow> frame list \<Rightarrow> bcc_node \<Rightarrow> bcc_node" where
  "advance i r f rest s =
     (let (s1, k) = resume_frame r f s in s1\<lparr>tasks := (tasks s1)[i := continue_with k rest]\<rparr>)"

definition resume :: "nat \<Rightarrow> outcome \<Rightarrow> bcc_node \<Rightarrow> bcc_node" where
  "resume i r s =
     (if i < length (tasks s)
      then (case tasks s ! i of
              Settled r' # f # rest \<Rightarrow> advance i r' f rest s
            | Leaf l # f # rest \<Rightarrow> if allowed l r s then advance i r f rest s else s
            | _ \<Rightarrow> s)
      else s)"

subsection \<open>The callers and the event loop\<close>

text \<open>\<open>safeExit\<close> and the disk space callback of \<^verbatim>\<open>index.js\<close>.\<close>

definition safeExit :: "bcc_node \<Rightarrow> bcc_node" where
  "safeExit s =
     (if st s = STOPPED then emit (ExitApp 0) s
      else if st s = STOPPING then exitOnStop s
      else spawn_task (begin_stop s @ [SafeExitStopped]) s)"

definition onCheckDiskSpace :: "bool \<Rightarrow> bcc_node \<Rightarrow> bcc_node" where
  "onCheckDiskSpace isNotEnoughDiskSpace s =
     (if isNotEnoughDiskSpace
      then (if st s \<noteq> STOPPING \<and> st s \<noteq> STOPPED then spawn_task (begin_stop s) s else s)
      else if st s \<noteq> STARTING \<and> st s \<noteq> RUNNING then spawn_task (begin_restart False s) s
      else s)"

definition onAwaitUpdate :: "bcc_node \<Rightarrow> bcc_node" where
  "onAwaitUpdate s = (let (s1, fs) = begin_expectNodeUpdate s in spawn_task (fs @ [AwaitedUpdate]) s1)"

datatype event =
    StartRequested config          \<comment> \<open>\<open>startBccNode\<close>\<close>
  | Resume nat outcome
  | NodeExited int
  | RestartRequested               \<comment> \<open>\<open>bccRestartChannel\<close>: forced\<close>
  | UpdateAwaited
  | SafeExit
  | DiskSpaceChecked bool
  | FaultRequested
  | MessageReceived "nat option" "string list option"
  | StatusSaved "bcc_status option"
  | EnvironmentChanged bool bool   \<comment> \<open>store, certificate files\<close>

fun node_step :: "bcc_node \<Rightarrow> event \<Rightarrow> bcc_node" where
  "node_step s (StartRequested c) = spawn_task (begin_start (Some c) False s) s"
| "node_step s (Resume i r) = resume i r s"
| "node_step s (NodeExited code) = (if cfg s = None then s else begin_handleBccNodeExit code s)"
| "node_step s RestartRequested = spawn_task (begin_restart True s) s"
| "node_step s UpdateAwaited = onAwaitUpdate s"
| "node_step s SafeExit = safeExit s"
| "node_step s (DiskSpaceChecked b) = onCheckDiskSpace b s"
| "node_step s FaultRequested = begin_setFault s"
| "node_step s (MessageReceived p fs) =
     (if cfg s = None \<or> \<not> tls_files_ok s then s else handleBccNodeMessage p fs s)"
| "node_step s (StatusSaved x) = saveStatus x s"
| "node_step s (EnvironmentChanged d t) = s\<lparr>disk_ok := d, tls_files_ok := t\<rparr>"

lemmas resume_defs [model_defs] =
  start_checked_def new_node_def start_failed_def then_store_def stop_catch_def restart_catch_def
  exit_finish_def

subsection \<open>What the synchronous methods touch\<close>

lemma changeToState_simps [simp]:
  "st (changeToState x s) = x" "startupTries (changeToState x s) = startupTries s"
  "cfg (changeToState x s) = cfg s" "nodes (changeToState x s) = nodes s" "node (changeToState x s) = node s"
  "tlsConfig (changeToState x s) = tlsConfig s" "storedPid (changeToState x s) = storedPid s"
  "trace (changeToState x s) = trace s @ [BState x]"
  "tasks (changeToState x s) =
     tasks s @ (if x = CRASHED then [[Leaf (LeafTimer (restartTimeout s)), CrashTimer]] else [])"
  "disk_ok (changeToState x s) = disk_ok s" "tls_files_ok (changeToState x s) = tls_files_ok s"
  "exitsOnStop (changeToState x s) = exitsOnStop s"
  by (simp_all add: changeToState_def emit_def onCrashed_def spawn_task_def restartTimeout_def Let_def)

lemma emit_simps [simp]:
  "st (emit x s) = st s" "startupTries (emit x s) = startupTries s" "cfg (emit x s) = cfg s"
  "trace (emit x s) = trace s @ [x]" "tasks (emit x s) = tasks s" "node (emit x s) = node s"
  by (simp_all add: emit_def)

lemma spawn_task_simps [simp]:
  "st (spawn_task fs s) = st s" "startupTries (spawn_task fs s) = startupTries s"
  "cfg (spawn_task fs s) = cfg s" "trace (spawn_task fs s) = trace s"
  "tasks (spawn_task fs s) = tasks s @ [fs]" "node (spawn_task fs s) = node s"
  "nodes (spawn_task fs s) = nodes s" "disk_ok (spawn_task fs s) = disk_ok s"
  "storedPid (spawn_task fs s) = storedPid s" "exitsOnStop (spawn_task fs s) = exitsOnStop s"
  by (simp_all add: spawn_task_def)

lemma reset_simps [simp]:
  "st (reset s) = st s" "startupTries (reset s) = startupTries s" "cfg (reset s) = cfg s"
  "trace (reset s) = trace s" "tasks (reset s) = tasks s"
  by (simp_all add: reset_def)

lemma new_node_simps [simp]:
  "st (new_node l s) = st s" "startupTries (new_node l s) = startupTries s" "cfg (new_node l s) = cfg s"
  "trace (new_node l s) = trace s" "tasks (new_node l s) = tasks s"
  by (simp_all add: new_node_def)

lemma handleBccReplyPortMessage_simps [simp]:
  "st (handleBccReplyPortMessage p s) = (if st s = STARTING then RUNNING else st s)"
  "startupTries (handleBccReplyPortMessage p s) = (if st s = STARTING then 0 else startupTries s)"
  "cfg (handleBccReplyPortMessage p s) = cfg s"
  "trace (handleBccReplyPortMessage p s) =
     trace s @ (if st s = STARTING then [BState RUNNING, BTls (Some \<lparr>port = p\<rparr>)] else [])"
  "tasks (handleBccReplyPortMessage p s) = tasks s"
  by (simp_all add: handleBccReplyPortMessage_def broadcastTlsConfig_def Let_def)

lemma handleBccNodeMessage_simps [simp]:
  "st (handleBccNodeMessage (Some p) None s) = st (handleBccReplyPortMessage p s)"
  "startupTries (handleBccNodeMessage (Some p) None s) = startupTries (handleBccReplyPortMessage p s)"
  "cfg (handleBccNodeMessage m fs s) = cfg s"
  "trace (handleBccNodeMessage (Some p) None s) = trace (handleBccReplyPortMessage p s)"
  "tasks (handleBccNodeMessage m fs s) = tasks s"
  by (simp_all add: handleBccNodeMessage_def handleBccFaultInjectionResponse_def Let_def split: option.split)

lemma store_simps [simp]:
  "st (fst (begin_storeProcessStates s)) = st s"
  "startupTries (fst (begin_storeProcessStates s)) = startupTries s"
  "cfg (fst (begin_storeProcessStates s)) = cfg s" "trace (fst (begin_storeProcessStates s)) = trace s"
  "tasks (fst (begin_storeProcessStates s)) = tasks s"
  by (simp_all add: begin_storeProcessStates_def split: option.split)

lemma then_store_simps [simp]:
  "fst (then_store k s) = fst (begin_storeProcessStates s)"
  "snd (then_store k s) = Await [snd (begin_storeProcessStates s), k]"
  by (simp_all add: then_store_def split_def Let_def)

subsection \<open>The lifecycle protocol\<close>

text \<open>
  What an observer of the broadcasts sees: the state, the number of startup tries and the
  broadcasts so far. Its steps say from which state each state can be entered.
\<close>

type_synonym lifecycle = "node_state \<times> nat \<times> effect list"

inductive lifecycle_step :: "config \<Rightarrow> bool \<Rightarrow> lifecycle \<Rightarrow> lifecycle \<Rightarrow> bool" where
  other: "x \<notin> {STARTING, RUNNING, EXITING, UPDATED, UNRECOVERABLE} \<Longrightarrow>
     lifecycle_step c b (q, n, tr) (x, n, tr @ [BState x])"
| exiting: "lifecycle_step c b (RUNNING, n, tr) (EXITING, n, tr @ [BState EXITING])"
| updated: "lifecycle_step c b (UPDATING, n, tr) (UPDATED, n, tr @ [BState UPDATED])"
| unrecoverable: "startupMaxRetries c \<le> n \<Longrightarrow>
     lifecycle_step c b (q, n, tr) (UNRECOVERABLE, n, tr @ [BState UNRECOVERABLE])"
| starting: "n < startupMaxRetries c \<or> b \<Longrightarrow>
     lifecycle_step c b (q, n, tr) (STARTING, Suc n, tr @ [BState STARTING])"
| running: "lifecycle_step c b (STARTING, n, tr) (RUNNING, 0, tr @ [BState RUNNING, BTls (Some t)])"
| signal: "x \<in> {KillSignal, FaultSent} \<union> range ExitApp \<Longrightarrow>
     lifecycle_step c b (q, n, tr) (q, n, tr @ [x])"

inductive_cases lifecycle_stepE: "lifecycle_step c b (q, n, tr) (q', n', tr')"

abbreviation lifecycle_runs :: "config \<Rightarrow> bool \<Rightarrow> lifecycle \<Rightarrow> lifecycle \<Rightarrow> bool" where
  "lifecycle_runs c b \<equiv> (lifecycle_step c b)\<^sup>*\<^sup>*"

definition lifecycle_of :: "bcc_node \<Rightarrow> lifecycle" where
  "lifecycle_of s = (st s, startupTries s, trace s)"

lemma lifecycle_once: "lifecycle_step c b x y \<Longrightarrow> lifecycle_runs c b x y"
  by (rule r_into_rtranclp)

lemmas lifecycle_intros = lifecycle_step.intros [THEN lifecycle_once]

text \<open>Every config a suspended function carries is the one the node was started with.\<close>

fun frame_ok :: "config \<Rightarrow> bool \<Rightarrow> frame \<Rightarrow> bool" where
  "frame_ok c b (StartChecked x f) = (x \<in> {None, Some c} \<and> (f \<longrightarrow> b))"
| "frame_ok c b (RestartStopped x f) = (x \<in> {None, Some c} \<and> (f \<longrightarrow> b))"
| "frame_ok c b (RestartWaited x f) = (x \<in> {None, Some c} \<and> (f \<longrightarrow> b))"
| "frame_ok c b (ExitWaited code n x) = (x \<in> {None, Some c})"
| "frame_ok c b (ExitEnsured code x) = (x \<in> {None, Some c})"
| "frame_ok c b f = True"

definition node_inv :: "config \<Rightarrow> bool \<Rightarrow> bcc_node \<Rightarrow> bool" where
  "node_inv c b s \<longleftrightarrow> cfg s \<in> {None, Some c} \<and> (\<forall>fs \<in> set (tasks s). list_all (frame_ok c b) fs)"

fun event_ok :: "config \<Rightarrow> bool \<Rightarrow> event \<Rightarrow> bool" where
  "event_ok c b (StartRequested c') = (c' = c)"
| "event_ok c b RestartRequested = b"
| "event_ok c b _ = True"

definition refines :: "config \<Rightarrow> bool \<Rightarrow> bcc_node \<Rightarrow> bcc_node \<Rightarrow> bool" where
  "refines c b s s' \<longleftrightarrow> (node_inv c b s \<longrightarrow> node_inv c b s' \<and> lifecycle_runs c b (lifecycle_of s) (lifecycle_of s'))"

fun control_frames :: "control \<Rightarrow> frame list" where
  "control_frames (Return r) = []"
| "control_frames (Await fs) = fs"

lemma begin_frames_ok [simp]:
  "list_all (frame_ok c b) (begin_stop s)" "list_all (frame_ok c b) (begin_kill s)"
  "frame_ok c b (isDead s)" "frame_ok c b (canBeStarted_frame s)" "frame_ok c b (snd (begin_storeProcessStates s))"
  "frame_ok c b (waitForBccToExitOrKillIt s)"
  by (simp_all add: begin_stop_def begin_kill_def isDead_def canBeStarted_frame_def
      begin_storeProcessStates_def waitForBccToExitOrKillIt_def split: option.split)

lemma begin_restart_ok [simp]:
  "node_inv c b s \<Longrightarrow> (isForced \<longrightarrow> b) \<Longrightarrow> list_all (frame_ok c b) (begin_restart isForced s)"
  by (simp add: begin_restart_def restart_continue_def node_inv_def)

lemma begin_start_ok [simp]:
  "list_all (frame_ok c b) (begin_start x isForced s) \<longleftrightarrow> x \<in> {None, Some c} \<and> (isForced \<longrightarrow> b)"
  by (simp add: begin_start_def)

lemma refines_error: "refines c b s (begin_handleBccNodeError s)"
proof (cases "cfg s")
  case (Some x)
  then show ?thesis
    by (auto simp: refines_def node_inv_def begin_handleBccNodeError_def isUnrecoverable_def Let_def
        lifecycle_of_def begin_restart_def restart_continue_def intro!: lifecycle_intros)
qed (simp add: refines_def begin_handleBccNodeError_def)

lemma error_ok:
  assumes "node_inv c b s"
  shows "node_inv c b (begin_handleBccNodeError s)"
    and "lifecycle_runs c b (lifecycle_of s) (lifecycle_of (begin_handleBccNodeError s))"
  using refines_error [of c b s] assms by (simp_all add: refines_def)

lemma nodes_update_ok [simp]:
  "node_inv c b (s\<lparr>nodes := ns\<rparr>) = node_inv c b s" "lifecycle_of (s\<lparr>nodes := ns\<rparr>) = lifecycle_of s"
  by (simp_all add: node_inv_def lifecycle_of_def)

lemma replyPort_ok:
  assumes "node_inv c b s"
  shows "node_inv c b (handleBccNodeMessage (Some p) None s)"
    and "lifecycle_runs c b (lifecycle_of s) (lifecycle_of (handleBccNodeMessage (Some p) None s))"
  using assms by (auto simp: node_inv_def lifecycle_of_def intro!: lifecycle_intros)

lemma new_node_ok [simp]:
  "node_inv c b (new_node l s) = node_inv c b s" "lifecycle_of (new_node l s) = lifecycle_of s"
  by (simp_all add: node_inv_def lifecycle_of_def)

lemma resume_frame_refines:
  assumes inv: "node_inv c b s" and f: "frame_ok c b f"
  shows "node_inv c b (fst (resume_frame r f s))
    \<and> lifecycle_runs c b (lifecycle_of s) (lifecycle_of (fst (resume_frame r f s)))
    \<and> list_all (frame_ok c b) (control_frames (snd (resume_frame r f s)))"
proof (cases f)
  case (StartChecked x isForced)
  with assms show ?thesis
    by (auto simp: start_checked_def isUnrecoverable_def node_inv_def lifecycle_of_def
        split: option.split intro!: lifecycle_intros)
next
  case StartSelfnodeReady
  with error_ok [OF inv] replyPort_ok [of c b "new_node l s" for l] inv show ?thesis
    by (cases r) (auto simp: start_failed_def)
next
  case StartLauncherReady
  with inv error_ok [OF inv] show ?thesis by (simp add: start_failed_def)
next
  case (StartNodeStarted n)
  with error_ok [OF inv] error_ok [of c b "s\<lparr>nodes := ns\<rparr>" for ns] replyPort_ok [of c b "s\<lparr>nodes := ns\<rparr>" for ns] inv
  show ?thesis by (cases r) (auto simp: start_failed_def Let_def)
next
  case (ExitWaited code n x)
  with assms show ?thesis
    by (auto simp: exit_finish_def isUnrecoverable_def node_inv_def lifecycle_of_def
        split: option.splits intro!: lifecycle_intros)
next
  case (ExitEnsured code x)
  with assms show ?thesis
    by (auto simp: exit_finish_def isUnrecoverable_def node_inv_def lifecycle_of_def
        split: option.splits intro!: lifecycle_intros)
next
  case CrashTimer
  with inv show ?thesis by (simp add: list_all_append)
next
  case (StopDead n)
  with inv show ?thesis
    by (auto simp: node_inv_def lifecycle_of_def split: outcome.split bool.split intro!: lifecycle_intros)
qed (use assms in \<open>auto simp: node_inv_def lifecycle_of_def stop_catch_def restart_catch_def
      restart_continue_def Let_def intro!: lifecycle_intros\<close>)

lemma advance_refines:
  assumes inv: "node_inv c b s" and i: "i < length (tasks s)"
    and f: "frame_ok c b f" and rest: "list_all (frame_ok c b) rest"
  shows "node_inv c b (advance i r f rest s)
    \<and> lifecycle_runs c b (lifecycle_of s) (lifecycle_of (advance i r f rest s))"
proof -
  obtain s1 k where k: "resume_frame r f s = (s1, k)" by (cases "resume_frame r f s")
  from resume_frame_refines [OF inv f, of r] k
  have s1: "node_inv c b s1" "lifecycle_runs c b (lifecycle_of s) (lifecycle_of s1)"
    "list_all (frame_ok c b) (control_frames k)" by simp_all
  have "list_all (frame_ok c b) (continue_with k rest)"
    using s1(3) rest by (cases k; cases rest) (simp_all add: list_all_append)
  with s1 show ?thesis
    by (auto simp: advance_def k node_inv_def lifecycle_of_def dest!: set_update_subset_insert [THEN subsetD])
qed

lemma resume_refines:
  assumes "node_inv c b s"
  shows "node_inv c b (resume i r s) \<and> lifecycle_runs c b (lifecycle_of s) (lifecycle_of (resume i r s))"
proof (cases "i < length (tasks s)")
  case True
  then have "tasks s ! i \<in> set (tasks s)" by simp
  with assms have fs: "list_all (frame_ok c b) (tasks s ! i)" by (simp add: node_inv_def)
  show ?thesis
  proof (cases "tasks s ! i")
    case (Cons top fs')
    show ?thesis
    proof (cases fs')
      case Nil
      with Cons assms show ?thesis by (cases top) (simp_all add: resume_def)
    next
      case (Cons f rest)
      with \<open>tasks s ! i = top # fs'\<close> fs have "frame_ok c b f" "list_all (frame_ok c b) rest" by simp_all
      from advance_refines [OF assms True this] \<open>tasks s ! i = top # fs'\<close> Cons assms True
      show ?thesis by (cases top) (simp_all add: resume_def)
    qed
  qed (use assms True in \<open>simp add: resume_def\<close>)
qed (use assms in \<open>simp add: resume_def\<close>)

lemma node_step_refines:
  assumes inv: "node_inv c b s" and e: "event_ok c b e"
  shows "node_inv c b (node_step s e) \<and> lifecycle_runs c b (lifecycle_of s) (lifecycle_of (node_step s e))"
proof (cases e)
  case (Resume i r)
  with resume_refines [OF inv] show ?thesis by simp
next
  case (MessageReceived p fs)
  have "refines c b s (handleBccNodeMessage p fs s)"
    by (cases p) (auto simp: refines_def handleBccNodeMessage_def handleBccFaultInjectionResponse_def
        node_inv_def lifecycle_of_def Let_def split: option.split intro!: lifecycle_intros)
  with MessageReceived inv show ?thesis by (simp add: refines_def)
next
  case (NodeExited code)
  with inv show ?thesis
    by (auto simp: begin_handleBccNodeExit_def node_inv_def lifecycle_of_def Let_def intro!: lifecycle_intros)
next
  case SafeExit
  with inv show ?thesis
    by (auto simp: safeExit_def exitOnStop_def node_inv_def lifecycle_of_def list_all_append
        intro!: lifecycle_intros)
next
  case (DiskSpaceChecked isNotEnough)
  with inv begin_restart_ok [OF inv, of False] show ?thesis
    by (auto simp: onCheckDiskSpace_def node_inv_def lifecycle_of_def)
next
  case UpdateAwaited
  with inv show ?thesis
    by (auto simp: onAwaitUpdate_def begin_expectNodeUpdate_def node_inv_def lifecycle_of_def
        intro!: lifecycle_intros)
next
  case FaultRequested
  with inv show ?thesis
    by (auto simp: begin_setFault_def node_inv_def lifecycle_of_def split: option.split intro!: lifecycle_intros)
next
  case RestartRequested
  with inv e begin_restart_ok [OF inv, of True] show ?thesis
    by (auto simp: node_inv_def lifecycle_of_def)
next
  case (StartRequested c')
  with inv e show ?thesis by (auto simp: node_inv_def lifecycle_of_def)
qed (use inv in \<open>auto simp: node_inv_def lifecycle_of_def saveStatus_def\<close>)

subsection \<open>Counting forced restarts\<close>

fun forced :: "frame \<Rightarrow> nat" where
  "forced (StartChecked x f) = of_bool f"
| "forced (RestartStopped x f) = of_bool f"
| "forced (RestartWaited x f) = of_bool f"
| "forced f = 0"

definition forced_frames :: "frame list \<Rightarrow> nat" where
  "forced_frames fs = sum_list (map forced fs)"

definition forced_tasks :: "bcc_node \<Rightarrow> nat" where
  "forced_tasks s = sum_list (map forced_frames (tasks s))"

definition excess :: "config \<Rightarrow> bcc_node \<Rightarrow> nat" where
  "excess c s = (startupTries s - startupMaxRetries c) + forced_tasks s"

lemma forced_frames_simps [simp]:
  "forced_frames [] = 0" "forced_frames (f # fs) = forced f + forced_frames fs"
  "forced_frames (fs @ gs) = forced_frames fs + forced_frames gs"
  by (simp_all add: forced_frames_def)

lemma forced_begin [simp]:
  "forced (isDead s) = 0" "forced (canBeStarted_frame s) = 0" "forced (waitForBccToExitOrKillIt s) = 0"
  "forced (snd (begin_storeProcessStates s)) = 0"
  "forced_frames (begin_stop s) = 0" "forced_frames (begin_kill s) = 0"
  "forced_frames (begin_restart f s) = of_bool f" "forced_frames (begin_start x f s) = of_bool f"
  by (simp_all add: isDead_def canBeStarted_frame_def waitForBccToExitOrKillIt_def begin_stop_def
      begin_kill_def begin_restart_def restart_continue_def begin_start_def begin_storeProcessStates_def
      split: option.split)

lemma error_effects [simp]:
  "startupTries (begin_handleBccNodeError s) = startupTries s"
  "cfg (begin_handleBccNodeError s) = cfg s"
  "\<exists>ts. tasks (begin_handleBccNodeError s) = tasks s @ ts \<and> sum_list (map forced_frames ts) = 0"
  by (simp_all add: begin_handleBccNodeError_def Let_def split: option.split)

lemma resume_frame_forced:
  assumes "frame_ok c True f"
  shows "\<exists>ts. tasks (fst (resume_frame r f s)) = tasks s @ ts
    \<and> (startupTries (fst (resume_frame r f s)) - startupMaxRetries c) + sum_list (map forced_frames ts)
        + forced_frames (control_frames (snd (resume_frame r f s)))
      \<le> (startupTries s - startupMaxRetries c) + forced f"
proof (cases f)
  case (StartChecked x isForced)
  with assms show ?thesis
    by (auto simp: start_checked_def isUnrecoverable_def split: option.split)
next
  case StartSelfnodeReady
  with error_effects(3) [of s] show ?thesis
    by (auto simp: start_failed_def split: outcome.split)
next
  case StartLauncherReady
  with error_effects(3) [of s] show ?thesis by (auto simp: start_failed_def)
next
  case (StartNodeStarted n)
  have "\<exists>ts. tasks (begin_handleBccNodeError (s\<lparr>nodes := ns\<rparr>)) = tasks s @ ts \<and> sum_list (map forced_frames ts) = 0" for ns
    using error_effects(3) [of "s\<lparr>nodes := ns\<rparr>"] by simp
  with StartNodeStarted error_effects(3) [of s] show ?thesis
    by (cases r) (auto simp: start_failed_def Let_def)
next
  case (StopDead n)
  then show ?thesis by (auto split: outcome.split bool.split)
next
  case (ExitWaited code n x)
  then show ?thesis by (auto simp: exit_finish_def)
next
  case (ExitEnsured code x)
  then show ?thesis by (auto simp: exit_finish_def)
qed (auto simp: stop_catch_def restart_catch_def restart_continue_def Let_def)

lemma sum_list_update_add:
  "i < length xs \<Longrightarrow> sum_list (xs[i := y]) + xs ! i = sum_list xs + (y :: nat)"
  by (induction xs arbitrary: i) (auto split: nat.split)

lemma resume_forced:
  assumes "node_inv c True s"
  shows "excess c (resume i r s) \<le> excess c s"
proof (cases "\<exists>top f rest. i < length (tasks s) \<and> tasks s ! i = top # f # rest")
  case True
  then obtain top f rest where i: "i < length (tasks s)" and top: "tasks s ! i = top # f # rest" by blast
  then have "list_all (frame_ok c True) (top # f # rest)"
    using assms by (metis node_inv_def nth_mem)
  then have f: "frame_ok c True f" by simp
  have "excess c (advance i r' f rest s) \<le> excess c s" for r'
  proof -
    obtain s1 k where k: "resume_frame r' f s = (s1, k)" by (cases "resume_frame r' f s")
    from resume_frame_forced [OF f, of r' s] k obtain ts where ts: "tasks s1 = tasks s @ ts"
      "(startupTries s1 - startupMaxRetries c) + sum_list (map forced_frames ts) + forced_frames (control_frames k)
        \<le> (startupTries s - startupMaxRetries c) + forced f" by auto
    have "forced_frames (continue_with k rest) = forced_frames (control_frames k) + forced_frames rest"
      by (cases k; cases rest) simp_all
    moreover have "sum_list ((map forced_frames (tasks s1))[i := forced_frames (continue_with k rest)])
        + forced_frames (tasks s ! i)
        = sum_list (map forced_frames (tasks s1)) + forced_frames (continue_with k rest)"
      using sum_list_update_add [of i "map forced_frames (tasks s1)"] i ts(1) by (simp add: nth_append)
    ultimately show ?thesis
      using ts(1,2) top by (simp add: advance_def k excess_def forced_tasks_def map_update)
  qed
  with i top show ?thesis by (cases top) (simp_all add: resume_def)
next
  case False
  then have "resume i r s = s" by (auto simp: resume_def split: list.splits frame.splits)
  then show ?thesis by simp
qed

fun forcing :: "event \<Rightarrow> nat" where
  "forcing RestartRequested = 1"
| "forcing _ = 0"

lemma node_step_forced:
  assumes "node_inv c True s"
  shows "excess c (node_step s e) \<le> excess c s + forcing e"
proof (cases e)
  case (Resume i r)
  with resume_forced [OF assms] show ?thesis by simp
next
  case (MessageReceived p fs)
  then show ?thesis
    by (auto simp: excess_def forced_tasks_def handleBccNodeMessage_def handleBccFaultInjectionResponse_def
        Let_def split: option.split)
next
  case (NodeExited code)
  then show ?thesis by (auto simp: excess_def forced_tasks_def begin_handleBccNodeExit_def Let_def)
next
  case SafeExit
  then show ?thesis by (auto simp: excess_def forced_tasks_def safeExit_def exitOnStop_def)
next
  case FaultRequested
  then show ?thesis by (auto simp: excess_def forced_tasks_def begin_setFault_def split: option.split)
qed (auto simp: excess_def forced_tasks_def onCheckDiskSpace_def onAwaitUpdate_def begin_expectNodeUpdate_def
    saveStatus_def)

interpretation lifecycle: guarded_machine node_step "node_inv c b" "event_ok c b" for c b
  by unfold_locales (simp add: node_step_refines)

interpretation startups: counted_machine node_step "node_inv c True" "event_ok c True" "excess c" forcing for c
  by unfold_locales (simp_all add: node_step_forced node_step_refines)

lemma new_BccNode_inv: "node_inv c b new_BccNode"
  by (simp add: node_inv_def new_BccNode_def)

subsection \<open>Consequences of the protocol\<close>

fun states_of :: "effect list \<Rightarrow> node_state list" where
  "states_of [] = []"
| "states_of (BState x # es) = x # states_of es"
| "states_of (e # es) = states_of es"

lemma states_of_append [simp]: "states_of (es @ es') = states_of es @ states_of es'"
  by (induction es rule: states_of.induct) simp_all

fun may_follow :: "node_state \<Rightarrow> node_state \<Rightarrow> bool" where
  "may_follow x RUNNING = (x = STARTING)"
| "may_follow x EXITING = (x = RUNNING)"
| "may_follow x UPDATED = (x = UPDATING)"
| "may_follow x _ = True"

definition tries_of :: "effect list \<Rightarrow> nat" where
  "tries_of tr = foldl (\<lambda>n e. if e = BState STARTING then Suc n else if e = BState RUNNING then 0 else n) 0 tr"

lemma tries_of_simps [simp]:
  "tries_of [] = 0"
  "tries_of (tr @ [e]) = (if e = BState STARTING then Suc (tries_of tr) else if e = BState RUNNING then 0 else tries_of tr)"
  "tries_of (tr @ [BState RUNNING, BTls t]) = 0"
  by (simp_all add: tries_of_def)

definition tls_follows_running :: "effect list \<Rightarrow> bool" where
  "tls_follows_running tr \<longleftrightarrow>
     (\<forall>i < length tr. tr ! i = BState RUNNING \<longrightarrow> (\<exists>t. Suc i < length tr \<and> tr ! Suc i = BTls (Some t)))"

lemma tls_follows_running_snoc:
  "tls_follows_running tr \<Longrightarrow> x \<noteq> BState RUNNING \<Longrightarrow> tls_follows_running (tr @ [x])"
  by (auto simp: tls_follows_running_def nth_append less_Suc_eq)

lemma tls_follows_running_started:
  "tls_follows_running tr \<Longrightarrow> tls_follows_running (tr @ [BState RUNNING, BTls (Some t)])"
  by (auto simp: tls_follows_running_def nth_append less_Suc_eq)

fun observed :: "config \<Rightarrow> bool \<Rightarrow> lifecycle \<Rightarrow> bool" where
  "observed c b (q, n, tr) \<longleftrightarrow>
     q = last (STOPPED # states_of tr) \<and> successively may_follow (STOPPED # states_of tr)
     \<and> n = tries_of tr \<and> tls_follows_running tr \<and> (\<not> b \<longrightarrow> n \<le> startupMaxRetries c)"

lemma follow_snoc:
  assumes "successively may_follow (STOPPED # xs)" and "may_follow (last (STOPPED # xs)) x"
  shows "successively may_follow (STOPPED # xs @ [x])"
  using assms successively_append_iff [of may_follow "STOPPED # xs" "[x]"] by simp

lemma observed_step:
  assumes "lifecycle_step c b l l'" and "observed c b l"
  shows "observed c b l'"
  using assms
proof (cases rule: lifecycle_step.cases)
  case (other x q n tr)
  moreover from other have "may_follow q x" by (cases x) auto
  ultimately show ?thesis using assms(2) follow_snoc [of "states_of tr" x]
    by (auto simp: tls_follows_running_snoc)
next
  case (exiting n tr)
  with assms(2) follow_snoc [of "states_of tr" EXITING] show ?thesis
    by (auto simp: tls_follows_running_snoc)
next
  case (updated n tr)
  with assms(2) follow_snoc [of "states_of tr" UPDATED] show ?thesis
    by (auto simp: tls_follows_running_snoc)
next
  case (unrecoverable n q tr)
  with assms(2) follow_snoc [of "states_of tr" UNRECOVERABLE] show ?thesis
    by (auto simp: tls_follows_running_snoc)
next
  case (starting n q tr)
  with assms(2) follow_snoc [of "states_of tr" STARTING] show ?thesis
    by (auto simp: tls_follows_running_snoc)
next
  case (running n tr t)
  with assms(2) follow_snoc [of "states_of tr" RUNNING] show ?thesis
    by (auto simp: tls_follows_running_started)
next
  case (signal x q n tr)
  with assms(2) show ?thesis by (auto simp: tls_follows_running_snoc)
qed

lemma observed_runs: "lifecycle_runs c b l l' \<Longrightarrow> observed c b l \<Longrightarrow> observed c b l'"
  by (induction rule: rtranclp_induct) (auto intro: observed_step)

lemma lifecycle_run:
  assumes "list_all (event_ok c b) es"
  shows "lifecycle_runs c b (STOPPED, 0, []) (lifecycle_of (run node_step new_BccNode es))"
proof -
  have "lifecycle_runs c b (lifecycle_of s) (lifecycle_of (run node_step s es))"
    if "node_inv c b s" "list_all (event_ok c b) es" for s es
    using that
  proof (induction es arbitrary: s)
    case (Cons e es)
    from Cons.prems node_step_refines [of c b s e] have "node_inv c b (node_step s e)"
      "lifecycle_runs c b (lifecycle_of s) (lifecycle_of (node_step s e))" by simp_all
    with Cons show ?case by (auto intro: rtranclp_trans)
  qed simp
  from this [OF new_BccNode_inv assms] show ?thesis by (simp add: lifecycle_of_def new_BccNode_def)
qed

text \<open>
  C1. The class implements the lifecycle protocol: whatever methods are called, in whatever
  order the suspended ones resume and however the processes behave, what is broadcast to the
  renderer is a run of the abstract machine \<open>lifecycle_step\<close>.
\<close>

theorem node_refines_lifecycle:
  assumes "list_all (event_ok c b) es"
  shows "lifecycle_runs c b (STOPPED, 0, []) (lifecycle_of (run node_step new_BccNode es))"
  by (rule lifecycle_run [OF assms])

theorem node_refines_lifecycle_witness:
  "lifecycle_runs \<lparr>startupMaxRetries = 5, isSelfnode = False\<rparr> False (STOPPED, 0, [])
     (lifecycle_of (run node_step new_BccNode
        [StartRequested \<lparr>startupMaxRetries = 5, isSelfnode = False\<rparr>, Resume 0 Reject]))"
  by (rule node_refines_lifecycle) simp



text \<open>
  C3. The automatic restarts give up: the number of startup tries never exceeds the configured
  maximum plus the number of forced restarts the user asked for, and without forced restarts
  never the maximum, for every order of crashes, errors, stops and resumptions.
\<close>

theorem startup_tries_bounded:
  assumes "list_all (event_ok c True) es"
  shows "startupTries (run node_step new_BccNode es)
           \<le> startupMaxRetries c + length (filter (\<lambda>e. e = RestartRequested) es)"
proof -
  have forcing: "sum_list (map forcing es) = length (filter (\<lambda>e. e = RestartRequested) es)"
  proof (induction es)
    case (Cons e es)
    then show ?case by (cases e) simp_all
  qed simp
  have "excess c (run node_step new_BccNode es) \<le> excess c new_BccNode + sum_list (map forcing es)"
    using startups.run_weight new_BccNode_inv assms by blast
  moreover have "excess c new_BccNode = 0" by (simp add: excess_def forced_tasks_def new_BccNode_def)
  ultimately show ?thesis by (simp add: excess_def forcing)
qed

theorem startup_tries_bounded_witness:
  "startupTries (run node_step new_BccNode
     [StartRequested \<lparr>startupMaxRetries = 1, isSelfnode = False\<rparr>, Resume 0 Reject, RestartRequested]) \<le> 1 + 1"
  using startup_tries_bounded [of "\<lparr>startupMaxRetries = 1, isSelfnode = False\<rparr>"
    "[StartRequested \<lparr>startupMaxRetries = 1, isSelfnode = False\<rparr>, Resume 0 Reject, RestartRequested]"]
  by simp

subsection \<open>Particular runs\<close>

lemma resume_settled:
  "i < length (tasks s) \<Longrightarrow> tasks s ! i = Settled r' # f # rest \<Longrightarrow> resume i r s = advance i r' f rest s"
  by (simp add: resume_def)

lemma resume_leaf:
  "i < length (tasks s) \<Longrightarrow> tasks s ! i = Leaf l # f # rest \<Longrightarrow> allowed l r s \<Longrightarrow>
     resume i r s = advance i r f rest s"
  by (simp add: resume_def)

lemma resume_never:
  "tasks s ! i = NeverSettles # rest \<Longrightarrow> resume i r s = s"
  by (simp add: resume_def)

lemma resume_frame_appends: "\<exists>ts. tasks (fst (resume_frame r f s)) = tasks s @ ts"
proof -
  have e: "\<exists>ts. tasks (begin_handleBccNodeError s) = tasks s @ ts" for s using error_effects(3) by blast
  have e': "\<exists>ts. tasks (begin_handleBccNodeError (s\<lparr>nodes := ns\<rparr>)) = tasks s @ ts" for ns
    using e [of "s\<lparr>nodes := ns\<rparr>"] by simp
  show ?thesis
    by (cases f; cases r)
      (auto simp: start_checked_def start_failed_def stop_catch_def restart_catch_def exit_finish_def Let_def e e'
        split: option.split bool.split)
qed

lemma step_keeps_stuck:
  assumes "i < length (tasks s)" and "tasks s ! i = NeverSettles # rest"
  shows "i < length (tasks (node_step s e)) \<and> tasks (node_step s e) ! i = NeverSettles # rest"
proof (cases e)
  case (Resume j r)
  have "i < length (tasks (advance j r' f rest' s)) \<and> tasks (advance j r' f rest' s) ! i = NeverSettles # rest"
    if "j \<noteq> i" for r' f rest'
  proof -
    obtain s1 k where k: "resume_frame r' f s = (s1, k)" by (cases "resume_frame r' f s")
    with resume_frame_appends [of r' f s] obtain ts where "tasks s1 = tasks s @ ts" by auto
    with k assms that show ?thesis by (simp add: advance_def nth_append)
  qed
  with assms Resume show ?thesis
    by (cases "j = i") (auto simp: resume_def split: list.splits frame.splits)
next
  case (MessageReceived p fs)
  with assms show ?thesis by simp
qed (use assms in \<open>auto simp: nth_append begin_handleBccNodeExit_def onAwaitUpdate_def begin_expectNodeUpdate_def
    safeExit_def exitOnStop_def onCheckDiskSpace_def begin_setFault_def saveStatus_def Let_def split: option.split\<close>)

lemma run_keeps_stuck:
  "i < length (tasks s) \<Longrightarrow> tasks s ! i = NeverSettles # rest \<Longrightarrow>
     tasks (run node_step s es) ! i = NeverSettles # rest"
proof (induction es arbitrary: s)
  case (Cons e es)
  with step_keeps_stuck [of i s rest e] show ?case by simp
qed simp

text \<open>
  Killing a node that is dead already never settles its promise. When an update is awaited, it
  does not happen in time and no node object is left, the kill that follows hangs: no further
  event of any kind resumes the call, so the exit with code 20 that should follow is not reached.
\<close>

theorem kill_of_dead_node_never_settles:
  assumes "node s = None"
  shows "tasks (run node_step s ([UpdateAwaited, Resume (length (tasks s)) Reject, Resume (length (tasks s)) r] @ es))
           ! length (tasks s) = [NeverSettles, UpdateKilled, AwaitedUpdate]"
proof -
  let ?t = "run node_step s [UpdateAwaited, Resume (length (tasks s)) Reject, Resume (length (tasks s)) r]"
  have "length (tasks s) < length (tasks ?t)
      \<and> tasks ?t ! length (tasks s) = [NeverSettles, UpdateKilled, AwaitedUpdate]"
    using assms
    by (simp add: onAwaitUpdate_def begin_expectNodeUpdate_def resume_def advance_def fulfilled_def
        begin_kill_def isDead_def isConnected_def nth_append)
  then have "length (tasks s) < length (tasks ?t)"
    and "tasks ?t ! length (tasks s) = [NeverSettles, UpdateKilled, AwaitedUpdate]" by blast+
  then show ?thesis unfolding run_append by (rule run_keeps_stuck)
qed

theorem kill_of_dead_node_never_settles_witness:
  "tasks (run node_step new_BccNode [UpdateAwaited, Resume 0 Reject, Resume 0 Reject, SafeExit]) ! 0
     = [NeverSettles, UpdateKilled, AwaitedUpdate]"
  using kill_of_dead_node_never_settles [of new_BccNode Reject "[SafeExit]"]
  by (simp add: new_BccNode_def)

text \<open>
  C38. A running node that dies is started again. When its exit is reported and its process is gone,
  EXITING and CRASHED are broadcast, its pid is stored, a restart is scheduled (after 1 s for
  a node that had been running), and when the timer fires and no old process is in the
  way the node is STARTING with one more try.
\<close>

theorem crash_recovery:
  assumes "st s = RUNNING" and "cfg s = Some c" and "node s = Some n" and "node_pid (nodes s ! n) = Some p"
    and "disk_ok s" and "\<not> exitsOnStop s" and "startupTries s < startupMaxRetries c"
    and "i = length (tasks s)"
  shows "st (run node_step s [NodeExited code, Resume i (Fulfil True), Resume i r1, Resume (Suc i) (Fulfil True),
            Resume (Suc i) r2, Resume (Suc i) (Fulfil True)]) = STARTING
     \<and> startupTries (run node_step s [NodeExited code, Resume i (Fulfil True), Resume i r1, Resume (Suc i) (Fulfil True),
            Resume (Suc i) r2, Resume (Suc i) (Fulfil True)]) = Suc (startupTries s)
     \<and> storedPid (run node_step s [NodeExited code, Resume i (Fulfil True), Resume i r1]) = Some p
     \<and> tasks (run node_step s [NodeExited code, Resume i (Fulfil True), Resume i r1]) ! Suc i
         = [Leaf (LeafTimer (if startupTries s > 0 then 30000 else 1000)), CrashTimer]
     \<and> trace (run node_step s [NodeExited code, Resume i (Fulfil True), Resume i r1, Resume (Suc i) (Fulfil True),
            Resume (Suc i) r2, Resume (Suc i) (Fulfil True)])
         = trace s @ [BState EXITING, BState CRASHED, BState STARTING]"
proof -
  define s1 where "s1 = node_step s (NodeExited code)"
  define s2 where "s2 = node_step s1 (Resume i (Fulfil True))"
  define s3 where "s3 = node_step s2 (Resume i r1)"
  define s4 where "s4 = node_step s3 (Resume (Suc i) (Fulfil True))"
  define s5 where "s5 = node_step s4 (Resume (Suc i) r2)"
  define s6 where "s6 = node_step s5 (Resume (Suc i) (Fulfil True))"
  define timer where "timer = (if startupTries s > 0 then 30000 else (1000::nat))"
  note defs = resume_def advance_def fulfilled_def nth_append list_update_append
  have s1: "tasks s1 = tasks s @ [[Leaf LeafProcessExit, ExitWaited code (Some n) (Some c)]]"
    "st s1 = EXITING" "startupTries s1 = startupTries s" "cfg s1 = Some c" "node s1 = Some n"
    "nodes s1 = nodes s" "disk_ok s1" "\<not> exitsOnStop s1" "trace s1 = trace s @ [BState EXITING]"
    using assms by (simp_all add: s1_def begin_handleBccNodeExit_def)
  have s2: "tasks s2 = tasks s @ [[Settled (Fulfil True), ExitStored], [Leaf (LeafTimer timer), CrashTimer]]"
    "st s2 = CRASHED" "startupTries s2 = startupTries s" "cfg s2 = Some c" "storedPid s2 = Some p"
    "\<not> exitsOnStop s2" "trace s2 = trace s @ [BState EXITING, BState CRASHED]"
    using s1 assms(4,7,8)
    by (simp_all add: s2_def defs exit_finish_def then_store_def begin_storeProcessStates_def
        isUnrecoverable_def restartTimeout_def timer_def)
  have s3: "tasks s3 = tasks s @ [[], [Leaf (LeafTimer timer), CrashTimer]]"
    "st s3 = CRASHED" "startupTries s3 = startupTries s" "cfg s3 = Some c" "storedPid s3 = Some p"
    "\<not> exitsOnStop s3" "node s3 = None" "trace s3 = trace s @ [BState EXITING, BState CRASHED]"
    using s2 assms(8) by (simp_all add: s3_def defs reset_def)
  have s4: "tasks s4 = tasks s @ [[], [Settled (Fulfil True), RestartWaited (Some c) False, SetupRestarted]]"
    "startupTries s4 = startupTries s" "storedPid s4 = Some p"
    "\<not> exitsOnStop s4" "node s4 = None" "trace s4 = trace s @ [BState EXITING, BState CRASHED]"
    using s3 assms(8)
    by (simp_all add: s4_def defs begin_restart_def isConnected_def restart_continue_def
        waitForBccToExitOrKillIt_def)
  have s5: "tasks s5 = tasks s @ [[], [Leaf LeafCanStart, StartChecked (Some c) False, RestartStarted, SetupRestarted]]"
    "startupTries s5 = startupTries s" "trace s5 = trace s @ [BState EXITING, BState CRASHED]"
    using s4 assms(8)
    by (simp_all add: s5_def defs begin_start_def canBeStarted_frame_def isConnected_def)
  have s6: "st s6 = STARTING" "startupTries s6 = Suc (startupTries s)"
    "trace s6 = trace s @ [BState EXITING, BState CRASHED, BState STARTING]"
    using s5 assms(7,8) by (simp_all add: s6_def defs start_checked_def isUnrecoverable_def)
  have "run node_step s [NodeExited code, Resume i (Fulfil True), Resume i r1] = s3"
    by (simp only: run.simps s1_def s2_def s3_def)
  moreover have "run node_step s [NodeExited code, Resume i (Fulfil True), Resume i r1, Resume (Suc i) (Fulfil True),
            Resume (Suc i) r2, Resume (Suc i) (Fulfil True)] = s6"
    by (simp only: run.simps s1_def s2_def s3_def s4_def s5_def s6_def)
  ultimately show ?thesis
    using s3(1,5) s6 assms(8) by (simp only: timer_def) (simp add: nth_append)
qed

theorem crash_recovery_witness:
  "st (run node_step
      (new_BccNode\<lparr>st := RUNNING, cfg := Some \<lparr>startupMaxRetries = 5, isSelfnode = False\<rparr>, node := Some 0,
         nodes := [\<lparr>node_pid = Some 42, node_wpid = Some 43, node_connected = True\<rparr>]\<rparr>)
      [NodeExited 1, Resume 0 (Fulfil True), Resume 0 Reject, Resume 1 (Fulfil True), Resume 1 Reject,
       Resume 1 (Fulfil True)]) = STARTING"
  using crash_recovery [of "new_BccNode\<lparr>st := RUNNING, cfg := Some \<lparr>startupMaxRetries = 5, isSelfnode = False\<rparr>,
      node := Some 0, nodes := [\<lparr>node_pid = Some 42, node_wpid = Some 43, node_connected = True\<rparr>]\<rparr>"
      "\<lparr>startupMaxRetries = 5, isSelfnode = False\<rparr>" 0 42 0 1 Reject Reject]
  by (simp add: new_BccNode_def)

text \<open>
  Asking to exit while the node is being stopped has no effect of its own: the request only sets
  a flag, and when the stop ends nothing exits the application. Only a later restart
  honours the flag, by exiting with code 0 instead of starting the node.
\<close>

theorem exit_while_stopping_waits_for_restart:
  assumes "st s = STOPPING" and "i < length (tasks s)" and "tasks s ! i = [Leaf LeafProcessExit, StopExited]"
    and "node s = None"
  shows "trace (run node_step s [SafeExit, Resume i (Fulfil True), Resume i r1]) = trace s
     \<and> tasks (run node_step s [SafeExit, Resume i (Fulfil True), Resume i r1]) ! i = []
     \<and> trace (run node_step s [SafeExit, Resume i (Fulfil True), Resume i r1,
            RestartRequested, Resume (length (tasks s)) r2]) = trace s @ [ExitApp 0]"
proof -
  define s1 where "s1 = node_step s SafeExit"
  define s2 where "s2 = node_step s1 (Resume i (Fulfil True))"
  define s3 where "s3 = node_step s2 (Resume i r1)"
  define s4 where "s4 = node_step s3 RestartRequested"
  define s5 where "s5 = node_step s4 (Resume (length (tasks s)) r2)"
  note defs = resume_def advance_def fulfilled_def nth_append
  have s1: "s1 = s\<lparr>exitsOnStop := True\<rparr>" using assms(1) by (simp add: s1_def safeExit_def exitOnStop_def)
  have s2: "tasks s2 = (tasks s)[i := [Settled (Fulfil True), StopStored]]" "exitsOnStop s2"
    "trace s2 = trace s" "cfg s2 = cfg s"
    using assms by (simp_all add: s1 s2_def defs then_store_def begin_storeProcessStates_def)
  have s3: "tasks s3 = (tasks s)[i := []]" "exitsOnStop s3" "trace s3 = trace s" "node s3 = None"
    using assms s2 by (simp_all add: s3_def defs reset_def)
  have s4: "tasks s4 = (tasks s)[i := []] @ [[Settled (Fulfil True), RestartWaited (cfg s3) True]]"
    "exitsOnStop s4" "trace s4 = trace s"
    using s3 by (simp_all add: s4_def begin_restart_def isConnected_def restart_continue_def
        waitForBccToExitOrKillIt_def)
  have s5: "trace s5 = trace s @ [ExitApp 0]" using s4 by (simp add: s5_def defs)
  have "run node_step s [SafeExit, Resume i (Fulfil True), Resume i r1] = s3"
    by (simp only: run.simps s1_def s2_def s3_def)
  moreover have "run node_step s [SafeExit, Resume i (Fulfil True), Resume i r1,
            RestartRequested, Resume (length (tasks s)) r2] = s5"
    by (simp only: run.simps s1_def s2_def s3_def s4_def s5_def)
  ultimately show ?thesis using s3 s5 assms(2) by simp
qed

theorem exit_while_stopping_waits_for_restart_witness:
  "trace (run node_step (new_BccNode\<lparr>st := STOPPING, tasks := [[Leaf LeafProcessExit, StopExited]]\<rparr>)
     [SafeExit, Resume 0 (Fulfil True), Resume 0 Reject]) = []"
  using exit_while_stopping_waits_for_restart
    [of "new_BccNode\<lparr>st := STOPPING, tasks := [[Leaf LeafProcessExit, StopExited]]\<rparr>" 0 Reject Reject]
  by (simp add: new_BccNode_def)

end
