(* ===== verification/Network.thy ===== *)
theory Network imports BccNode Requests Complex_Main begin

text \<open>
  The renderer's view of the node, \<^verbatim>\<open>source/renderer/app/stores/NetworkStatusStore.js\<close>, with
  \<open>getNetworkInfo\<close> of \<^verbatim>\<open>source/renderer/app/api/api.js\<close>, which builds the answers it reads.

  The three polled API calls are request objects of the theory \<open>Requests\<close>. An asynchronous
  method of the store that waits is a task; it is resumed by an event, in any order, with the
  outcome its flight has in the request object or with the answer of the main process. The MobX
  reactions are events too: they may run at any time, which covers every schedule of MobX. The
  interval timers are kept with their ids, so that a timer that is set twice is a live timer no
  field refers to. The clock (\<open>Date.now\<close>) is an argument of the events that read it and may jump;
  the two readings within one synchronous block are one.
\<close>

subsection \<open>Data\<close>

datatype stage = NET_CONNECTING | NET_SYNCING | NET_RUNNING   \<comment> \<open>\<open>NETWORK_STATUS\<close>\<close>

definition NODE_STOPPING_STATES :: "node_state list" where
  "NODE_STOPPING_STATES = [EXITING, STOPPING, UPDATING]"

definition NODE_STOPPED_STATES :: "node_state list" where
  "NODE_STOPPED_STATES = [CRASHED, ERRORED, STOPPED, UPDATED, UNRECOVERABLE]"

definition MAX_ALLOWED_STALL_DURATION :: "bool \<Rightarrow> int" where
  "MAX_ALLOWED_STALL_DURATION test = (if test then 12 * 1000 else 7 * 60 * 1000)"

definition ALLOWED_TIME_DIFFERENCE :: int where
  "ALLOWED_TIME_DIFFERENCE = 4500000"

definition INITIAL_DESIRED_POOLS_NUMBER :: nat where
  "INITIAL_DESIRED_POOLS_NUMBER = 150"

record tip =
  tip_epoch :: nat
  tip_slot :: nat
  absoluteSlotNumber :: nat

text \<open>Epoch starts are instants in milliseconds; the empty string is \<open>None\<close>.\<close>

record epoch_info =
  epochNumber :: "nat option"
  epochStart :: "int option"

record info =
  info_syncProgress :: rat
  info_localTip :: tip
  info_networkTip :: "tip option"
  info_nextEpoch :: "epoch_info option"

datatype clock_status = ClockAvailable | ClockUnavailable | ClockPending

record clock =
  clock_status :: clock_status
  clock_offset :: "int option"

text \<open>The start of an era: the text of the answer and the instant \<open>new Date(text)\<close> gives, \<open>None\<close> for \<open>NaN\<close>.\<close>

type_synonym era_start = "string \<times> int option"

record params =
  par_decentralizationLevel :: rat
  par_desiredPoolNumber :: "nat option"
  par_slotLength :: nat
  par_epochLength :: nat
  par_eras :: "(era_start option \<times> era_start option) option"   \<comment> \<open>sophie, aurum\<close>

datatype api_error = TlsCertificateNotValidError | OtherApiError

datatype poll = StatusPoll | ClockPoll | ParamsPoll

datatype net_task =
    InfoTask bool nat       \<comment> \<open>\<open>_updateNetworkStatus\<close>: \<open>wasConnected\<close>, flight\<close>
  | ClockWait nat           \<comment> \<open>forced \<open>_updateNetworkClock\<close> behind a running check\<close>
  | ClockTask nat
  | ParamsTask nat
  | AskState                \<comment> \<open>\<open>_requestBccState\<close>\<close>
  | AskStatus               \<comment> \<open>\<open>_requestBccStatus\<close> of \<open>setup\<close>\<close>
  | RunningTls | RunningStatus   \<comment> \<open>the two waits of the RUNNING case\<close>
  | AskPath

datatype net_effect =
    SetRequestConfig tls | TlsConfigIsReady | StartMigration | IsSyncedAndReady | ResetWalletsData
  | CloseDialog | CacheStatus bcc_status nat nat | RestartSent | DiskCheckSent

record network =
  isTest :: bool
  netStage :: stage                                   \<comment> \<open>\<open>_networkStatus\<close>\<close>
  statusInterval :: "nat option"
  clockInterval :: "nat option"
  paramsInterval :: "nat option"
  liveTimers :: "(nat \<times> poll) list"
  nextTimer :: nat
  tlsConfig :: "tls option"
  bccNodeState :: "node_state option"
  bccNodePID :: nat
  bccWalletPID :: nat
  isNodeResponding :: bool
  isNodeSyncing :: bool
  isNodeInSync :: bool
  isNodeStopping :: bool
  isNodeStopped :: bool
  isNodeTimeCorrect :: bool
  isSystemTimeIgnored :: bool
  isSplashShown :: bool
  isSyncProgressStalling :: bool
  hasBeenConnected :: bool
  syncProgress :: "rat option"
  localTip :: "tip option"
  networkTip :: "tip option"
  nextEpoch :: "epoch_info option"
  futureEpoch :: "epoch_info option"
  lastSyncProgressChangeTimestamp :: int
  localTimeDifference :: "int option"
  decentralizationProgress :: rat
  desiredPoolNumber :: nat
  getNetworkInfoRequest :: "(unit, info, api_error) request"
  getNetworkClockRequest :: "(bool, clock, api_error) request"
  getNetworkParametersRequest :: "(unit, params, api_error) request"
  isNotEnoughDiskSpace :: bool
  diskSpace :: "string \<times> string \<times> string \<times> string"  \<comment> \<open>required, missing, recommended, available\<close>
  isTlsCertInvalid :: bool
  stateDirectoryPath :: string
  isSophieActivated :: bool
  isSophiePending :: bool
  sophieActivationTime :: string
  isAurumActivated :: bool
  isAurumPending :: bool
  aurumActivationTime :: string
  verificationProgress :: rat
  epochLength :: "nat option"
  slotLength :: "nat option"
  netTasks :: "net_task list"
  netTrace :: "net_effect list"

definition new_NetworkStatusStore :: "bool \<Rightarrow> bool \<Rightarrow> network" where
  "new_NetworkStatusStore test isFlight = \<lparr>
     isTest = test, netStage = NET_CONNECTING,
     statusInterval = None, clockInterval = None, paramsInterval = None,
     liveTimers = [], nextTimer = 1,
     tlsConfig = None, bccNodeState = None, bccNodePID = 0, bccWalletPID = 0,
     isNodeResponding = False, isNodeSyncing = False, isNodeInSync = False,
     isNodeStopping = False, isNodeStopped = False, isNodeTimeCorrect = True,
     isSystemTimeIgnored = False, isSplashShown = isFlight, isSyncProgressStalling = False,
     hasBeenConnected = False, syncProgress = None, localTip = None, networkTip = None,
     nextEpoch = None, futureEpoch = None, lastSyncProgressChangeTimestamp = 0,
     localTimeDifference = Some 0, decentralizationProgress = 0,
     desiredPoolNumber = INITIAL_DESIRED_POOLS_NUMBER,
     getNetworkInfoRequest = new_request PlainRequest,
     getNetworkClockRequest = new_request PlainRequest,
     getNetworkParametersRequest = new_request PlainRequest,
     isNotEnoughDiskSpace = False, diskSpace = ([], [], [], []), isTlsCertInvalid = False,
     stateDirectoryPath = [], isSophieActivated = False, isSophiePending = False,
     sophieActivationTime = [], isAurumActivated = False, isAurumPending = False,
     aurumActivationTime = [], verificationProgress = 0, epochLength = None, slotLength = None,
     netTasks = [], netTrace = []\<rparr>"

subsection \<open>The answers of the API\<close>

text \<open>
  What \<open>BccApi.getNetworkInfo\<close> makes of the wallet backend's answer: lodash's \<open>get\<close> replaces an
  absent field by its default, and an error is either the certificate error, recognised by its
  code, or a general one.
\<close>

record raw_tip =
  raw_epoch :: "nat option"
  raw_slot :: "nat option"
  raw_absolute :: "nat option"

record raw_info =
  raw_status :: "string option"
  raw_progress :: "rat option"
  raw_node_tip :: "raw_tip option"
  raw_network_tip :: "raw_tip option"
  raw_next_epoch :: "(nat option \<times> int option) option"

definition or_default :: "'a \<Rightarrow> 'a option \<Rightarrow> 'a" where
  "or_default d x = (case x of None \<Rightarrow> d | Some y \<Rightarrow> y)"

definition tip_of :: "raw_tip \<Rightarrow> tip" where
  "tip_of t = \<lparr>tip_epoch = or_default 0 (raw_epoch t), tip_slot = or_default 0 (raw_slot t),
               absoluteSlotNumber = or_default 0 (raw_absolute t)\<rparr>"

definition getNetworkInfo :: "string + raw_info \<Rightarrow> api_error + info" where
  "getNetworkInfo answer =
     (case answer of
        Inl code \<Rightarrow>
          Inl (if code = ''CERT_NOT_YET_VALID'' \<or> code = ''EPROTO'' then TlsCertificateNotValidError
               else OtherApiError)
      | Inr r \<Rightarrow> Inr \<lparr>
          info_syncProgress =
            (if raw_status r = Some ''ready'' then 100 else or_default 0 (raw_progress r)),
          info_localTip =
            (case raw_node_tip r of
               None \<Rightarrow> \<lparr>tip_epoch = 0, tip_slot = 0, absoluteSlotNumber = 0\<rparr>
             | Some t \<Rightarrow> tip_of t),
          info_networkTip = map_option tip_of (raw_network_tip r),
          info_nextEpoch =
            map_option (\<lambda>(n, t). \<lparr>epochNumber = n, epochStart = t\<rparr>) (raw_next_epoch r)\<rparr>)"

subsection \<open>Getters\<close>

definition isConnected :: "network \<Rightarrow> bool" where
  "isConnected s \<longleftrightarrow> isNodeResponding s \<and> isNodeSyncing s"

definition isSystemTimeCorrect :: "network \<Rightarrow> bool" where
  "isSystemTimeCorrect s \<longleftrightarrow> isNodeTimeCorrect s \<or> isSystemTimeIgnored s"

definition isSynced :: "network \<Rightarrow> bool" where
  "isSynced s \<longleftrightarrow> isConnected s \<and> isNodeInSync s \<and> isSystemTimeCorrect s"

definition syncPercentage :: "network \<Rightarrow> rat" where
  "syncPercentage s = or_default 0 (syncProgress s)"

definition get_absoluteSlotNumber :: "network \<Rightarrow> nat" where
  "get_absoluteSlotNumber s = (case networkTip s of None \<Rightarrow> 0 | Some t \<Rightarrow> absoluteSlotNumber t)"

definition isEpochsInfoAvailable :: "network \<Rightarrow> bool" where
  "isEpochsInfoAvailable s \<longleftrightarrow>
     (case nextEpoch s of None \<Rightarrow> False | Some e \<Rightarrow> epochNumber e \<noteq> None) \<and> networkTip s \<noteq> None"

definition isVerifyingBlockchain :: "network \<Rightarrow> bool" where
  "isVerifyingBlockchain s \<longleftrightarrow> \<not> isConnected s \<and> verificationProgress s < 100"

subsection \<open>Timers, tasks and messages\<close>

definition record_effect :: "net_effect \<Rightarrow> network \<Rightarrow> network" where
  "record_effect x s = s\<lparr>netTrace := netTrace s @ [x]\<rparr>"

definition add_task :: "net_task \<Rightarrow> network \<Rightarrow> network" where
  "add_task t s = s\<lparr>netTasks := netTasks s @ [t]\<rparr>"

definition set_interval :: "poll \<Rightarrow> network \<Rightarrow> network" where
  "set_interval p s = s\<lparr>liveTimers := liveTimers s @ [(nextTimer s, p)], nextTimer := Suc (nextTimer s)\<rparr>"

definition clear_interval :: "nat \<Rightarrow> network \<Rightarrow> network" where
  "clear_interval i s = s\<lparr>liveTimers := filter (\<lambda>t. fst t \<noteq> i) (liveTimers s)\<rparr>"

definition setNetworkStatusPollingInterval :: "network \<Rightarrow> network" where
  "setNetworkStatusPollingInterval s = (set_interval StatusPoll s)\<lparr>statusInterval := Some (nextTimer s)\<rparr>"

definition setNetworkClockPollingInterval :: "network \<Rightarrow> network" where
  "setNetworkClockPollingInterval s = (set_interval ClockPoll s)\<lparr>clockInterval := Some (nextTimer s)\<rparr>"

definition setNetworkParametersPollingInterval :: "network \<Rightarrow> network" where
  "setNetworkParametersPollingInterval s = (set_interval ParamsPoll s)\<lparr>paramsInterval := Some (nextTimer s)\<rparr>"

definition clearNetworkStatusPollingInterval :: "network \<Rightarrow> network" where
  "clearNetworkStatusPollingInterval s =
     (case statusInterval s of None \<Rightarrow> s | Some i \<Rightarrow> (clear_interval i s)\<lparr>statusInterval := None\<rparr>)"

definition clearNetworkClockPollingInterval :: "network \<Rightarrow> network" where
  "clearNetworkClockPollingInterval s =
     (case clockInterval s of None \<Rightarrow> s | Some i \<Rightarrow> (clear_interval i s)\<lparr>clockInterval := None\<rparr>)"

definition clearNetworkParametersPollingInterval :: "network \<Rightarrow> network" where
  "clearNetworkParametersPollingInterval s =
     (case paramsInterval s of None \<Rightarrow> s | Some i \<Rightarrow> (clear_interval i s)\<lparr>paramsInterval := None\<rparr>)"

definition teardown :: "network \<Rightarrow> network" where
  "teardown s = clearNetworkParametersPollingInterval
     (clearNetworkClockPollingInterval (clearNetworkStatusPollingInterval s))"

subsection \<open>Connection state\<close>

definition resetSystemTime :: "network \<Rightarrow> network" where
  "resetSystemTime s =
     s\<lparr>getNetworkClockRequest := Requests.reset (getNetworkClockRequest s),
       localTimeDifference := None, isNodeTimeCorrect := True, isSystemTimeIgnored := False\<rparr>"

definition setDisconnected :: "bool \<Rightarrow> network \<Rightarrow> network" where
  "setDisconnected wasConnected s =
     (let s1 = resetSystemTime
                 (s\<lparr>isNodeResponding := False, isNodeSyncing := False, isNodeInSync := False\<rparr>)
      in if wasConnected then s1\<lparr>hasBeenConnected := True\<rparr> else s1)"

definition updateTlsConfig :: "tls option \<Rightarrow> network \<Rightarrow> network" where
  "updateTlsConfig config s =
     (case config of
        None \<Rightarrow> s
      | Some c \<Rightarrow>
          if tlsConfig s = Some c then s
          else record_effect TlsConfigIsReady
                 ((record_effect (SetRequestConfig c) s)\<lparr>tlsConfig := Some c\<rparr>))"

text \<open>\<open>Object.assign(this, status)\<close> with what the main process cached, and the pids it adds.\<close>

definition assign_status :: "bcc_status option \<times> nat \<times> nat \<Rightarrow> network \<Rightarrow> network" where
  "assign_status x s =
     (case x of
        (None, pid, wpid) \<Rightarrow> s\<lparr>bccNodePID := pid, bccWalletPID := wpid\<rparr>
      | (Some b, pid, wpid) \<Rightarrow>
          s\<lparr>isNodeResponding := bcc_status.isNodeResponding b,
            isNodeSyncing := bcc_status.isNodeSyncing b,
            isNodeInSync := bcc_status.isNodeInSync b,
            hasBeenConnected := bcc_status.hasBeenConnected b,
            bccNodePID := pid, bccWalletPID := wpid\<rparr>)"

definition extractNodeStatus :: "network \<Rightarrow> bcc_status \<times> nat \<times> nat" where
  "extractNodeStatus s =
     (bcc_status.make (isNodeResponding s) (isNodeSyncing s) (isNodeInSync s) (hasBeenConnected s),
      bccNodePID s, bccWalletPID s)"

definition set_node_state :: "node_state \<Rightarrow> network \<Rightarrow> network" where
  "set_node_state x s =
     s\<lparr>bccNodeState := Some x,
       isNodeStopping := x \<in> set NODE_STOPPING_STATES,
       isNodeStopped := x \<in> set NODE_STOPPED_STATES\<rparr>"

definition handleBccNodeStateChange :: "node_state \<Rightarrow> network \<Rightarrow> network" where
  "handleBccNodeStateChange x s =
     (if bccNodeState s = Some x then s
      else (let wasConnected = isConnected s
            in if x = STARTING then set_node_state x s
               else if x = RUNNING then add_task RunningTls s
               else if x \<in> {STOPPING, EXITING, UPDATING}
               then set_node_state x
                      (record_effect CloseDialog (setDisconnected wasConnected (s\<lparr>tlsConfig := None\<rparr>)))
               else set_node_state x (setDisconnected wasConnected s)))"

definition restartNode :: "network \<Rightarrow> network" where
  "restartNode s = record_effect RestartSent (resetSystemTime s)"

definition toggleSplash :: "network \<Rightarrow> network" where
  "toggleSplash s = s\<lparr>isSplashShown := \<not> isSplashShown s\<rparr>"

definition ignoreSystemTimeChecks :: "bool \<Rightarrow> network \<Rightarrow> network" where
  "ignoreSystemTimeChecks flag s = s\<lparr>isSystemTimeIgnored := flag\<rparr>"

definition onCheckDiskSpace :: "bool \<Rightarrow> string \<times> string \<times> string \<times> string \<Rightarrow> network \<Rightarrow> network" where
  "onCheckDiskSpace notEnough sizes s =
     (let s1 = s\<lparr>isNotEnoughDiskSpace := notEnough, diskSpace := sizes\<rparr>
      in if notEnough
         then (case statusInterval s1 of
                 None \<Rightarrow> s1
               | Some i \<Rightarrow> (clear_interval i s1)\<lparr>statusInterval := None\<rparr>)
         else if statusInterval s1 = None then setNetworkStatusPollingInterval s1 else s1)"

definition onCheckVerificationProgress :: "rat \<Rightarrow> network \<Rightarrow> network" where
  "onCheckVerificationProgress p s = s\<lparr>verificationProgress := p\<rparr>"

definition onReceiveStateDirectoryPath :: "string \<Rightarrow> network \<Rightarrow> network" where
  "onReceiveStateDirectoryPath p s = s\<lparr>stateDirectoryPath := p\<rparr>"

subsection \<open>Network status\<close>

definition begin_updateNetworkStatus :: "network \<Rightarrow> network" where
  "begin_updateNetworkStatus s =
     (if tlsConfig s = None then s
      else (let r = execute () (getNetworkInfoRequest s)
            in add_task (InfoTask (isConnected s) (flight_of r)) (s\<lparr>getNetworkInfoRequest := r\<rparr>)))"

definition truthy_nat :: "nat option \<Rightarrow> bool" where
  "truthy_nat x \<longleftrightarrow> (case x of None \<Rightarrow> False | Some n \<Rightarrow> n \<noteq> 0)"

definition future_epoch :: "epoch_info option \<Rightarrow> network \<Rightarrow> epoch_info option" where
  "future_epoch next s =
     (case next of
        None \<Rightarrow> None
      | Some e \<Rightarrow>
          if truthy_nat (epochLength s) \<and> truthy_nat (slotLength s)
          then Some \<lparr>epochNumber = (if truthy_nat (epochNumber e) then map_option Suc (epochNumber e) else None),
                     epochStart = map_option (\<lambda>t. t + 1000 * int (the (epochLength s) * the (slotLength s)))
                                    (epochStart e)\<rparr>
          else None)"

text \<open>The update of \<open>isSyncProgressStalling\<close> and of the time of the last change.\<close>

definition progress_noted :: "int \<Rightarrow> rat option \<Rightarrow> network \<Rightarrow> bool" where
  "progress_noted now lastSyncProgress s \<longleftrightarrow>
     isNodeInSync s \<or> syncProgress s \<noteq> lastSyncProgress
     \<or> \<not> isSyncProgressStalling s
        \<and> (lastSyncProgressChangeTimestamp s > now
            \<or> \<not> isNodeTimeCorrect s \<and> \<not> isSystemTimeIgnored s)"

definition update_stalling :: "int \<Rightarrow> rat option \<Rightarrow> network \<Rightarrow> network" where
  "update_stalling now lastSyncProgress s =
     (let s1 = (if progress_noted now lastSyncProgress s
                then s\<lparr>lastSyncProgressChangeTimestamp := now\<rparr> else s)
      in s1\<lparr>isSyncProgressStalling :=
              now - lastSyncProgressChangeTimestamp s1 > MAX_ALLOWED_STALL_DURATION (isTest s1)\<rparr>)"

definition note_response :: "info \<Rightarrow> network \<Rightarrow> network" where
  "note_response i s =
     s\<lparr>isNodeResponding := True, localTip := Some (info_localTip i),
       networkTip := info_networkTip i, nextEpoch := info_nextEpoch i,
       futureEpoch := future_epoch (info_nextEpoch i) s,
       netStage := (if netStage s = NET_CONNECTING then NET_SYNCING else netStage s)\<rparr>"

definition update_progress :: "int \<Rightarrow> info \<Rightarrow> network \<Rightarrow> network" where
  "update_progress now i s =
     (let s1 = s\<lparr>syncProgress := Some (info_syncProgress i), isNodeInSync := info_syncProgress i = 100\<rparr>;
          s2 = update_stalling now (syncProgress s) s1
      in s2\<lparr>isNodeSyncing := \<not> isSyncProgressStalling s2\<rparr>)"

definition enter_running :: "network \<Rightarrow> network" where
  "enter_running s =
     (if netStage s = NET_SYNCING \<and> isNodeInSync s
      then record_effect IsSyncedAndReady (s\<lparr>netStage := NET_RUNNING\<rparr>) else s)"

definition note_connection_change :: "bool \<Rightarrow> network \<Rightarrow> network" where
  "note_connection_change wasConnected s =
     (if wasConnected = isConnected s then s
      else (let s1 = (if \<not> isConnected s then s\<lparr>hasBeenConnected := True\<rparr>
                      else if hasBeenConnected s then record_effect ResetWalletsData s else s)
            in s1\<lparr>isTlsCertInvalid := False\<rparr>))"

definition reset_info_errors :: "network \<Rightarrow> network" where
  "reset_info_errors s =
     (if error (getNetworkInfoRequest s) \<noteq> None
      then s\<lparr>getNetworkInfoRequest := Requests.reset (getNetworkInfoRequest s)\<rparr> else s)"

definition network_status_received :: "int \<Rightarrow> bool \<Rightarrow> info \<Rightarrow> network \<Rightarrow> network" where
  "network_status_received now wasConnected i s =
     (if tlsConfig s = None then s
      else reset_info_errors (note_connection_change wasConnected
             (enter_running (update_progress now i (note_response i s)))))"

definition network_status_failed :: "bool \<Rightarrow> api_error \<Rightarrow> network \<Rightarrow> network" where
  "network_status_failed wasConnected e s =
     (let s1 = setDisconnected wasConnected s
      in if e = TlsCertificateNotValidError then s1\<lparr>isTlsCertInvalid := True\<rparr> else s1)"

subsection \<open>Network clock\<close>

definition clock_execute :: "bool \<Rightarrow> network \<Rightarrow> network" where
  "clock_execute isForceCheck s =
     (let r = execute isForceCheck (getNetworkClockRequest s)
      in add_task (ClockTask (flight_of r)) (s\<lparr>getNetworkClockRequest := r\<rparr>))"

definition begin_updateNetworkClock :: "bool \<Rightarrow> network \<Rightarrow> network" where
  "begin_updateNetworkClock isForceCheck s =
     (if \<not> isNodeResponding s \<or> isSystemTimeIgnored s \<and> \<not> isForceCheck then s
      else if isExecuting (getNetworkClockRequest s)
      then if isForceCheck
           then (case then_promise (getNetworkClockRequest s) of
                   Inl _ \<Rightarrow> s
                 | Inr n \<Rightarrow> add_task (ClockWait n) s)
           else s
      else clock_execute isForceCheck s)"

definition forceCheckNetworkClock :: "network \<Rightarrow> network" where
  "forceCheckNetworkClock s = begin_updateNetworkClock True s"

definition time_correct :: "int option \<Rightarrow> bool" where
  "time_correct d \<longleftrightarrow> (case d of None \<Rightarrow> False | Some x \<Rightarrow> \<bar>x\<bar> \<le> ALLOWED_TIME_DIFFERENCE)"

definition network_clock_received :: "clock \<Rightarrow> network \<Rightarrow> network" where
  "network_clock_received c s =
     (if clock_status c = ClockPending then s
      else clearNetworkClockPollingInterval
             (s\<lparr>localTimeDifference := clock_offset c,
                isNodeTimeCorrect := time_correct (clock_offset c)\<rparr>))"

subsection \<open>Network parameters\<close>

definition begin_getNetworkParameters :: "network \<Rightarrow> network" where
  "begin_getNetworkParameters s =
     (if \<not> isNodeResponding s then s
      else (let r = execute () (getNetworkParametersRequest s)
            in add_task (ParamsTask (flight_of r)) (s\<lparr>getNetworkParametersRequest := r\<rparr>)))"

definition era_phase :: "int \<Rightarrow> era_start option \<Rightarrow> bool \<times> bool \<Rightarrow> bool \<times> bool \<times> string" where
  "era_phase now start old =
     (case start of
        None \<Rightarrow> (fst old, snd old, [])
      | Some (text, t) \<Rightarrow>
          if text = [] then (fst old, snd old, [])
          else (case t of
                  None \<Rightarrow> (False, False, text)        \<comment> \<open>comparisons with \<open>NaN\<close>\<close>
                | Some x \<Rightarrow> (now \<ge> x, now < x, text)))"

definition network_parameters_received :: "int \<Rightarrow> params \<Rightarrow> network \<Rightarrow> network" where
  "network_parameters_received now p s =
     (let s1 = (case par_eras p of
                  None \<Rightarrow> s
                | Some (sophie, aurum) \<Rightarrow>
                    (case era_phase now sophie (isSophieActivated s, isSophiePending s) of
                       (sa, sp, stime) \<Rightarrow>
                         (case era_phase now aurum (isAurumActivated s, isAurumPending s) of
                            (aa, ap, atime) \<Rightarrow>
                              s\<lparr>isSophieActivated := sa, isSophiePending := sp, sophieActivationTime := stime,
                                isAurumActivated := aa, isAurumPending := ap, aurumActivationTime := atime\<rparr>)))
      in s1\<lparr>decentralizationProgress := par_decentralizationLevel p,
            desiredPoolNumber := (if truthy_nat (par_desiredPoolNumber p) then the (par_desiredPoolNumber p)
                                  else INITIAL_DESIRED_POOLS_NUMBER),
            slotLength := Some (par_slotLength p), epochLength := Some (par_epochLength p)\<rparr>)"

definition network_parameters_failed :: "network \<Rightarrow> network" where
  "network_parameters_failed s = s\<lparr>decentralizationProgress := 0\<rparr>"

subsection \<open>Setup and reactions\<close>

definition updateNetworkStatusWhenDisconnected :: "network \<Rightarrow> network" where
  "updateNetworkStatusWhenDisconnected s =
     (if \<not> isConnected s
      then (let s1 = begin_updateNetworkStatus s
            in if clockInterval s1 = None then setNetworkClockPollingInterval s1 else s1)
      else s)"

definition updateNetworkStatusWhenConnected :: "network \<Rightarrow> network" where
  "updateNetworkStatusWhenConnected s =
     (if isConnected s then record_effect StartMigration (begin_updateNetworkStatus s) else s)"

definition updateNodeStatus :: "network \<Rightarrow> network" where
  "updateNodeStatus s =
     (if isTest s \<and> \<not> isConnected s then s
      else (case extractNodeStatus s of (b, pid, wpid) \<Rightarrow> record_effect (CacheStatus b pid wpid) s))"

definition setup_network :: "network \<Rightarrow> network" where
  "setup_network s =
     (let s1 = add_task AskStatus (add_task AskState s);
          s2 = setNetworkParametersPollingInterval (setNetworkClockPollingInterval
                 (setNetworkStatusPollingInterval s1))
      in add_task AskPath (record_effect DiskCheckSent s2))"

definition initialize :: "network \<Rightarrow> network" where
  "initialize s = updateNodeStatus (updateNetworkStatusWhenDisconnected
     (updateNetworkStatusWhenConnected (setup_network s)))"

subsection \<open>Events\<close>

datatype ipc_answer =
    GotTls "tls option" | GotStatus "bcc_status option \<times> nat \<times> nat" | GotState node_state
  | GotPath string | GotError

definition poll_step :: "poll \<Rightarrow> network \<Rightarrow> network" where
  "poll_step p s =
     (case p of
        StatusPoll \<Rightarrow> begin_updateNetworkStatus s
      | ClockPoll \<Rightarrow> begin_updateNetworkClock False s
      | ParamsPoll \<Rightarrow> begin_getNetworkParameters s)"

definition resume_task :: "int \<Rightarrow> net_task \<Rightarrow> network \<Rightarrow> network option" where
  "resume_task now t s =
     (case t of
        InfoTask wasConnected n \<Rightarrow>
          map_option (\<lambda>x. case x of
              Inl e \<Rightarrow> network_status_failed wasConnected e s
            | Inr i \<Rightarrow> network_status_received now wasConnected i s) (outcome_of n (getNetworkInfoRequest s))
      | ClockWait n \<Rightarrow>
          map_option (\<lambda>x. case x of Inl e \<Rightarrow> s | Inr c \<Rightarrow> clock_execute True s)
            (outcome_of n (getNetworkClockRequest s))
      | ClockTask n \<Rightarrow>
          map_option (\<lambda>x. case x of Inl e \<Rightarrow> s | Inr c \<Rightarrow> network_clock_received c s)
            (outcome_of n (getNetworkClockRequest s))
      | ParamsTask n \<Rightarrow>
          map_option (\<lambda>x. case x of
              Inl e \<Rightarrow> network_parameters_failed s
            | Inr p \<Rightarrow> network_parameters_received now p s) (outcome_of n (getNetworkParametersRequest s))
      | _ \<Rightarrow> None)"

text \<open>
  An answer of the main process. The \<open>RUNNING\<close> case of \<open>_handleBccNodeStateChange\<close> goes on whether
  its requests succeed or fail, both catch their errors.
\<close>

definition answer_task :: "ipc_answer \<Rightarrow> net_task \<Rightarrow> network \<Rightarrow> network option" where
  "answer_task a t s =
     (case (t, a) of
        (AskState, GotState x) \<Rightarrow> Some (handleBccNodeStateChange x s)
      | (AskState, GotError) \<Rightarrow> Some s
      | (AskStatus, GotStatus x) \<Rightarrow> Some (assign_status x s)
      | (AskStatus, GotError) \<Rightarrow> Some s
      | (AskPath, GotPath p) \<Rightarrow> Some (onReceiveStateDirectoryPath p s)
      | (AskPath, GotError) \<Rightarrow> Some s
      | (RunningTls, GotTls c) \<Rightarrow> Some (add_task RunningStatus (updateTlsConfig c s))
      | (RunningTls, GotError) \<Rightarrow> Some (add_task RunningStatus s)
      | (RunningStatus, GotStatus x) \<Rightarrow> Some (set_node_state RUNNING (assign_status x s))
      | (RunningStatus, GotError) \<Rightarrow> Some (set_node_state RUNNING s)
      | _ \<Rightarrow> None)"

definition with_task :: "nat \<Rightarrow> (net_task \<Rightarrow> network \<Rightarrow> network option) \<Rightarrow> network \<Rightarrow> network" where
  "with_task i f s =
     (if i < length (netTasks s)
      then (case f (netTasks s ! i) (s\<lparr>netTasks := remove_nth i (netTasks s)\<rparr>) of
              None \<Rightarrow> s | Some s' \<Rightarrow> s')
      else s)"

datatype net_event =
    TimerFires nat
  | ReactDisconnected | ReactConnected | ReactNodeStatus
  | TlsBroadcast "tls option" | StateBroadcast node_state
  | DiskSpaceReport bool "string \<times> string \<times> string \<times> string" | BlockReplay rat
  | RestartAction | ToggleSplashAction | ForceClockAction | IgnoreTime bool | Teardown
  | InfoApi nat "api_error + info" | ClockApi nat "api_error + clock" | ParamsApi nat "api_error + params"
  | InfoTick | ClockTick | ParamsTick
  | ResumeTask nat int
  | AnswerTask nat ipc_answer

fun net_step :: "network \<Rightarrow> net_event \<Rightarrow> network" where
  "net_step s (TimerFires i) =
     (case map_of (liveTimers s) i of None \<Rightarrow> s | Some p \<Rightarrow> poll_step p s)"
| "net_step s ReactDisconnected = updateNetworkStatusWhenDisconnected s"
| "net_step s ReactConnected = updateNetworkStatusWhenConnected s"
| "net_step s ReactNodeStatus = updateNodeStatus s"
| "net_step s (TlsBroadcast c) = updateTlsConfig c s"
| "net_step s (StateBroadcast x) = handleBccNodeStateChange x s"
| "net_step s (DiskSpaceReport b sizes) = onCheckDiskSpace b sizes s"
| "net_step s (BlockReplay p) = onCheckVerificationProgress p s"
| "net_step s RestartAction = restartNode s"
| "net_step s ToggleSplashAction = toggleSplash s"
| "net_step s ForceClockAction = forceCheckNetworkClock s"
| "net_step s (IgnoreTime b) = ignoreSystemTimeChecks b s"
| "net_step s Teardown = teardown s"
| "net_step s (InfoApi n x) =
     s\<lparr>getNetworkInfoRequest := request_step (getNetworkInfoRequest s) (Respond n x)\<rparr>"
| "net_step s (ClockApi n x) =
     s\<lparr>getNetworkClockRequest := request_step (getNetworkClockRequest s) (Respond n x)\<rparr>"
| "net_step s (ParamsApi n x) =
     s\<lparr>getNetworkParametersRequest := request_step (getNetworkParametersRequest s) (Respond n x)\<rparr>"
| "net_step s InfoTick = s\<lparr>getNetworkInfoRequest := request_step (getNetworkInfoRequest s) Tick\<rparr>"
| "net_step s ClockTick = s\<lparr>getNetworkClockRequest := request_step (getNetworkClockRequest s) Tick\<rparr>"
| "net_step s ParamsTick =
     s\<lparr>getNetworkParametersRequest := request_step (getNetworkParametersRequest s) Tick\<rparr>"
| "net_step s (ResumeTask i now) = with_task i (resume_task now) s"
| "net_step s (AnswerTask i a) = with_task i (answer_task a) s"

lemmas net_sync_defs [model_defs] =
  record_effect_def add_task_def set_interval_def clear_interval_def resetSystemTime_def
  setDisconnected_def updateTlsConfig_def set_node_state_def assign_status_def
  handleBccNodeStateChange_def restartNode_def toggleSplash_def ignoreSystemTimeChecks_def
  onCheckVerificationProgress_def onReceiveStateDirectoryPath_def

lemmas net_poll_defs [model_defs] =
  begin_updateNetworkStatus_def begin_updateNetworkClock_def clock_execute_def
  forceCheckNetworkClock_def begin_getNetworkParameters_def poll_step_def

lemmas net_timer_defs [model_defs] =
  setNetworkStatusPollingInterval_def setNetworkClockPollingInterval_def
  setNetworkParametersPollingInterval_def clearNetworkStatusPollingInterval_def
  clearNetworkClockPollingInterval_def clearNetworkParametersPollingInterval_def teardown_def
  onCheckDiskSpace_def

lemmas net_answer_defs [model_defs] =
  note_response_def update_progress_def update_stalling_def enter_running_def
  note_connection_change_def reset_info_errors_def network_status_received_def
  network_status_failed_def network_clock_received_def network_parameters_received_def
  network_parameters_failed_def

lemmas net_react_defs [model_defs] =
  updateNetworkStatusWhenDisconnected_def updateNetworkStatusWhenConnected_def updateNodeStatus_def

subsection \<open>What a step can change\<close>

text \<open>
  A property of the state that the tasks do not matter for holds after a resumption when every
  outcome keeps it.
\<close>

lemma with_task_keeps:
  assumes "P s" and "\<And>t s'. P (s\<lparr>netTasks := s'\<rparr>)"
    and "\<And>t s s'. P s \<Longrightarrow> f t s = Some s' \<Longrightarrow> P s'"
  shows "P (with_task i f s)"
  using assms by (auto simp: with_task_def split: option.splits)

text \<open>
  The invariant, one predicate per concern over the fields it reads: the store announces that it
  is synced once, when it enters the last stage; each polling field holds the one live timer of
  its kind; an era is not both pending and activated; the verdict on the system time agrees with the
  last measured difference; the API has been configured before it is asked for the status.
\<close>

definition stage_ok :: "stage \<Rightarrow> net_effect list \<Rightarrow> bool" where
  "stage_ok x tr \<longleftrightarrow> count_list tr IsSyncedAndReady = (if x = NET_RUNNING then 1 else 0)"

definition interval_of :: "nat option \<Rightarrow> nat option \<Rightarrow> nat option \<Rightarrow> poll \<Rightarrow> nat option" where
  "interval_of a b c p = (case p of StatusPoll \<Rightarrow> a | ClockPoll \<Rightarrow> b | ParamsPoll \<Rightarrow> c)"

definition phase_ok :: "bool \<Rightarrow> bool \<Rightarrow> bool" where
  "phase_ok activated pending \<longleftrightarrow> \<not> (activated \<and> pending)"

definition clock_ok :: "bool \<Rightarrow> int option \<Rightarrow> bool" where
  "clock_ok correct d \<longleftrightarrow> (if correct then d = None \<or> time_correct d else \<not> time_correct d)"

definition configured :: "tls option \<Rightarrow> bool \<Rightarrow> net_effect list \<Rightarrow> bool" where
  "configured tc asked tr \<longleftrightarrow> (\<forall>c. tc = Some c \<longrightarrow> SetRequestConfig c \<in> set tr)
     \<and> (asked \<longrightarrow> (\<exists>c. SetRequestConfig c \<in> set tr))"

definition net_inv :: "network \<Rightarrow> bool" where
  "net_inv s \<longleftrightarrow> stage_ok (netStage s) (netTrace s)
     \<and> timers_ok (liveTimers s) (nextTimer s)
         (interval_of (statusInterval s) (clockInterval s) (paramsInterval s))
     \<and> phase_ok (isSophieActivated s) (isSophiePending s)
     \<and> phase_ok (isAurumActivated s) (isAurumPending s)
     \<and> clock_ok (isNodeTimeCorrect s) (localTimeDifference s)
     \<and> configured (tlsConfig s) (flights (getNetworkInfoRequest s) \<noteq> []) (netTrace s)"

lemma stage_ok_snoc: "x \<noteq> IsSyncedAndReady \<Longrightarrow> stage_ok k (tr @ [x]) = stage_ok k tr"
  by (simp add: stage_ok_def)

lemma stage_ok_later: "stage_ok k tr \<Longrightarrow> k = NET_CONNECTING \<Longrightarrow> stage_ok NET_SYNCING tr"
  by (simp add: stage_ok_def)

lemma stage_ok_enter: "stage_ok NET_SYNCING tr \<Longrightarrow> stage_ok NET_RUNNING (tr @ [IsSyncedAndReady])"
  by (simp add: stage_ok_def)

lemma configured_snoc: "configured tc b tr \<Longrightarrow> configured tc b (tr @ [x])"
  by (auto simp: configured_def)

lemma configured_None: "configured tc b tr \<Longrightarrow> configured None b tr"
  by (simp add: configured_def)

lemma configured_Some: "configured tc b tr \<Longrightarrow> SetRequestConfig c \<in> set tr \<Longrightarrow> configured (Some c) b' tr"
  by (auto simp: configured_def)

lemma configured_asked: "configured (Some c) b tr \<Longrightarrow> configured (Some c) b' tr"
  by (auto simp: configured_def)

lemma clock_ok_simps [simp]:
  "clock_ok True None" "clock_ok (time_correct d) d"
  by (simp_all add: clock_ok_def)

lemma interval_of_upd:
  "(interval_of a b c)(StatusPoll := x) = interval_of x b c"
  "(interval_of a b c)(ClockPoll := x) = interval_of a x c"
  "(interval_of a b c)(ParamsPoll := x) = interval_of a b x"
  by (auto simp: interval_of_def fun_eq_iff split: poll.split)

lemma timers_ok_fields:
  assumes "timers_ok live next (interval_of a b c)"
  shows "a = None \<Longrightarrow> timers_ok (live @ [(next, StatusPoll)]) (Suc next) (interval_of (Some next) b c)"
    and "b = None \<Longrightarrow> timers_ok (live @ [(next, ClockPoll)]) (Suc next) (interval_of a (Some next) c)"
    and "c = None \<Longrightarrow> timers_ok (live @ [(next, ParamsPoll)]) (Suc next) (interval_of a b (Some next))"
    and "a = Some i \<Longrightarrow> timers_ok (filter (\<lambda>t. fst t \<noteq> i) live) next (interval_of None b c)"
    and "b = Some i \<Longrightarrow> timers_ok (filter (\<lambda>t. fst t \<noteq> i) live) next (interval_of a None c)"
    and "c = Some i \<Longrightarrow> timers_ok (filter (\<lambda>t. fst t \<noteq> i) live) next (interval_of a b None)"
  using timers_ok_add [OF assms, of StatusPoll] timers_ok_add [OF assms, of ClockPoll]
    timers_ok_add [OF assms, of ParamsPoll] timers_ok_remove [OF assms, of StatusPoll i]
    timers_ok_remove [OF assms, of ClockPoll i] timers_ok_remove [OF assms, of ParamsPoll i]
  by (simp_all add: interval_of_upd) (simp_all add: interval_of_def)

lemma flights_fire [simp]: "length (flights (fire t r)) = length (flights r)"
  by (cases "(t, r)" rule: fire.cases)
    (auto simp: Let_def write_current_def settle_flight_def split: option.splits)

lemma flights_environment [simp]:
  "flights (request_step r (Respond n x)) = flights r"
  "length (flights (request_step r Tick)) = length (flights r)"
  "flights (Requests.reset r) = flights r"
  by (simp_all add: reset_def split: list.split)

lemma flights_Tick_Nil [simp]: "flights (request_step r Tick) = [] \<longleftrightarrow> flights r = []"
  using flights_environment(2) [of r] by (metis length_0_conv)

lemmas net_keep = stage_ok_later stage_ok_enter configured_snoc configured_None
  configured_Some configured_asked timers_ok_fields

lemma net_inv_basic [intro]:
  assumes "net_inv s"
  shows "x \<noteq> IsSyncedAndReady \<Longrightarrow> net_inv (record_effect x s)"
    and "net_inv (add_task t s)"
    and "net_inv (s\<lparr>netTasks := ts\<rparr>)"
    and "net_inv (s\<lparr>tlsConfig := None\<rparr>)"
    and "net_inv (resetSystemTime s)"
    and "net_inv (setDisconnected w s)"
    and "net_inv (set_node_state y s)"
    and "net_inv (assign_status stat s)"
    and "net_inv (toggleSplash s)"
    and "net_inv (ignoreSystemTimeChecks b s)"
    and "net_inv (onCheckVerificationProgress p s)"
    and "net_inv (onReceiveStateDirectoryPath path s)"
    and "net_inv (update_stalling now pr s)"
    and "net_inv (reset_info_errors s)"
    and "net_inv (network_parameters_failed s)"
  using assms
  by (auto simp: net_inv_def net_sync_defs net_answer_defs stage_ok_snoc Let_def split: option.split prod.split
      intro: net_keep)

lemma net_inv_updateTlsConfig [intro]: "net_inv s \<Longrightarrow> net_inv (updateTlsConfig c s)"
  by (auto simp: net_inv_def updateTlsConfig_def record_effect_def stage_ok_def configured_def
      split: option.split)

lemma net_inv_moves [intro]:
  assumes "net_inv s"
  shows "net_inv (note_response i s)"
    and "net_inv (update_progress now i s)"
    and "net_inv (enter_running s)"
    and "net_inv (note_connection_change w s)"
    and "net_inv (network_clock_received clk s)"
    and "net_inv (network_parameters_received now p s)"
  using assms
  by (auto simp: net_inv_def net_sync_defs net_answer_defs net_timer_defs stage_ok_snoc era_phase_def
      phase_ok_def Let_def split: option.split prod.split intro: net_keep)

lemma net_inv_timers [intro]:
  assumes "net_inv s"
  shows "statusInterval s = None \<Longrightarrow> net_inv (setNetworkStatusPollingInterval s)"
    and "clockInterval s = None \<Longrightarrow> net_inv (setNetworkClockPollingInterval s)"
    and "paramsInterval s = None \<Longrightarrow> net_inv (setNetworkParametersPollingInterval s)"
    and "net_inv (clearNetworkStatusPollingInterval s)"
    and "net_inv (clearNetworkClockPollingInterval s)"
    and "net_inv (clearNetworkParametersPollingInterval s)"
    and "net_inv (onCheckDiskSpace notEnough sizes s)"
  using assms
  by (auto simp: net_inv_def net_sync_defs net_timer_defs Let_def split: option.split intro: net_keep)

lemma net_inv_requests [intro]:
  assumes "net_inv s"
  shows "net_inv (begin_updateNetworkStatus s)"
    and "net_inv (clock_execute b s)"
    and "net_inv (begin_getNetworkParameters s)"
  using assms
  by (auto simp: net_inv_def net_sync_defs net_poll_defs Let_def intro: net_keep)

lemma net_inv_handle [intro]: "net_inv s \<Longrightarrow> net_inv (handleBccNodeStateChange x s)"
  unfolding handleBccNodeStateChange_def Let_def by (auto intro!: net_inv_basic)

lemma net_inv_clock [intro]: "net_inv s \<Longrightarrow> net_inv (begin_updateNetworkClock b s)"
  by (auto simp: begin_updateNetworkClock_def split: sum.split)

lemma net_inv_received [intro]:
  assumes "net_inv s"
  shows "net_inv (network_status_received now w i s)" and "net_inv (network_status_failed w e s)"
proof -
  show "net_inv (network_status_received now w i s)"
    using assms unfolding network_status_received_def
    by (auto intro!: net_inv_basic(14) net_inv_moves)
  from assms have "net_inv (setDisconnected w s)" ..
  then show "net_inv (network_status_failed w e s)"
    by (simp add: network_status_failed_def Let_def net_inv_def)
qed

lemma case_sum_keeps: "(\<And>x. P (f x)) \<Longrightarrow> (\<And>y. P (g y)) \<Longrightarrow> P (case z of Inl x \<Rightarrow> f x | Inr y \<Rightarrow> g y)"
  by (cases z) simp_all

lemma net_inv_resume: "net_inv s \<Longrightarrow> resume_task now t s = Some s' \<Longrightarrow> net_inv s'"
  by (cases t) (auto simp: resume_task_def intro: case_sum_keeps)

lemma net_inv_answer: "net_inv s \<Longrightarrow> answer_task a t s = Some s' \<Longrightarrow> net_inv s'"
  by (cases t; cases a) (auto simp: answer_task_def)

lemma net_inv_environment:
  assumes "net_inv s"
  shows "net_inv (net_step s (InfoApi n x))" and "net_inv (net_step s InfoTick)"
    and "net_inv (net_step s (ClockApi n y))" and "net_inv (net_step s ClockTick)"
    and "net_inv (net_step s (ParamsApi n z))" and "net_inv (net_step s ParamsTick)"
  using assms by (simp_all add: net_inv_def del: request_step.simps)

lemma net_inv_reactions [intro]:
  assumes "net_inv s"
  shows "net_inv (updateNetworkStatusWhenDisconnected s)"
    and "net_inv (updateNetworkStatusWhenConnected s)"
    and "net_inv (updateNodeStatus s)"
    and "net_inv (restartNode s)"
    and "net_inv (teardown s)"
    and "net_inv (poll_step p s)"
  using assms unfolding net_react_defs restartNode_def teardown_def poll_step_def Let_def
  by (auto split: prod.split poll.split)

lemma net_inv_with_task [intro]:
  assumes "net_inv s"
  shows "net_inv (with_task i (resume_task now) s)" and "net_inv (with_task i (answer_task a) s)"
  using assms unfolding with_task_def
  by (auto split: option.split intro: net_inv_resume net_inv_answer)

lemma net_inv_step:
  assumes "net_inv s"
  shows "net_inv (net_step s e)"
proof (cases e)
  case (TimerFires i)
  with assms show ?thesis by (auto split: option.split)
qed (use net_inv_environment [OF assms] net_inv_with_task [OF assms] assms in
    \<open>simp only: net_step.simps forceCheckNetworkClock_def; blast\<close>)+

lemma net_inv_new: "net_inv (new_NetworkStatusStore test fl)"
  by (auto simp: net_inv_def new_NetworkStatusStore_def stage_ok_def timers_ok_def timer_of_def
      interval_of_def phase_ok_def clock_ok_def time_correct_def ALLOWED_TIME_DIFFERENCE_def
      configured_def new_request_def split: poll.split)

lemma net_inv_setup:
  assumes "net_inv s" and "statusInterval s = None" "clockInterval s = None" "paramsInterval s = None"
  shows "net_inv (setup_network s)"
  using assms unfolding setup_network_def Let_def
  by (intro net_inv_basic net_inv_timers)
    (simp_all add: net_timer_defs set_interval_def add_task_def)

definition started :: "bool \<Rightarrow> bool \<Rightarrow> network" where
  "started test isFlight = initialize (new_NetworkStatusStore test isFlight)"

lemma net_inv_started: "net_inv (started test fl)"
  unfolding started_def initialize_def
  by (intro net_inv_reactions net_inv_setup net_inv_new) (simp_all add: new_NetworkStatusStore_def)

interpretation network: machine net_step net_inv
  by unfold_locales (rule net_inv_step)

lemma net_inv_run: "net_inv (run net_step (started test fl) es)"
  by (rule network.run_inv [OF net_inv_started])

subsection \<open>The stage only advances\<close>

fun stage_rank :: "stage \<Rightarrow> nat" where
  "stage_rank NET_CONNECTING = 0"
| "stage_rank NET_SYNCING = 1"
| "stage_rank NET_RUNNING = 2"

lemma netStage_kept [simp]:
  "netStage (record_effect x s) = netStage s" "netStage (add_task t s) = netStage s"
  "netStage (set_interval p s) = netStage s" "netStage (clear_interval i s) = netStage s"
  "netStage (resetSystemTime s) = netStage s" "netStage (setDisconnected w s) = netStage s"
  "netStage (updateTlsConfig c s) = netStage s" "netStage (assign_status stat s) = netStage s"
  "netStage (set_node_state y s) = netStage s" "netStage (begin_updateNetworkStatus s) = netStage s"
  "netStage (clock_execute b s) = netStage s" "netStage (begin_getNetworkParameters s) = netStage s"
  "netStage (update_stalling now pr s) = netStage s" "netStage (update_progress now resp s) = netStage s"
  "netStage (note_connection_change w s) = netStage s" "netStage (reset_info_errors s) = netStage s"
  "netStage (network_status_failed w e s) = netStage s" "netStage (network_parameters_failed s) = netStage s"
  "netStage (network_parameters_received now pars s) = netStage s"
  by (simp_all add: net_sync_defs net_poll_defs net_answer_defs Let_def split: option.split prod.split)

lemma netStage_kept_derived [simp]:
  "netStage (handleBccNodeStateChange x s) = netStage s" "netStage (begin_updateNetworkClock b s) = netStage s"
  "netStage (onCheckDiskSpace b sizes s) = netStage s" "netStage (network_clock_received c s) = netStage s"
  "netStage (updateNetworkStatusWhenDisconnected s) = netStage s"
  "netStage (updateNetworkStatusWhenConnected s) = netStage s" "netStage (updateNodeStatus s) = netStage s"
  "netStage (teardown s) = netStage s"
  by (simp_all add: handleBccNodeStateChange_def begin_updateNetworkClock_def net_timer_defs net_react_defs
      network_clock_received_def Let_def split: option.split sum.split prod.split)

lemma stage_rank_received: "stage_rank (netStage s) \<le> stage_rank (netStage (network_status_received now w i s))"
  by (cases "netStage s") (auto simp: network_status_received_def enter_running_def note_response_def)

lemma stage_rank_resume: "resume_task now t s = Some s' \<Longrightarrow> stage_rank (netStage s) \<le> stage_rank (netStage s')"
  by (cases t) (auto simp: resume_task_def stage_rank_received
      intro: case_sum_keeps [where P = "\<lambda>s'. stage_rank (netStage s) \<le> stage_rank (netStage s')"])

lemma stage_rank_answer: "answer_task a t s = Some s' \<Longrightarrow> netStage s' = netStage s"
  by (cases t; cases a) (auto simp: answer_task_def onReceiveStateDirectoryPath_def)

lemma stage_rank_step: "stage_rank (netStage s) \<le> stage_rank (netStage (net_step s e))"
proof (cases e)
  case (ResumeTask i now)
  then show ?thesis
    using stage_rank_resume [of now "netTasks s ! i" "s\<lparr>netTasks := remove_nth i (netTasks s)\<rparr>"]
    by (auto simp: with_task_def split: option.split)
next
  case (AnswerTask i a)
  then show ?thesis
    using stage_rank_answer [of a "netTasks s ! i" "s\<lparr>netTasks := remove_nth i (netTasks s)\<rparr>"]
    by (auto simp: with_task_def split: option.split)
qed (simp_all add: poll_step_def restartNode_def toggleSplash_def ignoreSystemTimeChecks_def
    forceCheckNetworkClock_def onCheckVerificationProgress_def split: option.split poll.split)

lemma stage_rank_run: "stage_rank (netStage s) \<le> stage_rank (netStage (run net_step s es))"
  by (induction es arbitrary: s) (auto intro: order_trans [OF stage_rank_step])

subsection \<open>Shutdown\<close>

text \<open>What only the main process can bring back: a configuration or a cached status.\<close>

fun revives :: "net_event \<Rightarrow> bool" where
  "revives (TlsBroadcast c) \<longleftrightarrow> c \<noteq> None"
| "revives (AnswerTask i (GotTls c)) \<longleftrightarrow> c \<noteq> None"
| "revives (AnswerTask i (GotStatus x)) \<longleftrightarrow> True"
| "revives _ \<longleftrightarrow> False"

definition shut_down :: "nat \<Rightarrow> network \<Rightarrow> bool" where
  "shut_down n s \<longleftrightarrow> tlsConfig s = None \<and> \<not> isNodeResponding s \<and> length (flights (getNetworkInfoRequest s)) = n"

lemma shut_down_ops [intro]:
  assumes "shut_down n s"
  shows "shut_down n (record_effect x s)" "shut_down n (add_task t s)" "shut_down n (set_interval p s)"
    "shut_down n (clear_interval i s)" "shut_down n (resetSystemTime s)" "shut_down n (setDisconnected w s)"
    "shut_down n (updateTlsConfig None s)" "shut_down n (set_node_state y s)"
    "shut_down n (begin_updateNetworkStatus s)" "shut_down n (clock_execute b s)"
    "shut_down n (begin_getNetworkParameters s)" "shut_down n (network_status_received now w resp s)"
    "shut_down n (network_status_failed w e s)" "shut_down n (network_parameters_failed s)"
    "shut_down n (network_parameters_received now' pars s)" "shut_down n (s\<lparr>netTasks := ts\<rparr>)"
    "shut_down n (s\<lparr>tlsConfig := None\<rparr>)" "shut_down n (setNetworkStatusPollingInterval s)"
    "shut_down n (setNetworkClockPollingInterval s)" "shut_down n (clearNetworkStatusPollingInterval s)"
    "shut_down n (clearNetworkClockPollingInterval s)" "shut_down n (clearNetworkParametersPollingInterval s)"
    "shut_down n (onCheckDiskSpace notEnough sizes s)" "shut_down n (network_clock_received clk s)"
    "shut_down n (updateNodeStatus s)" "shut_down n (onReceiveStateDirectoryPath path s)"
  using assms
  by (simp_all add: shut_down_def net_sync_defs net_poll_defs net_timer_defs network_status_received_def
      network_status_failed_def network_parameters_failed_def network_parameters_received_def
      network_clock_received_def updateNodeStatus_def Let_def split: option.split prod.split)

lemma shut_down_handle [intro]: "shut_down n s \<Longrightarrow> shut_down n (handleBccNodeStateChange x s)"
  unfolding handleBccNodeStateChange_def Let_def by auto

lemma shut_down_clock [intro]: "shut_down n s \<Longrightarrow> shut_down n (begin_updateNetworkClock b s)"
  by (auto simp: begin_updateNetworkClock_def split: sum.split)

lemma shut_down_resume: "shut_down n s \<Longrightarrow> resume_task now t s = Some s' \<Longrightarrow> shut_down n s'"
  by (cases t) (auto simp: resume_task_def intro: case_sum_keeps)

lemma shut_down_answer:
  "shut_down n s \<Longrightarrow> \<not> revives (AnswerTask i a) \<Longrightarrow> answer_task a t s = Some s' \<Longrightarrow> shut_down n s'"
  by (cases t; cases a) (auto simp: answer_task_def)

lemma shut_down_environment:
  assumes "shut_down n s"
  shows "shut_down n (net_step s (InfoApi m x))" and "shut_down n (net_step s InfoTick)"
    and "shut_down n (net_step s (ClockApi m y))" and "shut_down n (net_step s ClockTick)"
    and "shut_down n (net_step s (ParamsApi m z))" and "shut_down n (net_step s ParamsTick)"
    and "shut_down n (net_step s ReactDisconnected)" and "shut_down n (net_step s ReactConnected)"
    and "shut_down n (net_step s ToggleSplashAction)" and "shut_down n (net_step s (IgnoreTime b))"
    and "shut_down n (net_step s (BlockReplay p))" and "shut_down n (net_step s RestartAction)"
    and "shut_down n (net_step s Teardown)" and "shut_down n (net_step s ForceClockAction)"
    and "shut_down n (net_step s (TimerFires i))"
proof -
  show "shut_down n (net_step s ReactDisconnected)" "shut_down n (net_step s ReactConnected)"
    "shut_down n (net_step s Teardown)" "shut_down n (net_step s ForceClockAction)"
    "shut_down n (net_step s (TimerFires i))" "shut_down n (net_step s RestartAction)"
    using assms by (auto simp: updateNetworkStatusWhenDisconnected_def updateNetworkStatusWhenConnected_def
        teardown_def forceCheckNetworkClock_def poll_step_def restartNode_def Let_def
        split: option.split poll.split)
qed (use assms in \<open>simp_all add: shut_down_def toggleSplash_def ignoreSystemTimeChecks_def
    onCheckVerificationProgress_def del: request_step.simps\<close>)

lemma shut_down_step:
  assumes "shut_down n s" and "\<not> revives e"
  shows "shut_down n (net_step s e)"
proof (cases e)
  case (ResumeTask i now)
  with assms show ?thesis
    by (auto simp: with_task_def split: option.split intro: shut_down_resume)
next
  case (AnswerTask i a)
  with assms show ?thesis
    by (auto simp: with_task_def split: option.split intro: shut_down_answer)
next
  case (TlsBroadcast c)
  with assms show ?thesis by auto
qed (use shut_down_environment [OF assms(1)] assms(1) in \<open>simp only: net_step.simps; blast\<close>)+

lemma shut_down_run:
  "shut_down n s \<Longrightarrow> list_all (\<lambda>e. \<not> revives e) es \<Longrightarrow> shut_down n (run net_step s es)"
  by (induction es arbitrary: s) (auto intro: shut_down_step)

subsection \<open>Properties\<close>

text \<open>
  For every order of events the store announces at most once that it is synced and ready,
  exactly when it has entered its last stage, and the stage never goes back.
\<close>

theorem sync_is_announced_once:
  "count_list (netTrace (run net_step (started test fl) es)) IsSyncedAndReady
     = (if netStage (run net_step (started test fl) es) = NET_RUNNING then 1 else 0)
   \<and> stage_rank (netStage (run net_step (started test fl) es))
       \<le> stage_rank (netStage (run net_step (started test fl) (es @ es')))"
  using net_inv_run [of test fl es] stage_rank_run [of "run net_step (started test fl) es" es']
  by (simp add: net_inv_def stage_ok_def)

text \<open>
  No polling timer leaks: for every order of events there is at most one live timer of each
  kind and the store holds its id, so tearing the store down stops all of them.
\<close>

theorem polling_timers_do_not_leak:
  "filter (\<lambda>t. snd t = p) (liveTimers (run net_step (started test fl) es))
     = timer_of p (interval_of (statusInterval (run net_step (started test fl) es))
         (clockInterval (run net_step (started test fl) es)) (paramsInterval (run net_step (started test fl) es)) p)
   \<and> liveTimers (run net_step (started test fl) (es @ [Teardown])) = []"
proof
  show "filter (\<lambda>t. snd t = p) (liveTimers (run net_step (started test fl) es))
     = timer_of p (interval_of (statusInterval (run net_step (started test fl) es))
         (clockInterval (run net_step (started test fl) es)) (paramsInterval (run net_step (started test fl) es)) p)"
    using net_inv_run [of test fl es] by (simp add: net_inv_def timers_ok_def)
  let ?s = "run net_step (started test fl) (es @ [Teardown])"
  have "statusInterval ?s = None" "clockInterval ?s = None" "paramsInterval ?s = None"
    by (simp_all add: net_timer_defs clear_interval_def split: option.split)
  then have "filter (\<lambda>t. snd t = q) (liveTimers ?s) = []" for q
    using net_inv_run [of test fl "es @ [Teardown]"]
    by (cases q) (simp_all add: net_inv_def timers_ok_def timer_of_def interval_of_def)
  then have "t \<notin> set (liveTimers ?s)" for t
    by (force simp: filter_empty_conv)
  then show "liveTimers ?s = []" by (cases "liveTimers ?s") auto
qed

text \<open>
  The API is configured before it is ever asked for the network status, and the verdict about
  the system time agrees with the last measured difference, whenever there is one.
\<close>

theorem status_calls_are_configured:
  "(flights (getNetworkInfoRequest (run net_step (started test fl) es)) = []
      \<or> (\<exists>c. SetRequestConfig c \<in> set (netTrace (run net_step (started test fl) es))))
   \<and> (case localTimeDifference (run net_step (started test fl) es) of
          None \<Rightarrow> True
        | Some d \<Rightarrow> isNodeTimeCorrect (run net_step (started test fl) es) = (\<bar>d\<bar> \<le> ALLOWED_TIME_DIFFERENCE))"
  using net_inv_run [of test fl es]
  by (auto simp: net_inv_def configured_def clock_ok_def time_correct_def split: if_splits option.splits)

text \<open>
  A hard fork is never both pending and activated, for every order of answers, and an
  answer that names its start time makes it exactly one of the two.
\<close>

theorem eras_are_exclusive:
  "\<not> (isSophieActivated (run net_step (started test fl) es) \<and> isSophiePending (run net_step (started test fl) es))
   \<and> \<not> (isAurumActivated (run net_step (started test fl) es) \<and> isAurumPending (run net_step (started test fl) es))
   \<and> isSophieActivated (network_parameters_received now
        (p\<lparr>par_eras := Some (Some (c # cs, Some x), e)\<rparr>) s) = (x \<le> now)
   \<and> isSophiePending (network_parameters_received now
        (p\<lparr>par_eras := Some (Some (c # cs, Some x), e)\<rparr>) s) = (now < x)"
  using net_inv_run [of test fl es]
  by (auto simp: net_inv_def phase_ok_def network_parameters_received_def era_phase_def split: prod.split option.split)

text \<open>
  A node that is stopping is left alone. After the state change to stopping, exiting or
  updating, whatever timers fire and whatever late answers come in, the store stays disconnected and
  makes no further status call, until the main process sends a configuration or a cached status.
\<close>

theorem shutdown_is_final_until_revived:
  assumes "x \<in> {STOPPING, EXITING, UPDATING}" and "bccNodeState s \<noteq> Some x"
    and "list_all (\<lambda>e. \<not> revives e) es"
  shows "\<not> isConnected (run net_step s (StateBroadcast x # es))
     \<and> tlsConfig (run net_step s (StateBroadcast x # es)) = None
     \<and> length (flights (getNetworkInfoRequest (run net_step s (StateBroadcast x # es))))
         = length (flights (getNetworkInfoRequest s))"
proof -
  have "shut_down (length (flights (getNetworkInfoRequest s))) (net_step s (StateBroadcast x))"
    using assms by (auto simp: shut_down_def handleBccNodeStateChange_def net_sync_defs Let_def)
  from shut_down_run [OF this assms(3)] show ?thesis by (simp add: shut_down_def isConnected_def)
qed

theorem shutdown_is_final_until_revived_witness:
  "\<not> isConnected (run net_step (started False False)
     [StateBroadcast STOPPING, TimerFires 1, ReactDisconnected, StateBroadcast STOPPED])"
  using shutdown_is_final_until_revived [of STOPPING "started False False"
      "[TimerFires 1, ReactDisconnected, StateBroadcast STOPPED]"]
  by (simp add: started_def initialize_def setup_network_def net_react_defs net_sync_defs net_timer_defs
      net_poll_defs isConnected_def extractNodeStatus_def new_NetworkStatusStore_def Let_def)

text \<open>
  State changes can overtake each other. The handler of RUNNING waits for two answers of the
  main process before it records the state; a shutdown that is announced meanwhile is recorded
  first and then overwritten, so that the store shows a running node, with a configuration, while the node
  is shutting down.
\<close>

theorem stale_running_overrides_shutdown:
  assumes "x \<in> {STOPPING, EXITING, UPDATING}" and "bccNodeState s \<noteq> Some x" and "bccNodeState s \<noteq> Some RUNNING"
  shows "bccNodeState (run net_step s [StateBroadcast RUNNING, StateBroadcast x]) = Some x
     \<and> bccNodeState (run net_step s [StateBroadcast RUNNING, StateBroadcast x,
          AnswerTask (length (netTasks s)) (GotTls (Some c)),
          AnswerTask (length (netTasks s)) (GotStatus z)]) = Some RUNNING
     \<and> \<not> isNodeStopping (run net_step s [StateBroadcast RUNNING, StateBroadcast x,
          AnswerTask (length (netTasks s)) (GotTls (Some c)),
          AnswerTask (length (netTasks s)) (GotStatus z)])
     \<and> tlsConfig (run net_step s [StateBroadcast RUNNING, StateBroadcast x,
          AnswerTask (length (netTasks s)) (GotTls (Some c)),
          AnswerTask (length (netTasks s)) (GotStatus z)]) = Some c"
  using assms
  by (auto simp: handleBccNodeStateChange_def net_sync_defs with_task_def answer_task_def remove_nth_def
      nth_append NODE_STOPPING_STATES_def Let_def split: option.split prod.split)

theorem stale_running_overrides_shutdown_witness:
  "bccNodeState (run net_step (new_NetworkStatusStore False False) [StateBroadcast RUNNING, StateBroadcast EXITING,
      AnswerTask 0 (GotTls (Some \<lparr>port = 8090\<rparr>)), AnswerTask 0 (GotStatus (None, 7, 8))]) = Some RUNNING"
  using stale_running_overrides_shutdown [of EXITING "new_NetworkStatusStore False False" "\<lparr>port = 8090\<rparr>" "(None, 7, 8)"]
  by (simp add: new_NetworkStatusStore_def)

subsection \<open>Stalling, against an abstract specification\<close>

text \<open>
  The specification keeps one instant, the last time the progress moved or was complete; the node
  counts as connected while that instant is recent enough.
\<close>

fun last_change :: "rat option \<Rightarrow> int \<Rightarrow> (int \<times> info) list \<Rightarrow> int" where
  "last_change prev t0 [] = t0"
| "last_change prev t0 ((t, i) # rs) =
     last_change (Some (info_syncProgress i))
       (if info_syncProgress i = 100 \<or> prev \<noteq> Some (info_syncProgress i) then t else t0) rs"

text \<open>Status calls one after the other, each answered before the next one starts.\<close>

definition answered :: "int \<times> info \<Rightarrow> network \<Rightarrow> network" where
  "answered r s = network_status_received (fst r) (isConnected s) (snd r) s"

text \<open>The fields that decide about the connection, which the last stages of an answer keep.\<close>

definition core :: "network \<Rightarrow> (tls option \<times> bool \<times> bool) \<times> rat option \<times> int \<times> bool \<times> bool" where
  "core s = ((tlsConfig s, isTest s, isSystemTimeCorrect s), syncProgress s,
     lastSyncProgressChangeTimestamp s, isNodeResponding s, isNodeSyncing s)"

lemma core_kept [simp]:
  "core (reset_info_errors s) = core s" "core (note_connection_change w s) = core s"
  "core (enter_running s) = core s"
  by (simp_all add: core_def reset_info_errors_def note_connection_change_def enter_running_def
      record_effect_def isSystemTimeCorrect_def Let_def)

lemma isConnected_core: "core s = core s' \<Longrightarrow> isConnected s = isConnected s'"
  by (simp add: core_def isConnected_def)

lemma core_received:
  "tlsConfig s \<noteq> None \<Longrightarrow>
     core (network_status_received now w i s) = core (update_progress now i (note_response i s))"
  by (auto simp: network_status_received_def)

lemma core_progress:
  assumes "isSystemTimeCorrect s" and "lastSyncProgressChangeTimestamp s \<le> now"
  shows "core (update_progress now i (note_response i s)) =
     (let l = (if info_syncProgress i = 100 \<or> syncProgress s \<noteq> Some (info_syncProgress i) then now
               else lastSyncProgressChangeTimestamp s)
      in ((tlsConfig s, isTest s, True), Some (info_syncProgress i), l, True,
          now - l \<le> MAX_ALLOWED_STALL_DURATION (isTest s)))"
  using assms
  by (auto simp: core_def update_progress_def update_stalling_def progress_noted_def note_response_def
      isSystemTimeCorrect_def Let_def)

lemma answered_fields:
  assumes "tlsConfig s \<noteq> None" and "isSystemTimeCorrect s" and "lastSyncProgressChangeTimestamp s \<le> t"
  shows "tlsConfig (answered (t, i) s) = tlsConfig s"
    and "isSystemTimeCorrect (answered (t, i) s)"
    and "isTest (answered (t, i) s) = isTest s"
    and "syncProgress (answered (t, i) s) = Some (info_syncProgress i)"
    and "lastSyncProgressChangeTimestamp (answered (t, i) s)
          = (if info_syncProgress i = 100 \<or> syncProgress s \<noteq> Some (info_syncProgress i) then t
             else lastSyncProgressChangeTimestamp s)"
    and "isConnected (answered (t, i) s) \<longleftrightarrow>
           t - lastSyncProgressChangeTimestamp (answered (t, i) s) \<le> MAX_ALLOWED_STALL_DURATION (isTest s)"
proof -
  have "core (answered (t, i) s) = core (update_progress t i (note_response i s))"
    using core_received [OF assms(1)] by (simp add: answered_def)
  then show "tlsConfig (answered (t, i) s) = tlsConfig s" "isSystemTimeCorrect (answered (t, i) s)"
    "isTest (answered (t, i) s) = isTest s"
    "syncProgress (answered (t, i) s) = Some (info_syncProgress i)"
    "lastSyncProgressChangeTimestamp (answered (t, i) s)
       = (if info_syncProgress i = 100 \<or> syncProgress s \<noteq> Some (info_syncProgress i) then t
          else lastSyncProgressChangeTimestamp s)"
    "isConnected (answered (t, i) s) \<longleftrightarrow>
       t - lastSyncProgressChangeTimestamp (answered (t, i) s) \<le> MAX_ALLOWED_STALL_DURATION (isTest s)"
    unfolding core_progress [OF assms(2,3)]
    by (simp_all add: core_def isConnected_def Let_def)
qed

lemma answered_run:
  assumes "tlsConfig s \<noteq> None" and "isSystemTimeCorrect s"
    and "sorted (lastSyncProgressChangeTimestamp s # map fst rs)" and "rs \<noteq> []"
  shows "isConnected (fold answered rs s) \<longleftrightarrow>
     fst (last rs) - last_change (syncProgress s) (lastSyncProgressChangeTimestamp s) rs
       \<le> MAX_ALLOWED_STALL_DURATION (isTest s)"
  using assms
proof (induction rs arbitrary: s)
  case (Cons r rs)
  obtain t i where r: "r = (t, i)" by (cases r)
  with Cons.prems have le: "lastSyncProgressChangeTimestamp s \<le> t" by simp
  note f = answered_fields [OF Cons.prems(1,2) le, of i]
  show ?case
  proof (cases "rs = []")
    case True
    with f r show ?thesis by simp
  next
    case False
    moreover have "sorted (lastSyncProgressChangeTimestamp (answered (t, i) s) # map fst rs)"
      using Cons.prems(3) r f(5) by (auto split: if_splits)
    ultimately show ?thesis
      using Cons.IH [of "answered (t, i) s"] Cons.prems(1) f(1-5) r by simp
  qed
qed simp

text \<open>
  C39. Stalling is detected exactly when it should be. As long as the system time is trusted and the
  clock does not go back, after any sequence of answers the store is connected if and only if the
  sync progress moved, or was complete, no longer ago than the allowed duration.
\<close>

theorem stalling_is_detected:
  assumes "tlsConfig s \<noteq> None" and "isSystemTimeCorrect s"
    and "sorted (lastSyncProgressChangeTimestamp s # map fst rs)" and "rs \<noteq> []"
  shows "isConnected (fold answered rs s) \<longleftrightarrow>
     fst (last rs) - last_change (syncProgress s) (lastSyncProgressChangeTimestamp s) rs
       \<le> MAX_ALLOWED_STALL_DURATION (isTest s)"
  using assms by (rule answered_run)

definition example_info :: "rat \<Rightarrow> info" where
  "example_info p = \<lparr>info_syncProgress = p,
     info_localTip = \<lparr>tip_epoch = 1, tip_slot = 2, absoluteSlotNumber = 3\<rparr>,
     info_networkTip = None, info_nextEpoch = None\<rparr>"

theorem stalling_is_detected_witness:
  "\<not> isConnected (fold answered [(1000, example_info 50), (422000, example_info 50)]
       ((new_NetworkStatusStore False False)\<lparr>tlsConfig := Some \<lparr>port = 8090\<rparr>\<rparr>))"
  by (subst stalling_is_detected)
    (simp_all add: new_NetworkStatusStore_def example_info_def isSystemTimeCorrect_def
      MAX_ALLOWED_STALL_DURATION_def)

text \<open>
  A lost connection is remembered, whether by a failed call or by stalling, and the wallet
  data are reloaded exactly when a call that started without a connection ends with one after
  such a loss; the very first connection reloads nothing.
\<close>

theorem reconnection_reloads_wallets:
  assumes "tlsConfig s \<noteq> None"
  shows "count_list (netTrace (network_status_received now w i s)) ResetWalletsData
           = count_list (netTrace s) ResetWalletsData
             + (if \<not> w \<and> isConnected (network_status_received now w i s) \<and> hasBeenConnected s then 1 else 0)
     \<and> hasBeenConnected (network_status_received now w i s)
           = (hasBeenConnected s \<or> w \<and> \<not> isConnected (network_status_received now w i s))
     \<and> hasBeenConnected (network_status_failed w e s) = (hasBeenConnected s \<or> w)
     \<and> \<not> isConnected (network_status_failed w e s)"
proof -
  let ?u = "enter_running (update_progress now i (note_response i s))"
  have r: "network_status_received now w i s = reset_info_errors (note_connection_change w ?u)"
    using assms by (auto simp: network_status_received_def)
  have c: "isConnected (network_status_received now w i s) = isConnected ?u"
    unfolding r by (rule isConnected_core) simp
  have u: "hasBeenConnected ?u = hasBeenConnected s"
    "count_list (netTrace ?u) ResetWalletsData = count_list (netTrace s) ResetWalletsData"
    by (simp_all add: enter_running_def update_progress_def update_stalling_def note_response_def
        record_effect_def Let_def)
  have "count_list (netTrace (network_status_received now w i s)) ResetWalletsData
      = count_list (netTrace s) ResetWalletsData
        + (if \<not> w \<and> isConnected (network_status_received now w i s) \<and> hasBeenConnected s then 1 else 0)"
    "hasBeenConnected (network_status_received now w i s)
      = (hasBeenConnected s \<or> w \<and> \<not> isConnected (network_status_received now w i s))"
    unfolding c unfolding r using u
    by (auto simp: reset_info_errors_def note_connection_change_def record_effect_def Let_def)
  then show ?thesis
    by (simp add: network_status_failed_def setDisconnected_def resetSystemTime_def isConnected_def Let_def)
qed

theorem reconnection_reloads_wallets_witness:
  "ResetWalletsData \<in> set (netTrace (network_status_received 1000 False (example_info 50)
     ((new_NetworkStatusStore False False)\<lparr>tlsConfig := Some \<lparr>port = 8090\<rparr>, hasBeenConnected := True\<rparr>)))"
proof -
  let ?s = "(new_NetworkStatusStore False False)\<lparr>tlsConfig := Some \<lparr>port = 8090\<rparr>, hasBeenConnected := True\<rparr>"
  have "isConnected (network_status_received 1000 False (example_info 50) ?s)"
    using answered_fields [of ?s 1000 "example_info 50"]
    by (simp add: answered_def new_NetworkStatusStore_def isConnected_def isSystemTimeCorrect_def
        example_info_def MAX_ALLOWED_STALL_DURATION_def)
  then have "count_list (netTrace (network_status_received 1000 False (example_info 50) ?s)) ResetWalletsData > 0"
    using reconnection_reloads_wallets [of ?s 1000 False "example_info 50"] by simp
  then show ?thesis by (metis count_notin less_irrefl)
qed

end
