(* ===== verification/Broadcasts.thy ===== *)
theory Broadcasts imports BccNode Network begin

text \<open>
  The two ends of the node's broadcasts: \<open>main/bcc/setup.js\<close> and \<open>stores/NetworkStatusStore.js\<close>.
  The main process broadcasts what the node manager does, and the renderer's store handles each
  broadcast. Delivery in order means that the handler of a broadcast, with the two answers the handler of
  RUNNING waits for, is over before the next broadcast is handled. What the main process
  answers is arbitrary: a configuration or not, a status or not, or a failure.
\<close>

type_synonym main_answers = "network \<Rightarrow> tls option option \<times> (bcc_status option \<times> nat \<times> nat) option"

definition tls_answer :: "tls option option \<Rightarrow> ipc_answer" where
  "tls_answer x = (case x of None \<Rightarrow> GotError | Some c \<Rightarrow> GotTls c)"

definition status_answer :: "(bcc_status option \<times> nat \<times> nat) option \<Rightarrow> ipc_answer" where
  "status_answer x = (case x of None \<Rightarrow> GotError | Some z \<Rightarrow> GotStatus z)"

fun deliver :: "main_answers \<Rightarrow> effect \<Rightarrow> network \<Rightarrow> network" where
  "deliver ans (BState x) s =
     (if x = RUNNING \<and> bccNodeState s \<noteq> Some RUNNING
      then run net_step s [StateBroadcast RUNNING,
             AnswerTask (length (netTasks s)) (tls_answer (fst (ans s))),
             AnswerTask (length (netTasks s)) (status_answer (snd (ans s)))]
      else net_step s (StateBroadcast x))"
| "deliver ans (BTls c) s = net_step s (TlsBroadcast c)"
| "deliver ans _ s = s"

definition mirrors :: "node_state \<Rightarrow> network \<Rightarrow> bool" where
  "mirrors x s \<longleftrightarrow> bccNodeState s = Some x \<and> isNodeStopping s = (x \<in> set NODE_STOPPING_STATES)
     \<and> isNodeStopped s = (x \<in> set NODE_STOPPED_STATES)"

lemma mirrors_set_node_state [simp]: "mirrors x (set_node_state x s)"
  by (simp add: mirrors_def set_node_state_def)

lemma mirrors_running:
  assumes "bccNodeState s \<noteq> Some RUNNING"
  shows "mirrors RUNNING (run net_step s [StateBroadcast RUNNING,
             AnswerTask (length (netTasks s)) (tls_answer a), AnswerTask (length (netTasks s)) (status_answer b)])"
proof -
  let ?s1 = "add_task RunningTls s"
  have s1: "net_step s (StateBroadcast RUNNING) = ?s1"
    using assms by (simp add: handleBccNodeStateChange_def)
  obtain s' where s2: "net_step ?s1 (AnswerTask (length (netTasks s)) (tls_answer a)) = add_task RunningStatus s'"
    and n: "netTasks s' = netTasks s"
  proof (cases a)
    case None
    then show thesis
      using that [of s] by (simp add: with_task_def add_task_def answer_task_def tls_answer_def remove_nth_def)
  next
    case (Some c)
    then show thesis
      using that [of "updateTlsConfig c (s\<lparr>netTasks := netTasks s\<rparr>)"]
      by (simp add: with_task_def add_task_def answer_task_def tls_answer_def remove_nth_def
          updateTlsConfig_def record_effect_def split: option.splits)
  qed
  have "\<exists>s''. net_step (add_task RunningStatus s') (AnswerTask (length (netTasks s)) (status_answer b))
      = set_node_state RUNNING s''"
    using n by (cases b) (auto simp: with_task_def add_task_def answer_task_def status_answer_def remove_nth_def)
  then obtain s'' where s3: "net_step (add_task RunningStatus s')
      (AnswerTask (length (netTasks s)) (status_answer b)) = set_node_state RUNNING s''" ..
  show ?thesis by (simp add: s1 s2 s3 del: net_step.simps)
qed

lemma mirrors_broadcast:
  "x \<noteq> RUNNING \<Longrightarrow> bccNodeState s \<noteq> Some x \<Longrightarrow> mirrors x (net_step s (StateBroadcast x))"
  by (auto simp: handleBccNodeStateChange_def Let_def)

lemma mirrors_tls: "mirrors x s \<Longrightarrow> mirrors x (net_step s (TlsBroadcast c))"
  by (auto simp: mirrors_def updateTlsConfig_def record_effect_def split: option.split)

text \<open>Delivering a broadcast leaves the store with a state it mirrors, or as it was.\<close>

lemma deliver_mirrors:
  assumes "bccNodeState s = None \<or> (\<exists>y. mirrors y s)"
  shows "(case e of BState x \<Rightarrow> mirrors x (deliver ans e s)
          | _ \<Rightarrow> bccNodeState (deliver ans e s) = bccNodeState s
                 \<and> (\<forall>y. mirrors y s \<longrightarrow> mirrors y (deliver ans e s)))"
proof (cases e)
  case (BState x)
  show ?thesis
  proof (cases "bccNodeState s = Some x")
    case True
    with assms have "mirrors x s" by (auto simp: mirrors_def)
    with True BState show ?thesis by (auto simp: handleBccNodeStateChange_def)
  next
    case False
    with BState show ?thesis
      using mirrors_running [of s] mirrors_broadcast [of x s] by (auto simp del: net_step.simps)
  qed
next
  case (BTls c)
  then show ?thesis
    using mirrors_tls by (auto simp: updateTlsConfig_def record_effect_def split: option.split)
qed simp_all

lemma fold_deliver_mirrors:
  "mirrors y s \<Longrightarrow> mirrors (last (y # states_of tr)) (fold (deliver ans) tr s)"
proof (induction tr arbitrary: y s)
  case (Cons e tr)
  have d: "case e of BState x \<Rightarrow> mirrors x (deliver ans e s)
      | _ \<Rightarrow> bccNodeState (deliver ans e s) = bccNodeState s
             \<and> (\<forall>y. mirrors y s \<longrightarrow> mirrors y (deliver ans e s))"
    using deliver_mirrors Cons.prems by blast
  show ?case
  proof (cases e)
    case (BState x)
    with d have "mirrors x (deliver ans e s)" by simp
    from Cons.IH [OF this] show ?thesis by (simp add: BState)
  qed (use d Cons.IH [of y "deliver ans e s"] Cons.prems in simp_all)
qed simp

lemma fold_deliver:
  "bccNodeState s = None \<Longrightarrow> states_of tr \<noteq> [] \<Longrightarrow>
     mirrors (last (states_of tr)) (fold (deliver ans) tr s)"
proof (induction tr arbitrary: s)
  case (Cons e tr)
  have d: "case e of BState x \<Rightarrow> mirrors x (deliver ans e s)
      | _ \<Rightarrow> bccNodeState (deliver ans e s) = bccNodeState s
             \<and> (\<forall>y. mirrors y s \<longrightarrow> mirrors y (deliver ans e s))"
    using deliver_mirrors Cons.prems by blast
  show ?case
  proof (cases e)
    case (BState x)
    with d have "mirrors x (deliver ans e s)" by simp
    from fold_deliver_mirrors [OF this] show ?thesis by (simp add: BState)
  qed (use d Cons.IH [of "deliver ans e s"] Cons.prems in simp_all)
qed simp



end
