(* ===== verification/Storage.thy ===== *)
theory Storage imports Prelude Complex_Main "HOL-Library.AList" begin

text \<open>
  The persistent settings: \<^verbatim>\<open>source/main/ipc/electronStoreConversation.js\<close> on the side of the
  main process and \<^verbatim>\<open>source/renderer/app/api/utils/localStorage.js\<close> on the side of the renderer.

  The \<open>electron-store\<close> package is outside the repository: its \<open>get\<close>, \<open>set\<close> and \<open>delete\<close> are the
  parameter \<open>electron\<close> of every definition. The laws the code relies on, that a path read after it
  was written gives the value and that writing under one path leaves unrelated paths alone, are the
  predicate \<open>electron_laws\<close>; a store of nested objects that obeys them is given at the end.
\<close>

subsection \<open>Values and keys\<close>

datatype json =
  JNull | JBool bool | JNum rat | JStr string | JArr "json list" | JObj "(string \<times> json) list"

fun truthy :: "json \<Rightarrow> bool" where
  "truthy JNull = False"
| "truthy (JBool b) = b"
| "truthy (JNum n) = (n \<noteq> 0)"
| "truthy (JStr s) = (s \<noteq> [])"
| "truthy _ = True"

datatype storage_key =
    APP_AUTOMATIC_UPDATE_FAILED | APP_UPDATE_COMPLETED | ASSET_DATA
  | ASSET_SETTINGS_DIALOG_WAS_OPENED | CURRENCY_ACTIVE | CURRENCY_SELECTED
  | DATA_LAYER_MIGRATION_ACCEPTANCE | DOWNLOAD_MANAGER | HARDWARE_WALLET_DEVICES
  | HARDWARE_WALLETS | READ_NEWS | RESET_KEY | SMASH_SERVER | STAKING_INFO_WAS_OPEN
  | TERMS_OF_USE_ACCEPTANCE | THEME | USER_DATE_FORMAT_ENGLISH | USER_DATE_FORMAT_JAPANESE
  | USER_LOCALE | USER_NUMBER_FORMAT | USER_TIME_FORMAT | WALLET_MIGRATION_STATUS | WALLETS
  | WINDOW_BOUNDS

primrec key_text :: "storage_key \<Rightarrow> string" where
  "key_text APP_AUTOMATIC_UPDATE_FAILED = ''APP-AUTOMATIC-UPDATE-FAILED''"
| "key_text APP_UPDATE_COMPLETED = ''APP-UPDATE-COMPLETED''"
| "key_text ASSET_DATA = ''ASSET-DATA''"
| "key_text ASSET_SETTINGS_DIALOG_WAS_OPENED = ''ASSET-SETTINGS-DIALOG-WAS-OPENED''"
| "key_text CURRENCY_ACTIVE = ''CURRENCY-ACTIVE''"
| "key_text CURRENCY_SELECTED = ''CURRENCY-SELECTED''"
| "key_text DATA_LAYER_MIGRATION_ACCEPTANCE = ''DATA-LAYER-MIGRATION-ACCEPTANCE''"
| "key_text DOWNLOAD_MANAGER = ''DOWNLOAD-MANAGER''"
| "key_text HARDWARE_WALLET_DEVICES = ''HARDWARE-WALLET-DEVICES''"
| "key_text HARDWARE_WALLETS = ''HARDWARE-WALLETS''"
| "key_text READ_NEWS = ''READ-NEWS''"
| "key_text RESET_KEY = ''RESET''"
| "key_text SMASH_SERVER = ''SMASH-SERVER''"
| "key_text STAKING_INFO_WAS_OPEN = ''AURUM-INFO-WAS-OPEN''"
| "key_text TERMS_OF_USE_ACCEPTANCE = ''TERMS-OF-USE-ACCEPTANCE''"
| "key_text THEME = ''THEME''"
| "key_text USER_DATE_FORMAT_ENGLISH = ''USER-DATE-FORMAT-ENGLISH''"
| "key_text USER_DATE_FORMAT_JAPANESE = ''USER-DATE-FORMAT-JAPANESE''"
| "key_text USER_LOCALE = ''USER-LOCALE''"
| "key_text USER_NUMBER_FORMAT = ''USER-NUMBER-FORMAT''"
| "key_text USER_TIME_FORMAT = ''USER-TIME-FORMAT''"
| "key_text WALLET_MIGRATION_STATUS = ''WALLET-MIGRATION-STATUS''"
| "key_text WALLETS = ''WALLETS''"
| "key_text WINDOW_BOUNDS = ''WINDOW-BOUNDS''"

datatype storage_type = GET | SET | DELETE | RESET | OtherType string

subsection \<open>The main process\<close>

record 's electron =
  eget :: "'s \<Rightarrow> string \<Rightarrow> json option"
  eset :: "'s \<Rightarrow> string \<Rightarrow> json \<Rightarrow> 's"
  edelete :: "'s \<Rightarrow> string \<Rightarrow> 's"

definition getNetworkKey :: "string \<Rightarrow> string \<Rightarrow> string" where
  "getNetworkKey network key = network @ ''-'' @ key"

text \<open>A key that is \<open>undefined\<close> is printed as such by the template string.\<close>

definition print_key :: "storage_key option \<Rightarrow> string" where
  "print_key key = (case key of None \<Rightarrow> ''undefined'' | Some k \<Rightarrow> key_text k)"

definition path_of :: "string \<Rightarrow> storage_key option \<Rightarrow> string option \<Rightarrow> string" where
  "path_of network key ident =
     getNetworkKey network
       (case ident of None \<Rightarrow> print_key key
        | Some i \<Rightarrow> if i = [] then print_key key else print_key key @ ''.'' @ i)"

text \<open>The keys \<open>reset\<close> unsets, in its order; \<open>keys.USER_THEME\<close> is not in \<open>STORAGE_KEYS\<close>.\<close>

definition reset_keys :: "storage_key option list" where
  "reset_keys = [Some USER_LOCALE, Some USER_NUMBER_FORMAT, Some USER_DATE_FORMAT_ENGLISH,
     Some USER_DATE_FORMAT_JAPANESE, Some USER_TIME_FORMAT, Some TERMS_OF_USE_ACCEPTANCE, None,
     Some DATA_LAYER_MIGRATION_ACCEPTANCE, Some READ_NEWS, Some HARDWARE_WALLETS,
     Some WALLET_MIGRATION_STATUS, Some HARDWARE_WALLET_DEVICES, Some WINDOW_BOUNDS]"

definition unset_key :: "'s electron \<Rightarrow> string \<Rightarrow> storage_key option \<Rightarrow> 's \<Rightarrow> 's" where
  "unset_key E network key s = edelete E s (path_of network key None)"

definition reset_store :: "'s electron \<Rightarrow> string \<Rightarrow> 's \<Rightarrow> 's" where
  "reset_store E network s = fold (unset_key E network) reset_keys s"

definition requestElectronStore ::
  "'s electron \<Rightarrow> string \<Rightarrow> storage_type \<Rightarrow> storage_key option \<Rightarrow> json \<Rightarrow> string option \<Rightarrow> 's
     \<Rightarrow> (string + json option) \<times> 's" where
  "requestElectronStore E network type key data ident s =
     (let networkKey = path_of network key ident
      in (case type of
            GET \<Rightarrow> (Inr (eget E s networkKey), s)
          | DELETE \<Rightarrow> (Inr None, edelete E s networkKey)
          | SET \<Rightarrow> (Inr None, eset E s networkKey data)
          | RESET \<Rightarrow> (let s1 = reset_store E network s in (Inr (eget E s1 networkKey), s1))
          | OtherType t \<Rightarrow> (Inl (''Invalid type '' @ t @ '' provided.''), s)))"

subsection \<open>The renderer\<close>

text \<open>\<open>LocalStorageApi.get\<close>, \<open>set\<close>, \<open>unset\<close>, \<open>reset\<close>.\<close>

definition api_get ::
  "'s electron \<Rightarrow> string \<Rightarrow> storage_key \<Rightarrow> json option \<Rightarrow> string option \<Rightarrow> 's \<Rightarrow> json" where
  "api_get E network key fallbackValue ident s =
     (case fst (requestElectronStore E network GET (Some key) JNull ident s) of
        Inr (Some value) \<Rightarrow> value
      | _ \<Rightarrow> (case fallbackValue of
                None \<Rightarrow> JStr []
              | Some f \<Rightarrow> if truthy f then f else JStr []))"

definition api_set :: "'s electron \<Rightarrow> string \<Rightarrow> storage_key \<Rightarrow> json \<Rightarrow> string option \<Rightarrow> 's \<Rightarrow> 's" where
  "api_set E network key data ident s = snd (requestElectronStore E network SET (Some key) data ident s)"

definition api_unset :: "'s electron \<Rightarrow> string \<Rightarrow> storage_key \<Rightarrow> string option \<Rightarrow> 's \<Rightarrow> 's" where
  "api_unset E network key ident s = snd (requestElectronStore E network DELETE (Some key) JNull ident s)"

definition api_reset :: "'s electron \<Rightarrow> string \<Rightarrow> 's \<Rightarrow> 's" where
  "api_reset E network s = snd (requestElectronStore E network RESET (Some RESET_KEY) JNull None s)"

text \<open>
  The settings that are one value under one key: what each getter gives as fallback, and the
  constant the setters without an argument store. \<open>UNSTARTED\<close> is the text of
  \<open>WalletMigrationStatuses.UNSTARTED\<close>.
\<close>

fun setting_fallback :: "storage_key \<Rightarrow> json option" where
  "setting_fallback TERMS_OF_USE_ACCEPTANCE = Some (JBool False)"
| "setting_fallback DATA_LAYER_MIGRATION_ACCEPTANCE = Some (JBool False)"
| "setting_fallback CURRENCY_ACTIVE = Some (JBool True)"
| "setting_fallback WALLETS = Some (JObj [])"
| "setting_fallback READ_NEWS = Some (JArr [])"
| "setting_fallback WALLET_MIGRATION_STATUS = Some (JStr ''unstarted'')"
| "setting_fallback APP_AUTOMATIC_UPDATE_FAILED = Some (JBool False)"
| "setting_fallback APP_UPDATE_COMPLETED = Some (JBool False)"
| "setting_fallback ASSET_DATA = Some (JArr [])"
| "setting_fallback ASSET_SETTINGS_DIALOG_WAS_OPENED = Some (JBool False)"
| "setting_fallback STAKING_INFO_WAS_OPEN = Some (JBool False)"
| "setting_fallback HARDWARE_WALLETS = Some (JObj [])"
| "setting_fallback HARDWARE_WALLET_DEVICES = Some (JObj [])"
| "setting_fallback _ = None"

definition getSetting :: "'s electron \<Rightarrow> string \<Rightarrow> storage_key \<Rightarrow> 's \<Rightarrow> json" where
  "getSetting E network key s = api_get E network key (setting_fallback key) None s"

definition setSetting :: "'s electron \<Rightarrow> string \<Rightarrow> storage_key \<Rightarrow> json \<Rightarrow> 's \<Rightarrow> 's" where
  "setSetting E network key v s = api_set E network key v None s"

definition flag_settings :: "storage_key set" where
  "flag_settings = {TERMS_OF_USE_ACCEPTANCE, DATA_LAYER_MIGRATION_ACCEPTANCE,
     APP_AUTOMATIC_UPDATE_FAILED, ASSET_SETTINGS_DIALOG_WAS_OPENED, STAKING_INFO_WAS_OPEN}"

definition setFlag :: "'s electron \<Rightarrow> string \<Rightarrow> storage_key \<Rightarrow> 's \<Rightarrow> 's" where
  "setFlag E network key s = setSetting E network key (JBool True) s"

definition unsetSetting :: "'s electron \<Rightarrow> string \<Rightarrow> storage_key \<Rightarrow> 's \<Rightarrow> 's" where
  "unsetSetting E network key s = api_unset E network key None s"

subsection \<open>Objects under ids\<close>

text \<open>\<open>Object.assign({}, ...)\<close>; values that are not objects contribute nothing.\<close>

fun members :: "json \<Rightarrow> (string \<times> json) list" where
  "members (JObj kvs) = kvs"
| "members _ = []"

definition assign :: "(string \<times> json) list \<Rightarrow> (string \<times> json) list \<Rightarrow> (string \<times> json) list" where
  "assign target source = fold (\<lambda>(k, v). AList.update k v) source target"

definition assign_all :: "json list \<Rightarrow> json" where
  "assign_all sources = JObj (fold (\<lambda>x t. assign t (members x)) sources [])"

definition getLocalData :: "'s electron \<Rightarrow> string \<Rightarrow> storage_key \<Rightarrow> string \<Rightarrow> 's \<Rightarrow> json" where
  "getLocalData E network key i s =
     api_get E network key (Some (JObj [(''id'', JStr i)])) (Some i) s"

definition getWalletLocalData :: "'s electron \<Rightarrow> string \<Rightarrow> string \<Rightarrow> 's \<Rightarrow> json" where
  "getWalletLocalData E network walletId s = getLocalData E network WALLETS walletId s"

definition setWalletLocalData ::
  "'s electron \<Rightarrow> string \<Rightarrow> json \<Rightarrow> string \<Rightarrow> json \<Rightarrow> 's \<Rightarrow> json \<times> 's" where
  "setWalletLocalData E network now walletId updatedWalletData s =
     (let walletData = assign_all [JObj [(''creationDate'', now)], getWalletLocalData E network walletId s,
                          updatedWalletData, JObj [(''id'', JStr walletId)]]
      in (walletData, api_set E network WALLETS walletData (Some walletId) s))"

definition unsetWalletLocalData :: "'s electron \<Rightarrow> string \<Rightarrow> string \<Rightarrow> 's \<Rightarrow> 's" where
  "unsetWalletLocalData E network walletId s = api_unset E network WALLETS (Some walletId) s"

text \<open>The hardware wallets and the hardware devices are kept alike, without a creation date.\<close>

definition set_local_data ::
  "'s electron \<Rightarrow> string \<Rightarrow> storage_key \<Rightarrow> string \<Rightarrow> json \<Rightarrow> 's \<Rightarrow> json \<times> 's" where
  "set_local_data E network key i data s =
     (let d = assign_all [getLocalData E network key i s, data, JObj [(''id'', JStr i)]]
      in (d, api_set E network key d (Some i) s))"

definition setHardwareWalletLocalData where
  "setHardwareWalletLocalData E network = set_local_data E network HARDWARE_WALLETS"

definition setHardwareWalletDevice where
  "setHardwareWalletDevice E network = set_local_data E network HARDWARE_WALLET_DEVICES"

definition unsetHardwareWalletLocalData :: "'s electron \<Rightarrow> string \<Rightarrow> string \<Rightarrow> 's \<Rightarrow> 's" where
  "unsetHardwareWalletLocalData E network walletId s = api_unset E network HARDWARE_WALLETS (Some walletId) s"

definition overrideHardwareWalletDevices :: "'s electron \<Rightarrow> string \<Rightarrow> json \<Rightarrow> 's \<Rightarrow> 's" where
  "overrideHardwareWalletDevices E network data s = api_set E network HARDWARE_WALLET_DEVICES data None s"

definition unsetHardwareWalletDevice :: "'s electron \<Rightarrow> string \<Rightarrow> string \<Rightarrow> 's \<Rightarrow> 's" where
  "unsetHardwareWalletDevice E network deviceId s = api_unset E network HARDWARE_WALLET_DEVICES (Some deviceId) s"

definition getAssetLocalData :: "'s electron \<Rightarrow> string \<Rightarrow> string \<Rightarrow> string \<Rightarrow> 's \<Rightarrow> json" where
  "getAssetLocalData E network policyId assetName s =
     api_get E network ASSET_DATA (Some (JObj [])) (Some (policyId @ assetName)) s"

definition setAssetLocalData :: "'s electron \<Rightarrow> string \<Rightarrow> string \<Rightarrow> string \<Rightarrow> json \<Rightarrow> 's \<Rightarrow> 's" where
  "setAssetLocalData E network policyId assetName data s =
     api_set E network ASSET_DATA data (Some (policyId @ assetName)) s"

subsection \<open>Read news\<close>

fun elements :: "json \<Rightarrow> json list" where
  "elements (JArr xs) = xs"
| "elements _ = []"

definition stored_news :: "'s electron \<Rightarrow> string \<Rightarrow> 's \<Rightarrow> json list" where
  "stored_news E network s = elements (api_get E network READ_NEWS None None s)"

definition getReadNews :: "'s electron \<Rightarrow> string \<Rightarrow> 's \<Rightarrow> json list" where
  "getReadNews E network s = elements (getSetting E network READ_NEWS s)"

definition markNewsAsRead :: "'s electron \<Rightarrow> string \<Rightarrow> json list \<Rightarrow> 's \<Rightarrow> json list \<times> 's" where
  "markNewsAsRead E network newsTimestamps s =
     (let readNews = stored_news E network s
      in (readNews,
          if newsTimestamps \<noteq> [] \<and> hd newsTimestamps \<in> set readNews then s
          else api_set E network READ_NEWS (JArr (readNews @ newsTimestamps)) None s))"

definition markNewsAsUnread :: "'s electron \<Rightarrow> string \<Rightarrow> json \<Rightarrow> 's \<Rightarrow> json list \<times> 's" where
  "markNewsAsUnread E network newsTimestamp s =
     (let readNews = stored_news E network s
      in (readNews,
          if newsTimestamp \<in> set readNews
          then api_set E network READ_NEWS (JArr (removeAll newsTimestamp readNews)) None s else s))"

subsection \<open>Currency\<close>

text \<open>
  Older versions stored the whole currency object; it is replaced by its code the first time it is
  read. The default is an entry of \<^verbatim>\<open>currenciesList.json\<close>. Neither code nor symbol: the setter
  is called with \<open>undefined\<close>, which electron-store refuses.
\<close>

definition member_or :: "string \<Rightarrow> (string \<times> json) list \<Rightarrow> json option" where
  "member_or k kvs = (case map_of kvs k of None \<Rightarrow> None | Some v \<Rightarrow> if truthy v then Some v else None)"

definition getCurrencySelected ::
  "'s electron \<Rightarrow> string \<Rightarrow> json \<Rightarrow> 's \<Rightarrow> json option \<times> 's" where
  "getCurrencySelected E network defaultCurrency s =
     (case api_get E network CURRENCY_SELECTED (Some defaultCurrency) None s of
        JStr code \<Rightarrow> (Some (JStr code), s)
      | old \<Rightarrow>
          (case member_or ''code'' (members old) of
             Some code \<Rightarrow> (Some code, setSetting E network CURRENCY_SELECTED code s)
           | None \<Rightarrow>
               (case map_of (members old) ''symbol'' of
                  Some code \<Rightarrow> (Some code, setSetting E network CURRENCY_SELECTED code s)
                | None \<Rightarrow> (None, s))))"

subsection \<open>What the code relies on\<close>

text \<open>
  Two paths are unrelated when neither is the other nor extends it by a dot and more. The laws are
  those of the package's documentation for dotted paths.
\<close>

definition extends :: "string \<Rightarrow> string \<Rightarrow> bool" where
  "extends p q \<longleftrightarrow> (\<exists>r. q = p @ r \<and> (r = [] \<or> hd r = CHR ''.''))"

definition unrelated :: "string \<Rightarrow> string \<Rightarrow> bool" where
  "unrelated p q \<longleftrightarrow> \<not> extends p q \<and> \<not> extends q p"

definition electron_laws :: "'s electron \<Rightarrow> bool" where
  "electron_laws E \<longleftrightarrow>
     (\<forall>s p v. eget E (eset E s p v) p = Some v)
   \<and> (\<forall>s p v q. unrelated p q \<longrightarrow> eget E (eset E s p v) q = eget E s q)
   \<and> (\<forall>s p. eget E (edelete E s p) p = None)
   \<and> (\<forall>s p q. unrelated p q \<longrightarrow> eget E (edelete E s p) q = eget E s q)"

lemma electron_lawsD:
  assumes "electron_laws E"
  shows "eget E (eset E s p v) p = Some v"
    and "unrelated p q \<Longrightarrow> eget E (eset E s p v) q = eget E s q"
    and "eget E (edelete E s p) p = None"
    and "unrelated p q \<Longrightarrow> eget E (edelete E s p) q = eget E s q"
  using assms by (simp_all add: electron_laws_def)

lemma unrelated_sym: "unrelated p q \<longleftrightarrow> unrelated q p"
  by (auto simp: unrelated_def)

definition dotless :: "string \<Rightarrow> bool" where
  "dotless s \<longleftrightarrow> CHR ''.'' \<notin> set s"

lemma dotless_key [simp]: "dotless (print_key k)"
proof (cases k)
  case (Some x)
  then show ?thesis by (cases x) (simp_all add: print_key_def dotless_def)
qed (simp add: print_key_def dotless_def)

lemma key_text_inj: "key_text k = key_text k' \<Longrightarrow> k = k'"
  by (cases k; cases k') simp_all

lemma print_key_inj: "print_key k = print_key k' \<Longrightarrow> k = k'"
proof (cases k; cases k')
  fix x y assume "print_key k = print_key k'" "k = Some x" "k' = Some y"
  then show ?thesis by (simp add: print_key_def key_text_inj)
next
  fix x assume "print_key k = print_key k'" "k = Some x" "k' = None"
  then show ?thesis by (cases x) (simp_all add: print_key_def)
next
  fix x assume "print_key k = print_key k'" "k = None" "k' = Some x"
  then show ?thesis by (cases x) (simp_all add: print_key_def)
qed simp

lemma dotless_prefix:
  assumes "dotless a" and "dotless b" and "a @ r = b @ r'"
    and "r = [] \<or> hd r = CHR ''.''" and "r' = [] \<or> hd r' = CHR ''.''"
  shows "a = b \<and> r = r'"
proof -
  have t: "takeWhile (\<lambda>c. c \<noteq> CHR ''.'') (x @ y) = x" if "dotless x" "y = [] \<or> hd y = CHR ''.''" for x y
  proof -
    have "takeWhile (\<lambda>c. c \<noteq> CHR ''.'') y = []" using that(2) by (cases y) auto
    with that(1) show ?thesis by (auto simp: dotless_def takeWhile_append)
  qed
  from t [OF assms(1,4)] t [OF assms(2,5)] assms(3) have "a = b" by simp
  with assms(3) show ?thesis by simp
qed

definition suffix_of :: "string option \<Rightarrow> string" where
  "suffix_of ident = (case ident of None \<Rightarrow> [] | Some i \<Rightarrow> if i = [] then [] else CHR ''.'' # i)"

lemma path_of_alt: "path_of n k ident = n @ ''-'' @ print_key k @ suffix_of ident"
  by (simp add: path_of_def getNetworkKey_def suffix_of_def split: option.split)

lemma suffix_of_ok [simp]: "suffix_of ident = [] \<or> hd (suffix_of ident) = CHR ''.''"
  by (simp add: suffix_of_def split: option.split)

lemma extends_paths:
  assumes "extends (path_of n k i) (path_of n k' j)"
  shows "k = k' \<and> extends (suffix_of i) (suffix_of j)"
proof -
  from assms obtain r where r: "print_key k' @ suffix_of j = print_key k @ suffix_of i @ r"
    "r = [] \<or> hd r = CHR ''.''"
    by (auto simp: extends_def path_of_alt)
  have "suffix_of i @ r = [] \<or> hd (suffix_of i @ r) = CHR ''.''"
    using r(2) suffix_of_ok [of i] by (cases "suffix_of i") auto
  from dotless_prefix [OF dotless_key dotless_key r(1) suffix_of_ok this]
  have "print_key k' = print_key k" "suffix_of j = suffix_of i @ r" by simp_all
  with r(2) show ?thesis using print_key_inj by (auto simp: extends_def)
qed

text \<open>Different keys are unrelated, whatever the ids; so are different ids without dots.\<close>

lemma unrelated_keys [simp]: "k \<noteq> k' \<Longrightarrow> unrelated (path_of n k i) (path_of n k' j)"
  unfolding unrelated_def using extends_paths by blast

lemma unrelated_ids:
  assumes "i \<noteq> j" and "dotless i" and "dotless j" and "i \<noteq> []" and "j \<noteq> []"
  shows "unrelated (path_of n k (Some i)) (path_of n k (Some j))"
proof -
  have "\<not> extends (suffix_of (Some x)) (suffix_of (Some y))"
    if "x \<noteq> y" "dotless x" "dotless y" "x \<noteq> []" "y \<noteq> []" for x y
  proof
    assume "extends (suffix_of (Some x)) (suffix_of (Some y))"
    with that obtain r where "y @ [] = x @ r" "r = [] \<or> hd r = CHR ''.''"
      by (auto simp: extends_def suffix_of_def)
    with dotless_prefix [of y x "[]" r] that show False by auto
  qed
  with assms show ?thesis unfolding unrelated_def using extends_paths by metis
qed

lemmas storage_defs [model_defs] =
  api_get_def api_set_def api_unset_def api_reset_def requestElectronStore_def getSetting_def
  setSetting_def setFlag_def unsetSetting_def

lemma api_get_other:
  assumes "electron_laws E" and "k \<noteq> k'"
  shows "api_get E n k f i (api_set E n k' v j s) = api_get E n k f i s"
    and "api_get E n k f i (api_unset E n k' j s) = api_get E n k f i s"
  using assms unrelated_keys [of "Some k'" "Some k" n j i]
  by (simp_all add: storage_defs electron_lawsD)

lemma api_get_same:
  assumes "electron_laws E"
  shows "api_get E n k f i (api_set E n k v i s) = v"
    and "api_get E n k f i (api_unset E n k i s)
           = (case f of None \<Rightarrow> JStr [] | Some x \<Rightarrow> if truthy x then x else JStr [])"
  using assms by (simp_all add: storage_defs electron_lawsD)

lemma api_get_other_id:
  assumes "electron_laws E" and "i \<noteq> j" and "dotless i" "dotless j" "i \<noteq> []" "j \<noteq> []"
  shows "api_get E n k f (Some i) (api_set E n k v (Some j) s) = api_get E n k f (Some i) s"
  using assms unrelated_ids [of j i n "Some k"] by (simp add: storage_defs electron_lawsD)

subsection \<open>Reset\<close>

lemma eget_reset:
  assumes "electron_laws E"
  shows "eget E (fold (unset_key E n) ks s) (path_of n k None)
           = (if k \<in> set ks then None else eget E s (path_of n k None))"
proof (induction ks arbitrary: s)
  case (Cons x ks)
  show ?case
  proof (cases "x = k")
    case True
    then have "eget E (unset_key E n x s) (path_of n k None) = None"
      using assms by (simp add: unset_key_def electron_lawsD)
    with True show ?thesis using Cons.IH [of "unset_key E n x s"] by simp
  next
    case False
    with assms have "eget E (unset_key E n x s) (path_of n k None) = eget E s (path_of n k None)"
      by (simp add: unset_key_def electron_lawsD)
    with False show ?thesis using Cons.IH [of "unset_key E n x s"] by simp
  qed
qed simp

subsection \<open>Object.assign\<close>

lemma map_of_assign: "map_of (assign t src) k = (case map_of (rev src) k of None \<Rightarrow> map_of t k | Some v \<Rightarrow> Some v)"
proof (induction src arbitrary: t)
  case (Cons x src)
  obtain a v where x: "x = (a, v)" by (cases x)
  have "assign t (x # src) = assign (AList.update a v t) src" by (simp add: assign_def x)
  then show ?case
    by (auto simp: Cons.IH x AList.update_conv' map_add_def split: option.split)
qed (simp add: assign_def)

subsection \<open>A store of nested objects\<close>

text \<open>A store that obeys the laws: objects nested along the dots of the path.\<close>

fun split_dots :: "string \<Rightarrow> string list" where
  "split_dots [] = [[]]"
| "split_dots (c # cs) =
     (if c = CHR ''.'' then [] # split_dots cs
      else (c # hd (split_dots cs)) # tl (split_dots cs))"

fun put :: "string list \<Rightarrow> json \<Rightarrow> (string \<times> json) list \<Rightarrow> (string \<times> json) list" where
  "put [] v kvs = kvs"
| "put [k] v kvs = AList.update k v kvs"
| "put (k # ks) v kvs =
     AList.update k (JObj (put ks v (case map_of kvs k of None \<Rightarrow> [] | Some x \<Rightarrow> members x))) kvs"

fun look :: "string list \<Rightarrow> (string \<times> json) list \<Rightarrow> json option" where
  "look [] kvs = None"
| "look [k] kvs = map_of kvs k"
| "look (k # ks) kvs = (case map_of kvs k of None \<Rightarrow> None | Some x \<Rightarrow> look ks (members x))"

fun drop_path :: "string list \<Rightarrow> (string \<times> json) list \<Rightarrow> (string \<times> json) list" where
  "drop_path [] kvs = kvs"
| "drop_path [k] kvs = AList.delete k kvs"
| "drop_path (k # ks) kvs =
     (case map_of kvs k of
        Some (JObj m) \<Rightarrow> AList.update k (JObj (drop_path ks m)) kvs
      | _ \<Rightarrow> kvs)"

definition nested_store :: "(string \<times> json) list electron" where
  "nested_store = \<lparr>eget = (\<lambda>s p. look (split_dots p) s), eset = (\<lambda>s p v. put (split_dots p) v s),
     edelete = (\<lambda>s p. drop_path (split_dots p) s)\<rparr>"

lemma split_dots_not_Nil [simp]: "split_dots s \<noteq> []"
  by (cases s) simp_all

fun join_dots :: "string list \<Rightarrow> string" where
  "join_dots [] = []"
| "join_dots [w] = w"
| "join_dots (w # ws) = w @ CHR ''.'' # join_dots ws"

lemma join_dots_Cons: "ws \<noteq> [] \<Longrightarrow> join_dots (w # ws) = w @ CHR ''.'' # join_dots ws"
  by (cases ws) simp_all

lemma join_split [simp]: "join_dots (split_dots s) = s"
proof (induction s)
  case (Cons c s)
  show ?case
  proof (cases "tl (split_dots s)")
    case Nil
    then have "split_dots s = [hd (split_dots s)]" by (metis list.collapse split_dots_not_Nil)
    with Cons.IH have "hd (split_dots s) = s" by (metis join_dots.simps(2))
    with Nil Cons.IH show ?thesis by (simp add: join_dots_Cons)
  next
    case (Cons w ws)
    then have "split_dots s = hd (split_dots s) # w # ws" by (metis list.collapse split_dots_not_Nil)
    with Cons.IH have "s = hd (split_dots s) @ CHR ''.'' # join_dots (w # ws)" by (metis join_dots.simps(3))
    with Cons Cons.IH show ?thesis by (simp add: join_dots_Cons)
  qed
qed simp

lemma join_dots_append: "xs \<noteq> [] \<Longrightarrow> ys \<noteq> [] \<Longrightarrow> join_dots (xs @ ys) = join_dots xs @ CHR ''.'' # join_dots ys"
  by (induction xs rule: join_dots.induct) (auto simp: join_dots_Cons)

definition apart :: "'a list \<Rightarrow> 'a list \<Rightarrow> bool" where
  "apart p q \<longleftrightarrow> (\<forall>r. q \<noteq> p @ r) \<and> (\<forall>r. p \<noteq> q @ r)"

lemma apart_Cons [simp]: "apart (x # p) (y # q) \<longleftrightarrow> x \<noteq> y \<or> apart p q"
  "\<not> apart [] q" "\<not> apart p []"
  by (auto simp: apart_def)

lemma apart_split:
  assumes "unrelated p q"
  shows "apart (split_dots p) (split_dots q)"
proof -
  have "extends a b" if "split_dots b = split_dots a @ r" for a b r
  proof (cases "r = []")
    case True
    with that have "b = a" by (metis append_Nil2 join_split)
    then show ?thesis by (simp add: extends_def)
  next
    case False
    with that have "b = a @ CHR ''.'' # join_dots r"
      using join_dots_append [of "split_dots a" r] join_split [of b] by simp
    then show ?thesis unfolding extends_def by (metis list.sel(1))
  qed
  with assms show ?thesis unfolding unrelated_def apart_def by blast
qed

lemma look_empty [simp]: "look q [] = None"
  by (cases "(q, [] :: (string \<times> json) list)" rule: look.cases) simp_all

lemma look_put: "p \<noteq> [] \<Longrightarrow> look p (put p v s) = Some v"
  by (induction p v s rule: put.induct) (simp_all add: AList.update_conv')

lemma look_put_apart: "apart p q \<Longrightarrow> look q (put p v s) = look q s"
proof (induction p v s arbitrary: q rule: put.induct)
  case (3 k k' ks v kvs)
  then show ?case
    by (cases "(q, kvs)" rule: look.cases)
      (auto simp: AList.update_conv' split: option.split)
next
  case (2 k v kvs)
  then show ?case by (cases "(q, kvs)" rule: look.cases) (auto simp: AList.update_conv')
qed simp

lemma look_drop: "p \<noteq> [] \<Longrightarrow> look p (drop_path p s) = None"
proof (induction p s rule: drop_path.induct)
  case (3 k k' ks kvs)
  then show ?case
    by (auto simp: AList.update_conv' split: option.split json.split)
qed (simp_all add: AList.delete_conv')

lemma look_drop_apart: "apart p q \<Longrightarrow> look q (drop_path p s) = look q s"
proof (induction p s arbitrary: q rule: drop_path.induct)
  case (3 k k' ks kvs)
  then show ?case
    by (cases "(q, kvs)" rule: look.cases)
      (auto simp: AList.update_conv' split: option.split json.split)
next
  case (2 k kvs)
  then show ?case by (cases "(q, kvs)" rule: look.cases) (auto simp: AList.delete_conv')
qed simp

lemma nested_store_laws: "electron_laws nested_store"
  by (simp add: electron_laws_def nested_store_def look_put look_put_apart look_drop look_drop_apart
      apart_split)

subsection \<open>Properties\<close>

text \<open>
  Settings round trip. A value that was set is read back, an unset setting reads as its fallback
  (as the empty string when the fallback is falsy), and neither operation changes what any
  other setting reads as, whatever id it is kept under.
\<close>

theorem settings_roundtrip:
  assumes "electron_laws E"
  shows "getSetting E n k (setSetting E n k v s) = v
     \<and> getSetting E n k (unsetSetting E n k s)
         = (case setting_fallback k of None \<Rightarrow> JStr [] | Some f \<Rightarrow> if truthy f then f else JStr [])
     \<and> (k = k' \<or> api_get E n k' f i (setSetting E n k v s) = api_get E n k' f i s
                  \<and> api_get E n k' f i (unsetSetting E n k s) = api_get E n k' f i s)"
  using api_get_other [OF assms, of k' k n f i] api_get_same [OF assms]
  by (auto simp: getSetting_def setSetting_def unsetSetting_def)

theorem settings_roundtrip_witness:
  "getSetting nested_store ''mainnet'' THEME (setSetting nested_store ''mainnet'' THEME (JStr ''cardano'') []) = JStr ''cardano''"
  using settings_roundtrip [OF nested_store_laws, of "''mainnet''" THEME "JStr ''cardano''" "[]" THEME None None] by simp

text \<open>
  A reset clears the listed settings, but not the theme: it unsets \<open>keys.USER_THEME\<close>, which is
  not a key, so for every store the theme reads the same after the reset as before.
\<close>

theorem reset_keeps_the_theme:
  assumes "electron_laws E"
  shows "getSetting E n THEME (api_reset E n s) = getSetting E n THEME s
     \<and> getSetting E n k (api_reset E n s)
         = (if Some k \<in> set reset_keys
            then (case setting_fallback k of None \<Rightarrow> JStr [] | Some f \<Rightarrow> if truthy f then f else JStr [])
            else getSetting E n k s)"
proof -
  have "getSetting E n k' (api_reset E n s)
         = (if Some k' \<in> set reset_keys
            then (case setting_fallback k' of None \<Rightarrow> JStr [] | Some f \<Rightarrow> if truthy f then f else JStr [])
            else getSetting E n k' s)" for k'
    using eget_reset [OF assms, of n reset_keys s "Some k'"]
    by (auto simp: getSetting_def api_get_def api_reset_def requestElectronStore_def reset_store_def Let_def)
  moreover have "Some THEME \<notin> set reset_keys" by (simp add: reset_keys_def)
  ultimately show ?thesis by simp
qed

theorem reset_keeps_the_theme_witness:
  "getSetting nested_store ''mainnet'' THEME
     (api_reset nested_store ''mainnet'' [(''mainnet-THEME'', JStr ''dark-blue'')]) = JStr ''dark-blue''"
  unfolding reset_keeps_the_theme [OF nested_store_laws, THEN conjunct1]
  by (simp add: getSetting_def api_get_def requestElectronStore_def nested_store_def path_of_def
      getNetworkKey_def print_key_def)

text \<open>
  Wallet data are merged, not replaced. What is stored and returned has the wallet's id
  whatever the update says, keeps the creation date of the first time unless the update names
  one, takes the other members of the update and keeps the rest; the data of another wallet and
  every other setting stay as they are.
\<close>

theorem wallet_data_is_merged:
  assumes "electron_laws E" and "dotless w" and "w \<noteq> []" and "dotless w'" and "w' \<noteq> []" and "w \<noteq> w'"
    and "setWalletLocalData E n now w (JObj u) s = (d, s')"
  shows "getWalletLocalData E n w s' = d
     \<and> map_of (members d) ''id'' = Some (JStr w)
     \<and> map_of (members d) ''creationDate''
         = (case map_of (rev u) ''creationDate'' of Some x \<Rightarrow> Some x
            | None \<Rightarrow> (case map_of (rev (members (getWalletLocalData E n w s))) ''creationDate'' of
                        Some x \<Rightarrow> Some x | None \<Rightarrow> Some now))
     \<and> (m \<in> {''id'', ''creationDate''} \<or> map_of (members d) m
         = (case map_of (rev u) m of Some x \<Rightarrow> Some x
            | None \<Rightarrow> map_of (rev (members (getWalletLocalData E n w s))) m))
     \<and> getWalletLocalData E n w' s' = getWalletLocalData E n w' s
     \<and> (k = WALLETS \<or> api_get E n k f i s' = api_get E n k f i s)"
proof -
  from assms(7) have d: "d = assign_all [JObj [(''creationDate'', now)], getWalletLocalData E n w s, JObj u,
      JObj [(''id'', JStr w)]]" and s': "s' = api_set E n WALLETS d (Some w) s"
    by (auto simp: setWalletLocalData_def Let_def)
  have "map_of (members d) m' = (if m' = ''id'' then Some (JStr w) else
      case map_of (rev u) m' of Some x \<Rightarrow> Some x
      | None \<Rightarrow> (case map_of (rev (members (getWalletLocalData E n w s))) m' of Some x \<Rightarrow> Some x
                | None \<Rightarrow> if m' = ''creationDate'' then Some now else None))" for m'
    by (simp add: d assign_all_def map_of_assign split: option.split)
  moreover have "getWalletLocalData E n w s' = d"
    using api_get_same(1) [OF assms(1)] by (simp add: s' getWalletLocalData_def getLocalData_def)
  moreover have "getWalletLocalData E n w' s' = getWalletLocalData E n w' s"
    using api_get_other_id [OF assms(1) assms(6)[symmetric] assms(4,2,5,3)]
    by (simp add: s' getWalletLocalData_def getLocalData_def)
  moreover have "k = WALLETS \<or> api_get E n k f i s' = api_get E n k f i s"
    using api_get_other(1) [OF assms(1), of k WALLETS] s' by blast
  ultimately show ?thesis by (auto split: option.split)
qed

theorem wallet_data_is_merged_witness:
  "map_of (members (fst (setWalletLocalData nested_store ''mainnet'' (JNum 5) ''w1'' (JObj [(''id'', JStr ''w2'')]) []))) ''id''
     = Some (JStr ''w1'')"
proof (cases "setWalletLocalData nested_store ''mainnet'' (JNum 5) ''w1'' (JObj [(''id'', JStr ''w2'')]) []")
  case (Pair d s')
  with wallet_data_is_merged [OF nested_store_laws, of "''w1''" "''w2''" "''mainnet''" "JNum 5"
      "[(''id'', JStr ''w2'')]" "[]" d s' "''id''" WALLETS None None]
  show ?thesis by (simp add: dotless_def)
qed

lemma getReadNews_stored: "getReadNews E n s = stored_news E n s"
  by (simp add: getReadNews_def stored_news_def getSetting_def api_get_def split: sum.split option.split)

text \<open>
  Marking news. Marking one item makes it read and keeps the others read, marking it again
  changes nothing, unmarking removes exactly it. A list whose first item is read already is
  dropped as a whole, so that its other items stay unread.
\<close>

theorem marking_news:
  assumes "electron_laws E"
  shows "set (getReadNews E n (snd (markNewsAsRead E n [t] s))) = insert t (set (getReadNews E n s))
     \<and> snd (markNewsAsRead E n [t] (snd (markNewsAsRead E n [t] s))) = snd (markNewsAsRead E n [t] s)
     \<and> set (getReadNews E n (snd (markNewsAsUnread E n t s))) = set (getReadNews E n s) - {t}
     \<and> getReadNews E n (snd (markNewsAsRead E n (t # ts) (snd (markNewsAsRead E n [t] s))))
         = getReadNews E n (snd (markNewsAsRead E n [t] s))"
  using api_get_same(1) [OF assms]
  by (auto simp: getReadNews_stored stored_news_def markNewsAsRead_def markNewsAsUnread_def Let_def)

theorem marking_news_witness:
  "set (getReadNews nested_store ''mainnet'' (snd (markNewsAsRead nested_store ''mainnet'' [JNum 1] []))) = {JNum 1}"
  using marking_news [OF nested_store_laws, of "''mainnet''" "JNum 1" "[]" "[]"]
  by (simp add: getReadNews_stored stored_news_def api_get_def requestElectronStore_def nested_store_def)

end
