(* ===== verification/News.thy ===== *)
theory News imports Requests begin

text \<open>
  The news feed: the collection and its views in \<^verbatim>\<open>source/renderer/app/domains/News.js\<close>, and the
  store that polls the feed, \<^verbatim>\<open>source/renderer/app/stores/NewsFeedStore.js\<close>.

  In the JavaScript objects an absent text, number or list is only ever tested for truth, so it is
  the empty string, 0 or the empty list here. \<open>semver.satisfies\<close> is a parameter. The four requests
  of the store are request objects of the theory \<open>Requests\<close>; \<open>getNews\<close> and \<open>markNewsAsRead\<close> are
  tasks, split at their awaits and resumed in any order.
\<close>

subsection \<open>The collection\<close>

datatype news_type = INCIDENT | ALERT | ANNOUNCEMENT | INFO | UPDATE | OtherNews string

record news_env =
  version :: string
  platform :: string
  envTest :: bool
  envDev :: bool
  satisfies :: "string \<Rightarrow> string \<Rightarrow> bool"      \<comment> \<open>\<open>semver\<close>, with prereleases\<close>

record news =
  news_id :: nat
  title :: string
  content :: string
  klarityVersion :: string
  platforms :: "string list"
  label :: string
  url :: string
  route :: string
  action_event :: string
  date :: nat
  news_type :: news_type
  read :: bool
  color :: "string option"
  repeatOnStartup :: bool

record collection =
  all_news :: "news list"
  news_update :: "news option"

record views =
  view_all :: "news list"
  view_unread :: "news list"
  view_read :: "news list"

definition is_shown :: "news_env \<Rightarrow> news \<Rightarrow> bool" where
  "is_shown env n \<longleftrightarrow>
     (klarityVersion n = [] \<or> satisfies env (version env) (klarityVersion n))
     \<and> (platform env = ''browser'' \<or> platform env \<in> set (platforms n))
     \<and> news_type n \<noteq> UPDATE
     \<and> news_id n \<noteq> 0 \<and> title n \<noteq> [] \<and> content n \<noteq> [] \<and> label n \<noteq> [] \<and> date n \<noteq> 0"

definition by_date :: "news \<Rightarrow> int" where
  "by_date n = int (date n)"

definition newsCollection :: "news_env \<Rightarrow> news list \<Rightarrow> collection" where
  "newsCollection env data =
     \<lparr>all_news = order_desc by_date (filter (is_shown env) data),
      news_update = find (\<lambda>n. news_type n = UPDATE) data\<rparr>"

definition incident :: "collection \<Rightarrow> news option" where
  "incident c =
     (let incidents = filter (\<lambda>n. news_type n = INCIDENT) (all_news c)
      in if length incidents > 0 then Some (incidents ! (length incidents - 1)) else None)"

definition unread_news :: "collection \<Rightarrow> news list" where
  "unread_news c = order_asc by_date (filter (\<lambda>n. \<not> read n) (all_news c))"

definition read_news :: "collection \<Rightarrow> news list" where
  "read_news c = order_asc by_date (filter read (all_news c))"

definition views_of :: "collection \<Rightarrow> views" where
  "views_of c = \<lparr>view_all = all_news c, view_unread = unread_news c, view_read = read_news c\<rparr>"

definition alerts :: "news_env \<Rightarrow> collection \<Rightarrow> views" where
  "alerts env c =
     views_of (newsCollection env (order_asc by_date (filter (\<lambda>n. news_type n = ALERT) (all_news c))))"

definition announcements :: "news_env \<Rightarrow> collection \<Rightarrow> views" where
  "announcements env c =
     views_of (newsCollection env (filter (\<lambda>n. news_type n = ANNOUNCEMENT \<and> \<not> read n) (all_news c)))"

definition infos :: "news_env \<Rightarrow> collection \<Rightarrow> views" where
  "infos env c =
     views_of (newsCollection env (filter (\<lambda>n. news_type n = INFO \<and> \<not> read n) (all_news c)))"

subsection \<open>The store\<close>

text \<open>An item as the feed has it; texts, links and publication dates by locale.\<close>

record raw_item =
  raw_id :: nat
  raw_date :: nat
  raw_publishedAt :: "(string \<times> nat) list"
  raw_title :: "(string \<times> string) list"
  raw_content :: "(string \<times> string) list"
  raw_version :: string
  raw_platforms :: "string list"
  raw_label :: "(string \<times> string) list"
  raw_url :: "(string \<times> string) list"
  raw_route :: "(string \<times> string) list"
  raw_event :: "(string \<times> string) list"
  raw_type :: news_type
  raw_color :: "string option"
  raw_repeat :: bool

record feed =
  items :: "raw_item list"
  updatedAt :: nat

datatype news_poll = RegularPoll | ErrorPoll | IncidentPoll

datatype news_task =
    NewsTask bool nat              \<comment> \<open>\<open>isInit\<close>, flight of the feed\<close>
  | UnreadTask feed nat            \<comment> \<open>flight of \<open>markNewsAsUnread\<close>\<close>
  | RereadTask feed nat            \<comment> \<open>the reread that follows it\<close>
  | ReadTask "feed option" nat     \<comment> \<open>the reread at the end of \<open>getNews\<close>\<close>
  | MarkTask nat                   \<comment> \<open>\<open>markNewsAsRead\<close>\<close>

datatype news_effect =
  OpenExternalLink string | CloseNewsFeed | GoToRoute string | OpenKlarityDiagnostics | DownloadLogs

record newsfeed =
  rawNews :: "raw_item list option"
  newsUpdatedAt :: "nat option"
  fetchingNewsFailed :: bool
  getNewsRequest :: "(unit, feed, unit) request"
  getReadNewsRequest :: "(unit, nat list, unit) request"
  markNewsAsReadRequest :: "(nat list, nat list, unit) request"
  markNewsAsUnreadRequest :: "(nat, nat list, unit) request"
  openedAlert :: "news option"
  pollers :: "news_poll \<Rightarrow> nat option"       \<comment> \<open>the three interval id fields\<close>
  newsTimers :: "(nat \<times> news_poll) list"
  nextNewsTimer :: nat
  newsTasks :: "news_task list"
  newsEffects :: "news_effect list"

definition new_NewsFeedStore :: newsfeed where
  "new_NewsFeedStore = \<lparr>rawNews = None, newsUpdatedAt = None, fetchingNewsFailed = False,
     getNewsRequest = new_request PlainRequest, getReadNewsRequest = new_request PlainRequest,
     markNewsAsReadRequest = new_request PlainRequest,
     markNewsAsUnreadRequest = new_request PlainRequest,
     openedAlert = None, pollers = (\<lambda>_. None), newsTimers = [], nextNewsTimer = 1,
     newsTasks = [], newsEffects = []\<rparr>"

definition set_poller :: "news_poll \<Rightarrow> newsfeed \<Rightarrow> newsfeed" where
  "set_poller p s = s\<lparr>pollers := (pollers s)(p := Some (nextNewsTimer s)),
     newsTimers := newsTimers s @ [(nextNewsTimer s, p)], nextNewsTimer := Suc (nextNewsTimer s)\<rparr>"

definition clear_poller :: "news_poll \<Rightarrow> newsfeed \<Rightarrow> newsfeed" where
  "clear_poller p s =
     (case pollers s p of
        None \<Rightarrow> s
      | Some i \<Rightarrow> s\<lparr>newsTimers := filter (\<lambda>t. fst t \<noteq> i) (newsTimers s), pollers := (pollers s)(p := None)\<rparr>)"

definition add_news_task :: "news_task \<Rightarrow> newsfeed \<Rightarrow> newsfeed" where
  "add_news_task t s = s\<lparr>newsTasks := newsTasks s @ [t]\<rparr>"

definition begin_getNews :: "bool \<Rightarrow> newsfeed \<Rightarrow> newsfeed" where
  "begin_getNews isInit s =
     (let r = execute () (getNewsRequest s)
      in add_news_task (NewsTask isInit (flight_of r)) (s\<lparr>getNewsRequest := r\<rparr>))"

definition begin_getReadNews :: "(nat \<Rightarrow> news_task) \<Rightarrow> newsfeed \<Rightarrow> newsfeed" where
  "begin_getReadNews k s =
     (let r = execute () (getReadNewsRequest s)
      in add_news_task (k (flight_of r)) (s\<lparr>getReadNewsRequest := r\<rparr>))"

definition setup_news :: "news_env \<Rightarrow> newsfeed \<Rightarrow> newsfeed" where
  "setup_news env s =
     (let s1 = begin_getNews True s in if \<not> envTest env then set_poller RegularPoll s1 else s1)"

definition has_incident :: "feed \<Rightarrow> bool" where
  "has_incident f \<longleftrightarrow> find (\<lambda>n. raw_type n = INCIDENT) (items f) \<noteq> None"

text \<open>The polling intervals after a feed was read.\<close>

definition leave_error_polling :: "bool \<Rightarrow> bool \<Rightarrow> newsfeed \<Rightarrow> newsfeed" where
  "leave_error_polling test hasIncident s =
     (if \<not> test \<and> pollers s ErrorPoll \<noteq> None
      then (let s1 = clear_poller ErrorPoll s
            in if \<not> hasIncident then set_poller RegularPoll s1 else s1)
      else s)"

definition enter_incident_polling :: "bool \<Rightarrow> newsfeed \<Rightarrow> newsfeed" where
  "enter_incident_polling hasIncident s =
     (if hasIncident \<and> pollers s IncidentPoll = None
      then set_poller IncidentPoll (clear_poller RegularPoll s) else s)"

definition leave_incident_polling :: "bool \<Rightarrow> newsfeed \<Rightarrow> newsfeed" where
  "leave_incident_polling hasIncident s =
     (if \<not> hasIncident \<and> pollers s IncidentPoll \<noteq> None
      then set_poller RegularPoll (clear_poller IncidentPoll s) else s)"

definition feed_read :: "news_env \<Rightarrow> feed \<Rightarrow> newsfeed \<Rightarrow> newsfeed" where
  "feed_read env f s =
     (leave_incident_polling (has_incident f) (enter_incident_polling (has_incident f)
        (leave_error_polling (envTest env) (has_incident f) s)))\<lparr>fetchingNewsFailed := False\<rparr>"

text \<open>The \<open>catch\<close> block.\<close>

definition feed_failed :: "news_env \<Rightarrow> newsfeed \<Rightarrow> newsfeed" where
  "feed_failed env s =
     (let s1 = (if \<not> envTest env \<and> rawNews s = None
                then (let s2 = clear_poller IncidentPoll (clear_poller RegularPoll s)
                      in if pollers s2 ErrorPoll = None then set_poller ErrorPoll s2 else s2)
                else s)
      in s1\<lparr>fetchingNewsFailed := True\<rparr>)"

definition main_identificator :: "raw_item \<Rightarrow> nat" where
  "main_identificator i = (if raw_id i \<noteq> 0 then raw_id i else raw_date i)"

definition feed_received :: "news_env \<Rightarrow> bool \<Rightarrow> feed \<Rightarrow> newsfeed \<Rightarrow> newsfeed" where
  "feed_received env isInit f s =
     (case (if isInit then find (\<lambda>n. raw_type n = ALERT \<and> raw_repeat n) (items f) else None) of
        Some n \<Rightarrow>
          (let r = execute (main_identificator n) (markNewsAsUnreadRequest s)
           in add_news_task (UnreadTask f (flight_of r)) (s\<lparr>markNewsAsUnreadRequest := r\<rparr>))
      | None \<Rightarrow> begin_getReadNews (ReadTask (Some f)) (feed_read env f s))"

definition set_news_data :: "feed option \<Rightarrow> newsfeed \<Rightarrow> newsfeed" where
  "set_news_data f s =
     (case f of None \<Rightarrow> s | Some x \<Rightarrow> s\<lparr>rawNews := Some (items x), newsUpdatedAt := Some (updatedAt x)\<rparr>)"

definition begin_markNewsAsRead :: "nat list \<Rightarrow> newsfeed \<Rightarrow> newsfeed" where
  "begin_markNewsAsRead newsId s =
     (let r = execute newsId (markNewsAsReadRequest s)
      in add_news_task (MarkTask (flight_of r)) (s\<lparr>markNewsAsReadRequest := r\<rparr>))"

definition resume_news :: "news_env \<Rightarrow> news_task \<Rightarrow> newsfeed \<Rightarrow> newsfeed option" where
  "resume_news env t s =
     (case t of
        NewsTask isInit n \<Rightarrow>
          map_option (\<lambda>x. case x of
              Inl e \<Rightarrow> begin_getReadNews (ReadTask None) (feed_failed env s)
            | Inr f \<Rightarrow> feed_received env isInit f s) (outcome_of n (getNewsRequest s))
      | UnreadTask f n \<Rightarrow>
          map_option (\<lambda>x. case x of
              Inl e \<Rightarrow> begin_getReadNews (ReadTask (Some f)) (feed_failed env s)
            | Inr y \<Rightarrow> begin_getReadNews (RereadTask f) s) (outcome_of n (markNewsAsUnreadRequest s))
      | RereadTask f n \<Rightarrow>
          map_option (\<lambda>x. case x of
              Inl e \<Rightarrow> begin_getReadNews (ReadTask (Some f)) (feed_failed env s)
            | Inr y \<Rightarrow> begin_getReadNews (ReadTask (Some f)) (feed_read env f s))
            (outcome_of n (getReadNewsRequest s))
      | ReadTask f n \<Rightarrow>
          map_option (\<lambda>x. case x of Inl e \<Rightarrow> s | Inr y \<Rightarrow> set_news_data f s)
            (outcome_of n (getReadNewsRequest s))
      | MarkTask n \<Rightarrow>
          map_option (\<lambda>x. case x of
              Inl e \<Rightarrow> s
            | Inr y \<Rightarrow> s\<lparr>getReadNewsRequest := execute () (getReadNewsRequest s)\<rparr>)
            (outcome_of n (markNewsAsReadRequest s)))"

text \<open>\<open>item.title[locale]\<close> and the like; the publication date falls back to \<open>date\<close>.\<close>

definition localized :: "string \<Rightarrow> (string \<times> string) list \<Rightarrow> string" where
  "localized locale m = (case map_of m locale of None \<Rightarrow> [] | Some x \<Rightarrow> x)"

definition news_item :: "string \<Rightarrow> nat list \<Rightarrow> raw_item \<Rightarrow> news" where
  "news_item locale readNews i =
     \<lparr>news_id = main_identificator i, title = localized locale (raw_title i),
      content = localized locale (raw_content i), klarityVersion = raw_version i,
      platforms = raw_platforms i, label = localized locale (raw_label i),
      url = localized locale (raw_url i), route = localized locale (raw_route i),
      action_event = localized locale (raw_event i),
      date = (case map_of (raw_publishedAt i) locale of None \<Rightarrow> raw_date i | Some d \<Rightarrow> d),
      news_type = raw_type i, read = (main_identificator i \<in> set readNews),
      color = (if raw_type i = INCIDENT
               then (case raw_color i of None \<Rightarrow> Some ''red'' | Some c \<Rightarrow> Some c) else raw_color i),
      repeatOnStartup = raw_repeat i\<rparr>"

text \<open>\<open>None\<close> is the \<open>TypeError\<close> of \<open>readNews.includes\<close> when the read news were never read.\<close>

definition newsFeedData :: "news_env \<Rightarrow> string \<Rightarrow> newsfeed \<Rightarrow> collection option" where
  "newsFeedData env locale s =
     (if wasExecuted (getNewsRequest s)
      then (case rawNews s of
              None \<Rightarrow> Some (newsCollection env [])
            | Some [] \<Rightarrow> Some (newsCollection env [])
            | Some is \<Rightarrow> map_option (\<lambda>rs. newsCollection env (map (news_item locale rs) is))
                           (result (getReadNewsRequest s)))
      else Some (newsCollection env []))"

definition openAlert :: "news_env \<Rightarrow> string \<Rightarrow> nat \<Rightarrow> newsfeed \<Rightarrow> newsfeed" where
  "openAlert env locale newsId s =
     (if wasExecuted (getNewsRequest s)
      then (case newsFeedData env locale s of
              None \<Rightarrow> s
            | Some c \<Rightarrow> (case find (\<lambda>n. news_id n = newsId) (view_all (alerts env c)) of
                           None \<Rightarrow> s | Some n \<Rightarrow> s\<lparr>openedAlert := Some n\<rparr>))
      else s)"

definition closeOpenedAlert :: "newsfeed \<Rightarrow> newsfeed" where
  "closeOpenedAlert s = s\<lparr>openedAlert := None\<rparr>"

definition proceedNewsAction :: "news \<Rightarrow> newsfeed \<Rightarrow> newsfeed" where
  "proceedNewsAction n s =
     s\<lparr>newsEffects := newsEffects s @
        (if url n \<noteq> [] then [OpenExternalLink (url n)]
         else if route n \<noteq> [] \<and> news_type n \<noteq> INCIDENT \<and> news_type n \<noteq> ALERT
         then [CloseNewsFeed, GoToRoute (route n)]
         else if action_event n = ''OPEN_DIAGNOSTIC_DIALOG'' then [OpenKlarityDiagnostics]
         else if action_event n = ''DOWNLOAD_LOGS'' then [DownloadLogs]
         else [])\<rparr>"

definition setFakedNewsfeed :: "news_env \<Rightarrow> feed \<Rightarrow> newsfeed \<Rightarrow> newsfeed" where
  "setFakedNewsfeed env dummy s =
     (if envDev env
      then (clear_poller RegularPoll s)\<lparr>rawNews := Some (items dummy), newsUpdatedAt := Some (updatedAt dummy)\<rparr>
      else s)"

definition isLoadingNews :: "newsfeed \<Rightarrow> bool" where
  "isLoadingNews s \<longleftrightarrow> fetchingNewsFailed s \<or> rawNews s = None"

datatype news_event =
    NewsTimer nat
  | MarkNewsAsRead "nat list" | OpenAlert string nat | CloseAlert | NewsAction news | FakeNews feed
  | NewsApi nat "unit + feed" | NewsTick
  | ReadApi nat "unit + nat list" | ReadTick
  | MarkApi nat "unit + nat list" | MarkTick
  | UnreadApi nat "unit + nat list" | UnreadTick
  | ResumeNews nat

fun news_step :: "news_env \<Rightarrow> newsfeed \<Rightarrow> news_event \<Rightarrow> newsfeed" where
  "news_step env s (NewsTimer i) =
     (case map_of (newsTimers s) i of None \<Rightarrow> s | Some p \<Rightarrow> begin_getNews False s)"
| "news_step env s (MarkNewsAsRead ids) = begin_markNewsAsRead ids s"
| "news_step env s (OpenAlert locale i) = openAlert env locale i s"
| "news_step env s CloseAlert = closeOpenedAlert s"
| "news_step env s (NewsAction n) = proceedNewsAction n s"
| "news_step env s (FakeNews f) = setFakedNewsfeed env f s"
| "news_step env s (NewsApi n x) = s\<lparr>getNewsRequest := request_step (getNewsRequest s) (Respond n x)\<rparr>"
| "news_step env s NewsTick = s\<lparr>getNewsRequest := request_step (getNewsRequest s) Tick\<rparr>"
| "news_step env s (ReadApi n x) =
     s\<lparr>getReadNewsRequest := request_step (getReadNewsRequest s) (Respond n x)\<rparr>"
| "news_step env s ReadTick = s\<lparr>getReadNewsRequest := request_step (getReadNewsRequest s) Tick\<rparr>"
| "news_step env s (MarkApi n x) =
     s\<lparr>markNewsAsReadRequest := request_step (markNewsAsReadRequest s) (Respond n x)\<rparr>"
| "news_step env s MarkTick = s\<lparr>markNewsAsReadRequest := request_step (markNewsAsReadRequest s) Tick\<rparr>"
| "news_step env s (UnreadApi n x) =
     s\<lparr>markNewsAsUnreadRequest := request_step (markNewsAsUnreadRequest s) (Respond n x)\<rparr>"
| "news_step env s UnreadTick =
     s\<lparr>markNewsAsUnreadRequest := request_step (markNewsAsUnreadRequest s) Tick\<rparr>"
| "news_step env s (ResumeNews i) =
     (if i < length (newsTasks s)
      then (case resume_news env (newsTasks s ! i) (s\<lparr>newsTasks := remove_nth i (newsTasks s)\<rparr>) of
              None \<Rightarrow> s | Some s' \<Rightarrow> s')
      else s)"

lemma pollers_set [simp]: "pollers (set_poller p s) = (pollers s)(p := Some (nextNewsTimer s))"
  by (simp add: set_poller_def)

lemma pollers_clear [simp]: "pollers (clear_poller p s) = (pollers s)(p := None)"
  by (auto simp: clear_poller_def fun_eq_iff split: option.split)

lemma rawNews_pollers [simp]: "rawNews (set_poller p s) = rawNews s" "rawNews (clear_poller p s) = rawNews s"
  by (simp_all add: set_poller_def clear_poller_def split: option.split)

subsection \<open>One poller at any time\<close>

definition polling_ok :: "newsfeed \<Rightarrow> bool" where
  "polling_ok s \<longleftrightarrow> timers_ok (newsTimers s) (nextNewsTimer s) (pollers s)"

definition one_poller :: "(news_poll \<Rightarrow> nat option) \<Rightarrow> bool" where
  "one_poller f \<longleftrightarrow> (\<exists>p i. f = (\<lambda>_. None)(p := Some i))"

lemma one_pollerI: "f p = Some i \<Longrightarrow> (\<And>q. q \<noteq> p \<Longrightarrow> f q = None) \<Longrightarrow> one_poller f"
  unfolding one_poller_def by (rule exI [of _ p], rule exI [of _ i]) auto

lemma polling_ok_set: "polling_ok s \<Longrightarrow> pollers s p = None \<Longrightarrow> polling_ok (set_poller p s)"
  using timers_ok_add [of "newsTimers s" "nextNewsTimer s" "pollers s" p]
  by (simp add: polling_ok_def set_poller_def)

lemma polling_ok_clear: "polling_ok s \<Longrightarrow> polling_ok (clear_poller p s)"
  using timers_ok_remove [of "newsTimers s" "nextNewsTimer s" "pollers s" p]
  by (auto simp: polling_ok_def clear_poller_def split: option.split)

lemma polling_ok_fields [simp]:
  "polling_ok (add_news_task t s) = polling_ok s" "pollers (add_news_task t s) = pollers s"
  "polling_ok (s\<lparr>fetchingNewsFailed := b\<rparr>) = polling_ok s"
  "polling_ok (begin_getReadNews k s) = polling_ok s" "pollers (begin_getReadNews k s) = pollers s"
  "polling_ok (begin_getNews b s) = polling_ok s" "pollers (begin_getNews b s) = pollers s"
  "polling_ok (begin_markNewsAsRead ids s) = polling_ok s" "pollers (begin_markNewsAsRead ids s) = pollers s"
  "polling_ok (set_news_data f s) = polling_ok s" "pollers (set_news_data f s) = pollers s"
  by (simp_all add: polling_ok_def add_news_task_def begin_getReadNews_def begin_getNews_def
      begin_markNewsAsRead_def set_news_data_def Let_def split: option.split)

lemma timer_unique:
  assumes "polling_ok s" and "one_poller (pollers s)"
  shows "length (newsTimers s) = 1"
proof -
  from assms obtain p i where f: "pollers s = (\<lambda>_. None)(p := Some i)" by (auto simp: one_poller_def)
  have k: "filter (\<lambda>t. snd t = q) (newsTimers s) = timer_of q (pollers s q)" for q
    using assms(1) by (simp add: polling_ok_def timers_ok_def)
  have "snd t = p" if "t \<in> set (newsTimers s)" for t
  proof (rule ccontr)
    assume "snd t \<noteq> p"
    with k [of "snd t"] f have "filter (\<lambda>u. snd u = snd t) (newsTimers s) = []" by (simp add: timer_of_def)
    with that show False by (auto simp: filter_empty_conv)
  qed
  then have "filter (\<lambda>t. snd t = p) (newsTimers s) = newsTimers s" by simp
  with k [of p] f show ?thesis by (simp add: timer_of_def)
qed

text \<open>After a feed was read the poller is the incident poller or the regular one, as the feed says.\<close>

lemma feed_read_pollers:
  assumes "polling_ok s" and "one_poller (pollers s)" and "\<not> envTest env"
  shows "polling_ok (feed_read env f s)"
    and "one_poller (pollers (feed_read env f s))"
    and "pollers (feed_read env f s) (if has_incident f then IncidentPoll else RegularPoll) \<noteq> None"
proof -
  from assms(2) obtain p i where p: "pollers s = (\<lambda>_. None)(p := Some i)" by (auto simp: one_poller_def)
  then have "polling_ok (feed_read env f s) \<and> one_poller (pollers (feed_read env f s))
      \<and> pollers (feed_read env f s) (if has_incident f then IncidentPoll else RegularPoll) \<noteq> None"
    using assms(1,3)
    by (cases p; cases "has_incident f")
      (auto simp: feed_read_def leave_error_polling_def enter_incident_polling_def
        leave_incident_polling_def Let_def polling_ok_set polling_ok_clear
        intro: one_pollerI [of _ RegularPoll] one_pollerI [of _ IncidentPoll])
  then show "polling_ok (feed_read env f s)" "one_poller (pollers (feed_read env f s))"
    "pollers (feed_read env f s) (if has_incident f then IncidentPoll else RegularPoll) \<noteq> None" by blast+
qed

lemma feed_failed_pollers:
  assumes "polling_ok s" and "one_poller (pollers s)" and "\<not> envTest env"
  shows "polling_ok (feed_failed env s)" and "one_poller (pollers (feed_failed env s))"
    and "rawNews s = None \<Longrightarrow> pollers (feed_failed env s) ErrorPoll \<noteq> None"
    and "rawNews s \<noteq> None \<Longrightarrow> pollers (feed_failed env s) = pollers s"
proof -
  from assms(2) obtain p i where p: "pollers s = (\<lambda>_. None)(p := Some i)" by (auto simp: one_poller_def)
  then have "polling_ok (feed_failed env s) \<and> one_poller (pollers (feed_failed env s))
      \<and> (rawNews s = None \<longrightarrow> pollers (feed_failed env s) ErrorPoll \<noteq> None)
      \<and> (rawNews s \<noteq> None \<longrightarrow> pollers (feed_failed env s) = pollers s)"
    using assms
    by (cases p; cases "rawNews s")
      (auto simp: feed_failed_def Let_def polling_ok_set polling_ok_clear intro: one_pollerI [of _ ErrorPoll])
  then show "polling_ok (feed_failed env s)" "one_poller (pollers (feed_failed env s))"
    "rawNews s = None \<Longrightarrow> pollers (feed_failed env s) ErrorPoll \<noteq> None"
    "rawNews s \<noteq> None \<Longrightarrow> pollers (feed_failed env s) = pollers s" by blast+
qed

subsection \<open>The read news are known before the news are shown\<close>

text \<open>
  A plain request that is neither patched nor reset shows a result as soon as one of its flights
  has resolved, and keeps showing one.
\<close>

fun plain_timer :: "('r, 'e) timer \<Rightarrow> bool" where
  "plain_timer (StartExecuting shown) \<longleftrightarrow> shown = None"
| "plain_timer (Finish n r) \<longleftrightarrow> True"
| "plain_timer (PatchResult f) \<longleftrightarrow> False"

definition shows_result :: "('a, 'r, 'e) request \<Rightarrow> bool" where
  "shows_result r \<longleftrightarrow> cls r = PlainRequest \<and> list_all plain_timer (timers r)
     \<and> (result r = None \<longrightarrow> (\<forall>x. Resolved x \<notin> snd ` set (flights r)))"

lemma shows_result_new: "shows_result (new_request PlainRequest)"
  by (simp add: shows_result_def new_request_def)

lemma shows_result_execute: "shows_result r \<Longrightarrow> shows_result (execute a r)"
  by (auto simp: shows_result_def execute_def execute_plain_def launch_def Let_def)

lemma shows_result_Respond: "shows_result r \<Longrightarrow> shows_result (request_step r (Respond n x))"
  by (simp add: shows_result_def)

lemma not_resolved_update:
  assumes "\<forall>x. Resolved x \<notin> snd ` set fs"
  shows "\<forall>x. Resolved x \<notin> snd ` set (fs[n := (a, settle (snd (fs ! n)) (Inl e))])"
proof (cases "n < length fs")
  case True
  then have "snd (fs ! n) \<in> snd ` set fs" by simp
  with assms have "settle (snd (fs ! n)) (Inl e) \<noteq> Resolved x" for x
    by (cases "snd (fs ! n)") auto
  then have "Resolved x \<notin> snd ` insert (a, settle (snd (fs ! n)) (Inl e)) (set fs)" for x
    using assms by (simp add: image_iff) metis
  then show ?thesis using set_update_subset_insert [of fs n] by blast
qed (use assms in \<open>simp add: not_less list_update_beyond\<close>)

lemma shows_result_fire:
  assumes "shows_result (r\<lparr>timers := t # ts\<rparr>)"
  shows "shows_result (fire t (r\<lparr>timers := ts\<rparr>))"
proof (cases t)
  case (StartExecuting shown)
  with assms show ?thesis by (simp add: shows_result_def)
next
  case (Finish n x)
  show ?thesis
  proof (cases x)
    case (Inl e)
    with assms Finish show ?thesis
      using not_resolved_update [of "flights r" n "fst (flights r ! n)" e]
      by (auto simp: shows_result_def settle_flight_def)
  next
    case (Inr y)
    with assms Finish show ?thesis
      by (simp add: shows_result_def settle_flight_def write_current_def split: option.split)
  qed
next
  case (PatchResult f)
  with assms show ?thesis by (simp add: shows_result_def)
qed

lemma shows_result_Tick: "shows_result r \<Longrightarrow> shows_result (request_step r Tick)"
proof (cases "timers r")
  case (Cons t ts)
  assume "shows_result r"
  then have "shows_result (r\<lparr>timers := t # ts\<rparr>)" unfolding Cons [symmetric] by simp
  from shows_result_fire [OF this] Cons show ?thesis by simp
qed simp

lemma result_kept:
  "result r \<noteq> None \<Longrightarrow> result (execute_plain a r) \<noteq> None"
  "result r \<noteq> None \<Longrightarrow> result (request_step r (Respond n x)) \<noteq> None"
  by (simp_all add: execute_plain_def launch_def Let_def)

lemma result_kept_fire: "plain_timer t \<Longrightarrow> result r \<noteq> None \<Longrightarrow> result (fire t r) \<noteq> None"
  by (cases "(t, r)" rule: fire.cases)
    (auto simp: settle_flight_def write_current_def split: option.splits)

lemma result_kept_Tick: "shows_result r \<Longrightarrow> result r \<noteq> None \<Longrightarrow> result (request_step r Tick) \<noteq> None"
  using result_kept_fire [of "hd (timers r)" "r\<lparr>timers := tl (timers r)\<rparr>"]
  by (cases "timers r") (auto simp: shows_result_def)

lemma outcome_shown: "shows_result r \<Longrightarrow> outcome_of n r = Some (Inr x) \<Longrightarrow> result r \<noteq> None"
proof -
  assume r: "shows_result r" and "outcome_of n r = Some (Inr x)"
  then have "n < length (flights r)" "snd (flights r ! n) = Resolved x"
    by (auto simp: outcome_of_def split: if_splits promise.splits)
  then have "Resolved x \<in> snd ` set (flights r)" by (metis image_eqI nth_mem)
  with r show "result r \<noteq> None" by (auto simp: shows_result_def)
qed

definition reading_ok :: "newsfeed \<Rightarrow> bool" where
  "reading_ok s \<longleftrightarrow> shows_result (getReadNewsRequest s)
     \<and> (rawNews s \<noteq> None \<longrightarrow> result (getReadNewsRequest s) \<noteq> None)"

definition news_inv :: "newsfeed \<Rightarrow> bool" where
  "news_inv s \<longleftrightarrow> polling_ok s \<and> one_poller (pollers s) \<and> reading_ok s"

lemma getReadNewsRequest_kept [simp]:
  "getReadNewsRequest (set_poller p s) = getReadNewsRequest s"
  "getReadNewsRequest (clear_poller p s) = getReadNewsRequest s"
  "getReadNewsRequest (add_news_task t s) = getReadNewsRequest s"
  "getReadNewsRequest (begin_getNews b s) = getReadNewsRequest s"
  "getReadNewsRequest (begin_markNewsAsRead ids s) = getReadNewsRequest s"
  "getReadNewsRequest (feed_read env f s) = getReadNewsRequest s"
  "getReadNewsRequest (feed_failed env s) = getReadNewsRequest s"
  "rawNews (add_news_task t s) = rawNews s" "rawNews (begin_getNews b s) = rawNews s"
  "rawNews (begin_markNewsAsRead ids s) = rawNews s"
  "rawNews (feed_read env f s) = rawNews s" "rawNews (feed_failed env s) = rawNews s"
  by (simp_all add: set_poller_def clear_poller_def add_news_task_def begin_getNews_def begin_markNewsAsRead_def
      feed_read_def feed_failed_def leave_error_polling_def enter_incident_polling_def
      leave_incident_polling_def Let_def split: option.split)

lemma reading_ok_begin: "reading_ok s \<Longrightarrow> reading_ok (begin_getReadNews k s)"
  using shows_result_execute [of "getReadNewsRequest s" "()"] result_kept(1) [of "getReadNewsRequest s" "()"]
  by (auto simp: reading_ok_def begin_getReadNews_def add_news_task_def Let_def execute_def shows_result_def
      split: request_class.splits)

lemma news_inv_begin [intro]: "news_inv s \<Longrightarrow> news_inv (begin_getReadNews k s)"
  by (simp add: news_inv_def reading_ok_begin)

lemma news_inv_read [intro]: "\<not> envTest env \<Longrightarrow> news_inv s \<Longrightarrow> news_inv (feed_read env f s)"
  by (simp add: news_inv_def reading_ok_def feed_read_pollers)

lemma news_inv_failed [intro]: "\<not> envTest env \<Longrightarrow> news_inv s \<Longrightarrow> news_inv (feed_failed env s)"
  by (simp add: news_inv_def reading_ok_def feed_failed_pollers)

lemma news_inv_received [intro]:
  "\<not> envTest env \<Longrightarrow> news_inv s \<Longrightarrow> news_inv (feed_received env b f s)"
  by (auto simp: feed_received_def Let_def split: option.split)
    (simp add: news_inv_def reading_ok_def polling_ok_def add_news_task_def)

lemma case_sum_intro: "(\<And>x. P (f x)) \<Longrightarrow> (\<And>y. z = Inr y \<Longrightarrow> P (g y)) \<Longrightarrow> P (case z of Inl x \<Rightarrow> f x | Inr y \<Rightarrow> g y)"
  by (cases z) simp_all

lemma news_inv_resume:
  assumes "\<not> envTest env" and "news_inv s" and "resume_news env t s = Some s'"
  shows "news_inv s'"
proof (cases t)
  case (ReadTask f n)
  have "news_inv (set_news_data f s)" if "outcome_of n (getReadNewsRequest s) = Some (Inr y)" for y
    using assms(2) that outcome_shown [of "getReadNewsRequest s" n y]
    by (auto simp: news_inv_def reading_ok_def set_news_data_def polling_ok_def split: option.split)
  with ReadTask assms(2,3) show ?thesis
    by (auto simp: resume_news_def intro: case_sum_intro)
next
  case (MarkTask n)
  have "reading_ok (s\<lparr>getReadNewsRequest := execute () (getReadNewsRequest s)\<rparr>)"
    using assms(2) reading_ok_begin [of s "\<lambda>n. MarkTask n"]
    by (simp add: news_inv_def reading_ok_def begin_getReadNews_def add_news_task_def Let_def)
  then have "news_inv (s\<lparr>getReadNewsRequest := execute () (getReadNewsRequest s)\<rparr>)"
    using assms(2) by (simp add: news_inv_def polling_ok_def)
  with MarkTask assms(2,3) show ?thesis by (auto simp: resume_news_def intro: case_sum_intro)
qed (use assms in \<open>auto simp: resume_news_def intro: case_sum_intro\<close>)

text \<open>The developer's faked feed stops the regular poller on purpose; the other events never do.\<close>

fun in_production :: "news_event \<Rightarrow> bool" where
  "in_production (FakeNews f) = False"
| "in_production _ = True"

lemma news_inv_step:
  assumes "\<not> envTest env" and "in_production e" and "news_inv s"
  shows "news_inv (news_step env s e)"
proof (cases e)
  case (ResumeNews i)
  have "news_inv (s\<lparr>newsTasks := ts\<rparr>)" for ts
    using assms(3) by (simp add: news_inv_def polling_ok_def reading_ok_def)
  with ResumeNews assms show ?thesis
    by (auto split: option.split intro: news_inv_resume)
next
  case ReadTick
  with assms show ?thesis
    using shows_result_Tick [of "getReadNewsRequest s"] result_kept_Tick [of "getReadNewsRequest s"]
    by (simp add: news_inv_def polling_ok_def reading_ok_def del: request_step.simps)
next
  case (ReadApi n x)
  with assms show ?thesis
    using shows_result_Respond [of "getReadNewsRequest s" n x] result_kept(2) [of "getReadNewsRequest s" n x]
    by (simp add: news_inv_def polling_ok_def reading_ok_def del: request_step.simps)
next
  case (FakeNews f)
  with assms show ?thesis by simp
qed (use assms in \<open>auto simp: news_inv_def reading_ok_def polling_ok_def openAlert_def closeOpenedAlert_def
    proceedNewsAction_def begin_getNews_def begin_markNewsAsRead_def add_news_task_def Let_def
    simp del: request_step.simps split: option.split\<close>)

lemma news_inv_setup:
  assumes "\<not> envTest env"
  shows "news_inv (setup_news env new_NewsFeedStore)"
proof -
  have "polling_ok new_NewsFeedStore" "pollers new_NewsFeedStore = (\<lambda>_. None)" "reading_ok new_NewsFeedStore"
    by (simp_all add: polling_ok_def timers_ok_def timer_of_def new_NewsFeedStore_def reading_ok_def shows_result_new)
  with assms show ?thesis
    by (auto simp: news_inv_def setup_news_def Let_def reading_ok_def polling_ok_set
        intro: one_pollerI [of _ RegularPoll])
qed

interpretation newsfeed: guarded_machine "news_step env" news_inv "\<lambda>e. \<not> envTest env \<and> in_production e" for env
  by unfold_locales (simp add: news_inv_step)

lemma news_inv_run:
  assumes "\<not> envTest env" and "list_all in_production es"
  shows "news_inv (run (news_step env) (setup_news env new_NewsFeedStore) es)"
  using assms by (intro newsfeed.run_inv news_inv_setup) (simp_all add: list_all_iff)

subsection \<open>Properties\<close>

text \<open>
  Polling never stops and never doubles. In production, after the setup and any sequence of
  answers, failures and user actions, exactly one of the three polling timers is alive, and
  one of the three fields holds it.
\<close>

theorem exactly_one_news_poller:
  assumes "\<not> envTest env" and "list_all in_production es"
  shows "length (newsTimers (run (news_step env) (setup_news env new_NewsFeedStore) es)) = 1
     \<and> one_poller (pollers (run (news_step env) (setup_news env new_NewsFeedStore) es))"
  using news_inv_run [OF assms] timer_unique by (auto simp: news_inv_def)

definition example_env :: news_env where
  "example_env = \<lparr>version = ''1.0.0'', platform = ''linux'', envTest = False, envDev = False,
     satisfies = (\<lambda>v r. v = r)\<rparr>"

theorem exactly_one_news_poller_witness:
  "length (newsTimers (run (news_step example_env) (setup_news example_env new_NewsFeedStore)
     [NewsApi 0 (Inl ()), NewsTick, NewsTick, ResumeNews 0, NewsTimer 1])) = 1"
  using exactly_one_news_poller [of example_env "[NewsApi 0 (Inl ()), NewsTick, NewsTick, ResumeNews 0, NewsTimer 1]"]
  by (simp add: example_env_def)

text \<open>
  The poller fits the feed. Reading a feed leaves the ten minute poller running if it has an
  incident and the half hour one otherwise; a failure before any news were read leaves the
  fast poller running, and a failure after that changes nothing.
\<close>

theorem news_poller_fits_the_feed:
  assumes "\<not> envTest env" and "list_all in_production es"
    and "s = run (news_step env) (setup_news env new_NewsFeedStore) es"
  shows "pollers (feed_read env f s) (if has_incident f then IncidentPoll else RegularPoll) \<noteq> None
     \<and> length (newsTimers (feed_read env f s)) = 1
     \<and> (if rawNews s = None then pollers (feed_failed env s) ErrorPoll \<noteq> None
        else pollers (feed_failed env s) = pollers s)
     \<and> length (newsTimers (feed_failed env s)) = 1"
proof -
  have s: "polling_ok s" "one_poller (pollers s)" using news_inv_run [OF assms(1,2)] assms(3) by (auto simp: news_inv_def)
  show ?thesis
    using feed_read_pollers [OF s assms(1), of f] feed_failed_pollers [OF s assms(1)]
      timer_unique [of "feed_read env f s"] timer_unique [of "feed_failed env s"] by auto
qed

theorem news_poller_fits_the_feed_witness:
  "pollers (feed_failed example_env (setup_news example_env new_NewsFeedStore)) ErrorPoll \<noteq> None"
  using news_poller_fits_the_feed [of example_env "[]" "setup_news example_env new_NewsFeedStore"]
  by (simp add: example_env_def setup_news_def new_NewsFeedStore_def set_poller_def begin_getNews_def
      add_news_task_def Let_def)

text \<open>
  The view never fails: whenever the store has news it also has the list of read news, so the
  computed collection, which tests every item against that list, is defined.
\<close>

theorem news_view_is_defined:
  assumes "\<not> envTest env" and "list_all in_production es"
  shows "newsFeedData env locale (run (news_step env) (setup_news env new_NewsFeedStore) es) \<noteq> None"
  using news_inv_run [OF assms]
  by (auto simp: newsFeedData_def news_inv_def reading_ok_def split: option.splits list.split)

theorem news_view_is_defined_witness:
  "newsFeedData example_env ''en-US'' (run (news_step example_env) (setup_news example_env new_NewsFeedStore)
     [NewsApi 0 (Inr \<lparr>items = [], updatedAt = 3\<rparr>), NewsTick, NewsTick, ResumeNews 0, ReadApi 0 (Inr []),
      ReadTick, ReadTick, ResumeNews 0]) \<noteq> None"
  by (rule news_view_is_defined) (simp_all add: example_env_def)

lemma shown_filter: "filter (is_shown env) (order_desc by_date (filter (is_shown env) xs)) = order_desc by_date (filter (is_shown env) xs)"
  by simp

lemma all_news_collection [simp]: "all_news (newsCollection env xs) = order_desc by_date (filter (is_shown env) xs)"
  by (simp add: newsCollection_def)

text \<open>
  What is shown: exactly the items of the feed that are complete, are meant for this platform
  and version and are not updates, newest first. The alerts are the alerts among them, newest
  first; their unread and read parts are exactly the unread and read ones but, unlike
  the comments in the code say, oldest first.
\<close>

theorem news_views:
  "mset (all_news (newsCollection env xs)) = mset (filter (is_shown env) xs)
   \<and> sorted_wrt (\<lambda>x y. date y \<le> date x) (all_news (newsCollection env xs))
   \<and> mset (view_all (alerts env (newsCollection env xs)))
       = mset (filter (\<lambda>n. news_type n = ALERT) (all_news (newsCollection env xs)))
   \<and> sorted_wrt (\<lambda>x y. date y \<le> date x) (view_all (alerts env (newsCollection env xs)))
   \<and> mset (view_unread (alerts env (newsCollection env xs)))
       = mset (filter (\<lambda>n. news_type n = ALERT \<and> \<not> read n) (all_news (newsCollection env xs)))
   \<and> sorted (map date (view_unread (alerts env (newsCollection env xs))))
   \<and> mset (view_read (alerts env (newsCollection env xs)))
       = mset (filter (\<lambda>n. news_type n = ALERT \<and> read n) (all_news (newsCollection env xs)))
   \<and> sorted (map date (view_read (alerts env (newsCollection env xs))))"
proof -
  have desc: "sorted_wrt (\<lambda>x y. date y \<le> date x) (order_desc by_date ys)" for ys
    using sorted_order_desc [of by_date ys] by (simp add: by_date_def)
  have asc: "sorted (map date (order_asc by_date ys))" for ys
    using sorted_order_asc [of by_date ys] by (simp add: by_date_def sorted_map)
  show ?thesis
    using desc asc
    by (simp add: alerts_def views_of_def unread_news_def read_news_def conj_commute conj_left_commute)
qed

text \<open>
  The incident that is shown is an incident of the collection with the oldest date of all of
  them, and one is shown exactly when there is one.
\<close>

theorem incident_is_the_oldest:
  "case incident (newsCollection env xs) of
     None \<Rightarrow> filter (\<lambda>n. is_shown env n \<and> news_type n = INCIDENT) xs = []
   | Some n \<Rightarrow> n \<in> set xs \<and> is_shown env n \<and> news_type n = INCIDENT
       \<and> date n = Min (date ` set (filter (\<lambda>n. is_shown env n \<and> news_type n = INCIDENT) xs))"
proof -
  let ?is = "filter (\<lambda>n. news_type n = INCIDENT) (order_desc by_date (filter (is_shown env) xs))"
  have set: "set ?is = set (filter (\<lambda>n. is_shown env n \<and> news_type n = INCIDENT) xs)" by auto
  show ?thesis
  proof (cases "?is = []")
    case True
    with set show ?thesis by (simp add: incident_def Let_def del: filter_order)
  next
    case False
    then have inc: "incident (newsCollection env xs) = Some (last ?is)"
      by (simp add: incident_def Let_def last_conv_nth del: filter_order)
    have "sorted_wrt (\<lambda>x y. date y \<le> date x) ?is"
      using sorted_order_desc [of by_date "filter (\<lambda>n. news_type n = INCIDENT) (filter (is_shown env) xs)"]
      by (simp add: by_date_def)
    then have "\<forall>x \<in> set ?is. date (last ?is) \<le> date x"
      using last_of_descending [of date ?is] by blast
    moreover have "last ?is \<in> set ?is" using False by (rule last_in_set)
    ultimately have "date (last ?is) = Min (date ` set ?is)" and "last ?is \<in> set ?is"
      by (auto intro!: Min_eqI [symmetric])
    then show ?thesis unfolding inc set by (auto simp del: filter_order)
  qed
qed

end
