(* ===== verification/Downloads.thy ===== *)
theory Downloads imports Prelude Complex_Main "HOL-Library.AList" begin

text \<open>
  The download manager of the main process: \<^verbatim>\<open>source/main/utils/downloadManager.js\<close>, its
  channels \<^verbatim>\<open>source/main/ipc/downloadManagerChannel.js\<close> and its records
  \<^verbatim>\<open>source/main/utils/mainLocalStorage.js\<close>.

  The downloads themselves are objects of the package \<open>node-downloader-helper\<close>: they are the
  environment, which raises their events with any arguments and in any order. A request waits
  once, after its record was written and before its download is registered; what it still has to do
  is a task. The handlers of the events read and write the record without another event in
  between, and are one step each. A number that JavaScript would have as \<open>undefined\<close> or
  \<open>NaN\<close> is \<open>None\<close>.
\<close>

subsection \<open>Data\<close>

datatype download_state =
  IDLE | SKIPPED | STARTED | DOWNLOADING | RETRY | PAUSED | RESUMED | STOPPED | FINISHED | FAILED

datatype download_event =
  START | DOWNLOAD | PROGRESS | END | TIMEOUT | STOP | PAUSE | ERROR

record download_info =
  downloadId :: string
  fileUrl :: string
  destinationPath :: string
  destinationDirectoryName :: string
  temporaryFilename :: string
  originalFilename :: string
  opt_fileName :: "string option"          \<comment> \<open>the fields of \<open>options\<close> the code reads\<close>
  progressIsThrottled :: "bool option"
  persistLocalData :: bool

record download_data =
  data_state :: "download_state option"
  remainingSize :: "rat option"
  serverFileSize :: "rat option"
  diskFileSize :: "rat option"
  downloadSize :: "rat option"
  progress :: "rat option"
  speed :: "rat option"
  incomplete :: "bool option"
  isResumed :: "bool option"
  message :: "string option"

text \<open>\<open>DownloadDataUpdate\<close>: the same fields, where \<open>None\<close> is a field that is not given.\<close>

type_synonym data_update = download_data

definition no_data :: download_data where
  "no_data = \<lparr>data_state = None, remainingSize = None, serverFileSize = None, diskFileSize = None,
     downloadSize = None, progress = None, speed = None, incomplete = None, isResumed = None,
     message = None\<rparr>"

definition DOWNLOAD_DATA_DEFAULT :: download_data where
  "DOWNLOAD_DATA_DEFAULT = \<lparr>data_state = Some IDLE, remainingSize = Some 0, serverFileSize = Some 0,
     diskFileSize = Some 0, downloadSize = Some 0, progress = Some 0, speed = Some 0,
     incomplete = Some False, isResumed = Some False, message = None\<rparr>"

record download_request =
  req_fileUrl :: string
  req_directory :: "string option"
  req_fileName :: "string option"
  req_throttled :: "bool option"
  req_persist :: bool
  req_id :: "string option"
  resumeDownload :: "(string \<times> string) option"   \<comment> \<open>temporary and original file name\<close>

record session =                                   \<comment> \<open>the closure of \<open>getEventActions\<close>\<close>
  s_info :: download_info
  s_serverFileSize :: "rat option"
  s_timer :: "nat option"                          \<comment> \<open>\<open>checkNoEndEvent\<close>\<close>
  s_counter :: int                                 \<comment> \<open>\<open>currentDownloadData\<close>\<close>

datatype dm_task = DownloadReady download_info

record dm_env =
  stateDirectoryPath :: string
  desktopPath :: string
  downloadsPath :: string

record download_manager =
  local_data :: "(string \<times> download_info option \<times> download_data) list"
  updateFailed :: bool                             \<comment> \<open>\<open>APP_AUTOMATIC_UPDATE_FAILED\<close> is stored\<close>
  downloads :: "(string \<times> nat) list"              \<comment> \<open>the registry, by id\<close>
  sessions :: "session list"
  dm_timers :: "(nat \<times> nat) list"                 \<comment> \<open>timer, session\<close>
  dm_nextTimer :: nat
  files :: "string list"                           \<comment> \<open>paths that exist\<close>
  dm_sent :: "(download_event \<times> string \<times> download_data \<times> string option) list"
  dm_tasks :: "dm_task list"

subsection \<open>Local data\<close>

definition ls_get :: "string \<Rightarrow> download_manager \<Rightarrow> download_info option \<times> download_data option" where
  "ls_get i s = (case map_of (local_data s) i of None \<Rightarrow> (None, None) | Some (di, d) \<Rightarrow> (di, Some d))"

definition ls_setInfo :: "download_info \<Rightarrow> string \<Rightarrow> download_manager \<Rightarrow> download_manager" where
  "ls_setInfo di i s = s\<lparr>local_data := AList.update i (Some di, DOWNLOAD_DATA_DEFAULT) (local_data s)\<rparr>"

text \<open>The customizer of \<open>mergeWith\<close>: numbers other than \<open>remainingSize\<close> never get smaller.\<close>

definition merge_max :: "rat option \<Rightarrow> rat option \<Rightarrow> rat option" where
  "merge_max old new =
     (case new of None \<Rightarrow> old | Some n \<Rightarrow> (case old of None \<Rightarrow> None | Some o' \<Rightarrow> Some (max o' n)))"

definition merge_new :: "'a option \<Rightarrow> 'a option \<Rightarrow> 'a option" where
  "merge_new old new = (case new of None \<Rightarrow> old | Some n \<Rightarrow> Some n)"

definition merge_data :: "download_data \<Rightarrow> data_update \<Rightarrow> download_data" where
  "merge_data old new = \<lparr>
     data_state = merge_new (data_state old) (data_state new),
     remainingSize = merge_new (remainingSize old) (remainingSize new),
     serverFileSize = merge_max (serverFileSize old) (serverFileSize new),
     diskFileSize = merge_max (diskFileSize old) (diskFileSize new),
     downloadSize = merge_max (downloadSize old) (downloadSize new),
     progress = merge_max (progress old) (progress new),
     speed = merge_max (speed old) (speed new),
     incomplete = merge_new (incomplete old) (incomplete new),
     isResumed = merge_new (isResumed old) (isResumed new),
     message = merge_new (message old) (message new)\<rparr>"

definition ls_setData :: "data_update \<Rightarrow> string \<Rightarrow> download_manager \<Rightarrow> download_data \<times> download_manager" where
  "ls_setData new i s =
     (case ls_get i s of (di, old) \<Rightarrow>
        (let d = merge_data (case old of None \<Rightarrow> no_data | Some x \<Rightarrow> x) new
         in (d, s\<lparr>local_data := AList.update i (di, d) (local_data s)\<rparr>)))"

definition pause_update :: data_update where
  "pause_update = no_data\<lparr>data_state := Some PAUSED\<rparr>"

definition is_under_way :: "download_data \<Rightarrow> bool" where
  "is_under_way d \<longleftrightarrow> data_state d = Some DOWNLOADING \<and> (case progress d of None \<Rightarrow> False | Some p \<Rightarrow> p < 100)"

definition ls_setAllPaused :: "download_manager \<Rightarrow> download_manager" where
  "ls_setAllPaused s =
     fold (\<lambda>i s. case snd (ls_get i s) of
              None \<Rightarrow> s
            | Some d \<Rightarrow> if is_under_way d then snd (ls_setData pause_update i s) else s)
       (map fst (local_data s)) s"

definition ls_unset :: "string \<Rightarrow> download_manager \<Rightarrow> download_manager" where
  "ls_unset i s = s\<lparr>local_data := AList.delete i (local_data s), updateFailed := False\<rparr>"

subsection \<open>Names and paths\<close>

definition getIdFromFileName :: "string \<Rightarrow> string" where
  "getIdFromFileName fileName = map (\<lambda>c. if c = CHR ''.'' then CHR ''-'' else c) fileName"

definition getPathSlash :: "string \<Rightarrow> char" where
  "getPathSlash path = (if CHR ''/'' \<in> set path then CHR ''/'' else CHR 0x5C)"

definition extractFileNameFromPath :: "string \<Rightarrow> string" where
  "extractFileNameFromPath path = rev (takeWhile (\<lambda>c. c \<noteq> getPathSlash path) (rev path))"

text \<open>
  The second case of the \<open>switch\<close> is \<open>ALLOWED_DOWNLOAD_DIRECTORIES.DOWLOADS\<close>, which does not exist:
  it is taken for an undefined name only.
\<close>

definition getPathFromDirectoryName :: "dm_env \<Rightarrow> string option \<Rightarrow> string" where
  "getPathFromDirectoryName env directoryName =
     (case directoryName of
        None \<Rightarrow> downloadsPath env
      | Some d \<Rightarrow> if d = ''desktop'' then desktopPath env else stateDirectoryPath env @ ''/Downloads'')"

definition getOriginalFilename :: "download_request \<Rightarrow> string" where
  "getOriginalFilename r =
     (case resumeDownload r of
        Some (_, original) \<Rightarrow> original
      | None \<Rightarrow> (case req_fileName r of
                  Some n \<Rightarrow> n
                | None \<Rightarrow> extractFileNameFromPath (req_fileUrl r)))"

definition file_path :: "string \<Rightarrow> string \<Rightarrow> string" where
  "file_path dir name = dir @ ''/'' @ name"

definition temporaryPath :: "download_info \<Rightarrow> string" where
  "temporaryPath di = file_path (destinationPath di) (temporaryFilename di)"

definition newPath :: "download_info \<Rightarrow> string" where
  "newPath di = file_path (destinationPath di) (originalFilename di)"

subsection \<open>Requests\<close>

definition or_else :: "string option \<Rightarrow> string \<Rightarrow> string" where
  "or_else x d = (case x of None \<Rightarrow> d | Some y \<Rightarrow> if y = [] then d else y)"

definition request_info :: "dm_env \<Rightarrow> string \<Rightarrow> download_request \<Rightarrow> download_info" where
  "request_info env generatedName r =
     (let dir = (case req_directory r of None \<Rightarrow> ''stateDirectory'' | Some d \<Rightarrow> d);
          temporary = (case resumeDownload r of Some (t, _) \<Rightarrow> t | None \<Rightarrow> generatedName)
      in \<lparr>downloadId = getIdFromFileName (or_else (req_id r) (getOriginalFilename r)),
          fileUrl = req_fileUrl r, destinationPath = getPathFromDirectoryName env (Some dir),
          destinationDirectoryName = dir, temporaryFilename = temporary,
          originalFilename = getOriginalFilename r, opt_fileName = Some temporary,
          progressIsThrottled = req_throttled r, persistLocalData = req_persist r\<rparr>)"

definition requestDownload :: "dm_env \<Rightarrow> string \<Rightarrow> download_request \<Rightarrow> download_manager \<Rightarrow> bool \<times> download_manager" where
  "requestDownload env generatedName r s =
     (let di = request_info env generatedName r
      in if map_of (downloads s) (downloadId di) \<noteq> None then (False, s)
         else (True, (ls_setInfo di (downloadId di) s)\<lparr>dm_tasks := dm_tasks s @ [DownloadReady di]\<rparr>))"

definition download_ready :: "download_info \<Rightarrow> download_manager \<Rightarrow> download_manager" where
  "download_ready di s =
     s\<lparr>sessions := sessions s @ [\<lparr>s_info = di, s_serverFileSize = None, s_timer = None, s_counter = 0\<rparr>],
       downloads := AList.update (downloadId di) (length (sessions s)) (downloads s)\<rparr>"

definition getDownloadLocalData ::
  "string option \<Rightarrow> download_manager \<Rightarrow> string + (download_info option \<times> download_data option)" where
  "getDownloadLocalData ident s =
     (case ident of
        None \<Rightarrow> Inl ''Requires `id` or `fileName`''
      | Some i \<Rightarrow> if i = [] then Inl ''Requires `id` or `fileName`''
                  else Inr (ls_get (getIdFromFileName i) s))"

definition clearDownloadLocalData :: "string option \<Rightarrow> download_manager \<Rightarrow> (string + unit) \<times> download_manager" where
  "clearDownloadLocalData ident s =
     (case ident of
        None \<Rightarrow> (Inl ''Requires `id` or `fileName`'', s)
      | Some i \<Rightarrow> if i = [] then (Inl ''Requires `id` or `fileName`'', s)
                  else (Inr (), ls_unset (getIdFromFileName i) s))"

definition requestResumeDownload ::
  "dm_env \<Rightarrow> string \<Rightarrow> string option \<Rightarrow> download_manager \<Rightarrow> (string + bool) \<times> download_manager" where
  "requestResumeDownload env generatedName ident s =
     (case getDownloadLocalData ident s of
        Inl e \<Rightarrow> (Inl e, s)
      | Inr (None, _) \<Rightarrow> (Inl ''Invalid download ID'', s)
      | Inr (Some di, _) \<Rightarrow>
          if downloadId di = [] then (Inl ''Invalid download ID'', s)
          else (let r = \<lparr>req_fileUrl = fileUrl di, req_directory = Some (destinationDirectoryName di),
                         req_fileName = opt_fileName di, req_throttled = progressIsThrottled di,
                         req_persist = persistLocalData di, req_id = Some (downloadId di),
                         resumeDownload = None\<rparr>
                in if temporaryPath di \<in> set (files s)
                   then (case requestDownload env generatedName
                           (r\<lparr>resumeDownload := Some (temporaryFilename di, originalFilename di)\<rparr>) s of
                           (b, s') \<Rightarrow> (Inr b, s'))
                   else (case requestDownload env generatedName (r\<lparr>req_fileName := None\<rparr>)
                                (ls_unset (downloadId di) s) of
                           (b, s') \<Rightarrow> (Inr b, s'))))"

text \<open>\<open>info || {}\<close>: without a record the paths are those of undefined members.\<close>

definition undefined_path :: string where
  "undefined_path = ''undefined/undefined''"

definition deleteDownloadedFile :: "string option \<Rightarrow> download_manager \<Rightarrow> (string + unit) \<times> download_manager" where
  "deleteDownloadedFile ident s =
     (case getDownloadLocalData ident s of
        Inl e \<Rightarrow> (Inl e, s)
      | Inr (di, _) \<Rightarrow>
          (let ps = (case di of None \<Rightarrow> [undefined_path] | Some i \<Rightarrow> [newPath i, temporaryPath i])
           in (Inr (), s\<lparr>files := filter (\<lambda>f. f \<notin> set ps) (files s)\<rparr>)))"

definition checkFileExists :: "string option \<Rightarrow> download_manager \<Rightarrow> string + bool" where
  "checkFileExists ident s =
     (case getDownloadLocalData ident s of
        Inl e \<Rightarrow> Inl e
      | Inr (None, _) \<Rightarrow> Inr (undefined_path \<in> set (files s))
      | Inr (Some di, d) \<Rightarrow>
          Inr ((if (case d of None \<Rightarrow> False | Some x \<Rightarrow> data_state x = Some FINISHED)
                then newPath di else temporaryPath di) \<in> set (files s)))"

text \<open>The registered downloads whose helper is downloading are told to pause.\<close>

definition pauseActiveDownloads :: "(nat \<Rightarrow> download_state) \<Rightarrow> download_manager \<Rightarrow> nat list" where
  "pauseActiveDownloads helper_state s =
     filter (\<lambda>k. helper_state k = DOWNLOADING) (map snd (downloads s))"

subsection \<open>The events of a download\<close>

definition dm_send :: "download_event \<Rightarrow> string \<Rightarrow> download_data \<Rightarrow> string option \<Rightarrow> download_manager \<Rightarrow> download_manager" where
  "dm_send e i d err s = s\<lparr>dm_sent := dm_sent s @ [(e, i, d, err)]\<rparr>"

definition session_id :: "nat \<Rightarrow> download_manager \<Rightarrow> string" where
  "session_id k s = downloadId (s_info (sessions s ! k))"

definition set_and_send :: "download_event \<Rightarrow> data_update \<Rightarrow> string option \<Rightarrow> nat \<Rightarrow> download_manager \<Rightarrow> download_manager" where
  "set_and_send e upd err k s =
     (case ls_setData upd (session_id k s) s of (d, s1) \<Rightarrow> dm_send e (session_id k s) d err s1)"

definition startEvent :: "nat \<Rightarrow> download_manager \<Rightarrow> download_manager" where
  "startEvent k s = dm_send START (session_id k s) DOWNLOAD_DATA_DEFAULT None s"

definition downloadEvent :: "nat \<Rightarrow> rat \<Rightarrow> rat \<Rightarrow> download_manager \<Rightarrow> download_manager" where
  "downloadEvent k totalSize downloadedSize s =
     (let s1 = s\<lparr>sessions := (sessions s)[k := (sessions s ! k)\<lparr>s_serverFileSize := Some totalSize\<rparr>]\<rparr>
      in set_and_send DOWNLOAD
           (no_data\<lparr>data_state := Some DOWNLOADING, serverFileSize := Some totalSize,
              diskFileSize := Some downloadedSize, remainingSize := Some totalSize\<rparr>) None k s1)"

definition progressEvent :: "nat \<Rightarrow> rat \<Rightarrow> rat \<Rightarrow> rat \<Rightarrow> rat \<Rightarrow> download_manager \<Rightarrow> download_manager" where
  "progressEvent k tot downloaded prog spd s =
     (let s1 = set_and_send PROGRESS
                 (no_data\<lparr>data_state := Some DOWNLOADING, remainingSize := Some (tot - downloaded),
                    serverFileSize := s_serverFileSize (sessions s ! k), downloadSize := Some downloaded,
                    progress := Some prog, speed := Some spd\<rparr>) None k s
      in if prog = 100
         then s1\<lparr>dm_timers := dm_timers s1 @ [(dm_nextTimer s1, k)], dm_nextTimer := Suc (dm_nextTimer s1),
                 sessions := (sessions s1)[k := (sessions s1 ! k)\<lparr>s_timer := Some (dm_nextTimer s1)\<rparr>]\<rparr>
         else s1)"

text \<open>The listener drops an event whose whole percentage equals the number of events so far.\<close>

definition on_progress :: "nat \<Rightarrow> rat \<Rightarrow> rat \<Rightarrow> rat \<Rightarrow> rat \<Rightarrow> download_manager \<Rightarrow> download_manager" where
  "on_progress k tot downloaded prog spd s =
     (if \<lfloor>prog\<rfloor> = s_counter (sessions s ! k) then s
      else progressEvent k tot downloaded prog spd
             (s\<lparr>sessions := (sessions s)[k := (sessions s ! k)\<lparr>s_counter := s_counter (sessions s ! k) + 1\<rparr>]\<rparr>))"

definition pauseEvent :: "nat \<Rightarrow> download_manager \<Rightarrow> download_manager" where
  "pauseEvent k s = set_and_send PAUSE pause_update None k s"

definition errorEvent :: "nat \<Rightarrow> string \<Rightarrow> download_manager \<Rightarrow> download_manager" where
  "errorEvent k msg s =
     set_and_send ERROR (no_data\<lparr>data_state := Some FAILED, message := Some msg\<rparr>) (Some msg) k s"

definition endEvent :: "nat \<Rightarrow> rat \<Rightarrow> rat \<Rightarrow> bool \<Rightarrow> download_manager \<Rightarrow> download_manager" where
  "endEvent k totalSize onDiskSize incompl s =
     (let i = session_id k s;
          di = s_info (sessions s ! k);
          s1 = s\<lparr>dm_timers := (case s_timer (sessions s ! k) of
                               None \<Rightarrow> dm_timers s
                             | Some t \<Rightarrow> filter (\<lambda>u. fst u \<noteq> t) (dm_timers s)),
                 downloads := AList.delete i (downloads s)\<rparr>
      in (case ls_setData (no_data\<lparr>data_state := Some FINISHED, downloadSize := Some totalSize,
                             diskFileSize := Some onDiskSize, incomplete := Some incompl\<rparr>) i s1 of
            (d, s2) \<Rightarrow>
              if temporaryPath di \<in> set (files s2)
              then (let s3 = dm_send END i d None
                      (s2\<lparr>files := newPath di # removeAll (temporaryPath di) (files s2)\<rparr>)
                    in if persistLocalData di then s3 else ls_unset i s3)
              else s2))                      \<comment> \<open>\<open>renameSync\<close> throws\<close>"

text \<open>The check ten seconds after the progress reached 100.\<close>

definition no_end_check :: "nat \<Rightarrow> download_manager \<Rightarrow> download_manager" where
  "no_end_check k s =
     (let di = s_info (sessions s ! k)
      in if temporaryPath di \<notin> set (files s) \<or> newPath di \<notin> set (files s)
         then errorEvent k ''The download file was manually deleted'' s else s)"

subsection \<open>Steps\<close>

datatype dm_event =
    Request string download_request
  | ResumeRequest string "string option"
  | Ready nat
  | Started nat
  | Initialised nat rat rat
  | Progressed nat rat rat rat rat
  | Paused nat
  | Errored nat string
  | Ended nat rat rat bool
  | CheckFires nat
  | DeleteFile "string option"
  | ClearData "string option"
  | FilesBecome "string list"

definition on_session :: "nat \<Rightarrow> (download_manager \<Rightarrow> download_manager) \<Rightarrow> download_manager \<Rightarrow> download_manager" where
  "on_session k f s = (if k < length (sessions s) then f s else s)"

fun dm_step :: "dm_env \<Rightarrow> download_manager \<Rightarrow> dm_event \<Rightarrow> download_manager" where
  "dm_step env s (Request name r) = snd (requestDownload env name r s)"
| "dm_step env s (ResumeRequest name i) = snd (requestResumeDownload env name i s)"
| "dm_step env s (Ready n) =
     (if n < length (dm_tasks s)
      then (case dm_tasks s ! n of DownloadReady di \<Rightarrow>
              download_ready di (s\<lparr>dm_tasks := remove_nth n (dm_tasks s)\<rparr>))
      else s)"
| "dm_step env s (Started k) = on_session k (startEvent k) s"
| "dm_step env s (Initialised k t d) = on_session k (downloadEvent k t d) s"
| "dm_step env s (Progressed k t d p v) = on_session k (on_progress k t d p v) s"
| "dm_step env s (Paused k) = on_session k (pauseEvent k) s"
| "dm_step env s (Errored k m) = on_session k (errorEvent k m) s"
| "dm_step env s (Ended k t d b) = on_session k (endEvent k t d b) s"
| "dm_step env s (CheckFires t) =
     (case map_of (dm_timers s) t of
        None \<Rightarrow> s
      | Some k \<Rightarrow> on_session k (no_end_check k) (s\<lparr>dm_timers := filter (\<lambda>u. fst u \<noteq> t) (dm_timers s)\<rparr>))"
| "dm_step env s (DeleteFile i) = snd (deleteDownloadedFile i s)"
| "dm_step env s (ClearData i) = snd (clearDownloadLocalData i s)"
| "dm_step env s (FilesBecome fs) = s\<lparr>files := fs\<rparr>"

lemmas ls_defs [model_defs] = ls_get_def ls_setInfo_def ls_setData_def ls_unset_def

lemma map_of_update: "map_of (AList.update k v xs) = (map_of xs)(k \<mapsto> v)"
  by (rule AList.update_conv')

lemma map_of_delete: "map_of (AList.delete k xs) = (map_of xs)(k := None)"
  by (rule AList.delete_conv')

lemma ls_setData_local:
  "map_of (local_data (snd (ls_setData upd i s))) =
     (map_of (local_data s))(i \<mapsto> (fst (ls_get i s),
        merge_data (case snd (ls_get i s) of None \<Rightarrow> no_data | Some d \<Rightarrow> d) upd))"
  by (simp add: ls_setData_def map_of_update Let_def split: prod.split)

lemma ls_setData_keeps [simp]:
  "downloads (snd (ls_setData upd i s)) = downloads s" "sessions (snd (ls_setData upd i s)) = sessions s"
  "files (snd (ls_setData upd i s)) = files s"
  by (simp_all add: ls_setData_def Let_def split: prod.split)

lemma local_set_and_send [simp]:
  "local_data (set_and_send e upd err k s) = local_data (snd (ls_setData upd (session_id k s) s))"
  "downloads (set_and_send e upd err k s) = downloads s"
  "sessions (set_and_send e upd err k s) = sessions s"
  by (simp_all add: set_and_send_def dm_send_def split: prod.split)
    (metis ls_setData_keeps snd_conv)+

subsection \<open>Pausing at startup\<close>

definition paused :: "download_data \<Rightarrow> download_data" where
  "paused d = (if is_under_way d then d\<lparr>data_state := Some PAUSED\<rparr> else d)"

lemma paused_again [simp]: "paused (paused d) = paused d"
  by (simp add: paused_def is_under_way_def)

lemma merge_no_data [simp]: "merge_max a None = a" "merge_new b None = b" "merge_new b (Some c) = Some c"
  by (simp_all add: merge_max_def merge_new_def)

lemma merge_pause: "merge_data d pause_update = d\<lparr>data_state := Some PAUSED\<rparr>"
  by (simp add: merge_data_def pause_update_def no_data_def)

definition pause_one :: "string \<Rightarrow> download_manager \<Rightarrow> download_manager" where
  "pause_one i s = (case snd (ls_get i s) of None \<Rightarrow> s
     | Some d \<Rightarrow> if is_under_way d then snd (ls_setData pause_update i s) else s)"

lemma pause_one_local:
  "map_of (local_data (pause_one i s)) =
     (case map_of (local_data s) i of None \<Rightarrow> map_of (local_data s)
      | Some (a, d) \<Rightarrow> (map_of (local_data s))(i \<mapsto> (a, paused d)))"
  by (auto simp: pause_one_def ls_get_def ls_setData_local merge_pause paused_def fun_eq_iff
      split: option.split)

lemma fold_pause:
  "map_of (local_data (fold pause_one ks s)) i =
     (if i \<in> set ks then map_option (\<lambda>(a, d). (a, paused d)) (map_of (local_data s) i)
      else map_of (local_data s) i)"
proof (induction ks arbitrary: s)
  case (Cons k ks)
  then show ?case
    by (auto simp: pause_one_local split: option.splits)
qed simp

lemma setAllPaused_local:
  "map_of (local_data (ls_setAllPaused s)) i = map_option (\<lambda>(a, d). (a, paused d)) (map_of (local_data s) i)"
proof -
  have "ls_setAllPaused s = fold pause_one (map fst (local_data s)) s"
    unfolding ls_setAllPaused_def pause_one_def ..
  moreover have "map_of (local_data s) i = None" if "i \<notin> fst ` set (local_data s)"
    using that by (simp add: map_of_eq_None_iff)
  ultimately show ?thesis by (auto simp: fold_pause)
qed

subsection \<open>Progress only grows\<close>

definition opt_le :: "rat option \<Rightarrow> rat option \<Rightarrow> bool" where
  "opt_le a b \<longleftrightarrow> (case a of None \<Rightarrow> True | Some x \<Rightarrow> (case b of None \<Rightarrow> False | Some y \<Rightarrow> x \<le> y))"

lemma opt_le_refl [simp]: "opt_le a a"
  by (simp add: opt_le_def split: option.split)

lemma opt_le_trans: "opt_le a b \<Longrightarrow> opt_le b c \<Longrightarrow> opt_le a c"
  by (auto simp: opt_le_def split: option.splits)

lemma opt_le_merge [simp]: "opt_le a (merge_max a b)"
  by (simp add: opt_le_def merge_max_def split: option.split)

definition grew :: "download_data \<Rightarrow> download_data \<Rightarrow> bool" where
  "grew d d' \<longleftrightarrow> opt_le (progress d) (progress d') \<and> opt_le (downloadSize d) (downloadSize d')
     \<and> opt_le (diskFileSize d) (diskFileSize d') \<and> opt_le (serverFileSize d) (serverFileSize d')
     \<and> opt_le (speed d) (speed d')"

lemma grew_refl [simp]: "grew d d"
  by (simp add: grew_def)

lemma grew_trans: "grew d d' \<Longrightarrow> grew d' d'' \<Longrightarrow> grew d d''"
  unfolding grew_def by (blast intro: opt_le_trans)

lemma grew_merge [simp]: "grew d (merge_data d upd)"
  by (simp add: grew_def merge_data_def)

text \<open>The record of an id is there, and its numbers are at least those of \<open>d\<close>.\<close>

definition has_grown :: "string \<Rightarrow> download_info option \<Rightarrow> download_data \<Rightarrow> download_manager \<Rightarrow> bool" where
  "has_grown i a d s \<longleftrightarrow> (\<exists>d'. map_of (local_data s) i = Some (a, d') \<and> grew d d')"

lemma has_grown_setData: "has_grown i a d s \<Longrightarrow> has_grown i a d (snd (ls_setData upd j s))"
  by (auto simp: has_grown_def ls_setData_local ls_get_def intro: grew_trans)

lemma has_grown_cong: "local_data s' = local_data s \<Longrightarrow> has_grown i a d s' = has_grown i a d s"
  by (simp add: has_grown_def)

lemma has_grown_send: "has_grown i a d s \<Longrightarrow> has_grown i a d (set_and_send e upd err k s)"
  using has_grown_setData by (simp add: has_grown_def)

lemma has_grown_other:
  "has_grown i a d s \<Longrightarrow> j \<noteq> i \<Longrightarrow> has_grown i a d (ls_setInfo x j s)"
  "has_grown i a d s \<Longrightarrow> j \<noteq> i \<Longrightarrow> has_grown i a d (ls_unset j s)"
  by (auto simp: has_grown_def ls_setInfo_def ls_unset_def map_of_update map_of_delete)

text \<open>The events that may start the record of an id anew: a request, a clearing or an end.\<close>

fun restarts :: "dm_env \<Rightarrow> string \<Rightarrow> dm_event \<Rightarrow> bool" where
  "restarts env i (Request name r) \<longleftrightarrow> downloadId (request_info env name r) = i"
| "restarts env i (ResumeRequest name j) \<longleftrightarrow> True"
| "restarts env i (ClearData j) \<longleftrightarrow> (case j of None \<Rightarrow> False | Some x \<Rightarrow> getIdFromFileName x = i)"
| "restarts env i (Ended k t d b) \<longleftrightarrow> True"
| "restarts env i _ \<longleftrightarrow> False"

lemma has_grown_sessions [simp]:
  "has_grown i a d (s\<lparr>sessions := ss\<rparr>) = has_grown i a d s"
  "has_grown i a d (s\<lparr>dm_timers := ts\<rparr>) = has_grown i a d s"
  "has_grown i a d (s\<lparr>dm_nextTimer := nt\<rparr>) = has_grown i a d s"
  "has_grown i a d (s\<lparr>dm_tasks := tks\<rparr>) = has_grown i a d s"
  "has_grown i a d (dm_send e j dat err s) = has_grown i a d s"
  "has_grown i a d (download_ready x s) = has_grown i a d s"
  "has_grown i a d (snd (deleteDownloadedFile j' s)) = has_grown i a d s"
  by (simp_all add: has_grown_def dm_send_def download_ready_def deleteDownloadedFile_def Let_def
      split: sum.split prod.split)

lemma has_grown_events [intro]:
  assumes "has_grown i a d s"
  shows "has_grown i a d (startEvent k s)" "has_grown i a d (downloadEvent k t n s)"
    "has_grown i a d (on_progress k t n p v s)" "has_grown i a d (pauseEvent k s)"
    "has_grown i a d (errorEvent k m s)" "has_grown i a d (no_end_check k s)"
  using assms has_grown_send
  by (simp_all add: startEvent_def downloadEvent_def on_progress_def progressEvent_def pauseEvent_def
      errorEvent_def no_end_check_def Let_def)

lemma has_grown_on_session [intro]:
  "has_grown i a d s \<Longrightarrow> (has_grown i a d s \<Longrightarrow> has_grown i a d (f s)) \<Longrightarrow> has_grown i a d (on_session k f s)"
  by (simp add: on_session_def)

lemma has_grown_step:
  assumes "has_grown i a d s" and "\<not> restarts env i e"
  shows "has_grown i a d (dm_step env s e)"
proof (cases e)
  case (Request name r)
  with assms show ?thesis
    using has_grown_other(1) [OF assms(1), of "downloadId (request_info env name r)" "request_info env name r"]
    by (auto simp: requestDownload_def Let_def)
next
  case (ClearData j)
  with assms show ?thesis
    by (auto simp: clearDownloadLocalData_def has_grown_other split: option.splits)
next
  case (Ready n)
  with assms show ?thesis by (auto split: dm_task.split)
next
  case (CheckFires t)
  with assms show ?thesis by (auto split: option.split)
next
  case (FilesBecome fs)
  with assms show ?thesis by (simp add: has_grown_def)
qed (use assms in auto)

lemma has_grown_run:
  "has_grown i a d s \<Longrightarrow> list_all (\<lambda>e. \<not> restarts env i e) es \<Longrightarrow> has_grown i a d (run (dm_step env) s es)"
  by (induction es arbitrary: s) (auto intro: has_grown_step)

subsection \<open>The registry\<close>

fun ends :: "dm_event \<Rightarrow> bool" where
  "ends (Ended k t d b) = True"
| "ends _ = False"

lemma registered_request [simp]:
  "downloads (snd (requestDownload env name r s)) = downloads s"
  by (simp add: requestDownload_def ls_setInfo_def Let_def)

lemma downloads_unset [simp]: "downloads (ls_unset i s) = downloads s"
  by (simp add: ls_unset_def)

lemma registered_resume [simp]:
  "downloads (snd (requestResumeDownload env name j s)) = downloads s"
proof (cases "getDownloadLocalData j s")
  case (Inr p)
  then show ?thesis
    by (cases "fst p"; cases p) (simp_all add: requestResumeDownload_def case_prod_beta Let_def)
qed (simp add: requestResumeDownload_def)

lemma downloads_events [simp]:
  "downloads (startEvent k s) = downloads s" "downloads (downloadEvent k t d s) = downloads s"
  "downloads (on_progress k t n p v s) = downloads s" "downloads (pauseEvent k s) = downloads s"
  "downloads (errorEvent k m s) = downloads s" "downloads (no_end_check k s) = downloads s"
  "downloads (snd (deleteDownloadedFile j s)) = downloads s"
  "downloads (snd (clearDownloadLocalData j s)) = downloads s"
  by (simp_all add: startEvent_def dm_send_def downloadEvent_def on_progress_def progressEvent_def
      pauseEvent_def errorEvent_def no_end_check_def deleteDownloadedFile_def clearDownloadLocalData_def
      Let_def split: sum.split option.split prod.split)

lemma registered_step:
  assumes "map_of (downloads s) i \<noteq> None" and "\<not> ends e"
  shows "map_of (downloads (dm_step env s e)) i \<noteq> None"
proof (cases e)
  case (Ready n)
  with assms show ?thesis
    by (auto simp: download_ready_def map_of_update split: dm_task.split)
next
  case (CheckFires t)
  with assms show ?thesis by (auto simp: on_session_def split: option.split)
qed (use assms in \<open>simp_all add: on_session_def\<close>)

lemma registered_run:
  "map_of (downloads s) i \<noteq> None \<Longrightarrow> list_all (\<lambda>e. \<not> ends e) es
     \<Longrightarrow> map_of (downloads (run (dm_step env) s es)) i \<noteq> None"
proof (induction es arbitrary: s)
  case (Cons e es)
  then have "map_of (downloads (dm_step env s e)) i \<noteq> None" by (intro registered_step) simp_all
  with Cons show ?case by simp
qed simp

subsection \<open>Properties\<close>

text \<open>
  The recorded progress, sizes and speed of a download never get smaller: for every sequence
  of its events, and whatever other downloads do, its record stays and each of its
  numbers is at least what it was, until it is requested anew, cleared or ends. (The recorded speed
  is therefore the highest so far, not the current one.)
\<close>

theorem recorded_progress_is_monotone:
  assumes "map_of (local_data s) i = Some (a, d)" and "list_all (\<lambda>e. \<not> restarts env i e) es"
  shows "\<exists>d'. map_of (local_data (run (dm_step env) s es)) i = Some (a, d') \<and> grew d d'"
  using has_grown_run [of i a d s env es] assms by (auto simp: has_grown_def)

definition example_dm :: download_manager where
  "example_dm = \<lparr>local_data = [], updateFailed = False, downloads = [], sessions = [], dm_timers = [],
     dm_nextTimer = 1, files = [], dm_sent = [], dm_tasks = []\<rparr>"

definition example_dm_env :: dm_env where
  "example_dm_env = \<lparr>stateDirectoryPath = ''/state'', desktopPath = ''/desktop'', downloadsPath = ''/downloads''\<rparr>"

definition example_request :: download_request where
  "example_request = \<lparr>req_fileUrl = ''https://x/a.pkg'', req_directory = None, req_fileName = None,
     req_throttled = None, req_persist = True, req_id = Some ''update'', resumeDownload = None\<rparr>"

theorem recorded_progress_is_monotone_witness:
  "\<exists>d'. map_of (local_data (run (dm_step example_dm_env)
      (example_dm\<lparr>local_data := [(''update'', None, DOWNLOAD_DATA_DEFAULT\<lparr>progress := Some 40\<rparr>)],
         sessions := [\<lparr>s_info = request_info example_dm_env ''t'' example_request,
            s_serverFileSize = None, s_timer = None, s_counter = 0\<rparr>]\<rparr>)
      [Progressed 0 100 30 30 5, Errored 0 ''lost'']) ) ''update'' = Some (None, d')
     \<and> grew (DOWNLOAD_DATA_DEFAULT\<lparr>progress := Some 40\<rparr>) d'"
  by (rule recorded_progress_is_monotone) (simp_all add: example_dm_def)

text \<open>
  A failed download blocks its id. Once a download is registered, nothing but its end takes it
  out of the registry; after an error, and whatever follows short of an end, every request for its id
  is refused and changes nothing, until the application is restarted.
\<close>

theorem failed_download_blocks_its_id:
  assumes "map_of (downloads s) (downloadId (request_info env name r)) \<noteq> None"
    and "list_all (\<lambda>e. \<not> ends e) es"
  shows "requestDownload env name r (run (dm_step env) s (Errored k msg # es))
     = (False, run (dm_step env) s (Errored k msg # es))"
  using registered_run [of s "downloadId (request_info env name r)" "Errored k msg # es" env] assms
  by (auto simp: requestDownload_def Let_def)

theorem failed_download_blocks_its_id_witness:
  "fst (requestDownload example_dm_env ''t2'' example_request
     (run (dm_step example_dm_env) example_dm [Request ''t1'' example_request, Ready 0, Errored 0 ''timeout''])) = False"
proof -
  let ?s = "run (dm_step example_dm_env) example_dm [Request ''t1'' example_request, Ready 0]"
  have "map_of (downloads ?s) (downloadId (request_info example_dm_env ''t2'' example_request)) \<noteq> None"
    by (simp add: requestDownload_def request_info_def example_request_def download_ready_def or_else_def
        getIdFromFileName_def example_dm_def ls_setInfo_def remove_nth_def Let_def)
  from failed_download_blocks_its_id [OF this, of "[]" 0 "''timeout''"] show ?thesis by simp
qed

text \<open>
  Duplicates are refused only once a download is registered. A second request for the same id that comes
  before the first has been registered passes the check as well: both start, and only the later one
  is in the registry; one after the other, the second is refused.
\<close>

theorem concurrent_requests_start_twice:
  assumes "map_of (downloads s) (downloadId (request_info env name r)) = None" and "dm_tasks s = []"
    and "downloadId (request_info env name' r) = downloadId (request_info env name r)"
  shows "length (sessions (run (dm_step env) s [Request name r, Request name' r, Ready 0, Ready 0]))
           = length (sessions s) + 2
     \<and> map_of (downloads (run (dm_step env) s [Request name r, Request name' r, Ready 0, Ready 0]))
           (downloadId (request_info env name r)) = Some (length (sessions s) + 1)
     \<and> length (sessions (run (dm_step env) s [Request name r, Ready 0, Request name' r, Ready 0]))
           = length (sessions s) + 1"
  using assms
  by (simp add: requestDownload_def download_ready_def ls_setInfo_def remove_nth_def map_of_update Let_def)

theorem concurrent_requests_start_twice_witness:
  "length (sessions (run (dm_step example_dm_env) example_dm
     [Request ''t1'' example_request, Request ''t2'' example_request, Ready 0, Ready 0])) = 2"
  using concurrent_requests_start_twice [of example_dm example_dm_env "''t1''" example_request "''t2''"]
  by (simp add: example_dm_def request_info_def example_request_def getIdFromFileName_def Let_def)

text \<open>
  At startup every record of a download that was under way is marked as paused and keeps its
  numbers, every other record is left as it is, and doing it again changes nothing.
\<close>

theorem startup_pauses_downloads:
  "map_of (local_data (ls_setAllPaused s)) i =
     map_option (\<lambda>(a, d). (a, if is_under_way d then d\<lparr>data_state := Some PAUSED\<rparr> else d))
       (map_of (local_data s) i)
   \<and> map_of (local_data (ls_setAllPaused (ls_setAllPaused s))) i = map_of (local_data (ls_setAllPaused s)) i"
proof -
  have "(\<lambda>(a :: download_info option, d). (a, if is_under_way d then d\<lparr>data_state := Some PAUSED\<rparr> else d))
      = (\<lambda>(a, d). (a, paused d))"
    by (simp add: paused_def)
  then show ?thesis
    by (cases "map_of (local_data s) i") (auto simp: setAllPaused_local)
qed

text \<open>
  The check for a deleted file reports one even when nothing was deleted: the finished file
  appears only when the download ends, so while only the temporary file exists, and also when
  only the finished file does, the download is marked as failed.
\<close>

theorem missing_end_is_reported_as_deletion:
  assumes "newPath (s_info (sessions s ! k)) \<noteq> temporaryPath (s_info (sessions s ! k))"
    and "files s = [temporaryPath (s_info (sessions s ! k))] \<or> files s = [newPath (s_info (sessions s ! k))]"
  shows "(\<exists>d. dm_sent (no_end_check k s)
            = dm_sent s @ [(ERROR, session_id k s, d, Some ''The download file was manually deleted'')]
          \<and> data_state d = Some FAILED)
     \<and> files (no_end_check k s) = files s"
  using assms
  by (auto simp: no_end_check_def errorEvent_def set_and_send_def ls_setData_def dm_send_def merge_data_def
      Let_def split: prod.split)

theorem missing_end_is_reported_as_deletion_witness:
  "\<exists>d. dm_sent (no_end_check 0 (example_dm\<lparr>files := [''/state/Downloads/t1''],
      sessions := [\<lparr>s_info = request_info example_dm_env ''t1'' example_request,
            s_serverFileSize = None, s_timer = None, s_counter = 100\<rparr>]\<rparr>))
     = [(ERROR, ''update'', d, Some ''The download file was manually deleted'')]"
  using missing_end_is_reported_as_deletion [of "example_dm\<lparr>files := [''/state/Downloads/t1''],
      sessions := [\<lparr>s_info = request_info example_dm_env ''t1'' example_request,
            s_serverFileSize = None, s_timer = None, s_counter = 100\<rparr>]\<rparr>" 0]
  by (auto simp: example_dm_def example_dm_env_def example_request_def request_info_def newPath_def temporaryPath_def
      file_path_def getPathFromDirectoryName_def getOriginalFilename_def extractFileNameFromPath_def
      getPathSlash_def session_id_def or_else_def getIdFromFileName_def Let_def)

end
