(* ===== verification/JsValues.thy ===== *)
theory JsValues imports Prelude Complex_Main "HOL-Library.AList" "HOL-Library.Sublist" begin

text \<open>
  JavaScript values as the API layer handles them: the JSON a backend answers with, the objects
  that are thrown, and the lodash accessors the code applies to them (\<open>get\<close> with a path,
  \<open>includes\<close>, \<open>omit\<close>, the object spread). Amounts are \<open>BigNumber\<close>s: integers of the
  smallest unit divided by a power of ten, so rational numbers represent them exactly.
\<close>

datatype jsval =
    JNull
  | JBool bool
  | JNum rat
  | JStr string
  | JArr "jsval list"
  | JObj "(string \<times> jsval) list"

type_synonym fields = "(string \<times> jsval) list"

fun js_truthy :: "jsval \<Rightarrow> bool" where
  "js_truthy JNull = False"
| "js_truthy (JBool b) = b"
| "js_truthy (JNum n) = (n \<noteq> 0)"
| "js_truthy (JStr s) = (s \<noteq> [])"
| "js_truthy (JArr xs) = True"
| "js_truthy (JObj fs) = True"

text \<open>
  An object has the properties a spread copies (\<open>own\<close>) and those it does not, such as the
  \<open>message\<close> of an \<open>Error\<close>; reading a property sees both.
\<close>

record js_object =
  own :: fields
  hidden :: fields

definition plain :: "fields \<Rightarrow> js_object" where
  "plain fs = \<lparr>own = fs, hidden = []\<rparr>"

definition js_get :: "js_object \<Rightarrow> string \<Rightarrow> jsval option" where
  "js_get v k = (case map_of (own v) k of Some x \<Rightarrow> Some x | None \<Rightarrow> map_of (hidden v) k)"

text \<open>\<open>{...fs, ...gs}\<close>: the properties of \<open>gs\<close> win.\<close>

fun spread :: "fields \<Rightarrow> fields \<Rightarrow> fields" where
  "spread fs [] = fs"
| "spread fs ((k, v) # gs) = spread (AList.update k v fs) gs"

definition omit :: "string list \<Rightarrow> js_object \<Rightarrow> js_object" where
  "omit ks v = plain (filter (\<lambda>(k, _). k \<notin> set ks) (own v))"

fun split_on :: "char \<Rightarrow> string \<Rightarrow> string list" where
  "split_on c [] = [[]]"
| "split_on c (x # xs) =
     (if x = c then [] # split_on c xs
      else case split_on c xs of [] \<Rightarrow> [[x]] | w # ws \<Rightarrow> (x # w) # ws)"

fun get_nested :: "jsval \<Rightarrow> string list \<Rightarrow> jsval option" where
  "get_nested v [] = Some v"
| "get_nested (JObj fs) (k # ks) = (case map_of fs k of None \<Rightarrow> None | Some v \<Rightarrow> get_nested v ks)"
| "get_nested v (k # ks) = None"

text \<open>\<open>lodash.get(v, path)\<close>: a property of that very name first, then the path.\<close>

definition lodash_get :: "js_object \<Rightarrow> string \<Rightarrow> jsval option" where
  "lodash_get v path = (case js_get v path of
       Some x \<Rightarrow> Some x
     | None \<Rightarrow> (case split_on (CHR ''.'') path of
         [] \<Rightarrow> None
       | k # ks \<Rightarrow> (case js_get v k of None \<Rightarrow> None | Some x \<Rightarrow> get_nested x ks)))"

text \<open>\<open>lodash.includes(x, s)\<close> for a string \<open>s\<close>.\<close>

fun lodash_includes :: "jsval \<Rightarrow> string \<Rightarrow> bool" where
  "lodash_includes (JStr m) s = sublist s m"
| "lodash_includes (JArr xs) s = (JStr s \<in> set xs)"
| "lodash_includes (JObj fs) s = (JStr s \<in> snd ` set fs)"
| "lodash_includes v s = False"

lemma plain_simps [simp]: "own (plain fs) = fs" "hidden (plain fs) = []"
  by (simp_all add: plain_def)

lemma js_get_plain [simp]: "js_get (plain fs) k = map_of fs k"
  by (simp add: js_get_def plain_def split: option.split)

lemma map_of_spread: "map_of (spread fs gs) k = (case map_of (rev gs) k of Some v \<Rightarrow> Some v | None \<Rightarrow> map_of fs k)"
  by (induction fs gs rule: spread.induct) (auto simp: update_conv' map_add_def split: option.splits)

lemma map_of_spread_absent [simp]: "k \<notin> fst ` set gs \<Longrightarrow> map_of (spread fs gs) k = map_of fs k"
  by (induction fs gs rule: spread.induct) (auto simp: update_conv')

lemma js_get_omit:
  "js_get (omit ks v) k = (if k \<in> set ks then None else map_of (own v) k)"
proof -
  have "map_of (filter (\<lambda>(k', _). k' \<notin> set ks) fs) k = (if k \<in> set ks then None else map_of fs k)" for fs :: fields
    by (induction fs) auto
  then show ?thesis by (simp add: omit_def)
qed

lemma own_omit: "own (omit ks v) = filter (\<lambda>(k, _). k \<notin> set ks) (own v)"
  by (simp add: omit_def plain_def)

lemma hidden_omit [simp]: "hidden (omit ks v) = []"
  by (simp add: omit_def plain_def)

lemma split_on_nonempty [simp]: "split_on c s \<noteq> []"
  by (induction s) (auto split: list.split)

end
