(* ===== verification/ApiErrors.thy ===== *)
theory ApiErrors imports JsValues begin

text \<open>
  The errors of the API layer: \<open>domains/ApiError.js\<close>, the messages of \<open>api/errors.js\<close> and
  the generic error of \<open>api/common/errors.js\<close>. A method of the API answers a failed call with a
  chain \<open>new ApiError(error).set(..).where(..).inc(..) .. .result(..)\<close>; each link of
  the chain is one definition on the state of the error object. lodash's \<open>camelCase\<close> and
  \<open>snakeCase\<close> are parameters. The translation texts' translator notes (\<open>description\<close>) are
  left out; nothing reads them.
\<close>

section \<open>The messages\<close>

record message =
  messageId :: string
  defaultText :: string

definition messages :: "(string \<times> string \<times> string) list" where
  "messages =
    [(''wrongEncryptionPassphrase'', ''api.errors.IncorrectPasswordError'',
        ''!!!Incorrect wallet password.''),
     (''walletAlreadyExists'', ''api.errors.WalletAlreadyRestoredError'',
        ''!!!Wallet you are trying to restore already exists.''),
     (''forbiddenMnemonic'', ''api.errors.ForbiddenMnemonicError'',
        ''!!!Invalid recovery phrase. Submitted recovery phrase is one of the example recovery phrases from the documentation and should not be used for wallets holding funds.''),
     (''walletAlreadyImported'', ''api.errors.WalletAlreadyImportedError'',
        ''!!!Wallet you are trying to import already exists.''),
     (''walletFileImportError'', ''api.errors.WalletFileImportError'',
        ''!!!Wallet could not be imported, please make sure you are providing a correct file.''),
     (''invalidMnemonic'', ''global.errors.invalidMnemonic'',
        ''!!!Invalid phrase entered, please check.''),
     (''notEnoughMoney'', ''api.errors.NotEnoughMoneyToSendError'',
        ''!!!Not enough money to make this transaction.''),
     (''canNotCalculateTransactionFees'', ''api.errors.CanNotCalculateTransactionFeesError'',
        ''!!!Cannot calculate fees while there are pending transactions.''),
     (''cannotCoverFee'', ''api.errors.NotEnoughFundsForTransactionFeesError'',
        ''!!!Not enough bcc for fees. Try sending a smaller amount.''),
     (''inputsDepleted'', ''api.errors.inputsDepleted'',
        ''!!!Your wallet contains only reward funds. Please send at least one BCC to your wallet so that you can spend the funds.''),
     (''transactionIsTooBig'', ''api.errors.TooBigTransactionError'',
        ''!!!Transaction too big due to too many inputs.''),
     (''notEnoughFundsForTransaction'', ''api.errors.NotEnoughFundsForTransactionError'',
        ''!!!Not enough bcc. Try sending a smaller amount.''),
     (''invalidAddress'', ''api.errors.invalidAddress'',
        ''!!!Please enter a valid address.''),
     (''tooBigTransactionErrorLinkLabel'', ''api.errors.TooBigTransactionErrorLinkLabel'',
        ''!!!Learn more.''),
     (''tooBigTransactionErrorLinkURL'', ''api.errors.TooBigTransactionErrorLinkURL'',
        ''!!!https://tbco.zendesk.com/hc/en-us/articles/360017733353''),
     (''utxoTooSmall'', ''api.errors.utxoTooSmall'',
        ''!!!Invalid transaction.''),
     (''nothingToMigrate'', ''api.errors.nothingToMigrate'',
        ''!!!Funds cannot be transferred from this wallet because it contains some unspent transaction outputs (UTXOs), with amounts of bcc that are too small to be migrated.''),
     (''invalidSmashServer'', ''api.errors.invalidSmashServer'',
        ''!!!This URL is not a valid SMASH server'')]"

definition message_of :: "string \<Rightarrow> message option" where
  "message_of k = map_option (\<lambda>(i, t). \<lparr>messageId = i, defaultText = t\<rparr>) (map_of messages k)"

definition message_object :: "message \<Rightarrow> jsval" where
  "message_object m = JObj [(''id'', JStr (messageId m)), (''defaultMessage'', JStr (defaultText m))]"

definition genericApiError :: message where
  "genericApiError = \<lparr>messageId = ''api.errors.GenericApiError'', defaultText = ''!!!An error occurred.''\<rparr>"

section \<open>The error object\<close>

record error_object =
  tempError :: string
  clause :: bool
  forceSet :: bool
  additionalValues :: fields
  isFinalError :: bool
  errorId :: string
  errorText :: string
  errorValues :: js_object
  errorCode :: "jsval option"

text \<open>
  The constructor. A code that is not a non-empty string has no message: \<open>camelCase\<close> of a number
  or of an object's text is no key of the messages.
\<close>

definition known_message :: "(string \<Rightarrow> string) \<Rightarrow> js_object \<Rightarrow> message option" where
  "known_message camel err = (case js_get err ''code'' of
       Some (JStr c) \<Rightarrow> if c = [] then None else message_of (camel c)
     | _ \<Rightarrow> None)"

definition new_ApiError :: "(string \<Rightarrow> string) \<Rightarrow> js_object \<Rightarrow> error_object" where
  "new_ApiError camel err =
     (let m = (case known_message camel err of Some m \<Rightarrow> m | None \<Rightarrow> genericApiError)
      in \<lparr>tempError = [], clause = False, forceSet = False, additionalValues = [],
          isFinalError = (known_message camel err \<noteq> None),
          errorId = messageId m, errorText = defaultText m, errorValues = err,
          errorCode = js_get err ''code''\<rparr>)"

definition transform_value :: "jsval \<Rightarrow> jsval" where
  "transform_value v = (case v of
       JStr s \<Rightarrow> (case message_of s of Some m \<Rightarrow> message_object m | None \<Rightarrow> v)
     | _ \<Rightarrow> v)"

definition set_clause :: "string \<Rightarrow> bool \<Rightarrow> fields option \<Rightarrow> error_object \<Rightarrow> error_object" where
  "set_clause predefinedError force vals e =
     (let e1 = (if predefinedError \<noteq> [] \<and> \<not> clause e \<and> (\<not> isFinalError e \<or> force)
                then e\<lparr>tempError := predefinedError, clause := True, forceSet := force\<rparr>
                else e\<lparr>clause := False\<rparr>)
      in case vals of
           None \<Rightarrow> e1
         | Some vs \<Rightarrow>
             if clause e1
             then (let ts = map (\<lambda>(k, v). (k, transform_value v)) vs
                   in e1\<lparr>additionalValues := ts, errorValues := plain (spread (own (errorValues e1)) ts)\<rparr>)
             else e1)"

definition where_clause :: "string \<Rightarrow> string \<Rightarrow> error_object \<Rightarrow> error_object" where
  "where_clause ty decl e =
     (if clause e \<and> (\<not> isFinalError e \<or> forceSet e)
      then if js_get (errorValues e) ty = Some (JStr decl) then e\<lparr>clause := True\<rparr>
           else e\<lparr>clause := False, tempError := [],
                  errorValues := omit (map fst (additionalValues e)) (errorValues e), forceSet := False\<rparr>
      else e)"

definition inc_clause :: "string \<Rightarrow> string \<Rightarrow> error_object \<Rightarrow> error_object" where
  "inc_clause ty decl e =
     (case lodash_get (errorValues e) ty of
        None \<Rightarrow> e
      | Some m \<Rightarrow>
          if clause e \<and> \<not> isFinalError e \<and> js_truthy m
          then if lodash_includes m decl then e\<lparr>clause := True\<rparr> else e\<lparr>clause := False, tempError := []\<rparr>
          else e)"

text \<open>
  What \<open>result\<close> returns: the error object itself, a generic error over its values, or, for a
  fallback without a message, a type error.
\<close>

datatype thrown = ThrownApi error_object | ThrownGeneric js_object | ThrownTypeError

definition result :: "(string \<Rightarrow> string) \<Rightarrow> string option \<Rightarrow> error_object \<Rightarrow> thrown" where
  "result snake fallbackError e =
     (if isFinalError e \<and> \<not> forceSet e then ThrownApi e
      else case (if tempError e = [] then None else message_of (tempError e)) of
        Some m \<Rightarrow> ThrownApi (e\<lparr>errorId := messageId m, errorText := defaultText m,
                               errorCode := js_get (errorValues e) ''code''\<rparr>)
      | None \<Rightarrow> (case fallbackError of
          None \<Rightarrow> ThrownGeneric (errorValues e)
        | Some f \<Rightarrow> if f = [] then ThrownGeneric (errorValues e)
            else (case message_of f of
              None \<Rightarrow> ThrownTypeError
            | Some m \<Rightarrow> ThrownApi (e\<lparr>errorId := messageId m, errorText := defaultText m,
                                     errorCode := Some (JStr (snake f))\<rparr>))))"

text \<open>
  What the user is shown: the id of the message and the code. A \<open>GenericApiError\<close> has no code of its own.
\<close>

fun shown :: "thrown \<Rightarrow> string \<times> jsval option" where
  "shown (ThrownApi e) = (errorId e, errorCode e)"
| "shown (ThrownGeneric v) = (messageId genericApiError, None)"
| "shown ThrownTypeError = (''TypeError'', None)"

text \<open>
  A thrown error that another \<open>catch\<close> wraps in a new \<open>ApiError\<close>, with the properties the code
  reads of it.
\<close>

fun as_object :: "thrown \<Rightarrow> js_object" where
  "as_object (ThrownApi e) = plain
     ([(''id'', JStr (errorId e)), (''defaultMessage'', JStr (errorText e)),
       (''values'', JObj (own (errorValues e) @ hidden (errorValues e)))]
      @ (case errorCode e of None \<Rightarrow> [] | Some c \<Rightarrow> [(''code'', c)]))"
| "as_object (ThrownGeneric v) = plain
     [(''id'', JStr (messageId genericApiError)), (''defaultMessage'', JStr (defaultText genericApiError)),
      (''values'', JObj (own v @ hidden v))]"
| "as_object ThrownTypeError = plain []"

section \<open>Chains\<close>

datatype condition = Where string string | Inc string string

record alternative =
  alt_error :: string
  alt_force :: bool
  alt_values :: "fields option"
  alt_conditions :: "condition list"

fun apply_condition :: "error_object \<Rightarrow> condition \<Rightarrow> error_object" where
  "apply_condition e (Where ty decl) = where_clause ty decl e"
| "apply_condition e (Inc ty decl) = inc_clause ty decl e"

definition apply_alternative :: "error_object \<Rightarrow> alternative \<Rightarrow> error_object" where
  "apply_alternative e a =
     foldl apply_condition (set_clause (alt_error a) (alt_force a) (alt_values a) e) (alt_conditions a)"

text \<open>\<open>new ApiError(err).set(..).where(..).. .result(fallback)\<close>.\<close>

definition resolve :: "(string \<Rightarrow> string) \<Rightarrow> (string \<Rightarrow> string) \<Rightarrow> alternative list \<Rightarrow> string option \<Rightarrow> js_object \<Rightarrow> thrown" where
  "resolve camel snake alts fallback err = result snake fallback (foldl apply_alternative (new_ApiError camel err) alts)"

subsection \<open>The reference: the first matching alternative\<close>

text \<open>
  What a chain is meant to say, without its state: the message of the first alternative all of whose
  conditions hold of the error; for an error that has a message of its own, only the alternatives
  that are forced count, and only by their \<open>where\<close> conditions.
\<close>

fun holds :: "bool \<Rightarrow> js_object \<Rightarrow> condition \<Rightarrow> bool" where
  "holds final v (Where ty decl) = (js_get v ty = Some (JStr decl))"
| "holds final v (Inc ty decl) = (final \<or> (case lodash_get v ty of
       None \<Rightarrow> True | Some m \<Rightarrow> js_truthy m \<longrightarrow> lodash_includes m decl))"

definition effective :: "bool \<Rightarrow> alternative \<Rightarrow> bool" where
  "effective final a = (\<not> final \<or> alt_force a)"

definition matches :: "bool \<Rightarrow> js_object \<Rightarrow> alternative \<Rightarrow> bool" where
  "matches final v a = (effective final a \<and> list_all (holds final v) (alt_conditions a))"

definition first_match :: "(string \<Rightarrow> string) \<Rightarrow> (string \<Rightarrow> string) \<Rightarrow> alternative list \<Rightarrow> string option \<Rightarrow> js_object
    \<Rightarrow> string \<times> jsval option" where
  "first_match camel snake alts fallback err =
     (let own_message = known_message camel err;
          name = map_option alt_error (find (matches (own_message \<noteq> None) err) alts)
      in case Option.bind name message_of of
           Some m \<Rightarrow> (messageId m, js_get err ''code'')
         | None \<Rightarrow> (case own_message of
             Some m \<Rightarrow> (messageId m, js_get err ''code'')
           | None \<Rightarrow> (case fallback of
               None \<Rightarrow> (messageId genericApiError, None)
             | Some f \<Rightarrow> (case message_of f of
                 None \<Rightarrow> if f = [] then (messageId genericApiError, None) else (''TypeError'', None)
               | Some m \<Rightarrow> (messageId m, Some (JStr (snake f)))))))"

text \<open>
  When the chain agrees with it: after the first match and the alternative that follows it, nothing
  else may take effect. The keys the alternatives add must not be read by the conditions, and
  every alternative names a message.
\<close>

fun undisturbed :: "bool \<Rightarrow> js_object \<Rightarrow> alternative list \<Rightarrow> bool" where
  "undisturbed final v [] = True"
| "undisturbed final v (a # alts) =
     (if matches final v a then list_all (\<lambda>b. \<not> effective final b) (tl alts) else undisturbed final v alts)"

fun keys_read :: "condition \<Rightarrow> string list" where
  "keys_read (Where ty decl) = [ty]"
| "keys_read (Inc ty decl) = [ty, hd (split_on (CHR ''.'') ty)]"

definition keys_added :: "alternative list \<Rightarrow> string list" where
  "keys_added alts = concat (map (\<lambda>a. case alt_values a of None \<Rightarrow> [] | Some vs \<Rightarrow> map fst vs) alts)"

definition all_keys_read :: "alternative list \<Rightarrow> string list" where
  "all_keys_read alts = ''code'' # concat (map keys_read (concat (map alt_conditions alts)))"

definition well_formed_chain :: "alternative list \<Rightarrow> bool" where
  "well_formed_chain alts \<longleftrightarrow>
     list_all (\<lambda>a. message_of (alt_error a) \<noteq> None) alts \<and>
     list_all (\<lambda>k. k \<notin> set (keys_added alts)) (all_keys_read alts)"

subsection \<open>How a chain moves\<close>

definition same_error :: "error_object \<Rightarrow> error_object \<Rightarrow> bool" where
  "same_error e e' \<longleftrightarrow> isFinalError e' = isFinalError e \<and> errorId e' = errorId e
     \<and> errorText e' = errorText e \<and> errorCode e' = errorCode e"

text \<open>The keys \<open>K\<close> still read as in the error \<open>v\<close> the chain started with.\<close>

definition reads :: "string set \<Rightarrow> js_object \<Rightarrow> error_object \<Rightarrow> bool" where
  "reads K v e \<longleftrightarrow> hidden (errorValues e) = []
     \<and> (\<forall>k\<in>K. map_of (own (errorValues e)) k = map_of (own v) k)
     \<and> fst ` set (additionalValues e) \<inter> K = {}"

lemma same_error_refl [simp]: "same_error e e"
  by (simp add: same_error_def)

lemma same_error_trans: "same_error a b \<Longrightarrow> same_error b c \<Longrightarrow> same_error a c"
  by (simp add: same_error_def)

lemma same_error_steps [simp]:
  "same_error e (set_clause n f vs e)" "same_error e (apply_condition e c)"
  by (cases c; auto simp: same_error_def set_clause_def where_clause_def inc_clause_def Let_def
      split: option.split)+

lemma js_get_no_hidden: "hidden v = [] \<Longrightarrow> js_get v k = map_of (own v) k"
  by (simp add: js_get_def split: option.split)

lemma reads_get:
  assumes "reads K v e" and "hidden v = []"
  shows "k \<in> K \<Longrightarrow> js_get (errorValues e) k = js_get v k"
    and "set (keys_read (Inc k d)) \<subseteq> K \<Longrightarrow> lodash_get (errorValues e) k = lodash_get v k"
  using assms
  by (auto simp: reads_def js_get_no_hidden lodash_get_def split: option.split list.split)

lemma reads_set_clause:
  assumes "reads K v e" and "\<And>vs. vals = Some vs \<Longrightarrow> fst ` set vs \<inter> K = {}"
  shows "reads K v (set_clause n f vals e)"
proof (cases vals)
  case None
  with assms(1) show ?thesis by (simp add: reads_def set_clause_def)
next
  case (Some vs)
  have "fst ` set (map (\<lambda>(k, x). (k, transform_value x)) vs) = fst ` set vs" by force
  with Some assms have a: "k \<in> K \<Longrightarrow> k \<notin> fst ` set (map (\<lambda>(k, x). (k, transform_value x)) vs)" for k
    by auto
  from Some assms \<open>fst ` set (map _ vs) = _\<close> map_of_spread_absent [OF a] show ?thesis
    by (auto simp: reads_def set_clause_def Let_def plain_def simp del: set_map)
qed

lemma map_of_filter_keys: "k \<notin> S \<Longrightarrow> map_of (filter (\<lambda>(k', _). k' \<notin> S) fs) k = map_of fs k"
  by (induction fs) auto

lemma reads_apply_condition:
  assumes "reads K v e" shows "reads K v (apply_condition e c)"
proof (cases c)
  case (Where ty decl)
  have "k \<in> K \<Longrightarrow> k \<notin> fst ` set (additionalValues e)" for k using assms by (auto simp: reads_def)
  with assms Where show ?thesis
    by (auto simp: reads_def where_clause_def own_omit map_of_filter_keys)
next
  case (Inc ty decl)
  with assms show ?thesis by (auto simp: reads_def inc_clause_def split: option.split)
qed

lemma conditions_off: "\<not> clause e \<Longrightarrow> foldl apply_condition e cs = e"
proof (induction cs)
  case (Cons c cs)
  then have "apply_condition e c = e"
    by (cases c) (auto simp: where_clause_def inc_clause_def split: option.split)
  with Cons show ?case by simp
qed simp

text \<open>An enabled alternative keeps the object exactly when all its conditions hold.\<close>

lemma one_condition:
  assumes "reads K v e" "hidden v = []" "clause e" "isFinalError e \<longrightarrow> forceSet e" "set (keys_read c) \<subseteq> K"
  shows "if holds (isFinalError e) v c then apply_condition e c = e
         else \<not> clause (apply_condition e c) \<and> tempError (apply_condition e c) = []
              \<and> (isFinalError e \<longrightarrow> \<not> forceSet (apply_condition e c))"
proof (cases c)
  case (Where ty decl)
  with assms reads_get(1) [OF assms(1,2), of ty] show ?thesis by (auto simp: where_clause_def)
next
  case (Inc ty decl)
  with assms reads_get(2) [OF assms(1,2), of ty] show ?thesis
    by (auto simp: inc_clause_def split: option.split)
qed

lemma conditions_on:
  assumes "reads K v e" "hidden v = []" "clause e" "isFinalError e \<longrightarrow> forceSet e"
    "set (concat (map keys_read cs)) \<subseteq> K"
  shows "if list_all (holds (isFinalError e) v) cs then foldl apply_condition e cs = e
         else \<not> clause (foldl apply_condition e cs) \<and> tempError (foldl apply_condition e cs) = []
              \<and> (isFinalError e \<longrightarrow> \<not> forceSet (foldl apply_condition e cs))"
  using assms
proof (induction cs)
  case (Cons c cs)
  from Cons.prems have c: "set (keys_read c) \<subseteq> K" by simp
  show ?case
  proof (cases "holds (isFinalError e) v c")
    case True
    with one_condition [OF Cons.prems(1-4) c] Cons show ?thesis by (simp split: if_splits)
  next
    case False
    with one_condition [OF Cons.prems(1-4) c] show ?thesis by (simp add: conditions_off)
  qed
qed simp

lemma reads_conditions: "reads K v e \<Longrightarrow> reads K v (foldl apply_condition e cs)"
  by (induction cs arbitrary: e) (simp_all add: reads_apply_condition)

lemma same_conditions: "same_error e (foldl apply_condition e cs)"
proof (induction cs arbitrary: e)
  case (Cons c cs)
  show ?case using same_error_trans [OF same_error_steps(2) Cons.IH] by simp
qed simp

definition suits :: "string set \<Rightarrow> alternative \<Rightarrow> bool" where
  "suits K a \<longleftrightarrow> alt_error a \<noteq> [] \<and> (\<forall>vs. alt_values a = Some vs \<longrightarrow> fst ` set vs \<inter> K = {})
     \<and> set (concat (map keys_read (alt_conditions a))) \<subseteq> K"

lemma alternative_keeps:
  "reads K v e \<Longrightarrow> suits K a \<Longrightarrow> reads K v (apply_alternative e a) \<and> same_error e (apply_alternative e a)"
  unfolding apply_alternative_def suits_def
  using same_error_trans [OF same_error_steps(1) same_conditions] reads_conditions reads_set_clause by metis

lemma alternatives_keep:
  "reads K v e \<Longrightarrow> list_all (suits K) alts \<Longrightarrow>
     same_error e (foldl apply_alternative e alts) \<and> reads K v (foldl apply_alternative e alts)"
proof (induction alts arbitrary: e)
  case (Cons b alts)
  then have "reads K v (apply_alternative e b)" "same_error e (apply_alternative e b)"
    using alternative_keeps by simp_all
  with Cons show ?case by (auto intro: same_error_trans)
qed simp

text \<open>The three moves: an undecided chain, a chain that has just matched, a chain that is done.\<close>

definition undecided :: "error_object \<Rightarrow> bool" where
  "undecided e \<longleftrightarrow> \<not> clause e \<and> tempError e = [] \<and> (isFinalError e \<longrightarrow> \<not> forceSet e)"

definition decided :: "string \<Rightarrow> error_object \<Rightarrow> bool" where
  "decided n e \<longleftrightarrow> tempError e = n \<and> (isFinalError e \<longrightarrow> forceSet e)"

lemma set_clause_off:
  "clause e \<or> (isFinalError e \<and> \<not> f) \<Longrightarrow> set_clause n f vals e = e\<lparr>clause := False\<rparr>"
  by (auto simp: set_clause_def Let_def split: option.split)

lemma overriding_alternative:
  assumes "reads K v e" "hidden v = []" "suits K a" "\<not> clause e" "effective (isFinalError e) a"
  shows "if list_all (holds (isFinalError e) v) (alt_conditions a)
         then decided (alt_error a) (apply_alternative e a) \<and> clause (apply_alternative e a)
         else undecided (apply_alternative e a)"
proof -
  let ?e = "set_clause (alt_error a) (alt_force a) (alt_values a) e"
  have s: "clause ?e" "tempError ?e = alt_error a" "isFinalError ?e = isFinalError e" "isFinalError e \<longrightarrow> forceSet ?e"
    using assms by (auto simp: set_clause_def effective_def suits_def Let_def split: option.split)
  have r: "reads K v ?e" using assms by (intro reads_set_clause) (auto simp: suits_def)
  have k: "set (concat (map keys_read (alt_conditions a))) \<subseteq> K" using assms by (simp add: suits_def)
  have f: "isFinalError (foldl apply_condition ?e (alt_conditions a)) = isFinalError e"
    using same_conditions [of ?e "alt_conditions a"] s by (simp add: same_error_def)
  from conditions_on [OF r assms(2) s(1) _ k] s f show ?thesis
    by (auto simp: apply_alternative_def undecided_def decided_def split: if_splits)
qed

lemma undecided_alternative:
  assumes "reads K v e" "hidden v = []" "suits K a" "undecided e"
  shows "if matches (isFinalError e) v a
         then decided (alt_error a) (apply_alternative e a) \<and> clause (apply_alternative e a)
         else undecided (apply_alternative e a)"
proof (cases "effective (isFinalError e) a")
  case True
  with overriding_alternative [OF assms(1-3)] assms(4) show ?thesis
    by (simp add: undecided_def matches_def)
next
  case False
  then have "apply_alternative e a = e\<lparr>clause := False\<rparr>"
    by (simp add: apply_alternative_def effective_def set_clause_off conditions_off)
  with False assms show ?thesis by (simp add: matches_def undecided_def)
qed

lemma matched_alternative: "clause e \<Longrightarrow> apply_alternative e a = e\<lparr>clause := False\<rparr>"
  by (simp add: apply_alternative_def set_clause_off conditions_off)

lemma done_alternatives:
  "\<not> clause e \<Longrightarrow> list_all (\<lambda>b. \<not> effective (isFinalError e) b) alts \<Longrightarrow> foldl apply_alternative e alts = e"
proof (induction alts)
  case (Cons b alts)
  then have "apply_alternative e b = e\<lparr>clause := False\<rparr>"
    by (simp add: apply_alternative_def effective_def set_clause_off conditions_off)
  moreover from Cons.prems have "e\<lparr>clause := False\<rparr> = e" by simp
  ultimately show ?case using Cons by simp
qed simp

lemma decided_rest:
  assumes "decided n e" "clause e" "list_all (\<lambda>b. \<not> effective (isFinalError e) b) (tl alts)"
  shows "decided n (foldl apply_alternative e alts)"
  using assms by (cases alts) (simp_all add: matched_alternative done_alternatives decided_def)

lemma chain_outcome:
  assumes "reads K v e" "hidden v = []" "list_all (suits K) alts" "undecided e"
    "undisturbed (isFinalError e) v alts"
  shows "(case find (matches (isFinalError e) v) alts of
            None \<Rightarrow> undecided (foldl apply_alternative e alts)
          | Some a \<Rightarrow> decided (alt_error a) (foldl apply_alternative e alts))
         \<and> same_error e (foldl apply_alternative e alts) \<and> reads K v (foldl apply_alternative e alts)"
  using assms
proof (induction alts arbitrary: e)
  case (Cons a alts)
  let ?e = "apply_alternative e a"
  from Cons.prems have a: "suits K a" and rest: "list_all (suits K) alts" by simp_all
  from alternative_keeps [OF Cons.prems(1) a] have k: "reads K v ?e" "same_error e ?e" by simp_all
  then have f: "isFinalError ?e = isFinalError e" by (simp add: same_error_def)
  have keep: "same_error ?e (foldl apply_alternative ?e alts) \<and> reads K v (foldl apply_alternative ?e alts)"
    using k(1) rest by (rule alternatives_keep)
  note m = undecided_alternative [OF Cons.prems(1,2) a Cons.prems(4)]
  show ?case
  proof (cases "matches (isFinalError e) v a")
    case True
    with m Cons.prems(5) f have "decided (alt_error a) (foldl apply_alternative ?e alts)"
      by (intro decided_rest) simp_all
    with True keep k show ?thesis by (auto intro: same_error_trans)
  next
    case False
    with m have u: "undecided ?e" by simp
    from False Cons.prems(5) f have "undisturbed (isFinalError ?e) v alts" by simp
    from Cons.IH [OF k(1) Cons.prems(2) rest u this] False f k show ?thesis
      by (simp split: option.splits) (blast intro: same_error_trans)+
  qed
qed simp

lemma message_of_Nil [simp]: "message_of [] = None"
  by (simp add: message_of_def messages_def)

lemma message_of_nonempty: "message_of n \<noteq> None \<Longrightarrow> n \<noteq> []"
  by (rule notI) simp

lemma member_concat: "xs \<in> set xss \<Longrightarrow> set xs \<subseteq> set (concat xss)"
  by auto

lemma well_formed_suits:
  assumes "well_formed_chain alts"
  shows "list_all (suits (set (all_keys_read alts))) alts"
proof -
  { fix a assume a: "a \<in> set alts"
    have "alt_error a \<noteq> []"
      using assms a message_of_nonempty by (auto simp: well_formed_chain_def list_all_iff)
    moreover have "fst ` set vs \<inter> set (all_keys_read alts) = {}" if "alt_values a = Some vs" for vs
    proof -
      have "map fst vs \<in> set (map (\<lambda>b. case alt_values b of None \<Rightarrow> [] | Some ws \<Rightarrow> map fst ws) alts)"
        using a that by (force intro: rev_image_eqI)
      then have "set (map fst vs) \<subseteq> set (keys_added alts)"
        unfolding keys_added_def by (rule member_concat)
      with assms show ?thesis by (auto simp: well_formed_chain_def list_all_iff)
    qed
    moreover have "set (concat (map keys_read (alt_conditions a))) \<subseteq> set (all_keys_read alts)"
      using a by (auto simp: all_keys_read_def)
    ultimately have "suits (set (all_keys_read alts)) a" by (simp add: suits_def) }
  then show ?thesis by (simp add: list_all_iff)
qed

lemma find_matches_named:
  assumes "list_all (\<lambda>a. message_of (alt_error a) \<noteq> None) alts" "find P alts = Some a"
  shows "\<exists>m. message_of (alt_error a) = Some m"
  using assms by (auto simp: list_all_iff find_Some_iff)

lemma chain_shown:
  assumes "well_formed_chain alts" and "hidden err = []"
    and "undisturbed (known_message camel err \<noteq> None) err alts"
  shows "shown (resolve camel snake alts fallback err) = first_match camel snake alts fallback err"
proof -
  let ?e = "new_ApiError camel err" and ?K = "set (all_keys_read alts)"
  let ?f = "known_message camel err \<noteq> None"
  let ?e' = "foldl apply_alternative ?e alts"
  have e: "isFinalError ?e = ?f" "undecided ?e" "errorCode ?e = js_get err ''code''" "reads ?K err ?e"
    "errorId ?e = messageId (case known_message camel err of Some m \<Rightarrow> m | None \<Rightarrow> genericApiError)"
    using assms(2) by (simp_all add: new_ApiError_def Let_def undecided_def reads_def)
  from chain_outcome [OF e(4) assms(2) well_formed_suits [OF assms(1)] e(2)] assms(3) e(1)
  have o: "case find (matches ?f err) alts of None \<Rightarrow> undecided ?e' | Some a \<Rightarrow> decided (alt_error a) ?e'"
    and s: "same_error ?e ?e'" and r: "reads ?K err ?e'" by simp_all
  have code: "js_get (errorValues ?e') ''code'' = js_get err ''code''"
    using reads_get(1) [OF r assms(2)] by (simp add: all_keys_read_def)
  show ?thesis
  proof (cases "find (matches ?f err) alts")
    case None
    with o s e show ?thesis
      by (auto simp: resolve_def first_match_def result_def undecided_def same_error_def
          split: option.split)
  next
    case (Some a)
    have wf: "list_all (\<lambda>a. message_of (alt_error a) \<noteq> None) alts"
      using assms(1) by (simp add: well_formed_chain_def)
    from find_matches_named [OF wf Some] obtain m where m: "message_of (alt_error a) = Some m" ..
    then have "alt_error a \<noteq> []" using message_of_nonempty by blast
    with Some m o s e code show ?thesis
      by (auto simp: resolve_def first_match_def result_def decided_def same_error_def)
  qed
qed


text \<open>
  A third alternative drops an earlier match. For an error without a message of its own, when the
  first alternative of a chain of three matches and the third does not, whatever the second is, the
  chain forgets the match: with no fallback the user sees the generic error.
\<close>

theorem third_alternative_drops_the_match:
  assumes "well_formed_chain [a, b, c]" and "hidden err = []" and "known_message camel err = None"
    and "matches False err a" and "\<not> matches False err c"
  shows "shown (resolve camel snake [a, b, c] None err) = (''api.errors.GenericApiError'', None)"
proof -
  let ?e = "new_ApiError camel err" and ?K = "set (all_keys_read [a, b, c])"
  have e: "\<not> isFinalError ?e" "undecided ?e" "reads ?K err ?e"
    using assms(2,3) by (simp_all add: new_ApiError_def Let_def undecided_def reads_def)
  from well_formed_suits [OF assms(1)] have suits: "suits ?K a" "suits ?K b" "suits ?K c" by simp_all
  let ?e1 = "apply_alternative ?e a"
  from undecided_alternative [OF e(3) assms(2) suits(1) e(2)] e(1) assms(4)
  have "clause ?e1" by simp
  then have e2: "apply_alternative ?e1 b = ?e1\<lparr>clause := False\<rparr>" by (rule matched_alternative)
  let ?e2 = "?e1\<lparr>clause := False\<rparr>"
  from alternative_keeps [OF e(3) suits(1)] e(1) have k: "reads ?K err ?e2" "\<not> isFinalError ?e2"
    by (simp_all add: reads_def same_error_def)
  let ?e3 = "apply_alternative ?e2 c"
  from overriding_alternative [OF k(1) assms(2) suits(3)] k(2) assms(5)
  have "undecided ?e3" by (simp add: matches_def effective_def)
  moreover from alternative_keeps [OF k(1) suits(3)] k(2) have "\<not> isFinalError ?e3"
    by (simp add: same_error_def)
  ultimately show ?thesis
    by (simp add: resolve_def e2 result_def undecided_def genericApiError_def)
qed

section \<open>lodash's case conversions\<close>

text \<open>
  What the code relies on: \<open>camelCase\<close> of a code in snake case, and \<open>snakeCase\<close> of a message
  key in camel case.
\<close>

definition is_lower :: "char \<Rightarrow> bool" where
  "is_lower c = (97 \<le> (of_char c :: nat) \<and> (of_char c :: nat) \<le> 122)"

definition is_upper :: "char \<Rightarrow> bool" where
  "is_upper c = (65 \<le> (of_char c :: nat) \<and> (of_char c :: nat) \<le> 90)"

definition capitalize :: "string \<Rightarrow> string" where
  "capitalize s = (case s of [] \<Rightarrow> [] | c # cs \<Rightarrow>
     (if is_lower c then char_of (of_char c - 32 :: nat) else c) # cs)"

definition snake_word :: "string \<Rightarrow> bool" where
  "snake_word s \<longleftrightarrow> list_all (\<lambda>c. c = CHR ''_'' \<or> is_lower c) s
     \<and> list_all (\<lambda>w. w \<noteq> []) (split_on (CHR ''_'') s)"

definition camel_of :: "string \<Rightarrow> string" where
  "camel_of s = (case split_on (CHR ''_'') s of [] \<Rightarrow> [] | w # ws \<Rightarrow> w @ concat (map capitalize ws))"

definition lodash_camel :: "(string \<Rightarrow> string) \<Rightarrow> bool" where
  "lodash_camel camel \<longleftrightarrow> (\<forall>s. snake_word s \<longrightarrow> camel s = camel_of s)"

definition camel_word :: "string \<Rightarrow> bool" where
  "camel_word s \<longleftrightarrow> s \<noteq> [] \<and> is_lower (hd s)
     \<and> list_all (\<lambda>c. is_lower c \<or> is_upper c) s"

definition snake_of :: "string \<Rightarrow> string" where
  "snake_of s = concat (map (\<lambda>c. if is_upper c
     then [CHR ''_'', char_of (of_char c + 32 :: nat)] else [c]) s)"

definition lodash_snake :: "(string \<Rightarrow> string) \<Rightarrow> bool" where
  "lodash_snake snake \<longleftrightarrow> (\<forall>s. camel_word s \<longrightarrow> snake s = snake_of s)"

lemma lodash_camel_of [simp]: "lodash_camel camel_of"
  by (simp add: lodash_camel_def)

lemma lodash_snake_of [simp]: "lodash_snake snake_of"
  by (simp add: lodash_snake_def)

text \<open>The codes the API layer looks for.\<close>

lemma camel_codes:
  assumes "lodash_camel camel"
  shows "camel ''bad_request'' = ''badRequest''"
    "camel ''not_enough_money'' = ''notEnoughMoney''"
    "camel ''utxo_too_small'' = ''utxoTooSmall''"
    "camel ''transaction_is_too_big'' = ''transactionIsTooBig''"
    "camel ''wallet_already_exists'' = ''walletAlreadyExists''"
    "camel ''invalid_restoration_parameters'' = ''invalidRestorationParameters''"
    "camel ''cannot_cover_fee'' = ''cannotCoverFee''"
    "camel ''no_such_wallet'' = ''noSuchWallet''"
    "camel ''invalid_smash_server'' = ''invalidSmashServer''"
  using assms unfolding lodash_camel_def
  by (simp_all add: snake_word_def camel_of_def capitalize_def is_lower_def char_of_def bit_0)

lemma snake_keys:
  assumes "lodash_snake snake"
  shows "snake ''cannotCoverFee'' = ''cannot_cover_fee''"
    "snake ''walletFileImportError'' = ''wallet_file_import_error''"
  using assms unfolding lodash_snake_def
  by (simp_all add: camel_word_def snake_of_def is_lower_def is_upper_def char_of_def bit_0)

lemma message_ids:
  "map_option messageId (message_of ''wrongEncryptionPassphrase'') = Some ''api.errors.IncorrectPasswordError''"
  "map_option messageId (message_of ''walletAlreadyExists'') = Some ''api.errors.WalletAlreadyRestoredError''"
  "map_option messageId (message_of ''forbiddenMnemonic'') = Some ''api.errors.ForbiddenMnemonicError''"
  "map_option messageId (message_of ''walletAlreadyImported'') = Some ''api.errors.WalletAlreadyImportedError''"
  "map_option messageId (message_of ''walletFileImportError'') = Some ''api.errors.WalletFileImportError''"
  "map_option messageId (message_of ''invalidMnemonic'') = Some ''global.errors.invalidMnemonic''"
  "map_option messageId (message_of ''notEnoughMoney'') = Some ''api.errors.NotEnoughMoneyToSendError''"
  "map_option messageId (message_of ''canNotCalculateTransactionFees'') = Some ''api.errors.CanNotCalculateTransactionFeesError''"
  "map_option messageId (message_of ''cannotCoverFee'') = Some ''api.errors.NotEnoughFundsForTransactionFeesError''"
  "map_option messageId (message_of ''inputsDepleted'') = Some ''api.errors.inputsDepleted''"
  "map_option messageId (message_of ''transactionIsTooBig'') = Some ''api.errors.TooBigTransactionError''"
  "map_option messageId (message_of ''notEnoughFundsForTransaction'') = Some ''api.errors.NotEnoughFundsForTransactionError''"
  "map_option messageId (message_of ''invalidAddress'') = Some ''api.errors.invalidAddress''"
  "map_option messageId (message_of ''utxoTooSmall'') = Some ''api.errors.utxoTooSmall''"
  "map_option messageId (message_of ''invalidSmashServer'') = Some ''api.errors.invalidSmashServer''"
  "message_of ''badRequest'' = None" "message_of ''noSuchWallet'' = None"
  "message_of ''invalidRestorationParameters'' = None"
  by (simp_all add: message_of_def messages_def)
end
