(* ===== verification/ApiCalls.thy ===== *)
theory ApiCalls imports JsValues "HOL-Library.Word" begin

text \<open>
  What the API layer sends and how it reads the answer: the HTTP requests of
  \<open>api/*/requests/*.js\<close>, the wallet ids of \<open>api/utils/index.js\<close>, and the transports
  \<open>api/utils/request.js\<close>, \<open>requestV0.js\<close> and \<open>externalRequest.js\<close>. A request is the value
  the wrapper hands to the transport; the connection's host, port and certificates
  (\<open>RequestConfig\<close>) are left out of it. JSON parsing and printing, query strings and the decoding of
  a chunk of bytes are parameters.
\<close>

section \<open>Wallet ids\<close>

definition LEGACY_WALLET_ID_PREFIX :: string where
  "LEGACY_WALLET_ID_PREFIX = ''legacy_''"

definition getLegacyWalletId :: "string \<Rightarrow> string" where
  "getLegacyWalletId rawWalletId = LEGACY_WALLET_ID_PREFIX @ rawWalletId"

text \<open>\<open>String.replace\<close> with a string pattern replaces its first occurrence, wherever it is.\<close>

fun replace_first :: "string \<Rightarrow> string \<Rightarrow> string \<Rightarrow> string" where
  "replace_first p r [] = (if p = [] then r else [])"
| "replace_first p r (x # xs) =
     (if prefix p (x # xs) then r @ drop (length p) (x # xs) else x # replace_first p r xs)"

definition getRawWalletId :: "string \<Rightarrow> string" where
  "getRawWalletId legacyWalletId = replace_first LEGACY_WALLET_ID_PREFIX [] legacyWalletId"

definition isLegacyWalletId :: "string \<Rightarrow> bool" where
  "isLegacyWalletId walletId = prefix LEGACY_WALLET_ID_PREFIX walletId"

lemma raw_of_legacy [simp]: "getRawWalletId (getLegacyWalletId x) = x"
  by (simp add: getRawWalletId_def getLegacyWalletId_def LEGACY_WALLET_ID_PREFIX_def)

lemma is_legacy_of_legacy [simp]: "isLegacyWalletId (getLegacyWalletId x)"
  by (simp add: isLegacyWalletId_def getLegacyWalletId_def)

text \<open>The ids of the backend are hexadecimal, so the prefix occurs in none of them.\<close>

definition hex_char :: "char \<Rightarrow> bool" where
  "hex_char c \<longleftrightarrow> c \<in> set ''0123456789abcdef''"

lemma replace_first_absent: "y \<in> set p \<Longrightarrow> y \<notin> set xs \<Longrightarrow> replace_first p r xs = xs"
proof (induction xs)
  case (Cons x xs)
  then have "\<not> prefix p (x # xs)" using set_mono_prefix [of p "x # xs"] by auto
  with Cons show ?case by simp
qed auto

lemma raw_of_hex: "list_all hex_char x \<Longrightarrow> getRawWalletId x = x"
  unfolding getRawWalletId_def
  by (rule replace_first_absent [where y = "CHR ''_''"])
    (auto simp: LEGACY_WALLET_ID_PREFIX_def hex_char_def list_all_iff)

lemma hex_not_legacy: "list_all hex_char x \<Longrightarrow> \<not> isLegacyWalletId x"
  by (auto simp: isLegacyWalletId_def LEGACY_WALLET_ID_PREFIX_def hex_char_def prefix_def)

section \<open>Requests\<close>

record http_call =
  verb :: string
  path :: string
  query :: fields
  body :: "jsval option"
  isOctetStreamRequest :: bool
  isOctetStreamResponse :: bool

definition http :: "string \<Rightarrow> string \<Rightarrow> fields \<Rightarrow> jsval option \<Rightarrow> http_call" where
  "http m p q b = \<lparr>verb = m, path = p, query = q, body = b,
     isOctetStreamRequest = False, isOctetStreamResponse = False\<rparr>"

definition wallets_path :: "string \<Rightarrow> string" where
  "wallets_path rest = ''/v2/wallets'' @ rest"

definition cole_path :: "string \<Rightarrow> string \<Rightarrow> string" where
  "cole_path walletId rest = ''/v2/cole-wallets/'' @ getRawWalletId walletId @ rest"

text \<open>An absent property is left out of the body: printing JSON drops \<open>undefined\<close>.\<close>

definition field :: "string \<Rightarrow> jsval option \<Rightarrow> fields" where
  "field k v = (case v of None \<Rightarrow> [] | Some x \<Rightarrow> [(k, x)])"

definition createWallet_request :: "jsval \<Rightarrow> http_call" where
  "createWallet_request walletInitData = http ''POST'' (wallets_path []) [] (Some walletInitData)"

definition restoreWallet_request :: "jsval \<Rightarrow> http_call" where
  "restoreWallet_request walletInitData = http ''POST'' (wallets_path []) [] (Some walletInitData)"

definition createHardwareWallet_request :: "jsval \<Rightarrow> http_call" where
  "createHardwareWallet_request walletInitData = http ''POST'' (wallets_path []) [] (Some walletInitData)"

definition getWallets_request :: "http_call" where
  "getWallets_request = http ''GET'' (wallets_path []) [] None"

definition getWallet_request :: "string \<Rightarrow> http_call" where
  "getWallet_request walletId = http ''GET'' (wallets_path (''/'' @ walletId)) [] None"

definition deleteWallet_request :: "string \<Rightarrow> http_call" where
  "deleteWallet_request walletId = http ''DELETE'' (wallets_path (''/'' @ walletId)) [] None"

definition getWalletUtxos_request :: "string \<Rightarrow> http_call" where
  "getWalletUtxos_request walletId = http ''GET'' (wallets_path (''/'' @ walletId @ ''/statistics/utxos'')) [] None"

definition updateWallet_request :: "string \<Rightarrow> string \<Rightarrow> http_call" where
  "updateWallet_request walletId name = http ''PUT'' (wallets_path (''/'' @ walletId)) [] (Some (JObj [(''name'', JStr name)]))"

definition updateSpendingPassword_request :: "string \<Rightarrow> string option \<Rightarrow> string \<Rightarrow> http_call" where
  "updateSpendingPassword_request walletId oldPassword newPassword = http ''PUT'' (wallets_path (''/'' @ walletId @ ''/passphrase'')) [] (Some (JObj (field ''old_passphrase'' (map_option JStr oldPassword) @ [(''new_passphrase'', JStr newPassword)])))"

definition getAccountPublicKey_request :: "string \<Rightarrow> string \<Rightarrow> string \<Rightarrow> bool \<Rightarrow> http_call" where
  "getAccountPublicKey_request walletId index passphrase extended = http ''POST'' (wallets_path (''/'' @ walletId @ ''/keys/'' @ index)) [] (Some (JObj [(''passphrase'', JStr passphrase), (''format'', JStr (if extended then ''extended'' else ''non_extended''))]))"

definition getWalletPublicKey_request :: "string \<Rightarrow> string \<Rightarrow> string \<Rightarrow> http_call" where
  "getWalletPublicKey_request walletId role index = http ''GET'' (wallets_path (''/'' @ walletId @ ''/keys/'' @ role @ ''/'' @ index)) [] None"

definition exportWalletAsJSON_request :: "string \<Rightarrow> string \<Rightarrow> http_call" where
  "exportWalletAsJSON_request walletId filePath = http ''POST'' (''/api/backup/export/'' @ walletId) [] (Some (JStr filePath))"

definition importWalletAsJSON_request :: "string \<Rightarrow> http_call" where
  "importWalletAsJSON_request filePath = http ''POST'' (''/api/backup/import'') [] (Some (JStr filePath))"

definition importWalletAsKey_request :: "string \<Rightarrow> string option \<Rightarrow> http_call" where
  "importWalletAsKey_request filePath spendingPassword = http ''POST'' (''/api/internal/import-wallet'') [] (Some (JObj ([(''filePath'', JStr filePath)] @ field ''spendingPassword'' (map_option JStr spendingPassword))))"

definition getLegacyWallets_request :: "http_call" where
  "getLegacyWallets_request = http ''GET'' (''/v2/cole-wallets'') [] None"

definition getLegacyWallet_request :: "string \<Rightarrow> http_call" where
  "getLegacyWallet_request walletId = http ''GET'' (cole_path walletId []) [] None"

definition deleteLegacyWallet_request :: "string \<Rightarrow> http_call" where
  "deleteLegacyWallet_request walletId = http ''DELETE'' (cole_path walletId []) [] None"

definition getColeWalletUtxos_request :: "string \<Rightarrow> http_call" where
  "getColeWalletUtxos_request walletId = http ''GET'' (cole_path walletId ''/statistics/utxos'') [] None"

definition updateColeWallet_request :: "string \<Rightarrow> string \<Rightarrow> http_call" where
  "updateColeWallet_request walletId name = http ''PUT'' (cole_path walletId []) [] (Some (JObj [(''name'', JStr name)]))"

definition updateColeSpendingPassword_request :: "string \<Rightarrow> string option \<Rightarrow> string \<Rightarrow> http_call" where
  "updateColeSpendingPassword_request walletId oldPassword newPassword = http ''PUT'' (cole_path walletId ''/passphrase'') [] (Some (JObj (field ''old_passphrase'' (map_option JStr oldPassword) @ [(''new_passphrase'', JStr newPassword)])))"

definition transferFunds_request :: "string \<Rightarrow> string list \<Rightarrow> string \<Rightarrow> http_call" where
  "transferFunds_request walletId targetWalletAddresses passphrase = http ''POST'' (cole_path walletId ''/migrations'') [] (Some (JObj [(''passphrase'', JStr passphrase), (''addresses'', JArr (map JStr targetWalletAddresses))]))"

definition transferFundsCalculateFee_request :: "string \<Rightarrow> http_call" where
  "transferFundsCalculateFee_request walletId = http ''GET'' (cole_path walletId ''/migrations'') [] None"

definition restoreColeWallet_request :: "fields \<Rightarrow> string \<Rightarrow> http_call" where
  "restoreColeWallet_request walletInitData style = http ''POST'' (''/v2/cole-wallets'') [] (Some (JObj (spread walletInitData [(''style'', JStr style)])))"

definition restoreExportedColeWallet_request :: "fields \<Rightarrow> http_call" where
  "restoreExportedColeWallet_request walletInitData = http ''POST'' (''/v2/cole-wallets'') [] (Some (JObj (spread walletInitData [(''style'', JStr ''random'')])))"

definition restoreLegacyWallet_request :: "fields \<Rightarrow> string \<Rightarrow> http_call" where
  "restoreLegacyWallet_request walletInitData type_suffix = http ''POST'' (''/v2/cole-wallets'' @ type_suffix) [] (Some (JObj walletInitData))"

definition createColeWalletTransaction_request :: "string \<Rightarrow> jsval \<Rightarrow> http_call" where
  "createColeWalletTransaction_request walletId data = http ''POST'' (cole_path walletId ''/transactions/'') [] (Some data)"

definition createTransaction_request :: "string \<Rightarrow> jsval \<Rightarrow> http_call" where
  "createTransaction_request walletId data = http ''POST'' (wallets_path (''/'' @ walletId @ ''/transactions/'')) [] (Some data)"

definition deleteLegacyTransaction_request :: "string \<Rightarrow> string \<Rightarrow> http_call" where
  "deleteLegacyTransaction_request walletId transactionId = http ''DELETE'' (cole_path walletId (''/transactions/'' @ transactionId)) [] None"

definition deleteTransaction_request :: "string \<Rightarrow> string \<Rightarrow> http_call" where
  "deleteTransaction_request walletId transactionId = http ''DELETE'' (wallets_path (''/'' @ walletId @ ''/transactions/'' @ transactionId)) [] None"

definition getColeWalletTransactionFee_request :: "string \<Rightarrow> jsval \<Rightarrow> http_call" where
  "getColeWalletTransactionFee_request walletId data = http ''POST'' (cole_path walletId ''/payment-fees'') [] (Some data)"

definition getTransactionFee_request :: "string \<Rightarrow> jsval \<Rightarrow> http_call" where
  "getTransactionFee_request walletId data = http ''POST'' (wallets_path (''/'' @ walletId @ ''/payment-fees'')) [] (Some data)"

definition getICOPublicKey_request :: "string \<Rightarrow> string \<Rightarrow> fields \<Rightarrow> http_call" where
  "getICOPublicKey_request walletId index data = http ''POST'' (wallets_path (''/'' @ walletId @ ''/keys/'' @ index)) [] (Some (JObj data))"

definition getLegacyWalletTransactionHistory_request :: "string \<Rightarrow> fields \<Rightarrow> http_call" where
  "getLegacyWalletTransactionHistory_request walletId queryParams = http ''GET'' (cole_path walletId ''/transactions'') queryParams None"

definition getTransactionHistory_request :: "string \<Rightarrow> fields \<Rightarrow> http_call" where
  "getTransactionHistory_request walletId queryParams = http ''GET'' (wallets_path (''/'' @ walletId @ ''/transactions'')) queryParams None"

definition getPublicKey_request :: "string \<Rightarrow> string \<Rightarrow> string \<Rightarrow> http_call" where
  "getPublicKey_request walletId role index = http ''GET'' (wallets_path (''/'' @ walletId @ ''/keys/'' @ role @ ''/'' @ index)) [] (Some (JObj []))"

definition getTransaction_request :: "string \<Rightarrow> string \<Rightarrow> http_call" where
  "getTransaction_request walletId transactionId = http ''GET'' (wallets_path (''/'' @ walletId @ ''/transactions/'' @ transactionId)) [] None"

definition getWithdrawalHistory_request :: "string \<Rightarrow> http_call" where
  "getWithdrawalHistory_request walletId = http ''GET'' (wallets_path (''/'' @ walletId @ ''/transactions'')) [(''minWithdrawal'', JNum 1)] None"

definition selectCoins_request :: "string \<Rightarrow> jsval \<Rightarrow> http_call" where
  "selectCoins_request walletId data = http ''POST'' (wallets_path (''/'' @ walletId @ ''/coin-selections/random'')) [] (Some data)"

definition constructAddress_request :: "jsval \<Rightarrow> http_call" where
  "constructAddress_request data = http ''POST'' (''/v2/addresses'') [] (Some data)"

definition getAddresses_request :: "string \<Rightarrow> fields \<Rightarrow> http_call" where
  "getAddresses_request walletId queryParams = http ''GET'' (wallets_path (''/'' @ walletId @ ''/addresses'')) queryParams None"

definition getColeWalletAddresses_request :: "string \<Rightarrow> fields \<Rightarrow> http_call" where
  "getColeWalletAddresses_request walletId queryParams = http ''GET'' (cole_path walletId ''/addresses'') queryParams None"

definition inspectAddress_request :: "string \<Rightarrow> http_call" where
  "inspectAddress_request addressId = http ''GET'' (''/v2/addresses/'' @ addressId) [] (Some (JObj []))"

definition checkSmashServerHealth_request :: "string \<Rightarrow> http_call" where
  "checkSmashServerHealth_request url = http ''GET'' (''/v2/smash/health'') [(''url'', JStr url)] None"

definition getDelegationFee_request :: "string \<Rightarrow> http_call" where
  "getDelegationFee_request walletId = http ''GET'' (wallets_path (''/'' @ walletId @ ''/delegation-fees'')) [] None"

definition getSmashSettings_request :: "http_call" where
  "getSmashSettings_request = http ''GET'' (''/v2/settings'') [] None"

definition getStakePools_request :: "rat \<Rightarrow> http_call" where
  "getStakePools_request stake = http ''GET'' (''/v2/stake-pools'') [(''stake'', JNum stake)] None"

definition joinStakePool_request :: "string \<Rightarrow> string \<Rightarrow> string \<Rightarrow> http_call" where
  "joinStakePool_request walletId stakePoolId passphrase = http ''PUT'' (''/v2/stake-pools/'' @ stakePoolId @ ''/wallets/'' @ walletId) [] (Some (JObj [(''passphrase'', JStr passphrase)]))"

definition quitStakePool_request :: "string \<Rightarrow> string \<Rightarrow> http_call" where
  "quitStakePool_request walletId passphrase = http ''DELETE'' (''/v2/stake-pools/*/wallets/'' @ walletId) [] (Some (JObj [(''passphrase'', JStr passphrase)]))"

definition updateSmashSettings_request :: "string \<Rightarrow> http_call" where
  "updateSmashSettings_request poolMetadataSource = http ''PUT'' (''/v2/settings'') [] (Some (JObj [(''settings'', JObj [(''pool_metadata_source'', JStr poolMetadataSource)])]))"

definition getNetworkClock_request :: "bool \<Rightarrow> http_call" where
  "getNetworkClock_request isForceCheck = http ''GET'' (''/v2/network/clock'') [(''forceNtpCheck'', JBool isForceCheck)] None"

definition getNetworkInfo_request :: "http_call" where
  "getNetworkInfo_request = http ''GET'' (''/v2/network/information'') [] None"

definition getNetworkParameters_request :: "http_call" where
  "getNetworkParameters_request = http ''GET'' (''/v2/network/parameters'') [] None"

text \<open>An index of \<open>0\<close> is falsy, so it is not sent.\<close>

definition createColeWalletAddress_request :: "string \<Rightarrow> string \<Rightarrow> nat option \<Rightarrow> http_call" where
  "createColeWalletAddress_request walletId passphrase addressIndex =
     (let data = [(''passphrase'', JStr passphrase)];
          data' = (case addressIndex of None \<Rightarrow> data | Some n \<Rightarrow>
                     if n \<noteq> 0 then spread data [(''address_index'', JNum (of_nat n))] else data)
      in http ''POST'' (cole_path walletId ''/addresses'') [] (Some (JObj data')))"

definition createExternalTransaction_request :: "string \<Rightarrow> http_call" where
  "createExternalTransaction_request signedTransactionBlob =
     (http ''POST'' ''/v2/proxy/transactions'' [] (Some (JStr signedTransactionBlob)))\<lparr>isOctetStreamRequest := True\<rparr>"

definition createWalletSignature_request :: "string \<Rightarrow> string \<Rightarrow> string \<Rightarrow> jsval \<Rightarrow> http_call" where
  "createWalletSignature_request walletId role index data =
     (http ''POST'' (wallets_path (''/'' @ walletId @ ''/signatures/'' @ role @ ''/'' @ index)) [] (Some data))
       \<lparr>isOctetStreamResponse := True\<rparr>"

definition assets_path :: "string \<Rightarrow> string" where
  "assets_path walletId =
     ''/v2/'' @ (if isLegacyWalletId walletId then ''cole-wallets'' else ''wallets'') @ ''/''
     @ getRawWalletId walletId @ ''/assets''"

definition getAssets_request :: "string \<Rightarrow> http_call" where
  "getAssets_request walletId = http ''GET'' (assets_path walletId) [] None"

definition getUnknownAsset_request :: "string \<Rightarrow> string \<Rightarrow> http_call" where
  "getUnknownAsset_request walletId policyId = http ''GET'' (assets_path walletId @ ''/'' @ policyId) [] None"

section \<open>The transport of the wallet backend\<close>

text \<open>
  \<open>typedRequest\<close>: what goes on the wire. The body of an octet stream request is a hexadecimal text,
  written as half as many bytes.
\<close>

record wire =
  wire_path :: string
  content_length :: nat
  content_type :: string
  accept :: string
  content :: "string option"

definition typedRequest :: "(fields \<Rightarrow> string) \<Rightarrow> (jsval \<Rightarrow> string) \<Rightarrow> (string \<Rightarrow> nat) \<Rightarrow> http_call \<Rightarrow> wire" where
  "typedRequest querystring stringify getContentLength c =
     (let p = path c @ (if query c \<noteq> [] then ''?'' @ querystring (query c) else []);
          no_body = \<lparr>wire_path = p, content_length = 0, content_type = [], accept = [], content = None\<rparr>
      in case body c of
           None \<Rightarrow> no_body
         | Some b \<Rightarrow>
             if \<not> js_truthy b then no_body
             else (let octets = (case b of JStr s \<Rightarrow> s | _ \<Rightarrow> stringify b);
                       text = stringify b
                   in \<lparr>wire_path = p,
                       content_length = (if isOctetStreamRequest c then length octets div 2 else getContentLength text),
                       content_type = (if isOctetStreamRequest c then ''application/octet-stream''
                                       else ''application/json; charset=utf-8''),
                       accept = (if isOctetStreamResponse c then ''application/octet-stream''
                                 else ''application/json; charset=utf-8''),
                       content = Some (if isOctetStreamRequest c then octets else text)\<rparr>))"

text \<open>
  The handlers of the response. The chunks of a JSON answer are decoded one by one and joined; of
  an octet stream the last chunk is kept. \<open>parse\<close> throws on a malformed text (\<open>None\<close>).
\<close>

type_synonym bytes = "8 word list"

datatype answer = Json jsval | Octets "bytes option"

definition js_error :: "string \<Rightarrow> js_object" where
  "js_error m = \<lparr>own = [], hidden = [(''message'', JStr m)]\<rparr>"

definition unknown_response :: js_object where
  "unknown_response = js_error ''Unknown API response''"

fun object_fields :: "jsval \<Rightarrow> fields" where
  "object_fields (JObj fs) = fs"
| "object_fields v = []"

fun digit_string :: "nat \<Rightarrow> string" where
  "digit_string n = (if n < 10 then [char_of (48 + n)] else digit_string (n div 10) @ [char_of (48 + n mod 10)])"

declare digit_string.simps [simp del]

definition quoted :: "string \<Rightarrow> string" where
  "quoted s = [CHR 0x22] @ s @ [CHR 0x22]"

text \<open>The text that stands for an empty body of a successful answer.\<close>

definition empty_success_body :: "nat \<Rightarrow> string \<Rightarrow> string" where
  "empty_success_body statusCode statusMessage =
     (let line = CHR 0x0A # replicate 18 (CHR '' '');
          data = (if statusCode = 404 then ''null''
                  else quoted (''statusCode: '' @ digit_string statusCode @ '' -- statusMessage: '' @ statusMessage))
      in ''{'' @ line @ quoted ''status'' @ '': '' @ digit_string statusCode @ '','' @ line
         @ quoted ''data'' @ '': '' @ data @ [CHR 0x0A] @ replicate 16 (CHR '' '') @ ''}'')"

definition settle_response ::
  "(bytes \<Rightarrow> string) \<Rightarrow> (string \<Rightarrow> jsval option) \<Rightarrow> http_call \<Rightarrow> nat \<Rightarrow> string \<Rightarrow> bytes list \<Rightarrow> js_object + answer" where
  "settle_response decode parse c statusCode statusMessage chunks =
     (let octets = isOctetStreamResponse c;
          text = (if octets then [] else concat (map decode chunks));
          stream = (if octets \<and> chunks \<noteq> [] then Some (last chunks) else None);
          rejected = Inl (js_error ''SyntaxError'')
      in if 200 \<le> statusCode \<and> statusCode \<le> 206 then
           if octets then Inr (Octets stream)
           else (case parse (if text = [] then empty_success_body statusCode statusMessage else text) of
                   None \<Rightarrow> rejected | Some v \<Rightarrow> Inr (Json v))
         else case stream of
           Some s \<Rightarrow> (case parse (decode s) of None \<Rightarrow> rejected | Some v \<Rightarrow> Inl (plain (object_fields v)))
         | None \<Rightarrow>
             if text \<noteq> [] then
               (case parse text of
                  None \<Rightarrow> rejected
                | Some JNull \<Rightarrow> Inl (js_error ''TypeError'')
                | Some v \<Rightarrow>
                    (let has = (\<lambda>k. case map_of (object_fields v) k of None \<Rightarrow> False | Some x \<Rightarrow> js_truthy x)
                     in if has ''code'' \<and> has ''message'' then Inl (plain (object_fields v))
                        else Inl unknown_response))
             else Inl unknown_response)"

text \<open>A failed connection rejects with the error itself, an answer by its handlers.\<close>

datatype transport = ConnectionError js_object | ResponseError js_object | Response nat string "bytes list"

fun settle_request :: "(bytes \<Rightarrow> string) \<Rightarrow> (string \<Rightarrow> jsval option) \<Rightarrow> http_call \<Rightarrow> transport \<Rightarrow> js_object + answer" where
  "settle_request decode parse c (ConnectionError e) = Inl e"
| "settle_request decode parse c (ResponseError e) = Inl e"
| "settle_request decode parse c (Response code msg chunks) = settle_response decode parse c code msg chunks"

text \<open>
  The chunking of an answer does not matter for JSON and decides for octets. When neither of two
  chunkings of the same bytes splits a character (decoding the chunks one by one is decoding their
  concatenation), a JSON answer settles alike in both; of a successful octet stream only the last
  chunk is delivered, whatever came before it.
\<close>

theorem chunks_of_an_answer:
  assumes "concat (map decode chunks) = decode (concat chunks)" and "concat (map decode chunks') = decode (concat chunks')"
    and "concat chunks = concat chunks'" and "chunks \<noteq> []"
  shows "if isOctetStreamResponse c
         then settle_request decode parse c (Response 200 msg (before @ chunks)) = Inr (Octets (Some (last chunks)))
         else settle_request decode parse c (Response code msg chunks) = settle_request decode parse c (Response code msg chunks')"
  using assms by (simp add: settle_response_def)

theorem chunks_of_an_answer_witness:
  "settle_request (map (\<lambda>b. char_of (unat b))) (\<lambda>s. Some (JStr s)) (getWallets_request) (Response 200 ''OK'' [[72], [105]])
   = settle_request (map (\<lambda>b. char_of (unat b))) (\<lambda>s. Some (JStr s)) (getWallets_request) (Response 200 ''OK'' [[72, 105]])"
  using chunks_of_an_answer [of "map (\<lambda>b. char_of (unat b))" "[[72], [105]]" "[[72, 105]]" getWallets_request
      "\<lambda>s. Some (JStr s)" "''OK''" "[]" 200]
  by (simp add: getWallets_request_def http_def)

text \<open>
  What a rejected call of the backend carries. A JSON error answer that names a code and a message
  is rejected with exactly its fields; one without either, an empty one, or one that is no object is
  rejected as unknown; a malformed one as a syntax error; and no status outside 200 to 206 resolves.
\<close>

theorem error_answers:
  assumes "\<not> isOctetStreamResponse c" and "\<not> (200 \<le> code \<and> code \<le> 206)"
    and "text = concat (map decode chunks)"
  shows "settle_request decode parse c (Response code msg chunks) = Inl
           (if text = [] then unknown_response
            else case parse text of
              None \<Rightarrow> js_error ''SyntaxError''
            | Some JNull \<Rightarrow> js_error ''TypeError''
            | Some v \<Rightarrow>
                if (\<exists>x. map_of (object_fields v) ''code'' = Some x \<and> js_truthy x)
                   \<and> (\<exists>x. map_of (object_fields v) ''message'' = Some x \<and> js_truthy x)
                then plain (object_fields v) else unknown_response)"
  using assms
  by (auto simp: settle_response_def Let_def split: option.split jsval.split)

theorem error_answers_witness:
  "settle_request (\<lambda>b. ''x'') (\<lambda>s. Some (JObj [(''code'', JStr ''not_found''), (''message'', JStr ''m'')])) getWallets_request
     (Response 404 ''Not Found'' [[1]]) = Inl (plain [(''code'', JStr ''not_found''), (''message'', JStr ''m'')])"
  using error_answers [of getWallets_request 404 "''x''" "\<lambda>b. ''x''" "[[1]]"
      "\<lambda>s. Some (JObj [(''code'', JStr ''not_found''), (''message'', JStr ''m'')])" "''Not Found''"]
  by (simp add: getWallets_request_def http_def)

section \<open>The legacy transport\<close>

text \<open>
  \<open>requestV0\<close>. The test \<open>size(queryParams > 1)\<close> takes the size of a boolean, which lodash defines
  as 0, so the other parameters never follow an encrypted passphrase.
\<close>

definition size_of_boolean :: "bool \<Rightarrow> nat" where
  "size_of_boolean b = 0"

definition requestV0_path :: "(string \<Rightarrow> string) \<Rightarrow> (fields \<Rightarrow> string) \<Rightarrow> (jsval \<Rightarrow> string) \<Rightarrow> string \<Rightarrow> fields \<Rightarrow> string" where
  "requestV0_path encryptPassphrase querystring to_string p queryParams =
     p @ (if queryParams = [] then []
          else case map_of queryParams ''passphrase'' of
            None \<Rightarrow> ''?'' @ querystring queryParams
          | Some passphrase \<Rightarrow>
              (let rest = filter (\<lambda>(k, _). k \<noteq> ''passphrase'') queryParams
               in (if js_truthy passphrase then ''?passphrase='' @ encryptPassphrase (to_string passphrase) else [])
                  @ (if size_of_boolean False \<noteq> 0 \<and> js_truthy passphrase then ''&'' @ querystring rest else [])))"

definition requestV0_settle :: "(string \<Rightarrow> jsval option) \<Rightarrow> string \<Rightarrow> js_object + jsval" where
  "requestV0_settle parse text =
     (let unknown = Inl (js_error ''Unknown response from backend.'')
      in case parse text of
           None \<Rightarrow> Inl (js_error ''SyntaxError'')
         | Some v \<Rightarrow> (case map_of (object_fields v) ''Right'' of
             Some x \<Rightarrow> Inr x
           | None \<Rightarrow> (case map_of (object_fields v) ''Left'' of
               None \<Rightarrow> unknown
             | Some JNull \<Rightarrow> Inl (js_error ''TypeError'')
             | Some l \<Rightarrow> (case map_of (object_fields l) ''contents'' of
                 Some (JStr m) \<Rightarrow> if m = [] then unknown else Inl (js_error m)
               | Some x \<Rightarrow> if js_truthy x then Inl (js_error ''[contents]'') else unknown
               | None \<Rightarrow> unknown))))"

text \<open>
  The legacy transport loses query parameters. With a passphrase among the parameters, no
  other parameter reaches the path: any two requests with the same passphrase have the same path.
\<close>

theorem requestV0_drops_parameters:
  assumes "map_of qs ''passphrase'' = Some x" and "map_of qs' ''passphrase'' = Some x"
  shows "requestV0_path enc querystring to_string p qs = requestV0_path enc querystring to_string p qs'"
  using assms by (auto simp: requestV0_path_def size_of_boolean_def)

theorem requestV0_drops_parameters_witness:
  "requestV0_path (\<lambda>s. s) (\<lambda>fs. concat (map fst fs)) (\<lambda>v. ''pw'') ''/p'' [(''passphrase'', JStr ''pw''), (''page'', JNum 1)]
   = requestV0_path (\<lambda>s. s) (\<lambda>fs. concat (map fst fs)) (\<lambda>v. ''pw'') ''/p'' [(''passphrase'', JStr ''pw'')]"
  by (rule requestV0_drops_parameters [where x = "JStr ''pw''"]) simp_all

section \<open>Requests to other hosts\<close>

text \<open>
  \<open>externalRequest\<close> sends nothing to a host that is not listed. The host of the currency service
  comes from the configured service.
\<close>

definition MAINNET_EXPLORER_URL :: string where "MAINNET_EXPLORER_URL = ''explorer.bcc.org''"
definition STAGING_EXPLORER_URL :: string where "STAGING_EXPLORER_URL = ''explorer.staging.bcc.org''"
definition TESTNET_EXPLORER_URL :: string where "TESTNET_EXPLORER_URL = ''explorer.bcc-testnet.tbcodev.io''"
definition NEWS_URL :: string where "NEWS_URL = ''newsfeed.klarity.io''"
definition NEWS_HASH_URL :: string where "NEWS_HASH_URL = ''newsfeed.klaritywallet.io''"

definition ALLOWED_EXTERNAL_HOSTNAMES :: "string \<Rightarrow> string list" where
  "ALLOWED_EXTERNAL_HOSTNAMES currencyHostname =
     [MAINNET_EXPLORER_URL, STAGING_EXPLORER_URL, TESTNET_EXPLORER_URL, NEWS_URL, NEWS_URL, NEWS_URL, NEWS_URL,
      NEWS_HASH_URL, NEWS_HASH_URL, NEWS_HASH_URL, NEWS_HASH_URL, currencyHostname]"

record external_options =
  hostname :: string
  external_path :: string
  external_method :: string

datatype external_transport = ExternalError js_object | ExternalEnd string

type_synonym internet = "external_options \<Rightarrow> external_transport"

definition externalRequest ::
  "string \<Rightarrow> (string \<Rightarrow> jsval option) \<Rightarrow> internet \<Rightarrow> bool \<Rightarrow> external_options \<Rightarrow> js_object + jsval" where
  "externalRequest currencyHostname parse net raw opts =
     (if hostname opts \<notin> set (ALLOWED_EXTERNAL_HOSTNAMES currencyHostname)
      then Inl (js_error ''Hostname not allowed'')
      else case net opts of
        ExternalError e \<Rightarrow> Inl e
      | ExternalEnd text \<Rightarrow>
          if raw then Inr (JStr text)
          else (case parse text of None \<Rightarrow> Inl (js_error ''SyntaxError'') | Some v \<Rightarrow> Inr v))"

text \<open>The hosts of \<open>utils/network.js\<close>; an unset network counts as mainnet.\<close>

definition MAINNET :: string where "MAINNET = ''mainnet''"
definition STAGING :: string where "STAGING = ''staging''"
definition TESTNET :: string where "TESTNET = ''testnet''"
definition DEVELOPMENT :: string where "DEVELOPMENT = ''development''"

definition getNetworkExplorerUri :: "string \<Rightarrow> string" where
  "getNetworkExplorerUri n =
     (if n = MAINNET then MAINNET_EXPLORER_URL
      else if n = STAGING then STAGING_EXPLORER_URL
      else if n = TESTNET then TESTNET_EXPLORER_URL
      else MAINNET_EXPLORER_URL)"

definition getNetworkExplorerUrl :: "string \<Rightarrow> string" where
  "getNetworkExplorerUrl n =
     (if n = MAINNET \<or> n = TESTNET \<or> n = DEVELOPMENT then ''https://'' else ''http://'')
     @ getNetworkExplorerUri n"

definition getNetworkExplorerUrlByType :: "string \<Rightarrow> string \<Rightarrow> string \<Rightarrow> string \<Rightarrow> string" where
  "getNetworkExplorerUrlByType ty param n currentLocale =
     (let localised = (n = MAINNET \<or> n = TESTNET);
          localePrefix = (if localised then ''/'' @ take 2 currentLocale else []);
          queryStringPrefix = (if localised \<and> ty = ''tx'' then ''?id=''
                               else if localised \<and> ty = ''address'' then ''?address='' else []);
          typeValue = (if localised \<and> ty = ''tx'' then ''transaction''
                       else if localised \<and> ty = ''address'' then ''address.html'' else ty)
      in getNetworkExplorerUrl n @ localePrefix @ ''/'' @ typeValue @ queryStringPrefix @ param)"

definition getNewsURL :: "string \<Rightarrow> string" where
  "getNewsURL n =
     (if n = DEVELOPMENT then NEWS_URL else if n = TESTNET then NEWS_URL
      else if n = STAGING then NEWS_URL else NEWS_URL)"

definition getNewsHashURL :: "string \<Rightarrow> string" where
  "getNewsHashURL n =
     (if n = DEVELOPMENT then NEWS_HASH_URL else if n = TESTNET then NEWS_HASH_URL
      else if n = STAGING then NEWS_HASH_URL else NEWS_HASH_URL)"

definition getNews_options :: "bool \<Rightarrow> string \<Rightarrow> external_options" where
  "getNews_options isFlight n = \<lparr>hostname = getNewsURL n,
     external_path = ''/newsfeed/'' @ (if isFlight then ''newsfeed_mainnet_flight.json''
                                       else ''newsfeed_'' @ n @ ''.json''),
     external_method = ''GET''\<rparr>"

definition getNewsHash_options :: "bool \<Rightarrow> string \<Rightarrow> string \<Rightarrow> external_options" where
  "getNewsHash_options isFlight n timestamp = \<lparr>hostname = getNewsHashURL n,
     external_path = (if isFlight then ''/newsfeed-verification/mainnet_flight''
                      else ''/newsfeed-verification/'' @ n) @ ''/'' @ timestamp @ ''.txt'',
     external_method = ''GET''\<rparr>"

lemma news_hosts_allowed [simp]:
  "hostname (getNews_options f n) \<in> set (ALLOWED_EXTERNAL_HOSTNAMES h)"
  "hostname (getNewsHash_options f n t) \<in> set (ALLOWED_EXTERNAL_HOSTNAMES h)"
  by (simp_all add: getNews_options_def getNewsHash_options_def getNewsURL_def getNewsHashURL_def
      ALLOWED_EXTERNAL_HOSTNAMES_def)
end
