(* ===== verification/ApiData.thy ===== *)
theory ApiData imports ApiErrors ApiCalls begin

text \<open>
  What the API layer makes of the backend's answers: the transformations at the end of
  \<open>api/api.js\<close> and the domain objects they build (\<open>domains/Wallet.js\<close>,
  \<open>WalletTransaction.js\<close>, \<open>StakePool.js\<close>, \<open>Asset.js\<close>, \<open>WalletAddress.js\<close>). Server records hold
  the fields of the answer that the code reads; a field the backend may omit is an option, and
  reading a property of a missing object is a type error. Dates stay the texts they are parsed from.
\<close>

section \<open>Amounts\<close>

definition ENTROPICS_PER_BCC :: rat where "ENTROPICS_PER_BCC = 1000000"

datatype wallet_unit = UnitBcc | UnitEntropic

record amount =
  quantity :: rat
  amount_unit :: wallet_unit

definition to_bcc :: "amount \<Rightarrow> rat" where
  "to_bcc a = (if amount_unit a = UnitEntropic then quantity a / ENTROPICS_PER_BCC else quantity a)"

definition entropics :: "rat \<Rightarrow> rat" where
  "entropics q = q / ENTROPICS_PER_BCC"

definition type_error :: js_object where
  "type_error = js_error ''TypeError''"

section \<open>Wallets\<close>

record token =
  policy_id :: string
  asset_name :: string
  token_quantity :: rat

record wallet_token =
  uniqueId :: string
  policyId :: string
  assetName :: string
  assetQuantity :: rat

definition wallet_token_of :: "token \<Rightarrow> wallet_token" where
  "wallet_token_of t = \<lparr>uniqueId = policy_id t @ asset_name t, policyId = policy_id t,
     assetName = asset_name t, assetQuantity = token_quantity t\<rparr>"

record delegation_entry =
  delegation_status :: string
  delegation_target :: "string option"

record delegation =
  delegation_active :: "delegation_entry option"
  delegation_next :: "delegation_entry list option"

record sync_state =
  sync_status :: string
  sync_quantity :: "rat option"

record server_wallet =
  sw_id :: string
  address_pool_gap :: nat
  balance_total :: amount
  balance_available :: amount
  balance_reward :: "amount option"
  sw_name :: string
  sw_assets :: "(token list \<times> token list) option"
  passphrase_last_updated_at :: "string option"
  sw_delegation :: "delegation option"
  sw_state :: sync_state
  sw_isLegacy :: bool
  sw_discovery :: string
  sw_isHardwareWallet :: bool

record wallet =
  wallet_id :: string
  addressPoolGap :: nat
  wallet_name :: string
  wallet_amount :: rat
  availableAmount :: rat
  reward :: rat
  availableAssets :: "wallet_token list"
  totalAssets :: "wallet_token list"
  passwordUpdateDate :: "string option"
  hasPassword :: bool
  syncState :: sync_state
  isLegacy :: bool
  isHardwareWallet :: bool
  delegatedStakePoolId :: "string option"
  delegationStakePoolStatus :: "string option"
  lastDelegatedStakePoolId :: "string option"
  lastDelegationStakePoolStatus :: "string option"
  pendingDelegations :: "delegation_entry list option"
  discovery :: string

text \<open>
  \<open>_createWalletFromServerData\<close>. An empty list of pending delegations has no last element; a
  wallet without assets, or a Sophie wallet without a reward balance, is a type error.
\<close>

definition createWalletFromServerData :: "server_wallet \<Rightarrow> js_object + wallet" where
  "createWalletFromServerData w =
     (let legacy = sw_isLegacy w;
          active = Option.bind (sw_delegation w) delegation_active;
          next = Option.bind (sw_delegation w) delegation_next;
          lastPending = (case next of None \<Rightarrow> None | Some ds \<Rightarrow> if ds = [] then None else Some (last ds))
      in if \<not> legacy \<and> balance_reward w = None then Inl type_error
         else case sw_assets w of
           None \<Rightarrow> Inl type_error
         | Some (avail, tot) \<Rightarrow> Inr
             \<lparr>wallet_id = (if legacy then getLegacyWalletId (sw_id w) else sw_id w),
              addressPoolGap = address_pool_gap w,
              wallet_name = sw_name w,
              wallet_amount = to_bcc (balance_total w),
              availableAmount = to_bcc (balance_available w),
              reward = (if legacy then 0 else to_bcc (the (balance_reward w))),
              availableAssets = map wallet_token_of avail,
              totalAssets = map wallet_token_of tot,
              passwordUpdateDate = passphrase_last_updated_at w,
              hasPassword = (sw_isHardwareWallet w \<or> passphrase_last_updated_at w \<noteq> None),
              syncState = sw_state w,
              isLegacy = legacy,
              isHardwareWallet = sw_isHardwareWallet w,
              delegatedStakePoolId = (if legacy then None else Option.bind active delegation_target),
              delegationStakePoolStatus = (if legacy then None else map_option delegation_status active),
              lastDelegatedStakePoolId = (if legacy then None else Option.bind lastPending delegation_target),
              lastDelegationStakePoolStatus = (if legacy then None else map_option delegation_status lastPending),
              pendingDelegations = next,
              discovery = sw_discovery w\<rparr>)"

text \<open>The computed values of the wallet object.\<close>

definition NOT_DELEGATING :: string where "NOT_DELEGATING = ''not_delegating''"
definition DELEGATING :: string where "DELEGATING = ''delegating''"

definition restorationProgress :: "wallet \<Rightarrow> rat" where
  "restorationProgress w = (case sync_quantity (syncState w) of None \<Rightarrow> 0 | Some q \<Rightarrow> q)"

definition isRestoring :: "wallet \<Rightarrow> bool" where
  "isRestoring w \<longleftrightarrow> sync_status (syncState w) = ''syncing'' \<and> restorationProgress w < 100"

definition isSyncing :: "wallet \<Rightarrow> bool" where
  "isSyncing w \<longleftrightarrow> sync_status (syncState w) = ''syncing''"

definition isNotResponding :: "wallet \<Rightarrow> bool" where
  "isNotResponding w \<longleftrightarrow> sync_status (syncState w) = ''not_responding''"

definition isRandom :: "wallet \<Rightarrow> bool" where
  "isRandom w \<longleftrightarrow> discovery w = ''random''"

definition isSequential :: "wallet \<Rightarrow> bool" where
  "isSequential w \<longleftrightarrow> discovery w \<noteq> ''random''"

definition hasFunds :: "wallet \<Rightarrow> bool" where
  "hasFunds w \<longleftrightarrow> wallet_amount w > 0"

definition hasAssets :: "wallet \<Rightarrow> bool" where
  "hasAssets w \<longleftrightarrow> totalAssets w \<noteq> []"

definition isDelegating :: "wallet \<Rightarrow> bool" where
  "isDelegating w = (case lastDelegationStakePoolStatus w of
       Some s \<Rightarrow> if s = [] then delegationStakePoolStatus w = Some DELEGATING else s = DELEGATING
     | None \<Rightarrow> delegationStakePoolStatus w = Some DELEGATING)"

text \<open>The fields \<open>api.js\<close> adds to the answer for a legacy wallet.\<close>

definition extraLegacyWalletProps :: "server_wallet \<Rightarrow> server_wallet" where
  "extraLegacyWalletProps w = w\<lparr>address_pool_gap := 0,
     sw_delegation := Some \<lparr>delegation_active = Some \<lparr>delegation_status = NOT_DELEGATING, delegation_target = None\<rparr>,
                            delegation_next = None\<rparr>,
     sw_isLegacy := True\<rparr>"

section \<open>Addresses\<close>

record server_address =
  address_id :: string
  address_state :: string
  derivation_path :: "string list"

record wallet_address =
  wa_id :: string
  used :: bool
  spendingPath :: string

text \<open>\<open>derivationPathToString\<close>, \<open>derivationPathToAddressPath\<close>: the first \<open>H\<close> of a chunk becomes a prime.\<close>

definition derivationPathToString :: "string list \<Rightarrow> string" where
  "derivationPathToString derivationPath =
     foldl (\<lambda>constructed chunk. constructed @ ''/'' @ replace_first ''H'' [CHR 0x27] chunk) ''m'' derivationPath"

definition derivationPathToAddressPath :: "string list \<Rightarrow> string" where
  "derivationPathToAddressPath derivationPath = replace_first ''m/'' [] (derivationPathToString derivationPath)"

definition createAddressFromServerData :: "server_address \<Rightarrow> wallet_address" where
  "createAddressFromServerData a = \<lparr>wa_id = address_id a, used = (address_state a = ''used''),
     spendingPath = derivationPathToAddressPath (derivation_path a)\<rparr>"

section \<open>Transactions\<close>

datatype transaction_state = TxPending | TxOk | TxFailed
datatype transaction_type = TypeCard | TypeExpend | TypeIncome | TypeExchange

record block_info =
  info_time :: string
  info_slot :: "nat option"
  info_epoch :: "nat option"

record server_output =
  output_address :: string
  output_assets :: "token list option"

record server_withdrawal =
  stake_address :: string
  withdrawal_quantity :: rat

record server_transaction =
  tx_id :: string
  tx_amount :: rat
  tx_fee :: rat
  tx_deposit :: rat
  inserted_at :: "block_info option"
  pending_since :: "block_info option"
  tx_depth :: "nat option"
  direction :: string
  tx_inputs :: "string option list"
  tx_outputs :: "server_output list"
  tx_withdrawals :: "server_withdrawal list"
  tx_status :: string
  tx_metadata :: "jsval option"

record transaction_token =
  tt_policyId :: string
  tt_assetName :: string
  tt_quantity :: rat
  tt_address :: string

record wallet_transaction =
  transaction_id :: string
  confirmations :: nat
  slotNumber :: "nat option"
  epochNumber :: "nat option"
  title :: string
  transaction_type :: transaction_type
  transaction_amount :: rat
  transaction_fee :: rat
  deposit :: rat
  transaction_assets :: "transaction_token list"
  transaction_date :: "string option"
  from_addresses :: "string option list"
  to_addresses :: "string list"
  withdrawal_addresses :: "string list"
  transaction_state :: transaction_state
  transaction_metadata :: "jsval option"

definition conditionToTxState :: "string \<Rightarrow> transaction_state" where
  "conditionToTxState condition =
     (if condition = ''pending'' then TxPending else if condition = ''expired'' then TxFailed else TxOk)"

text \<open>\<open>address || null\<close>: an empty address is no address.\<close>

definition or_null :: "string option \<Rightarrow> string option" where
  "or_null a = (case a of Some s \<Rightarrow> if s = [] then None else Some s | None \<Rightarrow> None)"

definition createTransactionFromServerData :: "server_transaction \<Rightarrow> wallet_transaction" where
  "createTransactionFromServerData d =
     (let state = conditionToTxState (tx_status d);
          stateInfo = (if state = TxPending then pending_since d else inserted_at d);
          outgoing = (direction d = ''outgoing'');
          outputAssets = concat (map (\<lambda>out. case output_assets out of
                           Some assets \<Rightarrow> map (\<lambda>a. (a, output_address out)) assets
                         | None \<Rightarrow> []) (tx_outputs d))
      in \<lparr>transaction_id = tx_id d,
          confirmations = (case tx_depth d of None \<Rightarrow> 0 | Some n \<Rightarrow> n),
          slotNumber = Option.bind stateInfo info_slot,
          epochNumber = Option.bind stateInfo info_epoch,
          title = (if outgoing then ''Bcc sent'' else ''Bcc received''),
          transaction_type = (if outgoing then TypeExpend else TypeIncome),
          transaction_amount = entropics (if outgoing then - tx_amount d else tx_amount d),
          transaction_fee = entropics (tx_fee d),
          deposit = entropics (tx_deposit d),
          transaction_assets = map (\<lambda>(a, addr). \<lparr>tt_policyId = policy_id a, tt_assetName = asset_name a,
                                 tt_quantity = token_quantity a, tt_address = addr\<rparr>) outputAssets,
          transaction_date = map_option info_time stateInfo,
          from_addresses = map or_null (tx_inputs d),
          to_addresses = map output_address (tx_outputs d),
          withdrawal_addresses = map stake_address (tx_withdrawals d),
          transaction_state = state,
          transaction_metadata = tx_metadata d\<rparr>)"

section \<open>Assets\<close>

record server_asset =
  sa_policy_id :: string
  sa_asset_name :: string
  sa_fingerprint :: string
  sa_metadata :: "fields option"

record asset =
  asset_policyId :: string
  asset_assetName :: string
  asset_fingerprint :: string
  asset_metadata :: "fields option"
  asset_decimals :: "jsval option"
  recommendedDecimals :: "jsval option"
  asset_uniqueId :: string

type_synonym stored_metadata = "(string \<times> fields) list"

text \<open>
  \<open>_createAssetFromServerData\<close> also records the metadata it sees: when the metadata server is away, the
  stored metadata of the asset is used.
\<close>

definition createAssetFromServerData ::
  "server_asset \<Rightarrow> jsval option \<Rightarrow> stored_metadata \<Rightarrow> asset \<times> stored_metadata" where
  "createAssetFromServerData d decimals stored =
     (let unique = sa_policy_id d @ sa_asset_name d;
          metadata = (case sa_metadata d of Some m \<Rightarrow> Some m | None \<Rightarrow> map_of stored unique)
      in (\<lparr>asset_policyId = sa_policy_id d, asset_assetName = sa_asset_name d,
           asset_fingerprint = sa_fingerprint d, asset_metadata = metadata,
           asset_decimals = decimals,
           recommendedDecimals = Option.bind metadata (\<lambda>m. map_of m ''decimals''),
           asset_uniqueId = unique\<rparr>,
          (case sa_metadata d of Some m \<Rightarrow> AList.update unique m stored | None \<Rightarrow> stored)))"

section \<open>Fees and stake pools\<close>

record server_fee =
  estimated_max :: "rat option"
  minimum_coins :: "rat list"
  fee_deposit :: "rat option"

definition createTransactionFeeFromServerData :: "server_fee \<Rightarrow> rat \<times> rat" where
  "createTransactionFeeFromServerData d =
     (entropics (case estimated_max d of None \<Rightarrow> 0 | Some q \<Rightarrow> q),
      entropics (case minimum_coins d of [] \<Rightarrow> 0 | q # _ \<Rightarrow> q))"

definition createDelegationFeeFromServerData :: "server_fee \<Rightarrow> rat \<times> rat \<times> rat" where
  "createDelegationFeeFromServerData d =
     (entropics (case estimated_max d of None \<Rightarrow> 0 | Some q \<Rightarrow> q),
      entropics (case fee_deposit d of None \<Rightarrow> 0 | Some q \<Rightarrow> q), 0)"

text \<open>\<open>_createMigrationFeeFromServerData\<close>: the cost and the leftovers, each with its default.\<close>

definition createMigrationFeeFromServerData :: "rat option \<times> rat option \<Rightarrow> rat \<times> rat" where
  "createMigrationFeeFromServerData d =
     (entropics (case fst d of None \<Rightarrow> 0 | Some q \<Rightarrow> q), entropics (case snd d of None \<Rightarrow> 0 | Some q \<Rightarrow> q))"

record pool_metadata =
  pool_name :: string
  pool_description :: "string option"
  pool_ticker :: string
  pool_homepage :: string

record server_pool =
  sp_id :: string
  relative_stake :: "rat option"
  produced_blocks :: "nat option"
  non_myopic_member_rewards :: "rat option"
  sp_saturation :: rat
  sp_cost :: "rat option"
  sp_margin :: "rat option"
  sp_metadata :: "pool_metadata option"
  sp_pledge :: "rat option"
  retirement_time :: "string option"
  sp_flags :: "string list"

record stake_pool =
  stake_pool_id :: string
  relativeStake :: rat
  producedBlocks :: nat
  potentialRewards :: rat
  nonMyopicMemberRewards :: rat
  ticker :: string
  homepage :: string
  cost :: rat
  description :: string
  isCharity :: bool
  stake_pool_name :: string
  pledge :: rat
  profitMargin :: rat
  ranking :: nat
  retiring :: "string option"
  saturation :: rat

definition with_default :: "'a \<Rightarrow> 'a option \<Rightarrow> 'a" where
  "with_default d x = (case x of None \<Rightarrow> d | Some y \<Rightarrow> y)"

text \<open>Called with pools that have metadata only.\<close>

definition createStakePoolFromServerData :: "server_pool \<Rightarrow> pool_metadata \<Rightarrow> nat \<Rightarrow> stake_pool" where
  "createStakePoolFromServerData p m index =
     \<lparr>stake_pool_id = sp_id p,
      relativeStake = with_default 0 (relative_stake p),
      producedBlocks = with_default 0 (produced_blocks p),
      potentialRewards = entropics (with_default 0 (non_myopic_member_rewards p)),
      nonMyopicMemberRewards = with_default 0 (non_myopic_member_rewards p),
      ticker = pool_ticker m,
      homepage = pool_homepage m,
      cost = entropics (with_default 0 (sp_cost p)),
      description = with_default [] (pool_description m),
      isCharity = False,
      stake_pool_name = pool_name m,
      pledge = entropics (with_default 0 (sp_pledge p)),
      profitMargin = with_default 0 (sp_margin p),
      ranking = index + 1,
      retiring = or_null (retirement_time p),
      saturation = sp_saturation p * 100\<rparr>"
end
