(* ===== verification/BccApi.thy ===== *)
theory BccApi imports ApiData begin

text \<open>
  The methods of \<open>api/api.js\<close>. A method turns its parameters into requests, hands each to the
  backend, and makes a domain object of the answer; its \<open>catch\<close> turns whatever was rejected or thrown
  into the error the interface shows. The backend is a function from requests to outcomes, one for
  each type of answer a method waits for. \<open>camel\<close> and \<open>snake\<close> are lodash's case conversions.
\<close>

section \<open>Common shape\<close>

type_synonym 'a backend = "http_call \<Rightarrow> js_object + 'a"

fun andThen :: "'e + 'a \<Rightarrow> ('a \<Rightarrow> 'e + 'b) \<Rightarrow> 'e + 'b" where
  "andThen (Inl e) f = Inl e"
| "andThen (Inr x) f = f x"

fun mapResult :: "('a \<Rightarrow> 'b) \<Rightarrow> 'e + 'a \<Rightarrow> 'e + 'b" where
  "mapResult f (Inl e) = Inl e"
| "mapResult f (Inr x) = Inr (f x)"

text \<open>\<open>try { .. } catch (error) { throw handler(error) }\<close>.\<close>

fun catching :: "(js_object \<Rightarrow> thrown) \<Rightarrow> js_object + 'a \<Rightarrow> thrown + 'a" where
  "catching handler (Inl e) = Inl (handler e)"
| "catching handler (Inr x) = Inr x"

text \<open>\<open>Promise.all\<close> over computations that do not wait: the first rejection, or all the values.\<close>

fun all_of :: "('e + 'a) list \<Rightarrow> 'e + 'a list" where
  "all_of [] = Inr []"
| "all_of (Inl e # rs) = Inl e"
| "all_of (Inr x # rs) = mapResult (\<lambda>xs. x # xs) (all_of rs)"

type_synonym cases = "string \<Rightarrow> string"

definition wrapped :: "cases \<Rightarrow> js_object \<Rightarrow> thrown" where
  "wrapped camel err = ThrownApi (new_ApiError camel err)"

section \<open>The error chains\<close>

definition passphrase_alternatives :: "alternative list" where
  "passphrase_alternatives =
     [\<lparr>alt_error = ''wrongEncryptionPassphrase'', alt_force = False, alt_values = None,
       alt_conditions = [Where ''code'' ''bad_request'', Inc ''message'' ''passphrase is too short'']\<rparr>]"

definition transaction_alternatives :: "alternative list" where
  "transaction_alternatives = passphrase_alternatives @
     [\<lparr>alt_error = ''transactionIsTooBig'', alt_force = True,
       alt_values = Some [(''linkLabel'', JStr ''tooBigTransactionErrorLinkLabel''),
                          (''linkURL'', JStr ''tooBigTransactionErrorLinkURL'')],
       alt_conditions = [Where ''code'' ''transaction_is_too_big'']\<rparr>]"

definition restore_alternatives :: "alternative list" where
  "restore_alternatives =
     [\<lparr>alt_error = ''forbiddenMnemonic'', alt_force = False, alt_values = None,
       alt_conditions = [Where ''message'' ''JSONValidationFailed'',
         Inc ''diagnostic.validationError'' ''Forbidden Mnemonic: an example Mnemonic has been submitted'']\<rparr>,
      \<lparr>alt_error = ''forbiddenMnemonic'', alt_force = False, alt_values = None,
       alt_conditions = [Where ''code'' ''invalid_restoration_parameters'']\<rparr>]"

definition import_alternatives :: "alternative list" where
  "import_alternatives =
     [\<lparr>alt_error = ''walletAlreadyImported'', alt_force = True, alt_values = None,
       alt_conditions = [Where ''code'' ''wallet_already_exists'']\<rparr>]"

definition fee_alternatives :: "string \<Rightarrow> jsval \<Rightarrow> alternative list" where
  "fee_alternatives notEnoughMoneyError minimumBcc =
     [\<lparr>alt_error = notEnoughMoneyError, alt_force = True, alt_values = None,
       alt_conditions = [Where ''code'' ''not_enough_money'']\<rparr>,
      \<lparr>alt_error = ''utxoTooSmall'', alt_force = True, alt_values = Some [(''minimumBcc'', minimumBcc)],
       alt_conditions = [Where ''code'' ''utxo_too_small'']\<rparr>,
      \<lparr>alt_error = ''invalidAddress'', alt_force = False, alt_values = None,
       alt_conditions = [Where ''code'' ''bad_request'', Inc ''message'' ''Unable to decode Address'']\<rparr>]"

text \<open>
  The amount in \<open>/(Expected min coin value: +)([0-9]+.[0-9]+)/\<close>: digits, any one character but a line
  break, digits, the first run of digits as long as the rest allows.
\<close>

definition is_digit :: "char \<Rightarrow> bool" where
  "is_digit c \<longleftrightarrow> c \<in> set ''0123456789''"

fun amount_at :: "nat \<Rightarrow> string \<Rightarrow> string option" where
  "amount_at 0 s = None"
| "amount_at (Suc n) s =
     (let rest = drop (Suc n) s; ds = takeWhile is_digit (tl rest)
      in if rest \<noteq> [] \<and> hd rest \<notin> {CHR 0x0A, CHR 0x0D} \<and> ds \<noteq> []
         then Some (take (Suc n) s @ hd rest # ds) else amount_at n s)"

fun minimum_coin :: "string \<Rightarrow> string option" where
  "minimum_coin [] = None"
| "minimum_coin (c # cs) =
     (let label = ''Expected min coin value: ''; s = c # cs
      in case (if prefix label s
               then (let rest = dropWhile (\<lambda>x. x = CHR '' '') (drop (length label) s)
                     in amount_at (length (takeWhile is_digit rest)) rest)
               else None) of
           Some a \<Rightarrow> Some a
         | None \<Rightarrow> minimum_coin cs)"

definition minimum_coin_of :: "js_object \<Rightarrow> jsval" where
  "minimum_coin_of err = (case js_get err ''message'' of
       Some (JStr m) \<Rightarrow> (case minimum_coin m of Some a \<Rightarrow> JStr a | None \<Rightarrow> JNum 0)
     | _ \<Rightarrow> JNum 0)"

text \<open>Why there is not enough money: pending transactions, a wallet of rewards only, or the amount itself.\<close>

definition notEnoughMoneyError :: "rat \<Rightarrow> rat \<Rightarrow> rat \<Rightarrow> string" where
  "notEnoughMoneyError walletBalance availableBalance rewardsBalance =
     (if walletBalance > availableBalance then ''canNotCalculateTransactionFees''
      else if walletBalance \<noteq> 0 \<and> walletBalance = rewardsBalance then ''inputsDepleted''
      else ''notEnoughFundsForTransaction'')"

definition fee_error :: "cases \<Rightarrow> cases \<Rightarrow> rat \<Rightarrow> rat \<Rightarrow> rat \<Rightarrow> js_object \<Rightarrow> thrown" where
  "fee_error camel snake walletBalance availableBalance rewardsBalance err =
     resolve camel snake
       (fee_alternatives (notEnoughMoneyError walletBalance availableBalance rewardsBalance) (minimum_coin_of err)) None err"

section \<open>Wallets\<close>

definition wallet_of_legacy :: "server_wallet \<Rightarrow> js_object + wallet" where
  "wallet_of_legacy w = createWalletFromServerData (extraLegacyWalletProps w)"

text \<open>\<open>isHardware\<close>: whether the stored data of a wallet id has a device; reading it may fail.\<close>

definition getWallets :: "cases \<Rightarrow> server_wallet list backend \<Rightarrow> js_object + (string \<Rightarrow> bool) \<Rightarrow> thrown + wallet list" where
  "getWallets camel backend hwLocalData = catching (wrapped camel)
     (andThen (backend getWallets_request) (\<lambda>wallets.
      andThen (backend getLegacyWallets_request) (\<lambda>legacyWallets.
      andThen hwLocalData (\<lambda>isHardware.
        all_of (map (\<lambda>w. createWalletFromServerData (w\<lparr>sw_isHardwareWallet := isHardware (sw_id w)\<rparr>))
                    (wallets @ map extraLegacyWalletProps legacyWallets))))))"

definition getWallet :: "cases \<Rightarrow> server_wallet backend \<Rightarrow> string \<Rightarrow> bool \<Rightarrow> thrown + wallet" where
  "getWallet camel backend walletId legacy = catching (wrapped camel)
     (if legacy then andThen (backend (getLegacyWallet_request walletId)) wallet_of_legacy
      else andThen (backend (getWallet_request walletId)) createWalletFromServerData)"

definition getWalletPublicKey :: "cases \<Rightarrow> string backend \<Rightarrow> string \<Rightarrow> string \<Rightarrow> string \<Rightarrow> thrown + string" where
  "getWalletPublicKey camel backend walletId role index =
     catching (wrapped camel) (backend (getWalletPublicKey_request walletId role index))"

definition passphrase_error :: "cases \<Rightarrow> cases \<Rightarrow> js_object \<Rightarrow> thrown" where
  "passphrase_error camel snake = resolve camel snake passphrase_alternatives None"

definition transaction_error :: "cases \<Rightarrow> cases \<Rightarrow> js_object \<Rightarrow> thrown" where
  "transaction_error camel snake = resolve camel snake transaction_alternatives None"

definition restore_error :: "cases \<Rightarrow> cases \<Rightarrow> js_object \<Rightarrow> thrown" where
  "restore_error camel snake = resolve camel snake restore_alternatives None"

definition import_error :: "cases \<Rightarrow> cases \<Rightarrow> js_object \<Rightarrow> thrown" where
  "import_error camel snake = resolve camel snake import_alternatives (Some ''walletFileImportError'')"

definition getAccountPublicKey ::
  "cases \<Rightarrow> cases \<Rightarrow> string backend \<Rightarrow> string \<Rightarrow> string \<Rightarrow> string \<Rightarrow> bool \<Rightarrow> thrown + string" where
  "getAccountPublicKey camel snake backend walletId index passphrase extended =
     catching (passphrase_error camel snake) (backend (getAccountPublicKey_request walletId index passphrase extended))"

definition mnemonic_of :: "string \<Rightarrow> jsval" where
  "mnemonic_of mnemonic = JArr (map JStr (split_on (CHR '' '') mnemonic))"

definition wallet_init :: "string \<Rightarrow> jsval \<Rightarrow> string \<Rightarrow> fields" where
  "wallet_init name mnemonic passphrase =
     [(''name'', JStr name), (''mnemonic_sentence'', mnemonic), (''passphrase'', JStr passphrase)]"

definition createWallet :: "cases \<Rightarrow> server_wallet backend \<Rightarrow> string \<Rightarrow> string \<Rightarrow> string \<Rightarrow> thrown + wallet" where
  "createWallet camel backend name mnemonic spendingPassword = catching (wrapped camel)
     (andThen (backend (createWallet_request (JObj (wallet_init name (mnemonic_of mnemonic) spendingPassword))))
        createWalletFromServerData)"

text \<open>
  The address request comes after the wallet exists. \<open>createLegacyWallet\<close> gives the wallet empty
  assets; its error is wrapped without a chain.
\<close>

definition createLegacyWallet ::
  "cases \<Rightarrow> server_wallet backend \<Rightarrow> server_address backend \<Rightarrow> string \<Rightarrow> string \<Rightarrow> string \<Rightarrow> thrown + wallet" where
  "createLegacyWallet camel backend addresses name mnemonic spendingPassword = catching (wrapped camel)
     (andThen (backend (restoreColeWallet_request (wallet_init name (mnemonic_of mnemonic) spendingPassword) ''random''))
        (\<lambda>w. andThen (addresses (createColeWalletAddress_request (sw_id w) spendingPassword None))
          (\<lambda>_. wallet_of_legacy (w\<lparr>sw_assets := Some ([], [])\<rparr>))))"

definition deleteWallet :: "cases \<Rightarrow> unit backend \<Rightarrow> string \<Rightarrow> bool \<Rightarrow> thrown + bool" where
  "deleteWallet camel backend walletId legacy = catching (wrapped camel)
     (mapResult (\<lambda>_. True)
       (backend (if legacy then deleteLegacyWallet_request walletId else deleteWallet_request walletId)))"

definition restoreWallet :: "cases \<Rightarrow> cases \<Rightarrow> server_wallet backend \<Rightarrow> jsval \<Rightarrow> string \<Rightarrow> string \<Rightarrow> thrown + wallet" where
  "restoreWallet camel snake backend recoveryPhrase walletName spendingPassword = catching (restore_error camel snake)
     (andThen (backend (restoreWallet_request (JObj (wallet_init walletName recoveryPhrase spendingPassword))))
        createWalletFromServerData)"

definition restoreLegacyWallet :: "cases \<Rightarrow> cases \<Rightarrow> server_wallet backend \<Rightarrow> jsval \<Rightarrow> string \<Rightarrow> string \<Rightarrow> thrown + wallet" where
  "restoreLegacyWallet camel snake backend recoveryPhrase walletName spendingPassword = catching (restore_error camel snake)
     (andThen (backend (restoreLegacyWallet_request
         ((''style'', JStr ''random'') # wallet_init walletName recoveryPhrase spendingPassword) []))
        wallet_of_legacy)"

text \<open>The four kinds of Cole wallet; a random one also needs its first address.\<close>

datatype cole_kind = ColeIcarus | ColeLedger | ColeRandom | ColeTrezor

fun cole_style :: "cole_kind \<Rightarrow> string" where
  "cole_style ColeIcarus = ''icarus''"
| "cole_style ColeLedger = ''ledger''"
| "cole_style ColeRandom = ''random''"
| "cole_style ColeTrezor = ''trezor''"

definition restoreColeRandomWallet ::
  "cases \<Rightarrow> cases \<Rightarrow> server_wallet backend \<Rightarrow> server_address backend \<Rightarrow> jsval \<Rightarrow> string \<Rightarrow> string \<Rightarrow> thrown + wallet" where
  "restoreColeRandomWallet camel snake backend addresses recoveryPhrase walletName spendingPassword =
     catching (restore_error camel snake)
     (andThen (backend (restoreColeWallet_request (wallet_init walletName recoveryPhrase spendingPassword)
         (cole_style ColeRandom)))
        (\<lambda>w. andThen (addresses (createColeWalletAddress_request (sw_id w) spendingPassword None))
          (\<lambda>_. wallet_of_legacy w)))"

definition restoreColeWallet_of ::
  "cole_kind \<Rightarrow> cases \<Rightarrow> cases \<Rightarrow> server_wallet backend \<Rightarrow> jsval \<Rightarrow> string \<Rightarrow> string \<Rightarrow> thrown + wallet" where
  "restoreColeWallet_of kind camel snake backend recoveryPhrase walletName spendingPassword =
     catching (restore_error camel snake)
     (andThen (backend (restoreColeWallet_request (wallet_init walletName recoveryPhrase spendingPassword)
         (cole_style kind))) wallet_of_legacy)"

definition restoreColeIcarusWallet where
  "restoreColeIcarusWallet = restoreColeWallet_of ColeIcarus"

definition restoreColeTrezorWallet where
  "restoreColeTrezorWallet = restoreColeWallet_of ColeTrezor"

definition restoreColeLedgerWallet where
  "restoreColeLedgerWallet = restoreColeWallet_of ColeLedger"

definition restoreExportedColeWallet :: "cases \<Rightarrow> server_wallet backend \<Rightarrow> fields \<Rightarrow> thrown + wallet" where
  "restoreExportedColeWallet camel backend exported = catching (wrapped camel)
     (andThen (backend (restoreExportedColeWallet_request exported)) wallet_of_legacy)"

definition createHardwareWallet :: "cases \<Rightarrow> server_wallet backend \<Rightarrow> string \<Rightarrow> string \<Rightarrow> thrown + wallet" where
  "createHardwareWallet camel backend walletName accountPublicKey = catching (wrapped camel)
     (andThen (backend (createHardwareWallet_request
         (JObj [(''name'', JStr walletName), (''account_public_key'', JStr accountPublicKey)])))
        (\<lambda>w. createWalletFromServerData (w\<lparr>sw_isHardwareWallet := True\<rparr>)))"

definition or_empty :: "string option \<Rightarrow> string" where
  "or_empty s = (case s of None \<Rightarrow> [] | Some x \<Rightarrow> x)"

definition importWalletFromKey :: "cases \<Rightarrow> cases \<Rightarrow> server_wallet backend \<Rightarrow> string \<Rightarrow> string option \<Rightarrow> thrown + wallet" where
  "importWalletFromKey camel snake backend filePath spendingPassword = catching (import_error camel snake)
     (andThen (backend (importWalletAsKey_request filePath (Some (or_empty spendingPassword)))) createWalletFromServerData)"

definition to_lower :: "string \<Rightarrow> string" where
  "to_lower s = map (\<lambda>c. if is_upper c then char_of (of_char c + 32 :: nat) else c) s"

definition importWalletFromFile :: "cases \<Rightarrow> cases \<Rightarrow> server_wallet backend \<Rightarrow> string \<Rightarrow> string option \<Rightarrow> thrown + wallet" where
  "importWalletFromFile camel snake backend filePath spendingPassword =
     (let isKeyFile = (to_lower (last (split_on (CHR ''.'') filePath)) = ''key'')
      in catching (import_error camel snake)
        (andThen (backend (if isKeyFile then importWalletAsKey_request filePath spendingPassword
                           else importWalletAsJSON_request filePath)) createWalletFromServerData))"

definition updateWallet :: "cases \<Rightarrow> server_wallet backend \<Rightarrow> string \<Rightarrow> string \<Rightarrow> bool \<Rightarrow> thrown + wallet" where
  "updateWallet camel backend walletId name legacy = catching (wrapped camel)
     (if legacy then andThen (backend (updateColeWallet_request walletId name)) wallet_of_legacy
      else andThen (backend (updateWallet_request walletId name)) createWalletFromServerData)"

text \<open>A Cole wallet whose password is set for the first time also gets an address.\<close>

definition updateSpendingPassword ::
  "cases \<Rightarrow> cases \<Rightarrow> unit backend \<Rightarrow> server_address backend \<Rightarrow> string \<Rightarrow> string option \<Rightarrow> string \<Rightarrow> bool \<Rightarrow> thrown + bool" where
  "updateSpendingPassword camel snake backend addresses walletId oldPassword newPassword legacy =
     catching (passphrase_error camel snake)
     (if legacy then
        andThen (backend (updateColeSpendingPassword_request walletId oldPassword newPassword)) (\<lambda>_.
          if oldPassword = None \<or> oldPassword = Some []
          then mapResult (\<lambda>_. True) (addresses (createColeWalletAddress_request walletId newPassword None))
          else Inr True)
      else mapResult (\<lambda>_. True) (backend (updateSpendingPassword_request walletId oldPassword newPassword)))"

definition exportWalletToFile :: "cases \<Rightarrow> 'a backend \<Rightarrow> string \<Rightarrow> string \<Rightarrow> thrown + 'a" where
  "exportWalletToFile camel backend walletId filePath =
     catching (wrapped camel) (backend (exportWalletAsJSON_request walletId filePath))"

definition getWalletUtxos :: "cases \<Rightarrow> 'a backend \<Rightarrow> string \<Rightarrow> bool \<Rightarrow> thrown + 'a" where
  "getWalletUtxos camel backend walletId legacy = catching (wrapped camel)
     (backend (if legacy then getColeWalletUtxos_request walletId else getWalletUtxos_request walletId))"

definition transferFundsCalculateFee :: "cases \<Rightarrow> (rat option \<times> rat option) backend \<Rightarrow> string \<Rightarrow> thrown + (rat \<times> rat)" where
  "transferFundsCalculateFee camel backend sourceWalletId = catching (wrapped camel)
     (mapResult createMigrationFeeFromServerData (backend (transferFundsCalculateFee_request sourceWalletId)))"

definition transferFunds :: "cases \<Rightarrow> cases \<Rightarrow> 'a backend \<Rightarrow> string \<Rightarrow> string list option \<Rightarrow> string \<Rightarrow> thrown + 'a" where
  "transferFunds camel snake backend sourceWalletId targetWalletAddresses passphrase =
     (case targetWalletAddresses of
        None \<Rightarrow> Inl (result snake None (new_ApiError camel
                  (plain [(''code'', JStr ''no_such_wallet''), (''message'', JStr ''Target wallet does not exist'')])))
      | Some addresses \<Rightarrow> catching (passphrase_error camel snake)
          (backend (transferFunds_request sourceWalletId addresses passphrase)))"

text \<open>\<open>testReset\<close> deletes all wallets; the first failure is wrapped a second time.\<close>

definition testReset :: "cases \<Rightarrow> thrown + wallet list \<Rightarrow> unit backend \<Rightarrow> thrown + unit" where
  "testReset camel wallets backend =
     (let outcome = (case wallets of
            Inl e \<Rightarrow> Inl e
          | Inr ws \<Rightarrow> all_of (map (\<lambda>w. deleteWallet camel backend (wallet_id w) (isLegacy w)) ws))
      in case outcome of
           Inl e \<Rightarrow> Inl (wrapped camel (as_object e))
         | Inr _ \<Rightarrow> Inr ())"

section \<open>Addresses and transactions\<close>

definition getAddresses :: "cases \<Rightarrow> server_address list backend \<Rightarrow> string \<Rightarrow> fields \<Rightarrow> bool \<Rightarrow> thrown + wallet_address list" where
  "getAddresses camel backend walletId queryParams legacy = catching (wrapped camel)
     (mapResult (map createAddressFromServerData)
       (if legacy then backend (getColeWalletAddresses_request walletId queryParams)
        else mapResult rev (backend (getAddresses_request walletId queryParams))))"

definition createAddress :: "cases \<Rightarrow> cases \<Rightarrow> server_address backend \<Rightarrow> string \<Rightarrow> string option \<Rightarrow> nat option \<Rightarrow> thrown + wallet_address" where
  "createAddress camel snake backend walletId passwordString addressIndex = catching (passphrase_error camel snake)
     (mapResult createAddressFromServerData
       (backend (createColeWalletAddress_request walletId (or_empty passwordString) addressIndex)))"

definition inspectAddress :: "cases \<Rightarrow> 'a backend \<Rightarrow> string \<Rightarrow> thrown + 'a" where
  "inspectAddress camel backend addressId = catching (wrapped camel) (backend (inspectAddress_request addressId))"

definition constructAddress :: "cases \<Rightarrow> 'a backend \<Rightarrow> jsval \<Rightarrow> thrown + 'a" where
  "constructAddress camel backend data = catching (wrapped camel) (backend (constructAddress_request data))"

definition getPublicKey :: "cases \<Rightarrow> 'a backend \<Rightarrow> string \<Rightarrow> string \<Rightarrow> string \<Rightarrow> thrown + 'a" where
  "getPublicKey camel backend walletId role index =
     catching (wrapped camel) (backend (getPublicKey_request walletId role index))"

definition getICOPublicKey :: "cases \<Rightarrow> cases \<Rightarrow> string backend \<Rightarrow> string \<Rightarrow> string \<Rightarrow> fields \<Rightarrow> thrown + string" where
  "getICOPublicKey camel snake backend walletId index data =
     catching (passphrase_error camel snake) (backend (getICOPublicKey_request walletId index data))"

definition getTransaction :: "cases \<Rightarrow> server_transaction backend \<Rightarrow> string \<Rightarrow> string \<Rightarrow> thrown + wallet_transaction" where
  "getTransaction camel backend walletId transactionId = catching (wrapped camel)
     (mapResult createTransactionFromServerData (backend (getTransaction_request walletId transactionId)))"

text \<open>\<open>utc\<close> is moment's \<open>utc(date).format('YYYY-MM-DDTHH:mm:ss')\<close>.\<close>

definition history_params :: "(string \<Rightarrow> string) \<Rightarrow> string option \<Rightarrow> string option \<Rightarrow> string option \<Rightarrow> fields" where
  "history_params utc order fromDate toDate =
     (let date = (\<lambda>k d. case or_null d of None \<Rightarrow> [] | Some s \<Rightarrow> [(k, JStr (utc s @ ''Z''))])
      in [(''order'', JStr (case or_null order of None \<Rightarrow> ''descending'' | Some x \<Rightarrow> x))]
         @ date ''start'' fromDate @ date ''end'' toDate)"

definition getTransactions ::
  "cases \<Rightarrow> (string \<Rightarrow> string) \<Rightarrow> server_transaction list backend \<Rightarrow> string \<Rightarrow> string option \<Rightarrow> string option \<Rightarrow> string option \<Rightarrow> bool
    \<Rightarrow> thrown + (wallet_transaction list \<times> nat)" where
  "getTransactions camel utc backend walletId order fromDate toDate legacy =
     (let params = history_params utc order fromDate toDate
      in catching (wrapped camel)
        (mapResult (\<lambda>response. (map createTransactionFromServerData response, length response))
          (backend (if legacy then getLegacyWalletTransactionHistory_request walletId params
                    else getTransactionHistory_request walletId params))))"

definition getWithdrawals :: "cases \<Rightarrow> server_transaction list backend \<Rightarrow> string \<Rightarrow> thrown + rat" where
  "getWithdrawals camel backend walletId = catching (wrapped camel)
     (mapResult (\<lambda>response.
        let outgoing = filter (\<lambda>tx. direction tx = ''outgoing'' \<and> tx_status tx = ''in_ledger'') response
        in foldl (\<lambda>sum tx. foldl (\<lambda>sum w. sum + entropics (withdrawal_quantity w)) sum (tx_withdrawals tx)) 0 outgoing)
       (backend (getWithdrawalHistory_request walletId)))"

datatype withdrawal = WithdrawalSelf | WithdrawalPhrase "string list"

fun withdrawal_value :: "withdrawal \<Rightarrow> jsval" where
  "withdrawal_value WithdrawalSelf = JStr ''self''"
| "withdrawal_value (WithdrawalPhrase ws) = JArr (map JStr ws)"

definition amount_value :: "rat \<Rightarrow> jsval" where
  "amount_value q = JObj [(''quantity'', JNum q), (''unit'', JStr ''entropic'')]"

definition payment :: "string \<Rightarrow> rat \<Rightarrow> jsval option \<Rightarrow> jsval" where
  "payment address q assets = JArr [JObj ([(''address'', JStr address), (''amount'', amount_value q)] @ field ''assets'' assets)]"

record transaction_request =
  tr_walletId :: string
  tr_address :: string
  tr_amount :: rat
  tr_passphrase :: string
  tr_isLegacy :: bool
  tr_assets :: "jsval option"
  tr_withdrawal :: "withdrawal option"

definition the_withdrawal :: "withdrawal option \<Rightarrow> withdrawal" where
  "the_withdrawal w = (case w of None \<Rightarrow> WithdrawalSelf | Some x \<Rightarrow> x)"

definition createTransaction :: "cases \<Rightarrow> cases \<Rightarrow> server_transaction backend \<Rightarrow> transaction_request \<Rightarrow> thrown + wallet_transaction" where
  "createTransaction camel snake backend r =
     (let data = [(''payments'', payment (tr_address r) (tr_amount r) (tr_assets r)), (''passphrase'', JStr (tr_passphrase r))]
      in catching (transaction_error camel snake) (mapResult createTransactionFromServerData
        (backend (if tr_isLegacy r then createColeWalletTransaction_request (tr_walletId r) (JObj data)
                  else createTransaction_request (tr_walletId r)
                    (JObj (spread data [(''withdrawal'', withdrawal_value (the_withdrawal (tr_withdrawal r)))]))))))"

text \<open>Outside development \<open>createExpiredTransaction\<close> does nothing.\<close>

definition createExpiredTransaction ::
  "bool \<Rightarrow> cases \<Rightarrow> cases \<Rightarrow> server_transaction backend \<Rightarrow> rat \<Rightarrow> transaction_request \<Rightarrow> thrown + wallet_transaction option" where
  "createExpiredTransaction isDev camel snake backend ttl r =
     (if \<not> isDev then Inr None
      else let data = [(''payments'', payment (tr_address r) (tr_amount r) None), (''passphrase'', JStr (tr_passphrase r)),
                       (''time_to_live'', JObj [(''quantity'', JNum ttl), (''unit'', JStr ''second'')])]
      in catching (transaction_error camel snake) (mapResult (Some \<circ> createTransactionFromServerData)
        (backend (if tr_isLegacy r then createColeWalletTransaction_request (tr_walletId r) (JObj data)
                  else createTransaction_request (tr_walletId r)
                    (JObj (spread data [(''withdrawal'', withdrawal_value (the_withdrawal (tr_withdrawal r)))]))))))"

text \<open>The only reason to fail to cancel a transaction is that it is no longer pending: the error is dropped.\<close>

definition deleteTransaction :: "unit backend \<Rightarrow> string \<Rightarrow> string \<Rightarrow> bool \<Rightarrow> unit" where
  "deleteTransaction backend walletId transactionId legacy =
     (case backend (if legacy then deleteLegacyTransaction_request walletId transactionId
                    else deleteTransaction_request walletId transactionId) of
        Inl e \<Rightarrow> () | Inr x \<Rightarrow> ())"

definition createExternalTransaction :: "cases \<Rightarrow> 'a backend \<Rightarrow> string \<Rightarrow> thrown + 'a" where
  "createExternalTransaction camel backend signedTransactionBlob =
     catching (wrapped camel) (backend (createExternalTransaction_request signedTransactionBlob))"

section \<open>Transaction fees\<close>

record fee_request =
  fr_walletId :: string
  fr_address :: string
  fr_amount :: rat
  fr_assets :: "jsval option"
  fr_walletBalance :: rat
  fr_availableBalance :: rat
  fr_rewardsBalance :: rat
  fr_isLegacy :: bool
  fr_withdrawal :: "withdrawal option"

definition fee_call :: "fee_request \<Rightarrow> http_call" where
  "fee_call r =
     (let data = [(''payments'', payment (fr_address r) (fr_amount r) (fr_assets r))]
      in if fr_isLegacy r then getColeWalletTransactionFee_request (fr_walletId r) (JObj data)
         else getTransactionFee_request (fr_walletId r)
           (JObj (spread data [(''withdrawal'', withdrawal_value (the_withdrawal (fr_withdrawal r)))])))"

definition isRewardsRedemptionRequest :: "fee_request \<Rightarrow> bool" where
  "isRewardsRedemptionRequest r = (case the_withdrawal (fr_withdrawal r) of WithdrawalSelf \<Rightarrow> False | WithdrawalPhrase ws \<Rightarrow> True)"

definition cannotCoverFee :: "cases \<Rightarrow> cases \<Rightarrow> js_object" where
  "cannotCoverFee camel snake = as_object (result snake (Some ''cannotCoverFee'') (new_ApiError camel (plain [])))"

definition calculateTransactionFee :: "cases \<Rightarrow> cases \<Rightarrow> server_fee backend \<Rightarrow> fee_request \<Rightarrow> thrown + (rat \<times> rat)" where
  "calculateTransactionFee camel snake backend r =
     catching (fee_error camel snake (fr_walletBalance r) (fr_availableBalance r) (fr_rewardsBalance r))
     (andThen (backend (fee_call r)) (\<lambda>response.
        let (fee, minimumBcc) = createTransactionFeeFromServerData response;
            amountWithFee = entropics (fr_amount r) + fee
        in if \<not> isRewardsRedemptionRequest r \<and> amountWithFee > fr_walletBalance r
           then Inl (cannotCoverFee camel snake)
           else Inr (fee, minimumBcc)))"

section \<open>Coin selection\<close>

record selection_asset =
  se_policyId :: string
  se_assetName :: string
  se_quantity :: rat

record server_input =
  si_address :: string
  si_amount :: rat
  si_id :: string
  si_index :: nat
  si_derivation_path :: "string list"
  si_assets :: "token list"

record server_selection_output =
  so_address :: string
  so_amount :: rat
  so_derivation_path :: "string list option"
  so_assets :: "token list"

record server_certificate =
  certificate_type :: string
  reward_account_path :: "string list"
  certificate_pool :: "string option"

record server_coin_withdrawal =
  cw_stake_address :: string
  cw_derivation_path :: "string list"
  cw_amount :: rat

record server_selection =
  sel_inputs :: "server_input list"
  sel_outputs :: "server_selection_output list"
  sel_change :: "server_selection_output list"
  sel_certificates :: "server_certificate list option"
  sel_withdrawals :: "server_coin_withdrawal list option"
  sel_deposits :: "rat list option"
  sel_metadata :: "jsval option"

record coin_input =
  in_address :: string
  in_amount :: rat
  in_id :: string
  in_index :: nat
  in_derivationPath :: "string list"
  in_assets :: "selection_asset list"

record coin_output =
  out_address :: string
  out_amount :: rat
  out_derivationPath :: "string list option"
  out_assets :: "selection_asset list"

record coin_selection =
  cs_inputs :: "coin_input list"
  cs_outputs :: "coin_output list"
  cs_certificates :: "server_certificate list"
  cs_withdrawals :: "server_coin_withdrawal list"
  cs_fee :: rat
  cs_deposits :: rat
  cs_depositsReclaimed :: rat
  cs_metadata :: "jsval option"

definition selection_asset_of :: "token \<Rightarrow> selection_asset" where
  "selection_asset_of t = \<lparr>se_policyId = policy_id t, se_assetName = asset_name t, se_quantity = token_quantity t\<rparr>"

definition coin_input_of :: "server_input \<Rightarrow> coin_input" where
  "coin_input_of i = \<lparr>in_address = si_address i, in_amount = si_amount i, in_id = si_id i, in_index = si_index i,
     in_derivationPath = si_derivation_path i, in_assets = map selection_asset_of (si_assets i)\<rparr>"

definition coin_output_of :: "server_selection_output \<Rightarrow> coin_output" where
  "coin_output_of p = \<lparr>out_address = so_address p, out_amount = so_amount p, out_derivationPath = so_derivation_path p,
     out_assets = map selection_asset_of (so_assets p)\<rparr>"

definition DELEGATION_DEPOSIT :: rat where "DELEGATION_DEPOSIT = 2"

datatype delegation_action = DelegationJoin | DelegationQuit

fun delegation_action_text :: "delegation_action \<Rightarrow> string" where
  "delegation_action_text DelegationJoin = ''join''"
| "delegation_action_text DelegationQuit = ''quit''"

record selection_request =
  sr_walletId :: string
  sr_walletBalance :: rat
  sr_availableBalance :: rat
  sr_rewardsBalance :: rat
  sr_payments :: "(string \<times> rat \<times> jsval option) option"
  sr_delegation :: "(delegation_action \<times> string) option"
  sr_metadata :: "jsval option"

text \<open>A delegation takes precedence over payments; with neither the call fails before the request.\<close>

definition selection_data :: "selection_request \<Rightarrow> jsval option" where
  "selection_data r = (case sr_delegation r of
       Some (action, pool) \<Rightarrow> Some (JObj [(''delegation_action'',
         JObj [(''action'', JStr (delegation_action_text action)), (''pool'', JStr pool)])])
     | None \<Rightarrow> (case sr_payments r of
         Some (address, q, assets) \<Rightarrow> Some (JObj [(''payments'', payment address q assets),
           (''withdrawal'', JStr ''self''), (''metadata'', case sr_metadata r of None \<Rightarrow> JNull | Some m \<Rightarrow> m)])
       | None \<Rightarrow> None))"

definition extend_selection :: "bool \<Rightarrow> server_selection \<Rightarrow> coin_selection" where
  "extend_selection isQuit s =
     (let outputs = sel_outputs s @ sel_change s;
          totalInputs = foldl (+) 0 (map si_amount (sel_inputs s));
          totalOutputs0 = foldl (+) 0 (map so_amount outputs);
          deposits = sum_list (with_default [] (sel_deposits s));
          depositsReclaimed = (if isQuit then DELEGATION_DEPOSIT * ENTROPICS_PER_BCC else 0);
          withdrawals = sum_list (map cw_amount (with_default [] (sel_withdrawals s)));
          totalOutputs = totalOutputs0 - withdrawals;
          fee = (if isQuit then totalInputs - totalOutputs + depositsReclaimed
                 else totalInputs - totalOutputs - deposits)
      in \<lparr>cs_inputs = map coin_input_of (sel_inputs s),
          cs_outputs = map coin_output_of outputs,
          cs_certificates = with_default [] (sel_certificates s),
          cs_withdrawals = (if withdrawals > 0 then with_default [] (sel_withdrawals s) else []),
          cs_fee = entropics fee, cs_deposits = entropics deposits,
          cs_depositsReclaimed = entropics depositsReclaimed, cs_metadata = sel_metadata s\<rparr>)"

definition selectCoins :: "cases \<Rightarrow> cases \<Rightarrow> server_selection backend \<Rightarrow> selection_request \<Rightarrow> thrown + coin_selection" where
  "selectCoins camel snake backend r =
     catching (fee_error camel snake (sr_walletBalance r) (sr_availableBalance r) (sr_rewardsBalance r))
     (case selection_data r of
        None \<Rightarrow> Inl (js_error ''Missing parameters!'')
      | Some data \<Rightarrow> mapResult
          (extend_selection (map_option fst (sr_delegation r) = Some DelegationQuit))
          (backend (selectCoins_request (sr_walletId r) data)))"

section \<open>Staking\<close>

definition eligible_pool :: "server_pool \<Rightarrow> bool" where
  "eligible_pool p \<longleftrightarrow> sp_metadata p \<noteq> None \<and> ''delisted'' \<notin> set (sp_flags p)
     \<and> (case sp_margin p of None \<Rightarrow> False | Some q \<Rightarrow> q < 100)"

definition stake_pools_of :: "server_pool list \<Rightarrow> stake_pool list" where
  "stake_pools_of response =
     (let pools = filter (\<lambda>p. case sp_margin p of None \<Rightarrow> False | Some q \<Rightarrow> q < 100)
                    (filter (\<lambda>p. ''delisted'' \<notin> set (sp_flags p))
                      (filter (\<lambda>p. sp_metadata p \<noteq> None) response))
      in map (\<lambda>(index, p). createStakePoolFromServerData p (the (sp_metadata p)) index) (enumerate 0 pools))"

definition getStakePools :: "cases \<Rightarrow> server_pool list backend \<Rightarrow> rat \<Rightarrow> thrown + stake_pool list" where
  "getStakePools camel backend stake =
     catching (wrapped camel) (mapResult stake_pools_of (backend (getStakePools_request stake)))"

definition calculateDelegationFee :: "cases \<Rightarrow> server_fee backend \<Rightarrow> string \<Rightarrow> thrown + (rat \<times> rat \<times> rat)" where
  "calculateDelegationFee camel backend walletId = catching (wrapped camel)
     (mapResult createDelegationFeeFromServerData (backend (getDelegationFee_request walletId)))"

definition joinStakePool :: "cases \<Rightarrow> cases \<Rightarrow> 'a backend \<Rightarrow> string \<Rightarrow> string \<Rightarrow> string \<Rightarrow> thrown + 'a" where
  "joinStakePool camel snake backend walletId stakePoolId passphrase =
     catching (passphrase_error camel snake) (backend (joinStakePool_request walletId stakePoolId passphrase))"

definition quitStakePool :: "cases \<Rightarrow> cases \<Rightarrow> 'a backend \<Rightarrow> string \<Rightarrow> string \<Rightarrow> thrown + 'a" where
  "quitStakePool camel snake backend walletId passphrase =
     catching (passphrase_error camel snake) (backend (quitStakePool_request walletId passphrase))"

definition getSmashSettings :: "cases \<Rightarrow> string backend \<Rightarrow> thrown + string" where
  "getSmashSettings camel backend = catching (wrapped camel) (backend getSmashSettings_request)"

definition checkSmashServerIsValid :: "cases \<Rightarrow> string backend \<Rightarrow> string \<Rightarrow> thrown + bool" where
  "checkSmashServerIsValid camel health url = catching (wrapped camel)
     (if url = ''direct'' then Inr True
      else mapResult (\<lambda>h. h = ''available'') (health (checkSmashServerHealth_request url)))"

definition smash_url_message :: string where
  "smash_url_message =
     ''Error parsing query parameter url failed: URI must not contain a path/query/fragment.''"

definition invalid_smash_server :: js_object where
  "invalid_smash_server = plain [(''code'', JStr ''invalid_smash_server'')]"

definition smash_handler :: "cases \<Rightarrow> js_object \<Rightarrow> thrown" where
  "smash_handler camel err =
     (if js_get err ''id'' = Some (JStr ''api.errors.GenericApiError'')
         \<and> lodash_get err ''values.message'' = Some (JStr smash_url_message)
      then wrapped camel invalid_smash_server else wrapped camel err)"

definition updateSmashSettings :: "cases \<Rightarrow> string backend \<Rightarrow> unit backend \<Rightarrow> string \<Rightarrow> thrown + unit" where
  "updateSmashSettings camel health backend poolMetadataSource = catching (smash_handler camel)
     (case checkSmashServerIsValid camel health poolMetadataSource of
        Inl e \<Rightarrow> Inl (as_object e)
      | Inr valid \<Rightarrow>
          if \<not> valid then Inl (as_object (wrapped camel invalid_smash_server))
          else backend (updateSmashSettings_request poolMetadataSource))"

text \<open>The balance as \<open>formattedAmountToEntropic\<close> reads it: entropics, cut to an integer.\<close>

definition formattedAmountToEntropic :: "rat \<Rightarrow> rat" where
  "formattedAmountToEntropic q =
     (let e = q * ENTROPICS_PER_BCC in of_int (if e \<ge> 0 then \<lfloor>e\<rfloor> else \<lceil>e\<rceil>))"

definition MIN_REWARDS_REDEMPTION_RECEIVER_BALANCE :: rat where "MIN_REWARDS_REDEMPTION_RECEIVER_BALANCE = 1"

definition REWARDS_REDEMPTION_FEE_CALCULATION_AMOUNT :: rat where
  "REWARDS_REDEMPTION_FEE_CALCULATION_AMOUNT = 1 * 1000000"

definition getRedeemItnRewardsFee ::
  "cases \<Rightarrow> cases \<Rightarrow> server_fee backend \<Rightarrow> string \<Rightarrow> wallet \<Rightarrow> string list \<Rightarrow> thrown + rat" where
  "getRedeemItnRewardsFee camel snake backend address w phrase =
     (let minBalance = MIN_REWARDS_REDEMPTION_RECEIVER_BALANCE;
          amount = (if wallet_amount w < minBalance * (MIN_REWARDS_REDEMPTION_RECEIVER_BALANCE * 3)
                    then formattedAmountToEntropic (wallet_amount w)
                    else REWARDS_REDEMPTION_FEE_CALCULATION_AMOUNT);
          payload = \<lparr>fr_walletId = wallet_id w, fr_address = address, fr_amount = amount, fr_assets = None,
             fr_walletBalance = wallet_amount w, fr_availableBalance = availableAmount w + reward w,
             fr_rewardsBalance = reward w, fr_isLegacy = False, fr_withdrawal = Some (WithdrawalPhrase phrase)\<rparr>
      in case calculateTransactionFee camel snake backend payload of
           Inl e \<Rightarrow> Inl (wrapped camel (as_object e))
         | Inr (fee, _) \<Rightarrow> Inr fee)"

text \<open>\<open>get(transaction, 'withdrawals[0].amount')\<close> is destructured: without a withdrawal that is a type error.\<close>

definition createRedeemItnRewardsFromServerData :: "amount list \<Rightarrow> js_object + rat" where
  "createRedeemItnRewardsFromServerData withdrawals =
     (case withdrawals of [] \<Rightarrow> Inl type_error | a # _ \<Rightarrow> Inr (to_bcc a))"

definition requestRedeemItnRewards ::
  "cases \<Rightarrow> amount list backend \<Rightarrow> string \<Rightarrow> string \<Rightarrow> string \<Rightarrow> string list \<Rightarrow> thrown + rat" where
  "requestRedeemItnRewards camel backend address walletId passphrase phrase = catching (wrapped camel)
     (andThen (backend (createTransaction_request walletId (JObj
         [(''payments'', payment address REWARDS_REDEMPTION_FEE_CALCULATION_AMOUNT None),
          (''passphrase'', JStr passphrase), (''withdrawal'', withdrawal_value (WithdrawalPhrase phrase))])))
       createRedeemItnRewardsFromServerData)"

section \<open>Network\<close>

definition getNetworkClock :: "cases \<Rightarrow> (string \<times> rat option) backend \<Rightarrow> bool \<Rightarrow> thrown + (string \<times> rat option)" where
  "getNetworkClock camel backend isForceCheck =
     catching (wrapped camel) (backend (getNetworkClock_request isForceCheck))"

text \<open>\<open>time\<close> is \<open>moment(text).valueOf()\<close>; the other parameters pass through renamed.\<close>

definition getNetworkParameters :: "cases \<Rightarrow> (string \<Rightarrow> int) \<Rightarrow> (string \<times> 'p) backend \<Rightarrow> thrown + (int \<times> 'p)" where
  "getNetworkParameters camel time backend = catching (wrapped camel)
     (mapResult (\<lambda>(start, rest). (time start, rest)) (backend getNetworkParameters_request))"

section \<open>News\<close>

text \<open>
  \<open>getNews\<close>: the feed is handed out only if the hash of the very text that was fetched is the one
  published for its \<open>updatedAt\<close>. \<open>sha256\<close> and \<open>print_value\<close> (a template's rendering of the time
  stamp, or of a missing one) are parameters.
\<close>

fun raw_text :: "js_object + jsval \<Rightarrow> string option" where
  "raw_text (Inr (JStr s)) = Some s"
| "raw_text r = None"

definition getNews ::
  "(string \<Rightarrow> jsval option) \<Rightarrow> (string \<Rightarrow> string) \<Rightarrow> (jsval option \<Rightarrow> string) \<Rightarrow> string \<Rightarrow> bool \<Rightarrow> string \<Rightarrow> internet
    \<Rightarrow> js_object + jsval" where
  "getNews parse sha256 print_value currencyHostname isFlight network net =
     (let fetch = externalRequest currencyHostname parse net True
      in case raw_text (fetch (getNews_options isFlight network)) of
           None \<Rightarrow> Inl (js_error ''Unable to fetch news'')
         | Some rawNews \<Rightarrow> (case parse rawNews of
             None \<Rightarrow> Inl (js_error ''Unable to fetch news'')
           | Some JNull \<Rightarrow> Inl (js_error ''Unable to fetch news hash'')
           | Some news \<Rightarrow>
               (case raw_text (fetch (getNewsHash_options isFlight network
                  (print_value (map_of (object_fields news) ''updatedAt'')))) of
                  None \<Rightarrow> Inl (js_error ''Unable to fetch news hash'')
                | Some expectedNewsHash \<Rightarrow>
                    if sha256 rawNews \<noteq> expectedNewsHash then Inl (js_error ''Newsfeed could not be verified'')
                    else if map_of (object_fields news) ''items'' = None then Inl type_error
                    else Inr news)))"

section \<open>Voting\<close>

definition metadata_entry :: "rat \<Rightarrow> string \<Rightarrow> jsval \<Rightarrow> jsval" where
  "metadata_entry key kind v = JObj [(''k'', JObj [(''int'', JNum key)]), (''v'', JObj [(kind, v)])]"

definition voting_metadata :: "string \<Rightarrow> string \<Rightarrow> string \<Rightarrow> rat \<Rightarrow> string \<times> jsval" where
  "voting_metadata votingKey stakeKey addressHex absoluteSlotNumber = (''61284'', JObj [(''map'', JArr
     [metadata_entry 1 ''bytes'' (JStr votingKey), metadata_entry 2 ''bytes'' (JStr stakeKey),
      metadata_entry 3 ''bytes'' (JStr addressHex), metadata_entry 4 ''int'' (JNum absoluteSlotNumber)])])"

definition signature_metadata :: "string \<Rightarrow> string \<times> jsval" where
  "signature_metadata signature =
     (''61285'', JObj [(''map'', JArr [metadata_entry 1 ''bytes'' (JStr signature)])])"

definition createWalletSignature ::
  "cases \<Rightarrow> 'a backend \<Rightarrow> string \<Rightarrow> string \<Rightarrow> string \<Rightarrow> string \<Rightarrow> string \<Rightarrow> string \<Rightarrow> string \<Rightarrow> rat \<Rightarrow> thrown + 'a" where
  "createWalletSignature camel backend walletId role index passphrase votingKey stakeKey addressHex absoluteSlotNumber =
     catching (wrapped camel) (backend (createWalletSignature_request walletId role index (JObj
       [(''passphrase'', JStr passphrase),
        (''metadata'', JObj [voting_metadata votingKey stakeKey addressHex absoluteSlotNumber])])))"

definition createVotingRegistrationTransaction ::
  "cases \<Rightarrow> cases \<Rightarrow> server_transaction backend \<Rightarrow> string \<Rightarrow> string \<Rightarrow> string \<Rightarrow> rat \<Rightarrow> string \<Rightarrow> string \<Rightarrow> string \<Rightarrow> string \<Rightarrow> rat
    \<Rightarrow> thrown + wallet_transaction" where
  "createVotingRegistrationTransaction camel snake backend walletId address addressHex q passphrase votingKey stakeKey
      signature absoluteSlotNumber =
     catching (transaction_error camel snake) (mapResult createTransactionFromServerData
       (backend (createTransaction_request walletId (JObj
         [(''payments'', payment address q None), (''passphrase'', JStr passphrase),
          (''metadata'', JObj [voting_metadata votingKey stakeKey addressHex absoluteSlotNumber,
                               signature_metadata signature])]))))"

definition getAssets ::
  "cases \<Rightarrow> server_asset list backend \<Rightarrow> js_object + (string \<Rightarrow> jsval option) \<Rightarrow> string \<Rightarrow> stored_metadata
    \<Rightarrow> (thrown + (asset list \<times> nat)) \<times> stored_metadata" where
  "getAssets camel backend localData walletId stored =
     (case backend (getAssets_request walletId) of
        Inl e \<Rightarrow> (Inl (wrapped camel e), stored)
      | Inr response \<Rightarrow> (case localData of
          Inl e \<Rightarrow> (Inl (wrapped camel e), stored)
        | Inr decimals \<Rightarrow>
            (let (assets, stored') = fold (\<lambda>d (done, st).
                   let (a, st') = createAssetFromServerData d (decimals (sa_policy_id d @ sa_asset_name d)) st
                   in (done @ [a], st')) response ([], stored)
             in (Inr (assets, length response), stored'))))"

section \<open>What the error chains show\<close>

lemma message_of_exhausted_funds:
  "message_of (notEnoughMoneyError a b c) = (if a > b then message_of ''canNotCalculateTransactionFees''
     else if a \<noteq> 0 \<and> a = c then message_of ''inputsDepleted'' else message_of ''notEnoughFundsForTransaction'')"
  by (simp add: notEnoughMoneyError_def)

lemma chains_well_formed [simp]:
  "well_formed_chain passphrase_alternatives" "well_formed_chain transaction_alternatives"
  "well_formed_chain restore_alternatives" "well_formed_chain import_alternatives"
  "well_formed_chain (fee_alternatives (notEnoughMoneyError a b c) v)"
  using message_ids
  by (auto simp: well_formed_chain_def passphrase_alternatives_def transaction_alternatives_def
      restore_alternatives_def import_alternatives_def fee_alternatives_def all_keys_read_def keys_added_def
      message_of_exhausted_funds)

definition has_code :: "js_object \<Rightarrow> string \<Rightarrow> bool" where
  "has_code err c \<longleftrightarrow> js_get err ''code'' = Some (JStr c)"

text \<open>\<open>inc\<close> on a field that is missing or empty holds.\<close>

definition mentions :: "js_object \<Rightarrow> string \<Rightarrow> string \<Rightarrow> bool" where
  "mentions err k s \<longleftrightarrow> (case lodash_get err k of None \<Rightarrow> True | Some m \<Rightarrow> js_truthy m \<longrightarrow> lodash_includes m s)"

lemma known_by_code:
  assumes "lodash_camel camel"
  shows "has_code err ''not_enough_money'' \<Longrightarrow> known_message camel err = message_of ''notEnoughMoney''"
    "has_code err ''utxo_too_small'' \<Longrightarrow> known_message camel err = message_of ''utxoTooSmall''"
    "has_code err ''transaction_is_too_big'' \<Longrightarrow> known_message camel err = message_of ''transactionIsTooBig''"
    "has_code err ''wallet_already_exists'' \<Longrightarrow> known_message camel err = message_of ''walletAlreadyExists''"
    "has_code err ''bad_request'' \<Longrightarrow> known_message camel err = None"
    "has_code err ''invalid_restoration_parameters'' \<Longrightarrow> known_message camel err = None"
  using camel_codes [OF assms] message_ids by (simp_all add: known_message_def has_code_def)

definition own_or_generic :: "cases \<Rightarrow> js_object \<Rightarrow> string \<times> jsval option" where
  "own_or_generic camel err = (case known_message camel err of
       Some m \<Rightarrow> (messageId m, js_get err ''code'') | None \<Rightarrow> (messageId genericApiError, None))"

definition message_id :: "string \<Rightarrow> string" where
  "message_id k = (case message_of k of None \<Rightarrow> [] | Some m \<Rightarrow> messageId m)"

lemma message_id_of: "map_option messageId (message_of k) = Some i \<Longrightarrow> message_id k = i"
  by (auto simp: message_id_def)

lemma fee_errors:
  assumes "lodash_camel camel" and "hidden err = []"
  shows "shown (fee_error camel snake walletBalance availableBalance rewardsBalance err) =
     (if has_code err ''not_enough_money''
      then (message_id (notEnoughMoneyError walletBalance availableBalance rewardsBalance), js_get err ''code'')
      else if has_code err ''bad_request'' \<and> mentions err ''message'' ''Unable to decode Address''
      then (message_id ''invalidAddress'', js_get err ''code'')
      else own_or_generic camel err)"
proof -
  let ?alts = "fee_alternatives (notEnoughMoneyError walletBalance availableBalance rewardsBalance) (minimum_coin_of err)"
  have u: "undisturbed (known_message camel err \<noteq> None) err ?alts"
    using known_by_code [OF assms(1), of err] message_ids
    by (auto simp: fee_alternatives_def matches_def effective_def has_code_def)
  have e: "\<exists>m. message_of (notEnoughMoneyError walletBalance availableBalance rewardsBalance) = Some m"
    "\<exists>m. message_of ''invalidAddress'' = Some m" "\<exists>m. message_of ''utxoTooSmall'' = Some m" "\<exists>m. message_of ''notEnoughMoney'' = Some m"
    using message_ids by (auto simp: message_of_exhausted_funds)
  then show ?thesis
    unfolding fee_error_def chain_shown [OF chains_well_formed(5) assms(2) u]
    using known_by_code [OF assms(1), of err]
    by (auto simp: first_match_def fee_alternatives_def matches_def effective_def has_code_def mentions_def
        own_or_generic_def message_id_def Let_def split: option.split)
qed

text \<open>
  The error of a fee calculation or a coin selection. For every error with plain values: not enough
  money is explained by the wallet's balances, too small an output by its own message, any other
  error with a message keeps it, an undecodable address (a bad request that says so, or says nothing)
  is named, and the rest is generic.
\<close>

theorem fee_error_table:
  assumes "lodash_camel camel" and "hidden err = []"
  shows "shown (fee_error camel snake walletBalance availableBalance rewardsBalance err) =
     (if has_code err ''not_enough_money''
      then (message_id (notEnoughMoneyError walletBalance availableBalance rewardsBalance), js_get err ''code'')
      else if has_code err ''bad_request'' \<and> mentions err ''message'' ''Unable to decode Address''
      then (message_id ''invalidAddress'', js_get err ''code'')
      else own_or_generic camel err)"
  using assms by (rule fee_errors)

theorem fee_error_table_witness:
  "shown (fee_error camel_of snake_of 5 3 0 (plain [(''code'', JStr ''not_enough_money'')]))
     = (''api.errors.CanNotCalculateTransactionFeesError'', Some (JStr ''not_enough_money''))"
  using fee_error_table [of camel_of "plain [(''code'', JStr ''not_enough_money'')]" snake_of 5 3 0] message_ids(8)
  by (simp add: has_code_def notEnoughMoneyError_def message_id_of)

text \<open>The chain of every call that spends with a passphrase, without and with the size of the transaction.\<close>

lemma passphrase_error_table:
  assumes "lodash_camel camel" and "hidden err = []"
  shows "shown (passphrase_error camel snake err) =
     (if has_code err ''bad_request'' \<and> mentions err ''message'' ''passphrase is too short''
      then (message_id ''wrongEncryptionPassphrase'', js_get err ''code'')
      else own_or_generic camel err)"
proof -
  have u: "undisturbed (known_message camel err \<noteq> None) err passphrase_alternatives"
    by (simp add: passphrase_alternatives_def)
  have e: "\<exists>m. message_of ''wrongEncryptionPassphrase'' = Some m" using message_ids by auto
  then show ?thesis
    unfolding passphrase_error_def chain_shown [OF chains_well_formed(1) assms(2) u]
    using known_by_code(5) [OF assms(1), of err]
    by (auto simp: first_match_def passphrase_alternatives_def matches_def effective_def has_code_def mentions_def
        own_or_generic_def message_id_def Let_def split: option.split)
qed

lemma transaction_error_table:
  assumes "lodash_camel camel" and "hidden err = []"
  shows "shown (transaction_error camel snake err) = shown (passphrase_error camel snake err)"
proof -
  have u: "undisturbed (known_message camel err \<noteq> None) err transaction_alternatives"
    by (simp add: transaction_alternatives_def passphrase_alternatives_def)
  have e: "\<exists>m. message_of ''wrongEncryptionPassphrase'' = Some m" "\<exists>m. message_of ''transactionIsTooBig'' = Some m"
    using message_ids by auto
  then show ?thesis
    unfolding transaction_error_def chain_shown [OF chains_well_formed(2) assms(2) u]
      passphrase_error_table [OF assms]
    using known_by_code(3,5) [OF assms(1), of err]
    by (auto simp: first_match_def transaction_alternatives_def passphrase_alternatives_def matches_def effective_def
        has_code_def mentions_def own_or_generic_def message_id_def Let_def split: option.split)
qed

lemma restore_error_table:
  assumes "lodash_camel camel" and "hidden err = []"
  shows "shown (restore_error camel snake err) =
     (if known_message camel err = None
         \<and> (has_code err ''invalid_restoration_parameters''
            \<or> js_get err ''message'' = Some (JStr ''JSONValidationFailed'')
              \<and> mentions err ''diagnostic.validationError'' ''Forbidden Mnemonic: an example Mnemonic has been submitted'')
      then (message_id ''forbiddenMnemonic'', js_get err ''code'')
      else own_or_generic camel err)"
proof -
  have u: "undisturbed (known_message camel err \<noteq> None) err restore_alternatives"
    by (simp add: restore_alternatives_def)
  have e: "\<exists>m. message_of ''forbiddenMnemonic'' = Some m" using message_ids by auto
  then show ?thesis
    unfolding restore_error_def chain_shown [OF chains_well_formed(3) assms(2) u]
    using known_by_code(6) [OF assms(1), of err]
    by (auto simp: first_match_def restore_alternatives_def matches_def effective_def has_code_def mentions_def
        own_or_generic_def message_id_def Let_def split: option.split)
qed

lemma import_error_table:
  assumes "lodash_camel camel" and "lodash_snake snake" and "hidden err = []"
  shows "shown (import_error camel snake err) =
     (if has_code err ''wallet_already_exists'' then (message_id ''walletAlreadyImported'', js_get err ''code'')
      else case known_message camel err of
        Some m \<Rightarrow> (messageId m, js_get err ''code'')
      | None \<Rightarrow> (message_id ''walletFileImportError'', Some (JStr ''wallet_file_import_error'')))"
proof -
  have u: "undisturbed (known_message camel err \<noteq> None) err import_alternatives"
    by (simp add: import_alternatives_def)
  have e: "\<exists>m. message_of ''walletAlreadyImported'' = Some m" "\<exists>m. message_of ''walletFileImportError'' = Some m"
    "\<exists>m. message_of ''walletAlreadyExists'' = Some m"
    using message_ids by auto
  then show ?thesis
    unfolding import_error_def chain_shown [OF chains_well_formed(4) assms(3) u]
    using known_by_code(4) [OF assms(1), of err] snake_keys(2) [OF assms(2)]
    by (auto simp: first_match_def import_alternatives_def matches_def effective_def has_code_def
        message_id_def Let_def split: option.split)
qed

text \<open>
  The errors of the calls that take a passphrase, restore or import a wallet. For every error with
  plain values: a bad request about the passphrase (or about nothing) is a wrong passphrase, also
  when the size of the transaction is the other alternative; an example recovery phrase is
  forbidden however the backend says it; an import of a wallet that exists says so, and any other
  failed import without a message of its own is a bad file; every other error keeps its message.
\<close>

theorem wallet_error_tables:
  assumes "lodash_camel camel" and "lodash_snake snake" and "hidden err = []"
  shows "shown (transaction_error camel snake err) = shown (passphrase_error camel snake err)
    \<and> shown (passphrase_error camel snake err) =
        (if has_code err ''bad_request'' \<and> mentions err ''message'' ''passphrase is too short''
         then (message_id ''wrongEncryptionPassphrase'', js_get err ''code'') else own_or_generic camel err)
    \<and> shown (restore_error camel snake err) =
        (if known_message camel err = None
            \<and> (has_code err ''invalid_restoration_parameters''
               \<or> js_get err ''message'' = Some (JStr ''JSONValidationFailed'')
                 \<and> mentions err ''diagnostic.validationError'' ''Forbidden Mnemonic: an example Mnemonic has been submitted'')
         then (message_id ''forbiddenMnemonic'', js_get err ''code'') else own_or_generic camel err)
    \<and> shown (import_error camel snake err) =
        (if has_code err ''wallet_already_exists'' then (message_id ''walletAlreadyImported'', js_get err ''code'')
         else case known_message camel err of
           Some m \<Rightarrow> (messageId m, js_get err ''code'')
         | None \<Rightarrow> (message_id ''walletFileImportError'', Some (JStr ''wallet_file_import_error'')))"
  using transaction_error_table [OF assms(1,3)] passphrase_error_table [OF assms(1,3)]
    restore_error_table [OF assms(1,3)] import_error_table [OF assms] by simp

theorem wallet_error_tables_witness:
  "shown (restore_error camel_of snake_of (plain [(''message'', JStr ''JSONValidationFailed'')]))
     = (''api.errors.ForbiddenMnemonicError'', None)"
  using wallet_error_tables [of camel_of snake_of "plain [(''message'', JStr ''JSONValidationFailed'')]"] message_ids(3)
  by (simp add: has_code_def known_message_def message_id_of mentions_def lodash_get_def)

section \<open>Fees\<close>

text \<open>
  C31. A transaction fee. The fee and the minimum are those of the backend, in BCC, exactly when the
  amount with the fee does not exceed the wallet's balance or rewards are redeemed; a balance that
  does not cover both shows the message about fees, through the same chain that explains the
  backend's own errors.
\<close>

theorem transaction_fee_outcome:
  assumes "lodash_camel camel" and "lodash_snake snake"
  shows "case backend (fee_call r) of
      Inr response \<Rightarrow>
        (if isRewardsRedemptionRequest r
            \<or> entropics (fr_amount r) + fst (createTransactionFeeFromServerData response) \<le> fr_walletBalance r
         then calculateTransactionFee camel snake backend r = Inr (createTransactionFeeFromServerData response)
         else \<exists>t. calculateTransactionFee camel snake backend r = Inl t
              \<and> shown t = (''api.errors.NotEnoughFundsForTransactionFeesError'', Some (JStr ''cannot_cover_fee'')))
    | Inl e \<Rightarrow> calculateTransactionFee camel snake backend r
        = Inl (fee_error camel snake (fr_walletBalance r) (fr_availableBalance r) (fr_rewardsBalance r) e)"
proof (cases "backend (fee_call r)")
  case (Inr response)
  obtain m where m: "message_of ''cannotCoverFee'' = Some m" "messageId m = ''api.errors.NotEnoughFundsForTransactionFeesError''"
    using message_ids(9) by auto
  have plain: "hidden (cannotCoverFee camel snake) = []"
    by (simp add: cannotCoverFee_def result_def new_ApiError_def known_message_def m Let_def)
  have code: "js_get (cannotCoverFee camel snake) ''code'' = Some (JStr ''cannot_cover_fee'')"
    using m snake_keys(1) [OF assms(2)]
    by (simp add: cannotCoverFee_def result_def new_ApiError_def known_message_def Let_def)
  then have "known_message camel (cannotCoverFee camel snake) = Some m"
    using camel_codes(7) [OF assms(1)] m by (simp add: known_message_def)
  then have "shown (fee_error camel snake a b c (cannotCoverFee camel snake))
      = (''api.errors.NotEnoughFundsForTransactionFeesError'', Some (JStr ''cannot_cover_fee''))" for a b c
    using fee_errors [OF assms(1) plain] code m by (simp add: has_code_def own_or_generic_def)
  with Inr show ?thesis
    by (simp add: calculateTransactionFee_def Let_def split: prod.split)
qed (simp add: calculateTransactionFee_def)

theorem transaction_fee_outcome_witness:
  "calculateTransactionFee camel_of snake_of (\<lambda>_. Inr \<lparr>estimated_max = Some 170000, minimum_coins = [1000000], fee_deposit = None\<rparr>)
     \<lparr>fr_walletId = ''w'', fr_address = ''a'', fr_amount = 1000000, fr_assets = None, fr_walletBalance = 2,
      fr_availableBalance = 2, fr_rewardsBalance = 0, fr_isLegacy = False, fr_withdrawal = None\<rparr> = Inr (17/100, 1)"
  using transaction_fee_outcome [of camel_of snake_of
      "\<lambda>_. Inr \<lparr>estimated_max = Some 170000, minimum_coins = [1000000], fee_deposit = None\<rparr>"
      "\<lparr>fr_walletId = ''w'', fr_address = ''a'', fr_amount = 1000000, fr_assets = None, fr_walletBalance = 2,
        fr_availableBalance = 2, fr_rewardsBalance = 0, fr_isLegacy = False, fr_withdrawal = None\<rparr>"]
  by (simp add: isRewardsRedemptionRequest_def the_withdrawal_def createTransactionFeeFromServerData_def
      entropics_def ENTROPICS_PER_BCC_def)

text \<open>
  Redeeming rewards forgets why the fee failed. \<open>getRedeemItnRewardsFee\<close> wraps the error of
  \<open>calculateTransactionFee\<close> again, and the message the chain chose is lost: the user sees what the
  backend's error would have shown with no chain at all.
\<close>

theorem redeem_fee_loses_the_chain:
  assumes "lodash_camel camel" and "hidden err = []"
  shows "\<exists>t. getRedeemItnRewardsFee camel snake (\<lambda>_. Inl err) address w phrase = Inl t
    \<and> fst (shown t) = fst (shown (wrapped camel err))"
proof -
  have g: "fst (shown (wrapped camel (as_object u))) = fst (shown (wrapped camel err))"
    if "shown u = (i, js_get err ''code'') \<or> shown u = own_or_generic camel err \<and> known_message camel err = None" for u i
  proof (cases u)
    case (ThrownApi e)
    then have "js_get (as_object u) ''code'' = errorCode e" by (simp split: option.split)
    moreover have "errorCode e = js_get err ''code'' \<or> errorCode e = None \<and> known_message camel err = None"
      using that ThrownApi by (auto simp: own_or_generic_def)
    ultimately show ?thesis by (auto simp: wrapped_def new_ApiError_def known_message_def Let_def)
  next
    case (ThrownGeneric v)
    with that have "js_get err ''code'' = None \<or> known_message camel err = None" by (auto simp: own_or_generic_def)
    with ThrownGeneric show ?thesis by (auto simp: wrapped_def new_ApiError_def known_message_def Let_def)
  next
    case ThrownTypeError
    with that have "js_get err ''code'' = None \<or> known_message camel err = None" by (auto simp: own_or_generic_def)
    with ThrownTypeError show ?thesis by (auto simp: wrapped_def new_ApiError_def known_message_def Let_def)
  qed
  have "\<exists>i. shown (fee_error camel snake a b c err) = (i, js_get err ''code'')
      \<or> shown (fee_error camel snake a b c err) = own_or_generic camel err \<and> known_message camel err = None" for a b c
    unfolding fee_errors [OF assms(1,2)] by (auto simp: own_or_generic_def split: option.split)
  with g show ?thesis
    unfolding getRedeemItnRewardsFee_def calculateTransactionFee_def by (simp add: Let_def) metis
qed

definition sample_wallet :: wallet where
  "sample_wallet = \<lparr>wallet_id = ''w'', addressPoolGap = 20, wallet_name = ''n'', wallet_amount = 5, availableAmount = 3,
     reward = 0, availableAssets = [], totalAssets = [], passwordUpdateDate = None, hasPassword = False,
     syncState = \<lparr>sync_status = ''ready'', sync_quantity = None\<rparr>, isLegacy = False, isHardwareWallet = False,
     delegatedStakePoolId = None, delegationStakePoolStatus = None, lastDelegatedStakePoolId = None,
     lastDelegationStakePoolStatus = None, pendingDelegations = None, discovery = ''sequential''\<rparr>"

theorem redeem_fee_loses_the_chain_witness:
  "\<exists>t. getRedeemItnRewardsFee camel_of snake_of (\<lambda>_. Inl (plain [(''code'', JStr ''not_enough_money'')])) ''a'' sample_wallet [] = Inl t
    \<and> fst (shown t) = ''api.errors.NotEnoughMoneyToSendError''"
proof -
  obtain m where "message_of ''notEnoughMoney'' = Some m" "messageId m = ''api.errors.NotEnoughMoneyToSendError''"
    using message_ids(7) by auto
  then show ?thesis
    using redeem_fee_loses_the_chain [of camel_of "plain [(''code'', JStr ''not_enough_money'')]" snake_of "''a''" sample_wallet "[]"]
      camel_codes(2) [of camel_of]
    by (simp add: wrapped_def new_ApiError_def known_message_def Let_def)
qed

section \<open>Coin selections\<close>

lemma foldl_plus: "foldl (+) a xs = a + sum_list (xs :: rat list)"
  by (induction xs arbitrary: a) (simp_all add: algebra_simps)

lemma entropics_back [simp]: "entropics q * ENTROPICS_PER_BCC = q" "ENTROPICS_PER_BCC * entropics q = q"
  by (simp_all add: entropics_def ENTROPICS_PER_BCC_def)


section \<open>Stake pools\<close>


section \<open>Wallet ids\<close>

text \<open>
  A wallet is addressed by the id it came with. For a wallet made from the backend's data with a
  hexadecimal id, the requests for it, chosen by its \<open>isLegacy\<close> flag or by its id, go to the
  path of the kind and the id the backend knows it by; two wallets of the backend get the same id only
  if they are of the same kind and have the same id.
\<close>

theorem wallet_ids_roundtrip:
  assumes "createWalletFromServerData s = Inr w" and "createWalletFromServerData s' = Inr w'"
    and "list_all hex_char (sw_id s)" and "list_all hex_char (sw_id s')"
  shows "path (if isLegacy w then getLegacyWallet_request (wallet_id w) else getWallet_request (wallet_id w))
      = (if sw_isLegacy s then ''/v2/cole-wallets/'' else ''/v2/wallets/'') @ sw_id s
    \<and> path (getAssets_request (wallet_id w))
      = (if sw_isLegacy s then ''/v2/cole-wallets/'' else ''/v2/wallets/'') @ sw_id s @ ''/assets''
    \<and> (wallet_id w = wallet_id w' \<longleftrightarrow> sw_isLegacy s = sw_isLegacy s' \<and> sw_id s = sw_id s')"
proof -
  have w: "isLegacy w = sw_isLegacy s" "wallet_id w = (if sw_isLegacy s then getLegacyWalletId (sw_id s) else sw_id s)"
    "wallet_id w' = (if sw_isLegacy s' then getLegacyWalletId (sw_id s') else sw_id s')"
    using assms by (auto simp: createWalletFromServerData_def Let_def split: if_splits option.splits)
  have "path (if isLegacy w then getLegacyWallet_request (wallet_id w) else getWallet_request (wallet_id w))
      = (if sw_isLegacy s then ''/v2/cole-wallets/'' else ''/v2/wallets/'') @ sw_id s"
    using w by (simp add: getLegacyWallet_request_def getWallet_request_def http_def cole_path_def wallets_path_def)
  moreover have "path (getAssets_request (wallet_id w))
      = (if sw_isLegacy s then ''/v2/cole-wallets/'' else ''/v2/wallets/'') @ sw_id s @ ''/assets''"
    using w assms(3) by (simp add: getAssets_request_def http_def assets_path_def raw_of_hex hex_not_legacy)
  moreover have "wallet_id w = wallet_id w' \<longleftrightarrow> sw_isLegacy s = sw_isLegacy s' \<and> sw_id s = sw_id s'"
    using w hex_not_legacy [OF assms(3)] hex_not_legacy [OF assms(4)] is_legacy_of_legacy [of "sw_id s"]
      is_legacy_of_legacy [of "sw_id s'"]
    by (auto simp: getLegacyWalletId_def dest: sym)
  ultimately show ?thesis by blast
qed

definition sample_server_wallet :: "bool \<Rightarrow> server_wallet" where
  "sample_server_wallet legacy = \<lparr>sw_id = ''2512a00e'', address_pool_gap = 20,
     balance_total = \<lparr>quantity = 42000000, amount_unit = UnitEntropic\<rparr>,
     balance_available = \<lparr>quantity = 42000000, amount_unit = UnitEntropic\<rparr>,
     balance_reward = Some \<lparr>quantity = 0, amount_unit = UnitEntropic\<rparr>, sw_name = ''n'',
     sw_assets = Some ([], []), passphrase_last_updated_at = None, sw_delegation = None,
     sw_state = \<lparr>sync_status = ''ready'', sync_quantity = None\<rparr>, sw_isLegacy = legacy, sw_discovery = ''random'',
     sw_isHardwareWallet = False\<rparr>"

theorem wallet_ids_roundtrip_witness:
  "map_option path (case createWalletFromServerData (sample_server_wallet True) of
      Inl e \<Rightarrow> None | Inr w \<Rightarrow> Some (if isLegacy w then getLegacyWallet_request (wallet_id w) else getWallet_request (wallet_id w)))
   = Some ''/v2/cole-wallets/2512a00e''"
proof -
  have "\<exists>w. createWalletFromServerData (sample_server_wallet True) = Inr w"
    "\<exists>w. createWalletFromServerData (sample_server_wallet False) = Inr w"
    by (simp_all add: createWalletFromServerData_def sample_server_wallet_def Let_def)
  then obtain w w' where w: "createWalletFromServerData (sample_server_wallet True) = Inr w"
    "createWalletFromServerData (sample_server_wallet False) = Inr w'" by blast
  from wallet_ids_roundtrip [OF w] show ?thesis
    unfolding w by (simp add: sample_server_wallet_def hex_char_def)
qed

section \<open>News\<close>

text \<open>
  C33. Only verified news gets in. Whenever \<open>getNews\<close> hands out a feed, the feed is what the text fetched
  from the news host parses to, and the hash host answered, for the feed's own time stamp, with the
  hash of exactly that text; in every other case the call fails.
\<close>

theorem news_is_verified:
  assumes "getNews parse sha256 print_value currencyHostname isFlight network net = Inr news"
  shows "\<exists>rawNews. net (getNews_options isFlight network) = ExternalEnd rawNews \<and> parse rawNews = Some news
    \<and> net (getNewsHash_options isFlight network (print_value (map_of (object_fields news) ''updatedAt''))) = ExternalEnd (sha256 rawNews)"
proof -
  have ok: "externalRequest h parse net True opts = Inr (JStr s) \<longleftrightarrow> net opts = ExternalEnd s"
    if "hostname opts \<in> set (ALLOWED_EXTERNAL_HOSTNAMES h)" for h opts s
    using that by (auto simp: externalRequest_def split: external_transport.split)
  have raw: "raw_text r = Some s \<longleftrightarrow> r = Inr (JStr s)" for r s
    by (cases r rule: raw_text.cases) auto
  show ?thesis
    using assms
    by (auto simp: getNews_def Let_def raw ok split: option.splits jsval.splits if_splits)
qed

definition sample_news :: "external_options \<Rightarrow> external_transport" where
  "sample_news opts = (if hostname opts = NEWS_URL then ExternalEnd ''{}'' else ExternalEnd ''ab'')"

theorem news_is_verified_witness:
  "\<exists>rawNews. sample_news (getNews_options False ''mainnet'') = ExternalEnd rawNews \<and> rawNews = ''{}''"
  using news_is_verified [of "\<lambda>s. Some (JObj [(''updatedAt'', JNum 1), (''items'', JArr [])])" "\<lambda>s. ''ab''" "\<lambda>v. ''1''"
      "''h''" False "''mainnet''" sample_news "JObj [(''updatedAt'', JNum 1), (''items'', JArr [])]"]
  by (simp add: getNews_def Let_def externalRequest_def sample_news_def getNews_options_def getNewsHash_options_def
      getNewsURL_def getNewsHashURL_def ALLOWED_EXTERNAL_HOSTNAMES_def NEWS_URL_def NEWS_HASH_URL_def)

section \<open>Witnesses of the chains\<close>


text \<open>A chain of three on a bad request: the passphrase is wrong, and the user sees the generic error.\<close>

theorem third_alternative_witness:
  "shown (resolve camel_of snake_of
      (passphrase_alternatives @ [\<lparr>alt_error = ''utxoTooSmall'', alt_force = False, alt_values = None,
           alt_conditions = [Where ''code'' ''not_found'']\<rparr>,
         \<lparr>alt_error = ''invalidAddress'', alt_force = False, alt_values = None,
           alt_conditions = [Where ''code'' ''not_acceptable'']\<rparr>]) None
      (plain [(''code'', JStr ''bad_request''), (''message'', JStr ''passphrase is too short'')]))
   = (''api.errors.GenericApiError'', None)"
  unfolding passphrase_alternatives_def append.simps
proof (rule third_alternative_drops_the_match)
  show "known_message camel_of (plain [(''code'', JStr ''bad_request''), (''message'', JStr ''passphrase is too short'')]) = None"
    by (rule known_by_code(5)) (simp_all add: has_code_def)
  show "well_formed_chain [\<lparr>alt_error = ''wrongEncryptionPassphrase'', alt_force = False, alt_values = None,
       alt_conditions = [Where ''code'' ''bad_request'', Inc ''message'' ''passphrase is too short'']\<rparr>,
      \<lparr>alt_error = ''utxoTooSmall'', alt_force = False, alt_values = None, alt_conditions = [Where ''code'' ''not_found'']\<rparr>,
      \<lparr>alt_error = ''invalidAddress'', alt_force = False, alt_values = None, alt_conditions = [Where ''code'' ''not_acceptable'']\<rparr>]"
    using message_ids by (auto simp: well_formed_chain_def all_keys_read_def keys_added_def)
qed (simp_all add: matches_def effective_def lodash_get_def)
end
