(* ===== verification/Migration.thy ===== *)
theory Migration imports Prelude begin

text \<open>
  The import of wallets from an older installation: \<open>stores/WalletMigrationStore.js\<close>. The store is a
  machine over the user's actions and the answers it waits for: the export tool, the restoration
  of each selected wallet, and the reads and writes of the migration status. Every \<open>await\<close> is a task
  in the store, and an answer resumes the task at its place in the list. The order of the exported wallets
  is lodash's, a parameter that permutes its input.
\<close>

section \<open>The store\<close>

datatype import_step = WALLET_IMPORT_FILE | WALLET_SELECT_IMPORT

datatype import_status = UNSTARTED | PENDING | RUNNING | COMPLETED | EXISTS | ERRORED

datatype migration_status = StatusUnstarted | StatusRunning | StatusCompleted | StatusSkipped | StatusErrored

text \<open>
  What the export tool says of a wallet, and the wallet as the store lists it. \<open>oid\<close> is the identity of
  the wallet object, which a running restoration also holds.
\<close>

record tool_wallet =
  tool_id :: string
  tool_name :: "string option"
  tool_isEmptyPassphrase :: bool

record exported_wallet =
  oid :: nat
  ew_id :: string
  ew_name :: "string option"
  ew_isEmptyPassphrase :: bool
  hasName :: bool
  import_status :: import_status
  import_error :: "string option"
  index :: nat

record restored_wallet =
  rw_id :: string
  rw_name :: string

text \<open>The continuations of the store's asynchronous operations.\<close>

datatype task =
    ExportThenNext                      \<comment> \<open>\<open>_nextStep\<close>, awaiting the export tool\<close>
  | RestoreOne nat exported_wallet      \<comment> \<open>\<open>_restoreWallet\<close> of a batch, awaiting the backend\<close>
  | FinishStatus                        \<comment> \<open>\<open>_finishMigration\<close>, awaiting the stored status\<close>
  | FinishWritten                       \<comment> \<open>\<open>_finishMigration\<close>, awaiting the write of the status\<close>
  | FinishReport                        \<comment> \<open>\<open>_generateMigrationReport\<close>, awaiting the stored status\<close>
  | FinishReported                      \<comment> \<open>\<open>_generateMigrationReport\<close>, awaiting the report\<close>

datatype migration_effect =
    RequestExport string
  | RequestRestore exported_wallet
  | WriteStatus migration_status
  | SendReport migration_status nat nat nat string
  | CloseDialog
  | RefreshWallets

record migration =
  walletMigrationStep :: "import_step option"
  isExportRunning :: bool
  exportedWallets :: "exported_wallet list"
  exportErrors :: string
  exportSourcePath :: string
  defaultExportSourcePath :: string
  isRestorationRunning :: bool
  restoredWallets :: "restored_wallet list"
  restorationErrors :: "(string \<times> string \<times> string option \<times> bool) list"
  tasks :: "task list"
  batches :: nat
  objects :: nat
  effects :: "migration_effect list"

definition new_WalletMigrationStore :: "string \<Rightarrow> migration" where
  "new_WalletMigrationStore legacyStateDir =
     \<lparr>walletMigrationStep = None, isExportRunning = False, exportedWallets = [], exportErrors = [],
      exportSourcePath = [], defaultExportSourcePath = legacyStateDir, isRestorationRunning = False,
      restoredWallets = [], restorationErrors = [], tasks = [], batches = 0, objects = 0, effects = []\<rparr>"

definition await :: "task \<Rightarrow> migration \<Rightarrow> migration" where
  "await t s = s\<lparr>tasks := tasks s @ [t]\<rparr>"

definition perform :: "migration_effect \<Rightarrow> migration \<Rightarrow> migration" where
  "perform x s = s\<lparr>effects := effects s @ [x]\<rparr>"

section \<open>Looking up and changing wallets\<close>

definition getExportedWalletById :: "string \<Rightarrow> migration \<Rightarrow> exported_wallet option" where
  "getExportedWalletById i s = find (\<lambda>w. ew_id w = i) (exportedWallets s)"

definition getExportedWalletByIndex :: "nat \<Rightarrow> migration \<Rightarrow> exported_wallet option" where
  "getExportedWalletByIndex n s = find (\<lambda>w. index w = n) (exportedWallets s)"

definition getExportedWalletDuplicatesById :: "string \<Rightarrow> nat \<Rightarrow> migration \<Rightarrow> exported_wallet list" where
  "getExportedWalletDuplicatesById i n s = filter (\<lambda>w. ew_id w = i \<and> index w \<noteq> n) (exportedWallets s)"

text \<open>The first wallet that satisfies the condition is the object that is changed.\<close>

fun update_first :: "('a \<Rightarrow> bool) \<Rightarrow> ('a \<Rightarrow> 'a) \<Rightarrow> 'a list \<Rightarrow> 'a list" where
  "update_first P f [] = []"
| "update_first P f (x # xs) = (if P x then f x # xs else x # update_first P f xs)"

definition updateWalletImportStatus :: "nat \<Rightarrow> import_status \<Rightarrow> string option \<Rightarrow> migration \<Rightarrow> migration" where
  "updateWalletImportStatus n status error s =
     s\<lparr>exportedWallets := update_first (\<lambda>w. index w = n)
         (\<lambda>w. w\<lparr>import_status := status, import_error := error\<rparr>) (exportedWallets s)\<rparr>"

fun rename_held :: "nat \<Rightarrow> string \<Rightarrow> task \<Rightarrow> task" where
  "rename_held i name (RestoreOne b w) = RestoreOne b (if oid w = i then w\<lparr>ew_name := Some name\<rparr> else w)"
| "rename_held i name t = t"

definition updateWalletName :: "nat \<Rightarrow> string \<Rightarrow> migration \<Rightarrow> migration" where
  "updateWalletName n name s = (case getExportedWalletByIndex n s of
       None \<Rightarrow> s
     | Some w \<Rightarrow> s\<lparr>exportedWallets := update_first (\<lambda>v. index v = n) (\<lambda>v. v\<lparr>ew_name := Some name\<rparr>) (exportedWallets s),
                   tasks := map (rename_held (oid w) name) (tasks s)\<rparr>)"

text \<open>The duplicates of a wallet: same id, another index.\<close>

definition update_duplicates :: "string \<Rightarrow> nat \<Rightarrow> (exported_wallet \<Rightarrow> exported_wallet) \<Rightarrow> migration \<Rightarrow> migration" where
  "update_duplicates i n f s =
     s\<lparr>exportedWallets := map (\<lambda>w. if ew_id w = i \<and> index w \<noteq> n then f w else w) (exportedWallets s)\<rparr>"

definition toggleWalletImportSelection :: "nat \<Rightarrow> migration \<Rightarrow> migration" where
  "toggleWalletImportSelection n s = (case getExportedWalletByIndex n s of
       None \<Rightarrow> s
     | Some w \<Rightarrow>
         update_duplicates (ew_id w) n
           (\<lambda>d. if import_status d = PENDING then d\<lparr>import_status := UNSTARTED\<rparr> else d)
           (updateWalletImportStatus n (if import_status w = PENDING then UNSTARTED else PENDING) None s))"

definition pendingImportWallets :: "migration \<Rightarrow> exported_wallet list" where
  "pendingImportWallets s = filter (\<lambda>w. import_status w = PENDING) (exportedWallets s)"

section \<open>Resets\<close>

definition resetExportData :: "migration \<Rightarrow> migration" where
  "resetExportData s = s\<lparr>isExportRunning := False, exportedWallets := [], exportErrors := []\<rparr>"

definition resetRestorationData :: "migration \<Rightarrow> migration" where
  "resetRestorationData s = s\<lparr>isRestorationRunning := False, restoredWallets := [], restorationErrors := []\<rparr>"

definition resetMigration :: "migration \<Rightarrow> migration" where
  "resetMigration s =
     (resetRestorationData (resetExportData s))\<lparr>exportSourcePath := [], walletMigrationStep := None\<rparr>"

definition initiateMigration :: "migration \<Rightarrow> migration" where
  "initiateMigration s = s\<lparr>walletMigrationStep := Some WALLET_IMPORT_FILE\<rparr>"

definition resetExportSourcePath :: "migration \<Rightarrow> migration" where
  "resetExportSourcePath s = s\<lparr>exportSourcePath := [], exportErrors := []\<rparr>"

text \<open>\<open>_selectExportSourcePath\<close>: the answer of the file dialog.\<close>

definition sourcePathSelected :: "string list option \<Rightarrow> migration \<Rightarrow> migration" where
  "sourcePathSelected filePaths s = (case filePaths of
       Some (p # ps) \<Rightarrow> s\<lparr>exportSourcePath := p, exportErrors := []\<rparr>
     | _ \<Rightarrow> s)"

section \<open>Export\<close>

definition exportWallets :: "migration \<Rightarrow> migration" where
  "exportWallets s =
     (let s1 = (resetExportData s)\<lparr>isExportRunning := True\<rparr>
      in perform (RequestExport (if exportSourcePath s1 \<noteq> [] then exportSourcePath s1 else defaultExportSourcePath s1)) s1)"

text \<open>
  \<open>imported i\<close> is the name of the wallet with the id \<open>legacy_i\<close>, when the wallets store has one.
\<close>

definition exported_of :: "(string \<Rightarrow> string option) \<Rightarrow> tool_wallet \<Rightarrow> exported_wallet" where
  "exported_of imported w =
     \<lparr>oid = 0, ew_id = tool_id w, ew_name = (case imported (tool_id w) of None \<Rightarrow> tool_name w | Some n \<Rightarrow> Some n),
      ew_isEmptyPassphrase = tool_isEmptyPassphrase w, hasName = (tool_name w \<noteq> None),
      import_status = (if imported (tool_id w) = None then UNSTARTED else EXISTS), import_error = None, index = 0\<rparr>"

definition exportAnswered ::
  "(exported_wallet list \<Rightarrow> exported_wallet list) \<Rightarrow> (string \<Rightarrow> string option) \<Rightarrow> tool_wallet list \<Rightarrow> bool \<Rightarrow> migration \<Rightarrow> migration" where
  "exportAnswered orderBy imported wallets errors s =
     (let ws = map (\<lambda>(i, w). w\<lparr>index := i, oid := objects s + i\<rparr>) (enumerate 1 (orderBy (map (exported_of imported) wallets)))
      in s\<lparr>exportedWallets := ws, exportErrors := (if errors \<or> ws = [] then ''No wallets found'' else []),
           isExportRunning := False, objects := objects s + length ws + 1\<rparr>)"

section \<open>Restoration\<close>

definition restoreWallet :: "nat \<Rightarrow> exported_wallet \<Rightarrow> migration \<Rightarrow> migration" where
  "restoreWallet b w s =
     await (RestoreOne b w) (perform (RequestRestore w) (updateWalletImportStatus (index w) RUNNING None s))"

text \<open>With nothing selected, \<open>Promise.all\<close> of no promises is over at once.\<close>

definition restoreWallets :: "migration \<Rightarrow> migration" where
  "restoreWallets s =
     (let s1 = (resetRestorationData s)\<lparr>isRestorationRunning := True, batches := Suc (batches s)\<rparr>;
          ws = pendingImportWallets s1
      in if ws = [] then s1\<lparr>isRestorationRunning := False\<rparr>
         else fold (restoreWallet (batches s)) ws s1)"

definition walletRestored :: "exported_wallet \<Rightarrow> restored_wallet \<Rightarrow> migration \<Rightarrow> migration" where
  "walletRestored w r s =
     (let s1 = update_duplicates (ew_id w) (index w)
                 (\<lambda>d. if import_status d \<noteq> COMPLETED then d\<lparr>import_status := COMPLETED\<rparr> else d)
                 (updateWalletImportStatus (index w) COMPLETED None s)
      in s1\<lparr>restoredWallets := restoredWallets s1 @ [r]\<rparr>)"

definition restorationFailed :: "exported_wallet \<Rightarrow> string \<Rightarrow> migration \<Rightarrow> migration" where
  "restorationFailed w error s =
     (let s1 = updateWalletImportStatus (index w) ERRORED (Some error) s
      in s1\<lparr>restorationErrors := restorationErrors s1 @ [(error, ew_id w, ew_name w, \<not> ew_isEmptyPassphrase w)]\<rparr>)"

definition is_of_batch :: "nat \<Rightarrow> task \<Rightarrow> bool" where
  "is_of_batch b t = (case t of RestoreOne b' w \<Rightarrow> b' = b | _ \<Rightarrow> False)"

text \<open>The answer for one wallet; the last one of its batch ends the restoration.\<close>

definition restoreAnswered :: "nat \<Rightarrow> exported_wallet \<Rightarrow> string + restored_wallet option \<Rightarrow> migration \<Rightarrow> migration" where
  "restoreAnswered b w answer s =
     (let s1 = (case answer of
            Inl error \<Rightarrow> restorationFailed w error s
          | Inr None \<Rightarrow> restorationFailed w ''Restored wallet was not received correctly'' s
          | Inr (Some r) \<Rightarrow> walletRestored w r s)
      in if list_ex (is_of_batch b) (tasks s1) then s1 else s1\<lparr>isRestorationRunning := False\<rparr>)"

section \<open>Steps and the end of the migration\<close>

definition nextStep :: "migration \<Rightarrow> migration" where
  "nextStep s = (if walletMigrationStep s = Some WALLET_IMPORT_FILE
     then await ExportThenNext (exportWallets s) else restoreWallets s)"

definition exportFinished :: "migration \<Rightarrow> migration" where
  "exportFinished s = (if exportedWallets s \<noteq> [] then s\<lparr>walletMigrationStep := Some WALLET_SELECT_IMPORT\<rparr> else s)"

definition finishMigration :: "bool \<Rightarrow> migration \<Rightarrow> migration" where
  "finishMigration isDialogOpen s =
     await FinishStatus (if isDialogOpen then perform CloseDialog s else s)"

definition endMigration :: "migration \<Rightarrow> migration" where
  "endMigration s = perform RefreshWallets (resetMigration s)"

definition statusRead :: "migration_status \<Rightarrow> migration \<Rightarrow> migration" where
  "statusRead status s =
     (if status = StatusRunning
      then await FinishWritten (perform (WriteStatus
             (if exportErrors s = [] \<and> restorationErrors s = [] then StatusCompleted else StatusErrored)) s)
      else endMigration s)"

definition reportStatusRead :: "migration_status \<Rightarrow> migration \<Rightarrow> migration" where
  "reportStatusRead status s =
     await FinishReported (perform (SendReport status (length (exportedWallets s)) (length (restoredWallets s))
       (length (restorationErrors s)) (exportErrors s)) s)"

text \<open>Automatic migration is switched off, so \<open>startMigration\<close> returns at once.\<close>

definition IS_AUTOMATIC_WALLET_MIGRATION_ENABLED :: bool where
  "IS_AUTOMATIC_WALLET_MIGRATION_ENABLED = False"

section \<open>The machine\<close>

datatype migration_event =
    Initiate
  | SelectedPath "string list option"
  | ResetPath
  | NextStep
  | Toggle nat
  | Rename nat string
  | ResetAll
  | Finish bool
  | ExportAnswer nat "string + (tool_wallet list \<times> bool)"
  | RestoreAnswer nat "string + restored_wallet option"
  | StatusAnswer nat "string + migration_status"
  | Acknowledged nat "string + unit"

definition resume :: "nat \<Rightarrow> (task \<Rightarrow> migration \<Rightarrow> migration option) \<Rightarrow> migration \<Rightarrow> migration" where
  "resume k f s =
     (if k < length (tasks s)
      then (case f (tasks s ! k) (s\<lparr>tasks := remove_nth k (tasks s)\<rparr>) of Some s' \<Rightarrow> s' | None \<Rightarrow> s)
      else s)"

text \<open>
  A rejected export, status or write ends its operation where it waits: none of them is caught. A rejected
  report is logged and the migration ends.
\<close>

fun migration_step ::
  "(exported_wallet list \<Rightarrow> exported_wallet list) \<Rightarrow> (string \<Rightarrow> string option) \<Rightarrow> migration \<Rightarrow> migration_event \<Rightarrow> migration" where
  "migration_step orderBy imported s Initiate = initiateMigration s"
| "migration_step orderBy imported s (SelectedPath ps) = sourcePathSelected ps s"
| "migration_step orderBy imported s ResetPath = resetExportSourcePath s"
| "migration_step orderBy imported s NextStep = nextStep s"
| "migration_step orderBy imported s (Toggle n) = toggleWalletImportSelection n s"
| "migration_step orderBy imported s (Rename n name) = updateWalletName n name s"
| "migration_step orderBy imported s ResetAll = resetMigration s"
| "migration_step orderBy imported s (Finish d) = finishMigration d s"
| "migration_step orderBy imported s (ExportAnswer k answer) = resume k (\<lambda>t s'. case t of
       ExportThenNext \<Rightarrow> Some (case answer of
           Inl e \<Rightarrow> s'
         | Inr (ws, errors) \<Rightarrow> exportFinished (exportAnswered orderBy imported ws errors s'))
     | _ \<Rightarrow> None) s"
| "migration_step orderBy imported s (RestoreAnswer k answer) = resume k (\<lambda>t s'. case t of
       RestoreOne b w \<Rightarrow> Some (restoreAnswered b w answer s')
     | _ \<Rightarrow> None) s"
| "migration_step orderBy imported s (StatusAnswer k answer) = resume k (\<lambda>t s'. case t of
       FinishStatus \<Rightarrow> Some (case answer of Inl e \<Rightarrow> s' | Inr status \<Rightarrow> statusRead status s')
     | FinishReport \<Rightarrow> Some (case answer of Inl e \<Rightarrow> s' | Inr status \<Rightarrow> reportStatusRead status s')
     | _ \<Rightarrow> None) s"
| "migration_step orderBy imported s (Acknowledged k answer) = resume k (\<lambda>t s'. case t of
       FinishWritten \<Rightarrow> Some (case answer of Inl e \<Rightarrow> s' | Inr x \<Rightarrow> await FinishReport s')
     | FinishReported \<Rightarrow> Some (endMigration s')
     | _ \<Rightarrow> None) s"

section \<open>At most one wallet of each id is selected\<close>

definition indexed :: "exported_wallet list \<Rightarrow> bool" where
  "indexed ws \<longleftrightarrow> map index ws = [1 ..< length ws + 1]"

definition one_selected :: "exported_wallet list \<Rightarrow> bool" where
  "one_selected ws \<longleftrightarrow> (\<forall>w \<in> set ws. \<forall>v \<in> set ws.
     import_status w = PENDING \<and> import_status v = PENDING \<and> ew_id w = ew_id v \<longrightarrow> index w = index v)"

lemma length_update_first [simp]: "length (update_first P f ws) = length ws"
  by (induction ws) auto

lemma map_update_first: "(\<And>w. g (f w) = g w) \<Longrightarrow> map g (update_first P f ws) = map g ws"
  by (induction ws) auto

lemma indexed_distinct: "indexed ws \<Longrightarrow> distinct (map index ws)"
  by (simp add: indexed_def)

lemma update_first_distinct:
  "distinct (map index ws) \<Longrightarrow> update_first (\<lambda>w. index w = n) f ws = map (\<lambda>w. if index w = n then f w else w) ws"
proof (induction ws)
  case (Cons a ws)
  show ?case
  proof (cases "index a = n")
    case True
    with Cons.prems have "\<forall>v \<in> set ws. index v \<noteq> n" by (auto simp: image_iff)
    then have "map (\<lambda>w. if index w = n then f w else w) ws = ws" by (simp add: map_idI)
    with True show ?thesis by simp
  next
    case False
    with Cons show ?thesis by simp
  qed
qed simp

lemma indexed_map: "(\<And>w. w \<in> set ws \<Longrightarrow> index (f w) = index w) \<Longrightarrow> indexed (map f ws) = indexed ws"
  by (simp add: indexed_def map_idI cong: map_cong)

text \<open>A change of the wallets that keeps ids and indices and selects no further wallet keeps the selection single.\<close>

lemma one_selected_map:
  assumes "one_selected ws" and "\<And>w. w \<in> set ws \<Longrightarrow> index (f w) = index w \<and> ew_id (f w) = ew_id w
     \<and> (import_status (f w) = PENDING \<longrightarrow> import_status w = PENDING)"
  shows "one_selected (map f ws)"
  unfolding one_selected_def
proof (intro ballI impI)
  fix a b
  assume "a \<in> set (map f ws)" "b \<in> set (map f ws)"
    and ab: "import_status a = PENDING \<and> import_status b = PENDING \<and> ew_id a = ew_id b"
  then obtain x y where xy: "x \<in> set ws" "a = f x" "y \<in> set ws" "b = f y" by auto
  from assms(2) [OF xy(1)] assms(2) [OF xy(3)] ab xy
  have "import_status x = PENDING" "import_status y = PENDING" "ew_id x = ew_id y"
    "index a = index x" "index b = index y" by simp_all
  with assms(1) xy show "index a = index b" unfolding one_selected_def by metis
qed

lemma wallets_updateWalletImportStatus:
  assumes "indexed (exportedWallets s)"
  shows "exportedWallets (updateWalletImportStatus n st e s)
       = map (\<lambda>w. if index w = n then w\<lparr>import_status := st, import_error := e\<rparr> else w) (exportedWallets s)"
    and "indexed (exportedWallets (updateWalletImportStatus n st e s))"
  using assms
  by (simp_all add: updateWalletImportStatus_def update_first_distinct indexed_distinct indexed_map)

lemma wallets_update_duplicates:
  "exportedWallets (update_duplicates i n f s)
   = map (\<lambda>w. if ew_id w = i \<and> index w \<noteq> n then f w else w) (exportedWallets s)"
  by (simp add: update_duplicates_def)

lemma found_by_index:
  "getExportedWalletByIndex n s = Some w \<Longrightarrow> w \<in> set (exportedWallets s) \<and> index w = n"
  by (auto simp: getExportedWalletByIndex_def find_Some_iff)

lemma same_index: "indexed ws \<Longrightarrow> w \<in> set ws \<Longrightarrow> v \<in> set ws \<Longrightarrow> index w = index v \<Longrightarrow> w = v"
  using indexed_distinct [of ws] by (simp add: distinct_map inj_on_def)

lemma selection_moved:
  assumes "indexed ws" and "one_selected ws" and "w \<in> set ws" and "index w = n"
    and k: "\<And>v. index (h v) = index v \<and> ew_id (h v) = ew_id v"
    and off: "\<And>v. import_status (h v) = PENDING \<Longrightarrow> index v \<noteq> n \<Longrightarrow> ew_id v \<noteq> ew_id w \<and> import_status v = PENDING"
  shows "indexed (map h ws) \<and> one_selected (map h ws)"
proof -
  have "index a = index b"
    if a: "a \<in> set (map h ws)" and b: "b \<in> set (map h ws)"
      and ab: "import_status a = PENDING" "import_status b = PENDING" "ew_id a = ew_id b" for a b
  proof -
    from a b obtain x y where x: "x \<in> set ws" "a = h x" and y: "y \<in> set ws" "b = h y" by auto
    from x y ab(3) k have ids: "ew_id x = ew_id y" by metis
    have same: "v = w" if "v \<in> set ws" "index v = n" for v
      using same_index [OF assms(1) that(1) assms(3)] that(2) assms(4) by metis
    have offx: "index x \<noteq> n \<Longrightarrow> ew_id x \<noteq> ew_id w \<and> import_status x = PENDING" using off ab(1) x(2) by metis
    have offy: "index y \<noteq> n \<Longrightarrow> ew_id y \<noteq> ew_id w \<and> import_status y = PENDING" using off ab(2) y(2) by metis
    have "index x = index y"
    proof (cases "index x = n \<or> index y = n")
      case True
      then have "x = w \<or> y = w" using same x(1) y(1) by metis
      then have "index x = n \<and> index y = n" using offx offy ids by metis
      then show ?thesis by metis
    next
      case False
      with offx offy ids x(1) y(1) assms(2) show ?thesis unfolding one_selected_def by metis
    qed
    with x y k show ?thesis by metis
  qed
  then show ?thesis using assms(1) k by (simp only: indexed_map one_selected_def) metis
qed

lemma toggle_keeps:
  assumes "indexed (exportedWallets s)" and "one_selected (exportedWallets s)"
  shows "indexed (exportedWallets (toggleWalletImportSelection n s))
       \<and> one_selected (exportedWallets (toggleWalletImportSelection n s))"
proof (cases "getExportedWalletByIndex n s")
  case None
  with assms show ?thesis by (simp add: toggleWalletImportSelection_def)
next
  case (Some w)
  let ?st = "if import_status w = PENDING then UNSTARTED else PENDING"
  let ?f = "\<lambda>v. if index v = n then v\<lparr>import_status := ?st, import_error := None\<rparr> else v"
  let ?g = "\<lambda>v. if ew_id v = ew_id w \<and> index v \<noteq> n
                then if import_status v = PENDING then v\<lparr>import_status := UNSTARTED\<rparr> else v else v"
  from found_by_index [OF Some] have w: "w \<in> set (exportedWallets s)" "index w = n" by simp_all
  have ws: "exportedWallets (toggleWalletImportSelection n s) = map (\<lambda>v. ?g (?f v)) (exportedWallets s)"
  proof -
    have "exportedWallets (toggleWalletImportSelection n s)
        = map ?g (exportedWallets (updateWalletImportStatus n ?st None s))"
      by (simp only: toggleWalletImportSelection_def Some option.case wallets_update_duplicates)
    then show ?thesis
      by (simp only: wallets_updateWalletImportStatus [OF assms(1)] map_map o_def)
  qed
  show ?thesis
    unfolding ws
  proof (rule selection_moved [OF assms w])
    show "index (?g (?f v)) = index v \<and> ew_id (?g (?f v)) = ew_id v" for v by simp
    show "ew_id v \<noteq> ew_id w \<and> import_status v = PENDING"
      if "import_status (?g (?f v)) = PENDING" "index v \<noteq> n" for v
    proof -
      from that(2) have "?f v = v" by (simp only: if_False)
      with that show ?thesis by (cases "ew_id v = ew_id w"; cases "import_status v = PENDING") simp_all
    qed
  qed
qed

text \<open>The other changes of the wallets select nothing.\<close>

definition wallets_ok :: "migration \<Rightarrow> bool" where
  "wallets_ok s \<longleftrightarrow> indexed (exportedWallets s) \<and> one_selected (exportedWallets s)"

lemma wallets_ok_map:
  assumes "wallets_ok s" and "\<And>w. index (f w) = index w \<and> ew_id (f w) = ew_id w
     \<and> (import_status (f w) = PENDING \<longrightarrow> import_status w = PENDING)"
    and "exportedWallets s' = map f (exportedWallets s)"
  shows "wallets_ok s'"
  using assms one_selected_map [of "exportedWallets s" f] by (simp add: wallets_ok_def indexed_map)

lemma wallets_ok_status:
  assumes "wallets_ok s" and "st \<noteq> PENDING"
  shows "wallets_ok (updateWalletImportStatus n st e s)"
  by (rule wallets_ok_map [OF assms(1) _ wallets_updateWalletImportStatus(1)])
    (use assms in \<open>auto simp: wallets_ok_def\<close>)

lemma wallets_ok_name: "wallets_ok s \<Longrightarrow> wallets_ok (updateWalletName n name s)"
proof (cases "getExportedWalletByIndex n s")
  case (Some w)
  assume s: "wallets_ok s"
  then have "exportedWallets (updateWalletName n name s)
      = map (\<lambda>v. if index v = n then v\<lparr>ew_name := Some name\<rparr> else v) (exportedWallets s)"
    using Some by (simp add: updateWalletName_def update_first_distinct indexed_distinct wallets_ok_def)
  then show ?thesis by (rule wallets_ok_map [OF s, rotated]) simp
qed (simp add: updateWalletName_def)

lemma wallets_ok_Nil: "exportedWallets s = [] \<Longrightarrow> wallets_ok s"
  by (simp add: wallets_ok_def indexed_def one_selected_def)

lemma wallets_ok_cong: "exportedWallets s' = exportedWallets s \<Longrightarrow> wallets_ok s' = wallets_ok s"
  by (simp add: wallets_ok_def)

lemma wallets_ok_export:
  assumes "set (orderBy (map (exported_of imported) ws)) \<subseteq> set (map (exported_of imported) ws)"
  shows "wallets_ok (exportAnswered orderBy imported ws errors s)"
proof -
  let ?vs = "orderBy (map (exported_of imported) ws)"
  let ?ws = "map (\<lambda>(i, w). w\<lparr>index := i, oid := objects s + i\<rparr>) (enumerate 1 ?vs)"
  have i: "map index (map (\<lambda>(i, w). w\<lparr>index := i, oid := f i\<rparr>) (enumerate n xs)) = [n ..< length xs + n]" for f n xs
    by (induction xs arbitrary: n) (simp_all add: upt_rec)
  have "import_status w \<noteq> PENDING" if "w \<in> set ?ws" for w
  proof -
    from that obtain k v where v: "(k, v) \<in> set (enumerate 1 ?vs)" "w = v\<lparr>index := k, oid := objects s + k\<rparr>" by auto
    from v(1) have "v \<in> set ?vs" by (metis in_set_enumerate_eq nth_mem snd_conv le_add_diff_inverse less_diff_conv2
        add.commute)
    with assms have "v \<in> set (map (exported_of imported) ws)" by blast
    then obtain x where "v = exported_of imported x" by auto
    then have "import_status v \<noteq> PENDING" by (simp add: exported_of_def)
    with v(2) show ?thesis by simp
  qed
  then show ?thesis
    using i [of "\<lambda>i. objects s + i" 1 ?vs]
    by (simp add: wallets_ok_def indexed_def one_selected_def exportAnswered_def Let_def)
qed

lemma wallets_ok_restored: "wallets_ok s \<Longrightarrow> wallets_ok (walletRestored w r s)"
proof -
  assume s: "wallets_ok s"
  have "wallets_ok (updateWalletImportStatus (index w) COMPLETED None s)" by (rule wallets_ok_status [OF s]) simp
  from wallets_ok_map [OF this _ wallets_update_duplicates] have
    "wallets_ok (update_duplicates (ew_id w) (index w)
       (\<lambda>d. if import_status d \<noteq> COMPLETED then d\<lparr>import_status := COMPLETED\<rparr> else d)
       (updateWalletImportStatus (index w) COMPLETED None s))" by simp
  then show ?thesis by (simp add: walletRestored_def Let_def wallets_ok_def)
qed

lemma wallets_ok_failed: "wallets_ok s \<Longrightarrow> wallets_ok (restorationFailed w e s)"
  using wallets_ok_status [of s ERRORED] by (simp add: restorationFailed_def Let_def wallets_ok_def)

lemma wallets_ok_answered: "wallets_ok s \<Longrightarrow> wallets_ok (restoreAnswered b w answer s)"
  using wallets_ok_restored [of s] wallets_ok_failed [of s]
  by (auto simp: restoreAnswered_def Let_def wallets_ok_def split: sum.split option.split)

lemma wallets_ok_restoreWallet: "wallets_ok s \<Longrightarrow> wallets_ok (restoreWallet b w s)"
  using wallets_ok_status [of s RUNNING] by (simp add: restoreWallet_def await_def perform_def wallets_ok_def)

lemma wallets_ok_fold: "wallets_ok s \<Longrightarrow> wallets_ok (fold (restoreWallet b) ws s)"
  by (induction ws arbitrary: s) (simp_all add: wallets_ok_restoreWallet)

lemma wallets_ok_restoreWallets: "wallets_ok s \<Longrightarrow> wallets_ok (restoreWallets s)"
  by (auto simp: restoreWallets_def Let_def resetRestorationData_def intro!: wallets_ok_fold)
    (simp_all add: wallets_ok_def)

lemma wallets_ok_finished: "wallets_ok s \<Longrightarrow> wallets_ok (exportFinished s)"
  by (subst wallets_ok_cong [where s = s]) (simp_all add: exportFinished_def)

definition permutes_exports :: "(exported_wallet list \<Rightarrow> exported_wallet list) \<Rightarrow> bool" where
  "permutes_exports orderBy \<longleftrightarrow> (\<forall>ws. mset (orderBy ws) = mset ws)"

lemma wallets_ok_resume:
  assumes "wallets_ok s" "\<And>t s' s''. f t s' = Some s'' \<Longrightarrow> wallets_ok s' \<Longrightarrow> wallets_ok s''"
  shows "wallets_ok (resume k f s)"
  using assms(1) assms(2) [of "tasks s ! k" "s\<lparr>tasks := remove_nth k (tasks s)\<rparr>"]
  by (auto simp: resume_def wallets_ok_def split: option.split)

lemma wallets_ok_step:
  assumes "permutes_exports orderBy" and "wallets_ok s"
  shows "wallets_ok (migration_step orderBy imported s e)"
proof -
  have perm: "set (orderBy ws) \<subseteq> set ws" for ws
    using assms(1) by (metis permutes_exports_def set_mset_mset subset_refl)
  note frames = wallets_ok_def await_def perform_def resetMigration_def resetExportData_def resetRestorationData_def
    initiateMigration_def resetExportSourcePath_def sourcePathSelected_def finishMigration_def endMigration_def
    statusRead_def reportStatusRead_def exportFinished_def exportWallets_def Let_def
  have nil: "indexed []" "one_selected []" by (simp_all add: indexed_def one_selected_def)
  show ?thesis
  proof (cases e)
    case (Toggle n)
    with toggle_keeps assms(2) show ?thesis by (simp add: wallets_ok_def)
  next
    case NextStep
    with assms(2) nil wallets_ok_restoreWallets [of s] show ?thesis by (auto simp: nextStep_def frames)
  next
    case (ExportAnswer k a)
    show ?thesis unfolding ExportAnswer migration_step.simps
    proof (rule wallets_ok_resume [OF assms(2)])
      fix t s' s''
      assume "(case t of ExportThenNext \<Rightarrow> Some (case a of Inl e \<Rightarrow> s'
         | Inr (ws, errors) \<Rightarrow> exportFinished (exportAnswered orderBy imported ws errors s')) | _ \<Rightarrow> None) = Some s''"
        "wallets_ok s'"
      with wallets_ok_export [where orderBy = orderBy and imported = imported, OF perm] show "wallets_ok s''"
        by (auto intro: wallets_ok_finished split: task.splits sum.splits)
    qed
  next
    case (RestoreAnswer k a)
    show ?thesis unfolding RestoreAnswer migration_step.simps
      by (rule wallets_ok_resume [OF assms(2)]) (auto intro: wallets_ok_answered split: task.splits)
  next
    case (StatusAnswer k a)
    show ?thesis unfolding StatusAnswer migration_step.simps
      by (rule wallets_ok_resume [OF assms(2)]) (use nil in \<open>auto simp: frames split: task.splits sum.splits if_splits\<close>)
  next
    case (Acknowledged k a)
    show ?thesis unfolding Acknowledged migration_step.simps
      by (rule wallets_ok_resume [OF assms(2)]) (use nil in \<open>auto simp: frames split: task.splits sum.splits if_splits\<close>)
  qed (use assms(2) nil wallets_ok_name in \<open>auto simp: frames split: option.split list.split\<close>)
qed


interpretation migration: machine "migration_step orderBy imported" "\<lambda>s. permutes_exports orderBy \<and> wallets_ok s"
  for orderBy imported
  by unfold_locales (simp add: wallets_ok_step)

text \<open>
  Duplicated wallets are told apart and never selected together. Whatever the user does and whatever the
  export tool and the backend answer, in any order, the exported wallets are indexed from one without gaps, and at
  most one wallet of each id is selected for import. The only assumption is that lodash's \<open>orderBy\<close>
  rearranges its input.
\<close>

theorem selection_has_no_duplicates:
  assumes "permutes_exports orderBy"
  shows "let s = run (migration_step orderBy imported) (new_WalletMigrationStore dir) events
         in map index (exportedWallets s) = [1 ..< length (exportedWallets s) + 1]
          \<and> distinct (map ew_id (pendingImportWallets s))"
proof -
  let ?s = "run (migration_step orderBy imported) (new_WalletMigrationStore dir) events"
  have "wallets_ok (new_WalletMigrationStore dir)" by (rule wallets_ok_Nil) (simp add: new_WalletMigrationStore_def)
  with assms migration.run_inv have ok: "wallets_ok ?s" by blast
  then have i: "indexed (exportedWallets ?s)" and one: "one_selected (exportedWallets ?s)" by (simp_all add: wallets_ok_def)
  have "distinct (map index (pendingImportWallets ?s))"
    using indexed_distinct [OF i] by (simp add: pendingImportWallets_def distinct_map_filter)
  moreover have "index w = index v" if "w \<in> set (pendingImportWallets ?s)" "v \<in> set (pendingImportWallets ?s)"
      "ew_id w = ew_id v" for w v
    using that one unfolding pendingImportWallets_def one_selected_def set_filter mem_Collect_eq by metis
  ultimately have "distinct (map ew_id (pendingImportWallets ?s))"
    unfolding distinct_map inj_on_def by metis
  with i show ?thesis by (simp only: Let_def indexed_def simp_thms)
qed

definition two_copies :: "tool_wallet list" where
  "two_copies = [\<lparr>tool_id = ''ab'', tool_name = None, tool_isEmptyPassphrase = True\<rparr>,
                 \<lparr>tool_id = ''ab'', tool_name = Some ''Copy'', tool_isEmptyPassphrase = False\<rparr>]"

lemma selection_has_no_duplicates_witness:
  "(let s = run (migration_step rev (\<lambda>i. None)) (new_WalletMigrationStore ''dir'')
         [Initiate, NextStep, ExportAnswer 0 (Inr (two_copies, False)), Toggle 1, Toggle 2]
     in map index (exportedWallets s) = [1 ..< length (exportedWallets s) + 1]
      \<and> distinct (map ew_id (pendingImportWallets s)))
   \<and> map index (pendingImportWallets (run (migration_step rev (\<lambda>i. None)) (new_WalletMigrationStore ''dir'')
         [Initiate, NextStep, ExportAnswer 0 (Inr (two_copies, False)), Toggle 1, Toggle 2])) = [2]"
  by (rule conjI, rule selection_has_no_duplicates, simp add: permutes_exports_def) code_simp

section \<open>Every restoration ends\<close>

text \<open>Answers for \<open>n\<close> waiting restorations, in any order: each names the position of the one it settles.\<close>

fun deliverable :: "nat \<Rightarrow> (nat \<times> (string + restored_wallet option)) list \<Rightarrow> bool" where
  "deliverable n [] = (n = 0)"
| "deliverable n (a # as) = (fst a < n \<and> deliverable (n - 1) as)"

definition received :: "nat \<times> (string + restored_wallet option) \<Rightarrow> bool" where
  "received a = (case snd a of Inr (Some r) \<Rightarrow> True | _ \<Rightarrow> False)"

definition settled :: "migration \<Rightarrow> nat \<times> nat" where
  "settled s = (length (restoredWallets s), length (restorationErrors s))"

lemma updates_settle_nothing [simp]:
  "restoredWallets (updateWalletImportStatus n st e s) = restoredWallets s"
  "restorationErrors (updateWalletImportStatus n st e s) = restorationErrors s"
  "tasks (updateWalletImportStatus n st e s) = tasks s"
  "restoredWallets (update_duplicates i n f s) = restoredWallets s"
  "restorationErrors (update_duplicates i n f s) = restorationErrors s"
  "tasks (update_duplicates i n f s) = tasks s"
  by (simp_all add: updateWalletImportStatus_def update_duplicates_def)

lemma answer_settles_one:
  "settled (restoreAnswered b w answer s)
     = (if received (k, answer) then (Suc (fst (settled s)), snd (settled s)) else (fst (settled s), Suc (snd (settled s))))"
  "tasks (restoreAnswered b w answer s) = tasks s"
  by (auto simp: restoreAnswered_def settled_def received_def Let_def walletRestored_def restorationFailed_def
      split: sum.split option.split)

lemma last_answer_stops:
  "tasks s = [] \<Longrightarrow> \<not> isRestorationRunning (restoreAnswered b w answer s)"
proof -
  assume t: "tasks s = []"
  then have "\<not> list_ex (is_of_batch b) (tasks (restoreAnswered b w answer s))" by (simp add: answer_settles_one(2))
  then show ?thesis by (auto simp: restoreAnswered_def Let_def split: if_splits)
qed

definition only_restorations :: "nat \<Rightarrow> migration \<Rightarrow> bool" where
  "only_restorations b s \<longleftrightarrow> list_all (is_of_batch b) (tasks s)"

lemma only_restorationsD:
  assumes "only_restorations b s" and "k < length (tasks s)"
  obtains w where "tasks s ! k = RestoreOne b w"
proof -
  from assms have "is_of_batch b (tasks s ! k)" by (simp add: only_restorations_def list_all_length)
  with that show thesis by (auto simp: is_of_batch_def split: task.splits)
qed

lemma restoration_run:
  assumes "only_restorations b s" and "deliverable (length (tasks s)) as"
    and "tasks s = [] \<longrightarrow> \<not> isRestorationRunning s"
  shows "let s' = run (migration_step orderBy imported) s (map (\<lambda>a. RestoreAnswer (fst a) (snd a)) as)
         in tasks s' = [] \<and> \<not> isRestorationRunning s'
          \<and> settled s' = (fst (settled s) + length (filter received as),
                          snd (settled s) + length (filter (\<lambda>a. \<not> received a) as))"
  using assms
proof (induction as arbitrary: s)
  case Nil
  then show ?case by simp
next
  case (Cons a as)
  then have k: "fst a < length (tasks s)" by simp
  from only_restorationsD [OF Cons.prems(1) k] obtain w where w: "tasks s ! fst a = RestoreOne b w" .
  let ?s0 = "s\<lparr>tasks := remove_nth (fst a) (tasks s)\<rparr>"
  define s1 where "s1 = restoreAnswered b w (snd a) ?s0"
  have step: "migration_step orderBy imported s (RestoreAnswer (fst a) (snd a)) = s1"
    by (simp add: s1_def resume_def k w)
  have ts: "tasks s1 = remove_nth (fst a) (tasks s)" by (simp add: s1_def answer_settles_one)
  have only: "only_restorations b s1"
    using Cons.prems(1) set_remove_nth [of "fst a" "tasks s"]
    by (auto simp: only_restorations_def ts list_all_iff)
  have rest: "deliverable (length (tasks s1)) as" using Cons.prems(2) k by (simp add: ts length_remove_nth)
  have stop: "tasks s1 = [] \<longrightarrow> \<not> isRestorationRunning s1"
    using last_answer_stops [of ?s0] ts by (simp add: s1_def)
  have "settled s1 = (if received a then (Suc (fst (settled s)), snd (settled s)) else (fst (settled s), Suc (snd (settled s))))"
    using answer_settles_one(1) [of b w "snd a" ?s0 "fst a"] by (simp add: s1_def settled_def)
  with Cons.IH [OF only rest stop] show ?case
    by (simp add: step Let_def del: migration_step.simps split: if_splits)
qed

lemma restore_frame [simp]:
  "restoredWallets (restoreWallet b w s) = restoredWallets s"
  "restorationErrors (restoreWallet b w s) = restorationErrors s"
  "tasks (restoreWallet b w s) = tasks s @ [RestoreOne b w]"
  "exportedWallets (restoreWallet b w s) = exportedWallets (updateWalletImportStatus (index w) RUNNING None s)"
  by (simp_all add: restoreWallet_def await_def perform_def)

lemma restore_fold:
  "tasks (fold (restoreWallet b) ws s) = tasks s @ map (RestoreOne b) ws"
  "restoredWallets (fold (restoreWallet b) ws s) = restoredWallets s"
  "restorationErrors (fold (restoreWallet b) ws s) = restorationErrors s"
  by (induction ws arbitrary: s) simp_all

lemma restoration_starts:
  assumes "walletMigrationStep s \<noteq> Some WALLET_IMPORT_FILE" and "tasks s = []"
  shows "tasks (nextStep s) = map (RestoreOne (batches s)) (pendingImportWallets s)"
    and "settled (nextStep s) = (0, 0)"
    and "pendingImportWallets s = [] \<Longrightarrow> \<not> isRestorationRunning (nextStep s)"
  using assms
  by (auto simp: nextStep_def restoreWallets_def Let_def restore_fold resetRestorationData_def settled_def
      pendingImportWallets_def)


definition two_selected :: migration where
  "two_selected = (new_WalletMigrationStore ''dir'')
     \<lparr>walletMigrationStep := Some WALLET_SELECT_IMPORT,
      exportedWallets := map (\<lambda>i. \<lparr>oid = i, ew_id = [char_of i], ew_name = None, ew_isEmptyPassphrase = True,
        hasName = False, import_status = (if i = 2 then UNSTARTED else PENDING), import_error = None, index = i\<rparr>) [1, 2, 3]\<rparr>"


section \<open>Errors the store does not handle\<close>

text \<open>
  A rejected export is not caught: the store shows a running export, without an error, at the same step; an
  answer that arrives after a reset fills the lists of the store that was reset.
\<close>

theorem rejected_export_stays_running:
  assumes "walletMigrationStep s = Some WALLET_IMPORT_FILE" and "tasks s = []"
  shows "let s' = run (migration_step orderBy imported) s [NextStep, ExportAnswer 0 (Inl e)]
         in isExportRunning s' \<and> exportErrors s' = [] \<and> exportedWallets s' = [] \<and> tasks s' = []
          \<and> walletMigrationStep s' = Some WALLET_IMPORT_FILE"
  using assms
  by (simp add: nextStep_def exportWallets_def Let_def await_def perform_def resetExportData_def resume_def remove_nth_def)

lemma rejected_export_stays_running_witness:
  "let s' = run (migration_step rev (\<lambda>i. None)) (initiateMigration (new_WalletMigrationStore ''dir''))
       [NextStep, ExportAnswer 0 (Inl ''no tool'')]
   in isExportRunning s' \<and> exportErrors s' = [] \<and> exportedWallets s' = [] \<and> tasks s' = []
    \<and> walletMigrationStep s' = Some WALLET_IMPORT_FILE"
  by (rule rejected_export_stays_running) (simp_all add: initiateMigration_def new_WalletMigrationStore_def)

theorem reset_does_not_cancel_a_restoration:
  assumes "tasks s = [RestoreOne b w]"
  shows "restoredWallets (run (migration_step orderBy imported) s [ResetAll, RestoreAnswer 0 (Inr (Some r))]) = [r]"
  using assms
  by (simp add: resetMigration_def resetExportData_def resetRestorationData_def resume_def remove_nth_def
      restoreAnswered_def walletRestored_def Let_def)

lemma reset_does_not_cancel_a_restoration_witness:
  "restoredWallets (run (migration_step rev (\<lambda>i. None))
     (two_selected\<lparr>tasks := [RestoreOne 0 (hd (exportedWallets two_selected))]\<rparr>)
     [ResetAll, RestoreAnswer 0 (Inr (Some \<lparr>rw_id = ''legacy_1'', rw_name = ''One''\<rparr>))])
   = [\<lparr>rw_id = ''legacy_1'', rw_name = ''One''\<rparr>]"
  by (rule reset_does_not_cancel_a_restoration) simp

end
