(* ===== verification/Texts.thy ===== *)
theory Texts imports JsValues "HOL-Library.Char_ord" begin

text \<open>
  Texts of whole numbers, as \<open>Number.toString\<close> prints them and \<open>parseInt(s, 10)\<close> reads them, and
  \<open>split\<close> and \<open>join\<close> as inverses. The components that put numbers into texts share them.
\<close>

section \<open>Whole numbers as texts\<close>

definition digit_char :: "nat \<Rightarrow> char" where
  "digit_char d = char_of (48 + d)"

definition is_decimal_digit :: "char \<Rightarrow> bool" where
  "is_decimal_digit c \<longleftrightarrow> 48 \<le> (of_char c :: nat) \<and> (of_char c :: nat) \<le> 57"

definition digit_value :: "char \<Rightarrow> nat" where
  "digit_value c = of_char c - 48"

fun nat_text :: "nat \<Rightarrow> string" where
  "nat_text n = (if n < 10 then [digit_char n] else nat_text (n div 10) @ [digit_char (n mod 10)])"

declare nat_text.simps [simp del]

definition int_text :: "int \<Rightarrow> string" where
  "int_text i = (if i < 0 then CHR ''-'' # nat_text (nat (- i)) else nat_text (nat i))"

definition nat_of_text :: "string \<Rightarrow> nat option" where
  "nat_of_text s = (if s \<noteq> [] \<and> list_all is_decimal_digit s
     then Some (foldl (\<lambda>n c. 10 * n + digit_value c) 0 s) else None)"

definition int_of_text :: "string \<Rightarrow> int option" where
  "int_of_text s = (case s of
       [] \<Rightarrow> None
     | c # cs \<Rightarrow> if c = CHR ''-'' then map_option (\<lambda>n. - int n) (nat_of_text cs) else map_option int (nat_of_text s))"

lemma of_char_digit [simp]: "d < 10 \<Longrightarrow> of_char (digit_char d) = 48 + d"
  by (simp add: digit_char_def)

lemma digit_char_simps [simp]:
  assumes "d < 10"
  shows "is_decimal_digit (digit_char d)" "digit_value (digit_char d) = d"
  using assms by (simp_all add: is_decimal_digit_def digit_value_def)

lemma nat_text_digits: "list_all is_decimal_digit (nat_text n)"
proof (induction n rule: nat_text.induct)
  case (1 n)
  then show ?case by (subst nat_text.simps) auto
qed

lemma nat_text_nonempty [simp]: "nat_text n \<noteq> []"
  by (subst nat_text.simps) simp

lemma foldl_nat_text: "foldl (\<lambda>n c. 10 * n + digit_value c) 0 (nat_text n) = n"
proof (induction n rule: nat_text.induct)
  case (1 n)
  then show ?case by (subst nat_text.simps) auto
qed

lemma nat_of_nat_text [simp]: "nat_of_text (nat_text n) = Some n"
  by (simp add: nat_of_text_def nat_text_digits foldl_nat_text)

lemma nat_text_no_char:
  "\<not> is_decimal_digit c \<Longrightarrow> c \<notin> set (nat_text n)"
  using nat_text_digits [of n] by (auto simp: list_all_iff)

lemma minus_not_digit [simp]: "\<not> is_decimal_digit (CHR ''-'')" "\<not> is_decimal_digit (CHR ''/'')"
  "\<not> is_decimal_digit (CHR ''H'')" "\<not> is_decimal_digit (CHR 0x27)" "\<not> is_decimal_digit (CHR ''.'')"
  by (simp_all add: is_decimal_digit_def)

lemma hd_nat_text: "is_decimal_digit (hd (nat_text n))"
  using nat_text_digits [of n] by (cases "nat_text n") auto

lemma int_of_int_text [simp]: "int_of_text (int_text i) = Some i"
proof (cases "i < 0")
  case True
  then show ?thesis by (simp add: int_text_def int_of_text_def)
next
  case False
  obtain c cs where c: "nat_text (nat i) = c # cs" by (cases "nat_text (nat i)") auto
  with hd_nat_text [of "nat i"] have "c \<noteq> CHR ''-''" by auto
  with False c show ?thesis
    using nat_of_nat_text [of "nat i"] by (simp add: int_text_def int_of_text_def)
qed

lemma inj_nat_text: "nat_text m = nat_text n \<longleftrightarrow> m = n"
  using nat_of_nat_text by (metis option.inject)

lemma inj_int_text: "int_text m = int_text n \<longleftrightarrow> m = n"
  using int_of_int_text by (metis option.inject)

lemma int_text_nonempty [simp]: "int_text i \<noteq> []"
  by (simp add: int_text_def)

section \<open>Splitting and joining\<close>

fun join_with :: "string \<Rightarrow> string list \<Rightarrow> string" where
  "join_with sep [] = []"
| "join_with sep [w] = w"
| "join_with sep (w # ws) = w @ sep @ join_with sep ws"

lemma split_on_absent: "c \<notin> set w \<Longrightarrow> split_on c w = [w]"
  by (induction w) auto

lemma split_on_append: "c \<notin> set w \<Longrightarrow> split_on c (w @ c # s) = w # split_on c s"
  by (induction w) auto

lemma split_join: "ws \<noteq> [] \<Longrightarrow> \<forall>w \<in> set ws. c \<notin> set w \<Longrightarrow> split_on c (join_with [c] ws) = ws"
proof (induction ws rule: induct_list012)
  case (2 w)
  then show ?case by (simp add: split_on_absent)
next
  case (3 w v ws)
  then show ?case by (simp add: split_on_append)
qed simp

end
