(* ===== verification/Transactions.thy ===== *)
theory Transactions imports ApiData Texts begin

text \<open>
  The transactions of a wallet and their filters: \<open>utils/transaction.js\<close> (the filter's tests, its form
  and its defaults), \<open>stores/TransactionsStore.js\<close> and the amounts of \<open>utils/validations.js\<close>. The
  libraries for dates and decimals are parameters: what the code relies on of them is
  named in \<open>calendar_laws\<close> and \<open>decimal_laws\<close>.
\<close>

section \<open>Dates, decimals and search patterns\<close>

text \<open>
  \<open>moment(s).valueOf()\<close>, \<open>moment(s).startOf('day').valueOf()\<close> and \<open>endOf\<close>, which are not a
  number for a text that is no date; \<open>moment(t).format('YYYY-MM-DD')\<close>; \<open>getTime()\<close> of a transaction's
  date, here as the text it was made from.
\<close>

record calendar =
  time_of :: "string \<Rightarrow> int"
  day_value :: "string \<Rightarrow> int option"
  day_start :: "string \<Rightarrow> int option"
  day_end :: "string \<Rightarrow> int option"
  format_day :: "int \<Rightarrow> string"

text \<open>\<open>new BigNumber(s)\<close>, which is not a number for other texts, and \<open>toString\<close>.\<close>

record decimals =
  number_of :: "string \<Rightarrow> rat option"
  text_of :: "rat \<Rightarrow> string"

text \<open>\<open>new RegExp(s, 'i')\<close>, which throws when \<open>s\<close> is no pattern, and whether a text contains a match.\<close>

type_synonym patterns = "string \<Rightarrow> (string \<Rightarrow> bool) option"

text \<open>Comparisons with \<open>NaN\<close> are false.\<close>

definition at_least :: "'a::linorder \<Rightarrow> 'a option \<Rightarrow> bool" where
  "at_least x m = (case m of None \<Rightarrow> False | Some v \<Rightarrow> v \<le> x)"

definition at_most :: "'a::linorder \<Rightarrow> 'a option \<Rightarrow> bool" where
  "at_most x m = (case m of None \<Rightarrow> False | Some v \<Rightarrow> x \<le> v)"

definition greater :: "'a::linorder option \<Rightarrow> 'a option \<Rightarrow> bool" where
  "greater a b = (case (a, b) of (Some x, Some y) \<Rightarrow> x > y | _ \<Rightarrow> False)"

section \<open>The filter\<close>

datatype date_range = NoRange | LAST_7_DAYS | LAST_30_DAYS | LAST_90_DAYS | THIS_YEAR | CUSTOM

text \<open>Every field is optional.\<close>

record filter_options =
  searchTerm :: "string option"
  searchLimit :: "nat option"
  searchSkip :: "nat option"
  dateRange :: "date_range option"
  fromDate :: "string option"
  toDate :: "string option"
  fromAmount :: "string option"
  toAmount :: "string option"
  incomingChecked :: "bool option"
  outgoingChecked :: "bool option"

definition no_options :: filter_options where
  "no_options = \<lparr>searchTerm = None, searchLimit = None, searchSkip = None, dateRange = None, fromDate = None,
     toDate = None, fromAmount = None, toAmount = None, incomingChecked = None, outgoingChecked = None\<rparr>"

definition INITIAL_SEARCH_LIMIT :: "nat option" where "INITIAL_SEARCH_LIMIT = None"
definition SEARCH_SKIP :: nat where "SEARCH_SKIP = 0"

definition emptyTransactionFilterOptions :: filter_options where
  "emptyTransactionFilterOptions = \<lparr>searchTerm = Some [], searchLimit = INITIAL_SEARCH_LIMIT,
     searchSkip = Some SEARCH_SKIP, dateRange = Some NoRange, fromDate = Some [], toDate = Some [],
     fromAmount = Some [], toAmount = Some [], incomingChecked = Some True, outgoingChecked = Some True\<rparr>"

definition default :: "'a \<Rightarrow> 'a option \<Rightarrow> 'a" where
  "default d x = (case x of None \<Rightarrow> d | Some v \<Rightarrow> v)"

definition isTransactionDateInFilterRange :: "calendar \<Rightarrow> string \<Rightarrow> string \<Rightarrow> wallet_transaction \<Rightarrow> bool" where
  "isTransactionDateInFilterRange C from to t = (case transaction_date t of
       None \<Rightarrow> True
     | Some d \<Rightarrow>
         (if from \<noteq> [] then at_least (time_of C d) (day_start C from) else True)
       \<and> (if to \<noteq> [] then at_most (time_of C d) (day_end C to) else True))"

definition amount_bound :: "decimals \<Rightarrow> string \<Rightarrow> rat option" where
  "amount_bound D s = (if s = ''.'' \<or> s = [] then Some 0 else number_of D s)"

definition isTransactionAmountInFilterRange :: "decimals \<Rightarrow> string \<Rightarrow> string \<Rightarrow> wallet_transaction \<Rightarrow> bool" where
  "isTransactionAmountInFilterRange D from to t \<longleftrightarrow>
     (if from \<noteq> [] then at_least (abs (transaction_amount t)) (amount_bound D from) else True)
   \<and> (if to \<noteq> [] then at_most (abs (transaction_amount t)) (amount_bound D to) else True)"

definition isTransactionTypeInFilterRange :: "bool \<Rightarrow> bool \<Rightarrow> wallet_transaction \<Rightarrow> bool" where
  "isTransactionTypeInFilterRange incoming outgoing t \<longleftrightarrow>
     \<not> ((\<not> incoming \<and> transaction_type t = TypeIncome) \<or> (\<not> outgoing \<and> transaction_type t = TypeExpend))"

text \<open>The search may throw.\<close>

definition isTransactionTitleInFilterRange :: "patterns \<Rightarrow> string \<Rightarrow> wallet_transaction \<Rightarrow> js_object + bool" where
  "isTransactionTitleInFilterRange R term t =
     (if term = [] then Inr True
      else case R term of None \<Rightarrow> Inl (js_error ''Invalid regular expression'') | Some m \<Rightarrow> Inr (m (title t)))"

record libraries =
  calendar_of :: calendar
  decimals_of :: decimals
  patterns_of :: patterns

definition isTransactionInFilterRange :: "libraries \<Rightarrow> filter_options option \<Rightarrow> wallet_transaction \<Rightarrow> js_object + bool" where
  "isTransactionInFilterRange L opts t =
     (let f = default no_options opts
      in case isTransactionTitleInFilterRange (patterns_of L) (default [] (searchTerm f)) t of
           Inl e \<Rightarrow> Inl e
         | Inr titleMatches \<Rightarrow> Inr (titleMatches
             \<and> isTransactionDateInFilterRange (calendar_of L) (default [] (fromDate f)) (default [] (toDate f)) t
             \<and> isTransactionAmountInFilterRange (decimals_of L) (default [] (fromAmount f)) (default [] (toAmount f)) t
             \<and> isTransactionTypeInFilterRange (default True (incomingChecked f)) (default True (outgoingChecked f)) t))"

definition getNumberOfFilterDimensionsApplied :: "filter_options option \<Rightarrow> nat" where
  "getNumberOfFilterDimensionsApplied opts =
     (let f = default no_options opts in
        (if default [] (searchTerm f) \<noteq> [] then 1 else 0)
      + (if default NoRange (dateRange f) \<noteq> NoRange
            \<and> (default [] (fromDate f) \<noteq> [] \<or> default [] (toDate f) \<noteq> []) then 1 else 0)
      + (if default [] (fromAmount f) \<noteq> [] \<or> default [] (toAmount f) \<noteq> [] then 1 else 0)
      + (if \<not> default True (incomingChecked f) \<or> \<not> default True (outgoingChecked f) then 1 else 0))"

text \<open>\<open>now\<close>, \<open>daysAgo n\<close> and \<open>yearStart\<close> are \<open>moment()\<close>, \<open>moment().subtract(n, 'days')\<close> and \<open>moment().startOf('year')\<close>.\<close>

definition calculateDateRange ::
  "calendar \<Rightarrow> int \<Rightarrow> (nat \<Rightarrow> int) \<Rightarrow> int \<Rightarrow> date_range \<Rightarrow> string \<Rightarrow> string \<Rightarrow> string \<times> string" where
  "calculateDateRange C now daysAgo yearStart kind fromValue toValue =
     (if kind = NoRange then ([], [])
      else if kind = CUSTOM then (fromValue, toValue)
      else (format_day C (if kind = LAST_7_DAYS then daysAgo 6
                          else if kind = LAST_30_DAYS then daysAgo 29
                          else if kind = LAST_90_DAYS then daysAgo 89
                          else if kind = THIS_YEAR then yearStart
                          else now),
            format_day C now))"

record form_verdict =
  isValid :: bool
  invalid_toDate :: bool
  invalid_toAmount :: bool

definition validateFilterForm :: "libraries \<Rightarrow> string \<Rightarrow> string \<Rightarrow> string \<Rightarrow> string \<Rightarrow> form_verdict" where
  "validateFilterForm L fromD toD fromA toA =
     (let badDate = fromD \<noteq> [] \<and> toD \<noteq> [] \<and> greater (day_value (calendar_of L) fromD) (day_value (calendar_of L) toD);
          badAmount = fromA \<noteq> [] \<and> toA \<noteq> [] \<and> greater (number_of (decimals_of L) fromA) (number_of (decimals_of L) toA)
      in \<lparr>isValid = (\<not> badDate \<and> \<not> badAmount), invalid_toDate = badDate, invalid_toAmount = badAmount\<rparr>)"

definition filter_dates :: "calendar \<Rightarrow> wallet_transaction list \<Rightarrow> int list" where
  "filter_dates C ts = map (\<lambda>t. case transaction_date t of None \<Rightarrow> 0 | Some d \<Rightarrow> time_of C d)
                         (filter (\<lambda>t. transaction_date t \<noteq> None) ts)"

definition filter_amounts :: "wallet_transaction list \<Rightarrow> rat list" where
  "filter_amounts ts = map (\<lambda>t. abs (transaction_amount t)) ts"

definition generateFilterOptions :: "calendar \<Rightarrow> decimals \<Rightarrow> wallet_transaction list \<Rightarrow> filter_options" where
  "generateFilterOptions C D ts =
     (let dates = filter_dates C ts; amounts = filter_amounts ts
      in no_options\<lparr>
           dateRange := Some CUSTOM,
           fromDate := Some (if dates \<noteq> [] then format_day C (Min (set dates)) else []),
           toDate := Some (if dates \<noteq> [] then format_day C (Max (set dates)) else []),
           fromAmount := Some (if amounts \<noteq> [] then text_of D (Min (set amounts)) else []),
           toAmount := Some (if amounts \<noteq> [] then text_of D (Max (set amounts)) else []),
           incomingChecked := Some True, outgoingChecked := Some True\<rparr>)"

section \<open>What the libraries promise\<close>

text \<open>
  A day printed by the calendar reads back as the day that holds the moment it was printed for; days
  do not overlap; and the first moment of a day can be a transaction's date.
\<close>

definition day_ok :: "calendar \<Rightarrow> int \<Rightarrow> string \<Rightarrow> bool" where
  "day_ok C x s = (s \<noteq> [] \<and> day_value C s = day_start C s
     \<and> (case (day_start C s, day_end C s) of (Some a, Some b) \<Rightarrow> a \<le> x \<and> x \<le> b \<and> (\<exists>d. time_of C d = a) | _ \<Rightarrow> False))"

definition days_apart :: "calendar \<Rightarrow> string \<Rightarrow> string \<Rightarrow> bool" where
  "days_apart C s s' = (case (day_start C s, day_start C s', day_end C s') of
       (Some a, Some a', Some b') \<Rightarrow> a' < a \<longrightarrow> b' < a | _ \<Rightarrow> True)"

definition calendar_laws :: "calendar \<Rightarrow> bool" where
  "calendar_laws C \<longleftrightarrow> (\<forall>x. day_ok C x (format_day C x))
     \<and> (\<forall>x y. days_apart C (format_day C x) (format_day C y))
     \<and> (\<forall>x y. x \<le> y \<longrightarrow> (case (day_start C (format_day C x), day_start C (format_day C y)) of
          (Some a, Some b) \<Rightarrow> a \<le> b | _ \<Rightarrow> True))"

text \<open>Amounts of the backend are whole numbers of the smallest unit; their texts read back.\<close>

definition whole_units :: "rat \<Rightarrow> bool" where
  "whole_units q \<longleftrightarrow> (\<exists>n::int. q = of_int n / 1000000)"

definition decimal_laws :: "decimals \<Rightarrow> bool" where
  "decimal_laws D \<longleftrightarrow> (\<forall>q. whole_units q \<longrightarrow> number_of D (text_of D q) = Some q
     \<and> text_of D q \<noteq> [] \<and> text_of D q \<noteq> ''.'')"

definition day_text :: "calendar \<Rightarrow> string \<Rightarrow> bool" where
  "day_text C s \<longleftrightarrow> s \<in> range (format_day C)"

lemma day_okD:
  assumes "calendar_laws C"
  obtains a b where "day_start C (format_day C x) = Some a" "day_end C (format_day C x) = Some b" "a \<le> x" "x \<le> b"
    "day_value C (format_day C x) = Some a" "format_day C x \<noteq> []" "\<exists>d. time_of C d = a"
proof -
  from assms have "day_ok C x (format_day C x)" by (simp add: calendar_laws_def)
  with that show thesis by (auto simp: day_ok_def split: option.splits)
qed

section \<open>The default filter keeps every transaction\<close>

lemma default_options:
  "searchTerm (generateFilterOptions C D ts) = None"
  "incomingChecked (generateFilterOptions C D ts) = Some True"
  "outgoingChecked (generateFilterOptions C D ts) = Some True"
  "fromDate (generateFilterOptions C D ts)
     = Some (if filter_dates C ts \<noteq> [] then format_day C (Min (set (filter_dates C ts))) else [])"
  "toDate (generateFilterOptions C D ts)
     = Some (if filter_dates C ts \<noteq> [] then format_day C (Max (set (filter_dates C ts))) else [])"
  "fromAmount (generateFilterOptions C D ts)
     = Some (if filter_amounts ts \<noteq> [] then text_of D (Min (set (filter_amounts ts))) else [])"
  "toAmount (generateFilterOptions C D ts)
     = Some (if filter_amounts ts \<noteq> [] then text_of D (Max (set (filter_amounts ts))) else [])"
  by (simp_all add: generateFilterOptions_def Let_def no_options_def)

lemma in_day_range:
  assumes "calendar_laws C" and "lo \<le> time_of C d" and "time_of C d \<le> hi" and "transaction_date t = Some d"
  shows "isTransactionDateInFilterRange C (format_day C lo) (format_day C hi) t"
proof -
  obtain a where "day_start C (format_day C lo) = Some a" "a \<le> lo" by (rule day_okD [OF assms(1)])
  moreover obtain b where "day_end C (format_day C hi) = Some b" "hi \<le> b" by (rule day_okD [OF assms(1)])
  ultimately show ?thesis using assms by (simp add: isTransactionDateInFilterRange_def at_least_def at_most_def)
qed

lemma default_dates_keep:
  assumes "calendar_laws C" and "t \<in> set ts"
  shows "isTransactionDateInFilterRange C (the (fromDate (generateFilterOptions C D ts)))
           (the (toDate (generateFilterOptions C D ts))) t"
proof (cases "transaction_date t")
  case (Some d)
  then have x: "time_of C d \<in> set (filter_dates C ts)" using assms(2) by (force simp: filter_dates_def)
  then have "Min (set (filter_dates C ts)) \<le> time_of C d" "time_of C d \<le> Max (set (filter_dates C ts))"
    "filter_dates C ts \<noteq> []" by auto
  then show ?thesis using in_day_range [OF assms(1) _ _ Some] by (simp add: default_options)
qed (simp add: isTransactionDateInFilterRange_def)

lemma whole_units_amounts:
  assumes "\<forall>t \<in> set ts. whole_units (transaction_amount t)" and "q \<in> set (filter_amounts ts)"
  shows "whole_units q"
proof -
  from assms(2) obtain t where t: "t \<in> set ts" "q = abs (transaction_amount t)" by (auto simp: filter_amounts_def)
  with assms(1) obtain n where "transaction_amount t = of_int n / 1000000" unfolding whole_units_def by blast
  with t(2) have "q = of_int (abs n) / 1000000" by simp
  then show ?thesis unfolding whole_units_def by blast
qed

lemma default_amount_texts:
  assumes "decimal_laws D" and "\<forall>t \<in> set ts. whole_units (transaction_amount t)" and "q \<in> set (filter_amounts ts)"
  shows "number_of D (text_of D q) = Some q" "text_of D q \<noteq> []" "text_of D q \<noteq> ''.''"
  using assms(1) whole_units_amounts [OF assms(2,3)] unfolding decimal_laws_def by blast+

lemma default_amounts_keep:
  assumes "decimal_laws D" and "\<forall>t \<in> set ts. whole_units (transaction_amount t)" and "t \<in> set ts"
  shows "isTransactionAmountInFilterRange D (the (fromAmount (generateFilterOptions C D ts)))
           (the (toAmount (generateFilterOptions C D ts))) t"
proof -
  have x: "abs (transaction_amount t) \<in> set (filter_amounts ts)" using assms(3) by (simp add: filter_amounts_def)
  then have ne: "filter_amounts ts \<noteq> []" by auto
  then have i: "Min (set (filter_amounts ts)) \<in> set (filter_amounts ts)" "Max (set (filter_amounts ts)) \<in> set (filter_amounts ts)"
    by simp_all
  from x have "Min (set (filter_amounts ts)) \<le> abs (transaction_amount t)"
    "abs (transaction_amount t) \<le> Max (set (filter_amounts ts))" by simp_all
  with ne default_amount_texts [OF assms(1,2) i(1)] default_amount_texts [OF assms(1,2) i(2)]
  show ?thesis
    by (simp add: isTransactionAmountInFilterRange_def default_options amount_bound_def at_least_def at_most_def)
qed

lemma default_form_valid:
  assumes "calendar_laws (calendar_of L)" and "decimal_laws (decimals_of L)"
    and "\<forall>t \<in> set ts. whole_units (transaction_amount t)"
  defines "f \<equiv> generateFilterOptions (calendar_of L) (decimals_of L) ts"
  shows "isValid (validateFilterForm L (the (fromDate f)) (the (toDate f)) (the (fromAmount f)) (the (toAmount f)))"
proof -
  let ?C = "calendar_of L" and ?D = "decimals_of L"
  have "\<not> greater (day_value ?C (format_day ?C x)) (day_value ?C (format_day ?C y))" if "x \<le> y" for x y
  proof -
    obtain a where a: "day_start ?C (format_day ?C x) = Some a" "day_value ?C (format_day ?C x) = Some a"
      by (rule day_okD [OF assms(1)])
    obtain b where b: "day_start ?C (format_day ?C y) = Some b" "day_value ?C (format_day ?C y) = Some b"
      by (rule day_okD [OF assms(1)])
    have "case (day_start ?C (format_day ?C x), day_start ?C (format_day ?C y)) of
        (Some a, Some b) \<Rightarrow> a \<le> b | _ \<Rightarrow> True" using assms(1) that unfolding calendar_laws_def by blast
    with a b show ?thesis by (simp add: greater_def)
  qed
  moreover have "\<not> greater (number_of ?D (text_of ?D (Min (set (filter_amounts ts)))))
      (number_of ?D (text_of ?D (Max (set (filter_amounts ts)))))" if ne: "filter_amounts ts \<noteq> []"
  proof -
    from ne have i: "Min (set (filter_amounts ts)) \<in> set (filter_amounts ts)" "Max (set (filter_amounts ts)) \<in> set (filter_amounts ts)"
      by simp_all
    then have "Min (set (filter_amounts ts)) \<le> Max (set (filter_amounts ts))" by simp
    with default_amount_texts [OF assms(2,3) i(1)] default_amount_texts [OF assms(2,3) i(2)]
    show ?thesis by (simp add: greater_def)
  qed
  moreover have "Min (set (filter_dates ?C ts)) \<le> Max (set (filter_dates ?C ts))" if "filter_dates ?C ts \<noteq> []"
    using that by simp
  ultimately show ?thesis by (auto simp: validateFilterForm_def f_def default_options Let_def)
qed

text \<open>
  The default filter hides nothing. The filter that \<open>generateFilterOptions\<close> proposes for a list of
  transactions, from the first to the last day and from the smallest to the largest amount among
  them, lets every one of them through and passes the validation of the form.
\<close>

theorem default_filter_keeps_all:
  assumes "calendar_laws (calendar_of L)" and "decimal_laws (decimals_of L)"
    and "\<forall>t \<in> set ts. whole_units (transaction_amount t)"
  shows "list_all (\<lambda>t. isTransactionInFilterRange L
            (Some (generateFilterOptions (calendar_of L) (decimals_of L) ts)) t = Inr True) ts
       \<and> (let f = generateFilterOptions (calendar_of L) (decimals_of L) ts
          in isValid (validateFilterForm L (the (fromDate f)) (the (toDate f)) (the (fromAmount f)) (the (toAmount f))))"
proof -
  have "isTransactionInFilterRange L (Some (generateFilterOptions (calendar_of L) (decimals_of L) ts)) t = Inr True"
    if "t \<in> set ts" for t
    using default_dates_keep [OF assms(1) that, of "decimals_of L"] default_amounts_keep [OF assms(2,3) that, of "calendar_of L"]
    by (simp add: isTransactionInFilterRange_def isTransactionTitleInFilterRange_def default_def Let_def
        isTransactionTypeInFilterRange_def default_options(1-3)) (simp add: default_options(4-7))
  with default_form_valid [OF assms] show ?thesis by (simp add: Let_def list_all_iff)
qed

section \<open>The form is valid exactly when a transaction can pass\<close>

definition form_options :: "string \<Rightarrow> string \<Rightarrow> string \<Rightarrow> string \<Rightarrow> filter_options" where
  "form_options fromD toD fromA toA =
     no_options\<lparr>fromDate := Some fromD, toDate := Some toD, fromAmount := Some fromA, toAmount := Some toA\<rparr>"

text \<open>What the form's fields can hold: nothing or a day, nothing or a number that is not negative.\<close>

definition day_field :: "calendar \<Rightarrow> string \<Rightarrow> bool" where
  "day_field C s \<longleftrightarrow> s = [] \<or> (\<exists>x. s = format_day C x)"

definition amount_field :: "decimals \<Rightarrow> string \<Rightarrow> bool" where
  "amount_field D s \<longleftrightarrow> s = [] \<or> s \<noteq> ''.'' \<and> (\<exists>q \<ge> 0. number_of D s = Some q)"

lemma form_passes:
  "isTransactionInFilterRange L (Some (form_options fd td fa ta)) t = Inr True
   \<longleftrightarrow> isTransactionDateInFilterRange (calendar_of L) fd td t \<and> isTransactionAmountInFilterRange (decimals_of L) fa ta t"
  by (simp add: isTransactionInFilterRange_def isTransactionTitleInFilterRange_def default_def form_options_def
      no_options_def isTransactionTypeInFilterRange_def)

lemma invalid_dates_exclude:
  assumes "calendar_laws C" and "day_field C fd" and "day_field C td" and "fd \<noteq> []" and "td \<noteq> []"
    and "greater (day_value C fd) (day_value C td)" and "transaction_date t \<noteq> None"
  shows "\<not> isTransactionDateInFilterRange C fd td t"
proof -
  from assms(2-5) obtain x y where xy: "fd = format_day C x" "td = format_day C y" by (auto simp: day_field_def)
  obtain a b where a: "day_start C fd = Some a" "day_end C fd = Some b" "day_value C fd = Some a"
    unfolding xy by (rule day_okD [OF assms(1)])
  obtain a' b' where a': "day_start C td = Some a'" "day_end C td = Some b'" "day_value C td = Some a'"
    unfolding xy by (rule day_okD [OF assms(1)])
  have "days_apart C fd td" using assms(1) unfolding calendar_laws_def xy by blast
  with a a' assms(6) have "b' < a" by (simp add: days_apart_def greater_def)
  with a a' assms(4,5,7) show ?thesis
    by (auto simp: isTransactionDateInFilterRange_def at_least_def at_most_def)
qed

lemma valid_dates_admit:
  assumes "calendar_laws C" and "day_field C fd" and "day_field C td"
    and "fd \<noteq> [] \<and> td \<noteq> [] \<Longrightarrow> \<not> greater (day_value C fd) (day_value C td)"
  obtains d where "\<And>t. transaction_date t = Some d \<Longrightarrow> isTransactionDateInFilterRange C fd td t"
proof (cases "fd = []")
  case True
  show thesis
  proof (cases "td = []")
    case False
    with assms(3) obtain y where y: "td = format_day C y" by (auto simp: day_field_def)
    obtain a b d where "day_start C td = Some a" "day_end C td = Some b" "a \<le> y" "y \<le> b" "time_of C d = a"
      unfolding y by (rule day_okD [OF assms(1), of y]) blast
    with True False show thesis
      by (intro that [of d]) (simp add: isTransactionDateInFilterRange_def at_most_def)
  qed (use True that in \<open>simp add: isTransactionDateInFilterRange_def\<close>)
next
  case False
  with assms(2) obtain x where x: "fd = format_day C x" by (auto simp: day_field_def)
  obtain a d where a: "day_start C fd = Some a" "day_value C fd = Some a" "time_of C d = a"
    unfolding x by (rule day_okD [OF assms(1), of x]) blast
  show thesis
  proof (cases "td = []")
    case True
    with False a show thesis
      by (intro that [of d]) (simp add: isTransactionDateInFilterRange_def at_least_def)
  next
    case td: False
    with assms(3) obtain y where y: "td = format_day C y" by (auto simp: day_field_def)
    obtain a' b' where a': "day_start C td = Some a'" "day_end C td = Some b'" "a' \<le> y" "y \<le> b'" "day_value C td = Some a'"
      unfolding y by (rule day_okD [OF assms(1), of y]) blast
    with a False td assms(4) have "a \<le> b'" by (simp add: greater_def)
    with a a' False td show thesis
      by (intro that [of d]) (simp add: isTransactionDateInFilterRange_def at_least_def at_most_def)
  qed
qed

lemma amounts_admit:
  assumes "amount_field D fa" and "amount_field D ta"
  shows "(\<exists>q. \<forall>t. transaction_amount t = q \<longrightarrow> isTransactionAmountInFilterRange D fa ta t)
       \<longleftrightarrow> \<not> (fa \<noteq> [] \<and> ta \<noteq> [] \<and> greater (number_of D fa) (number_of D ta))" (is "?ex \<longleftrightarrow> ?valid")
proof
  assume ?ex
  then obtain q where "\<forall>t. transaction_amount t = q \<longrightarrow> isTransactionAmountInFilterRange D fa ta t" by blast
  from this [THEN spec, of "undefined\<lparr>transaction_amount := q\<rparr>"] assms show ?valid
    by (auto simp: isTransactionAmountInFilterRange_def amount_field_def amount_bound_def at_least_def at_most_def
        greater_def split: if_splits option.splits)
next
  assume v: ?valid
  define q where "q = (if ta \<noteq> [] then the (number_of D ta) else if fa \<noteq> [] then the (number_of D fa) else 0)"
  from assms v have "isTransactionAmountInFilterRange D fa ta t" if "transaction_amount t = q" for t
    unfolding isTransactionAmountInFilterRange_def that q_def
    by (auto simp: amount_field_def amount_bound_def at_least_def at_most_def greater_def)
  then show ?ex by blast
qed

text \<open>
  C37. The form is right about its filter. For days and numbers in its fields, the form is valid exactly
  when some transaction with a date can pass the filter that it sets.
\<close>

theorem form_valid_iff_satisfiable:
  assumes "calendar_laws (calendar_of L)" and "day_field (calendar_of L) fd" and "day_field (calendar_of L) td"
    and "amount_field (decimals_of L) fa" and "amount_field (decimals_of L) ta"
  shows "isValid (validateFilterForm L fd td fa ta)
     = (\<exists>t. transaction_date t \<noteq> None \<and> isTransactionInFilterRange L (Some (form_options fd td fa ta)) t = Inr True)"
proof
  let ?C = "calendar_of L" and ?D = "decimals_of L"
  assume "isValid (validateFilterForm L fd td fa ta)"
  then have d: "fd \<noteq> [] \<and> td \<noteq> [] \<Longrightarrow> \<not> greater (day_value ?C fd) (day_value ?C td)"
    and a: "\<not> (fa \<noteq> [] \<and> ta \<noteq> [] \<and> greater (number_of ?D fa) (number_of ?D ta))"
    by (auto simp: validateFilterForm_def Let_def)
  obtain x where x: "\<And>t. transaction_date t = Some x \<Longrightarrow> isTransactionDateInFilterRange ?C fd td t"
    using valid_dates_admit [OF assms(1-3) d] by blast
  obtain q where q: "\<And>t. transaction_amount t = q \<Longrightarrow> isTransactionAmountInFilterRange ?D fa ta t"
    using amounts_admit [OF assms(4,5)] a by blast
  show "\<exists>t. transaction_date t \<noteq> None \<and> isTransactionInFilterRange L (Some (form_options fd td fa ta)) t = Inr True"
    unfolding form_passes
    by (rule exI [of _ "undefined\<lparr>transaction_date := Some x, transaction_amount := q\<rparr>"]) (use x q in simp)
next
  let ?C = "calendar_of L" and ?D = "decimals_of L"
  assume "\<exists>t. transaction_date t \<noteq> None \<and> isTransactionInFilterRange L (Some (form_options fd td fa ta)) t = Inr True"
  then obtain t where t: "transaction_date t \<noteq> None" "isTransactionDateInFilterRange ?C fd td t"
    "isTransactionAmountInFilterRange ?D fa ta t" unfolding form_passes by blast
  have "isTransactionAmountInFilterRange ?D fa ta t'" if "transaction_amount t' = transaction_amount t" for t'
    using t(3) that by (simp add: isTransactionAmountInFilterRange_def)
  with amounts_admit [OF assms(4,5)] have "\<not> (fa \<noteq> [] \<and> ta \<noteq> [] \<and> greater (number_of ?D fa) (number_of ?D ta))" by blast
  moreover have "\<not> (fd \<noteq> [] \<and> td \<noteq> [] \<and> greater (day_value ?C fd) (day_value ?C td))"
    using invalid_dates_exclude [OF assms(1-3)] t(1,2) by blast
  ultimately show "isValid (validateFilterForm L fd td fa ta)" by (simp add: validateFilterForm_def Let_def)
qed

section \<open>The number of filters shown\<close>

text \<open>
  With no filter counted, nothing is hidden: when the dates of the options come from
  \<open>calculateDateRange\<close> for their range, and the count on the filter button is zero, every transaction passes.
\<close>

theorem no_filter_counted_none_applied:
  assumes "getNumberOfFilterDimensionsApplied (Some f) = 0"
    and "calculateDateRange C now daysAgo yearStart (default NoRange (dateRange f)) fromValue toValue
       = (default [] (fromDate f), default [] (toDate f))"
  shows "isTransactionInFilterRange L (Some f) t = Inr True"
proof -
  have n: "default [] (searchTerm f) = []" "default [] (fromAmount f) = []" "default [] (toAmount f) = []"
    "default True (incomingChecked f)" "default True (outgoingChecked f)"
    "default NoRange (dateRange f) = NoRange \<or> default [] (fromDate f) = [] \<and> default [] (toDate f) = []"
    using assms(1) by (auto simp: getNumberOfFilterDimensionsApplied_def default_def [of no_options] Let_def split: if_splits)
  moreover from n(6) assms(2) have "default [] (fromDate f) = []" "default [] (toDate f) = []"
    by (auto simp: calculateDateRange_def)
  ultimately show ?thesis
    by (cases "transaction_date t")
      (simp_all add: isTransactionInFilterRange_def default_def [of no_options] Let_def
        isTransactionTitleInFilterRange_def isTransactionDateInFilterRange_def isTransactionAmountInFilterRange_def
        isTransactionTypeInFilterRange_def)
qed

section \<open>A calendar and decimals that keep the promises\<close>

text \<open>
  Days counted from the epoch, printed with their number, and millionths in exponent notation: concrete
  functions for which the laws hold.
\<close>

definition day_length :: int where "day_length = 86400000"

definition day_number :: "string \<Rightarrow> int option" where
  "day_number s = (case s of [] \<Rightarrow> None | c # cs \<Rightarrow> if c = CHR ''d'' then int_of_text cs else None)"

definition counted_days :: calendar where
  "counted_days = \<lparr>time_of = (\<lambda>s. case int_of_text s of None \<Rightarrow> 0 | Some i \<Rightarrow> i),
     day_value = (\<lambda>s. map_option (\<lambda>n. n * day_length) (day_number s)),
     day_start = (\<lambda>s. map_option (\<lambda>n. n * day_length) (day_number s)),
     day_end = (\<lambda>s. map_option (\<lambda>n. n * day_length + (day_length - 1)) (day_number s)),
     format_day = (\<lambda>x. CHR ''d'' # int_text (x div day_length))\<rparr>"

definition millionths :: decimals where
  "millionths = \<lparr>number_of = (\<lambda>s. if drop (length s - 3) s = ''e-6''
        then map_option (\<lambda>i. of_int i / 1000000) (int_of_text (take (length s - 3) s)) else None),
     text_of = (\<lambda>q. int_text \<lfloor>q * 1000000\<rfloor> @ ''e-6'')\<rparr>"

lemma day_number_text [simp]: "day_number (CHR ''d'' # int_text n) = Some n"
  by (simp add: day_number_def)

lemma counted_days_laws: "calendar_laws counted_days"
proof -
  have "day_ok counted_days x (format_day counted_days x)" for x
  proof -
    have "x div day_length * day_length \<le> x" "x \<le> x div day_length * day_length + (day_length - 1)"
      by (simp_all add: day_length_def minus_mod_eq_div_mult [symmetric])
    moreover have "\<exists>d. time_of counted_days d = x div day_length * day_length"
      by (rule exI [of _ "int_text (x div day_length * day_length)"]) (simp add: counted_days_def)
    ultimately show ?thesis by (simp add: day_ok_def counted_days_def)
  qed
  moreover have "days_apart counted_days (format_day counted_days x) (format_day counted_days y)" for x y
  proof -
    have "j * day_length + (day_length - 1) < i * day_length" if "j * day_length < i * day_length" for i j :: int
      using that by (simp add: day_length_def)
    then show ?thesis by (simp add: days_apart_def counted_days_def)
  qed
  moreover have "x div day_length * day_length \<le> y div day_length * day_length" if "x \<le> y" for x y
    using that by (simp add: day_length_def zdiv_mono1)
  ultimately show ?thesis by (simp add: calendar_laws_def) (simp add: counted_days_def)
qed

lemma millionths_laws: "decimal_laws millionths"
proof -
  have "number_of millionths (text_of millionths q) = Some q \<and> text_of millionths q \<noteq> [] \<and> text_of millionths q \<noteq> ''.''"
    if "whole_units q" for q
  proof -
    from that obtain n where n: "q = of_int n / 1000000" unfolding whole_units_def by blast
    have "length (text_of millionths q) > 1" by (simp add: millionths_def)
    then have "text_of millionths q \<noteq> ''.''" by auto
    with n show ?thesis by (simp add: millionths_def)
  qed
  then show ?thesis by (simp add: decimal_laws_def)
qed

definition example_libraries :: libraries where
  "example_libraries = \<lparr>calendar_of = counted_days, decimals_of = millionths, patterns_of = (\<lambda>s. Some (\<lambda>t. True))\<rparr>"

definition example_transaction :: "string option \<Rightarrow> int \<Rightarrow> wallet_transaction" where
  "example_transaction d n = \<lparr>transaction_id = ''t'', confirmations = 0, slotNumber = None, epochNumber = None,
     title = [], transaction_type = TypeIncome, transaction_amount = of_int n / 1000000, transaction_fee = 0,
     deposit = 0, transaction_assets = [], transaction_date = d, from_addresses = [], to_addresses = [],
     withdrawal_addresses = [], transaction_state = TxOk, transaction_metadata = None\<rparr>"

lemma example_units: "whole_units (transaction_amount (example_transaction d n))"
  by (auto simp: whole_units_def example_transaction_def)

lemma default_filter_keeps_all_witness:
  "list_all (\<lambda>t. isTransactionInFilterRange example_libraries
       (Some (generateFilterOptions counted_days millionths
          [example_transaction (Some ''5'') 3, example_transaction (Some ''90000000'') (- 7), example_transaction None 0])) t = Inr True)
     [example_transaction (Some ''5'') 3, example_transaction (Some ''90000000'') (- 7), example_transaction None 0]"
  using default_filter_keeps_all [of example_libraries
      "[example_transaction (Some ''5'') 3, example_transaction (Some ''90000000'') (- 7), example_transaction None 0]"]
  by (simp add: example_libraries_def counted_days_laws millionths_laws example_units)

lemma form_valid_iff_satisfiable_witness:
  "isValid (validateFilterForm example_libraries ''d3'' ''d2'' [] ''5e-6'') =
     (\<exists>t. transaction_date t \<noteq> None \<and> isTransactionInFilterRange example_libraries (Some (form_options ''d3'' ''d2'' [] ''5e-6'')) t = Inr True)
   \<and> \<not> isValid (validateFilterForm example_libraries ''d3'' ''d2'' [] ''5e-6'')"
proof (rule conjI)
  have d: "format_day counted_days (n * day_length) = CHR ''d'' # int_text n" for n
    by (simp add: counted_days_def day_length_def)
  have t: "int_text 2 = ''2''" "int_text 3 = ''3''" by code_simp+
  show "isValid (validateFilterForm example_libraries ''d3'' ''d2'' [] ''5e-6'') =
     (\<exists>t. transaction_date t \<noteq> None \<and> isTransactionInFilterRange example_libraries (Some (form_options ''d3'' ''d2'' [] ''5e-6'')) t = Inr True)"
  proof (rule form_valid_iff_satisfiable)
    show "day_field (calendar_of example_libraries) ''d3''" "day_field (calendar_of example_libraries) ''d2''"
      using d [of 3] d [of 2] by (auto simp: day_field_def example_libraries_def t) metis+
    have "number_of millionths ''5e-6'' = Some (5 / 1000000)" by code_simp
    then show "amount_field (decimals_of example_libraries) ''5e-6''"
      unfolding amount_field_def example_libraries_def
      by (intro disjI2 conjI exI [of _ "5 / 1000000"]) simp_all
  qed (simp_all add: example_libraries_def counted_days_laws amount_field_def)
  show "\<not> isValid (validateFilterForm example_libraries ''d3'' ''d2'' [] ''5e-6'')" by code_simp
qed

lemma no_filter_counted_none_applied_witness:
  "isTransactionInFilterRange example_libraries (Some emptyTransactionFilterOptions) (example_transaction None 1) = Inr True"
  by (rule no_filter_counted_none_applied [where C = counted_days and now = 0 and daysAgo = "\<lambda>n. 0" and yearStart = 0
        and fromValue = "[]" and toValue = "[]"]) code_simp+

text \<open>
  Two of the form's inputs are not covered: a lone decimal point counts as zero in the filter but is no
  number in the validation, and a search text that is no pattern makes the filter throw.
\<close>

theorem lone_point_is_accepted:
  assumes "number_of (decimals_of L) ''.'' = None" and "number_of (decimals_of L) fa = Some q" and "q > 0"
    and "fa \<noteq> []" and "fa \<noteq> ''.''"
  shows "isValid (validateFilterForm L [] [] fa ''.'')
       \<and> isTransactionInFilterRange L (Some (form_options [] [] fa ''.'')) t = Inr False"
  using assms
  by (auto simp: validateFilterForm_def greater_def isTransactionInFilterRange_def isTransactionTitleInFilterRange_def
      default_def form_options_def no_options_def isTransactionAmountInFilterRange_def amount_bound_def at_least_def at_most_def)

lemma lone_point_is_accepted_witness:
  "isValid (validateFilterForm example_libraries [] [] ''5e-6'' ''.'')"
  by (rule lone_point_is_accepted [where q = "5 / 1000000", THEN conjunct1]) code_simp+

section \<open>Amounts in the forms\<close>

text \<open>\<open>is_int\<close> is \<open>validator\<close>'s \<open>isInt\<close> without leading zeros.\<close>

definition isValidAmountInEntropics :: "(string \<Rightarrow> bool) \<Rightarrow> decimals \<Rightarrow> string \<Rightarrow> bool" where
  "isValidAmountInEntropics is_int D value =
     (if \<not> is_int value then False
      else (case number_of D value of None \<Rightarrow> False | Some n \<Rightarrow> n \<ge> 1 \<and> n \<le> 45000000000000000))"

definition isValidAssetAmountInNaturalUnits :: "(string \<Rightarrow> bool) \<Rightarrow> decimals \<Rightarrow> string \<Rightarrow> bool" where
  "isValidAssetAmountInNaturalUnits is_int D value =
     (if \<not> is_int value then False
      else (case number_of D value of None \<Rightarrow> False | Some n \<Rightarrow> n \<ge> 1 \<and> n \<le> 18446744073709551615))"

section \<open>The transactions store\<close>

record transactions_response =
  response_transactions :: "wallet_transaction list"
  response_total :: nat

text \<open>The requests of one wallet, as far as the store reads them: their results.\<close>

record wallet_requests =
  wr_walletId :: string
  recent_result :: "transactions_response option"
  all_result :: "transactions_response option"
  withdrawals_result :: "rat option"

record transactions_store =
  transactionsRequests :: "wallet_requests list"
  filterOptionsForWallets :: "string \<rightharpoonup> filter_options"
  active_wallet :: "wallet option"
  all_wallets :: "wallet list"
  store_connected :: bool

definition found_requests :: "transactions_store \<Rightarrow> string \<Rightarrow> wallet_requests option" where
  "found_requests s walletId = find (\<lambda>r. wr_walletId r = walletId) (transactionsRequests s)"

definition getTransactionsRecentRequest :: "transactions_store \<Rightarrow> string \<Rightarrow> transactions_response option" where
  "getTransactionsRecentRequest s walletId = Option.bind (found_requests s walletId) recent_result"

definition getTransactionsAllRequest :: "transactions_store \<Rightarrow> string \<Rightarrow> transactions_response option" where
  "getTransactionsAllRequest s walletId = Option.bind (found_requests s walletId) all_result"

definition getWithdrawalsRequest :: "transactions_store \<Rightarrow> string \<Rightarrow> rat option" where
  "getWithdrawalsRequest s walletId = Option.bind (found_requests s walletId) withdrawals_result"

definition filterOptions :: "transactions_store \<Rightarrow> filter_options option" where
  "filterOptions s = (case active_wallet s of None \<Rightarrow> None | Some w \<Rightarrow> filterOptionsForWallets s (wallet_id w))"

definition store_withdrawals :: "transactions_store \<Rightarrow> (string \<times> rat) list" where
  "store_withdrawals s = map (\<lambda>w. (wallet_id w, default 0 (getWithdrawalsRequest s (wallet_id w)))) (all_wallets s)"

definition of_active :: "transactions_store \<Rightarrow> 'a \<Rightarrow> (wallet \<Rightarrow> 'a) \<Rightarrow> 'a" where
  "of_active s d f = (case active_wallet s of None \<Rightarrow> d | Some w \<Rightarrow> f w)"

definition all_transactions :: "transactions_store \<Rightarrow> wallet_transaction list" where
  "all_transactions s = of_active s [] (\<lambda>w. case getTransactionsAllRequest s (wallet_id w) of
       None \<Rightarrow> [] | Some r \<Rightarrow> response_transactions r)"

definition recent :: "transactions_store \<Rightarrow> wallet_transaction list" where
  "recent s = of_active s [] (\<lambda>w. case getTransactionsRecentRequest s (wallet_id w) of
       None \<Rightarrow> [] | Some r \<Rightarrow> response_transactions r)"

text \<open>\<open>filter\<close> with a test that may throw.\<close>

fun filter_or_throw :: "('a \<Rightarrow> 'e + bool) \<Rightarrow> 'a list \<Rightarrow> 'e + 'a list" where
  "filter_or_throw p [] = Inr []"
| "filter_or_throw p (x # xs) = (case p x of
       Inl e \<Rightarrow> Inl e
     | Inr b \<Rightarrow> (case filter_or_throw p xs of Inl e \<Rightarrow> Inl e | Inr ys \<Rightarrow> Inr (if b then x # ys else ys)))"

definition recentFiltered :: "libraries \<Rightarrow> transactions_store \<Rightarrow> js_object + wallet_transaction list" where
  "recentFiltered L s = filter_or_throw (isTransactionInFilterRange L (filterOptions s)) (recent s)"

definition allFiltered :: "libraries \<Rightarrow> transactions_store \<Rightarrow> js_object + wallet_transaction list" where
  "allFiltered L s = (case recentFiltered L s of
       Inl e \<Rightarrow> Inl e
     | Inr rs \<Rightarrow> (case filter_or_throw (isTransactionInFilterRange L (filterOptions s)) (all_transactions s) of
         Inl e \<Rightarrow> Inl e
       | Inr ts \<Rightarrow> Inr (if ts = [] \<and> rs \<noteq> [] then rs else ts)))"

definition defaultFilterOptions :: "libraries \<Rightarrow> transactions_store \<Rightarrow> filter_options" where
  "defaultFilterOptions L s = generateFilterOptions (calendar_of L) (decimals_of L) (all_transactions s)"

definition populatedFilterOptions :: "transactions_store \<Rightarrow> filter_options" where
  "populatedFilterOptions s = default emptyTransactionFilterOptions (filterOptions s)"

definition hasAnyFiltered :: "transactions_store \<Rightarrow> bool" where
  "hasAnyFiltered s = of_active s False (\<lambda>w. case getTransactionsAllRequest s (wallet_id w) of
       None \<Rightarrow> False | Some r \<Rightarrow> length (response_transactions r) > 0)"

definition hasAny :: "transactions_store \<Rightarrow> bool" where
  "hasAny s = of_active s False (\<lambda>w. case getTransactionsRecentRequest s (wallet_id w) of
       None \<Rightarrow> False | Some r \<Rightarrow> response_total r > 0)"

definition totalAvailable :: "transactions_store \<Rightarrow> nat" where
  "totalAvailable s = of_active s 0 (\<lambda>w. case getTransactionsAllRequest s (wallet_id w) of
       None \<Rightarrow> 0 | Some r \<Rightarrow> response_total r)"

definition totalFilteredAvailable :: "transactions_store \<Rightarrow> nat" where
  "totalFilteredAvailable s = of_active s 0 (\<lambda>w. case getTransactionsAllRequest s (wallet_id w) of
       None \<Rightarrow> 0 | Some r \<Rightarrow> length (response_transactions r))"

definition pendingTransactionsCount :: "transactions_store \<Rightarrow> nat" where
  "pendingTransactionsCount s = length (filter (\<lambda>t. transaction_state t = TxPending) (recent s))"

text \<open>\<open>{...current, ...update}\<close>: the fields of the update win.\<close>

definition or_old :: "'a option \<Rightarrow> 'a option \<Rightarrow> 'a option" where
  "or_old new old = (case new of None \<Rightarrow> old | Some v \<Rightarrow> Some v)"

definition merge_options :: "filter_options \<Rightarrow> filter_options \<Rightarrow> filter_options" where
  "merge_options old new = \<lparr>searchTerm = or_old (searchTerm new) (searchTerm old),
     searchLimit = or_old (searchLimit new) (searchLimit old), searchSkip = or_old (searchSkip new) (searchSkip old),
     dateRange = or_old (dateRange new) (dateRange old), fromDate = or_old (fromDate new) (fromDate old),
     toDate = or_old (toDate new) (toDate old), fromAmount = or_old (fromAmount new) (fromAmount old),
     toAmount = or_old (toAmount new) (toAmount old), incomingChecked = or_old (incomingChecked new) (incomingChecked old),
     outgoingChecked = or_old (outgoingChecked new) (outgoingChecked old)\<rparr>"

definition updateFilterOptions :: "filter_options \<Rightarrow> transactions_store \<Rightarrow> transactions_store" where
  "updateFilterOptions new s = of_active s s (\<lambda>w. s\<lparr>filterOptionsForWallets := (filterOptionsForWallets s)
       (wallet_id w \<mapsto> merge_options (default no_options (filterOptionsForWallets s (wallet_id w))) new)\<rparr>)"

definition clearFilterOptions :: "transactions_store \<Rightarrow> transactions_store" where
  "clearFilterOptions s = of_active s s (\<lambda>w. s\<lparr>filterOptionsForWallets :=
       (filterOptionsForWallets s)(wallet_id w \<mapsto> emptyTransactionFilterOptions)\<rparr>)"

text \<open>The reaction to a change of the active wallet.\<close>

definition ensureFilterOptionsForActiveWallet :: "transactions_store \<Rightarrow> transactions_store" where
  "ensureFilterOptionsForActiveWallet s = of_active s s (\<lambda>w.
     if filterOptionsForWallets s (wallet_id w) = None
     then s\<lparr>filterOptionsForWallets := (filterOptionsForWallets s)(wallet_id w \<mapsto> emptyTransactionFilterOptions)\<rparr>
     else s)"

text \<open>The calls of a refresh, in order.\<close>

datatype transactions_call = RecentCall string bool | AllCall string bool | WithdrawalsCall string

definition refreshTransactionData :: "transactions_store \<Rightarrow> transactions_call list" where
  "refreshTransactionData s = (if store_connected s
     then concat (map (\<lambda>w. [RecentCall (wallet_id w) (isLegacy w), AllCall (wallet_id w) (isLegacy w)]
                          @ (if \<not> isLegacy w then [WithdrawalsCall (wallet_id w)] else [])) (all_wallets s))
     else [])"

record wallet_fee_call =
  fee_walletBalance :: rat
  fee_availableBalance :: rat
  fee_rewardsBalance :: rat
  fee_isLegacy :: bool

definition store_calculateTransactionFee :: "transactions_store \<Rightarrow> string \<Rightarrow> js_object + wallet_fee_call" where
  "store_calculateTransactionFee s walletId = (case find (\<lambda>w. wallet_id w = walletId) (all_wallets s) of
       None \<Rightarrow> Inl (js_error ''Active wallet required before calculating transaction fees.'')
     | Some w \<Rightarrow> Inr \<lparr>fee_walletBalance = wallet_amount w, fee_availableBalance = availableAmount w + reward w,
                      fee_rewardsBalance = reward w, fee_isLegacy = isLegacy w\<rparr>)"

definition deletePendingTransaction :: "transactions_store \<Rightarrow> string \<Rightarrow> string \<Rightarrow> js_object + (string \<times> string \<times> bool)" where
  "deletePendingTransaction s walletId transactionId = (case find (\<lambda>w. wallet_id w = walletId) (all_wallets s) of
       None \<Rightarrow> Inl (js_error ''Active wallet required before deleting a pending transaction.'')
     | Some w \<Rightarrow> Inr (walletId, transactionId, isLegacy w))"

section \<open>What the lists show\<close>

lemma filter_or_throw_Inr:
  "filter_or_throw p xs = Inr ys \<Longrightarrow> ys = filter (\<lambda>x. p x = Inr True) xs"
  by (induction xs arbitrary: ys) (auto split: sum.splits if_splits)

lemma filter_or_throw_total: "(\<And>x. x \<in> set xs \<Longrightarrow> \<exists>b. p x = Inr b) \<Longrightarrow> \<exists>ys. filter_or_throw p xs = Inr ys"
proof (induction xs)
  case (Cons x xs)
  then obtain b ys where "p x = Inr b" "filter_or_throw p xs = Inr ys" by (meson list.set_intros)
  then show ?case by simp
qed simp

lemma no_search_no_throw:
  "default [] (searchTerm (default no_options f)) = [] \<Longrightarrow> \<exists>b. isTransactionInFilterRange L f t = Inr b"
  by (simp add: isTransactionInFilterRange_def isTransactionTitleInFilterRange_def Let_def)

lemma filtered_lists:
  assumes "allFiltered L s = Inr ts"
  shows "ts = (let p = (\<lambda>t. isTransactionInFilterRange L (filterOptions s) t = Inr True)
               in if filter p (all_transactions s) = [] then filter p (recent s) else filter p (all_transactions s))"
proof -
  let ?p = "isTransactionInFilterRange L (filterOptions s)"
  from assms obtain rs as where r: "filter_or_throw ?p (recent s) = Inr rs" "filter_or_throw ?p (all_transactions s) = Inr as"
    "ts = (if as = [] \<and> rs \<noteq> [] then rs else as)"
    by (auto simp: allFiltered_def recentFiltered_def split: sum.splits)
  from filter_or_throw_Inr [OF r(1)] filter_or_throw_Inr [OF r(2)] r(3) show ?thesis
    by (auto simp: Let_def)
qed

text \<open>
  A cleared filter shows everything. Whatever the store holds, after the filter of the active wallet
  was cleared the list is the whole of its transactions, in their order, or its recent ones while
  there are no others, and the filters of the other wallets are as they were.
\<close>

theorem cleared_filter_shows_everything:
  assumes "active_wallet s = Some w"
  shows "allFiltered L (clearFilterOptions s)
       = Inr (if all_transactions s = [] then recent s else all_transactions s)
     \<and> getNumberOfFilterDimensionsApplied (filterOptions (clearFilterOptions s)) = 0
     \<and> filterOptionsForWallets (clearFilterOptions s) |` (- {wallet_id w}) = filterOptionsForWallets s |` (- {wallet_id w})"
proof -
  let ?s = "clearFilterOptions s"
  have f: "filterOptions ?s = Some emptyTransactionFilterOptions"
    and same: "recent ?s = recent s" "all_transactions ?s = all_transactions s"
    using assms by (simp_all add: filterOptions_def clearFilterOptions_def of_active_def recent_def
        all_transactions_def getTransactionsRecentRequest_def getTransactionsAllRequest_def found_requests_def)
  have p: "isTransactionInFilterRange L (Some emptyTransactionFilterOptions) t = Inr True" for t
    by (cases "transaction_date t") (simp_all add: isTransactionInFilterRange_def isTransactionTitleInFilterRange_def
        default_def emptyTransactionFilterOptions_def isTransactionDateInFilterRange_def
        isTransactionAmountInFilterRange_def isTransactionTypeInFilterRange_def)
  have "filter_or_throw (isTransactionInFilterRange L (Some emptyTransactionFilterOptions)) ts = Inr ts" for ts
    by (induction ts) (simp_all add: p)
  then have "allFiltered L ?s = Inr (if all_transactions s = [] then recent s else all_transactions s)"
    by (simp add: allFiltered_def recentFiltered_def f same)
  moreover have "filterOptionsForWallets ?s |` (- {wallet_id w}) = filterOptionsForWallets s |` (- {wallet_id w})"
    using assms by (auto simp: clearFilterOptions_def of_active_def restrict_map_def)
  ultimately show ?thesis
    by (simp add: f getNumberOfFilterDimensionsApplied_def default_def emptyTransactionFilterOptions_def)
qed

definition example_wallet :: "string \<Rightarrow> wallet" where
  "example_wallet i = \<lparr>wallet_id = i, addressPoolGap = 20, wallet_name = ''W'', wallet_amount = 5, availableAmount = 5,
     reward = 0, availableAssets = [], totalAssets = [], passwordUpdateDate = None, hasPassword = True,
     syncState = \<lparr>sync_status = ''ready'', sync_quantity = None\<rparr>, isLegacy = False, isHardwareWallet = False,
     delegatedStakePoolId = None, delegationStakePoolStatus = None, lastDelegatedStakePoolId = None,
     lastDelegationStakePoolStatus = None, pendingDelegations = None, discovery = ''sequential''\<rparr>"

definition example_store :: transactions_store where
  "example_store = \<lparr>transactionsRequests = [\<lparr>wr_walletId = ''w'', recent_result = Some
       \<lparr>response_transactions = [example_transaction None 1], response_total = 1\<rparr>, all_result = None, withdrawals_result = None\<rparr>],
     filterOptionsForWallets = (\<lambda>i. Some (no_options\<lparr>searchTerm := Some ''x''\<rparr>)), active_wallet = Some (example_wallet ''w''),
     all_wallets = [example_wallet ''w''], store_connected = True\<rparr>"

lemma cleared_filter_shows_everything_witness:
  "allFiltered example_libraries (clearFilterOptions example_store)
     = Inr (if all_transactions example_store = [] then recent example_store else all_transactions example_store)
   \<and> recent example_store = [example_transaction None 1]"
  by (rule conjI, rule cleared_filter_shows_everything [where w = "example_wallet ''w''", THEN conjunct1])
    (simp_all add: example_store_def recent_def of_active_def getTransactionsRecentRequest_def found_requests_def
      example_wallet_def)

end
