(* ===== verification/HardwareTx.thy ===== *)
theory HardwareTx imports BccApi Texts "HOL-Library.Word" begin

text \<open>
  Transactions for hardware wallets: \<open>utils/hardwareWalletUtils.js\<close>, \<open>utils/sophieLedger.js\<close>,
  \<open>utils/sophieTrezor.js\<close> and the encoding of \<open>utils/transaction.js\<close>. What an \<open>encodeCBOR\<close> method pushes
  is a value of the datatype \<open>cbor\<close>; the encoders, the address decoders, the path parser of the
  Ledger library and \<open>localeCompare\<close> are parameters.
\<close>

type_synonym bytes = "8 word list"

section \<open>Hexadecimal texts\<close>

definition hex_value :: "char \<Rightarrow> nat option" where
  "hex_value c = (let n = of_char c :: nat in
     if 48 \<le> n \<and> n \<le> 57 then Some (n - 48)
     else if 97 \<le> n \<and> n \<le> 102 then Some (n - 87)
     else if 65 \<le> n \<and> n \<le> 70 then Some (n - 55) else None)"

definition hex_char :: "nat \<Rightarrow> char" where
  "hex_char d = (if d < 10 then char_of (48 + d) else char_of (87 + d))"

text \<open>\<open>Buffer.from(s, 'hex')\<close> stops at the first pair that is not hexadecimal.\<close>

fun hex_to_bytes :: "string \<Rightarrow> bytes" where
  "hex_to_bytes (c # d # s) = (case (hex_value c, hex_value d) of
       (Some h, Some l) \<Rightarrow> word_of_nat (16 * h + l) # hex_to_bytes s
     | _ \<Rightarrow> [])"
| "hex_to_bytes s = []"

text \<open>\<open>toString('hex')\<close>\<close>

definition bytes_to_hex :: "bytes \<Rightarrow> string" where
  "bytes_to_hex bs = concat (map (\<lambda>b. [hex_char (unat b div 16), hex_char (unat b mod 16)]) bs)"

lemma hex_value_char: "d < 16 \<Longrightarrow> hex_value (hex_char d) = Some d"
  by (auto simp: hex_value_def hex_char_def Let_def)

lemma hex_roundtrip: "hex_to_bytes (bytes_to_hex bs) = bs"
proof (induction bs)
  case (Cons b bs)
  have "unat b < 256" using unsigned_less [of b] by simp
  then have "unat b div 16 < 16" "unat b mod 16 < 16" by auto
  with Cons show ?case by (simp add: bytes_to_hex_def hex_value_char)
qed (simp add: bytes_to_hex_def)

section \<open>The libraries\<close>

record hw_library =
  bech32_decodeAddress :: "string \<Rightarrow> bytes"
  base58_decode :: "string \<Rightarrow> bytes"
  buf_to_hex :: "bytes \<Rightarrow> string"
  str_to_path :: "string \<Rightarrow> int list"
  localeCompare :: "string \<Rightarrow> string \<Rightarrow> int"

text \<open>The values handed to an encoder; \<open>CIndef\<close> is an array of indefinite length, \<open>CUndef\<close> the value \<open>undefined\<close>.\<close>

datatype cbor =
    CNum rat
  | CBytes bytes
  | CArr "cbor list"
  | CIndef "cbor list"
  | CMap "(cbor \<times> cbor) list"
  | CTag nat cbor
  | CNull
  | CUndef

section \<open>Derivation paths\<close>

definition HARDENED :: int where "HARDENED = 2147483648"
definition HARDENED_THRESHOLD :: int where "HARDENED_THRESHOLD = 2147483648"

definition prime_first_H :: "string \<Rightarrow> string" where
  "prime_first_H chunk = replace_first ''H'' [CHR 0x27] chunk"

definition derivationPathToLedgerPath :: "hw_library \<Rightarrow> string list \<Rightarrow> int list" where
  "derivationPathToLedgerPath U derivationPath =
     str_to_path U (join_with ''/'' (map prime_first_H derivationPath))"

definition PATH_ROLE_IDENTITY :: "(string \<times> string) list" where
  "PATH_ROLE_IDENTITY = [(''role0'', ''utxo_external''), (''role1'', ''utxo_internal''),
     (''role2'', ''mutable_account''), (''role3'', ''multisig_script'')]"

record path_params =
  role :: "string option"
  role_index :: "string option"
  roleIdentity :: "string option"

definition getParamsFromPath :: "string list \<Rightarrow> path_params" where
  "getParamsFromPath derivationPath =
     (let pathParams = drop (length derivationPath - 2) derivationPath;
          nth_opt = (\<lambda>i. if i < length pathParams then Some (pathParams ! i) else None)
      in \<lparr>role = nth_opt 0, role_index = nth_opt 1,
          roleIdentity = map_of PATH_ROLE_IDENTITY
            (''role'' @ (case nth_opt 0 of None \<Rightarrow> ''undefined'' | Some r \<Rightarrow> r))\<rparr>)"

definition hardenedPathToString :: "int list \<Rightarrow> string" where
  "hardenedPathToString hardendedPath =
     replace_first ''m/'' [] (derivationPathToString (map (\<lambda>chunk. int_text (chunk - HARDENED) @ ''H'') hardendedPath))"

text \<open>Only the first three chunks are hardened.\<close>

definition hardenedPathToDerivationPath :: "int list \<Rightarrow> string list \<times> string list" where
  "hardenedPathToDerivationPath hardendedPath =
     (map (\<lambda>(index, chunk). if index \<le> 2 then int_text (chunk - HARDENED) @ ''H'' else int_text chunk)
        (enumerate (0::nat) hardendedPath),
      ''m'' # map (\<lambda>(index, chunk). if index \<le> 2 then int_text (chunk - HARDENED) @ [CHR 0x27] else int_text chunk)
        (enumerate (0::nat) hardendedPath))"

definition indexIsHardened :: "int \<Rightarrow> bool" where
  "indexIsHardened index \<longleftrightarrow> index \<ge> HARDENED_THRESHOLD"

text \<open>What is documented of the Ledger library's \<open>str_to_path\<close>: a number, hardened when a prime follows.\<close>

definition path_text :: "int \<Rightarrow> string" where
  "path_text n = (if indexIsHardened n then int_text (n - HARDENED) @ [CHR 0x27] else int_text n)"

definition parses_paths :: "(string \<Rightarrow> int list) \<Rightarrow> bool" where
  "parses_paths parse \<longleftrightarrow> (\<forall>ns. ns \<noteq> [] \<and> (\<forall>n \<in> set ns. 0 \<le> n \<and> n < 2 * HARDENED)
     \<longrightarrow> parse (join_with ''/'' (map path_text ns)) = ns)"

lemma replace_first_append_absent: "c \<notin> set s \<Longrightarrow> replace_first [c] r (s @ t) = s @ replace_first [c] r t"
  by (induction s) auto

lemma prime_hardened: "prime_first_H (int_text n @ ''H'') = int_text n @ [CHR 0x27]"
proof -
  have "CHR ''H'' \<notin> set (int_text n)" using nat_text_no_char [of "CHR ''H''"] by (simp add: int_text_def)
  then show ?thesis by (simp add: prime_first_H_def replace_first_append_absent)
qed

lemma prime_soft: "prime_first_H (int_text n) = int_text n"
proof -
  have "CHR ''H'' \<notin> set (int_text n)" using nat_text_no_char [of "CHR ''H''"] by (simp add: int_text_def)
  then show ?thesis using replace_first_append_absent [of "CHR ''H''" "int_text n" _ "[]"] by (simp add: prime_first_H_def)
qed

text \<open>The paths of the wallet: up to three hardened indices, then others.\<close>

definition account_path :: "int list \<Rightarrow> bool" where
  "account_path p \<longleftrightarrow> p \<noteq> [] \<and> (\<forall>n \<in> set (take 3 p). HARDENED \<le> n \<and> n < 2 * HARDENED)
     \<and> (\<forall>n \<in> set (drop 3 p). 0 \<le> n \<and> n < HARDENED)"

text \<open>
  Paths survive their texts. A path of up to three hardened indices followed by others that are not,
  as the devices report it, becomes the backend's text for it and from that the same path again.
\<close>

theorem derivation_path_roundtrip:
  assumes "parses_paths (str_to_path U)" and "account_path p"
  shows "derivationPathToLedgerPath U (fst (hardenedPathToDerivationPath p)) = p"
proof -
  have e: "map (\<lambda>(i, n). prime_first_H (if i \<le> 2 then int_text (n - HARDENED) @ ''H'' else int_text n)) (enumerate k q)
      = map path_text q"
    if "\<forall>n \<in> set (take (3 - k) q). HARDENED \<le> n" "\<forall>n \<in> set (drop (3 - k) q). n < HARDENED" for k q
    using that
  proof (induction q arbitrary: k)
    case (Cons n q)
    show ?case
    proof (cases "k \<le> 2")
      case True
      then have "3 - k = Suc (3 - Suc k)" by simp
      with Cons.prems Cons.IH [of "Suc k"] True show ?thesis
        by (simp add: path_text_def indexIsHardened_def HARDENED_THRESHOLD_def HARDENED_def prime_hardened)
    next
      case False
      with Cons.prems Cons.IH [of "Suc k"] show ?thesis
        by (simp add: path_text_def indexIsHardened_def HARDENED_THRESHOLD_def HARDENED_def prime_soft)
    qed
  qed simp
  have "map prime_first_H (fst (hardenedPathToDerivationPath p)) = map path_text p"
    using e [of 0 p] assms(2) by (simp add: hardenedPathToDerivationPath_def account_path_def o_def case_prod_unfold)
  moreover have "\<forall>n \<in> set p. 0 \<le> n \<and> n < 2 * HARDENED"
  proof
    fix n assume "n \<in> set p"
    then have "n \<in> set (take 3 p) \<union> set (drop 3 p)" by (metis append_take_drop_id set_append)
    with assms(2) show "0 \<le> n \<and> n < 2 * HARDENED" by (auto simp: account_path_def HARDENED_def)
  qed
  ultimately show ?thesis
    using assms by (simp add: derivationPathToLedgerPath_def parses_paths_def account_path_def)
qed

section \<open>Native tokens\<close>

text \<open>\<open>Array.prototype.sort\<close> and \<open>lodash.orderBy\<close>: stable, by a comparator.\<close>

fun insert_by :: "('a \<Rightarrow> 'a \<Rightarrow> int) \<Rightarrow> 'a \<Rightarrow> 'a list \<Rightarrow> 'a list" where
  "insert_by cmp x [] = [x]"
| "insert_by cmp x (y # ys) = (if cmp x y \<le> 0 then x # y # ys else y # insert_by cmp x ys)"

definition sort_by :: "('a \<Rightarrow> 'a \<Rightarrow> int) \<Rightarrow> 'a list \<Rightarrow> 'a list" where
  "sort_by cmp xs = foldr (insert_by cmp) xs []"

text \<open>Strings compared by their characters' codes.\<close>

fun code_compare :: "string \<Rightarrow> string \<Rightarrow> int" where
  "code_compare [] [] = 0"
| "code_compare [] (d # t) = -1"
| "code_compare (c # s) [] = 1"
| "code_compare (c # s) (d # t) =
     (if (of_char c :: nat) < of_char d then -1 else if (of_char d :: nat) < of_char c then 1 else code_compare s t)"

definition or_else_compare :: "int \<Rightarrow> int \<Rightarrow> int" where
  "or_else_compare a b = (if a \<noteq> 0 then a else b)"

definition compareStringsCanonically :: "hw_library \<Rightarrow> string \<Rightarrow> string \<Rightarrow> int" where
  "compareStringsCanonically U string1 string2 =
     or_else_compare (int (length string1) - int (length string2)) (localeCompare U string1 string2)"

text \<open>\<open>lodash.groupBy\<close>: the groups in the order of their first members.\<close>

fun group_by :: "('a \<Rightarrow> 'k) \<Rightarrow> 'a list \<Rightarrow> ('k \<times> 'a list) list" where
  "group_by key [] = []"
| "group_by key (x # xs) = (key x, x # filter (\<lambda>y. key y = key x) xs) # group_by key (filter (\<lambda>y. key y \<noteq> key x) xs)"

type_synonym token_groups = "(string \<times> selection_asset list) list"

definition groupTokensByPolicyId :: "hw_library \<Rightarrow> selection_asset list \<Rightarrow> token_groups" where
  "groupTokensByPolicyId U assets =
     (let ordered = sort_by (\<lambda>a b. or_else_compare (code_compare (se_policyId a) (se_policyId b))
                                    (code_compare (se_assetName a) (se_assetName b))) assets;
          groups = map (\<lambda>(policyId, tokens). (policyId,
                     sort_by (\<lambda>a b. compareStringsCanonically U (se_assetName a) (se_assetName b)) tokens))
                   (group_by se_policyId ordered)
      in sort_by (\<lambda>a b. compareStringsCanonically U (fst a) (fst b)) groups)"

text \<open>\<open>quantity.toString()\<close>, for whole quantities.\<close>

definition number_text :: "rat \<Rightarrow> string" where
  "number_text q = int_text \<lfloor>q\<rfloor>"

record token_amount =
  assetNameHex :: string
  token_amount_text :: string

record token_group =
  policyIdHex :: string
  group_tokens :: "token_amount list"

definition prepareTokenBundle :: "hw_library \<Rightarrow> selection_asset list \<Rightarrow> token_group list" where
  "prepareTokenBundle U assets = map (\<lambda>(policyId, tokens).
     \<lparr>policyIdHex = policyId,
      group_tokens = map (\<lambda>t. \<lparr>assetNameHex = se_assetName t, token_amount_text = number_text (se_quantity t)\<rparr>) tokens\<rparr>)
     (groupTokensByPolicyId U assets)"

section \<open>The values of a transaction\<close>

definition SophieTxInputFromUtxo :: "coin_input \<Rightarrow> cbor" where
  "SophieTxInputFromUtxo i = CArr [CBytes (hex_to_bytes (in_id i)), CNum (of_nat (in_index i))]"

definition SophieTxOutputAssets :: "hw_library \<Rightarrow> selection_asset list \<Rightarrow> cbor" where
  "SophieTxOutputAssets U assets = CMap (map (\<lambda>(policyId, tokens).
     (CBytes (hex_to_bytes policyId),
      CMap (map (\<lambda>t. (CBytes (hex_to_bytes (se_assetName t)), CNum (se_quantity t))) tokens)))
     (groupTokensByPolicyId U assets))"

datatype address_style = ADDRESS_SOPHIE | ADDRESS_COLE | ADDRESS_ICARUS

definition address_bytes :: "hw_library \<Rightarrow> address_style \<Rightarrow> string \<Rightarrow> bytes" where
  "address_bytes U style address =
     (if style = ADDRESS_SOPHIE then bech32_decodeAddress U address else base58_decode U address)"

definition SophieTxOutput :: "hw_library \<Rightarrow> coin_output \<Rightarrow> address_style \<Rightarrow> cbor" where
  "SophieTxOutput U out style =
     (let coins = (if out_assets out \<noteq> [] then CArr [CNum (out_amount out), SophieTxOutputAssets U (out_assets out)]
                   else CNum (out_amount out))
      in CArr [CBytes (address_bytes U style (out_address out)), coins])"

definition CERTIFICATE_TYPE :: "(string \<times> nat) list" where
  "CERTIFICATE_TYPE = [(''register_reward_account'', 0), (''quit_pool'', 1), (''join_pool'', 2)]"

text \<open>The type is read from the table, and a type that is not in it, or a missing pool, is \<open>undefined\<close>.\<close>

definition SophieTxCert :: "hw_library \<Rightarrow> nat option \<Rightarrow> string \<Rightarrow> string option \<Rightarrow> cbor" where
  "SophieTxCert U type accountAddress pool =
     (let hash = (case pool of None \<Rightarrow> CUndef
                  | Some p \<Rightarrow> CBytes (hex_to_bytes (buf_to_hex U (bech32_decodeAddress U p))));
          account = CArr [CNum 0, CBytes (drop 1 (bech32_decodeAddress U accountAddress))]
      in case type of
           Some t \<Rightarrow> if t = 0 \<or> t = 1 then CArr [CNum (of_nat t), account]
                     else if t = 2 then CArr [CNum 2, account, hash] else CUndef
         | None \<Rightarrow> CUndef)"

definition SophieTxWithdrawal :: "hw_library \<Rightarrow> server_coin_withdrawal list \<Rightarrow> cbor" where
  "SophieTxWithdrawal U withdrawals =
     CMap (map (\<lambda>w. (CBytes (bech32_decodeAddress U (cw_stake_address w)), CNum (cw_amount w))) withdrawals)"

definition SophieFee :: "int \<Rightarrow> cbor" where "SophieFee fee = CNum (of_int fee)"
definition SophieTtl :: "int \<Rightarrow> cbor" where "SophieTtl ttl = CNum (of_int ttl)"

definition SophieTxWitnessSophie :: "bytes \<Rightarrow> bytes \<Rightarrow> cbor" where
  "SophieTxWitnessSophie publicKey signature = CArr [CBytes publicKey, CBytes signature]"

record tx_aux =
  aux_inputs :: "cbor list"
  aux_outputs :: "cbor list"
  aux_fee :: cbor
  aux_ttl :: cbor
  aux_certs :: "cbor list"
  aux_withdrawals :: "cbor option"
  auxiliaryDataHash :: "string option"

text \<open>\<open>prepareTxAux\<close> and the \<open>encodeCBOR\<close> of \<open>SophieTxAux\<close>.\<close>

definition prepareTxAux ::
  "cbor list \<Rightarrow> cbor list \<Rightarrow> int \<Rightarrow> int \<Rightarrow> cbor list \<Rightarrow> cbor option \<Rightarrow> string option \<Rightarrow> tx_aux" where
  "prepareTxAux txInputs txOutputs fee ttl certificates withdrawals hash =
     \<lparr>aux_inputs = txInputs, aux_outputs = txOutputs, aux_fee = SophieFee fee, aux_ttl = SophieTtl ttl,
      aux_certs = certificates, aux_withdrawals = withdrawals, auxiliaryDataHash = hash\<rparr>"

definition SophieTxAux :: "tx_aux \<Rightarrow> cbor" where
  "SophieTxAux a = CMap (
     [(CNum 0, CArr (aux_inputs a)), (CNum 1, CArr (aux_outputs a)), (CNum 2, aux_fee a), (CNum 3, aux_ttl a)]
     @ (if aux_certs a \<noteq> [] then [(CNum 4, CArr (aux_certs a))] else [])
     @ (case aux_withdrawals a of None \<Rightarrow> [] | Some w \<Rightarrow> [(CNum 5, w)])
     @ (case auxiliaryDataHash a of None \<Rightarrow> []
        | Some h \<Rightarrow> if h = [] then [] else [(CNum 7, CBytes (hex_to_bytes h))]))"

definition txAux_getId :: "(cbor \<Rightarrow> bytes) \<Rightarrow> (bytes \<Rightarrow> bytes) \<Rightarrow> tx_aux \<Rightarrow> string" where
  "txAux_getId encode blake2b a = bytes_to_hex (blake2b (encode (SophieTxAux a)))"

definition SophieSignedTransactionStructured :: "tx_aux \<Rightarrow> cbor \<Rightarrow> cbor option \<Rightarrow> cbor" where
  "SophieSignedTransactionStructured txAux witnesses txAuxiliaryData =
     CArr [SophieTxAux txAux, witnesses, (case txAuxiliaryData of None \<Rightarrow> CNull | Some d \<Rightarrow> d)]"

definition prepareBody :: "(cbor \<Rightarrow> bytes) \<Rightarrow> tx_aux \<Rightarrow> cbor \<Rightarrow> cbor option \<Rightarrow> string" where
  "prepareBody encode unsignedTx txWitnesses txAuxiliaryData =
     bytes_to_hex (encode (SophieSignedTransactionStructured unsignedTx txWitnesses txAuxiliaryData))"

section \<open>Voting registrations\<close>

record tx_auxiliary_data =
  nonce :: rat
  reward_address :: string
  reward_stakingPath :: "int list"
  stakePubKey :: string
  votingPubKey :: string

definition cborizeTxVotingRegistration :: "hw_library \<Rightarrow> tx_auxiliary_data \<Rightarrow> cbor \<times> cbor" where
  "cborizeTxVotingRegistration U d =
     (CNum 61284, CMap [(CNum 1, CBytes (hex_to_bytes (votingPubKey d))),
        (CNum 2, CBytes (hex_to_bytes (stakePubKey d))),
        (CNum 3, CBytes (bech32_decodeAddress U (reward_address d))), (CNum 4, CNum (nonce d))])"

definition cborizeTxAuxiliaryVotingData :: "hw_library \<Rightarrow> tx_auxiliary_data \<Rightarrow> string \<Rightarrow> cbor" where
  "cborizeTxAuxiliaryVotingData U d signatureHex =
     CArr [CMap [cborizeTxVotingRegistration U d,
                 (CNum 61285, CMap [(CNum 1, CBytes (hex_to_bytes signatureHex))])], CArr []]"

record ledger_registration =
  lr_votingPublicKeyHex :: string
  lr_stakingPath :: "int list"
  lr_rewardsPath :: "int list"
  lr_nonce :: string

text \<open>The only type of auxiliary data is a voting registration.\<close>

definition prepareLedgerAuxiliaryData :: "tx_auxiliary_data \<Rightarrow> ledger_registration" where
  "prepareLedgerAuxiliaryData d = \<lparr>lr_votingPublicKeyHex = votingPubKey d, lr_stakingPath = reward_stakingPath d,
     lr_rewardsPath = reward_stakingPath d, lr_nonce = number_text (nonce d)\<rparr>"

record trezor_registration =
  tr_votingPublicKey :: string
  tr_stakingPath :: string
  tr_addressType :: nat
  tr_rewardPath :: string
  tr_nonce :: string

definition prepareTrezorAuxiliaryData :: "string \<Rightarrow> string \<Rightarrow> trezor_registration" where
  "prepareTrezorAuxiliaryData votingKey nonceText = \<lparr>tr_votingPublicKey = votingKey,
     tr_stakingPath = ''m/1852'' @ [CHR 0x27] @ ''/1815'' @ [CHR 0x27] @ ''/0'' @ [CHR 0x27] @ ''/2/0'', tr_addressType = 14,
     tr_rewardPath = ''m/1852'' @ [CHR 0x27] @ ''/1815'' @ [CHR 0x27] @ ''/0'' @ [CHR 0x27] @ ''/2/0'', tr_nonce = nonceText\<rparr>"

section \<open>What the devices are given\<close>

record ledger_input =
  txHashHex :: string
  outputIndex :: nat
  input_path :: "int list"

definition prepareLedgerInput :: "hw_library \<Rightarrow> coin_input \<Rightarrow> ledger_input" where
  "prepareLedgerInput U i = \<lparr>txHashHex = in_id i, outputIndex = in_index i,
     input_path = derivationPathToLedgerPath U (in_derivationPath i)\<rparr>"

datatype ledger_destination = DEVICE_OWNED "int list" "int list" | THIRD_PARTY string

record ledger_output =
  destination :: ledger_destination
  output_amount_text :: string
  tokenBundle :: "token_group list"

definition staking_path_text :: string where
  "staking_path_text = ''1852'' @ [CHR 0x27] @ ''/1815'' @ [CHR 0x27] @ ''/0'' @ [CHR 0x27] @ ''/2/0''"

definition prepareLedgerOutput :: "hw_library \<Rightarrow> coin_output \<Rightarrow> address_style \<Rightarrow> ledger_output" where
  "prepareLedgerOutput U out style =
     \<lparr>destination = (case out_derivationPath out of
          Some p \<Rightarrow> DEVICE_OWNED (derivationPathToLedgerPath U p) (str_to_path U staking_path_text)
        | None \<Rightarrow> THIRD_PARTY (buf_to_hex U (address_bytes U style (out_address out)))),
      output_amount_text = number_text (out_amount out),
      tokenBundle = prepareTokenBundle U (out_assets out)\<rparr>"

record ledger_certificate =
  cert_type :: "nat option"
  cert_path :: "int list"
  poolKeyHashHex :: "string option"

definition prepareLedgerCertificate :: "hw_library \<Rightarrow> server_certificate \<Rightarrow> ledger_certificate" where
  "prepareLedgerCertificate U c = \<lparr>cert_type = map_of CERTIFICATE_TYPE (certificate_type c),
     cert_path = derivationPathToLedgerPath U (reward_account_path c),
     poolKeyHashHex = map_option (\<lambda>p. buf_to_hex U (bech32_decodeAddress U p)) (certificate_pool c)\<rparr>"

definition prepareLedgerWithdrawal :: "hw_library \<Rightarrow> server_coin_withdrawal \<Rightarrow> int list \<times> string" where
  "prepareLedgerWithdrawal U w = (derivationPathToLedgerPath U (cw_derivation_path w), number_text (cw_amount w))"

record trezor_input =
  trezor_path :: string
  prev_hash :: string
  prev_index :: nat

definition prepareTrezorInput :: "coin_input \<Rightarrow> trezor_input" where
  "prepareTrezorInput i = \<lparr>trezor_path = derivationPathToString (in_derivationPath i), prev_hash = in_id i,
     prev_index = in_index i\<rparr>"

datatype trezor_destination = AddressParameters nat string string | TrezorAddress string

text \<open>\<open>prepareTokenBundle\<close> of \<open>sophieTrezor.js\<close>, with the Trezor's names of the fields.\<close>

record trezor_group =
  trezor_policyId :: string
  tokenAmounts :: "(string \<times> string) list"

definition prepareTrezorTokenBundle :: "hw_library \<Rightarrow> selection_asset list \<Rightarrow> trezor_group list" where
  "prepareTrezorTokenBundle U assets = map (\<lambda>(policyId, tokens).
     \<lparr>trezor_policyId = policyId, tokenAmounts = map (\<lambda>t. (se_assetName t, number_text (se_quantity t))) tokens\<rparr>)
     (groupTokensByPolicyId U assets)"

text \<open>An array is truthy, so an output is a change output when it has a path, as for the Ledger.\<close>

definition prepareTrezorOutput :: "hw_library \<Rightarrow> coin_output \<Rightarrow> trezor_destination \<times> string \<times> trezor_group list" where
  "prepareTrezorOutput U out =
     ((case out_derivationPath out of
         Some p \<Rightarrow> AddressParameters 0 (derivationPathToString p) (''m/'' @ staking_path_text)
       | None \<Rightarrow> TrezorAddress (out_address out)),
      number_text (out_amount out), prepareTrezorTokenBundle U (out_assets out))"

definition prepareTrezorCertificate :: "hw_library \<Rightarrow> server_certificate \<Rightarrow> nat option \<times> string \<times> string option" where
  "prepareTrezorCertificate U c = (map_of CERTIFICATE_TYPE (certificate_type c),
     derivationPathToString (reward_account_path c),
     map_option (\<lambda>p. buf_to_hex U (bech32_decodeAddress U p)) (certificate_pool c))"

definition prepareTrezorWithdrawal :: "server_coin_withdrawal \<Rightarrow> string \<times> string" where
  "prepareTrezorWithdrawal w = (derivationPathToString (cw_derivation_path w), number_text (cw_amount w))"

section \<open>Token bundles are canonical\<close>

definition comparison :: "('a \<Rightarrow> 'a \<Rightarrow> int) \<Rightarrow> bool" where
  "comparison cmp \<longleftrightarrow> (\<forall>a b. cmp a b \<le> 0 \<or> cmp b a \<le> 0) \<and> (\<forall>a b c. cmp a b \<le> 0 \<and> cmp b c \<le> 0 \<longrightarrow> cmp a c \<le> 0)"

text \<open>What is relied on of \<open>localeCompare\<close>: a total order up to equivalence, so a negative result one way is positive the other.\<close>

definition collates :: "(string \<Rightarrow> string \<Rightarrow> int) \<Rightarrow> bool" where
  "collates cmp \<longleftrightarrow> comparison cmp \<and> (\<forall>s t. (cmp s t < 0) = (cmp t s > 0))"

lemma mset_insert_by [simp]: "mset (insert_by cmp x xs) = add_mset x (mset xs)"
  by (induction xs) simp_all

lemma mset_sort_by [simp]: "mset (sort_by cmp xs) = mset xs"
  by (induction xs) (simp_all add: sort_by_def)

lemma set_sort_by [simp]: "set (sort_by cmp xs) = set xs"
  by (metis mset_sort_by set_mset_mset)

lemma set_insert_by [simp]: "set (insert_by cmp x xs) = insert x (set xs)"
  by (induction xs) auto

lemma sorted_insert_by:
  assumes "comparison cmp" and "sorted_wrt (\<lambda>a b. cmp a b \<le> 0) xs"
  shows "sorted_wrt (\<lambda>a b. cmp a b \<le> 0) (insert_by cmp x xs)"
  using assms(2)
proof (induction xs)
  case (Cons y ys)
  show ?case
  proof (cases "cmp x y \<le> 0")
    case True
    have "cmp x z \<le> 0" if "z \<in> set ys" for z
    proof -
      from that Cons.prems have "cmp y z \<le> 0" by simp
      with True assms(1) show ?thesis unfolding comparison_def by blast
    qed
    with True Cons.prems show ?thesis by simp
  next
    case False
    with assms(1) have "cmp y x \<le> 0" unfolding comparison_def by blast
    with False Cons show ?thesis by simp
  qed
qed simp

lemma sorted_sort_by: "comparison cmp \<Longrightarrow> sorted_wrt (\<lambda>a b. cmp a b \<le> 0) (sort_by cmp xs)"
  by (induction xs) (simp_all add: sort_by_def sorted_insert_by)

lemma comparison_pullback: "comparison cmp \<Longrightarrow> comparison (\<lambda>a b. cmp (f a) (f b))"
  unfolding comparison_def by blast

lemma canonical_le:
  "compareStringsCanonically U s t \<le> 0
   \<longleftrightarrow> length s < length t \<or> length s = length t \<and> localeCompare U s t \<le> 0"
  by (auto simp: compareStringsCanonically_def or_else_compare_def)

lemma comparison_canonical: "collates (localeCompare U) \<Longrightarrow> comparison (compareStringsCanonically U)"
  unfolding comparison_def canonical_le
proof (intro conjI allI impI)
  assume c: "collates (localeCompare U)"
  show "(length a < length b \<or> length a = length b \<and> localeCompare U a b \<le> 0) \<or>
      length b < length a \<or> length b = length a \<and> localeCompare U b a \<le> 0" for a b
    using c unfolding collates_def comparison_def by (metis linorder_neqE_nat)
  show "length a < length c \<or> length a = length c \<and> localeCompare U a c \<le> 0"
    if "(length a < length b \<or> length a = length b \<and> localeCompare U a b \<le> 0) \<and>
        (length b < length c \<or> length b = length c \<and> localeCompare U b c \<le> 0)" for a b c
  proof -
    have "localeCompare U a b \<le> 0 \<and> localeCompare U b c \<le> 0 \<longrightarrow> localeCompare U a c \<le> 0"
      using c unfolding collates_def comparison_def by blast
    with that show ?thesis by auto
  qed
qed

lemma set_group_keys: "fst ` set (group_by key xs) = key ` set xs"
proof (induction key xs rule: group_by.induct)
  case (2 key x xs)
  then show ?case by auto
qed simp

lemma distinct_group_keys: "distinct (map fst (group_by key xs))"
proof (induction key xs rule: group_by.induct)
  case (2 key x xs)
  have "key x \<notin> fst ` set (group_by key (filter (\<lambda>y. key y \<noteq> key x) xs))" by (auto simp: set_group_keys)
  with 2 show ?case by simp
qed simp

lemma groups_members: "(k, ys) \<in> set (group_by key xs) \<Longrightarrow> ys = filter (\<lambda>y. key y = k) xs \<and> ys \<noteq> []"
proof (induction key xs rule: group_by.induct)
  case (2 key x xs)
  have f: "filter (\<lambda>y. key y = k) (filter (\<lambda>y. key y \<noteq> key x) xs) = filter (\<lambda>y. key y = k) xs" if "k \<noteq> key x"
    using that by (auto simp: filter_filter intro: filter_cong)
  show ?case
  proof (cases "(k, ys) \<in> set (group_by key (filter (\<lambda>y. key y \<noteq> key x) xs))")
    case True
    then have "k \<in> fst ` set (group_by key (filter (\<lambda>y. key y \<noteq> key x) xs))" by force
    then have "k \<noteq> key x" by (auto simp: set_group_keys)
    with 2 True f show ?thesis by auto
  next
    case False
    with 2 show ?thesis by simp
  qed
qed simp

lemma mset_groups: "mset (concat (map snd (group_by key xs))) = mset xs"
proof (induction key xs rule: group_by.induct)
  case (2 key x xs)
  have "mset (filter (\<lambda>y. key y = key x) xs) + mset (filter (\<lambda>y. key y \<noteq> key x) xs) = mset xs"
    by (simp add: multiset_partition [symmetric])
  with 2 show ?case by simp
qed simp

lemma map_insert_by: "map f (insert_by (\<lambda>a b. cmp (f a) (f b)) x xs) = insert_by cmp (f x) (map f xs)"
  by (induction xs) simp_all

lemma map_sort_by: "map f (sort_by (\<lambda>a b. cmp (f a) (f b)) xs) = sort_by cmp (map f xs)"
  by (induction xs) (simp_all add: sort_by_def map_insert_by)

text \<open>
  C34. Token bundles are canonical. The policies of a bundle are distinct and in the order of their lengths,
  then of their texts; so are the names of the assets of each policy; every policy has an asset, each
  asset is filed under its own policy, and no asset is lost or added.
\<close>

theorem token_bundle_is_canonical:
  assumes "collates (localeCompare U)"
  shows "let g = groupTokensByPolicyId U assets
         in distinct (map fst g) \<and> sorted_wrt (\<lambda>p q. compareStringsCanonically U p q \<le> 0) (map fst g)
          \<and> list_all (\<lambda>(policyId, tokens). tokens \<noteq> [] \<and> list_all (\<lambda>t. se_policyId t = policyId) tokens
               \<and> sorted_wrt (\<lambda>a b. compareStringsCanonically U (se_assetName a) (se_assetName b) \<le> 0) tokens) g
          \<and> mset (concat (map snd g)) = mset assets"
proof -
  let ?cmp = "compareStringsCanonically U"
  define ordered where "ordered = sort_by (\<lambda>a b. or_else_compare (code_compare (se_policyId a) (se_policyId b))
                                    (code_compare (se_assetName a) (se_assetName b))) assets"
  define h where "h = (\<lambda>(policyId :: string, tokens :: selection_asset list). (policyId, sort_by (\<lambda>a b. ?cmp (se_assetName a) (se_assetName b)) tokens))"
  let ?gs = "map h (group_by se_policyId ordered)"
  let ?g = "groupTokensByPolicyId U assets"
  have g: "?g = sort_by (\<lambda>a b. ?cmp (fst a) (fst b)) ?gs"
    by (simp add: groupTokensByPolicyId_def ordered_def h_def Let_def)
  have c: "comparison ?cmp" using assms by (rule comparison_canonical)
  have keys: "map fst ?g = sort_by ?cmp (map fst (group_by se_policyId ordered))"
    unfolding g map_sort_by by (simp add: h_def o_def case_prod_unfold)
  have "distinct (map fst ?g)"
    unfolding keys by (metis distinct_group_keys mset_sort_by mset_eq_imp_distinct_iff)
  moreover have "sorted_wrt (\<lambda>p q. ?cmp p q \<le> 0) (map fst ?g)" unfolding keys by (rule sorted_sort_by [OF c])
  moreover have "tokens \<noteq> [] \<and> list_all (\<lambda>t. se_policyId t = policyId) tokens
      \<and> sorted_wrt (\<lambda>a b. ?cmp (se_assetName a) (se_assetName b) \<le> 0) tokens" if "(policyId, tokens) \<in> set ?g" for policyId tokens
  proof -
    from that obtain ys where ys: "(policyId, ys) \<in> set (group_by se_policyId ordered)"
      and t: "tokens = sort_by (\<lambda>a b. ?cmp (se_assetName a) (se_assetName b)) ys" by (auto simp: g h_def)
    have "ys \<noteq> []" "\<forall>t \<in> set ys. se_policyId t = policyId" using groups_members [OF ys] by auto
    then have "set tokens \<noteq> {}" "\<forall>t \<in> set tokens. se_policyId t = policyId" by (simp_all add: t)
    moreover have "sorted_wrt (\<lambda>a b. ?cmp (se_assetName a) (se_assetName b) \<le> 0) tokens"
      unfolding t by (rule sorted_sort_by, rule comparison_pullback, rule c)
    ultimately show ?thesis by (auto simp: list_all_iff)
  qed
  moreover have "mset (concat (map snd ?g)) = mset assets"
  proof -
    have s: "mset (concat (map snd (map h gs))) = mset (concat (map snd gs))" for gs
      by (induction gs) (auto simp: h_def)
    have "mset (concat xs) = mset (concat ys)" if "mset xs = mset ys" for xs ys :: "selection_asset list list"
      using that by (metis mset_concat mset_map sum_mset_sum_list)
    from this [of "map snd ?g" "map snd ?gs"] have "mset (concat (map snd ?g)) = mset (concat (map snd ?gs))"
      by (simp add: g del: map_map)
    with s mset_groups [of se_policyId ordered] show ?thesis by (simp add: ordered_def)
  qed
  ultimately show ?thesis by (auto simp: Let_def list_all_iff)
qed

text \<open>A library for the examples: characters' codes for the collation, hexadecimal for addresses, a path parser.\<close>

definition chunk_index :: "string \<Rightarrow> int" where
  "chunk_index c = (if c \<noteq> [] \<and> last c = CHR 0x27
     then the (int_of_text (butlast c)) + HARDENED else the (int_of_text c))"

definition example_library :: hw_library where
  "example_library = \<lparr>bech32_decodeAddress = hex_to_bytes, base58_decode = hex_to_bytes, buf_to_hex = bytes_to_hex,
     str_to_path = (\<lambda>s. map chunk_index (split_on (CHR ''/'') s)), localeCompare = code_compare\<rparr>"

lemma code_compare_le: "code_compare s t \<le> 0 \<longleftrightarrow> code_compare s t = -1 \<or> code_compare s t = 0"
  and code_compare_swap: "code_compare t s = - code_compare s t"
  by (induction s t rule: code_compare.induct) auto

lemma code_compare_zero: "code_compare s t = 0 \<longleftrightarrow> s = t"
  by (induction s t rule: code_compare.induct) auto

lemma code_compare_trans: "code_compare r s \<le> 0 \<Longrightarrow> code_compare s t \<le> 0 \<Longrightarrow> code_compare r t \<le> 0"
proof (induction r t arbitrary: s rule: code_compare.induct)
  case (3 c r)
  then show ?case by (cases s) (auto split: if_splits)
next
  case (4 c r d t)
  then obtain e s' where s: "s = e # s'" by (cases s) auto
  with 4 show ?case by (auto split: if_splits)
qed simp_all

lemma collates_code_compare: "collates code_compare"
proof -
  have "code_compare a b \<le> 0 \<or> code_compare b a \<le> 0" for a b using code_compare_swap [of a b] by linarith
  moreover have "(code_compare s t < 0) = (code_compare t s > 0)" for s t using code_compare_swap [of s t] by linarith
  ultimately show ?thesis unfolding collates_def comparison_def using code_compare_trans by blast
qed

lemma last_int_text: "last (int_text n) \<noteq> CHR 0x27"
proof -
  have "last (nat_text k) \<noteq> CHR 0x27" for k
    by (metis last_in_set nat_text_nonempty minus_not_digit(4) nat_text_no_char)
  then show ?thesis by (simp add: int_text_def)
qed

lemma example_parses: "parses_paths (str_to_path example_library)"
proof -
  have chunk: "chunk_index (path_text n) = n" for n
    by (auto simp: chunk_index_def path_text_def last_int_text)
  have "CHR ''/'' \<notin> set (path_text n)" for n
    using nat_text_no_char [of "CHR ''/''"] by (auto simp: path_text_def int_text_def)
  then have "map chunk_index (split_on (CHR ''/'') (join_with ''/'' (map path_text ns))) = ns" if "ns \<noteq> []" for ns
    using split_join [of "map path_text ns" "CHR ''/''"] that by (simp add: o_def chunk map_idI)
  then show ?thesis by (simp add: parses_paths_def example_library_def)
qed

lemma derivation_path_roundtrip_witness:
  "derivationPathToLedgerPath example_library
     (fst (hardenedPathToDerivationPath [2147485500, 2147485463, 2147483648, 0, 19])) = [2147485500, 2147485463, 2147483648, 0, 19]"
  by (rule derivation_path_roundtrip [OF example_parses]) (simp add: account_path_def HARDENED_def)

definition example_assets :: "selection_asset list" where
  "example_assets = [\<lparr>se_policyId = ''bb'', se_assetName = ''c0ff'', se_quantity = 1\<rparr>,
     \<lparr>se_policyId = ''aa'', se_assetName = ''01'', se_quantity = 2\<rparr>, \<lparr>se_policyId = ''bb'', se_assetName = ''ff'', se_quantity = 3\<rparr>]"

lemma token_bundle_is_canonical_witness:
  "let g = groupTokensByPolicyId example_library example_assets
   in distinct (map fst g) \<and> sorted_wrt (\<lambda>p q. compareStringsCanonically example_library p q \<le> 0) (map fst g)
    \<and> list_all (\<lambda>(policyId, tokens). tokens \<noteq> [] \<and> list_all (\<lambda>t. se_policyId t = policyId) tokens
         \<and> sorted_wrt (\<lambda>a b. compareStringsCanonically example_library (se_assetName a) (se_assetName b) \<le> 0) tokens) g
    \<and> mset (concat (map snd g)) = mset example_assets"
  by (rule token_bundle_is_canonical) (simp add: example_library_def collates_code_compare)

section \<open>Deriving public keys\<close>

text \<open>
  \<open>CachedDeriveXpubFactory\<close>: the memo of the hardened key is the caller's key; a request to the main
  process derives one further index and may be rejected. The table of derived keys is read and never
  written, so every index is requested each time; the second component counts the requests.
\<close>

function deriveXpub :: "(string \<Rightarrow> int \<Rightarrow> 'e + string) \<Rightarrow> hw_library \<Rightarrow> string \<Rightarrow> int list \<Rightarrow> ('e + bytes) \<times> nat" where
  "deriveXpub request U xpubHex absDerivationPath =
     (if absDerivationPath = [] \<or> indexIsHardened (last absDerivationPath) then (Inr (hex_to_bytes xpubHex), 0)
      else (case deriveXpub request U xpubHex (butlast absDerivationPath) of
              (Inl e, n) \<Rightarrow> (Inl e, n)
            | (Inr parentXpub, n) \<Rightarrow> (case request (buf_to_hex U parentXpub) (last absDerivationPath) of
                Inl e \<Rightarrow> (Inl e, Suc n)
              | Inr derived \<Rightarrow> (Inr (hex_to_bytes derived), Suc n))))"
  by pat_completeness auto
termination by (relation "measure (\<lambda>(_, _, _, p). length p)") auto

declare deriveXpub.simps [simp del]

text \<open>The reference: the indices after the last hardened one, one request each, until one is rejected.\<close>

definition soft_indices :: "int list \<Rightarrow> int list" where
  "soft_indices p = rev (takeWhile (\<lambda>i. \<not> indexIsHardened i) (rev p))"

fun derive_children :: "(string \<Rightarrow> int \<Rightarrow> 'e + string) \<Rightarrow> hw_library \<Rightarrow> bytes \<Rightarrow> int list \<Rightarrow> ('e + bytes) \<times> nat" where
  "derive_children request U key [] = (Inr key, 0)"
| "derive_children request U key (i # is) = (case request (buf_to_hex U key) i of
       Inl e \<Rightarrow> (Inl e, 1)
     | Inr derived \<Rightarrow> (case derive_children request U (hex_to_bytes derived) is of (r, n) \<Rightarrow> (r, Suc n)))"

lemma derive_children_snoc:
  "derive_children request U key (is @ [i]) = (case derive_children request U key is of
       (Inl e, n) \<Rightarrow> (Inl e, n)
     | (Inr k, n) \<Rightarrow> (case request (buf_to_hex U k) i of Inl e \<Rightarrow> (Inl e, Suc n) | Inr d \<Rightarrow> (Inr (hex_to_bytes d), Suc n)))"
  by (induction "is" arbitrary: key) (auto split: sum.split prod.split)

text \<open>
  Key derivation is the chain of its soft indices: from the account's key, one request for each index
  after the last hardened one, in order, ending with the first rejection.
\<close>

theorem deriveXpub_is_chain:
  "deriveXpub request U xpubHex p = derive_children request U (hex_to_bytes xpubHex) (soft_indices p)"
proof (induction p rule: rev_induct)
  case (snoc i p)
  then show ?case
    by (subst deriveXpub.simps) (simp add: soft_indices_def derive_children_snoc split: prod.split sum.split)
qed (simp add: deriveXpub.simps soft_indices_def)

section \<open>Cole transactions\<close>

record cole_transaction =
  cole_inputs :: "(string \<times> nat) list"
  cole_outputs :: "(string \<times> rat) list"

record cole_witness =
  signature_hex :: string
  publicKeyHex :: string
  chainCodeHex :: string

definition rawBuffer :: "string \<Rightarrow> bytes" where "rawBuffer str = hex_to_bytes str"

definition encodeTransactionInput :: "(cbor \<Rightarrow> bytes) \<Rightarrow> string \<times> nat \<Rightarrow> bytes" where
  "encodeTransactionInput encode i = encode (CArr [CBytes (rawBuffer (fst i)), CNum (of_nat (snd i))])"

definition encodeTransactionInputs :: "(cbor \<Rightarrow> bytes) \<Rightarrow> (string \<times> nat) list \<Rightarrow> cbor" where
  "encodeTransactionInputs encode inps =
     CIndef (map (\<lambda>i. CArr [CNum 0, CTag 24 (CBytes (encodeTransactionInput encode i))]) inps)"

text \<open>\<open>decode_address\<close> is \<open>cbor.decodeFirstSync\<close> after \<open>bs58.decode\<close>.\<close>

definition encodeTransactionOutputs :: "(string \<Rightarrow> cbor) \<Rightarrow> (string \<times> rat) list \<Rightarrow> cbor" where
  "encodeTransactionOutputs decode_address outs = CIndef (map (\<lambda>(a, q). CArr [decode_address a, CNum q]) outs)"

definition cole_body :: "(cbor \<Rightarrow> bytes) \<Rightarrow> (string \<Rightarrow> cbor) \<Rightarrow> cole_transaction \<Rightarrow> cbor" where
  "cole_body encode decode_address d =
     CArr [encodeTransactionInputs encode (cole_inputs d), encodeTransactionOutputs decode_address (cole_outputs d), CMap []]"

definition encodeTransaction :: "(cbor \<Rightarrow> bytes) \<Rightarrow> (string \<Rightarrow> cbor) \<Rightarrow> cole_transaction \<Rightarrow> bytes" where
  "encodeTransaction encode decode_address d = encode (cole_body encode decode_address d)"

definition thDataHexGenerator :: "(cbor \<Rightarrow> bytes) \<Rightarrow> (string \<Rightarrow> cbor) \<Rightarrow> cole_transaction \<Rightarrow> string" where
  "thDataHexGenerator encode decode_address d = bytes_to_hex (encodeTransaction encode decode_address d)"

definition encodeWitness :: "(cbor \<Rightarrow> bytes) \<Rightarrow> cole_witness \<Rightarrow> cbor" where
  "encodeWitness encode w = CArr [CNum 0, CTag 24 (CBytes (encode (CArr
     [CBytes (rawBuffer (publicKeyHex w) @ rawBuffer (chainCodeHex w)), CBytes (rawBuffer (signature_hex w))])))]"

definition encodeSignedTransaction :: "(cbor \<Rightarrow> bytes) \<Rightarrow> string \<Rightarrow> cole_witness list \<Rightarrow> string" where
  "encodeSignedTransaction encode txDataHex witnesses =
     bytes_to_hex (rawBuffer ''82'' @ rawBuffer txDataHex @ encode (CArr (map (encodeWitness encode) witnesses)))"

text \<open>What the CBOR standard says of an array of two items: its head, then the items.\<close>

definition encodes_pairs :: "(cbor \<Rightarrow> bytes) \<Rightarrow> bool" where
  "encodes_pairs encode \<longleftrightarrow> (\<forall>a b. encode (CArr [a, b]) = 0x82 # encode a @ encode b)"

text \<open>
  A signed Cole transaction spliced from texts is the encoding of the pair of the transaction and its
  witnesses.
\<close>

theorem signed_cole_transaction_is_a_pair:
  assumes "encodes_pairs encode"
  shows "hex_to_bytes (encodeSignedTransaction encode (thDataHexGenerator encode decode_address d) witnesses)
       = encode (CArr [cole_body encode decode_address d, CArr (map (encodeWitness encode) witnesses)])"
proof -
  have "rawBuffer ''82'' = [0x82]" by code_simp
  with assms show ?thesis
    by (simp add: encodeSignedTransaction_def hex_roundtrip rawBuffer_def thDataHexGenerator_def
        encodeTransaction_def encodes_pairs_def)
qed

text \<open>The standard's encoding with minimal heads, of whole numbers that are not negative.\<close>

definition cbor_head :: "nat \<Rightarrow> nat \<Rightarrow> bytes" where
  "cbor_head major n = (let m = 32 * major; octets = (\<lambda>k. map (\<lambda>i. word_of_nat (n div 256 ^ (k - 1 - i))) [0 ..< k]) in
     if n < 24 then [word_of_nat (m + n)]
     else if n < 256 then word_of_nat (m + 24) # octets 1
     else if n < 256 ^ 2 then word_of_nat (m + 25) # octets 2
     else if n < 256 ^ 4 then word_of_nat (m + 26) # octets 4
     else word_of_nat (m + 27) # octets 8)"

fun standard_encode :: "cbor \<Rightarrow> bytes" where
  "standard_encode (CNum q) = cbor_head 0 (nat \<lfloor>q\<rfloor>)"
| "standard_encode (CBytes b) = cbor_head 2 (length b) @ b"
| "standard_encode (CArr xs) = cbor_head 4 (length xs) @ concat (map standard_encode xs)"
| "standard_encode (CIndef xs) = 0x9F # concat (map standard_encode xs) @ [0xFF]"
| "standard_encode (CMap kvs) = cbor_head 5 (length kvs) @ concat (map (\<lambda>(k, v). standard_encode k @ standard_encode v) kvs)"
| "standard_encode (CTag t v) = cbor_head 6 t @ standard_encode v"
| "standard_encode CNull = [0xF6]"
| "standard_encode CUndef = [0xF7]"

lemma standard_encodes_pairs: "encodes_pairs standard_encode"
  by (simp add: encodes_pairs_def cbor_head_def)

definition example_cole :: cole_transaction where
  "example_cole = \<lparr>cole_inputs = [(''01f5'', 300)], cole_outputs = [(''addr'', 1000000)]\<rparr>"

definition example_witness :: cole_witness where
  "example_witness = \<lparr>signature_hex = ''f89f'', publicKeyHex = ''aa'', chainCodeHex = ''bb''\<rparr>"

lemma signed_cole_transaction_is_a_pair_witness:
  "hex_to_bytes (encodeSignedTransaction standard_encode (thDataHexGenerator standard_encode (\<lambda>a. CBytes [1]) example_cole) [example_witness])
     = standard_encode (CArr [cole_body standard_encode (\<lambda>a. CBytes [1]) example_cole,
         CArr (map (encodeWitness standard_encode) [example_witness])])"
  by (rule signed_cole_transaction_is_a_pair [OF standard_encodes_pairs])
end
