(* ===== verification/HardwareSigning.thy ===== *)
theory HardwareSigning imports HardwareTx begin

text \<open>
  Signing a transaction on a device: the part of \<open>stores/HardwareWalletsStore.js\<close> that turns a coin
  selection into the request for a device and, with the device's answer, into the signed transaction
  that is submitted. The answers of the backend are arguments: the style of each address, the
  reward account of each certificate and the order in which the accounts arrive.
\<close>

definition TIME_TO_LIVE :: int where "TIME_TO_LIVE = 7200"

definition getTtl :: "int \<Rightarrow> int" where
  "getTtl absoluteSlotNumber = absoluteSlotNumber + TIME_TO_LIVE"

definition STAKING_PATH :: "int list" where
  "STAKING_PATH = [2147485500, 2147485463, 2147483648, 2, 0]"

record voting_data =
  vd_stakeAddress :: string
  vd_stakeKey :: string
  vd_votingKey :: string
  vd_nonce :: rat

definition unsignedTxAuxiliaryData :: "voting_data option \<Rightarrow> tx_auxiliary_data option" where
  "unsignedTxAuxiliaryData votingData = map_option (\<lambda>v. \<lparr>nonce = vd_nonce v, reward_address = vd_stakeAddress v,
     reward_stakingPath = STAKING_PATH, stakePubKey = vd_stakeKey v, votingPubKey = vd_votingKey v\<rparr>) votingData"

text \<open>\<open>HW_SOPHIE_CONFIG.NETWORK\<close>: the network's id and protocol magic, the same number for both devices.\<close>

definition network_id :: "bool \<Rightarrow> nat" where "network_id isMainnet = (if isMainnet then 1 else 0)"
definition protocol_magic :: "bool \<Rightarrow> nat" where
  "protocol_magic isMainnet = (if isMainnet then 764824073 else 1097911063)"

record signing =
  coinSelection :: coin_selection
  style_of :: "string \<Rightarrow> address_style"
  account_of :: "string list \<Rightarrow> string"
  slot_number :: int
  mainnet :: bool
  voting :: "voting_data option"
  device_path :: "string option"

text \<open>The fee in the smallest unit, a whole number.\<close>

definition signed_fee :: "signing \<Rightarrow> int" where
  "signed_fee g = \<lfloor>formattedAmountToEntropic (cs_fee (coinSelection g))\<rfloor>"

section \<open>The requests\<close>

record ledger_request =
  lq_inputs :: "ledger_input list"
  lq_outputs :: "ledger_output list"
  lq_fee :: string
  lq_ttl :: string
  lq_networkId :: nat
  lq_protocolMagic :: nat
  lq_certificates :: "ledger_certificate list"
  lq_withdrawals :: "(int list \<times> string) list"
  lq_auxiliaryData :: "ledger_registration option"
  lq_devicePath :: "string option"

definition ledger_request_of :: "hw_library \<Rightarrow> signing \<Rightarrow> ledger_request" where
  "ledger_request_of U g =
     \<lparr>lq_inputs = map (prepareLedgerInput U) (cs_inputs (coinSelection g)),
      lq_outputs = map (\<lambda>out. prepareLedgerOutput U out (style_of g (out_address out))) (cs_outputs (coinSelection g)),
      lq_fee = int_text (signed_fee g), lq_ttl = int_text (getTtl (slot_number g)),
      lq_networkId = network_id (mainnet g), lq_protocolMagic = protocol_magic (mainnet g),
      lq_certificates = map (prepareLedgerCertificate U) (cs_certificates (coinSelection g)),
      lq_withdrawals = map (prepareLedgerWithdrawal U) (cs_withdrawals (coinSelection g)),
      lq_auxiliaryData = map_option prepareLedgerAuxiliaryData (unsignedTxAuxiliaryData (voting g)),
      lq_devicePath = device_path g\<rparr>"

record trezor_request =
  tq_inputs :: "trezor_input list"
  tq_outputs :: "(trezor_destination \<times> string \<times> trezor_group list) list"
  tq_fee :: string
  tq_ttl :: string
  tq_validityIntervalStartStr :: string
  tq_networkId :: nat
  tq_protocolMagic :: nat
  tq_certificates :: "(nat option \<times> string \<times> string option) list"
  tq_withdrawals :: "(string \<times> string) list"
  tq_auxiliaryData :: "trezor_registration option"
  tq_devicePath :: "string option"

definition trezor_request_of :: "hw_library \<Rightarrow> signing \<Rightarrow> trezor_request" where
  "trezor_request_of U g =
     \<lparr>tq_inputs = map prepareTrezorInput (cs_inputs (coinSelection g)),
      tq_outputs = map (prepareTrezorOutput U) (cs_outputs (coinSelection g)),
      tq_fee = int_text (signed_fee g), tq_ttl = int_text (getTtl (slot_number g)),
      tq_validityIntervalStartStr = int_text (slot_number g),
      tq_networkId = network_id (mainnet g), tq_protocolMagic = protocol_magic (mainnet g),
      tq_certificates = map (prepareTrezorCertificate U) (cs_certificates (coinSelection g)),
      tq_withdrawals = map prepareTrezorWithdrawal (cs_withdrawals (coinSelection g)),
      tq_auxiliaryData = map_option (\<lambda>v. prepareTrezorAuxiliaryData (vd_votingKey v) (number_text (vd_nonce v))) (voting g),
      tq_devicePath = device_path g\<rparr>"

section \<open>The unsigned transaction\<close>

text \<open>
  The certificates are prepared at once: each asks \<open>getPublicKeyRequest\<close> and then \<open>constructAddressRequest\<close>. A
  request that waits for its answer ignores a further \<open>execute\<close>, so every certificate waits for the
  answers to the first one's questions and gets the account of the first one's path.
\<close>

definition joined_account :: "signing \<Rightarrow> string" where
  "joined_account g = (case cs_certificates (coinSelection g) of
       [] \<Rightarrow> [] | c # cs \<Rightarrow> account_of g (reward_account_path c))"

definition unsignedTxCerts :: "hw_library \<Rightarrow> signing \<Rightarrow> cbor list" where
  "unsignedTxCerts U g = map (\<lambda>c. SophieTxCert U (map_of CERTIFICATE_TYPE (certificate_type c))
       (joined_account g) (certificate_pool c)) (cs_certificates (coinSelection g))"

definition unsignedTx :: "hw_library \<Rightarrow> signing \<Rightarrow> string option \<Rightarrow> tx_aux" where
  "unsignedTx U g hash = prepareTxAux (map SophieTxInputFromUtxo (cs_inputs (coinSelection g)))
     (map (\<lambda>out. SophieTxOutput U out (style_of g (out_address out))) (cs_outputs (coinSelection g)))
     (signed_fee g) (getTtl (slot_number g)) (unsignedTxCerts U g)
     (if cs_withdrawals (coinSelection g) \<noteq> [] then Some (SophieTxWithdrawal U (cs_withdrawals (coinSelection g))) else None)
     hash"

section \<open>Witnesses\<close>

record witness =
  w_pubKey :: string
  w_signature :: string
  w_path :: "int list option"
  w_witnessSignatureHex :: string

text \<open>The witness of a Trezor names its key; the Ledger's names a path, whose key is derived.\<close>

definition SophieWitness ::
  "(string \<Rightarrow> int \<Rightarrow> 'e + string) \<Rightarrow> hw_library \<Rightarrow> string \<Rightarrow> witness \<Rightarrow> 'e + cbor" where
  "SophieWitness request U xpubHex w =
     (if w_pubKey w \<noteq> [] \<and> w_signature w \<noteq> []
      then Inr (SophieTxWitnessSophie (hex_to_bytes (w_pubKey w)) (hex_to_bytes (w_signature w)))
      else case w_path w of
        Some p \<Rightarrow> if w_witnessSignatureHex w \<noteq> []
          then (case fst (deriveXpub request U xpubHex p) of
                  Inl e \<Rightarrow> Inl e
                | Inr xpub \<Rightarrow> Inr (SophieTxWitnessSophie (take 32 xpub) (hex_to_bytes (w_witnessSignatureHex w))))
          else Inr CNull
      | None \<Rightarrow> Inr CNull)"

fun signWitnesses ::
  "(string \<Rightarrow> int \<Rightarrow> 'e + string) \<Rightarrow> hw_library \<Rightarrow> string \<Rightarrow> witness list \<Rightarrow> 'e + cbor list" where
  "signWitnesses request U xpubHex [] = Inr []"
| "signWitnesses request U xpubHex (w # ws) = (case SophieWitness request U xpubHex w of
       Inl e \<Rightarrow> Inl e
     | Inr c \<Rightarrow> (case signWitnesses request U xpubHex ws of Inl e \<Rightarrow> Inl e | Inr cs \<Rightarrow> Inr (c # cs)))"

definition txWitnesses :: "cbor list \<Rightarrow> cbor" where
  "txWitnesses signedWitnesses = CMap (if signedWitnesses \<noteq> [] then [(CNum 0, CArr signedWitnesses)] else [])"

text \<open>The device's answer: the witnesses, and for a voting registration the hash of the auxiliary data and its signature.\<close>

record device_answer =
  answer_witnesses :: "witness list"
  supplement :: "(string \<times> string) option"

text \<open>The registration to add: its data, the hash and the signature.\<close>

definition registration :: "signing \<Rightarrow> device_answer \<Rightarrow> (tx_auxiliary_data \<times> string \<times> string) option" where
  "registration g a = (case (unsignedTxAuxiliaryData (voting g), supplement a) of
       (Some d, Some (h, signature)) \<Rightarrow> Some (d, h, signature) | _ \<Rightarrow> None)"

definition submittedTx :: "hw_library \<Rightarrow> signing \<Rightarrow> device_answer \<Rightarrow> tx_aux" where
  "submittedTx U g a = unsignedTx U g (map_option (\<lambda>(d, h, signature). h) (registration g a))"

definition txBody ::
  "(string \<Rightarrow> int \<Rightarrow> 'e + string) \<Rightarrow> (cbor \<Rightarrow> bytes) \<Rightarrow> hw_library \<Rightarrow> string \<Rightarrow> signing \<Rightarrow> device_answer \<Rightarrow> 'e + string" where
  "txBody request encode U xpubHex g a =
     (let txAuxiliaryData = map_option (\<lambda>(d, h, signature). cborizeTxAuxiliaryVotingData U d signature) (registration g a)
      in case signWitnesses request U xpubHex (answer_witnesses a) of
           Inl e \<Rightarrow> Inl e
         | Inr ws \<Rightarrow> Inr (prepareBody encode (submittedTx U g a) (txWitnesses ws) txAuxiliaryData))"

section \<open>The body that the device signs\<close>

text \<open>
  The specification of a Ledger: the body it builds and signs for a request. It derives its own
  addresses and reward accounts from their paths.
\<close>

record device =
  own_address :: "int list \<Rightarrow> int list \<Rightarrow> bytes"
  reward_account :: "int list \<Rightarrow> bytes"

definition text_number :: "string \<Rightarrow> cbor" where
  "text_number s = CNum (of_int (the (int_of_text s)))"

definition device_tokens :: "token_group list \<Rightarrow> cbor" where
  "device_tokens gs = CMap (map (\<lambda>g. (CBytes (hex_to_bytes (policyIdHex g)),
     CMap (map (\<lambda>t. (CBytes (hex_to_bytes (assetNameHex t)), text_number (token_amount_text t))) (group_tokens g)))) gs)"

definition device_output :: "device \<Rightarrow> ledger_output \<Rightarrow> cbor" where
  "device_output D out =
     CArr [CBytes (case destination out of
             DEVICE_OWNED spending staking \<Rightarrow> own_address D spending staking | THIRD_PARTY h \<Rightarrow> hex_to_bytes h),
           if tokenBundle out = [] then text_number (output_amount_text out)
           else CArr [text_number (output_amount_text out), device_tokens (tokenBundle out)]]"

definition device_certificate :: "device \<Rightarrow> ledger_certificate \<Rightarrow> cbor" where
  "device_certificate D c =
     (let account = CArr [CNum 0, CBytes (drop 1 (reward_account D (cert_path c)))]
      in case cert_type c of
           Some t \<Rightarrow> if t = 2 then CArr [CNum 2, account, CBytes (hex_to_bytes (the (poolKeyHashHex c)))]
                     else CArr [CNum (of_nat t), account]
         | None \<Rightarrow> CUndef)"

definition device_body :: "device \<Rightarrow> ledger_request \<Rightarrow> string option \<Rightarrow> cbor" where
  "device_body D r hash = CMap (
     [(CNum 0, CArr (map (\<lambda>i. CArr [CBytes (hex_to_bytes (txHashHex i)), CNum (of_nat (outputIndex i))]) (lq_inputs r))),
      (CNum 1, CArr (map (device_output D) (lq_outputs r))),
      (CNum 2, text_number (lq_fee r)), (CNum 3, text_number (lq_ttl r))]
     @ (if lq_certificates r \<noteq> [] then [(CNum 4, CArr (map (device_certificate D) (lq_certificates r)))] else [])
     @ (if lq_withdrawals r \<noteq> [] then [(CNum 5, CMap (map (\<lambda>(p, q). (CBytes (reward_account D p), text_number q)) (lq_withdrawals r)))] else [])
     @ (case hash of None \<Rightarrow> [] | Some h \<Rightarrow> if h = [] then [] else [(CNum 7, CBytes (hex_to_bytes h))]))"

text \<open>The data of the backend: whole amounts, certificates of a known type, a pool to join.\<close>

definition whole :: "rat \<Rightarrow> bool" where "whole q \<longleftrightarrow> of_int \<lfloor>q\<rfloor> = q"

definition known_certificate :: "server_certificate \<Rightarrow> bool" where
  "known_certificate c \<longleftrightarrow> certificate_type c \<in> {''register_reward_account'', ''quit_pool'', ''join_pool''}
     \<and> (if certificate_type c = ''join_pool'' then certificate_pool c \<noteq> None else True)"

definition plausible :: "coin_selection \<Rightarrow> bool" where
  "plausible s \<longleftrightarrow> list_all (\<lambda>out. whole (out_amount out) \<and> list_all (\<lambda>t. whole (se_quantity t)) (out_assets out)) (cs_outputs s)
     \<and> list_all (\<lambda>w. whole (cw_amount w)) (cs_withdrawals s) \<and> list_all known_certificate (cs_certificates s)"

text \<open>The backend and the device agree on what belongs to the wallet.\<close>

definition same_wallet :: "hw_library \<Rightarrow> device \<Rightarrow> signing \<Rightarrow> bool" where
  "same_wallet U D g \<longleftrightarrow>
     list_all (\<lambda>out. case out_derivationPath out of None \<Rightarrow> True | Some p \<Rightarrow>
         own_address D (derivationPathToLedgerPath U p) (str_to_path U staking_path_text)
         = address_bytes U (style_of g (out_address out)) (out_address out)) (cs_outputs (coinSelection g))
   \<and> list_all (\<lambda>w. reward_account D (derivationPathToLedgerPath U (cw_derivation_path w))
         = bech32_decodeAddress U (cw_stake_address w)) (cs_withdrawals (coinSelection g))
   \<and> list_all (\<lambda>c. reward_account D (derivationPathToLedgerPath U (reward_account_path c))
         = bech32_decodeAddress U (account_of g (reward_account_path c))) (cs_certificates (coinSelection g))"

text \<open>The certificates of a selection concern one reward account, as a wallet has one.\<close>

definition one_account :: "coin_selection \<Rightarrow> bool" where
  "one_account s \<longleftrightarrow> list_all (\<lambda>c. reward_account_path c = reward_account_path (hd (cs_certificates s))) (cs_certificates s)"

lemma text_number_whole [simp]: "whole q \<Longrightarrow> text_number (number_text q) = CNum q"
  by (simp add: text_number_def number_text_def whole_def)

lemma text_number_int [simp]: "text_number (int_text n) = CNum (of_int n)"
  by (simp add: text_number_def)

lemma set_group_tokens: "(p, ts) \<in> set (groupTokensByPolicyId U assets) \<Longrightarrow> t \<in> set ts \<Longrightarrow> t \<in> set assets"
  by (auto simp: groupTokensByPolicyId_def Let_def dest!: groups_members)

lemma sort_by_Nil [simp]: "sort_by cmp xs = [] \<longleftrightarrow> xs = []"
  by (metis mset_sort_by mset_zero_iff)

lemma group_by_Nil [simp]: "group_by key xs = [] \<longleftrightarrow> xs = []"
  by (cases xs) simp_all

lemma no_groups: "groupTokensByPolicyId U assets = [] \<longleftrightarrow> assets = []"
  by (simp add: groupTokensByPolicyId_def Let_def)

lemma device_tokens_bundle:
  assumes "list_all (\<lambda>t. whole (se_quantity t)) assets"
  shows "device_tokens (prepareTokenBundle U assets) = SophieTxOutputAssets U assets"
proof -
  have "text_number (number_text (se_quantity t)) = CNum (se_quantity t)"
    if "(p, ts) \<in> set (groupTokensByPolicyId U assets)" "t \<in> set ts" for p ts t
    using set_group_tokens [OF that] assms by (simp add: list_all_iff)
  then show ?thesis
    by (auto simp: device_tokens_def prepareTokenBundle_def SophieTxOutputAssets_def)
qed

lemma device_output_same:
  assumes "\<And>b. hex_to_bytes (buf_to_hex U b) = b"
    and "whole (out_amount out)" and "list_all (\<lambda>t. whole (se_quantity t)) (out_assets out)"
    and "case out_derivationPath out of None \<Rightarrow> True | Some p \<Rightarrow>
         own_address D (derivationPathToLedgerPath U p) (str_to_path U staking_path_text) = address_bytes U style (out_address out)"
  shows "device_output D (prepareLedgerOutput U out style) = SophieTxOutput U out style"
proof -
  have "prepareTokenBundle U (out_assets out) = [] \<longleftrightarrow> out_assets out = []"
    by (simp add: prepareTokenBundle_def no_groups)
  with assms device_tokens_bundle [OF assms(3), of U] show ?thesis
    by (simp add: device_output_def prepareLedgerOutput_def SophieTxOutput_def Let_def split: option.splits)
qed

lemma device_certificate_same:
  assumes "\<And>b. hex_to_bytes (buf_to_hex U b) = b" and "known_certificate c"
    and "reward_account D (derivationPathToLedgerPath U (reward_account_path c)) = bech32_decodeAddress U account"
  shows "device_certificate D (prepareLedgerCertificate U c)
       = SophieTxCert U (map_of CERTIFICATE_TYPE (certificate_type c)) account (certificate_pool c)"
  using assms
  by (auto simp: device_certificate_def prepareLedgerCertificate_def SophieTxCert_def known_certificate_def
      CERTIFICATE_TYPE_def Let_def)

lemma joined_certificates:
  assumes "\<And>b. hex_to_bytes (buf_to_hex U b) = b" and "plausible (coinSelection g)" and "same_wallet U D g"
    and "one_account (coinSelection g)"
  shows "map (\<lambda>c. device_certificate D (prepareLedgerCertificate U c)) (cs_certificates (coinSelection g)) = unsignedTxCerts U g"
proof -
  let ?cs = "cs_certificates (coinSelection g)"
  have "device_certificate D (prepareLedgerCertificate U c)
      = SophieTxCert U (map_of CERTIFICATE_TYPE (certificate_type c)) (joined_account g) (certificate_pool c)"
    if c: "c \<in> set ?cs" for c
  proof (rule device_certificate_same [OF assms(1)])
    from c have "joined_account g = account_of g (reward_account_path c)"
      using assms(4) by (cases ?cs) (auto simp: joined_account_def one_account_def list_all_iff)
    with c assms(2,3) show "known_certificate c" "reward_account D (derivationPathToLedgerPath U (reward_account_path c))
        = bech32_decodeAddress U (joined_account g)"
      by (simp_all add: plausible_def same_wallet_def list_all_iff)
  qed
  then show ?thesis by (simp add: unsignedTxCerts_def)
qed


text \<open>
  With certificates for two accounts the second one is submitted for the account of the first, and the
  submitted body is not the one the device signs.
\<close>

theorem second_account_is_lost:
  assumes "cs_certificates (coinSelection g) = [c, d]" and "certificate_type d = ''join_pool''"
    and "drop 1 (reward_account D (derivationPathToLedgerPath U (reward_account_path d)))
       \<noteq> drop 1 (bech32_decodeAddress U (account_of g (reward_account_path c)))"
  shows "device_body D (ledger_request_of U g) hash \<noteq> SophieTxAux (unsignedTx U g hash)"
proof
  assume "device_body D (ledger_request_of U g) hash = SophieTxAux (unsignedTx U g hash)"
  moreover have "unsignedTxCerts U g \<noteq> []" "lq_certificates (ledger_request_of U g) \<noteq> []"
    using assms(1) by (simp_all add: unsignedTxCerts_def ledger_request_of_def)
  ultimately have "map (device_certificate D) (lq_certificates (ledger_request_of U g)) = unsignedTxCerts U g"
    by (simp add: device_body_def SophieTxAux_def unsignedTx_def prepareTxAux_def)
  then show False
    using assms by (simp add: ledger_request_of_def unsignedTxCerts_def prepareLedgerCertificate_def Let_def
        device_certificate_def SophieTxCert_def CERTIFICATE_TYPE_def joined_account_def)
qed

section \<open>The submitted transaction is well typed\<close>

text \<open>
  The ledger's grammar of a transaction body, as far as Klarity builds one: hashes of 32 bytes, key hashes of
  28, whole amounts that are not negative, certificates of the three types.
\<close>

definition is_uint :: "cbor \<Rightarrow> bool" where
  "is_uint c = (case c of CNum q \<Rightarrow> 0 \<le> q \<and> whole q | _ \<Rightarrow> False)"

definition is_bytes :: "nat set \<Rightarrow> cbor \<Rightarrow> bool" where
  "is_bytes N c = (case c of CBytes b \<Rightarrow> length b \<in> N | _ \<Rightarrow> False)"

definition is_pair :: "(cbor \<Rightarrow> bool) \<Rightarrow> (cbor \<Rightarrow> bool) \<Rightarrow> cbor \<Rightarrow> bool" where
  "is_pair p q c = (case c of CArr [a, b] \<Rightarrow> p a \<and> q b | _ \<Rightarrow> False)"

definition is_map :: "(cbor \<Rightarrow> bool) \<Rightarrow> (cbor \<Rightarrow> bool) \<Rightarrow> cbor \<Rightarrow> bool" where
  "is_map p q c = (case c of CMap kvs \<Rightarrow> list_all (\<lambda>(k, v). p k \<and> q v) kvs | _ \<Rightarrow> False)"

definition is_array :: "(cbor \<Rightarrow> bool) \<Rightarrow> cbor \<Rightarrow> bool" where
  "is_array p c = (case c of CArr xs \<Rightarrow> list_all p xs | _ \<Rightarrow> False)"

definition is_value :: "cbor \<Rightarrow> bool" where
  "is_value c \<longleftrightarrow> is_uint c \<or> is_pair is_uint (is_map (is_bytes {28}) (is_map (is_bytes {0..32}) is_uint)) c"

definition is_credential :: "cbor \<Rightarrow> bool" where
  "is_credential = is_pair (\<lambda>t. t = CNum 0) (is_bytes {28})"

definition is_certificate :: "cbor \<Rightarrow> bool" where
  "is_certificate c = (case c of
       CArr [t, a] \<Rightarrow> t \<in> {CNum 0, CNum 1} \<and> is_credential a
     | CArr [t, a, p] \<Rightarrow> t = CNum 2 \<and> is_credential a \<and> is_bytes {28} p
     | _ \<Rightarrow> False)"

definition field_type :: "cbor \<Rightarrow> cbor \<Rightarrow> bool" where
  "field_type k v = (
     if k = CNum 0 then is_array (is_pair (is_bytes {32}) is_uint) v
     else if k = CNum 1 then is_array (is_pair (is_bytes UNIV) is_value) v
     else if k = CNum 2 \<or> k = CNum 3 then is_uint v
     else if k = CNum 4 then is_array is_certificate v
     else if k = CNum 5 then is_map (is_bytes {29}) is_uint v
     else if k = CNum 7 then is_bytes {32} v
     else False)"

definition is_transaction_body :: "cbor \<Rightarrow> bool" where
  "is_transaction_body c = (case c of
       CMap kvs \<Rightarrow> distinct (map fst kvs) \<and> {CNum 0, CNum 1, CNum 2, CNum 3} \<subseteq> set (map fst kvs)
                 \<and> list_all (\<lambda>(k, v). field_type k v) kvs
     | _ \<Rightarrow> False)"

text \<open>What the backend, the device and the address decoder deliver.\<close>

definition hex_text :: "nat set \<Rightarrow> string \<Rightarrow> bool" where
  "hex_text N s \<longleftrightarrow> list_all (\<lambda>c. hex_value c \<noteq> None) s \<and> even (length s) \<and> length s div 2 \<in> N"

definition amount_ok :: "rat \<Rightarrow> bool" where "amount_ok q \<longleftrightarrow> 0 \<le> q \<and> whole q"

definition well_typed_selection :: "hw_library \<Rightarrow> coin_selection \<Rightarrow> bool" where
  "well_typed_selection U s \<longleftrightarrow> list_all (\<lambda>i. hex_text {32} (in_id i)) (cs_inputs s)
   \<and> list_all (\<lambda>out. amount_ok (out_amount out) \<and> list_all (\<lambda>t. hex_text {28} (se_policyId t)
        \<and> hex_text {0..32} (se_assetName t) \<and> amount_ok (se_quantity t)) (out_assets out)) (cs_outputs s)
   \<and> list_all (\<lambda>w. length (bech32_decodeAddress U (cw_stake_address w)) = 29 \<and> amount_ok (cw_amount w)) (cs_withdrawals s)
   \<and> list_all known_certificate (cs_certificates s)
   \<and> list_all (\<lambda>c. case certificate_pool c of None \<Rightarrow> True | Some p \<Rightarrow> length (bech32_decodeAddress U p) = 28) (cs_certificates s)
   \<and> cs_fee s \<ge> 0"

lemma hex_text_length: "hex_text N s \<Longrightarrow> length (hex_to_bytes s) \<in> N"
proof -
  have "list_all (\<lambda>c. hex_value c \<noteq> None) s \<Longrightarrow> even (length s) \<Longrightarrow> length (hex_to_bytes s) = length s div 2"
    by (induction s rule: hex_to_bytes.induct) (auto split: option.split)
  then show "hex_text N s \<Longrightarrow> length (hex_to_bytes s) \<in> N" by (simp add: hex_text_def)
qed

lemma typed_input: "hex_text {32} (in_id i) \<Longrightarrow> is_pair (is_bytes {32}) is_uint (SophieTxInputFromUtxo i)"
  using hex_text_length [of "{32}" "in_id i"]
  by (simp add: SophieTxInputFromUtxo_def is_pair_def is_bytes_def is_uint_def whole_def)

lemma typed_assets:
  assumes "list_all (\<lambda>t. hex_text {28} (se_policyId t) \<and> hex_text {0..32} (se_assetName t) \<and> amount_ok (se_quantity t)) assets"
  shows "is_map (is_bytes {28}) (is_map (is_bytes {0..32}) is_uint) (SophieTxOutputAssets U assets)"
proof -
  have "is_bytes {28} (CBytes (hex_to_bytes p))
      \<and> is_map (is_bytes {0..32}) is_uint (CMap (map (\<lambda>t. (CBytes (hex_to_bytes (se_assetName t)), CNum (se_quantity t))) ts))"
    if g: "(p, ts) \<in> set (groupTokensByPolicyId U assets)" for p ts
  proof -
    have m: "ts \<noteq> []" "\<forall>t \<in> set ts. se_policyId t = p"
      using g by (auto simp: groupTokensByPolicyId_def Let_def dest!: groups_members)
    have "hex_text {28} (se_policyId t) \<and> hex_text {0..32} (se_assetName t) \<and> amount_ok (se_quantity t)" if "t \<in> set ts" for t
      using assms set_group_tokens [OF g that] by (simp add: list_all_iff)
    note t = this
    have "hex_text {28} p" using m t by (metis hd_in_set)
    from hex_text_length [OF this] have p: "is_bytes {28} (CBytes (hex_to_bytes p))" by (simp add: is_bytes_def)
    have "is_bytes {0..32} (CBytes (hex_to_bytes (se_assetName x))) \<and> is_uint (CNum (se_quantity x))" if "x \<in> set ts" for x
      using t [OF that] hex_text_length [of "{0..32}" "se_assetName x"] by (simp add: is_bytes_def is_uint_def amount_ok_def)
    with p show ?thesis by (simp add: is_map_def list_all_iff)
  qed
  then show ?thesis by (auto simp: SophieTxOutputAssets_def is_map_def list_all_iff)
qed

lemma typed_output:
  assumes "amount_ok (out_amount out)" and "list_all (\<lambda>t. hex_text {28} (se_policyId t)
     \<and> hex_text {0..32} (se_assetName t) \<and> amount_ok (se_quantity t)) (out_assets out)"
  shows "is_pair (is_bytes UNIV) is_value (SophieTxOutput U out style)"
  using typed_assets [OF assms(2), of U] assms(1)
  by (simp add: SophieTxOutput_def Let_def is_pair_def is_bytes_def is_value_def is_uint_def amount_ok_def)

lemma typed_certificate:
  assumes "known_certificate c" and "length (bech32_decodeAddress U account) = 29"
    and "case certificate_pool c of None \<Rightarrow> True | Some p \<Rightarrow> length (bech32_decodeAddress U p) = 28"
    and "\<And>b. hex_to_bytes (buf_to_hex U b) = b"
  shows "is_certificate (SophieTxCert U (map_of CERTIFICATE_TYPE (certificate_type c)) account (certificate_pool c))"
  using assms
  by (auto simp: known_certificate_def SophieTxCert_def CERTIFICATE_TYPE_def Let_def is_certificate_def
      is_credential_def is_pair_def is_bytes_def)

lemma typed_certificates:
  assumes "well_typed_selection U (coinSelection g)" and "\<And>p. length (bech32_decodeAddress U (account_of g p)) = 29"
    and "\<And>b. hex_to_bytes (buf_to_hex U b) = b"
  shows "list_all is_certificate (unsignedTxCerts U g)"
proof -
  let ?cs = "cs_certificates (coinSelection g)"
  have "is_certificate (SophieTxCert U (map_of CERTIFICATE_TYPE (certificate_type c)) (joined_account g) (certificate_pool c))"
    if c: "c \<in> set ?cs" for c
  proof (rule typed_certificate [OF _ _ _ assms(3)])
    show "length (bech32_decodeAddress U (joined_account g)) = 29"
      using c assms(2) by (cases ?cs) (auto simp: joined_account_def)
    show "known_certificate c" "case certificate_pool c of None \<Rightarrow> True | Some p \<Rightarrow> length (bech32_decodeAddress U p) = 28"
      using assms(1) c by (simp_all add: well_typed_selection_def list_all_iff)
  qed
  then show ?thesis by (simp add: unsignedTxCerts_def list_all_iff)
qed

text \<open>
  C9. What is submitted is a transaction. For the data of the backend and the device as their formats are, the
  body is a map with the four mandatory fields, no field twice, and every field of its type in
  the ledger's grammar.
\<close>

theorem submitted_transaction_is_typed:
  assumes "well_typed_selection U (coinSelection g)" and "\<And>p. length (bech32_decodeAddress U (account_of g p)) = 29"
    and "\<And>b. hex_to_bytes (buf_to_hex U b) = b"
    and "slot_number g \<ge> 0" and "case supplement a of None \<Rightarrow> True | Some (h, signature) \<Rightarrow> hex_text {32} h"
  shows "is_transaction_body (SophieTxAux (submittedTx U g a))"
proof -
  let ?s = "coinSelection g" and ?t = "submittedTx U g a"
  note s = assms(1) [unfolded well_typed_selection_def]
  have "list_all (is_pair (is_bytes {32}) is_uint) (map SophieTxInputFromUtxo (cs_inputs ?s))"
    using s typed_input by (simp add: list_all_iff)
  moreover have "list_all (is_pair (is_bytes UNIV) is_value)
      (map (\<lambda>out. SophieTxOutput U out (style_of g (out_address out))) (cs_outputs ?s))"
    using s typed_output by (simp add: list_all_iff)
  moreover have "is_uint (SophieFee (signed_fee g))"
    using s by (simp add: SophieFee_def signed_fee_def formattedAmountToEntropic_def Let_def is_uint_def whole_def ENTROPICS_PER_BCC_def)
  moreover have "is_uint (SophieTtl (getTtl (slot_number g)))"
    using assms(4) by (simp add: SophieTtl_def getTtl_def is_uint_def whole_def TIME_TO_LIVE_def)
  moreover have "is_map (is_bytes {29}) is_uint (SophieTxWithdrawal U (cs_withdrawals ?s))"
    using s by (simp add: SophieTxWithdrawal_def is_map_def is_bytes_def is_uint_def amount_ok_def list_all_iff)
  moreover have "is_bytes {32} (CBytes (hex_to_bytes h))" if "auxiliaryDataHash ?t = Some h" for h
    using that assms(5) hex_text_length [of "{32}" h]
    by (auto simp: submittedTx_def unsignedTx_def prepareTxAux_def registration_def is_bytes_def
        split: option.splits)
  ultimately show ?thesis
    using typed_certificates [OF assms(1-3)]
    by (auto simp: SophieTxAux_def submittedTx_def unsignedTx_def prepareTxAux_def is_transaction_body_def field_type_def
        is_array_def split: option.split)
qed

definition example_hex :: "nat \<Rightarrow> string" where "example_hex n = replicate (2 * n) (CHR ''a'')"

definition example_signing :: signing where
  "example_signing = \<lparr>
     coinSelection = \<lparr>cs_inputs = [\<lparr>in_address = example_hex 57, in_amount = 9000000, in_id = example_hex 32, in_index = 1,
         in_derivationPath = [''1852H'', ''1815H'', ''0H'', ''0'', ''0''], in_assets = []\<rparr>],
       cs_outputs = [\<lparr>out_address = example_hex 57, out_amount = 1000000, out_derivationPath = None, out_assets =
           [\<lparr>se_policyId = example_hex 28, se_assetName = example_hex 4, se_quantity = 5\<rparr>]\<rparr>,
         \<lparr>out_address = example_hex 57, out_amount = 5800000, out_derivationPath = Some [''1852H'', ''1815H'', ''0H'', ''1'', ''0''],
           out_assets = []\<rparr>],
       cs_certificates = [\<lparr>certificate_type = ''register_reward_account'',
           reward_account_path = [''1852H'', ''1815H'', ''0H'', ''2'', ''0''], certificate_pool = None\<rparr>,
         \<lparr>certificate_type = ''join_pool'', reward_account_path = [''1852H'', ''1815H'', ''0H'', ''2'', ''0''],
           certificate_pool = Some (example_hex 28)\<rparr>],
       cs_withdrawals = [], cs_fee = 1 / 5, cs_deposits = 2, cs_depositsReclaimed = 0, cs_metadata = None\<rparr>,
     style_of = (\<lambda>a. ADDRESS_SOPHIE), account_of = (\<lambda>p. example_hex 29),
     slot_number = 100, mainnet = True, voting = None, device_path = None\<rparr>"

definition example_device :: device where
  "example_device = \<lparr>own_address = (\<lambda>p q. hex_to_bytes (example_hex 57)), reward_account = (\<lambda>p. hex_to_bytes (example_hex 29))\<rparr>"

lemma example_buffers: "hex_to_bytes (buf_to_hex example_library b) = b"
  by (simp add: example_library_def hex_roundtrip)

lemma example_hex_text: "hex_text {n} (example_hex n)"
  by (simp add: hex_text_def example_hex_def hex_value_def list_all_iff)

lemma example_hex_length: "length (bech32_decodeAddress example_library (example_hex n)) = n"
  using hex_text_length [OF example_hex_text, of n] by (simp add: example_library_def)


lemma second_account_is_lost_witness:
  "device_body (example_device\<lparr>reward_account := (\<lambda>p. [])\<rparr>) (ledger_request_of example_library example_signing) None
   \<noteq> SophieTxAux (unsignedTx example_library example_signing None)"
proof (rule second_account_is_lost)
  show "cs_certificates (coinSelection example_signing) = [hd (cs_certificates (coinSelection example_signing)),
      hd (tl (cs_certificates (coinSelection example_signing)))]" by (simp add: example_signing_def)
  have "length (bech32_decodeAddress example_library (example_hex 29)) = 29" by (rule example_hex_length)
  then have "drop 1 (bech32_decodeAddress example_library (example_hex 29)) \<noteq> []" by (simp add: drop_eq_Nil)
  then show "drop 1 (reward_account (example_device\<lparr>reward_account := (\<lambda>p. [])\<rparr>) (derivationPathToLedgerPath example_library
        (reward_account_path (hd (tl (cs_certificates (coinSelection example_signing)))))))
      \<noteq> drop 1 (bech32_decodeAddress example_library (account_of example_signing
          (reward_account_path (hd (cs_certificates (coinSelection example_signing))))))"
    by (simp add: example_signing_def)
qed (simp add: example_signing_def)

lemma submitted_transaction_is_typed_witness:
  "is_transaction_body (SophieTxAux (submittedTx example_library example_signing \<lparr>answer_witnesses = [], supplement = None\<rparr>))"
proof (rule submitted_transaction_is_typed [OF _ _ example_buffers])
  have "hex_text {0..32} (example_hex 4)" by (simp add: hex_text_def example_hex_def hex_value_def list_all_iff)
  then show "well_typed_selection example_library (coinSelection example_signing)"
    by (simp add: example_signing_def well_typed_selection_def example_hex_text example_hex_length amount_ok_def whole_def
        known_certificate_def)
qed (simp_all add: example_signing_def example_hex_length)

end
