(* ===== verification/Wallets.thy ===== *)
theory Wallets imports BccApi begin

text \<open>
  The wallets store, \<open>stores/WalletsStore.js\<close>: the list of wallets, the active wallet, and the flows that
  create, restore, import, delete and use wallets while the periodic refresh is paused. The store is
  a machine; every \<open>await\<close> is a task that an answer resumes. Routes are the cases that
  \<open>matchRoute\<close> tells apart.
\<close>

section \<open>State\<close>

datatype route = AddRoute | WalletsRoot | WalletRoute string string | OtherRoute string

datatype wallet_kind = KLARITY | QUANTAVERSE
datatype klarity_kind = COLE_12_WORD | SOPHIE_15_WORD | SOPHIE_24_WORD | COLE_27_WORD
datatype quantaverse_kind = Q_COLE_15_WORD | Q_SOPHIE_15_WORD

datatype restore_request = RestoreKlarity | RestoreColeRandom | RestoreColeIcarus

record restore_form =
  restoreWalletStep :: "int option"
  restoreWalletShowAbortConfirmation :: bool
  restoredWallet :: "wallet option"
  walletKind :: "wallet_kind option"
  walletKindKlarity :: "klarity_kind option"
  walletKindQuantaverse :: "quantaverse_kind option"
  mnemonics :: "string list"
  walletName :: string
  spendingPassword :: string
  repeatPassword :: string

definition empty_restore_form :: restore_form where
  "empty_restore_form = \<lparr>restoreWalletStep = None, restoreWalletShowAbortConfirmation = False, restoredWallet = None,
     walletKind = None, walletKindKlarity = None, walletKindQuantaverse = None, mnemonics = [], walletName = [],
     spendingPassword = [], repeatPassword = []\<rparr>"

record hw_params =
  hw_walletName :: string
  hw_publicKeyHex :: string
  hw_chainCodeHex :: string
  hw_deviceId :: string

text \<open>The flows that pause the refresh first.\<close>

datatype flow =
    DeleteFlow string bool
  | RestoreFlow
  | HardwareFlow hw_params
  | CsvFlow

datatype wtask =
    RefreshCall                          \<comment> \<open>\<open>refreshWalletsData\<close>, awaiting the list\<close>
  | PauseThen flow                       \<comment> \<open>\<open>_pausePolling\<close>, awaiting a refresh under way\<close>
  | DeleteCall string nat                \<comment> \<open>awaiting the deletion; the wallet's index\<close>
  | DeletePatch string nat
  | DeleteUnset string                   \<comment> \<open>awaiting the removal of the device's data\<close>
  | UnscrambleCall
  | RestoreCall restore_request
  | RestoreEndPatch wallet
  | BackupCall                           \<comment> \<open>\<open>_finishWalletBackup\<close>, awaiting the new wallet\<close>
  | BackupPatch wallet
  | ImportCall
  | ImportPatch wallet
  | HardwareCall hw_params
  | HardwareLocal wallet
  | HardwareDevice wallet
  | HardwarePatch wallet
  | SendCall string
  | CsvCall

datatype weffect =
    GoTo route
  | CloseActiveDialog
  | RefreshLocalData
  | RefreshAddresses
  | RefreshTransactions
  | RefreshSuccess
  | UnsetWalletLocalData string
  | ClearLastGeneratedAddress
  | CallRestore restore_request "string list" string string
  | ResetSendRequest

record wallets_store =
  walletsResult :: "wallet list option"
  walletsExecuted :: bool
  walletsExecuting :: bool
  active :: "wallet option"
  activeValue :: "rat option"
  activePublicKey :: "string option"
  icoPublicKey :: "string option"
  pollingBlocked :: bool
  isDeleting :: bool
  isAddressFromSameWallet :: bool
  restoreForm :: restore_form
  generatingRewardsCsvInProgress :: bool
  generatingRewardsCsvError :: bool
  currentRoute :: route
  storeConnected :: bool
  requestIds :: "string list"
  hwConnections :: "string \<rightharpoonup> string"
  wtasks :: "wtask list"
  weffects :: "weffect list"

definition emit :: "weffect \<Rightarrow> wallets_store \<Rightarrow> wallets_store" where
  "emit x s = s\<lparr>weffects := weffects s @ [x]\<rparr>"

definition add_wtask :: "wtask \<Rightarrow> wallets_store \<Rightarrow> wallets_store" where
  "add_wtask t s = s\<lparr>wtasks := wtasks s @ [t]\<rparr>"

section \<open>The list of wallets\<close>

definition result_list :: "wallets_store \<Rightarrow> wallet list" where
  "result_list s = (case walletsResult s of None \<Rightarrow> [] | Some ws \<Rightarrow> ws)"

definition allWallets :: "wallets_store \<Rightarrow> wallet list" where
  "allWallets s = filter (\<lambda>w. \<not> isLegacy w) (result_list s)"

definition allLegacyWallets :: "wallets_store \<Rightarrow> wallet list" where
  "allLegacyWallets s = filter isLegacy (result_list s)"

definition all :: "wallets_store \<Rightarrow> wallet list" where
  "all s = allWallets s @ allLegacyWallets s"

definition hasAnyWallets :: "wallets_store \<Rightarrow> bool" where
  "hasAnyWallets s \<longleftrightarrow> walletsExecuted s \<and> result_list s \<noteq> []"

definition hasAnyLoaded :: "wallets_store \<Rightarrow> bool" where
  "hasAnyLoaded s \<longleftrightarrow> all s \<noteq> []"

definition first :: "wallets_store \<Rightarrow> wallet option" where
  "first s = (if all s \<noteq> [] then Some (hd (all s)) else None)"

definition MAX_BCC_WALLETS_COUNT :: nat where "MAX_BCC_WALLETS_COUNT = 30"

definition hasMaxWallets :: "wallets_store \<Rightarrow> bool" where
  "hasMaxWallets s \<longleftrightarrow> length (all s) \<ge> MAX_BCC_WALLETS_COUNT"

definition hasRewardsWallets :: "wallets_store \<Rightarrow> bool" where
  "hasRewardsWallets s \<longleftrightarrow> length (allWallets s) > 0"

definition getWalletById :: "string \<Rightarrow> wallets_store \<Rightarrow> wallet option" where
  "getWalletById i s = find (\<lambda>w. wallet_id w = i) (all s)"

definition getWalletByName :: "string \<Rightarrow> wallets_store \<Rightarrow> wallet option" where
  "getWalletByName n s = find (\<lambda>w. wallet_name w = n) (all s)"

text \<open>\<open>findIndex(result, 'isLegacy')\<close>, and the insertion there or at the end.\<close>

definition insert_wallet :: "wallet \<Rightarrow> wallet list \<Rightarrow> wallet list" where
  "insert_wallet w ws =
     (if find (\<lambda>v. wallet_id v = wallet_id w) ws \<noteq> None then ws
      else if isLegacy w then ws @ [w]
      else let index = length (takeWhile (\<lambda>v. \<not> isLegacy v) ws)
           in if index < length ws then take index ws @ w # drop index ws else ws @ [w])"

definition patchWalletRequestWithNewWallet :: "wallet \<Rightarrow> wallets_store \<Rightarrow> wallets_store" where
  "patchWalletRequestWithNewWallet w s = s\<lparr>walletsResult := map_option (insert_wallet w) (walletsResult s)\<rparr>"

section \<open>The active wallet\<close>

text \<open>
  The key of a hardware wallet is shown when its device's data are known; the encoding of the key as
  text is left out. An update copies every field of the wallet.
\<close>

definition replaceActive :: "wallet option \<Rightarrow> wallets_store \<Rightarrow> wallets_store" where
  "replaceActive new s =
     (let s1 = emit ClearLastGeneratedAddress (s\<lparr>active := new\<rparr>)
      in case new of
           None \<Rightarrow> s1
         | Some w \<Rightarrow>
             (let s2 = s1\<lparr>activeValue := Some (wallet_amount w)\<rparr>
              in if isHardwareWallet w
                 then (case hwConnections s2 (wallet_id w) of
                         None \<Rightarrow> s2 | Some key \<Rightarrow> s2\<lparr>activePublicKey := Some key\<rparr>)
                 else s2\<lparr>activePublicKey := None, icoPublicKey := None\<rparr>))"

definition setActiveWallet :: "string \<Rightarrow> wallets_store \<Rightarrow> wallets_store" where
  "setActiveWallet walletId s =
     (if \<not> hasAnyWallets s then s
      else let new = find (\<lambda>w. wallet_id w = walletId) (all s);
               stopped = (case active s of None \<Rightarrow> True | Some a \<Rightarrow> \<not> isNotResponding a)
                       \<and> (case new of None \<Rightarrow> False | Some n \<Rightarrow> isNotResponding n);
               s1 = (if stopped then emit (GoTo (WalletRoute (wallet_id (the new)) ''summary'')) s else s)
           in if map_option wallet_id (active s) \<noteq> Some walletId then replaceActive new s1
              else if active s \<noteq> new \<and> new \<noteq> None then s1\<lparr>active := new\<rparr>
              else s1)"

definition unsetActiveWallet :: "wallets_store \<Rightarrow> wallets_store" where
  "unsetActiveWallet s = emit ClearLastGeneratedAddress
     (s\<lparr>active := None, activeValue := None, activePublicKey := None, icoPublicKey := None\<rparr>)"

definition goToWalletRoute :: "string \<Rightarrow> wallets_store \<Rightarrow> wallets_store" where
  "goToWalletRoute walletId s = emit (GoTo (WalletRoute walletId ''summary'')) s"

definition canRedirectToWallet :: "wallets_store \<Rightarrow> bool" where
  "canRedirectToWallet s \<longleftrightarrow> currentRoute s \<in> {WalletsRoot, AddRoute}"

definition goToActive :: "wallets_store \<Rightarrow> wallets_store" where
  "goToActive s = (case active s of None \<Rightarrow> s | Some a \<Rightarrow> goToWalletRoute (wallet_id a) s)"

definition updateActiveWalletOnRouteChanges :: "wallets_store \<Rightarrow> wallets_store" where
  "updateActiveWalletOnRouteChanges s =
     (if currentRoute s = AddRoute \<or> \<not> hasAnyLoaded s then unsetActiveWallet s
      else case currentRoute s of
        WalletRoute i page \<Rightarrow>
          (case find (\<lambda>w. wallet_id w = i) (all s) of
             Some w \<Rightarrow> setActiveWallet (wallet_id w) s
           | None \<Rightarrow> goToActive (setActiveWallet (wallet_id (hd (all s))) s))
      | r \<Rightarrow> if canRedirectToWallet s
             then goToActive (if active s = None then setActiveWallet (wallet_id (hd (all s))) s else s)
             else s)"

text \<open>A visit of a wallet's send page resets the request.\<close>

definition onRouteChange :: "route \<Rightarrow> wallets_store \<Rightarrow> wallets_store" where
  "onRouteChange r s = (case r of
       WalletRoute i page \<Rightarrow> if page = ''send'' then emit ResetSendRequest (s\<lparr>isAddressFromSameWallet := False\<rparr>) else s
     | _ \<Rightarrow> s)"

section \<open>Refreshing and pausing\<close>

definition refreshWalletsData :: "wallets_store \<Rightarrow> wallets_store" where
  "refreshWalletsData s =
     (if pollingBlocked s then s
      else if storeConnected s then add_wtask RefreshCall s
      else s)"

definition pollRefresh :: "wallets_store \<Rightarrow> wallets_store" where
  "pollRefresh s = (if storeConnected s then refreshWalletsData s else s)"

text \<open>The list has arrived; what follows does not look at \<open>_pollingBlocked\<close> again.\<close>

definition refreshed :: "wallet list \<Rightarrow> wallets_store \<Rightarrow> wallets_store" where
  "refreshed ws s =
     (let s1 = s\<lparr>walletsResult := Some ws, walletsExecuted := True, walletsExecuting := False\<rparr>;
          walletIds = map wallet_id (filter (\<lambda>w. \<not> isNotResponding w) ws);
          s2 = emit RefreshLocalData s1;
          s3 = (case active s2 of None \<Rightarrow> s2 | Some a \<Rightarrow> setActiveWallet (wallet_id a) s2)
      in emit RefreshSuccess (emit RefreshTransactions (emit RefreshAddresses (s3\<lparr>requestIds := walletIds\<rparr>))))"

definition resetWalletsData :: "wallets_store \<Rightarrow> wallets_store" where
  "resetWalletsData s = s\<lparr>walletsResult := None, walletsExecuted := False, walletsExecuting := False,
     requestIds := [], isAddressFromSameWallet := False\<rparr>"

definition resumePolling :: "wallets_store \<Rightarrow> wallets_store" where
  "resumePolling s = s\<lparr>pollingBlocked := False\<rparr>"

section \<open>Restoring\<close>

definition restoreRequest :: "restore_form \<Rightarrow> restore_request" where
  "restoreRequest f = (case walletKind f of
       Some KLARITY \<Rightarrow>
         if walletKindKlarity f = Some SOPHIE_15_WORD \<or> walletKindKlarity f = Some SOPHIE_24_WORD
         then RestoreKlarity else RestoreColeRandom
     | Some QUANTAVERSE \<Rightarrow>
         if walletKindQuantaverse f = Some Q_COLE_15_WORD then RestoreColeIcarus else RestoreKlarity
     | None \<Rightarrow> RestoreKlarity)"

definition BCC_CERTIFICATE_MNEMONIC_LENGTH :: nat where "BCC_CERTIFICATE_MNEMONIC_LENGTH = 18"

text \<open>\<open>getScrambledInput\<close> fails without words after the eighteenth.\<close>

definition getScrambledInput :: "string list \<Rightarrow> (string list \<times> string list) option" where
  "getScrambledInput ms =
     (let rest = drop BCC_CERTIFICATE_MNEMONIC_LENGTH ms
      in if rest = [] then None
         else Some (take BCC_CERTIFICATE_MNEMONIC_LENGTH ms, take BCC_CERTIFICATE_MNEMONIC_LENGTH rest))"

definition callRestore :: "string list \<Rightarrow> wallets_store \<Rightarrow> wallets_store" where
  "callRestore phrase s = (let f = restoreForm s in
     add_wtask (RestoreCall (restoreRequest f))
       (emit (CallRestore (restoreRequest f) phrase (walletName f) (spendingPassword f)) s))"

text \<open>A failure here is not caught.\<close>

definition restore :: "wallets_store \<Rightarrow> wallets_store" where
  "restore s = (let f = restoreForm s in
     if walletKind f = Some KLARITY \<and> walletKindKlarity f = Some COLE_27_WORD
     then (case getScrambledInput (mnemonics f) of None \<Rightarrow> s | Some parts \<Rightarrow> add_wtask UnscrambleCall s)
     else callRestore (mnemonics f) s)"

definition restored :: "wallet option \<Rightarrow> wallets_store \<Rightarrow> wallets_store" where
  "restored answer s = (case answer of
       None \<Rightarrow> resumePolling s
     | Some w \<Rightarrow> s\<lparr>restoreForm := (restoreForm s)\<lparr>restoredWallet := Some w, restoreWalletStep := Some 3\<rparr>\<rparr>)"

definition restoreWalletEnd :: "wallets_store \<Rightarrow> wallets_store" where
  "restoreWalletEnd s = (let s1 = resumePolling s in
     case restoredWallet (restoreForm s1) of None \<Rightarrow> s1 | Some w \<Rightarrow> add_wtask (RestoreEndPatch w) s1)"

section \<open>Deleting\<close>

definition wallet_index :: "string \<Rightarrow> wallet list \<Rightarrow> nat" where
  "wallet_index i ws = length (takeWhile (\<lambda>w. wallet_id w \<noteq> i) ws)"

definition deletePaused :: "string \<Rightarrow> wallets_store \<Rightarrow> wallets_store" where
  "deletePaused walletId s = (case getWalletById walletId s of
       None \<Rightarrow> s\<lparr>isDeleting := False\<rparr>
     | Some w \<Rightarrow> add_wtask (DeleteCall walletId (wallet_index walletId (all s))) s)"

text \<open>
  The wallet leaves the list, and the one before it is shown. With no list the patch fails in its timer, and
  with a list shorter than the index there is no wallet to show: either way the deletion ends here.
\<close>

definition deletePatched :: "string \<Rightarrow> nat \<Rightarrow> wallets_store \<Rightarrow> wallets_store" where
  "deletePatched walletId index s = (case walletsResult s of
       None \<Rightarrow> s
     | Some ws \<Rightarrow>
         (let s1 = s\<lparr>walletsResult := Some (remove_nth index ws), isDeleting := False\<rparr>;
              finish = (\<lambda>s'. add_wtask (DeleteUnset walletId) (emit (UnsetWalletLocalData walletId) (emit CloseActiveDialog s')))
          in if hasAnyWallets s1
             then (if index - 1 < length (all s1)
                   then finish (goToWalletRoute (wallet_id (all s1 ! (index - 1))) s1) else s1)
             else finish (emit (GoTo AddRoute) (s1\<lparr>active := None, activeValue := None\<rparr>))))"

section \<open>The flows that pause the refresh\<close>

definition flowPaused :: "flow \<Rightarrow> wallets_store \<Rightarrow> wallets_store" where
  "flowPaused f s = (let s1 = s\<lparr>pollingBlocked := True\<rparr> in
     case f of
       DeleteFlow walletId legacy \<Rightarrow> deletePaused walletId s1
     | RestoreFlow \<Rightarrow> restore s1
     | HardwareFlow p \<Rightarrow> add_wtask (HardwareCall p) s1
     | CsvFlow \<Rightarrow> add_wtask CsvCall (s1\<lparr>generatingRewardsCsvInProgress := True, generatingRewardsCsvError := False\<rparr>))"

definition startFlow :: "flow \<Rightarrow> wallets_store \<Rightarrow> wallets_store" where
  "startFlow f s = (if walletsExecuting s then add_wtask (PauseThen f) s else flowPaused f s)"

text \<open>The flows with a \<open>finally\<close> resume the refresh when something fails.\<close>

definition flowFailed :: "flow \<Rightarrow> wallets_store \<Rightarrow> wallets_store" where
  "flowFailed f s = (case f of HardwareFlow p \<Rightarrow> resumePolling s | CsvFlow \<Rightarrow> resumePolling s | _ \<Rightarrow> s)"

definition deleteWallet :: "string \<Rightarrow> bool \<Rightarrow> wallets_store \<Rightarrow> wallets_store" where
  "deleteWallet walletId legacy s = startFlow (DeleteFlow walletId legacy) (s\<lparr>isDeleting := True\<rparr>)"

definition sendMoney :: "wallets_store \<Rightarrow> wallets_store" where
  "sendMoney s = (case active s of None \<Rightarrow> s | Some w \<Rightarrow> add_wtask (SendCall (wallet_id w)) s)"

section \<open>Answers\<close>

datatype wanswer =
    Failed bool                          \<comment> \<open>rejected; whether a file was open\<close>
  | WalletList "wallet list"
  | NewWallet "wallet option"
  | Phrase "string list"
  | Done

text \<open>A new wallet is in the list: show it and refresh.\<close>

definition showNewWallet :: "wallet \<Rightarrow> wallets_store \<Rightarrow> wallets_store" where
  "showNewWallet w s = refreshWalletsData (goToWalletRoute (wallet_id w) s)"

definition patched :: "wallet \<Rightarrow> (wallets_store \<Rightarrow> wallets_store) \<Rightarrow> wallets_store \<Rightarrow> wallets_store" where
  "patched w f s = (if walletsResult s = None then s else f (patchWalletRequestWithNewWallet w s))"

definition receivedWallet :: "wanswer \<Rightarrow> (wallet \<Rightarrow> wtask) \<Rightarrow> wallets_store \<Rightarrow> wallets_store" where
  "receivedWallet a t s = (case a of NewWallet (Some w) \<Rightarrow> add_wtask (t w) s | _ \<Rightarrow> s)"

definition orResume :: "wanswer \<Rightarrow> wallets_store \<Rightarrow> wallets_store \<Rightarrow> wallets_store" where
  "orResume a s' s = (case a of Failed b \<Rightarrow> resumePolling s | _ \<Rightarrow> s')"

definition answer_wtask :: "wtask \<Rightarrow> wanswer \<Rightarrow> wallets_store \<Rightarrow> wallets_store" where
  "answer_wtask t a s = (case t of
       RefreshCall \<Rightarrow> (case a of
           WalletList ws \<Rightarrow> refreshed ws s
         | Failed b \<Rightarrow> s\<lparr>walletsExecuted := True, walletsExecuting := False\<rparr>
         | _ \<Rightarrow> s)
     | PauseThen f \<Rightarrow> (case a of Failed b \<Rightarrow> flowFailed f s | _ \<Rightarrow> flowPaused f s)
     | DeleteCall i index \<Rightarrow> (case a of Failed b \<Rightarrow> s | _ \<Rightarrow> add_wtask (DeletePatch i index) s)
     | DeletePatch i index \<Rightarrow> deletePatched i index s
     | DeleteUnset i \<Rightarrow> (case a of Failed b \<Rightarrow> s | _ \<Rightarrow> refreshWalletsData (resumePolling s))
     | UnscrambleCall \<Rightarrow> (case a of Phrase p \<Rightarrow> callRestore p s | _ \<Rightarrow> s)
     | RestoreCall r \<Rightarrow> (case a of NewWallet w \<Rightarrow> restored w s | _ \<Rightarrow> resumePolling s)
     | RestoreEndPatch w \<Rightarrow> patched w (\<lambda>s'. (showNewWallet w s')\<lparr>restoreForm := empty_restore_form\<rparr>) s
     | BackupCall \<Rightarrow> receivedWallet a BackupPatch s
     | BackupPatch w \<Rightarrow> patched w (\<lambda>s'. showNewWallet w (emit CloseActiveDialog s')) s
     | ImportCall \<Rightarrow> receivedWallet a ImportPatch s
     | ImportPatch w \<Rightarrow> patched w (\<lambda>s'. showNewWallet w (emit CloseActiveDialog s')) s
     | HardwareCall p \<Rightarrow> (case a of
           NewWallet (Some w) \<Rightarrow> add_wtask (HardwareLocal w) s
         | _ \<Rightarrow> resumePolling s)
     | HardwareLocal w \<Rightarrow> orResume a (add_wtask (HardwareDevice w) s) s
     | HardwareDevice w \<Rightarrow> orResume a (add_wtask (HardwarePatch w) s) s
     | HardwarePatch w \<Rightarrow> patched w (\<lambda>s'. resumePolling (emit CloseActiveDialog (showNewWallet w s'))) s
     | SendCall i \<Rightarrow> (case a of
           Failed b \<Rightarrow> s
         | _ \<Rightarrow> goToWalletRoute i (emit ResetSendRequest (emit CloseActiveDialog (refreshWalletsData s))))
     | CsvCall \<Rightarrow> resumePolling (s\<lparr>generatingRewardsCsvInProgress := False,
                    generatingRewardsCsvError := (a = Failed True)\<rparr>))"

datatype wevent =
    PollRefresh
  | RefreshRequested
  | ExecutingShown
  | ResetWallets
  | RouteChanged route
  | Reaction
  | ConnectionChanged bool
  | DeleteRequested string bool
  | RestoreRequested
  | RestoreEnded
  | BackupFinished
  | ImportRequested
  | HardwareRequested hw_params
  | CsvRequested
  | SendRequested
  | FormChanged "restore_form \<Rightarrow> restore_form"
  | WAnswer nat wanswer

definition wallets_step :: "wallets_store \<Rightarrow> wevent \<Rightarrow> wallets_store" where
  "wallets_step s e = (case e of
       PollRefresh \<Rightarrow> pollRefresh s
     | RefreshRequested \<Rightarrow> refreshWalletsData s
     | ExecutingShown \<Rightarrow> s\<lparr>walletsExecuting := (RefreshCall \<in> set (wtasks s))\<rparr>
     | ResetWallets \<Rightarrow> resetWalletsData s
     | RouteChanged r \<Rightarrow> (onRouteChange r s)\<lparr>currentRoute := r\<rparr>
     | Reaction \<Rightarrow> updateActiveWalletOnRouteChanges s
     | ConnectionChanged b \<Rightarrow> s\<lparr>storeConnected := b\<rparr>
     | DeleteRequested i legacy \<Rightarrow> deleteWallet i legacy s
     | RestoreRequested \<Rightarrow> startFlow RestoreFlow s
     | RestoreEnded \<Rightarrow> restoreWalletEnd s
     | BackupFinished \<Rightarrow> add_wtask BackupCall s
     | ImportRequested \<Rightarrow> add_wtask ImportCall s
     | HardwareRequested p \<Rightarrow> startFlow (HardwareFlow p) s
     | CsvRequested \<Rightarrow> startFlow CsvFlow s
     | SendRequested \<Rightarrow> sendMoney s
     | FormChanged f \<Rightarrow> s\<lparr>restoreForm := f (restoreForm s)\<rparr>
     | WAnswer k a \<Rightarrow> (if k < length (wtasks s)
         then answer_wtask (wtasks s ! k) a (s\<lparr>wtasks := remove_nth k (wtasks s)\<rparr>) else s))"

section \<open>The restore dialog\<close>

definition RESTORE_WALLET_STEPS :: "string list" where
  "RESTORE_WALLET_STEPS = [''type'', ''mnemonics'', ''configuration'', ''success'']"

definition restoreWalletBegin :: "restore_form \<Rightarrow> restore_form" where
  "restoreWalletBegin f = f\<lparr>restoreWalletStep := Some 0, restoreWalletShowAbortConfirmation := False\<rparr>"

definition restoreWalletChangeStep :: "bool \<Rightarrow> restore_form \<Rightarrow> restore_form" where
  "restoreWalletChangeStep isBack f =
     (let current = (case restoreWalletStep f of None \<Rightarrow> 0 | Some n \<Rightarrow> n);
          f1 = (if restoreWalletStep f = None then empty_restore_form else f)
      in f1\<lparr>restoreWalletStep := Some (if isBack then current - 1 else current + 1),
             restoreWalletShowAbortConfirmation := False\<rparr>)"

definition should_display_abort :: "restore_form \<Rightarrow> bool" where
  "should_display_abort f \<longleftrightarrow> (mnemonics f \<noteq> [] \<or> walletName f \<noteq> [] \<or> spendingPassword f \<noteq> [])
     \<and> (case restoreWalletStep f of None \<Rightarrow> False | Some n \<Rightarrow> n < int (length RESTORE_WALLET_STEPS) - 1)"

text \<open>Closing asks first, or resets the form and closes the dialog.\<close>

definition restoreWalletClose :: "restore_form \<Rightarrow> restore_form \<times> bool" where
  "restoreWalletClose f =
     (if should_display_abort f \<and> \<not> restoreWalletShowAbortConfirmation f
      then (f\<lparr>restoreWalletShowAbortConfirmation := True\<rparr>, False)
      else (empty_restore_form, True))"

definition restoreWalletCancelClose :: "restore_form \<Rightarrow> restore_form" where
  "restoreWalletCancelClose f = f\<lparr>restoreWalletShowAbortConfirmation := False\<rparr>"

datatype kind_choice =
    Kind wallet_kind
  | KindKlarity klarity_kind
  | KindQuantaverse quantaverse_kind

definition restoreWalletSetKind :: "kind_choice \<Rightarrow> restore_form \<Rightarrow> restore_form" where
  "restoreWalletSetKind c f = (case c of
       Kind k \<Rightarrow> f\<lparr>walletKind := Some k, mnemonics := []\<rparr>
     | KindKlarity k \<Rightarrow> f\<lparr>walletKindKlarity := Some k, mnemonics := []\<rparr>
     | KindQuantaverse k \<Rightarrow> f\<lparr>walletKindQuantaverse := Some k, mnemonics := []\<rparr>)"

definition restoreWalletSetMnemonics :: "string list \<Rightarrow> restore_form \<Rightarrow> restore_form" where
  "restoreWalletSetMnemonics ms f = f\<lparr>mnemonics := ms\<rparr>"

definition restoreWalletSetConfig :: "string \<Rightarrow> string \<Rightarrow> restore_form \<Rightarrow> restore_form" where
  "restoreWalletSetConfig param v f =
     (if param = ''walletName'' then f\<lparr>walletName := v\<rparr>
      else if param = ''spendingPassword'' then f\<lparr>spendingPassword := v\<rparr>
      else if param = ''repeatPassword'' then f\<lparr>repeatPassword := v\<rparr>
      else f)"

section \<open>The list stays in order\<close>

definition list_ok :: "wallet list \<Rightarrow> bool" where
  "list_ok ws \<longleftrightarrow> filter (\<lambda>w. \<not> isLegacy w) ws @ filter isLegacy ws = ws \<and> distinct (map wallet_id ws)"

definition store_ok :: "wallets_store \<Rightarrow> bool" where
  "store_ok s \<longleftrightarrow> (case walletsResult s of None \<Rightarrow> True | Some ws \<Rightarrow> list_ok ws)"

text \<open>Every list that the backend answers with is in order.\<close>

definition answer_ok :: "wevent \<Rightarrow> bool" where
  "answer_ok e = (case e of WAnswer k (WalletList ws) \<Rightarrow> list_ok ws | _ \<Rightarrow> True)"

lemma partition_split:
  "filter (\<lambda>w. \<not> P w) ws @ filter P ws = ws \<longleftrightarrow> (\<exists>as bs. ws = as @ bs \<and> (\<forall>w \<in> set as. \<not> P w) \<and> (\<forall>w \<in> set bs. P w))"
proof
  assume "filter (\<lambda>w. \<not> P w) ws @ filter P ws = ws"
  then show "\<exists>as bs. ws = as @ bs \<and> (\<forall>w \<in> set as. \<not> P w) \<and> (\<forall>w \<in> set bs. P w)"
    by (intro exI [of _ "filter (\<lambda>w. \<not> P w) ws"] exI [of _ "filter P ws"]) auto
next
  assume "\<exists>as bs. ws = as @ bs \<and> (\<forall>w \<in> set as. \<not> P w) \<and> (\<forall>w \<in> set bs. P w)"
  then show "filter (\<lambda>w. \<not> P w) ws @ filter P ws = ws" by (auto simp: filter_empty_conv)
qed

lemma list_okI:
  "ws = as @ bs \<Longrightarrow> \<forall>w \<in> set as. \<not> isLegacy w \<Longrightarrow> \<forall>w \<in> set bs. isLegacy w \<Longrightarrow> distinct (map wallet_id ws) \<Longrightarrow> list_ok ws"
  unfolding list_ok_def partition_split by blast

lemma list_okE:
  assumes "list_ok ws"
  obtains as bs where "ws = as @ bs" "\<forall>w \<in> set as. \<not> isLegacy w" "\<forall>w \<in> set bs. isLegacy w" "distinct (map wallet_id ws)"
  using assms unfolding list_ok_def partition_split by blast

lemma list_ok_insert: "list_ok ws \<Longrightarrow> list_ok (insert_wallet w ws)"
proof (cases "find (\<lambda>v. wallet_id v = wallet_id w) ws")
  case None
  assume "list_ok ws"
  then obtain as bs where ws: "ws = as @ bs" "\<forall>w \<in> set as. \<not> isLegacy w" "\<forall>w \<in> set bs. isLegacy w" "distinct (map wallet_id ws)"
    by (rule list_okE)
  from None have new: "wallet_id w \<notin> wallet_id ` set ws" by (auto simp: find_None_iff)
  show ?thesis
  proof (cases "isLegacy w")
    case True
    with ws new None show ?thesis by (intro list_okI [of _ as "bs @ [w]"]) (auto simp: insert_wallet_def)
  next
    case False
    have "takeWhile (\<lambda>v. \<not> isLegacy v) bs = []" using ws(3) by (cases bs) simp_all
    then have index: "length (takeWhile (\<lambda>v. \<not> isLegacy v) ws) = length as"
      using ws(2) by (simp add: ws(1) takeWhile_append2)
    have "insert_wallet w ws = (if length as < length ws then take (length as) ws @ w # drop (length as) ws else ws @ [w])"
      using None False unfolding insert_wallet_def Let_def index by simp
    then have "insert_wallet w ws = as @ w # bs" by (simp add: ws(1))
    with False ws new show ?thesis by (intro list_okI [of _ "as @ [w]" bs]) auto
  qed
qed (simp add: insert_wallet_def)

lemma map_remove_nth: "map f (remove_nth k xs) = remove_nth k (map f xs)"
  by (simp add: remove_nth_def take_map drop_map)

lemma distinct_remove_nth: "distinct xs \<Longrightarrow> distinct (remove_nth k xs)"
  by (simp add: remove_nth_def distinct_take distinct_drop set_take_disj_set_drop_if_distinct)

lemma list_ok_remove: "list_ok ws \<Longrightarrow> list_ok (remove_nth k ws)"
proof -
  assume "list_ok ws"
  then obtain as bs where ws: "ws = as @ bs" "\<forall>w \<in> set as. \<not> isLegacy w" "\<forall>w \<in> set bs. isLegacy w" "distinct (map wallet_id ws)"
    by (rule list_okE)
  have "remove_nth k ws = (take k as @ drop (Suc k) as) @ (take (k - length as) bs @ drop (Suc k - length as) bs)"
    using ws(1) by (cases "k < length as") (simp_all add: remove_nth_def)
  moreover have "distinct (map wallet_id (remove_nth k ws))"
    unfolding map_remove_nth using ws(4) by (rule distinct_remove_nth)
  ultimately show ?thesis
    using ws(2,3)
    by (intro list_okI [of _ "take k as @ drop (Suc k) as" "take (k - length as) bs @ drop (Suc k - length as) bs"])
      (auto dest: in_set_takeD in_set_dropD)
qed

lemma all_result: "list_ok ws \<Longrightarrow> walletsResult s = Some ws \<Longrightarrow> all s = ws"
  by (simp add: all_def allWallets_def allLegacyWallets_def result_list_def list_ok_def)

text \<open>What the helpers leave alone.\<close>

lemma emit_frame [simp]:
  "walletsResult (emit x s) = walletsResult s" "walletsExecuted (emit x s) = walletsExecuted s"
  "walletsExecuting (emit x s) = walletsExecuting s" "active (emit x s) = active s"
  "pollingBlocked (emit x s) = pollingBlocked s" "isDeleting (emit x s) = isDeleting s"
  "storeConnected (emit x s) = storeConnected s" "wtasks (emit x s) = wtasks s"
  "restoreForm (emit x s) = restoreForm s" "currentRoute (emit x s) = currentRoute s"
  "hwConnections (emit x s) = hwConnections s" "weffects (emit x s) = weffects s @ [x]"
  by (simp_all add: emit_def)

lemma add_wtask_frame [simp]:
  "walletsResult (add_wtask t s) = walletsResult s" "walletsExecuted (add_wtask t s) = walletsExecuted s"
  "walletsExecuting (add_wtask t s) = walletsExecuting s" "active (add_wtask t s) = active s"
  "pollingBlocked (add_wtask t s) = pollingBlocked s" "isDeleting (add_wtask t s) = isDeleting s"
  "storeConnected (add_wtask t s) = storeConnected s" "wtasks (add_wtask t s) = wtasks s @ [t]"
  "restoreForm (add_wtask t s) = restoreForm s" "weffects (add_wtask t s) = weffects s"
  by (simp_all add: add_wtask_def)

lemma all_cong: "walletsResult s = walletsResult s' \<Longrightarrow> all s = all s'"
  by (simp add: all_def allWallets_def allLegacyWallets_def result_list_def)

text \<open>Everything but \<open>refreshed\<close>, the patches and the reset keeps the list, the pause and the tasks.\<close>

definition same_core :: "wallets_store \<Rightarrow> wallets_store \<Rightarrow> bool" where
  "same_core s s' \<longleftrightarrow> walletsResult s' = walletsResult s \<and> walletsExecuted s' = walletsExecuted s
     \<and> pollingBlocked s' = pollingBlocked s \<and> wtasks s' = wtasks s \<and> isDeleting s' = isDeleting s
     \<and> storeConnected s' = storeConnected s"

lemma same_core_refl [simp]: "same_core s s"
  by (simp add: same_core_def)

lemma same_core_trans: "same_core s s' \<Longrightarrow> same_core s' s'' \<Longrightarrow> same_core s s''"
  by (simp add: same_core_def)

lemma same_core_emit [simp]: "same_core s (emit x s') = same_core s s'"
  by (simp add: same_core_def)

lemma same_core_replaceActive: "same_core s (replaceActive new s)"
  by (auto simp: replaceActive_def Let_def same_core_def split: option.split)

lemma same_core_setActiveWallet: "same_core s (setActiveWallet i s)"
proof -
  have drop: "same_core s (if b then emit x s else s)" for b x by simp
  have "same_core s (replaceActive new (if b then emit x s else s))" for new b x
    by (rule same_core_trans [OF drop same_core_replaceActive])
  moreover have "same_core s ((if b then emit x s else s)\<lparr>active := new\<rparr>)" for new b x
    by (simp add: same_core_def)
  ultimately show ?thesis by (simp add: setActiveWallet_def Let_def)
qed

lemma same_core_unset: "same_core s (unsetActiveWallet s)"
  by (simp add: unsetActiveWallet_def same_core_def)

lemma same_core_goToActive: "same_core s (goToActive s)"
  by (simp add: goToActive_def goToWalletRoute_def split: option.split)

lemma same_core_goTo_set: "same_core s (goToActive (setActiveWallet i s))"
  by (rule same_core_trans [OF same_core_setActiveWallet same_core_goToActive])

lemma same_core_reaction: "same_core s (updateActiveWalletOnRouteChanges s)"
  by (simp add: updateActiveWalletOnRouteChanges_def same_core_unset same_core_setActiveWallet
      same_core_goToActive same_core_goTo_set split: route.split option.split)

lemma same_core_onRouteChange: "same_core s ((onRouteChange r s)\<lparr>currentRoute := r'\<rparr>)"
  by (simp add: onRouteChange_def same_core_def split: route.split)

lemma refreshWalletsData_frame [simp]:
  "walletsResult (refreshWalletsData s) = walletsResult s" "pollingBlocked (refreshWalletsData s) = pollingBlocked s"
  "restoreForm (refreshWalletsData s) = restoreForm s" "isDeleting (refreshWalletsData s) = isDeleting s"
  by (simp_all add: refreshWalletsData_def)

lemma refreshed_result: "walletsResult (refreshed ws s) = Some ws"
proof -
  let ?s2 = "emit RefreshLocalData (s\<lparr>walletsResult := Some ws, walletsExecuted := True, walletsExecuting := False\<rparr>)"
  have "walletsResult (case active ?s2 of None \<Rightarrow> ?s2 | Some a \<Rightarrow> setActiveWallet (wallet_id a) ?s2) = Some ws"
    using same_core_setActiveWallet [of ?s2] by (auto simp: same_core_def split: option.split)
  then show ?thesis by (simp add: refreshed_def Let_def)
qed

lemma callRestore_frame [simp]:
  "walletsResult (callRestore p s) = walletsResult s" "pollingBlocked (callRestore p s) = pollingBlocked s"
  "walletsExecuting (callRestore p s) = walletsExecuting s"
  by (simp_all add: callRestore_def Let_def)

lemma flowPaused_result [simp]: "walletsResult (flowPaused f s) = walletsResult s"
  by (auto simp: flowPaused_def Let_def deletePaused_def restore_def split: flow.split option.split)

lemma startFlow_result [simp]: "walletsResult (startFlow f s) = walletsResult s"
  by (simp add: startFlow_def)

lemma store_ok_patched:
  assumes "store_ok s" and "\<And>s'. walletsResult (f s') = walletsResult s'"
  shows "store_ok (patched w f s)"
  using assms list_ok_insert
  by (auto simp: patched_def store_ok_def patchWalletRequestWithNewWallet_def split: option.split)

lemma store_ok_deletePatched: "store_ok s \<Longrightarrow> store_ok (deletePatched i k s)"
  using list_ok_remove
  by (auto simp: deletePatched_def Let_def store_ok_def goToWalletRoute_def split: option.split)

lemma store_ok_answer:
  assumes "store_ok s" and "case a of WalletList ws \<Rightarrow> list_ok ws | _ \<Rightarrow> True"
  shows "store_ok (answer_wtask t a s)"
proof -
  have keep: "store_ok s'" if "walletsResult s' = walletsResult s" for s'
    using assms(1) that by (simp add: store_ok_def)
  show ?thesis
  proof (cases t)
    case RefreshCall
    then show ?thesis using assms refreshed_result by (cases a) (auto simp: answer_wtask_def store_ok_def)
  next
    case (DeletePatch i k)
    then show ?thesis using store_ok_deletePatched [OF assms(1)] by (simp add: answer_wtask_def)
  next
    case (RestoreEndPatch w)
    show ?thesis unfolding RestoreEndPatch answer_wtask_def wtask.case
      by (rule store_ok_patched [OF assms(1)]) (simp add: showNewWallet_def goToWalletRoute_def)
  next
    case (BackupPatch w)
    show ?thesis unfolding BackupPatch answer_wtask_def wtask.case
      by (rule store_ok_patched [OF assms(1)]) (simp add: showNewWallet_def goToWalletRoute_def)
  next
    case (ImportPatch w)
    show ?thesis unfolding ImportPatch answer_wtask_def wtask.case
      by (rule store_ok_patched [OF assms(1)]) (simp add: showNewWallet_def goToWalletRoute_def)
  next
    case (HardwarePatch w)
    show ?thesis unfolding HardwarePatch answer_wtask_def wtask.case
      by (rule store_ok_patched [OF assms(1)]) (simp add: showNewWallet_def goToWalletRoute_def resumePolling_def)
  qed (auto simp: answer_wtask_def flowFailed_def resumePolling_def restored_def receivedWallet_def orResume_def
      goToWalletRoute_def intro!: keep split: wanswer.split flow.split option.split)
qed

lemma store_ok_step:
  assumes "store_ok s" and "answer_ok e"
  shows "store_ok (wallets_step s e)"
proof -
  have keep: "store_ok s'" if "walletsResult s' = walletsResult s" for s'
    using assms(1) that by (simp add: store_ok_def)
  show ?thesis
  proof (cases e)
    case (WAnswer k a)
    have "store_ok (s\<lparr>wtasks := ts\<rparr>)" for ts by (rule keep) simp
    with WAnswer assms show ?thesis
      by (auto simp: wallets_step_def answer_ok_def intro!: store_ok_answer split: wanswer.splits)
  next
    case (RouteChanged r)
    with same_core_onRouteChange show ?thesis by (intro keep) (simp add: wallets_step_def same_core_def)
  next
    case Reaction
    with same_core_reaction show ?thesis by (intro keep) (simp add: wallets_step_def same_core_def)
  next
    case RestoreEnded
    then show ?thesis
      by (intro keep) (simp add: wallets_step_def restoreWalletEnd_def resumePolling_def Let_def split: option.split)
  next
    case ResetWallets
    then show ?thesis by (simp add: wallets_step_def resetWalletsData_def store_ok_def)
  qed (use assms in \<open>auto simp: wallets_step_def pollRefresh_def deleteWallet_def sendMoney_def intro!: keep split: option.split\<close>)
qed

interpretation wallets: guarded_machine wallets_step store_ok answer_ok
  by unfold_locales (rule store_ok_step)

definition new_WalletsStore :: wallets_store where
  "new_WalletsStore = \<lparr>walletsResult = None, walletsExecuted = False, walletsExecuting = False, active = None,
     activeValue = None, activePublicKey = None, icoPublicKey = None, pollingBlocked = False, isDeleting = False,
     isAddressFromSameWallet = False, restoreForm = empty_restore_form, generatingRewardsCsvInProgress = False,
     generatingRewardsCsvError = False, currentRoute = WalletsRoot, storeConnected = False, requestIds = [],
     hwConnections = Map.empty, wtasks = [], weffects = []\<rparr>"

lemma store_ok_new: "store_ok new_WalletsStore"
  by (simp add: store_ok_def new_WalletsStore_def)

section \<open>The answers of the backend\<close>

text \<open>What the backend promises of its lists: hexadecimal ids, each once, and legacy wallets only where they belong.\<close>

definition backend_ok :: "server_wallet list backend \<Rightarrow> bool" where
  "backend_ok backend \<longleftrightarrow>
     (\<forall>ws. backend getWallets_request = Inr ws \<longrightarrow> distinct (map sw_id ws) \<and> (\<forall>w \<in> set ws. list_all hex_char (sw_id w) \<and> \<not> sw_isLegacy w))
   \<and> (\<forall>ws. backend getLegacyWallets_request = Inr ws \<longrightarrow> distinct (map sw_id ws) \<and> (\<forall>w \<in> set ws. list_all hex_char (sw_id w)))"

definition app_id :: "server_wallet \<Rightarrow> string" where
  "app_id w = (if sw_isLegacy w then getLegacyWalletId (sw_id w) else sw_id w)"

lemma created_wallet:
  "createWalletFromServerData w = Inr v \<Longrightarrow> wallet_id v = app_id w \<and> isLegacy v = sw_isLegacy w"
  by (auto simp: createWalletFromServerData_def app_id_def Let_def split: if_splits option.splits)

lemma all_of_created:
  "all_of (map (\<lambda>w. createWalletFromServerData (f w)) ws) = Inr vs
     \<Longrightarrow> map wallet_id vs = map (\<lambda>w. app_id (f w)) ws \<and> map isLegacy vs = map (\<lambda>w. sw_isLegacy (f w)) ws"
proof (induction ws arbitrary: vs)
  case (Cons w ws)
  show ?case
  proof (cases "createWalletFromServerData (f w)")
    case (Inr v)
    with Cons.prems obtain vs' where "vs = v # vs'" "all_of (map (\<lambda>w. createWalletFromServerData (f w)) ws) = Inr vs'"
      by (cases "all_of (map (\<lambda>w. createWalletFromServerData (f w)) ws)") auto
    with Cons.IH created_wallet [OF Inr] show ?thesis by simp
  qed (use Cons.prems in simp)
qed simp

lemma getLegacyWalletId_inj: "getLegacyWalletId x = getLegacyWalletId y \<longleftrightarrow> x = y"
  by (simp add: getLegacyWalletId_def)

lemma catching_Inr: "catching h r = Inr x \<longleftrightarrow> r = Inr x"
  by (cases r) simp_all

lemma andThen_Inr: "andThen r f = Inr y \<longleftrightarrow> (\<exists>x. r = Inr x \<and> f x = Inr y)"
  by (cases r) simp_all

lemma map_split_append: "map f xs = as @ bs \<Longrightarrow> \<exists>us vs. xs = us @ vs \<and> map f us = as \<and> map f vs = bs"
  by (auto simp: map_eq_append_conv)

text \<open>A list that the API hands out is in order, and its ids are distinct, since the two kinds of id never meet.\<close>

lemma list_ok_getWallets:
  assumes "backend_ok backend" and "getWallets camel backend hw = Inr ws"
  shows "list_ok ws"
proof -
  from assms(2) obtain sws lws isHw where sws: "backend getWallets_request = Inr sws"
    and lws: "backend getLegacyWallets_request = Inr lws"
    and ws: "all_of (map (\<lambda>w. createWalletFromServerData (w\<lparr>sw_isHardwareWallet := isHw (sw_id w)\<rparr>))
               (sws @ map extraLegacyWalletProps lws)) = Inr ws"
    unfolding getWallets_def catching_Inr andThen_Inr by blast
  from assms(1) sws lws have ok: "distinct (map sw_id sws)" "\<forall>w \<in> set sws. list_all hex_char (sw_id w) \<and> \<not> sw_isLegacy w"
    "distinct (map sw_id lws)"
    by (auto simp: backend_ok_def)
  have ids: "map wallet_id ws = map sw_id sws @ map (\<lambda>w. getLegacyWalletId (sw_id w)) lws"
    and kinds: "map isLegacy ws = map (\<lambda>w. False) sws @ map (\<lambda>w. True) lws"
    using all_of_created [OF ws] ok(2) by (auto simp: app_id_def extraLegacyWalletProps_def o_def)
  from kinds obtain us vs where split: "ws = us @ vs" "map isLegacy us = map (\<lambda>w. False) sws" "map isLegacy vs = map (\<lambda>w. True) lws"
    using map_split_append by blast
  have us: "\<forall>w \<in> set us. \<not> isLegacy w"
    using split(2) by (metis (no_types, lifting) imageE image_eqI list.set_map)
  have vs: "\<forall>w \<in> set vs. isLegacy w"
    using split(3) by (metis (no_types, lifting) imageE image_eqI list.set_map)
  have legacy: "distinct (map (\<lambda>w. getLegacyWalletId (sw_id w)) lws)"
    using ok(3) by (simp add: distinct_map inj_on_def getLegacyWalletId_inj)
  have "sw_id w \<noteq> getLegacyWalletId i" if "w \<in> set sws" for i w
    using ok(2) that hex_not_legacy is_legacy_of_legacy by metis
  with ok(1) legacy have "distinct (map wallet_id ws)"
    unfolding ids by (auto simp: distinct_append)
  with split(1) us vs show ?thesis by (rule list_okI)
qed

section \<open>Deletion\<close>

lemma wallet_index_remove:
  assumes "distinct (map wallet_id ws)" and "w \<in> set ws"
  shows "remove_nth (wallet_index (wallet_id w) ws) ws = filter (\<lambda>v. wallet_id v \<noteq> wallet_id w) ws"
proof -
  from split_list [OF assms(2)] obtain as bs where ws: "ws = as @ w # bs" by blast
  have as: "\<forall>v \<in> set as. wallet_id v \<noteq> wallet_id w" and bs: "\<forall>v \<in> set bs. wallet_id v \<noteq> wallet_id w"
    using assms(1) by (auto simp: ws rev_image_eqI)
  from as have "wallet_index (wallet_id w) ws = length as"
    by (simp add: wallet_index_def ws takeWhile_append2)
  moreover from as bs have "filter (\<lambda>v. wallet_id v \<noteq> wallet_id w) as = as" "filter (\<lambda>v. wallet_id v \<noteq> wallet_id w) bs = bs"
    by (simp_all add: filter_id_conv)
  ultimately show ?thesis by (simp add: ws remove_nth_def)
qed

lemma wallet_index_less: "w \<in> set ws \<Longrightarrow> wallet_index (wallet_id w) ws < length ws"
  unfolding wallet_index_def by (metis (mono_tags, lifting) length_takeWhile_le nat_less_le set_takeWhileD takeWhile_eq_all_conv
      length_takeWhile_le takeWhile_eq_take take_all_iff order_refl)

lemma remove_nth_length_append [simp]: "remove_nth (length xs) (xs @ [x]) = xs"
  by (simp add: remove_nth_def)

lemma getWalletById_found:
  assumes "list_ok ws" and "walletsResult s = Some ws" and "w \<in> set ws"
  shows "getWalletById (wallet_id w) s = Some w"
proof -
  from assms(1) have "distinct (map wallet_id ws)" by (simp add: list_ok_def)
  then have "find (\<lambda>v. wallet_id v = wallet_id w) ws = Some w"
    using assms(3) by (induction ws) (auto simp: rev_image_eqI)
  then show ?thesis by (simp add: getWalletById_def all_result [OF assms(1,2)])
qed

lemma delete_answers:
  "answer_wtask (DeleteCall i k) Done s = add_wtask (DeletePatch i k) s"
  "answer_wtask (DeleteCall i k) (Failed b) s = s"
  "answer_wtask (DeletePatch i k) a s = deletePatched i k s"
  "answer_wtask (DeleteUnset i) Done s = refreshWalletsData (resumePolling s)"
  by (simp_all only: answer_wtask_def wtask.case wanswer.case)

lemma wallets_step_answer:
  "wtasks s = ts @ [t] \<Longrightarrow> wallets_step s (WAnswer (length ts) a) = answer_wtask t a (s\<lparr>wtasks := ts\<rparr>)"
  by (simp add: wallets_step_def)

text \<open>The wallet shown after a deletion.\<close>

definition after_deletion :: "string \<Rightarrow> wallet list \<Rightarrow> route" where
  "after_deletion i ws = (let rest = filter (\<lambda>v. wallet_id v \<noteq> i) ws
     in if rest = [] then AddRoute else WalletRoute (wallet_id (rest ! (wallet_index i ws - 1))) ''summary'')"

lemma deletePatched_present:
  assumes "list_ok ws" and "w \<in> set ws" and "walletsExecuted s" and "walletsResult s = Some ws"
  shows "let s' = deletePatched (wallet_id w) (wallet_index (wallet_id w) ws) s
    in walletsResult s' = Some (filter (\<lambda>v. wallet_id v \<noteq> wallet_id w) ws) \<and> \<not> isDeleting s'
     \<and> pollingBlocked s' = pollingBlocked s \<and> storeConnected s' = storeConnected s
     \<and> wtasks s' = wtasks s @ [DeleteUnset (wallet_id w)]
     \<and> weffects s' = weffects s @ [GoTo (after_deletion (wallet_id w) ws), CloseActiveDialog, UnsetWalletLocalData (wallet_id w)]"
proof -
  let ?i = "wallet_id w" and ?k = "wallet_index (wallet_id w) ws"
  let ?rest = "filter (\<lambda>v. wallet_id v \<noteq> ?i) ws"
  have removed: "remove_nth ?k ws = ?rest"
    using assms(1,2) by (intro wallet_index_remove) (simp_all add: list_ok_def)
  have len: "length ?rest = length ws - 1"
    using wallet_index_less [OF assms(2)] length_remove_nth [of ?k ws] by (simp add: removed)
  have rest_ok: "list_ok ?rest" using list_ok_remove [OF assms(1)] removed by metis
  let ?s1 = "s\<lparr>walletsResult := Some ?rest, isDeleting := False\<rparr>"
  have shown: "all ?s1 = ?rest" using rest_ok by (rule all_result) simp
  have has: "hasAnyWallets ?s1 \<longleftrightarrow> ?rest \<noteq> []"
    using assms(3) by (simp add: hasAnyWallets_def result_list_def)
  have next_ok: "?rest \<noteq> [] \<Longrightarrow> ?k - 1 < length ?rest"
    using wallet_index_less [OF assms(2)] len by (cases ?rest) auto
  show ?thesis
  proof (cases "?rest = []")
    case True
    then show ?thesis
      using has by (simp add: deletePatched_def assms(4) removed Let_def after_deletion_def)
  next
    case False
    with next_ok have "?k - 1 < length ?rest" by blast
    with False shown has show ?thesis
      by (simp add: deletePatched_def assms(4) removed Let_def after_deletion_def goToWalletRoute_def)
  qed
qed

text \<open>
  C27. A deletion removes the wallet and nothing else. When the backend confirms it, the list is the old one without
  that wallet, the one listed before it is shown, or the page to add one when none is left, its local data are
  removed, and the periodic refresh, paused meanwhile, runs again.
\<close>

theorem deletion_removes_one_wallet:
  assumes "store_ok s" and "walletsResult s = Some ws" and "walletsExecuted s" and "w \<in> set ws" and "\<not> walletsExecuting s"
  shows "let n = length (wtasks s);
             s' = run wallets_step s [DeleteRequested (wallet_id w) legacy, WAnswer n Done, WAnswer n Done, WAnswer n Done]
    in walletsResult s' = Some (filter (\<lambda>v. wallet_id v \<noteq> wallet_id w) ws)
     \<and> \<not> pollingBlocked s' \<and> \<not> isDeleting s'
     \<and> wtasks s' = wtasks s @ (if storeConnected s then [RefreshCall] else [])
     \<and> weffects s' = weffects s @ [GoTo (after_deletion (wallet_id w) ws), CloseActiveDialog, UnsetWalletLocalData (wallet_id w)]"
proof -
  let ?i = "wallet_id w" and ?n = "length (wtasks s)"
  let ?k = "wallet_index ?i ws"
  from assms(1,2) have ok: "list_ok ws" by (simp add: store_ok_def)
  let ?s0 = "s\<lparr>isDeleting := True, pollingBlocked := True\<rparr>"
  let ?s1 = "add_wtask (DeleteCall ?i ?k) ?s0"
  have r0: "walletsResult ?s0 = Some ws" using assms(2) by simp
  have s1: "wallets_step s (DeleteRequested ?i legacy) = ?s1"
    using assms(5) getWalletById_found [OF ok r0 assms(4)] all_result [OF ok r0]
    by (simp add: wallets_step_def deleteWallet_def startFlow_def flowPaused_def deletePaused_def)
  have s2: "wallets_step ?s1 (WAnswer ?n Done) = ?s0\<lparr>wtasks := wtasks s @ [DeletePatch ?i ?k]\<rparr>"
    by (subst wallets_step_answer [of _ "wtasks s" "DeleteCall ?i ?k"]) (simp_all add: delete_answers add_wtask_def)
  define s3 where "s3 = deletePatched ?i ?k ?s0"
  have s3: "wallets_step (?s0\<lparr>wtasks := wtasks s @ [DeletePatch ?i ?k]\<rparr>) (WAnswer ?n Done) = s3"
    by (subst wallets_step_answer [of _ "wtasks s" "DeletePatch ?i ?k"]) (simp_all add: delete_answers s3_def)
  have facts: "walletsResult s3 = Some (filter (\<lambda>v. wallet_id v \<noteq> ?i) ws)" "\<not> isDeleting s3"
    "storeConnected s3 = storeConnected s" "wtasks s3 = wtasks s @ [DeleteUnset ?i]"
    "weffects s3 = weffects s @ [GoTo (after_deletion ?i ws), CloseActiveDialog, UnsetWalletLocalData ?i]"
    unfolding s3_def using deletePatched_present [OF ok assms(4), of ?s0] assms(2,3) by (simp_all add: Let_def)
  have "wallets_step s3 (WAnswer ?n Done) = refreshWalletsData (resumePolling (s3\<lparr>wtasks := wtasks s\<rparr>))"
    by (subst wallets_step_answer [OF facts(4)]) (simp add: delete_answers)
  then have final: "run wallets_step s [DeleteRequested ?i legacy, WAnswer ?n Done, WAnswer ?n Done, WAnswer ?n Done]
      = refreshWalletsData (resumePolling (s3\<lparr>wtasks := wtasks s\<rparr>))"
    by (simp only: run.simps s1 s2 s3)
  show ?thesis
    unfolding Let_def final by (simp add: facts resumePolling_def refreshWalletsData_def add_wtask_def)
qed

definition sample_wallet :: "string \<Rightarrow> bool \<Rightarrow> wallet" where
  "sample_wallet i legacy = \<lparr>wallet_id = i, addressPoolGap = 20, wallet_name = ''name'', wallet_amount = 0,
     availableAmount = 0, reward = 0, availableAssets = [], totalAssets = [], passwordUpdateDate = None,
     hasPassword = True, syncState = \<lparr>sync_status = ''ready'', sync_quantity = None\<rparr>, isLegacy = legacy,
     isHardwareWallet = False, delegatedStakePoolId = None, delegationStakePoolStatus = None,
     lastDelegatedStakePoolId = None, lastDelegationStakePoolStatus = None, pendingDelegations = None,
     discovery = ''sequential''\<rparr>"

definition sample_store :: wallets_store where
  "sample_store = new_WalletsStore\<lparr>walletsResult := Some [sample_wallet ''a'' False, sample_wallet ''b'' False, sample_wallet ''c'' True],
     walletsExecuted := True, storeConnected := True\<rparr>"

lemma sample_store_simps [simp]:
  "walletsResult sample_store = Some [sample_wallet ''a'' False, sample_wallet ''b'' False, sample_wallet ''c'' True]"
  "walletsExecuted sample_store" "\<not> walletsExecuting sample_store" "wtasks sample_store = []" "weffects sample_store = []"
  "storeConnected sample_store" "wallet_id (sample_wallet i l) = i" "isLegacy (sample_wallet i l) = l"
  "store_ok sample_store"
  by (simp_all add: sample_store_def new_WalletsStore_def sample_wallet_def store_ok_def list_ok_def)

theorem deletion_removes_one_wallet_witness:
  "weffects (run wallets_step sample_store [DeleteRequested ''b'' False, WAnswer 0 Done, WAnswer 0 Done, WAnswer 0 Done])
     = [GoTo (WalletRoute ''a'' ''summary''), CloseActiveDialog, UnsetWalletLocalData ''b'']"
  using deletion_removes_one_wallet [of sample_store "[sample_wallet ''a'' False, sample_wallet ''b'' False, sample_wallet ''c'' True]"
      "sample_wallet ''b'' False" False]
  by (simp add: Let_def after_deletion_def wallet_index_def del: run.simps)

section \<open>A failed deletion\<close>

text \<open>The tasks and events after which the refresh may run again.\<close>

fun resuming :: "wtask \<Rightarrow> bool" where
  "resuming RefreshCall = False"
| "resuming (RestoreEndPatch w) = False"
| "resuming BackupCall = False"
| "resuming (BackupPatch w) = False"
| "resuming ImportCall = False"
| "resuming (ImportPatch w) = False"
| "resuming (SendCall i) = False"
| "resuming _ = True"

fun quiet :: "wevent \<Rightarrow> bool" where
  "quiet (DeleteRequested i l) = False"
| "quiet RestoreRequested = False"
| "quiet RestoreEnded = False"
| "quiet (HardwareRequested p) = False"
| "quiet CsvRequested = False"
| "quiet _ = True"

definition stuck :: "bool \<Rightarrow> wallets_store \<Rightarrow> bool" where
  "stuck b s \<longleftrightarrow> pollingBlocked s \<and> isDeleting s = b \<and> list_all (\<lambda>t. \<not> resuming t) (wtasks s)"

definition refreshes :: "wallets_store \<Rightarrow> nat" where
  "refreshes s = count_list (wtasks s) RefreshCall"

lemma refresh_blocked: "pollingBlocked s \<Longrightarrow> refreshWalletsData s = s"
  by (simp add: refreshWalletsData_def)

lemma showNewWallet_blocked: "pollingBlocked s \<Longrightarrow> showNewWallet w s = goToWalletRoute (wallet_id w) s"
  by (simp add: showNewWallet_def refresh_blocked goToWalletRoute_def)

definition waits_no_more :: "wallets_store \<Rightarrow> wallets_store \<Rightarrow> bool" where
  "waits_no_more s s' \<longleftrightarrow> pollingBlocked s' = pollingBlocked s \<and> isDeleting s' = isDeleting s
     \<and> (\<exists>ts. wtasks s' = wtasks s @ ts \<and> list_all (\<lambda>t. \<not> resuming t \<and> t \<noteq> RefreshCall) ts)"

lemma waits_same: "same_core s s' \<Longrightarrow> waits_no_more s s'"
  by (simp add: waits_no_more_def same_core_def)

lemma waits_stuck:
  "waits_no_more s s' \<Longrightarrow> stuck b s \<Longrightarrow> stuck b s' \<and> refreshes s' = refreshes s"
  by (auto simp: waits_no_more_def stuck_def refreshes_def list_all_iff count_list_0_iff)

lemma stuck_remove:
  assumes "stuck b s"
  shows "stuck b (s\<lparr>wtasks := remove_nth k (wtasks s)\<rparr>) \<and> refreshes (s\<lparr>wtasks := remove_nth k (wtasks s)\<rparr>) \<le> refreshes s"
proof -
  have "count_list (remove_nth k xs) x \<le> count_list xs x" for xs :: "wtask list" and x
  proof (cases "k < length xs")
    case True
    have "count_list (take k xs @ xs ! k # drop (Suc k) xs) x \<ge> count_list (remove_nth k xs) x"
      by (simp add: remove_nth_def)
    with id_take_nth_drop [OF True] show ?thesis by simp
  qed (simp add: remove_nth_def)
  then show ?thesis using assms
    by (auto simp: stuck_def refreshes_def list_all_iff remove_nth_def dest: in_set_takeD in_set_dropD)
qed

lemma same_core_refreshed: "same_core (s\<lparr>walletsResult := Some ws, walletsExecuted := True\<rparr>) (refreshed ws s)"
proof -
  let ?s2 = "emit RefreshLocalData (s\<lparr>walletsResult := Some ws, walletsExecuted := True, walletsExecuting := False\<rparr>)"
  let ?s3 = "case active ?s2 of None \<Rightarrow> ?s2 | Some a \<Rightarrow> setActiveWallet (wallet_id a) ?s2"
  have "same_core ?s2 ?s3" by (auto simp: same_core_setActiveWallet split: option.split)
  then show ?thesis by (simp add: refreshed_def Let_def same_core_def)
qed

lemma waits_refreshed: "waits_no_more s (refreshed ws s)"
  using same_core_refreshed [of ws s] by (simp add: same_core_def waits_no_more_def)

lemma waits_patched:
  "pollingBlocked s \<Longrightarrow> (\<And>s'. pollingBlocked s' \<Longrightarrow> same_core s' (f s')) \<Longrightarrow> waits_no_more s (patched w f s)"
  by (auto simp: patched_def patchWalletRequestWithNewWallet_def waits_no_more_def same_core_def)

lemma waits_answer:
  assumes "pollingBlocked s" and "\<not> resuming t"
  shows "waits_no_more s (answer_wtask t a s)"
proof (cases t)
  case RefreshCall
  then show ?thesis using waits_refreshed by (cases a) (auto simp: answer_wtask_def waits_no_more_def)
next
  case (RestoreEndPatch w)
  with assms(1) show ?thesis
    by (auto simp: answer_wtask_def showNewWallet_blocked goToWalletRoute_def same_core_def intro!: waits_patched)
next
  case (BackupPatch w)
  with assms(1) show ?thesis
    by (auto simp: answer_wtask_def showNewWallet_blocked goToWalletRoute_def same_core_def intro!: waits_patched)
next
  case (ImportPatch w)
  with assms(1) show ?thesis
    by (auto simp: answer_wtask_def showNewWallet_blocked goToWalletRoute_def same_core_def intro!: waits_patched)
next
  case (SendCall i)
  with assms(1) show ?thesis
    by (cases a) (simp_all add: answer_wtask_def refresh_blocked goToWalletRoute_def waits_no_more_def)
qed (use assms(2) in \<open>auto simp: answer_wtask_def receivedWallet_def waits_no_more_def split: wanswer.split option.split\<close>)

lemma stuck_step:
  assumes "stuck b s" and "quiet e"
  shows "stuck b (wallets_step s e) \<and> refreshes (wallets_step s e) \<le> refreshes s"
proof -
  have keep: "waits_no_more s s' \<Longrightarrow> stuck b s' \<and> refreshes s' \<le> refreshes s" for s'
    using waits_stuck [OF _ assms(1)] by simp
  have blocked: "pollingBlocked s" using assms(1) by (simp add: stuck_def)
  show ?thesis
  proof (cases e)
    case (WAnswer k a)
    show ?thesis
    proof (cases "k < length (wtasks s)")
      case True
      let ?s = "s\<lparr>wtasks := remove_nth k (wtasks s)\<rparr>"
      from True assms(1) have "\<not> resuming (wtasks s ! k)" by (simp add: stuck_def list_all_length)
      with blocked have "waits_no_more ?s (answer_wtask (wtasks s ! k) a ?s)" by (intro waits_answer) simp_all
      with stuck_remove [OF assms(1), of k] waits_stuck [of ?s] have
        "stuck b (answer_wtask (wtasks s ! k) a ?s) \<and> refreshes (answer_wtask (wtasks s ! k) a ?s) \<le> refreshes s"
        by fastforce
      with WAnswer True show ?thesis by (simp add: wallets_step_def)
    qed (use WAnswer assms in \<open>simp add: wallets_step_def\<close>)
  next
    case (RouteChanged r)
    with waits_same [OF same_core_onRouteChange] show ?thesis by (intro keep) (simp add: wallets_step_def)
  next
    case Reaction
    with waits_same [OF same_core_reaction] show ?thesis by (intro keep) (simp add: wallets_step_def)
  qed (use assms blocked in \<open>auto simp: wallets_step_def pollRefresh_def refresh_blocked resetWalletsData_def
        sendMoney_def waits_no_more_def intro!: keep split: option.split\<close>)
qed

interpretation blocked: counted_machine wallets_step "stuck b" quiet refreshes "\<lambda>_. 0" for b
  by unfold_locales (simp_all add: stuck_step)

text \<open>
  C26. A deletion that fails, or that finds no such wallet, is never cleaned up. From then on, until
  another deletion, restoration, hardware wallet or export is started, no refresh is ever issued again,
  whether by the timer or on demand; after a rejection the store moreover still claims to be deleting.
\<close>

theorem failed_deletion_blocks_refresh:
  assumes "list_all (\<lambda>t. \<not> resuming t \<and> t \<noteq> RefreshCall) (wtasks s)" and "\<not> walletsExecuting s" and "list_all quiet es"
  shows "let n = length (wtasks s);
             s' = run wallets_step s ([DeleteRequested i legacy, WAnswer n (Failed False)] @ es)
         in pollingBlocked s' \<and> RefreshCall \<notin> set (wtasks s') \<and> (isDeleting s' \<longleftrightarrow> getWalletById i s \<noteq> None)"
proof -
  let ?n = "length (wtasks s)" and ?b = "getWalletById i s \<noteq> None"
  let ?s = "s\<lparr>isDeleting := ?b, pollingBlocked := True\<rparr>"
  have found: "getWalletById i (s\<lparr>isDeleting := True, pollingBlocked := True\<rparr>) = getWalletById i s"
    unfolding getWalletById_def by (subst all_cong [of _ s]) simp_all
  have stuck: "stuck ?b (run wallets_step s [DeleteRequested i legacy, WAnswer ?n (Failed False)])
      \<and> refreshes (run wallets_step s [DeleteRequested i legacy, WAnswer ?n (Failed False)]) = 0"
  proof (cases "getWalletById i s")
    case None
    with assms(2) found have "wallets_step s (DeleteRequested i legacy) = ?s"
      by (simp add: wallets_step_def deleteWallet_def startFlow_def flowPaused_def deletePaused_def)
    moreover have "wallets_step ?s (WAnswer ?n (Failed False)) = ?s" by (simp add: wallets_step_def)
    ultimately show ?thesis
      using assms(1) by (auto simp: stuck_def refreshes_def list_all_iff count_list_0_iff)
  next
    case (Some w)
    let ?t = "DeleteCall i (wallet_index i (all ?s))"
    from Some assms(2) found have one: "wallets_step s (DeleteRequested i legacy) = add_wtask ?t ?s"
      by (simp add: wallets_step_def deleteWallet_def startFlow_def flowPaused_def deletePaused_def Let_def)
    have two: "wallets_step (add_wtask ?t ?s) (WAnswer ?n (Failed False)) = ?s"
      by (subst wallets_step_answer [of _ "wtasks s" ?t]) (simp_all add: delete_answers add_wtask_def)
    have "run wallets_step s [DeleteRequested i legacy, WAnswer ?n (Failed False)] = ?s"
      by (simp only: run.simps one two)
    then show ?thesis
      using assms(1) by (auto simp: stuck_def refreshes_def list_all_iff count_list_0_iff)
  qed
  let ?s' = "run wallets_step s ([DeleteRequested i legacy, WAnswer ?n (Failed False)] @ es)"
  have "refreshes ?s' \<le> 0 + sum_list (map (\<lambda>_. 0) es)" "stuck ?b ?s'"
    unfolding run_append
    using blocked.run_weight [of ?b _ es] blocked.run_inv [of ?b _ es] stuck assms(3) by fastforce+
  then show ?thesis by (simp add: Let_def stuck_def refreshes_def count_list_0_iff)
qed

theorem failed_deletion_blocks_refresh_witness:
  "RefreshCall \<notin> set (wtasks (run wallets_step sample_store
     [DeleteRequested ''b'' False, WAnswer 0 (Failed False), PollRefresh, RefreshRequested, PollRefresh]))"
  using failed_deletion_blocks_refresh [of sample_store "[PollRefresh, RefreshRequested, PollRefresh]" "''b''" False]
  by (simp add: Let_def del: run.simps)

section \<open>Properties of the list\<close>

text \<open>Every list that arrives is what the API made of some answers of the backend.\<close>

definition from_backend :: "cases \<Rightarrow> wevent \<Rightarrow> bool" where
  "from_backend camel e \<longleftrightarrow> (\<forall>k ws. e = WAnswer k (WalletList ws)
     \<longrightarrow> (\<exists>backend hw. backend_ok backend \<and> getWallets camel backend hw = Inr ws))"

lemma from_backend_ok: "from_backend camel e \<Longrightarrow> answer_ok e"
  using list_ok_getWallets by (auto simp: from_backend_def answer_ok_def split: wevent.split wanswer.split)

text \<open>
  C20. The list of wallets stays in order. In every run in which the lists that arrive are what the API
  makes of the backend's answers, the store lists the wallets of the current kind first and the legacy ones
  after them, which is the order of the stored list itself, and no id occurs twice: neither the insertion
  of new wallets nor deletions break it.
\<close>

theorem wallets_stay_in_order:
  assumes "list_all (from_backend camel) es" and "walletsResult (run wallets_step new_WalletsStore es) = Some ws"
  shows "all (run wallets_step new_WalletsStore es) = ws \<and> distinct (map wallet_id ws)
     \<and> sorted (map isLegacy ws)"
proof -
  from assms(1) have "list_all answer_ok es" by (auto simp: list_all_iff dest: from_backend_ok)
  with store_ok_new have "store_ok (run wallets_step new_WalletsStore es)" by (rule wallets.run_inv)
  with assms(2) have ok: "list_ok ws" by (simp add: store_ok_def)
  then obtain as bs where ws: "ws = as @ bs" "\<forall>w \<in> set as. \<not> isLegacy w" "\<forall>w \<in> set bs. isLegacy w"
    by (rule list_okE)
  from ws(2) have "sorted (map isLegacy as)" by (induction as) auto
  moreover from ws(3) have "sorted (map isLegacy bs)" by (induction bs) auto
  ultimately have "sorted (map isLegacy ws)" using ws by (auto simp: sorted_append)
  with ok all_result [OF ok assms(2)] show ?thesis by (simp add: list_ok_def)
qed

definition sample_backend :: "server_wallet list backend" where
  "sample_backend r = (if r = getWallets_request then Inr [sample_server_wallet False] else Inr [])"

lemma sample_backend_ok: "backend_ok sample_backend"
  by (auto simp: backend_ok_def sample_backend_def getWallets_request_def getLegacyWallets_request_def http_def
      sample_server_wallet_def hex_char_def wallets_path_def cole_path_def)

theorem wallets_stay_in_order_witness:
  "\<exists>ws. walletsResult (run wallets_step new_WalletsStore [ConnectionChanged True, RefreshRequested, WAnswer 0 (WalletList ws),
        ImportRequested, WAnswer 0 (NewWallet (Some (sample_wallet ''c'' True))), WAnswer 0 Done])
      = Some (ws @ [sample_wallet ''c'' True])
    \<and> distinct (map wallet_id (ws @ [sample_wallet ''c'' True]))"
proof -
  obtain v where v: "createWalletFromServerData (sample_server_wallet False) = Inr v" "wallet_id v = ''2512a00e''"
    by (auto simp: createWalletFromServerData_def sample_server_wallet_def Let_def)
  have "\<exists>hw. getWallets id sample_backend hw = Inr [v]"
    using v(1) by (intro exI [of _ "Inr (\<lambda>_. False)"])
      (simp add: getWallets_def sample_backend_def getWallets_request_def getLegacyWallets_request_def http_def
        wallets_path_def cole_path_def sample_server_wallet_def)
  then have "list_all (from_backend id) [ConnectionChanged True, RefreshRequested, WAnswer 0 (WalletList [v]),
      ImportRequested, WAnswer 0 (NewWallet (Some (sample_wallet ''c'' True))), WAnswer 0 Done]"
    using sample_backend_ok by (auto simp: from_backend_def)
  moreover have "walletsResult (run wallets_step new_WalletsStore [ConnectionChanged True, RefreshRequested, WAnswer 0 (WalletList [v]),
      ImportRequested, WAnswer 0 (NewWallet (Some (sample_wallet ''c'' True))), WAnswer 0 Done]) = Some ([v] @ [sample_wallet ''c'' True])"
    using v(2) by (simp add: wallets_step_def new_WalletsStore_def refreshWalletsData_def add_wtask_def answer_wtask_def refreshed_def
        emit_def receivedWallet_def patched_def patchWalletRequestWithNewWallet_def insert_wallet_def showNewWallet_def
        goToWalletRoute_def Let_def remove_nth_def)
  ultimately show ?thesis using wallets_stay_in_order by blast
qed

section \<open>Hardware wallets\<close>

text \<open>
  A new hardware wallet is listed and shown, but the refresh issued for it does nothing: it
  comes before the pause ends. The list stays without the data of the new wallet until the next tick of the timer.
\<close>

theorem hardware_wallet_is_not_refreshed:
  assumes "\<not> walletsExecuting s" and "walletsResult s = Some ws"
  shows "let n = length (wtasks s);
             s' = run wallets_step s [HardwareRequested p, WAnswer n (NewWallet (Some w)), WAnswer n Done, WAnswer n Done, WAnswer n Done]
         in walletsResult s' = Some (insert_wallet w ws) \<and> \<not> pollingBlocked s' \<and> wtasks s' = wtasks s
          \<and> weffects s' = weffects s @ [GoTo (WalletRoute (wallet_id w) ''summary''), CloseActiveDialog]"
proof -
  let ?n = "length (wtasks s)"
  let ?s = "s\<lparr>pollingBlocked := True\<rparr>"
  have 1: "wallets_step s (HardwareRequested p) = add_wtask (HardwareCall p) ?s"
    using assms(1) by (simp add: wallets_step_def startFlow_def flowPaused_def)
  have 2: "wallets_step (add_wtask (HardwareCall p) ?s) (WAnswer ?n (NewWallet (Some w))) = add_wtask (HardwareLocal w) ?s"
    by (subst wallets_step_answer [of _ "wtasks s" "HardwareCall p"]) (simp_all add: answer_wtask_def add_wtask_def)
  have 3: "wallets_step (add_wtask (HardwareLocal w) ?s) (WAnswer ?n Done) = add_wtask (HardwareDevice w) ?s"
    by (subst wallets_step_answer [of _ "wtasks s" "HardwareLocal w"]) (simp_all add: answer_wtask_def add_wtask_def orResume_def)
  have 4: "wallets_step (add_wtask (HardwareDevice w) ?s) (WAnswer ?n Done) = add_wtask (HardwarePatch w) ?s"
    by (subst wallets_step_answer [of _ "wtasks s" "HardwareDevice w"]) (simp_all add: answer_wtask_def add_wtask_def orResume_def)
  have 5: "wallets_step (add_wtask (HardwarePatch w) ?s) (WAnswer ?n Done)
      = patched w (\<lambda>s'. resumePolling (emit CloseActiveDialog (showNewWallet w s'))) ?s"
    by (subst wallets_step_answer [of _ "wtasks s" "HardwarePatch w"]) (simp_all add: answer_wtask_def add_wtask_def)
  have final: "run wallets_step s [HardwareRequested p, WAnswer ?n (NewWallet (Some w)), WAnswer ?n Done, WAnswer ?n Done, WAnswer ?n Done]
      = patched w (\<lambda>s'. resumePolling (emit CloseActiveDialog (showNewWallet w s'))) ?s"
    by (simp only: run.simps 1 2 3 4 5)
  show ?thesis
    unfolding Let_def final using assms(2)
    by (simp add: patched_def patchWalletRequestWithNewWallet_def showNewWallet_blocked goToWalletRoute_def resumePolling_def)
qed

theorem hardware_wallet_is_not_refreshed_witness:
  "wtasks (run wallets_step sample_store [HardwareRequested \<lparr>hw_walletName = ''h'', hw_publicKeyHex = ''00'', hw_chainCodeHex = ''00'', hw_deviceId = ''d''\<rparr>,
     WAnswer 0 (NewWallet (Some (sample_wallet ''h'' False))), WAnswer 0 Done, WAnswer 0 Done, WAnswer 0 Done]) = []"
  using hardware_wallet_is_not_refreshed [of sample_store _ "\<lparr>hw_walletName = ''h'', hw_publicKeyHex = ''00'', hw_chainCodeHex = ''00'', hw_deviceId = ''d''\<rparr>"
      "sample_wallet ''h'' False"]
  by (simp add: Let_def del: run.simps)
end
