(* ===== verification/WalletDialogs.thy ===== *)
theory WalletDialogs imports Wallets Texts begin

text \<open>
  The dialogs of the wallets store, \<open>stores/WalletsStore.js\<close>, and the backup dialog, \<open>stores/WalletBackupStore.js\<close>:
  the steps of the creation dialog, the transfer of all funds of a legacy wallet, the paper wallet certificate with its
  temporary wallet, the check of a receiver's address, and the recovery phrase that a user has to write down and repeat.
\<close>

section \<open>The creation dialog\<close>

record create_dialog =
  createWalletStep :: "int option"
  createWalletShowAbortConfirmation :: bool

definition createWalletBegin :: "create_dialog \<Rightarrow> create_dialog" where
  "createWalletBegin d = d\<lparr>createWalletStep := Some 0, createWalletShowAbortConfirmation := False\<rparr>"

definition createWalletChangeStep :: "bool \<Rightarrow> create_dialog \<Rightarrow> create_dialog" where
  "createWalletChangeStep isBack d =
     (let current = (case createWalletStep d of None \<Rightarrow> 0 | Some n \<Rightarrow> n)
      in d\<lparr>createWalletStep := Some (if isBack then current - 1 else current + 1), createWalletShowAbortConfirmation := False\<rparr>)"

definition createWalletClose :: "create_dialog \<Rightarrow> create_dialog" where
  "createWalletClose d = d\<lparr>createWalletStep := None, createWalletShowAbortConfirmation := False\<rparr>"

definition createWalletAbort :: "create_dialog \<Rightarrow> create_dialog" where
  "createWalletAbort d = d\<lparr>createWalletShowAbortConfirmation := True\<rparr>"

section \<open>Transferring funds\<close>

text \<open>
  A fee is calculated by itself or on the way to the second step; the transfer asks for unused
  addresses of the target first. Every wait is a task.
\<close>

datatype transfer_task =
    FeeCall bool                       \<comment> \<open>whether the next step follows\<close>
  | TargetAddresses string string      \<comment> \<open>source and password\<close>
  | TransferCall string                \<comment> \<open>source\<close>

datatype transfer_effect =
    CalculateFee string
  | GetUnusedAddresses string
  | TransferRequest string "string list option" string
  | TransferRefresh
  | TransferShown string

record transfer =
  transferFundsSourceWalletId :: string
  transferFundsTargetWalletId :: string
  transferFundsStep :: nat
  transferFundsFee :: "rat option"
  transferFundsLeftovers :: "rat option"
  transfer_tasks :: "transfer_task list"
  transfer_effects :: "transfer_effect list"

definition transfer_emit :: "transfer_effect \<Rightarrow> transfer \<Rightarrow> transfer" where
  "transfer_emit x t = t\<lparr>transfer_effects := transfer_effects t @ [x]\<rparr>"

definition add_transfer_task :: "transfer_task \<Rightarrow> transfer \<Rightarrow> transfer" where
  "add_transfer_task x t = t\<lparr>transfer_tasks := transfer_tasks t @ [x]\<rparr>"

definition transferFundsCalculateFee :: "string \<Rightarrow> bool \<Rightarrow> transfer \<Rightarrow> transfer" where
  "transferFundsCalculateFee sourceWalletId next t =
     add_transfer_task (FeeCall next) (transfer_emit (CalculateFee sourceWalletId) t)"

definition transferFundsNextStep :: "transfer \<Rightarrow> transfer" where
  "transferFundsNextStep t =
     (if transferFundsStep t = 1 \<and> transferFundsSourceWalletId t \<noteq> [] \<and> transferFundsTargetWalletId t \<noteq> []
      then transferFundsCalculateFee (transferFundsSourceWalletId t) True t
      else t\<lparr>transferFundsStep := (if transferFundsStep t = 0 \<and> transferFundsSourceWalletId t \<noteq> [] then 1 else 0)\<rparr>)"

definition transferFundsPrevStep :: "transfer \<Rightarrow> transfer" where
  "transferFundsPrevStep t = t\<lparr>transferFundsStep := (if transferFundsStep t > 0 then transferFundsStep t - 1 else 0)\<rparr>"

definition transferFundsSetSourceWalletId :: "string \<Rightarrow> wallet list \<Rightarrow> transfer \<Rightarrow> transfer" where
  "transferFundsSetSourceWalletId sourceWalletId wallets t =
     t\<lparr>transferFundsSourceWalletId := sourceWalletId,
       transferFundsTargetWalletId := (case wallets of [] \<Rightarrow> [] | w # ws \<Rightarrow> wallet_id w),
       transferFundsStep := 1\<rparr>"

definition transferFundsSetTargetWalletId :: "string \<Rightarrow> transfer \<Rightarrow> transfer" where
  "transferFundsSetTargetWalletId targetWalletId t = t\<lparr>transferFundsTargetWalletId := targetWalletId\<rparr>"

definition transferFundsRedeem :: "transfer \<Rightarrow> transfer" where
  "transferFundsRedeem t = t\<lparr>transferFundsStep := 0\<rparr>"

definition transferFundsClose :: "transfer \<Rightarrow> transfer" where
  "transferFundsClose t = t\<lparr>transferFundsStep := 0, transferFundsFee := None\<rparr>"

definition MAX_TARGET_ADDRESSES :: nat where "MAX_TARGET_ADDRESSES = 20"

definition transferFunds :: "string \<Rightarrow> transfer \<Rightarrow> transfer" where
  "transferFunds password t =
     add_transfer_task (TargetAddresses (transferFundsSourceWalletId t) password)
       (transfer_emit (GetUnusedAddresses (transferFundsTargetWalletId t)) t)"

datatype transfer_answer = TFailed | TFee rat rat | TAddresses "string list option" | TDone

definition answer_transfer :: "transfer_task \<Rightarrow> transfer_answer \<Rightarrow> transfer \<Rightarrow> transfer" where
  "answer_transfer x a t = (case x of
       FeeCall next \<Rightarrow> (case a of
           TFee fee leftovers \<Rightarrow>
             (let t1 = t\<lparr>transferFundsFee := Some fee, transferFundsLeftovers := Some leftovers\<rparr>
              in if next then t1\<lparr>transferFundsStep := 2\<rparr> else t1)
         | _ \<Rightarrow> t)
     | TargetAddresses source p \<Rightarrow> (case a of
           TAddresses r \<Rightarrow> add_transfer_task (TransferCall source)
             (transfer_emit (TransferRequest source (map_option (take MAX_TARGET_ADDRESSES) r) p) t)
         | _ \<Rightarrow> t)
     | TransferCall source \<Rightarrow> (case a of
           TDone \<Rightarrow> transfer_emit (TransferShown source) (transferFundsClose (transfer_emit TransferRefresh t))
         | _ \<Rightarrow> t))"

datatype transfer_event =
    NextStep | PrevStep
  | SetSource string "wallet list"     \<comment> \<open>with the wallets listed at that time\<close>
  | SetTarget string
  | Redeem | CloseTransfer
  | FeeRequested string
  | TransferConfirmed string
  | TransferAnswer nat transfer_answer

definition transfer_step :: "transfer \<Rightarrow> transfer_event \<Rightarrow> transfer" where
  "transfer_step t e = (case e of
       NextStep \<Rightarrow> transferFundsNextStep t
     | PrevStep \<Rightarrow> transferFundsPrevStep t
     | SetSource i ws \<Rightarrow> transferFundsSetSourceWalletId i ws t
     | SetTarget i \<Rightarrow> transferFundsSetTargetWalletId i t
     | Redeem \<Rightarrow> transferFundsRedeem t
     | CloseTransfer \<Rightarrow> transferFundsClose t
     | FeeRequested i \<Rightarrow> transferFundsCalculateFee i False t
     | TransferConfirmed p \<Rightarrow> transferFunds p t
     | TransferAnswer k a \<Rightarrow> (if k < length (transfer_tasks t)
         then answer_transfer (transfer_tasks t ! k) a (t\<lparr>transfer_tasks := remove_nth k (transfer_tasks t)\<rparr>) else t))"

definition new_transfer :: transfer where
  "new_transfer = \<lparr>transferFundsSourceWalletId = [], transferFundsTargetWalletId = [], transferFundsStep = 0,
     transferFundsFee = None, transferFundsLeftovers = None, transfer_tasks = [], transfer_effects = []\<rparr>"

section \<open>The paper wallet certificate\<close>

text \<open>
  One generation, from its first request to the saved file, against an environment that says how each
  request ends; None is a rejection. The key derivation is a parameter. The calls made to the
  backend are logged in order.
\<close>

datatype file_error = OpenFile | OtherError

record cert_env =
  env_phrase :: "string list option"
  env_words :: "string list option"
  env_scramble :: "string \<Rightarrow> string \<Rightarrow> string list option"
  env_create :: "string \<Rightarrow> string \<Rightarrow> wallet option option"
  env_addresses :: "string \<Rightarrow> string list option"
  env_delete :: "string \<Rightarrow> bool"
  env_pdf :: "file_error option"         \<comment> \<open>None: the file is written\<close>

datatype cert_request = CreateTemporary string | GetAddresses string | DeleteTemporary string bool | SavePdf "string option" "string list"

record certificate =
  generatingCertificateInProgress :: bool
  generatingCertificateError :: bool     \<comment> \<open>\<open>WalletPaperWalletOpenPdfError\<close>\<close>
  certificateStep :: "int option"
  certificateTemplate :: "string option"
  additionalMnemonicWords :: "string option"
  walletCertificatePassword :: "string option"
  walletCertificateAddress :: "string option"
  walletCertificateRecoveryPhrase :: "string option"
  certPollingBlocked :: bool
  cert_calls :: "cert_request list"

definition updateGeneratingCertificateError :: "file_error option \<Rightarrow> certificate \<Rightarrow> certificate" where
  "updateGeneratingCertificateError e c = c\<lparr>generatingCertificateError := (e = Some OpenFile)\<rparr>"

definition updateCertificateCreationState :: "bool \<Rightarrow> file_error option \<Rightarrow> certificate \<Rightarrow> certificate" where
  "updateCertificateCreationState b e c = updateGeneratingCertificateError e (c\<lparr>generatingCertificateInProgress := b\<rparr>)"

definition updateCertificateStep :: "bool \<Rightarrow> certificate \<Rightarrow> certificate" where
  "updateCertificateStep isBack c =
     (let c1 = updateGeneratingCertificateError None c;
          current = (case certificateStep c1 of None \<Rightarrow> 0 | Some n \<Rightarrow> n)
      in c1\<lparr>certificateStep := Some (if isBack then current - 1 else current + 1)\<rparr>)"

definition setCertificateTemplate :: "string \<Rightarrow> certificate \<Rightarrow> certificate" where
  "setCertificateTemplate t c = updateCertificateStep False (c\<lparr>certificateTemplate := Some t\<rparr>)"

definition resetCertificateData :: "certificate \<Rightarrow> certificate" where
  "resetCertificateData c = updateGeneratingCertificateError None
     (c\<lparr>walletCertificatePassword := None, walletCertificateAddress := None, walletCertificateRecoveryPhrase := None,
        generatingCertificateInProgress := False, certificateTemplate := None, certificateStep := None\<rparr>)"

definition finishCertificate :: "certificate \<Rightarrow> certificate" where
  "finishCertificate c = resetCertificateData (updateGeneratingCertificateError None c)"

definition cert_call :: "cert_request \<Rightarrow> certificate \<Rightarrow> certificate" where
  "cert_call x c = c\<lparr>cert_calls := cert_calls c @ [x]\<rparr>"

definition downloadCertificate :: "cert_env \<Rightarrow> string option \<Rightarrow> string list \<Rightarrow> certificate \<Rightarrow> certificate" where
  "downloadCertificate env address phrase c =
     (let c1 = cert_call (SavePdf address phrase) c
      in case env_pdf env of
           None \<Rightarrow> updateCertificateStep False (updateCertificateCreationState False None c1)
         | Some e \<Rightarrow> updateCertificateCreationState False (Some e) c1)"

text \<open>The part after the temporary wallet has been created; an absent wallet has no address.\<close>

definition certificate_of_wallet :: "cert_env \<Rightarrow> string list \<Rightarrow> wallet option \<Rightarrow> certificate \<Rightarrow> certificate" where
  "certificate_of_wallet env scrambled w c = (case w of
       None \<Rightarrow> downloadCertificate env None scrambled (c\<lparr>walletCertificateAddress := None\<rparr>)
     | Some v \<Rightarrow>
         (let c1 = cert_call (GetAddresses (wallet_id v)) c
          in case env_addresses env (wallet_id v) of
               None \<Rightarrow> c1
             | Some as \<Rightarrow>
                 (let c2 = cert_call (DeleteTemporary (wallet_id v) (isLegacy v)) c1;
                      address = (case as of [] \<Rightarrow> None | x # xs \<Rightarrow> Some x)
                  in if env_delete env (wallet_id v)
                     then downloadCertificate env address scrambled (c2\<lparr>walletCertificateAddress := address\<rparr>)
                     else c2)))"

definition joined :: "string list \<Rightarrow> string" where
  "joined ws = join_with '' '' ws"

definition generateCertificate :: "(string \<Rightarrow> string) \<Rightarrow> cert_env \<Rightarrow> certificate \<Rightarrow> certificate" where
  "generateCertificate mnemonicToSeedHex env c =
     (let c1 = updateCertificateCreationState True None (c\<lparr>certPollingBlocked := True\<rparr>);
          body = (case env_phrase env of
              None \<Rightarrow> c1
            | Some phrase \<Rightarrow> (case env_words env of
                None \<Rightarrow> c1
              | Some ws \<Rightarrow>
                  (let password = mnemonicToSeedHex (joined ws);
                       c2 = c1\<lparr>additionalMnemonicWords := Some (joined ws), walletCertificatePassword := Some password\<rparr>
                   in case env_scramble env password (joined phrase) of
                        None \<Rightarrow> c2
                      | Some scrambled \<Rightarrow>
                          (let c3 = cert_call (CreateTemporary (joined phrase))
                                      (c2\<lparr>walletCertificateRecoveryPhrase := Some (joined scrambled)\<rparr>)
                           in case env_create env ''Paper Wallet'' (joined phrase) of
                                None \<Rightarrow> c3
                              | Some w \<Rightarrow> certificate_of_wallet env scrambled w c3))))
      in body\<lparr>certPollingBlocked := False\<rparr>)"

text \<open>Reading a certificate back: eighteen scrambled words, then the words of its password.\<close>

definition certificate_input :: "(string \<Rightarrow> string) \<Rightarrow> string list \<Rightarrow> (string \<times> string) option" where
  "certificate_input mnemonicToSeedHex ms =
     map_option (\<lambda>(scrambled, ws). (mnemonicToSeedHex (joined ws), joined scrambled)) (getScrambledInput ms)"

definition unscramblePaperWalletMnemonic :: "(string \<Rightarrow> string \<Rightarrow> string) \<Rightarrow> string \<Rightarrow> string \<Rightarrow> string list" where
  "unscramblePaperWalletMnemonic unscrambleStrings passphrase scrambledInput =
     split_on (CHR '' '') (unscrambleStrings passphrase scrambledInput)"

definition getUnscrambledMnemonics :: "(string \<Rightarrow> string) \<Rightarrow> (string \<Rightarrow> string \<Rightarrow> string) \<Rightarrow> string list \<Rightarrow> string list option" where
  "getUnscrambledMnemonics mnemonicToSeedHex unscrambleStrings ms =
     map_option (\<lambda>(passphrase, scrambledInput). unscramblePaperWalletMnemonic unscrambleStrings passphrase scrambledInput)
       (certificate_input mnemonicToSeedHex ms)"

section \<open>Checking an address\<close>

datatype environment_kind = Mainnet | Staging | Testnet | AurumPurple | Selfnode | UnknownNetwork

text \<open>Network tags, with None for null.\<close>

definition MAINNET_MAGIC :: "int option list" where "MAINNET_MAGIC = [Some 1, None]"
definition TESTNET_MAGIC :: "int option list" where "TESTNET_MAGIC = [Some 1097911063, Some 0]"
definition STAGING_MAGIC :: "int option list" where "STAGING_MAGIC = [Some 633343913, Some 1]"
definition AURUM_PURPLE_MAGIC :: "int option list" where "AURUM_PURPLE_MAGIC = [Some 8, Some 0]"
definition SELFNODE_MAGIC :: "int option list" where "SELFNODE_MAGIC = MAINNET_MAGIC"

definition expectedNetworkTag :: "environment_kind \<Rightarrow> int option list option" where
  "expectedNetworkTag e = (case e of
       Mainnet \<Rightarrow> Some MAINNET_MAGIC | Staging \<Rightarrow> Some STAGING_MAGIC | Testnet \<Rightarrow> Some TESTNET_MAGIC
     | AurumPurple \<Rightarrow> Some AURUM_PURPLE_MAGIC | Selfnode \<Rightarrow> Some SELFNODE_MAGIC | UnknownNetwork \<Rightarrow> None)"

datatype address_style = Cole | Icarus | Quibitous | Sophie

datatype introspection = Introspected address_style "int option" | InvalidAddress | IntrospectionFailed

datatype address_verdict = Unexpected | Verdict bool | NoVerdict

text \<open>The verdict and the new value of \<open>isAddressFromSameWallet\<close>; an error of the channel is logged and nothing is returned.\<close>

definition isValidAddress ::
  "environment_kind \<Rightarrow> (string \<Rightarrow> introspection) \<Rightarrow> string list \<Rightarrow> string \<Rightarrow> address_verdict \<times> bool" where
  "isValidAddress e introspect walletAddresses address = (case expectedNetworkTag e of
       None \<Rightarrow> (Unexpected, False)
     | Some tags \<Rightarrow> (case introspect address of
           InvalidAddress \<Rightarrow> (Verdict False, False)
         | IntrospectionFailed \<Rightarrow> (NoVerdict, False)
         | Introspected style tag \<Rightarrow>
             (Verdict (style \<in> {Cole, Icarus, Sophie} \<and> tag \<in> set tags),
              filter (\<lambda>a. a = address) walletAddresses \<noteq> [])))"

section \<open>The backup dialog\<close>

datatype walletBackupStep = NOT_INITIATED | PRIVACY_WARNING | RECOVERY_PHRASE_DISPLAY | RECOVERY_PHRASE_ENTRY

record wallet_backup =
  inProgress :: bool
  currentStep :: walletBackupStep
  recoveryPhrase :: "string list"
  completed :: bool
  enteredPhrase :: "string list"
  isPrivacyNoticeAccepted :: bool
  isEntering :: bool
  isTermOfflineAccepted :: bool
  isTermRecoveryAccepted :: bool
  countdownRemaining :: nat
  countdownTimerInterval :: "nat option"
  backup_timers :: "(nat \<times> unit) list"
  backup_next :: nat

definition new_WalletBackupStore :: wallet_backup where
  "new_WalletBackupStore = \<lparr>inProgress = False, currentStep = NOT_INITIATED, recoveryPhrase = [], completed = False,
     enteredPhrase = [], isPrivacyNoticeAccepted = False, isEntering = False, isTermOfflineAccepted = False,
     isTermRecoveryAccepted = False, countdownRemaining = 0, countdownTimerInterval = None, backup_timers = [], backup_next = 1\<rparr>"

definition clear_backup_timer :: "nat option \<Rightarrow> wallet_backup \<Rightarrow> wallet_backup" where
  "clear_backup_timer i b = (case i of None \<Rightarrow> b
     | Some n \<Rightarrow> b\<lparr>backup_timers := filter (\<lambda>t. fst t \<noteq> n) (backup_timers b)\<rparr>)"

definition initiateWalletBackup :: "bool \<Rightarrow> string list \<Rightarrow> wallet_backup \<Rightarrow> wallet_backup" where
  "initiateWalletBackup isTest phrase b =
     (let b1 = clear_backup_timer (countdownTimerInterval b)
            (b\<lparr>recoveryPhrase := phrase, inProgress := True, currentStep := PRIVACY_WARNING, completed := False,
               enteredPhrase := [], isPrivacyNoticeAccepted := False, isEntering := False,
               isTermOfflineAccepted := False, isTermRecoveryAccepted := False,
               countdownRemaining := (if isTest then 0 else 10)\<rparr>)
      in b1\<lparr>countdownTimerInterval := Some (backup_next b1), backup_timers := backup_timers b1 @ [(backup_next b1, ())],
            backup_next := Suc (backup_next b1)\<rparr>)"

text \<open>A tick of a live timer.\<close>

definition backup_tick :: "wallet_backup \<Rightarrow> wallet_backup" where
  "backup_tick b =
     (if countdownRemaining b > 0 then b\<lparr>countdownRemaining := countdownRemaining b - 1\<rparr>
      else clear_backup_timer (countdownTimerInterval b) b)"

definition acceptPrivacyNotice :: "wallet_backup \<Rightarrow> wallet_backup" where
  "acceptPrivacyNotice b = b\<lparr>isPrivacyNoticeAccepted := True\<rparr>"

definition continueToRecoveryPhrase :: "wallet_backup \<Rightarrow> wallet_backup" where
  "continueToRecoveryPhrase b = b\<lparr>currentStep := RECOVERY_PHRASE_DISPLAY\<rparr>"

definition startWalletBackup :: "wallet_backup \<Rightarrow> wallet_backup" where
  "startWalletBackup b = b\<lparr>currentStep := RECOVERY_PHRASE_ENTRY\<rparr>"

definition updateVerificationPhrase :: "string list \<Rightarrow> wallet_backup \<Rightarrow> wallet_backup" where
  "updateVerificationPhrase p b = b\<lparr>enteredPhrase := p\<rparr>"

definition acceptTermOffline :: "wallet_backup \<Rightarrow> wallet_backup" where
  "acceptTermOffline b = b\<lparr>isTermOfflineAccepted := True\<rparr>"

definition acceptTermRecovery :: "wallet_backup \<Rightarrow> wallet_backup" where
  "acceptTermRecovery b = b\<lparr>isTermRecoveryAccepted := True\<rparr>"

definition restartWalletBackup :: "wallet_backup \<Rightarrow> wallet_backup" where
  "restartWalletBackup b = b\<lparr>enteredPhrase := [], currentStep := RECOVERY_PHRASE_DISPLAY\<rparr>"

definition cancelWalletBackup :: "wallet_backup \<Rightarrow> wallet_backup" where
  "cancelWalletBackup b = b\<lparr>inProgress := False, enteredPhrase := []\<rparr>"

definition finishWalletBackup :: "wallet_backup \<Rightarrow> wallet_backup" where
  "finishWalletBackup b = b\<lparr>inProgress := False\<rparr>"

definition isRecoveryPhraseValid :: "wallet_backup \<Rightarrow> bool" where
  "isRecoveryPhraseValid b \<longleftrightarrow> joined (recoveryPhrase b) = joined (enteredPhrase b)"

datatype backup_event =
    InitiateBackup bool "string list" | Tick nat | AcceptPrivacy | ContinueToPhrase | StartBackup
  | EnterPhrase "string list" | AcceptOffline | AcceptRecovery | RestartBackup | CancelBackup | FinishBackup

definition backup_step :: "wallet_backup \<Rightarrow> backup_event \<Rightarrow> wallet_backup" where
  "backup_step b e = (case e of
       InitiateBackup isTest p \<Rightarrow> initiateWalletBackup isTest p b
     | Tick n \<Rightarrow> (if n \<in> fst ` set (backup_timers b) then backup_tick b else b)
     | AcceptPrivacy \<Rightarrow> acceptPrivacyNotice b
     | ContinueToPhrase \<Rightarrow> continueToRecoveryPhrase b
     | StartBackup \<Rightarrow> startWalletBackup b
     | EnterPhrase p \<Rightarrow> updateVerificationPhrase p b
     | AcceptOffline \<Rightarrow> acceptTermOffline b
     | AcceptRecovery \<Rightarrow> acceptTermRecovery b
     | RestartBackup \<Rightarrow> restartWalletBackup b
     | CancelBackup \<Rightarrow> cancelWalletBackup b
     | FinishBackup \<Rightarrow> finishWalletBackup b)"

section \<open>What a certificate leaves behind\<close>

lemma update_frames [simp]:
  "cert_calls (updateCertificateCreationState b e c) = cert_calls c"
  "cert_calls (updateCertificateStep back c) = cert_calls c"
  "certPollingBlocked (updateCertificateStep back c) = certPollingBlocked c"
  "generatingCertificateInProgress (updateCertificateCreationState b e c) = b"
  "generatingCertificateInProgress (updateCertificateStep back c) = generatingCertificateInProgress c"
  "walletCertificatePassword (updateCertificateStep back c) = walletCertificatePassword c"
  "walletCertificatePassword (updateCertificateCreationState b e c) = walletCertificatePassword c"
  "walletCertificateRecoveryPhrase (updateCertificateStep back c) = walletCertificateRecoveryPhrase c"
  "walletCertificateRecoveryPhrase (updateCertificateCreationState b e c) = walletCertificateRecoveryPhrase c"
  "additionalMnemonicWords (updateCertificateStep back c) = additionalMnemonicWords c"
  "additionalMnemonicWords (updateCertificateCreationState b e c) = additionalMnemonicWords c"
  "cert_calls (cert_call x c) = cert_calls c @ [x]"
  "generatingCertificateInProgress (cert_call x c) = generatingCertificateInProgress c"
  "walletCertificatePassword (cert_call x c) = walletCertificatePassword c"
  "walletCertificateRecoveryPhrase (cert_call x c) = walletCertificateRecoveryPhrase c"
  "additionalMnemonicWords (cert_call x c) = additionalMnemonicWords c"
  by (simp_all add: updateCertificateCreationState_def updateGeneratingCertificateError_def updateCertificateStep_def
      cert_call_def Let_def)

lemma downloadCertificate_frame [simp]:
  "cert_calls (downloadCertificate env a p c) = cert_calls c @ [SavePdf a p]"
  "generatingCertificateInProgress (downloadCertificate env a p c) = False"
  "walletCertificatePassword (downloadCertificate env a p c) = walletCertificatePassword c"
  "walletCertificateRecoveryPhrase (downloadCertificate env a p c) = walletCertificateRecoveryPhrase c"
  "additionalMnemonicWords (downloadCertificate env a p c) = additionalMnemonicWords c"
  by (simp_all add: downloadCertificate_def Let_def split: option.split)

lemma certificate_of_wallet_frame [simp]:
  "walletCertificatePassword (certificate_of_wallet env p w c) = walletCertificatePassword c"
  "walletCertificateRecoveryPhrase (certificate_of_wallet env p w c) = walletCertificateRecoveryPhrase c"
  "additionalMnemonicWords (certificate_of_wallet env p w c) = additionalMnemonicWords c"
  by (simp_all add: certificate_of_wallet_def Let_def split: option.split)

text \<open>The words of a certificate that reached the creation of its wallet.\<close>

definition reaches_creation :: "(string \<Rightarrow> string) \<Rightarrow> cert_env \<Rightarrow> string list \<Rightarrow> string list \<Rightarrow> string list \<Rightarrow> bool" where
  "reaches_creation seed env phrase ws scrambled \<longleftrightarrow> env_phrase env = Some phrase \<and> env_words env = Some ws
     \<and> env_scramble env (seed (joined ws)) (joined phrase) = Some scrambled"

lemma generate_created:
  assumes "reaches_creation seed env phrase ws scrambled" and "env_create env ''Paper Wallet'' (joined phrase) = Some w"
  obtains c3 where "generateCertificate seed env c = (certificate_of_wallet env scrambled w c3)\<lparr>certPollingBlocked := False\<rparr>"
    and "cert_calls c3 = cert_calls c @ [CreateTemporary (joined phrase)]" and "generatingCertificateInProgress c3"
    and "walletCertificatePassword c3 = Some (seed (joined ws))" and "additionalMnemonicWords c3 = Some (joined ws)"
    and "walletCertificateRecoveryPhrase c3 = Some (joined scrambled)"
  using assms by (auto simp: reaches_creation_def generateCertificate_def Let_def)


definition sample_env :: cert_env where
  "sample_env = \<lparr>env_phrase = Some [''a'', ''b''], env_words = Some [''p'', ''q''],
     env_scramble = (\<lambda>p i. Some [''x'', ''y'']), env_create = (\<lambda>n m. Some (Some (sample_wallet ''t'' False))),
     env_addresses = (\<lambda>i. None), env_delete = (\<lambda>i. True), env_pdf = None\<rparr>"

definition new_certificate :: certificate where
  "new_certificate = \<lparr>generatingCertificateInProgress = False, generatingCertificateError = False, certificateStep = None,
     certificateTemplate = None, additionalMnemonicWords = None, walletCertificatePassword = None,
     walletCertificateAddress = None, walletCertificateRecoveryPhrase = None, certPollingBlocked = False, cert_calls = []\<rparr>"


section \<open>Reading a certificate back\<close>

definition words_ok :: "string list \<Rightarrow> bool" where
  "words_ok ws \<longleftrightarrow> ws \<noteq> [] \<and> (\<forall>w \<in> set ws. CHR '' '' \<notin> set w)"

lemma split_joined: "words_ok ws \<Longrightarrow> split_on (CHR '' '') (joined ws) = ws"
  by (simp add: words_ok_def joined_def split_join)

lemma joined_inj: "words_ok ws \<Longrightarrow> words_ok vs \<Longrightarrow> joined ws = joined vs \<longleftrightarrow> ws = vs"
  by (metis split_joined)

text \<open>
  C35. A certificate restores the wallet it was made for. Entering the eighteen words of a saved certificate,
  then the additional words, derives the password that the certificate was scrambled with, so the
  cryptographic library, whose unscrambling undoes its scrambling, gives back the words of the recovery phrase.
\<close>

theorem certificate_roundtrip:
  assumes "reaches_creation seed env phrase ws scrambled" and "env_create env ''Paper Wallet'' (joined phrase) = Some (Some v)"
    and "words_ok phrase" and "words_ok ws" and "words_ok scrambled"
    and "length scrambled = 18" and "length ws \<le> 18"
    and unscrambled: "\<And>p i out. env_scramble env p i = Some out \<Longrightarrow> unscramble p (joined out) = i"
  shows "\<exists>r m. walletCertificateRecoveryPhrase (generateCertificate seed env c) = Some r
     \<and> additionalMnemonicWords (generateCertificate seed env c) = Some m
     \<and> getUnscrambledMnemonics seed unscramble (split_on (CHR '' '') r @ split_on (CHR '' '') m) = Some phrase"
proof -
  obtain c3 where c3: "generateCertificate seed env c = (certificate_of_wallet env scrambled (Some v) c3)\<lparr>certPollingBlocked := False\<rparr>"
    "additionalMnemonicWords c3 = Some (joined ws)" "walletCertificateRecoveryPhrase c3 = Some (joined scrambled)"
    using assms(1,2) by (rule generate_created)
  have "ws \<noteq> []" using assms(4) by (simp add: words_ok_def)
  with assms(6,7) have "getScrambledInput (scrambled @ ws) = Some (scrambled, ws)"
    by (simp add: getScrambledInput_def BCC_CERTIFICATE_MNEMONIC_LENGTH_def)
  moreover have "unscramble (seed (joined ws)) (joined scrambled) = joined phrase"
    using assms(1) unscrambled by (simp add: reaches_creation_def)
  ultimately have "getUnscrambledMnemonics seed unscramble (scrambled @ ws) = Some phrase"
    using split_joined [OF assms(3)]
    by (simp add: getUnscrambledMnemonics_def certificate_input_def unscramblePaperWalletMnemonic_def)
  with c3 assms(4,5) show ?thesis by (simp add: split_joined)
qed

text \<open>A toy scrambling for the witness: padding with empty words to eighteen, and removing them.\<close>

definition padded :: "string \<Rightarrow> string list" where
  "padded i = split_on (CHR '' '') i @ replicate (18 - length (split_on (CHR '' '') i)) ''''"

theorem certificate_roundtrip_witness:
  "\<exists>r m. walletCertificateRecoveryPhrase (generateCertificate id
       (sample_env\<lparr>env_scramble := \<lambda>p i. if i = ''a b'' then Some (padded i) else None\<rparr>) new_certificate) = Some r
     \<and> additionalMnemonicWords (generateCertificate id
       (sample_env\<lparr>env_scramble := \<lambda>p i. if i = ''a b'' then Some (padded i) else None\<rparr>) new_certificate) = Some m
     \<and> getUnscrambledMnemonics id (\<lambda>p s. ''a b'') (split_on (CHR '' '') r @ split_on (CHR '' '') m) = Some [''a'', ''b'']"
proof (rule certificate_roundtrip [of _ _ _ "[''p'', ''q'']" "padded ''a b''" "sample_wallet ''t'' False"])
  show "reaches_creation id (sample_env\<lparr>env_scramble := \<lambda>p i. if i = ''a b'' then Some (padded i) else None\<rparr>)
      [''a'', ''b''] [''p'', ''q''] (padded ''a b'')"
    by (simp add: reaches_creation_def sample_env_def joined_def)
qed (auto simp: sample_env_def words_ok_def padded_def split: if_splits)

section \<open>The backup dialog's timer\<close>

text \<open>At most one countdown runs, the one whose id the store holds, and it never starts above ten.\<close>

definition backup_ok :: "wallet_backup \<Rightarrow> bool" where
  "backup_ok b \<longleftrightarrow> set (backup_timers b) \<subseteq> set_option (map_option (\<lambda>n. (n, ())) (countdownTimerInterval b))
     \<and> length (backup_timers b) \<le> 1 \<and> countdownRemaining b \<le> 10"

lemma backup_ok_step: "backup_ok b \<Longrightarrow> backup_ok (backup_step b e)"
proof (cases e)
  case (InitiateBackup t p)
  assume "backup_ok b"
  then have "filter (\<lambda>t. Some (fst t) \<noteq> countdownTimerInterval b) (backup_timers b) = []"
    by (auto simp: backup_ok_def filter_empty_conv)
  moreover have "countdownTimerInterval b = None \<Longrightarrow> backup_timers b = []"
    using \<open>backup_ok b\<close> by (simp add: backup_ok_def)
  ultimately show ?thesis using InitiateBackup
    by (auto simp: filter_empty_conv backup_step_def initiateWalletBackup_def backup_ok_def clear_backup_timer_def Let_def split: option.split)
next
  case (Tick n)
  assume "backup_ok b"
  then have "length (backup_timers b) \<le> 1" by (simp add: backup_ok_def)
  then have "length (filter P (backup_timers b)) \<le> 1" for P
    by (rule order_trans [OF length_filter_le])
  with Tick \<open>backup_ok b\<close> show ?thesis
    by (auto simp: backup_step_def backup_tick_def backup_ok_def clear_backup_timer_def split: option.split)
qed (simp_all add: backup_step_def backup_ok_def acceptPrivacyNotice_def continueToRecoveryPhrase_def startWalletBackup_def
    updateVerificationPhrase_def acceptTermOffline_def acceptTermRecovery_def restartWalletBackup_def
    cancelWalletBackup_def finishWalletBackup_def)

interpretation backup: machine backup_step backup_ok
  by unfold_locales (rule backup_ok_step)

lemma one_backup_timer: "length (backup_timers (run backup_step new_WalletBackupStore es)) \<le> 1"
  using backup.run_inv [of new_WalletBackupStore es] by (simp add: backup_ok_def new_WalletBackupStore_def)

lemma phrase_valid_iff:
  "words_ok (recoveryPhrase b) \<Longrightarrow> words_ok (enteredPhrase b) \<Longrightarrow> isRecoveryPhraseValid b \<longleftrightarrow> enteredPhrase b = recoveryPhrase b"
  by (auto simp: isRecoveryPhraseValid_def joined_inj)

section \<open>Transfers\<close>

text \<open>
  A fee that arrives after the dialog has been closed moves it to the second step again; a third
  step goes back to the beginning.
\<close>

lemma late_fee_reopens:
  assumes "transferFundsStep t = 1" and "transferFundsSourceWalletId t \<noteq> []" and "transferFundsTargetWalletId t \<noteq> []"
  shows "transferFundsStep (run transfer_step t [NextStep, CloseTransfer, TransferAnswer (length (transfer_tasks t)) (TFee fee rest)]) = 2"
  using assms
  by (simp add: transfer_step_def transferFundsNextStep_def transferFundsCalculateFee_def add_transfer_task_def
      transfer_emit_def transferFundsClose_def answer_transfer_def remove_nth_def)

lemma step_bounded: "transferFundsStep t \<le> 2 \<Longrightarrow> transferFundsStep (transfer_step t e) \<le> 2"
  by (auto simp: transfer_step_def transferFundsNextStep_def transferFundsCalculateFee_def add_transfer_task_def
      transfer_emit_def transferFundsPrevStep_def transferFundsSetSourceWalletId_def transferFundsSetTargetWalletId_def
      transferFundsRedeem_def transferFundsClose_def transferFunds_def answer_transfer_def Let_def
      split: transfer_event.split transfer_task.split transfer_answer.split)

interpretation transfers: machine transfer_step "\<lambda>t. transferFundsStep t \<le> 2"
  by unfold_locales (rule step_bounded)

text \<open>Whoever transfers never sends to more than twenty addresses.\<close>

definition few_targets :: "transfer \<Rightarrow> bool" where
  "few_targets t \<longleftrightarrow> (\<forall>s as p. TransferRequest s (Some as) p \<in> set (transfer_effects t) \<longrightarrow> length as \<le> MAX_TARGET_ADDRESSES)"

lemma taken_length: "Some as = map_option (take n) r \<Longrightarrow> length as \<le> n"
  by (cases r) auto

lemma few_targets_step: "few_targets t \<Longrightarrow> few_targets (transfer_step t e)"
  by (auto simp: few_targets_def transfer_step_def transferFundsNextStep_def transferFundsCalculateFee_def add_transfer_task_def
      transfer_emit_def transferFundsPrevStep_def transferFundsSetSourceWalletId_def transferFundsSetTargetWalletId_def
      transferFundsRedeem_def transferFundsClose_def transferFunds_def answer_transfer_def Let_def
      dest: taken_length split: transfer_event.splits transfer_task.splits transfer_answer.splits if_splits)

interpretation transfer_targets: machine transfer_step few_targets
  by unfold_locales (rule few_targets_step)
end
