(* ===== verification/AppUpdate.thy ===== *)
theory AppUpdate imports Downloads Texts begin

text \<open>
  The update of the application: \<open>stores/AppUpdateStore.js\<close>, which decides what to do about an update that
  the news feed announces and follows its download, and \<open>main/ipc/manageAppUpdateChannel.js\<close>, which checks the
  installer and runs it. The versions are compared by a library, which is a parameter.
\<close>

section \<open>The store\<close>

text \<open>The update item of the feed, reduced to what the platform's entry of \<open>softwareUpdate\<close> holds.\<close>

record update_item =
  up_id :: nat
  up_version :: "string option"
  up_hash :: "string option"
  up_url :: "string option"

datatype update_task =
    CompletedCall update_item             \<comment> \<open>awaiting the version installed last\<close>
  | SetCompletedCall
  | UnsetFailedCall
  | FailedFlagCall update_item
  | LocalDataCall update_item
  | FileExistsCall download_info download_data
  | SetFailedCall

datatype update_effect =
    SetAppUpdateCompleted string
  | UnsetAutomaticUpdateFailed
  | SetAutomaticUpdateFailed
  | DeleteDownloadedFile
  | ClearDownloadLocalData
  | RequestDownload string
  | RequestResumeDownload
  | ManageAppUpdate string "string option"
  | CloseNewsFeedShown

record app_update =
  availableUpdate :: "update_item option"
  availableUpdateVersion :: string
  isUpdateDownloading :: bool
  isUpdateDownloaded :: bool
  isUpdateProgressOpen :: bool
  isAutomaticUpdateFailed :: bool
  isUpdatePostponed :: bool
  isWaitingToQuitKlarity :: bool
  installationProgress :: int
  downloadInfo :: "download_info option"
  downloadData :: "download_data option"
  update_tasks :: "update_task list"
  update_effects :: "update_effect list"

definition update_emit :: "update_effect \<Rightarrow> app_update \<Rightarrow> app_update" where
  "update_emit x s = s\<lparr>update_effects := update_effects s @ [x]\<rparr>"

definition add_update_task :: "update_task \<Rightarrow> app_update \<Rightarrow> app_update" where
  "add_update_task t s = s\<lparr>update_tasks := update_tasks s @ [t]\<rparr>"

definition displayAppUpdateOverlay :: "app_update \<Rightarrow> bool" where
  "displayAppUpdateOverlay s \<longleftrightarrow> availableUpdate s \<noteq> None \<and> \<not> isUpdatePostponed s
     \<and> (isUpdateProgressOpen s \<or> isUpdateDownloaded s \<or> isAutomaticUpdateFailed s)"

definition displayAppUpdateNewsItem :: "app_update \<Rightarrow> bool" where
  "displayAppUpdateNewsItem s \<longleftrightarrow> isUpdateDownloading s \<or> isUpdatePostponed s"

definition showManualUpdate :: "app_update \<Rightarrow> bool" where
  "showManualUpdate s \<longleftrightarrow> isAutomaticUpdateFailed s"

definition checkNewAppUpdate :: "update_item \<Rightarrow> app_update \<Rightarrow> app_update" where
  "checkNewAppUpdate u s = add_update_task (CompletedCall u) s"

definition watchForNewsfeedUpdates :: "update_item option \<Rightarrow> app_update \<Rightarrow> app_update" where
  "watchForNewsfeedUpdates update s = (case update of None \<Rightarrow> s | Some u \<Rightarrow> checkNewAppUpdate u s)"

definition setAppAutomaticUpdateFailed :: "app_update \<Rightarrow> app_update" where
  "setAppAutomaticUpdateFailed s = add_update_task SetFailedCall (update_emit SetAutomaticUpdateFailed s)"

definition requestUpdateDownload :: "update_item \<Rightarrow> app_update \<Rightarrow> app_update" where
  "requestUpdateDownload u s = (case up_url u of
       None \<Rightarrow> s
     | Some url \<Rightarrow> if url = [] then s else update_emit (RequestDownload url) s)"

text \<open>The version stored last is the empty text when there is none. \<open>older\<close> is \<open>semver.lt\<close>, which fails on no version.\<close>

definition completed_answer :: "(string \<Rightarrow> string \<Rightarrow> bool) \<Rightarrow> string \<Rightarrow> string \<Rightarrow> update_item \<Rightarrow> app_update \<Rightarrow> app_update" where
  "completed_answer older currentVersion appUpdateCompleted u s = (case up_version u of
       None \<Rightarrow> s
     | Some v \<Rightarrow>
         if appUpdateCompleted = v then s
         else if \<not> older currentVersion v
         then add_update_task SetCompletedCall (update_emit (SetAppUpdateCompleted v) s)
         else (let s1 = s\<lparr>availableUpdate := Some u, availableUpdateVersion := v\<rparr>
               in if isUpdateDownloading s1 then s1 else add_update_task (FailedFlagCall u) s1))"

definition local_data_answer :: "update_item \<Rightarrow> download_info option \<Rightarrow> download_data option \<Rightarrow> app_update \<Rightarrow> app_update" where
  "local_data_answer u di dd s = (case (di, dd) of
       (Some i, Some d) \<Rightarrow>
         if Some (fileUrl i) \<noteq> up_url u then requestUpdateDownload u (update_emit ClearDownloadLocalData s)
         else if data_state d = Some FINISHED \<and> progress d = Some 100 then add_update_task (FileExistsCall i d) s
         else update_emit RequestResumeDownload s
     | _ \<Rightarrow> requestUpdateDownload u (update_emit ClearDownloadLocalData s))"

datatype update_answer =
    URejected | UDone
  | UVersion string
  | UFlag bool
  | ULocalData "download_info option" "download_data option"

definition answer_update :: "(string \<Rightarrow> string \<Rightarrow> bool) \<Rightarrow> string \<Rightarrow> update_task \<Rightarrow> update_answer \<Rightarrow> app_update \<Rightarrow> app_update" where
  "answer_update older currentVersion t a s = (case (t, a) of
       (CompletedCall u, UVersion v) \<Rightarrow> completed_answer older currentVersion v u s
     | (SetCompletedCall, UDone) \<Rightarrow> add_update_task UnsetFailedCall (update_emit UnsetAutomaticUpdateFailed s)
     | (UnsetFailedCall, UDone) \<Rightarrow> update_emit ClearDownloadLocalData (update_emit DeleteDownloadedFile s)
     | (FailedFlagCall u, UFlag b) \<Rightarrow> if b then s\<lparr>isAutomaticUpdateFailed := True\<rparr> else add_update_task (LocalDataCall u) s
     | (LocalDataCall u, ULocalData di dd) \<Rightarrow> local_data_answer u di dd s
     | (FileExistsCall i d, UFlag b) \<Rightarrow>
         if b then s\<lparr>downloadInfo := Some i, downloadData := Some d, isUpdateDownloaded := True\<rparr>
         else setAppAutomaticUpdateFailed s
     | (SetFailedCall, UDone) \<Rightarrow> s\<lparr>isAutomaticUpdateFailed := True\<rparr>
     | _ \<Rightarrow> s)"

definition manageUpdateResponse :: "download_event \<Rightarrow> download_info \<Rightarrow> download_data \<Rightarrow> app_update \<Rightarrow> app_update" where
  "manageUpdateResponse eventType info data s =
     (let s1 = (if eventType = PAUSE then s\<lparr>availableUpdate := None, isUpdateDownloaded := True\<rparr> else s);
          s2 = (if eventType = PROGRESS then s1\<lparr>downloadInfo := Some info, downloadData := Some data\<rparr> else s1);
          s3 = (if eventType = END then update_emit CloseNewsFeedShown (s2\<lparr>isUpdateDownloaded := True\<rparr>) else s2);
          s4 = (if eventType = ERROR then setAppAutomaticUpdateFailed s3 else s3)
      in s4\<lparr>isUpdateDownloading := eventType \<notin> {END, PAUSE, ERROR}\<rparr>)"

definition installUpdate :: "app_update \<Rightarrow> app_update" where
  "installUpdate s = (case (availableUpdate s, downloadInfo s) of
       (Some u, Some i) \<Rightarrow>
         if isUpdateDownloading s \<or> \<not> isUpdateDownloaded s then s
         else update_emit (ManageAppUpdate (destinationPath i @ ''/'' @ originalFilename i) (up_hash u))
                (s\<lparr>isWaitingToQuitKlarity := True\<rparr>)
     | _ \<Rightarrow> s)"

datatype install_status = StatusProgress | StatusError | StatusSuccess

text \<open>A progress that is zero, or not a number, is not taken.\<close>

definition manageQuitAndInstallResponse :: "install_status \<Rightarrow> int option \<Rightarrow> app_update \<Rightarrow> app_update" where
  "manageQuitAndInstallResponse status prog s = (case status of
       StatusError \<Rightarrow> setAppAutomaticUpdateFailed (s\<lparr>isWaitingToQuitKlarity := False\<rparr>)
     | StatusProgress \<Rightarrow> (case prog of None \<Rightarrow> s | Some p \<Rightarrow> if p = 0 then s else s\<lparr>installationProgress := p\<rparr>)
     | StatusSuccess \<Rightarrow> s)"

definition openAppUpdateOverlay :: "app_update \<Rightarrow> app_update" where
  "openAppUpdateOverlay s = s\<lparr>isUpdateProgressOpen := True, isUpdatePostponed := False\<rparr>"

definition closeAppUpdateOverlay :: "app_update \<Rightarrow> app_update" where
  "closeAppUpdateOverlay s = s\<lparr>isUpdateProgressOpen := False\<rparr>"

definition postponeUpdate :: "app_update \<Rightarrow> app_update" where
  "postponeUpdate s = s\<lparr>isUpdatePostponed := True\<rparr>"

datatype update_event =
    NewsfeedUpdate "update_item option"
  | DownloadEvent download_event download_info download_data
  | InstallRequested
  | InstallResponse install_status "int option"
  | OverlayOpened | OverlayClosed | Postponed
  | UAnswer nat update_answer

definition update_step :: "(string \<Rightarrow> string \<Rightarrow> bool) \<Rightarrow> string \<Rightarrow> app_update \<Rightarrow> update_event \<Rightarrow> app_update" where
  "update_step older currentVersion s e = (case e of
       NewsfeedUpdate u \<Rightarrow> watchForNewsfeedUpdates u s
     | DownloadEvent t i d \<Rightarrow> manageUpdateResponse t i d s
     | InstallRequested \<Rightarrow> installUpdate s
     | InstallResponse st p \<Rightarrow> manageQuitAndInstallResponse st p s
     | OverlayOpened \<Rightarrow> openAppUpdateOverlay s
     | OverlayClosed \<Rightarrow> closeAppUpdateOverlay s
     | Postponed \<Rightarrow> postponeUpdate s
     | UAnswer k a \<Rightarrow> (if k < length (update_tasks s)
         then answer_update older currentVersion (update_tasks s ! k) a (s\<lparr>update_tasks := remove_nth k (update_tasks s)\<rparr>) else s))"

definition new_AppUpdateStore :: app_update where
  "new_AppUpdateStore = \<lparr>availableUpdate = None, availableUpdateVersion = [], isUpdateDownloading = False,
     isUpdateDownloaded = False, isUpdateProgressOpen = False, isAutomaticUpdateFailed = False, isUpdatePostponed = False,
     isWaitingToQuitKlarity = False, installationProgress = 0, downloadInfo = None, downloadData = None,
     update_tasks = [], update_effects = []\<rparr>"

section \<open>The installer\<close>

text \<open>
  The handler of the main process against the file system and the runner: whether the file exists, its hash,
  and what the runner does. Every message goes to the window; the promise settles at most once.
\<close>

record installer_env =
  installer_exists :: "string \<Rightarrow> bool"
  installer_hash :: "string \<Rightarrow> string option"      \<comment> \<open>None: nothing could be read\<close>
  env_isLinux :: bool

datatype runner_event =
    RunnerOut string
  | RunnerErr string
  | RunnerClose int
  | RunnerError
  | RunnerExit int

datatype settled = ResolvedTrue | Rejected

record install_run =
  ran :: "string option"                    \<comment> \<open>the file run by the runner\<close>
  openedOnQuit :: "string option"           \<comment> \<open>the file opened when the application has quit\<close>
  quitting :: bool
  exitCode :: "int option"
  install_ok :: bool
  promise :: "settled option"
  responses :: "(install_status \<times> int option) list"

definition respond :: "install_status \<Rightarrow> int option \<Rightarrow> install_run \<Rightarrow> install_run" where
  "respond st p r = r\<lparr>responses := responses r @ [(st, p)]\<rparr>"

definition settle :: "settled \<Rightarrow> install_run \<Rightarrow> install_run" where
  "settle x r = (case promise r of None \<Rightarrow> r\<lparr>promise := Some x\<rparr> | Some y \<Rightarrow> r)"

definition checkInstallerHash :: "installer_env \<Rightarrow> string \<Rightarrow> string option \<Rightarrow> bool" where
  "checkInstallerHash env filePath expectedHash = (case installer_hash env filePath of
       None \<Rightarrow> False | Some h \<Rightarrow> Some h = expectedHash)"

definition new_install_run :: install_run where
  "new_install_run = \<lparr>ran = None, openedOnQuit = None, quitting = False, exitCode = None, install_ok = True,
     promise = None, responses = []\<rparr>"

definition handleManageAppUpdate :: "installer_env \<Rightarrow> string \<Rightarrow> string option \<Rightarrow> install_run \<Rightarrow> install_run" where
  "handleManageAppUpdate env filePath expectedHash r =
     (if \<not> installer_exists env filePath then respond StatusError None r
      else if \<not> checkInstallerHash env filePath expectedHash then respond StatusError None r
      else if env_isLinux env then (respond StatusProgress None r)\<lparr>ran := Some filePath\<rparr>
      else respond StatusSuccess None (r\<lparr>openedOnQuit := Some filePath, quitting := True\<rparr>))"

text \<open>
  \<open>parseInt(s, 10)\<close>, with None for NaN, and the progress read from the runner's lines \<open>PROG item/total\<close>;
  the quotient is truncated, as it is while its decimal text needs no exponent.
\<close>

definition parseInt :: "string \<Rightarrow> int option" where
  "parseInt s =
     (let s1 = dropWhile (\<lambda>c. c = CHR '' '') s;
          neg = (s1 \<noteq> [] \<and> hd s1 = CHR ''-'');
          s2 = (if s1 \<noteq> [] \<and> (hd s1 = CHR ''-'' \<or> hd s1 = CHR ''+'') then tl s1 else s1)
      in map_option (\<lambda>n. if neg then - int n else int n) (nat_of_text (takeWhile is_decimal_digit s2)))"

fun after_first :: "string \<Rightarrow> string \<Rightarrow> string option" where
  "after_first sep [] = None"
| "after_first sep (c # cs) = (if prefix sep (c # cs) then Some (drop (length sep) (c # cs)) else after_first sep cs)"

fun before_first :: "string \<Rightarrow> string \<Rightarrow> string" where
  "before_first sep [] = []"
| "before_first sep (c # cs) = (if prefix sep (c # cs) then [] else c # before_first sep cs)"

definition line_progress :: "string \<Rightarrow> int option option" where
  "line_progress line = (case after_first ''PROG '' line of
       None \<Rightarrow> None
     | Some rest \<Rightarrow>
         (let progressStr = before_first ''PROG '' rest
          in if progressStr = [] then None
             else Some (case split_on (CHR ''/'') progressStr of
                 x # y # others \<Rightarrow> (case (parseInt x, parseInt y) of
                     (Some i, Some t) \<Rightarrow> if t = 0 then None else Some (sgn i * sgn t * ((abs i * 100) div abs t))
                   | _ \<Rightarrow> None)
               | _ \<Rightarrow> None)))"

definition progress_of :: "string \<Rightarrow> int option" where
  "progress_of out = foldl (\<lambda>prog line. case line_progress line of None \<Rightarrow> prog | Some p \<Rightarrow> p) (Some 0)
     (split_on (CHR 0x0A) out)"

definition runner_step :: "install_run \<Rightarrow> runner_event \<Rightarrow> install_run" where
  "runner_step r e = (if ran r = None \<or> exitCode r \<noteq> None then r   \<comment> \<open>no runner, or the application has left\<close>
     else (case e of
       RunnerOut out \<Rightarrow> respond StatusProgress (progress_of out) r
     | RunnerErr out \<Rightarrow> respond StatusProgress None r
     | RunnerClose code \<Rightarrow> respond StatusProgress None
         (if code \<noteq> 0 then settle Rejected (respond StatusError None (r\<lparr>install_ok := False\<rparr>)) else r)
     | RunnerError \<Rightarrow> settle Rejected (respond StatusError None (r\<lparr>install_ok := False\<rparr>))
     | RunnerExit code \<Rightarrow>
         (let r1 = (if code \<noteq> 0 then settle Rejected (respond StatusError None (r\<lparr>install_ok := False\<rparr>)) else r)
          in if \<not> install_ok r1 then settle Rejected r1
             else settle ResolvedTrue (respond StatusSuccess None (r1\<lparr>exitCode := Some 20\<rparr>)))))"

section \<open>Only a verified installer is run\<close>

definition installs :: "install_run \<Rightarrow> string \<Rightarrow> bool" where
  "installs r f \<longleftrightarrow> ran r = Some f \<or> openedOnQuit r = Some f"

definition verified :: "installer_env \<Rightarrow> string \<Rightarrow> string option \<Rightarrow> install_run \<Rightarrow> bool" where
  "verified env filePath h r \<longleftrightarrow> (\<forall>f. installs r f \<longrightarrow> f = filePath \<and> installer_exists env filePath
      \<and> installer_hash env filePath \<noteq> None \<and> installer_hash env filePath = h)
   \<and> (promise r = Some ResolvedTrue \<longrightarrow> exitCode r = Some 20)"

lemma respond_frame [simp]:
  "ran (respond st p r) = ran r" "openedOnQuit (respond st p r) = openedOnQuit r" "promise (respond st p r) = promise r"
  "exitCode (respond st p r) = exitCode r" "install_ok (respond st p r) = install_ok r"
  by (simp_all add: respond_def)

lemma settle_frame [simp]:
  "ran (settle x r) = ran r" "openedOnQuit (settle x r) = openedOnQuit r" "exitCode (settle x r) = exitCode r"
  "install_ok (settle x r) = install_ok r"
  by (simp_all add: settle_def split: option.split)

lemma settle_rejected: "promise (settle Rejected r) = Some ResolvedTrue \<longleftrightarrow> promise r = Some ResolvedTrue"
  by (simp add: settle_def split: option.split)

lemma runner_keeps:
  "ran (runner_step r e) = ran r \<and> openedOnQuit (runner_step r e) = openedOnQuit r"
  by (simp add: runner_step_def Let_def split: runner_event.split)

lemma runner_verified: "verified env f h r \<Longrightarrow> verified env f h (runner_step r e)"
  using runner_keeps [of r e]
  by (cases e) (auto simp: verified_def installs_def runner_step_def Let_def settle_rejected)

interpretation installer: machine runner_step "verified env f h" for env f h
  by unfold_locales (rule runner_verified)

lemma verified_handle: "verified env f h (handleManageAppUpdate env f h new_install_run)"
  by (auto simp: verified_def installs_def handleManageAppUpdate_def new_install_run_def respond_def checkInstallerHash_def
      split: option.splits)


definition sample_installer :: installer_env where
  "sample_installer = \<lparr>installer_exists = (\<lambda>f. f = ''/d/i''), installer_hash = (\<lambda>f. Some ''h''), env_isLinux = True\<rparr>"


lemma progress_example: "progress_of ''a\<newline>PROG 7/20'' = Some 35"
  by (simp add: progress_of_def line_progress_def parseInt_def nat_of_text_def is_decimal_digit_def digit_value_def Let_def)

section \<open>What a check decides\<close>

datatype decision = NothingToDo | Installed | AlreadyFailed | Download bool | Resume | Ready | Missing

definition decide :: "(string \<Rightarrow> string \<Rightarrow> bool) \<Rightarrow> string \<Rightarrow> string \<Rightarrow> bool \<Rightarrow> download_info option \<Rightarrow> download_data option
    \<Rightarrow> bool \<Rightarrow> update_item \<Rightarrow> decision" where
  "decide older currentVersion completed failed di dd stillThere u = (case up_version u of
       None \<Rightarrow> NothingToDo
     | Some v \<Rightarrow>
         if completed = v then NothingToDo
         else if \<not> older currentVersion v then Installed
         else if failed then AlreadyFailed
         else (case (di, dd) of
             (Some i, Some d) \<Rightarrow>
               if Some (fileUrl i) \<noteq> up_url u then Download True
               else if data_state d = Some FINISHED \<and> progress d = Some 100
               then (if stillThere then Ready else Missing)
               else Resume
           | _ \<Rightarrow> Download True))"

text \<open>The answers that the tasks of a check get, in an environment that does not change meanwhile.\<close>

definition environment_answer :: "string \<Rightarrow> bool \<Rightarrow> download_info option \<Rightarrow> download_data option \<Rightarrow> bool \<Rightarrow> update_task \<Rightarrow> update_answer" where
  "environment_answer completed failed di dd stillThere t = (case t of
       CompletedCall u \<Rightarrow> UVersion completed
     | FailedFlagCall u \<Rightarrow> UFlag failed
     | LocalDataCall u \<Rightarrow> ULocalData di dd
     | FileExistsCall i d \<Rightarrow> UFlag stillThere
     | _ \<Rightarrow> UDone)"

text \<open>The check run to its end; five answers are enough, since no check waits more often.\<close>

fun settle_check :: "nat \<Rightarrow> (string \<Rightarrow> string \<Rightarrow> bool) \<Rightarrow> string \<Rightarrow> (update_task \<Rightarrow> update_answer) \<Rightarrow> app_update \<Rightarrow> app_update" where
  "settle_check 0 older v ans s = s"
| "settle_check (Suc n) older v ans s = (case update_tasks s of
       [] \<Rightarrow> s
     | t # ts \<Rightarrow> settle_check n older v ans (update_step older v s (UAnswer 0 (ans t))))"

definition urls :: "update_item \<Rightarrow> update_effect list" where
  "urls u = (case up_url u of None \<Rightarrow> [] | Some x \<Rightarrow> if x = [] then [] else [RequestDownload x])"

lemma requestUpdateDownload_effects:
  "requestUpdateDownload u s = s\<lparr>update_effects := update_effects s @ urls u\<rparr>"
  by (simp add: requestUpdateDownload_def urls_def update_emit_def split: option.split)

text \<open>
  A check for an update ends, and in one of these ways: nothing to do, the clean-up after an
  installed update, the flag of an earlier failure, a new download after the old data are cleared, the resumption of a
  download, an installer that is ready, or one that has gone missing, which is recorded as a failure.
\<close>

theorem update_check_decides:
  assumes "update_tasks s = []" and "\<not> isUpdateDownloading s"
  shows "let s' = settle_check 5 older v (environment_answer completed failed di dd stillThere)
                   (update_step older v s (NewsfeedUpdate (Some u)));
             old = update_effects s
    in update_tasks s' = [] \<and> (case decide older v completed failed di dd stillThere u of
         NothingToDo \<Rightarrow> s' = s
       | Installed \<Rightarrow> update_effects s' = old @ [SetAppUpdateCompleted (the (up_version u)), UnsetAutomaticUpdateFailed,
            DeleteDownloadedFile, ClearDownloadLocalData] \<and> availableUpdate s' = availableUpdate s
       | AlreadyFailed \<Rightarrow> update_effects s' = old \<and> isAutomaticUpdateFailed s' \<and> availableUpdate s' = Some u
       | Download b \<Rightarrow> update_effects s' = old @ ClearDownloadLocalData # urls u \<and> availableUpdate s' = Some u
       | Resume \<Rightarrow> update_effects s' = old @ [RequestResumeDownload] \<and> availableUpdate s' = Some u
       | Ready \<Rightarrow> update_effects s' = old \<and> isUpdateDownloaded s' \<and> downloadInfo s' = di \<and> availableUpdate s' = Some u
       | Missing \<Rightarrow> update_effects s' = old @ [SetAutomaticUpdateFailed] \<and> isAutomaticUpdateFailed s')"
  using assms
  by (auto simp: Let_def eval_nat_numeral update_step_def watchForNewsfeedUpdates_def checkNewAppUpdate_def add_update_task_def
      answer_update_def environment_answer_def completed_answer_def local_data_answer_def requestUpdateDownload_effects
      update_emit_def setAppAutomaticUpdateFailed_def decide_def remove_nth_def
      split: option.splits if_splits)

definition sample_update :: update_item where
  "sample_update = \<lparr>up_id = 1, up_version = Some ''2.0.0'', up_hash = Some ''h'', up_url = Some ''https://u''\<rparr>"

theorem update_check_decides_witness:
  "update_effects (settle_check 5 (\<lambda>a b. a \<noteq> b) ''1.0.0'' (environment_answer [] False None None False)
       (update_step (\<lambda>a b. a \<noteq> b) ''1.0.0'' new_AppUpdateStore (NewsfeedUpdate (Some sample_update))))
     = [ClearDownloadLocalData, RequestDownload ''https://u'']"
  using update_check_decides [of new_AppUpdateStore "\<lambda>a b. a \<noteq> b" "''1.0.0''" "[]" False None None False sample_update]
  by (simp add: Let_def decide_def sample_update_def urls_def new_AppUpdateStore_def del: settle_check.simps)

section \<open>Paused downloads\<close>

text \<open>
  A paused download is offered for installation. The event for a pause marks the update as
  downloaded; when the feed announces the update again, the incomplete file can be installed: the store
  sends it to the installer, whose hash check is all that refuses it, and the update then counts as failed.
\<close>

theorem paused_download_is_offered:
  assumes "update_tasks s = []" and "up_version u = Some v" and "completed \<noteq> v" and "older current v"
  shows "let s' = run (update_step older current) s
              [DownloadEvent PROGRESS i d, DownloadEvent PAUSE i d, NewsfeedUpdate (Some u), UAnswer 0 (UVersion completed),
               InstallRequested];
             file = destinationPath i @ ''/'' @ originalFilename i;
             r = handleManageAppUpdate env file (up_hash u) new_install_run
    in last (update_effects s') = ManageAppUpdate file (up_hash u) \<and> isWaitingToQuitKlarity s'
     \<and> (installer_hash env file \<noteq> up_hash u \<longrightarrow>
          responses r = [(StatusError, None)]
        \<and> isAutomaticUpdateFailed (run (update_step older current) s' [InstallResponse StatusError None, UAnswer 1 UDone]))"
  using assms
  by (auto simp: Let_def update_step_def manageUpdateResponse_def watchForNewsfeedUpdates_def checkNewAppUpdate_def
      add_update_task_def answer_update_def completed_answer_def installUpdate_def update_emit_def remove_nth_def
      handleManageAppUpdate_def checkInstallerHash_def new_install_run_def respond_def manageQuitAndInstallResponse_def
      setAppAutomaticUpdateFailed_def split: option.splits)

definition sample_info :: download_info where
  "sample_info = \<lparr>downloadId = ''appUpdate'', fileUrl = ''https://u'', destinationPath = ''/d'', destinationDirectoryName = ''d'',
     temporaryFilename = ''t'', originalFilename = ''i'', opt_fileName = None, progressIsThrottled = None, persistLocalData = True\<rparr>"

theorem paused_download_is_offered_witness:
  "last (update_effects (run (update_step (\<lambda>a b. a \<noteq> b) ''1.0.0'') new_AppUpdateStore
     [DownloadEvent PROGRESS sample_info no_data, DownloadEvent PAUSE sample_info no_data, NewsfeedUpdate (Some sample_update),
      UAnswer 0 (UVersion []), InstallRequested])) = ManageAppUpdate ''/d/i'' (Some ''h'')"
proof -
  have "update_tasks new_AppUpdateStore = []" "up_version sample_update = Some ''2.0.0''" "[] \<noteq> ''2.0.0''" "''1.0.0'' \<noteq> ''2.0.0''"
    by (simp_all add: new_AppUpdateStore_def sample_update_def)
  from paused_download_is_offered [OF this(1,2,3), of "\<lambda>a b. a \<noteq> b" "''1.0.0''" sample_info no_data] this(4)
  show ?thesis by (simp add: Let_def sample_info_def sample_update_def del: run.simps)
qed
end
