(* ===== verification/Staking.thy ===== *)
theory Staking imports Wallets begin

text \<open>
  The staking store, \<open>stores/StakingStore.js\<close>: the polling of stake pools and its interval timers, the tracker that
  ends when no more pools arrive, the metadata (SMASH) server, delegation with its pending check, the fee of a delegation,
  the redemption of rewards, and the views on pools and rewards.
\<close>

section \<open>State\<close>

datatype poll_kind = RefreshPoll | PoolsPoll | TrackerPoll | DelegationPoll

text \<open>A timer carries its callback's argument: whether the request is for the metadata server, or the transaction checked.\<close>

datatype staking_timer =
    Refresh
  | Pools bool
  | Tracker
  | DelegationCheck string string        \<comment> \<open>transaction and wallet\<close>

fun kind_of :: "staking_timer \<Rightarrow> poll_kind" where
  "kind_of Refresh = RefreshPoll"
| "kind_of (Pools b) = PoolsPoll"
| "kind_of Tracker = TrackerPoll"
| "kind_of (DelegationCheck t w) = DelegationPoll"

datatype staking_task =
    PoolsCall bool
  | SmashGet
  | SmashLocal string
  | SmashDefault string
  | SmashSelect string
  | SmashStore string
  | InfoWasOpen
  | DelegationCall string                \<comment> \<open>joining or quitting, for a wallet\<close>
  | FeeWait string
  | FeeRequest string

datatype staking_effect =
    RequestStakePools int
  | UpdateSmashSettings string
  | StoreSmashServer string
  | StoreInfoWasOpen
  | RequestDelegation string
  | RefreshWallets
  | FeeKnown string "rat option"

record staking =
  isDelegationTransactionPending :: bool
  fetchingStakePoolsFailed :: bool
  selectedDelegationWalletId :: "string option"
  stake :: rat
  isRanking :: bool
  smashServerUrl :: "string option"
  smashServerUrlError :: bool
  smashServerLoading :: bool
  isFetchingStakePools :: bool
  numberOfStakePoolsFetched :: nat
  cyclesWithoutIncreasingStakePools :: nat
  stakingInfoWasOpen :: bool
  stakePoolsResult :: "stake_pool list option"
  interval_field :: "poll_kind \<Rightarrow> nat option"
  live_timers :: "(nat \<times> staking_timer) list"
  staking_next :: nat
  delegation_timeouts :: nat
  delegationFeeCalculationWalletId :: "string option"
  net_ready :: "bool \<times> bool \<times> bool"       \<comment> \<open>connected, synced, Sophie activated\<close>
  staking_tasks :: "staking_task list"
  staking_effects :: "staking_effect list"

definition st_emit :: "staking_effect \<Rightarrow> staking \<Rightarrow> staking" where
  "st_emit x s = s\<lparr>staking_effects := staking_effects s @ [x]\<rparr>"

definition st_task :: "staking_task \<Rightarrow> staking \<Rightarrow> staking" where
  "st_task t s = s\<lparr>staking_tasks := staking_tasks s @ [t]\<rparr>"

text \<open>\<open>clearInterval(this.field)\<close>, which keeps the field, and \<open>this.field = setInterval(..)\<close>.\<close>

definition clear_interval :: "poll_kind \<Rightarrow> staking \<Rightarrow> staking" where
  "clear_interval k s = (case interval_field s k of None \<Rightarrow> s
     | Some i \<Rightarrow> s\<lparr>live_timers := filter (\<lambda>t. fst t \<noteq> i) (live_timers s)\<rparr>)"

definition drop_interval :: "poll_kind \<Rightarrow> staking \<Rightarrow> staking" where
  "drop_interval k s = (clear_interval k s)\<lparr>interval_field := (interval_field s)(k := None)\<rparr>"

definition set_interval :: "staking_timer \<Rightarrow> staking \<Rightarrow> staking" where
  "set_interval t s = s\<lparr>interval_field := (interval_field s)(kind_of t := Some (staking_next s)),
     live_timers := live_timers s @ [(staking_next s, t)], staking_next := Suc (staking_next s)\<rparr>"

section \<open>Fetching the pools\<close>

definition resetIsRanking :: "staking \<Rightarrow> staking" where
  "resetIsRanking s = s\<lparr>isRanking := False\<rparr>"

datatype polling_type = RegularPolling | FailedPolling | KillPolling | SmashPolling

definition resetPolling :: "polling_type \<Rightarrow> staking \<Rightarrow> staking" where
  "resetPolling type s = (case type of
       KillPolling \<Rightarrow> drop_interval RefreshPoll (drop_interval PoolsPoll (s\<lparr>fetchingStakePoolsFailed := True\<rparr>))
     | FailedPolling \<Rightarrow>
         (let s1 = drop_interval PoolsPoll (s\<lparr>fetchingStakePoolsFailed := True\<rparr>)
          in if interval_field s1 RefreshPoll = None then set_interval Refresh s1 else s1)
     | _ \<Rightarrow> set_interval (Pools (type = SmashPolling))
              (clear_interval PoolsPoll (drop_interval RefreshPoll (s\<lparr>fetchingStakePoolsFailed := False\<rparr>))))"

definition getStakePoolsData :: "bool \<Rightarrow> staking \<Rightarrow> staking" where
  "getStakePoolsData isSmash s =
     (if net_ready s \<noteq> (True, True, True) then resetIsRanking s
      else st_task (PoolsCall isSmash) (st_emit (RequestStakePools \<lfloor>stake s * ENTROPICS_PER_BCC\<rfloor>) s))"

definition stakePools :: "staking \<Rightarrow> stake_pool list" where
  "stakePools s = (case stakePoolsResult s of None \<Rightarrow> [] | Some ps \<Rightarrow> ps)"

text \<open>An answer to the request for the pools; the network is not looked at again.\<close>

definition poolsAnswered :: "bool \<Rightarrow> stake_pool list option \<Rightarrow> staking \<Rightarrow> staking" where
  "poolsAnswered isSmash answer s = resetIsRanking (case answer of
       None \<Rightarrow> resetPolling FailedPolling s
     | Some ps \<Rightarrow> resetPolling (if isSmash then SmashPolling else RegularPolling) (s\<lparr>stakePoolsResult := Some ps\<rparr>))"

definition pollOnSync :: "staking \<Rightarrow> staking" where
  "pollOnSync s = (case net_ready s of (conn, synced, sophie) \<Rightarrow>
     if synced \<and> sophie then getStakePoolsData False s
     else resetPolling KillPolling (resetIsRanking s))"

definition rankStakePools :: "staking \<Rightarrow> staking" where
  "rankStakePools s = getStakePoolsData False (s\<lparr>isRanking := True\<rparr>)"

section \<open>The tracker\<close>

definition STAKE_POOLS_FETCH_TRACKER_CYCLES :: nat where "STAKE_POOLS_FETCH_TRACKER_CYCLES = 6"

definition stopStakePoolsFetchTracker :: "staking \<Rightarrow> staking" where
  "stopStakePoolsFetchTracker s = getStakePoolsData False ((clear_interval TrackerPoll s)
     \<lparr>numberOfStakePoolsFetched := 0, cyclesWithoutIncreasingStakePools := 0, isFetchingStakePools := False\<rparr>)"

definition startStakePoolsFetchTracker :: "staking \<Rightarrow> staking" where
  "startStakePoolsFetchTracker s =
     getStakePoolsData True (set_interval Tracker ((stopStakePoolsFetchTracker s)\<lparr>isFetchingStakePools := True\<rparr>))"

definition stakePoolsFetchTracker :: "staking \<Rightarrow> staking" where
  "stakePoolsFetchTracker s =
     (let n = length (stakePools s);
          s1 = s\<lparr>numberOfStakePoolsFetched := n,
                 cyclesWithoutIncreasingStakePools :=
                   (if numberOfStakePoolsFetched s = n \<and> n > 0 then Suc (cyclesWithoutIncreasingStakePools s) else 0)\<rparr>
      in if cyclesWithoutIncreasingStakePools s1 \<ge> STAKE_POOLS_FETCH_TRACKER_CYCLES then stopStakePoolsFetchTracker s1 else s1)"

section \<open>The metadata server\<close>

definition SMASH_NONE :: string where "SMASH_NONE = ''none''"
definition SMASH_DIRECT :: string where "SMASH_DIRECT = ''direct''"

record smash_env =
  smashUrl :: string
  smash_isSelfnode :: bool

definition SMASH_SERVERS_LIST :: "smash_env \<Rightarrow> (string \<times> string \<times> string) list" where
  "SMASH_SERVERS_LIST env = [(''tbco'', ''TBCO'', smashUrl env), (''direct'', ''direct'', ''direct'')]"

definition getSmashServerNameFromUrl :: "smash_env \<Rightarrow> string \<Rightarrow> string" where
  "getSmashServerNameFromUrl env u = foldl (\<lambda>result (i, name, x). if x = u then name else result) u (SMASH_SERVERS_LIST env)"

definition getSmashServerIdFromUrl :: "smash_env \<Rightarrow> string \<Rightarrow> string" where
  "getSmashServerIdFromUrl env u = foldl (\<lambda>result (i, name, x). if x = u then i else result) ''custom'' (SMASH_SERVERS_LIST env)"

definition getSmashSettings :: "staking \<Rightarrow> staking" where
  "getSmashSettings s = st_task SmashGet (s\<lparr>smashServerLoading := True\<rparr>)"

definition smashLoaded :: "string \<Rightarrow> staking \<Rightarrow> staking" where
  "smashLoaded u s = s\<lparr>smashServerUrl := Some u, smashServerLoading := False\<rparr>"

definition smashLocalAnswered :: "smash_env \<Rightarrow> string \<Rightarrow> string \<Rightarrow> staking \<Rightarrow> staking" where
  "smashLocalAnswered env server localSmashServer s =
     (if server = [] \<or> server = SMASH_NONE \<or> (server = SMASH_DIRECT \<and> localSmashServer \<noteq> SMASH_DIRECT)
      then (let u = (if smash_isSelfnode env then SMASH_DIRECT else smashUrl env)
            in st_task (SmashDefault u) (st_emit (UpdateSmashSettings u) s))
      else smashLoaded server s)"

definition selectSmashServerUrl :: "string \<Rightarrow> staking \<Rightarrow> staking" where
  "selectSmashServerUrl u s =
     (if u \<noteq> [] \<and> smashServerUrl s \<noteq> Some u
      then st_task (SmashSelect u) (st_emit (UpdateSmashSettings u) (s\<lparr>smashServerUrlError := False, smashServerLoading := True\<rparr>))
      else s)"

definition smashSelected :: "string \<Rightarrow> staking \<Rightarrow> staking" where
  "smashSelected u s =
     (let s1 = startStakePoolsFetchTracker (getStakePoolsData False (s\<lparr>stakePoolsResult := None\<rparr>))
      in st_task (SmashStore u) (st_emit (StoreSmashServer u)
           (s1\<lparr>smashServerUrl := Some u, smashServerUrlError := False, smashServerLoading := False\<rparr>)))"

definition smashFailed :: "staking \<Rightarrow> staking" where
  "smashFailed s = s\<lparr>smashServerUrlError := True, smashServerLoading := False\<rparr>"

definition resetSmashServerError :: "staking \<Rightarrow> staking" where
  "resetSmashServerError s = s\<lparr>smashServerUrlError := False, smashServerLoading := False\<rparr>"

section \<open>Delegation\<close>

text \<open>Joining and quitting a pool differ in the request only; a hardware wallet signs it elsewhere.\<close>

definition delegate :: "string \<Rightarrow> staking \<Rightarrow> staking" where
  "delegate walletId s =
     st_task (DelegationCall walletId) (st_emit (RequestDelegation walletId) (s\<lparr>isDelegationTransactionPending := True\<rparr>))"

definition resetStakePoolTransactionChecker :: "staking \<Rightarrow> staking" where
  "resetStakePoolTransactionChecker s =
     (st_emit RefreshWallets (drop_interval DelegationPoll s))\<lparr>isDelegationTransactionPending := False\<rparr>"

definition delegationAnswered :: "string \<Rightarrow> string option \<Rightarrow> staking \<Rightarrow> staking" where
  "delegationAnswered walletId transaction s = (case transaction of
       None \<Rightarrow> resetStakePoolTransactionChecker s
     | Some t \<Rightarrow> (set_interval (DelegationCheck t walletId) s)\<lparr>delegation_timeouts := Suc (delegation_timeouts s)\<rparr>)"

text \<open>The transactions are those of the recent request of the wallet, by id and whether their state is \<open>OK\<close>.\<close>

definition checkDelegationTransaction :: "string \<Rightarrow> (string \<times> bool) list \<Rightarrow> staking \<Rightarrow> staking" where
  "checkDelegationTransaction transactionId recent s =
     (if find (\<lambda>(i, ok). i = transactionId \<and> ok) recent \<noteq> None then resetStakePoolTransactionChecker s else s)"

text \<open>\<open>calculateDelegationFee\<close>: an answer for a wallet that is no longer asked about is dropped.\<close>

definition fee_executing :: "staking \<Rightarrow> bool" where
  "fee_executing s \<longleftrightarrow> list_ex (\<lambda>t. case t of FeeRequest w \<Rightarrow> True | _ \<Rightarrow> False) (staking_tasks s)"

definition calculateDelegationFee :: "bool \<Rightarrow> string \<Rightarrow> staking \<Rightarrow> staking" where
  "calculateDelegationFee known walletId s =
     (let s1 = s\<lparr>delegationFeeCalculationWalletId := Some walletId\<rparr>
      in if \<not> known then s1
         else if fee_executing s1 then st_task (FeeWait walletId) s1
         else st_task (FeeRequest walletId) s1)"

definition feeAnswered :: "string \<Rightarrow> rat \<Rightarrow> staking \<Rightarrow> staking" where
  "feeAnswered walletId fee s =
     st_emit (FeeKnown walletId (if delegationFeeCalculationWalletId s = Some walletId then Some fee else None)) s"

section \<open>The machine\<close>

datatype staking_answer =
    SRejected | SDone
  | SPools "stake_pool list"
  | SText string
  | SFlag bool
  | SFee rat

definition answer_staking :: "smash_env \<Rightarrow> staking_task \<Rightarrow> staking_answer \<Rightarrow> staking \<Rightarrow> staking" where
  "answer_staking env t a s = (case t of
       PoolsCall b \<Rightarrow> poolsAnswered b (case a of SPools ps \<Rightarrow> Some ps | _ \<Rightarrow> None) s
     | SmashGet \<Rightarrow> (case a of SText u \<Rightarrow> st_task (SmashLocal u) s | _ \<Rightarrow> s)
     | SmashLocal u \<Rightarrow> (case a of SText local \<Rightarrow> smashLocalAnswered env u local s | _ \<Rightarrow> s)
     | SmashDefault u \<Rightarrow> (case a of SDone \<Rightarrow> smashLoaded u s | _ \<Rightarrow> s)
     | SmashSelect u \<Rightarrow> (case a of SDone \<Rightarrow> smashSelected u s | _ \<Rightarrow> smashFailed s)
     | SmashStore u \<Rightarrow> (case a of SRejected \<Rightarrow> smashFailed s | _ \<Rightarrow> s)
     | InfoWasOpen \<Rightarrow> (case a of SFlag b \<Rightarrow> s\<lparr>stakingInfoWasOpen := b\<rparr> | _ \<Rightarrow> s)
     | DelegationCall w \<Rightarrow> delegationAnswered w (case a of SText i \<Rightarrow> Some i | _ \<Rightarrow> None) s
     | FeeWait w \<Rightarrow> st_task (FeeRequest w) s
     | FeeRequest w \<Rightarrow> (case a of SFee f \<Rightarrow> feeAnswered w f s | _ \<Rightarrow> s))"

definition staking_tick :: "(string \<times> bool) list \<Rightarrow> staking_timer \<Rightarrow> staking \<Rightarrow> staking" where
  "staking_tick recent t s = (case t of
       Refresh \<Rightarrow> getStakePoolsData False s
     | Pools b \<Rightarrow> getStakePoolsData b s
     | Tracker \<Rightarrow> stakePoolsFetchTracker s
     | DelegationCheck i w \<Rightarrow> checkDelegationTransaction i recent s)"

datatype staking_event =
    NetworkChanged "bool \<times> bool \<times> bool"
  | SyncReaction
  | STick nat "(string \<times> bool) list"    \<comment> \<open>a timer and the wallet's recent transactions\<close>
  | TimeoutFires
  | SyncedAndReady
  | StakeChanged rat | RankPools | SelectSmash string | ResetSmashError
  | WalletSelected string
  | Delegate string
  | FeeAsked bool string
  | InfoOpened
  | SAnswer nat staking_answer

definition staking_step :: "smash_env \<Rightarrow> staking \<Rightarrow> staking_event \<Rightarrow> staking" where
  "staking_step env s e = (case e of
       NetworkChanged n \<Rightarrow> s\<lparr>net_ready := n\<rparr>
     | SyncReaction \<Rightarrow> pollOnSync s
     | STick i recent \<Rightarrow> (case map_of (live_timers s) i of None \<Rightarrow> s | Some t \<Rightarrow> staking_tick recent t s)
     | TimeoutFires \<Rightarrow> (if delegation_timeouts s = 0 then s
         else resetStakePoolTransactionChecker (s\<lparr>delegation_timeouts := delegation_timeouts s - 1\<rparr>))
     | SyncedAndReady \<Rightarrow> getSmashSettings s
     | StakeChanged x \<Rightarrow> s\<lparr>stake := x\<rparr>
     | RankPools \<Rightarrow> rankStakePools s
     | SelectSmash u \<Rightarrow> selectSmashServerUrl u s
     | ResetSmashError \<Rightarrow> resetSmashServerError s
     | WalletSelected w \<Rightarrow> s\<lparr>selectedDelegationWalletId := Some w\<rparr>
     | Delegate w \<Rightarrow> delegate w s
     | FeeAsked known w \<Rightarrow> calculateDelegationFee known w s
     | InfoOpened \<Rightarrow> st_emit StoreInfoWasOpen (s\<lparr>stakingInfoWasOpen := True\<rparr>)
     | SAnswer k a \<Rightarrow> (if k < length (staking_tasks s)
         then answer_staking env (staking_tasks s ! k) a (s\<lparr>staking_tasks := remove_nth k (staking_tasks s)\<rparr>) else s))"

definition INITIAL_DELEGATION_FUNDS :: rat where "INITIAL_DELEGATION_FUNDS = 1000"

definition new_StakingStore :: staking where
  "new_StakingStore = \<lparr>isDelegationTransactionPending = False, fetchingStakePoolsFailed = False,
     selectedDelegationWalletId = None, stake = INITIAL_DELEGATION_FUNDS, isRanking = False, smashServerUrl = None,
     smashServerUrlError = False, smashServerLoading = False, isFetchingStakePools = False, numberOfStakePoolsFetched = 0,
     cyclesWithoutIncreasingStakePools = 0, stakingInfoWasOpen = False, stakePoolsResult = None, interval_field = Map.empty,
     live_timers = [], staking_next = 1, delegation_timeouts = 0, delegationFeeCalculationWalletId = None,
     net_ready = (False, False, False), staking_tasks = [], staking_effects = []\<rparr>"

definition setup_staking :: "staking \<Rightarrow> staking" where
  "setup_staking s = st_task InfoWasOpen (startStakePoolsFetchTracker (set_interval Refresh s))"

definition initialize_staking :: "staking \<Rightarrow> staking" where
  "initialize_staking s = pollOnSync (setup_staking s)"

section \<open>Views\<close>

definition CIRCULATING_SUPPLY :: rat where "CIRCULATING_SUPPLY = 31736470500"

definition maxDelegationFunds :: "rat \<Rightarrow> int" where
  "maxDelegationFunds desiredPoolNumber = \<lfloor>CIRCULATING_SUPPLY / desiredPoolNumber + 1/2\<rfloor>"

definition getStakePoolById :: "string \<Rightarrow> stake_pool list \<Rightarrow> stake_pool option" where
  "getStakePoolById i pools = find (\<lambda>p. stake_pool_id p = i) pools"

text \<open>The pool a wallet delegates to, or will delegate to last.\<close>

definition wallet_pool :: "wallet \<Rightarrow> string option" where
  "wallet_pool w = (case pendingDelegations w of
       Some (d # ds) \<Rightarrow> lastDelegatedStakePoolId w
     | _ \<Rightarrow> delegatedStakePoolId w)"

definition add_delegated :: "stake_pool list \<Rightarrow> stake_pool list \<Rightarrow> wallet \<Rightarrow> stake_pool list" where
  "add_delegated pools found w = (case wallet_pool w of
       None \<Rightarrow> found
     | Some i \<Rightarrow>
         if i = [] \<or> find (\<lambda>p. stake_pool_id p = i) found \<noteq> None then found
         else (case find (\<lambda>p. stake_pool_id p = i) pools of None \<Rightarrow> found | Some p \<Rightarrow> found @ [p]))"

definition recentStakePools :: "stake_pool list \<Rightarrow> wallet list \<Rightarrow> stake_pool list" where
  "recentStakePools pools wallets = order_asc (\<lambda>p. int (ranking p)) (foldl (add_delegated pools) [] wallets)"

record reward_row =
  reward_wallet :: string
  reward_amount :: "rat option"           \<comment> \<open>None: not a number\<close>
  reward_isRestoring :: bool
  reward_syncingProgress :: "rat option"
  reward_address :: "string option"

definition transformWalletToReward :: "(string \<rightharpoonup> string) \<Rightarrow> (string \<rightharpoonup> rat) \<Rightarrow> wallet \<Rightarrow> reward_row" where
  "transformWalletToReward stakeAddresses withdrawals w = \<lparr>reward_wallet = wallet_name w,
     reward_amount = map_option (\<lambda>x. reward w + x) (withdrawals (wallet_id w)),
     reward_isRestoring = isRestoring w, reward_syncingProgress = sync_quantity (syncState w),
     reward_address = stakeAddresses (wallet_id w)\<rparr>"

definition rewards :: "(string \<rightharpoonup> string) \<Rightarrow> (string \<rightharpoonup> rat) \<Rightarrow> wallet list \<Rightarrow> reward_row list" where
  "rewards stakeAddresses withdrawals wallets = map (transformWalletToReward stakeAddresses withdrawals) wallets"

definition MIN_DELEGATION_FUNDS :: rat where "MIN_DELEGATION_FUNDS = 10"

definition getFilteredWallets :: "wallet list \<Rightarrow> wallet list" where
  "getFilteredWallets ws = filter (\<lambda>w. wallet_amount w \<ge> MIN_DELEGATION_FUNDS \<and> \<not> isLegacy w) ws"

definition getAllAmounts :: "wallet list \<Rightarrow> rat" where
  "getAllAmounts ws = (if getFilteredWallets ws \<noteq> [] then foldl (+) 0 (map wallet_amount (getFilteredWallets ws))
     else MIN_DELEGATION_FUNDS)"

section \<open>Redeeming rewards\<close>

datatype redeem_step = Configuration | Confirmation | Result

datatype redeem_task =
    FeesAddresses string
  | FeesRequest
  | ConfirmAddresses string
  | ConfirmRequest

record redemption =
  redeemStep :: "redeem_step option"
  redeemRecoveryPhrase :: "string list option"
  redeemWallet :: "wallet option"
  transactionFees :: "rat option"
  redeemedRewards :: "rat option"
  isSubmittingReedem :: bool
  isCalculatingReedemFees :: bool
  redeemSuccess :: "bool option"
  configurationStepError :: "string option"
  confirmationStepError :: "string option"
  redeem_tasks :: "redeem_task list"
  redeem_shown :: "string list"           \<comment> \<open>wallets whose page was shown\<close>

definition rd_task :: "redeem_task \<Rightarrow> redemption \<Rightarrow> redemption" where
  "rd_task t r = r\<lparr>redeem_tasks := redeem_tasks r @ [t]\<rparr>"

definition onRedeemStart :: "redemption \<Rightarrow> redemption" where
  "onRedeemStart r = r\<lparr>configurationStepError := None, confirmationStepError := None, redeemStep := Some Configuration\<rparr>"

definition onCalculateRedeemWalletFees :: "wallet option \<Rightarrow> string \<Rightarrow> string list \<Rightarrow> redemption \<Rightarrow> redemption" where
  "onCalculateRedeemWalletFees w walletId phrase r =
     rd_task (FeesAddresses walletId) (r\<lparr>redeemWallet := w, redeemRecoveryPhrase := Some phrase, isCalculatingReedemFees := True\<rparr>)"

definition feesCalculated :: "rat \<Rightarrow> redemption \<Rightarrow> redemption" where
  "feesCalculated fees r = r\<lparr>confirmationStepError := None, transactionFees := Some fees, isCalculatingReedemFees := False\<rparr>"

definition feesFailed :: "string \<Rightarrow> redemption \<Rightarrow> redemption" where
  "feesFailed e r = r\<lparr>configurationStepError := Some e, transactionFees := None, isCalculatingReedemFees := False\<rparr>"

definition onConfigurationContinue :: "redemption \<Rightarrow> redemption" where
  "onConfigurationContinue r =
     (if transactionFees r \<noteq> None \<and> redeemRecoveryPhrase r \<noteq> None
      then r\<lparr>redeemStep := Some Confirmation, confirmationStepError := None, configurationStepError := None\<rparr>
      else r\<lparr>redeemSuccess := Some False, redeemStep := Some Result\<rparr>)"

text \<open>Without a wallet or a phrase the handler throws, after it has said that it is submitting.\<close>

definition onConfirmationContinue :: "redemption \<Rightarrow> redemption" where
  "onConfirmationContinue r =
     (let r1 = r\<lparr>isSubmittingReedem := True\<rparr>
      in case redeemWallet r of
           None \<Rightarrow> r1
         | Some w \<Rightarrow> if redeemRecoveryPhrase r = None then r1 else rd_task (ConfirmAddresses (wallet_id w)) r1)"

definition redeemed :: "rat \<Rightarrow> redemption \<Rightarrow> redemption" where
  "redeemed x r = r\<lparr>redeemedRewards := Some x, redeemSuccess := Some True, redeemStep := Some Result,
     confirmationStepError := None, isSubmittingReedem := False\<rparr>"

definition INCORRECT_PASSWORD :: string where "INCORRECT_PASSWORD = ''api.errors.IncorrectPasswordError''"

definition redeemFailed :: "string \<Rightarrow> redemption \<Rightarrow> redemption" where
  "redeemFailed e r =
     (let r1 = r\<lparr>confirmationStepError := Some e, isSubmittingReedem := False\<rparr>
      in if e \<noteq> INCORRECT_PASSWORD then r1\<lparr>redeemSuccess := Some False, redeemStep := Some Result\<rparr> else r1)"

definition resetRedeemItnRewards :: "redemption \<Rightarrow> redemption" where
  "resetRedeemItnRewards r = r\<lparr>isSubmittingReedem := False, isCalculatingReedemFees := False, redeemSuccess := None,
     redeemWallet := None, transactionFees := None, redeemedRewards := None, redeemRecoveryPhrase := None,
     configurationStepError := None, confirmationStepError := None\<rparr>"

definition onResultContinue :: "redemption \<Rightarrow> redemption" where
  "onResultContinue r = (case redeemWallet r of
       None \<Rightarrow> r
     | Some w \<Rightarrow> resetRedeemItnRewards (r\<lparr>redeem_shown := redeem_shown r @ [wallet_id w], redeemStep := None\<rparr>))"

definition closeRedeemDialog :: "redemption \<Rightarrow> redemption" where
  "closeRedeemDialog r = (resetRedeemItnRewards r)\<lparr>redeemStep := None\<rparr>"

datatype redeem_answer =
    RFailed string
  | RAddresses "string list"
  | RAmount rat

text \<open>Without an address the destructured element is undefined, and reading its id throws: \<open>TypeError\<close>.\<close>

definition answer_redeem :: "redeem_task \<Rightarrow> redeem_answer \<Rightarrow> redemption \<Rightarrow> redemption" where
  "answer_redeem t a r = (case t of
       FeesAddresses w \<Rightarrow> (case a of
           RAddresses as \<Rightarrow> if as = [] then feesFailed ''TypeError'' r else rd_task FeesRequest r
         | RFailed e \<Rightarrow> feesFailed e r | _ \<Rightarrow> r)
     | FeesRequest \<Rightarrow> (case a of RAmount x \<Rightarrow> feesCalculated x r | RFailed e \<Rightarrow> feesFailed e r | _ \<Rightarrow> r)
     | ConfirmAddresses w \<Rightarrow> (case a of
           RAddresses as \<Rightarrow> if as = [] then redeemFailed ''TypeError'' r else rd_task ConfirmRequest r
         | RFailed e \<Rightarrow> redeemFailed e r | _ \<Rightarrow> r)
     | ConfirmRequest \<Rightarrow> (case a of RAmount x \<Rightarrow> redeemed x r | RFailed e \<Rightarrow> redeemFailed e r | _ \<Rightarrow> r))"

datatype redeem_event =
    RedeemStart
  | CalculateFees "wallet option" string "string list"
  | ConfigurationContinue | ConfirmationContinue | ResultContinue | CloseRedeem
  | RAnswer nat redeem_answer

definition redeem_event_step :: "redemption \<Rightarrow> redeem_event \<Rightarrow> redemption" where
  "redeem_event_step r e = (case e of
       RedeemStart \<Rightarrow> onRedeemStart r
     | CalculateFees w i p \<Rightarrow> onCalculateRedeemWalletFees w i p r
     | ConfigurationContinue \<Rightarrow> onConfigurationContinue r
     | ConfirmationContinue \<Rightarrow> onConfirmationContinue r
     | ResultContinue \<Rightarrow> onResultContinue r
     | CloseRedeem \<Rightarrow> closeRedeemDialog r
     | RAnswer k a \<Rightarrow> (if k < length (redeem_tasks r)
         then answer_redeem (redeem_tasks r ! k) a (r\<lparr>redeem_tasks := remove_nth k (redeem_tasks r)\<rparr>) else r))"

definition new_redemption :: redemption where
  "new_redemption = \<lparr>redeemStep = None, redeemRecoveryPhrase = None, redeemWallet = None, transactionFees = None,
     redeemedRewards = None, isSubmittingReedem = False, isCalculatingReedemFees = False, redeemSuccess = None,
     configurationStepError = None, confirmationStepError = None, redeem_tasks = [], redeem_shown = []\<rparr>"

section \<open>The pollers\<close>

text \<open>
  A live timer is the one in the field of its kind, delegation checks apart; ids are unique; and of the
  two fields that poll the pools one is empty.
\<close>

definition pollers_ok :: "staking \<Rightarrow> bool" where
  "pollers_ok s \<longleftrightarrow> (\<forall>(i, t) \<in> set (live_timers s). kind_of t \<noteq> DelegationPoll \<longrightarrow> interval_field s (kind_of t) = Some i)
     \<and> distinct (map fst (live_timers s)) \<and> (\<forall>(i, t) \<in> set (live_timers s). i < staking_next s)
     \<and> (interval_field s RefreshPoll = None \<or> interval_field s PoolsPoll = None)"

definition same_timers :: "staking \<Rightarrow> staking \<Rightarrow> bool" where
  "same_timers s s' \<longleftrightarrow> live_timers s' = live_timers s \<and> interval_field s' = interval_field s \<and> staking_next s' = staking_next s"

lemma pollers_same: "same_timers s s' \<Longrightarrow> pollers_ok s \<Longrightarrow> pollers_ok s'"
  by (simp add: same_timers_def pollers_ok_def)

lemma same_timers_simps [simp]:
  "same_timers s (st_emit x s') = same_timers s s'" "same_timers s (st_task t s') = same_timers s s'"
  "same_timers s (resetIsRanking s') = same_timers s s'" "same_timers s s"
  by (simp_all add: same_timers_def st_emit_def st_task_def resetIsRanking_def)

lemma same_getStakePoolsData [simp]: "same_timers s (getStakePoolsData b s') = same_timers s s'"
  by (simp add: getStakePoolsData_def)

lemma stake_pollers_clear: "pollers_ok s \<Longrightarrow> pollers_ok (clear_interval k s)"
  by (auto simp: pollers_ok_def clear_interval_def distinct_map_filter split: option.split)

lemma pollers_drop: "pollers_ok s \<Longrightarrow> pollers_ok (drop_interval k s)"
proof -
  assume ok: "pollers_ok s"
  then have c: "pollers_ok (clear_interval k s)" by (rule stake_pollers_clear)
  have "\<forall>(i, t) \<in> set (live_timers (clear_interval k s)). kind_of t \<noteq> DelegationPoll \<longrightarrow> kind_of t \<noteq> k"
    using ok by (auto simp: pollers_ok_def clear_interval_def split: option.splits)
  moreover have "interval_field (clear_interval k s) = interval_field s"
    by (simp add: clear_interval_def split: option.split)
  ultimately show ?thesis using c by (fastforce simp: drop_interval_def pollers_ok_def)
qed

text \<open>A timer can be set when no other of its kind is live.\<close>

definition none_live :: "poll_kind \<Rightarrow> staking \<Rightarrow> bool" where
  "none_live k s \<longleftrightarrow> (\<forall>(i, t) \<in> set (live_timers s). kind_of t \<noteq> k)"

lemma stake_pollers_set:
  assumes "pollers_ok s" and "kind_of t \<noteq> DelegationPoll \<longrightarrow> none_live (kind_of t) s"
    and "kind_of t = RefreshPoll \<longrightarrow> interval_field s PoolsPoll = None"
    and "kind_of t = PoolsPoll \<longrightarrow> interval_field s RefreshPoll = None"
  shows "pollers_ok (set_interval t s)"
  using assms by (fastforce simp: pollers_ok_def set_interval_def none_live_def less_Suc_eq)

lemma none_live_cleared: "pollers_ok s \<Longrightarrow> k \<noteq> DelegationPoll \<Longrightarrow> none_live k (clear_interval k s)"
  by (auto simp: pollers_ok_def clear_interval_def none_live_def split: option.splits)

lemma none_live_empty: "pollers_ok s \<Longrightarrow> k \<noteq> DelegationPoll \<Longrightarrow> interval_field s k = None \<Longrightarrow> none_live k s"
  by (auto simp: pollers_ok_def none_live_def)

lemma interval_field_frames [simp]:
  "interval_field (clear_interval k s) = interval_field s"
  "interval_field (drop_interval k s) = (interval_field s)(k := None)"
  by (simp_all add: clear_interval_def drop_interval_def split: option.split)

lemma pollers_reset: "pollers_ok s \<Longrightarrow> pollers_ok (resetPolling p s)"
proof -
  assume ok: "pollers_ok s"
  have failed: "pollers_ok (s\<lparr>fetchingStakePoolsFailed := b\<rparr>)" for b
    using ok by (rule pollers_same [rotated]) (simp add: same_timers_def)
  have fetch: "pollers_ok (set_interval (Pools b)
      (clear_interval PoolsPoll (drop_interval RefreshPoll (s\<lparr>fetchingStakePoolsFailed := False\<rparr>))))" for b
    by (intro stake_pollers_set stake_pollers_clear pollers_drop failed) (simp_all add: none_live_cleared pollers_drop failed)
  have drop: "pollers_ok (drop_interval PoolsPoll (s\<lparr>fetchingStakePoolsFailed := True\<rparr>))"
    by (intro pollers_drop failed)
  show ?thesis
  proof (cases p)
    case KillPolling
    then show ?thesis by (simp add: resetPolling_def pollers_drop failed)
  next
    case FailedPolling
    have "pollers_ok (set_interval Refresh (drop_interval PoolsPoll (s\<lparr>fetchingStakePoolsFailed := True\<rparr>)))"
      if "interval_field s RefreshPoll = None"
      using that by (intro stake_pollers_set drop) (simp_all add: none_live_empty [OF drop])
    with drop FailedPolling show ?thesis by (simp add: resetPolling_def Let_def)
  qed (use fetch [of True] fetch [of False] in \<open>simp_all add: resetPolling_def\<close>)
qed

lemma pollers_stop: "pollers_ok s \<Longrightarrow> pollers_ok (stopStakePoolsFetchTracker s)"
  unfolding stopStakePoolsFetchTracker_def
  by (rule pollers_same [OF _ stake_pollers_clear [of s TrackerPoll]]) (simp_all add: same_timers_def [of "clear_interval TrackerPoll s"])

lemma same_timers_trans: "same_timers s s' \<Longrightarrow> same_timers s' s'' \<Longrightarrow> same_timers s s''"
  by (simp add: same_timers_def)

lemma none_live_same: "same_timers s s' \<Longrightarrow> none_live k s \<Longrightarrow> none_live k s'"
  by (simp add: same_timers_def none_live_def)

lemma same_stop: "same_timers (clear_interval TrackerPoll s) (stopStakePoolsFetchTracker s)"
  by (simp add: stopStakePoolsFetchTracker_def) (simp add: same_timers_def)

lemma pollers_start: "pollers_ok s \<Longrightarrow> pollers_ok (startStakePoolsFetchTracker s)"
proof -
  assume ok: "pollers_ok s"
  let ?s = "(stopStakePoolsFetchTracker s)\<lparr>isFetchingStakePools := True\<rparr>"
  have same: "same_timers (clear_interval TrackerPoll s) ?s"
    using same_stop [of s] by (simp add: same_timers_def)
  have "pollers_ok (set_interval Tracker ?s)"
    using pollers_same [OF same stake_pollers_clear [OF ok]] none_live_same [OF same none_live_cleared [OF ok]]
    by (intro stake_pollers_set) simp_all
  then show ?thesis
    unfolding startStakePoolsFetchTracker_def by (rule pollers_same [rotated]) simp
qed

lemma pollers_delegation: "pollers_ok s \<Longrightarrow> pollers_ok (set_interval (DelegationCheck t w) s)"
  by (rule stake_pollers_set) simp_all

lemma pollers_reset_checker: "pollers_ok s \<Longrightarrow> pollers_ok (resetStakePoolTransactionChecker s)"
  unfolding resetStakePoolTransactionChecker_def
  by (rule pollers_same [OF _ pollers_drop [of s DelegationPoll]]) (simp_all add: same_timers_def st_emit_def)

text \<open>What touches no timer, in one place.\<close>

lemma same_timers_ops:
  "same_timers s (smashLoaded u s)" "same_timers s (smashFailed s)" "same_timers s (smashLocalAnswered env u l s)"
  "same_timers s (selectSmashServerUrl u s)" "same_timers s (calculateDelegationFee b w s)" "same_timers s (feeAnswered w f s)"
  "same_timers s (getSmashSettings s)" "same_timers s (resetSmashServerError s)" "same_timers s (delegate w s)"
  "same_timers s (rankStakePools s)" "same_timers s (s\<lparr>staking_tasks := ts\<rparr>)" "same_timers s (s\<lparr>stakingInfoWasOpen := b\<rparr>)"
  "same_timers s (s\<lparr>stakePoolsResult := r\<rparr>)" "same_timers s (s\<lparr>delegation_timeouts := n\<rparr>)"
  "same_timers s (s\<lparr>net_ready := x\<rparr>)" "same_timers s (s\<lparr>stake := y\<rparr>)" "same_timers s (s\<lparr>selectedDelegationWalletId := z\<rparr>)"
  by (simp_all add: smashLoaded_def smashFailed_def smashLocalAnswered_def selectSmashServerUrl_def calculateDelegationFee_def
      feeAnswered_def getSmashSettings_def resetSmashServerError_def delegate_def rankStakePools_def getStakePoolsData_def
      same_timers_def st_emit_def st_task_def resetIsRanking_def Let_def)

lemma pollers_smashSelected: "pollers_ok s \<Longrightarrow> pollers_ok (smashSelected u s)"
proof -
  assume "pollers_ok s"
  then have "pollers_ok (s\<lparr>stakePoolsResult := None\<rparr>)" by (rule pollers_same [rotated]) (simp add: same_timers_ops)
  then have "pollers_ok (getStakePoolsData False (s\<lparr>stakePoolsResult := None\<rparr>))" by (rule pollers_same [rotated]) simp
  then have "pollers_ok (startStakePoolsFetchTracker (getStakePoolsData False (s\<lparr>stakePoolsResult := None\<rparr>)))"
    by (rule pollers_start)
  then show ?thesis
    unfolding smashSelected_def Let_def by (rule pollers_same [rotated]) (simp add: same_timers_def st_emit_def st_task_def)
qed

lemma pollers_poolsAnswered: "pollers_ok s \<Longrightarrow> pollers_ok (poolsAnswered b a s)"
proof -
  assume ok: "pollers_ok s"
  have r: "pollers_ok (s\<lparr>stakePoolsResult := Some ps\<rparr>)" for ps
    using ok by (rule pollers_same [rotated]) (simp add: same_timers_ops)
  have "pollers_ok (case a of None \<Rightarrow> resetPolling FailedPolling s
      | Some ps \<Rightarrow> resetPolling (if b then SmashPolling else RegularPolling) (s\<lparr>stakePoolsResult := Some ps\<rparr>))"
    using ok r by (auto intro!: pollers_reset split: option.split)
  then show ?thesis unfolding poolsAnswered_def by (rule pollers_same [rotated]) simp
qed

lemma pollers_answer: "pollers_ok s \<Longrightarrow> pollers_ok (answer_staking env t a s)"
proof -
  assume ok: "pollers_ok s"
  have keep: "same_timers s s' \<Longrightarrow> pollers_ok s'" for s' using ok by (rule pollers_same [rotated])
  have d: "pollers_ok ((set_interval (DelegationCheck i w) s)\<lparr>delegation_timeouts := n\<rparr>)" for i w n
    using pollers_delegation [OF ok] by (rule pollers_same [rotated]) (simp add: same_timers_def)
  show ?thesis
    by (cases t) (use ok d in \<open>auto simp: answer_staking_def delegationAnswered_def same_timers_ops
        intro!: keep pollers_poolsAnswered pollers_smashSelected pollers_reset_checker split: staking_answer.split\<close>)
qed

lemma pollers_tracker: "pollers_ok s \<Longrightarrow> pollers_ok (stakePoolsFetchTracker s)"
proof -
  assume ok: "pollers_ok s"
  have "pollers_ok (s\<lparr>numberOfStakePoolsFetched := m, cyclesWithoutIncreasingStakePools := n\<rparr>)" for m n
    using ok by (rule pollers_same [rotated]) (simp add: same_timers_def)
  then show ?thesis by (simp add: stakePoolsFetchTracker_def Let_def pollers_stop)
qed

lemma pollers_pollOnSync: "pollers_ok s \<Longrightarrow> pollers_ok (pollOnSync s)"
proof -
  assume ok: "pollers_ok s"
  have "pollers_ok (resetIsRanking s)" "pollers_ok (getStakePoolsData False s)"
    using ok by (auto intro: pollers_same [rotated])
  then show ?thesis by (auto simp: pollOnSync_def intro!: pollers_reset split: prod.split)
qed

lemma pollers_step: "pollers_ok s \<Longrightarrow> pollers_ok (staking_step env s e)"
proof -
  assume ok: "pollers_ok s"
  have keep: "same_timers s s' \<Longrightarrow> pollers_ok s'" for s' using ok by (rule pollers_same [rotated])
  have k2: "pollers_ok (s\<lparr>delegation_timeouts := n\<rparr>)" "pollers_ok (s\<lparr>staking_tasks := ts\<rparr>)" for n ts
    by (intro keep; simp add: same_timers_ops)+
  have info: "same_timers s (st_emit x (s\<lparr>stakingInfoWasOpen := True\<rparr>))" for x by (simp add: same_timers_ops)
  have tick: "pollers_ok (staking_tick recent t s)" for recent t
    by (cases t) (use ok in \<open>auto simp: staking_tick_def checkDelegationTransaction_def pollers_tracker intro!: keep pollers_reset_checker\<close>)
  show ?thesis
    by (cases e) (use ok tick in \<open>auto simp: staking_step_def same_timers_ops info k2
        intro!: keep pollers_pollOnSync pollers_reset_checker pollers_answer split: option.split\<close>)
qed

interpretation staking: machine "staking_step env" pollers_ok for env
  by unfold_locales (rule pollers_step)

lemma pollers_initial: "pollers_ok (initialize_staking new_StakingStore)"
proof -
  have new: "pollers_ok new_StakingStore" by (simp add: pollers_ok_def new_StakingStore_def)
  have "pollers_ok (set_interval Refresh new_StakingStore)"
    by (rule stake_pollers_set [OF new]) (simp_all add: none_live_def new_StakingStore_def)
  then have "pollers_ok (st_task InfoWasOpen (startStakePoolsFetchTracker (set_interval Refresh new_StakingStore)))"
    by (rule pollers_same [OF _ pollers_start, rotated]) simp
  then show ?thesis by (simp add: initialize_staking_def setup_staking_def pollers_pollOnSync)
qed

lemma all_same_length: "distinct (map fst xs) \<Longrightarrow> \<forall>x \<in> set xs. Some (fst x) = v \<Longrightarrow> length xs \<le> 1"
  by (cases xs rule: remdups_adj.cases) auto

lemma one_of_kind:
  assumes "pollers_ok s" and "k \<noteq> DelegationPoll"
  shows "length (filter (\<lambda>t. kind_of (snd t) = k) (live_timers s)) \<le> 1"
  by (rule all_same_length [where v = "interval_field s k"])
    (use assms in \<open>auto simp: pollers_ok_def distinct_map_filter\<close>)

text \<open>
  C12. The pools are never polled twice at the same time. Whatever happens after the store has been set up,
  answers late or out of order, changes of the network, selections of a server, restarts of the tracker, at most one of the
  fast and the slow poller is alive, at most one tracker, and each is the one that the store can still clear.
\<close>

theorem one_pool_poller:
  shows "let s = run (staking_step env) (initialize_staking new_StakingStore) es;
             alive = (\<lambda>k. filter (\<lambda>t. kind_of (snd t) = k) (live_timers s))
    in length (alive RefreshPoll) + length (alive PoolsPoll) \<le> 1 \<and> length (alive TrackerPoll) \<le> 1
     \<and> (\<forall>k. k \<noteq> DelegationPoll \<longrightarrow> (\<forall>t \<in> set (alive k). interval_field s k = Some (fst t)))"
proof -
  let ?s = "run (staking_step env) (initialize_staking new_StakingStore) es"
  have ok: "pollers_ok ?s" by (rule staking.run_inv [OF pollers_initial])
  then have field: "\<forall>t \<in> set (live_timers ?s). kind_of (snd t) \<noteq> DelegationPoll \<longrightarrow> interval_field ?s (kind_of (snd t)) = Some (fst t)"
    by (auto simp: pollers_ok_def)
  have "filter (\<lambda>t. kind_of (snd t) = RefreshPoll) (live_timers ?s) = [] \<or> filter (\<lambda>t. kind_of (snd t) = PoolsPoll) (live_timers ?s) = []"
    using ok field unfolding pollers_ok_def filter_empty_conv by (metis option.distinct(1) poll_kind.distinct(5,9))
  with one_of_kind [OF ok, of RefreshPoll] one_of_kind [OF ok, of PoolsPoll] one_of_kind [OF ok, of TrackerPoll] field
  show ?thesis by (auto simp: Let_def)
qed

definition sample_smash :: smash_env where
  "sample_smash = \<lparr>smashUrl = ''https://smash'', smash_isSelfnode = False\<rparr>"

theorem one_pool_poller_witness:
  "let s = run (staking_step sample_smash) (initialize_staking new_StakingStore) [SyncedAndReady, SAnswer 0 (SText ''https://smash'')]
   in length (filter (\<lambda>t. kind_of (snd t) = RefreshPoll) (live_timers s))
        + length (filter (\<lambda>t. kind_of (snd t) = PoolsPoll) (live_timers s)) \<le> 1"
  using one_pool_poller [of sample_smash "[SyncedAndReady, SAnswer 0 (SText ''https://smash'')]"]
  by (simp add: Let_def del: run.simps)

section \<open>The tracker ends\<close>

lemma tracker_tick:
  assumes "map_of (live_timers s) i = Some Tracker" and "numberOfStakePoolsFetched s = length (stakePools s)"
    and "length (stakePools s) > 0" and "Suc (cyclesWithoutIncreasingStakePools s) < STAKE_POOLS_FETCH_TRACKER_CYCLES"
  shows "staking_step env s (STick i recent) = s\<lparr>cyclesWithoutIncreasingStakePools := Suc (cyclesWithoutIncreasingStakePools s)\<rparr>"
  using assms by (simp add: staking_step_def staking_tick_def stakePoolsFetchTracker_def Let_def)

lemma tracker_ticks:
  assumes "map_of (live_timers s) i = Some Tracker" and "numberOfStakePoolsFetched s = length (stakePools s)"
    and "length (stakePools s) > 0"
  shows "cyclesWithoutIncreasingStakePools s + n < STAKE_POOLS_FETCH_TRACKER_CYCLES \<Longrightarrow>
    run (staking_step env) s (replicate n (STick i recent))
      = s\<lparr>cyclesWithoutIncreasingStakePools := cyclesWithoutIncreasingStakePools s + n\<rparr>"
  using assms
proof (induction n arbitrary: s)
  case (Suc n)
  let ?s = "s\<lparr>cyclesWithoutIncreasingStakePools := Suc (cyclesWithoutIncreasingStakePools s)\<rparr>"
  have "staking_step env s (STick i recent) = ?s"
    using Suc.prems by (intro tracker_tick) simp_all
  moreover have "run (staking_step env) ?s (replicate n (STick i recent))
      = ?s\<lparr>cyclesWithoutIncreasingStakePools := cyclesWithoutIncreasingStakePools ?s + n\<rparr>"
    using Suc.prems by (intro Suc.IH) (simp_all add: stakePools_def)
  ultimately show ?case by simp
qed simp

text \<open>
  C40. The tracker ends. Once pools have arrived and no more come, seven ticks of its timer stop it: the timer is
  gone, the store no longer says that it is fetching, and its counters are back at zero.
\<close>

theorem tracker_stops:
  assumes "interval_field s TrackerPoll = Some i" and "map_of (live_timers s) i = Some Tracker"
    and "stakePools s \<noteq> []" and "cyclesWithoutIncreasingStakePools s = 0" and "numberOfStakePoolsFetched s \<noteq> length (stakePools s)"
  shows "let s' = run (staking_step env) s (replicate 7 (STick i recent))
    in \<not> isFetchingStakePools s' \<and> map_of (live_timers s') i = None
     \<and> numberOfStakePoolsFetched s' = 0 \<and> cyclesWithoutIncreasingStakePools s' = 0"
proof -
  let ?s1 = "s\<lparr>numberOfStakePoolsFetched := length (stakePools s)\<rparr>"
  have 1: "staking_step env s (STick i recent) = ?s1"
    using assms by (simp add: staking_step_def staking_tick_def stakePoolsFetchTracker_def Let_def STAKE_POOLS_FETCH_TRACKER_CYCLES_def)
  have 2: "run (staking_step env) ?s1 (replicate 5 (STick i recent)) = ?s1\<lparr>cyclesWithoutIncreasingStakePools := 5\<rparr>"
    using assms by (subst tracker_ticks) (simp_all add: stakePools_def STAKE_POOLS_FETCH_TRACKER_CYCLES_def)
  let ?s6 = "?s1\<lparr>cyclesWithoutIncreasingStakePools := 5\<rparr>"
  have 3: "staking_step env ?s6 (STick i recent)
      = stopStakePoolsFetchTracker (?s1\<lparr>cyclesWithoutIncreasingStakePools := 6\<rparr>)"
    using assms by (simp add: staking_step_def staking_tick_def stakePoolsFetchTracker_def stakePools_def Let_def
        STAKE_POOLS_FETCH_TRACKER_CYCLES_def split: option.splits)
  have seven: "replicate 7 (STick i recent) = STick i recent # replicate 5 (STick i recent) @ [STick i recent]"
    by (simp add: eval_nat_numeral)
  have "run (staking_step env) s (replicate 7 (STick i recent)) = stopStakePoolsFetchTracker (?s1\<lparr>cyclesWithoutIncreasingStakePools := 6\<rparr>)"
    unfolding seven by (simp add: 1 2 3 del: replicate.simps)
  with assms(1) show ?thesis
    by (auto simp: Let_def stopStakePoolsFetchTracker_def getStakePoolsData_def resetIsRanking_def st_task_def st_emit_def
        clear_interval_def map_of_eq_None_iff)
qed

definition sample_pool :: stake_pool where
  "sample_pool = \<lparr>stake_pool_id = ''p'', relativeStake = 0, producedBlocks = 0, potentialRewards = 0, nonMyopicMemberRewards = 0,
     ticker = ''P'', homepage = [], cost = 0, description = [], isCharity = False, stake_pool_name = ''p'', pledge = 0,
     profitMargin = 0, ranking = 1, retiring = None, saturation = 0\<rparr>"

theorem tracker_stops_witness:
  "\<not> isFetchingStakePools (run (staking_step sample_smash)
     (new_StakingStore\<lparr>interval_field := [TrackerPoll \<mapsto> 1], live_timers := [(1, Tracker)], isFetchingStakePools := True,
        stakePoolsResult := Some [sample_pool]\<rparr>) (replicate 7 (STick 1 [])))"
  using tracker_stops [of "new_StakingStore\<lparr>interval_field := [TrackerPoll \<mapsto> 1], live_timers := [(1, Tracker)],
      isFetchingStakePools := True, stakePoolsResult := Some [sample_pool]\<rparr>" 1 sample_smash "[]"]
  by (simp add: Let_def stakePools_def new_StakingStore_def)

section \<open>Delegation checks\<close>

text \<open>
  Two delegations at a time leave a checker behind. When a second delegation is submitted before the first has been
  seen in the ledger, the first one's timer is overwritten: after both have timed out the store can no longer clear it, while it
  keeps checking.
\<close>

theorem second_delegation_leaks_a_checker:
  assumes "staking_tasks s = []" and "interval_field s DelegationPoll = None" and "delegation_timeouts s = 0"
    and "\<forall>(i, t) \<in> set (live_timers s). i < staking_next s"
  shows "let s' = run (staking_step env) s [Delegate w, Delegate w', SAnswer 0 (SText a), SAnswer 0 (SText b), TimeoutFires, TimeoutFires]
    in (staking_next s, DelegationCheck a w) \<in> set (live_timers s') \<and> interval_field s' DelegationPoll = None
     \<and> \<not> isDelegationTransactionPending s'"
  using assms
  by (simp add: Let_def staking_step_def delegate_def st_task_def st_emit_def remove_nth_def answer_staking_def
      delegationAnswered_def set_interval_def resetStakePoolTransactionChecker_def drop_interval_def clear_interval_def)

theorem second_delegation_leaks_a_checker_witness:
  "(1, DelegationCheck ''a'' ''w'') \<in> set (live_timers (run (staking_step sample_smash) new_StakingStore
     [Delegate ''w'', Delegate ''v'', SAnswer 0 (SText ''a''), SAnswer 0 (SText ''b''), TimeoutFires, TimeoutFires]))"
  using second_delegation_leaks_a_checker [of new_StakingStore sample_smash "''w''" "''v''" "''a''" "''b''"]
  by (simp add: Let_def new_StakingStore_def del: run.simps)

text \<open>The timeout of an earlier delegation ends the wait for a later one.\<close>

lemma earlier_timeout_ends_the_wait:
  assumes "staking_tasks s = []" and "interval_field s DelegationPoll = None" and "delegation_timeouts s = 0"
    and "\<forall>(i, t) \<in> set (live_timers s). i < staking_next s"
  shows "\<not> isDelegationTransactionPending (run (staking_step env) s
    [Delegate w, SAnswer 0 (SText a), STick (staking_next s) [(a, True)], Delegate w', SAnswer 0 (SText b), TimeoutFires])"
proof -
  define s1 where "s1 = run (staking_step env) s [Delegate w, SAnswer 0 (SText a)]"
  have s1: "staking_tasks s1 = []" "delegation_timeouts s1 = 1" "map_of (live_timers s1) (staking_next s) = Some (DelegationCheck a w)"
    unfolding s1_def using assms by (auto simp: staking_step_def delegate_def st_task_def st_emit_def remove_nth_def answer_staking_def
        delegationAnswered_def set_interval_def map_add_Some_iff map_of_eq_None_iff)
  define s2 where "s2 = staking_step env s1 (STick (staking_next s) [(a, True)])"
  have s2: "staking_tasks s2 = []" "delegation_timeouts s2 = 1"
    unfolding s2_def using s1 by (simp_all add: staking_step_def staking_tick_def checkDelegationTransaction_def
        resetStakePoolTransactionChecker_def drop_interval_def clear_interval_def st_emit_def split: option.split)
  have "\<not> isDelegationTransactionPending (run (staking_step env) s2 [Delegate w', SAnswer 0 (SText b), TimeoutFires])"
    using s2 by (simp add: staking_step_def delegate_def st_task_def st_emit_def remove_nth_def answer_staking_def
        delegationAnswered_def set_interval_def resetStakePoolTransactionChecker_def)
  then show ?thesis by (simp add: s2_def s1_def)
qed

section \<open>Pools of the wallets\<close>

lemma find_pool:
  "find (\<lambda>p. stake_pool_id p = i) ps = None \<longleftrightarrow> i \<notin> stake_pool_id ` set ps"
  "find (\<lambda>p. stake_pool_id p = i) ps = Some p \<Longrightarrow> p \<in> set ps \<and> stake_pool_id p = i"
  by (induction ps) (auto split: if_splits)

lemma add_delegated_cases:
  obtains "add_delegated pools found w = found"
      and "\<And>i. wallet_pool w = Some i \<Longrightarrow> i \<noteq> [] \<Longrightarrow> i \<in> stake_pool_id ` set pools \<Longrightarrow> i \<in> stake_pool_id ` set found"
  | i p where "add_delegated pools found w = found @ [p]" and "wallet_pool w = Some i" and "i \<noteq> []" and "p \<in> set pools"
      and "stake_pool_id p = i" and "i \<notin> stake_pool_id ` set found"
proof (cases "wallet_pool w")
  case None
  then show ?thesis by (intro that(1)) (simp_all add: add_delegated_def)
next
  case (Some i)
  show ?thesis
  proof (cases "i = [] \<or> i \<in> stake_pool_id ` set found \<or> i \<notin> stake_pool_id ` set pools")
    case True
    then show ?thesis using Some find_pool(1) [of i found] find_pool(1) [of i pools]
      by (intro that(1)) (auto simp: add_delegated_def)
  next
    case False
    then obtain p where p: "find (\<lambda>p. stake_pool_id p = i) pools = Some p" using find_pool(1) [of i pools] by auto
    with False Some find_pool(1) [of i found] find_pool(2) [OF p] show ?thesis
      by (intro that(2) [of p i]) (auto simp: add_delegated_def)
  qed
qed

lemma add_delegated_sound:
  assumes "distinct (map stake_pool_id found)" and "set found \<subseteq> set pools"
  shows "distinct (map stake_pool_id (add_delegated pools found w)) \<and> set (add_delegated pools found w) \<subseteq> set pools"
  by (rule add_delegated_cases [of pools found w]) (use assms in auto)

lemma foldl_delegated_sound:
  "distinct (map stake_pool_id found) \<Longrightarrow> set found \<subseteq> set pools \<Longrightarrow>
   distinct (map stake_pool_id (foldl (add_delegated pools) found ws)) \<and> set (foldl (add_delegated pools) found ws) \<subseteq> set pools"
proof (induction ws arbitrary: found)
  case (Cons w ws)
  show ?case unfolding foldl_Cons by (rule Cons.IH) (use add_delegated_sound [OF Cons.prems] in auto)
qed simp

lemma add_delegated_ids:
  "stake_pool_id ` set (add_delegated pools found w)
     = stake_pool_id ` set found \<union> {i. wallet_pool w = Some i \<and> i \<noteq> [] \<and> i \<in> stake_pool_id ` set pools}"
  by (rule add_delegated_cases [of pools found w]) auto

lemma foldl_delegated_ids:
  "stake_pool_id ` set (foldl (add_delegated pools) found ws)
     = stake_pool_id ` set found \<union> {i. \<exists>w \<in> set ws. wallet_pool w = Some i \<and> i \<noteq> [] \<and> i \<in> stake_pool_id ` set pools}"
  by (induction ws arbitrary: found) (auto simp: add_delegated_ids)

text \<open>
  The pools listed for the wallets are exactly those of the known pools that some wallet delegates to, or
  will delegate to last when delegations are pending, each once, by their ranking.
\<close>

theorem recent_pools_are_delegated_to:
  shows "set (map stake_pool_id (recentStakePools pools wallets))
      = {i. \<exists>w \<in> set wallets. wallet_pool w = Some i \<and> i \<noteq> [] \<and> i \<in> set (map stake_pool_id pools)}
    \<and> distinct (map stake_pool_id (recentStakePools pools wallets))
    \<and> set (recentStakePools pools wallets) \<subseteq> set pools
    \<and> sorted (map ranking (recentStakePools pools wallets))"
proof -
  let ?found = "foldl (add_delegated pools) [] wallets"
  have sound: "distinct (map stake_pool_id ?found) \<and> set ?found \<subseteq> set pools"
    by (rule foldl_delegated_sound) simp_all
  have "mset (map stake_pool_id (recentStakePools pools wallets)) = mset (map stake_pool_id ?found)"
    by (simp add: recentStakePools_def)
  then have "distinct (map stake_pool_id (recentStakePools pools wallets))"
    using sound mset_eq_imp_distinct_iff by blast
  moreover have "sorted (map (\<lambda>p. int (ranking p)) (recentStakePools pools wallets))"
    unfolding recentStakePools_def by (rule sorted_order_asc)
  then have "sorted (map ranking (recentStakePools pools wallets))" by (simp add: sorted_map)
  ultimately show ?thesis
    using sound foldl_delegated_ids [of pools "[]" wallets] by (simp add: recentStakePools_def)
qed

section \<open>Redemption\<close>

text \<open>
  A wrong password keeps the confirmation step open; every other failure ends in the result. Closing
  the dialog while the rewards are being requested does not stop the request: its answer opens the result.
\<close>

lemma late_redemption_reopens:
  "redeem_tasks r = [ConfirmRequest] \<Longrightarrow>
     redeemStep (run redeem_event_step r [CloseRedeem, RAnswer 0 (RAmount x)]) = Some Result
   \<and> redeemWallet (run redeem_event_step r [CloseRedeem, RAnswer 0 (RAmount x)]) = None"
  by (simp add: redeem_event_step_def closeRedeemDialog_def resetRedeemItnRewards_def answer_redeem_def redeemed_def remove_nth_def)

lemma failed_fee_is_final:
  "transactionFees r = None \<Longrightarrow> redeemStep (onConfigurationContinue r) = Some Result \<and> redeemSuccess (onConfigurationContinue r) = Some False"
  by (simp add: onConfigurationContinue_def)

lemma wrong_password_stays:
  "redeemStep (redeemFailed INCORRECT_PASSWORD r) = redeemStep r \<and> (e \<noteq> INCORRECT_PASSWORD \<longrightarrow> redeemStep (redeemFailed e r) = Some Result)"
  by (simp add: redeemFailed_def Let_def)

text \<open>A failed calculation clears the fees, and a success is only reported with the rewards.\<close>

definition redemption_ok :: "redemption \<Rightarrow> bool" where
  "redemption_ok r \<longleftrightarrow> (redeemSuccess r = Some True \<longrightarrow> redeemedRewards r \<noteq> None)"

lemma redemption_ok_step: "redemption_ok r \<Longrightarrow> redemption_ok (redeem_event_step r e)"
  by (auto simp: redemption_ok_def redeem_event_step_def onRedeemStart_def onCalculateRedeemWalletFees_def rd_task_def
      onConfigurationContinue_def onConfirmationContinue_def onResultContinue_def resetRedeemItnRewards_def closeRedeemDialog_def
      answer_redeem_def feesFailed_def feesCalculated_def redeemed_def redeemFailed_def Let_def
      split: redeem_event.split redeem_task.split redeem_answer.split option.split)

interpretation redemption: machine redeem_event_step redemption_ok
  by unfold_locales (rule redemption_ok_step)
end
