(* ===== verification/Voting.thy ===== *)
theory Voting imports Prelude begin

text \<open>
  The voting store, \<open>stores/VotingStore.js\<close>: the registration of a wallet for voting, step by step, from the key
  and the signature over the registration's metadata to the confirmations of its transaction, with the two interval timers
  of the store. The key library is a parameter: a key is an opaque text whose public part is its image.
\<close>

section \<open>State\<close>

datatype voting_timer = TransactionPoll | EndCheck

text \<open>What a submission gathers on its way.\<close>

record voting_data =
  vd_wallet :: string
  vd_amount :: nat
  vd_passphrase :: "string option"
  vd_slot :: nat
  vd_address :: "string option"           \<comment> \<open>the first address, if there is one\<close>
  vd_stakeAddress :: "string option"
  vd_stakeAddressHex :: string
  vd_votingKey :: string
  vd_stakeKey :: string

datatype voting_task =
    VAddresses string nat "string option"
  | VHardware string
  | VAddressHex voting_data
  | VGenerate voting_data
  | VPublicKey voting_data
  | VKeyHex voting_data
  | VSign voting_data
  | VCreate string
  | VCheck

datatype voting_effect =
    SignMetadata voting_data
  | CreateVotingRegistration voting_data string
  | HardwareSend string
  | CheckTransaction "string option" "string option"

record voting =
  registrationStep :: int
  selectedWalletId :: "string option"
  transactionId :: "string option"
  transactionConfirmations :: nat
  isTransactionPending :: bool
  isTransactionConfirmed :: bool
  votingRegistrationKey :: "string option"
  qrCode :: "string option"
  isConfirmationDialogOpen :: bool
  isRegistrationEnded :: bool
  voting_field :: "voting_timer \<Rightarrow> nat option"
  voting_timers :: "(nat \<times> voting_timer) list"
  voting_next :: nat
  voting_tasks :: "voting_task list"
  voting_effects :: "voting_effect list"

definition v_emit :: "voting_effect \<Rightarrow> voting \<Rightarrow> voting" where
  "v_emit x s = s\<lparr>voting_effects := voting_effects s @ [x]\<rparr>"

definition v_task :: "voting_task \<Rightarrow> voting \<Rightarrow> voting" where
  "v_task t s = s\<lparr>voting_tasks := voting_tasks s @ [t]\<rparr>"

definition v_clear :: "voting_timer \<Rightarrow> voting \<Rightarrow> voting" where
  "v_clear k s = (case voting_field s k of None \<Rightarrow> s
     | Some i \<Rightarrow> s\<lparr>voting_timers := filter (\<lambda>t. fst t \<noteq> i) (voting_timers s)\<rparr>)"

definition v_set :: "voting_timer \<Rightarrow> voting \<Rightarrow> voting" where
  "v_set k s = s\<lparr>voting_field := (voting_field s)(k := Some (voting_next s)),
     voting_timers := voting_timers s @ [(voting_next s, k)], voting_next := Suc (voting_next s)\<rparr>"

section \<open>Operations\<close>

definition showConfirmationDialog :: "voting \<Rightarrow> voting" where
  "showConfirmationDialog s = s\<lparr>isConfirmationDialogOpen := True\<rparr>"

definition closeConfirmationDialog :: "voting \<Rightarrow> voting" where
  "closeConfirmationDialog s = s\<lparr>isConfirmationDialogOpen := False\<rparr>"

definition setSelectedWalletId :: "string \<Rightarrow> voting \<Rightarrow> voting" where
  "setSelectedWalletId w s = s\<lparr>selectedWalletId := Some w\<rparr>"

definition nextRegistrationStep :: "voting \<Rightarrow> voting" where
  "nextRegistrationStep s = s\<lparr>registrationStep := registrationStep s + 1\<rparr>"

definition previousRegistrationStep :: "voting \<Rightarrow> voting" where
  "previousRegistrationStep s = s\<lparr>registrationStep := registrationStep s - 1\<rparr>"

definition resetRegistration :: "voting \<Rightarrow> voting" where
  "resetRegistration s = v_clear EndCheck (v_clear TransactionPoll
     (s\<lparr>isConfirmationDialogOpen := False, registrationStep := 1, selectedWalletId := None, transactionId := None,
        transactionConfirmations := 0, isTransactionPending := False, isTransactionConfirmed := False,
        votingRegistrationKey := None, qrCode := None\<rparr>))"

definition startTransactionPolling :: "voting \<Rightarrow> voting" where
  "startTransactionPolling s = v_set TransactionPoll (v_clear TransactionPoll s)"

definition initializeRegistrationEndCheckInterval :: "voting \<Rightarrow> voting" where
  "initializeRegistrationEndCheckInterval s = v_set EndCheck (v_clear EndCheck s)"

text \<open>The metadata of a registration, the same keys and numbers as in the request for its signature.\<close>

datatype metadatum = MInt nat | MBytes string

definition voting_metadata :: "voting_data \<Rightarrow> (nat \<times> (nat \<times> metadatum) list) list" where
  "voting_metadata d =
     [(61284, [(1, MBytes (vd_votingKey d)), (2, MBytes (vd_stakeKey d)), (3, MBytes (vd_stakeAddressHex d)), (4, MInt (vd_slot d))]),
      (61285, [(1, MBytes (replicate 128 CHR ''0''))])]"

record voting_env =
  publicHex :: "string \<Rightarrow> string"                   \<comment> \<open>the hexadecimal public part of a key\<close>
  stakeAddresses :: "string \<rightharpoonup> string"
  voting_isHardware :: "string \<Rightarrow> bool"
  absoluteSlotNumber :: nat
  minConfirmations :: nat
  symmetricEncrypt :: "nat list \<Rightarrow> string \<Rightarrow> string"

definition sendTransaction :: "nat \<Rightarrow> string option \<Rightarrow> voting \<Rightarrow> voting" where
  "sendTransaction amount passphrase s = (case selectedWalletId s of
       None \<Rightarrow> s | Some w \<Rightarrow> if w = [] then s else v_task (VAddresses w amount passphrase) s)"

definition addressesKnown :: "voting_env \<Rightarrow> string \<Rightarrow> nat \<Rightarrow> string option \<Rightarrow> string list \<Rightarrow> voting \<Rightarrow> voting" where
  "addressesKnown env w amount passphrase as s =
     (let s1 = s\<lparr>isTransactionPending := True, isTransactionConfirmed := False\<rparr>
      in if voting_isHardware env w then v_task (VHardware w) (v_emit (HardwareSend w) s1)
         else v_task (VAddressHex \<lparr>vd_wallet = w, vd_amount = amount, vd_passphrase = passphrase,
                vd_slot = absoluteSlotNumber env, vd_address = (case as of [] \<Rightarrow> None | a # rest \<Rightarrow> Some a),
                vd_stakeAddress = stakeAddresses env w, vd_stakeAddressHex = [], vd_votingKey = [], vd_stakeKey = []\<rparr>) s1)"

text \<open>A wrong password keeps the screen, every other failure moves on; the first address may be missing.\<close>

definition voting_failed :: "bool \<Rightarrow> voting \<Rightarrow> voting" where
  "voting_failed wrongPassphrase s =
     (if wrongPassphrase then s\<lparr>isTransactionPending := False\<rparr> else nextRegistrationStep s)"

definition signed :: "voting_data \<Rightarrow> string \<Rightarrow> voting \<Rightarrow> voting" where
  "signed d signature s = (case vd_address d of
       None \<Rightarrow> voting_failed False s
     | Some a \<Rightarrow> v_task (VCreate (vd_wallet d)) (v_emit (CreateVotingRegistration d signature) s))"

definition checkVotingRegistrationTransaction :: "voting \<Rightarrow> voting" where
  "checkVotingRegistrationTransaction s = v_task VCheck (v_emit (CheckTransaction (selectedWalletId s) (transactionId s)) s)"

definition transactionChecked :: "voting_env \<Rightarrow> nat \<Rightarrow> bool \<Rightarrow> voting \<Rightarrow> voting" where
  "transactionChecked env confirmations ok s =
     (let s1 = s\<lparr>transactionConfirmations := confirmations\<rparr>;
          s2 = (if isTransactionPending s1 \<and> ok then s1\<lparr>isTransactionPending := False\<rparr> else s1)
      in if \<not> isTransactionConfirmed s2 \<and> confirmations \<ge> minConfirmations env
         then v_clear TransactionPoll (s2\<lparr>isTransactionConfirmed := True\<rparr>) else s2)"

definition checkVotingRegistrationEnd :: "bool \<Rightarrow> voting \<Rightarrow> voting" where
  "checkVotingRegistrationEnd afterEnd s = s\<lparr>isRegistrationEnded := afterEnd\<rparr>"

text \<open>The digits of the pin are the password of the encryption, four bytes long; more digits are dropped.\<close>

definition pin_password :: "nat list \<Rightarrow> nat list" where
  "pin_password digits = take 4 (digits @ replicate 4 0)"

definition generateQrCode :: "voting_env \<Rightarrow> nat list \<Rightarrow> voting \<Rightarrow> voting" where
  "generateQrCode env digits s = (case votingRegistrationKey s of
       None \<Rightarrow> s
     | Some key \<Rightarrow> nextRegistrationStep (s\<lparr>qrCode := Some (symmetricEncrypt env (pin_password digits) key)\<rparr>))"

datatype voting_answer =
    VFailed bool                           \<comment> \<open>whether the passphrase was wrong\<close>
  | VTexts "string list"
  | VText string
  | VChecked nat bool

definition answer_voting :: "voting_env \<Rightarrow> voting_task \<Rightarrow> voting_answer \<Rightarrow> voting \<Rightarrow> voting" where
  "answer_voting env t a s = (case t of
       VAddresses w amount p \<Rightarrow> (case a of VTexts as \<Rightarrow> addressesKnown env w amount p as s | _ \<Rightarrow> s)
     | VHardware w \<Rightarrow> (case a of VText i \<Rightarrow> s\<lparr>transactionId := Some i\<rparr> | VFailed b \<Rightarrow> voting_failed b s | _ \<Rightarrow> s)
     | VAddressHex d \<Rightarrow> (case a of VText x \<Rightarrow> v_task (VGenerate (d\<lparr>vd_stakeAddressHex := x\<rparr>)) s | VFailed b \<Rightarrow> voting_failed b s | _ \<Rightarrow> s)
     | VGenerate d \<Rightarrow> (case a of
           VText key \<Rightarrow> v_task (VPublicKey (d\<lparr>vd_votingKey := publicHex env key\<rparr>)) (s\<lparr>votingRegistrationKey := Some key\<rparr>)
         | VFailed b \<Rightarrow> voting_failed b s | _ \<Rightarrow> s)
     | VPublicKey d \<Rightarrow> (case a of VText x \<Rightarrow> v_task (VKeyHex d) s | VFailed b \<Rightarrow> voting_failed b s | _ \<Rightarrow> s)
     | VKeyHex d \<Rightarrow> (case a of
           VText x \<Rightarrow> v_task (VSign (d\<lparr>vd_stakeKey := x\<rparr>)) (v_emit (SignMetadata (d\<lparr>vd_stakeKey := x\<rparr>)) s)
         | VFailed b \<Rightarrow> voting_failed b s | _ \<Rightarrow> s)
     | VSign d \<Rightarrow> (case a of VText x \<Rightarrow> signed d x s | VFailed b \<Rightarrow> voting_failed b s | _ \<Rightarrow> s)
     | VCreate w \<Rightarrow> (case a of
           VText i \<Rightarrow> nextRegistrationStep (startTransactionPolling (s\<lparr>transactionId := Some i\<rparr>))
         | VFailed b \<Rightarrow> voting_failed b s | _ \<Rightarrow> s)
     | VCheck \<Rightarrow> (case a of VChecked n ok \<Rightarrow> transactionChecked env n ok s | _ \<Rightarrow> s))"

datatype voting_event =
    DialogShown | DialogClosed
  | WalletChosen string
  | StepForward | StepBack
  | ResetVoting
  | SendRegistration nat "string option"
  | QrRequested "nat list"
  | VTick nat bool                         \<comment> \<open>a timer, and whether the registration period is over\<close>
  | VAnswer nat voting_answer

definition voting_step :: "voting_env \<Rightarrow> voting \<Rightarrow> voting_event \<Rightarrow> voting" where
  "voting_step env s e = (case e of
       DialogShown \<Rightarrow> showConfirmationDialog s
     | DialogClosed \<Rightarrow> closeConfirmationDialog s
     | WalletChosen w \<Rightarrow> setSelectedWalletId w s
     | StepForward \<Rightarrow> nextRegistrationStep s
     | StepBack \<Rightarrow> previousRegistrationStep s
     | ResetVoting \<Rightarrow> resetRegistration s
     | SendRegistration n p \<Rightarrow> sendTransaction n p s
     | QrRequested ds \<Rightarrow> generateQrCode env ds s
     | VTick i over \<Rightarrow> (case map_of (voting_timers s) i of
           None \<Rightarrow> s
         | Some TransactionPoll \<Rightarrow> checkVotingRegistrationTransaction s
         | Some EndCheck \<Rightarrow> checkVotingRegistrationEnd over s)
     | VAnswer k a \<Rightarrow> (if k < length (voting_tasks s)
         then answer_voting env (voting_tasks s ! k) a (s\<lparr>voting_tasks := remove_nth k (voting_tasks s)\<rparr>) else s))"

definition new_VotingStore :: voting where
  "new_VotingStore = \<lparr>registrationStep = 1, selectedWalletId = None, transactionId = None, transactionConfirmations = 0,
     isTransactionPending = False, isTransactionConfirmed = False, votingRegistrationKey = None, qrCode = None,
     isConfirmationDialogOpen = False, isRegistrationEnded = False, voting_field = Map.empty, voting_timers = [],
     voting_next = 1, voting_tasks = [], voting_effects = []\<rparr>"

definition setup_voting :: "voting \<Rightarrow> voting" where
  "setup_voting s = initializeRegistrationEndCheckInterval s"

section \<open>What is signed is what is submitted\<close>

lemma v_frames [simp]:
  "voting_tasks (v_clear k s) = voting_tasks s" "voting_effects (v_clear k s) = voting_effects s"
  "voting_tasks (v_set k s) = voting_tasks s" "voting_effects (v_set k s) = voting_effects s"
  "voting_timers (v_task t s) = voting_timers s" "voting_timers (v_emit x s) = voting_timers s"
  "voting_field (v_clear k s) = voting_field s" "voting_next (v_clear k s) = voting_next s"
  "isRegistrationEnded (v_clear k s) = isRegistrationEnded s" "isRegistrationEnded (v_set k s) = isRegistrationEnded s"
  by (simp_all add: v_clear_def v_set_def v_task_def v_emit_def split: option.split)

definition voting_signed :: "voting \<Rightarrow> bool" where
  "voting_signed s \<longleftrightarrow> (\<forall>d. VSign d \<in> set (voting_tasks s) \<longrightarrow> SignMetadata d \<in> set (voting_effects s))
     \<and> (\<forall>d x. CreateVotingRegistration d x \<in> set (voting_effects s) \<longrightarrow> SignMetadata d \<in> set (voting_effects s) \<and> vd_address d \<noteq> None)"

lemma signed_same:
  "voting_signed s \<Longrightarrow> voting_tasks s' = voting_tasks s \<Longrightarrow> voting_effects s' = voting_effects s \<Longrightarrow> voting_signed s'"
  by (simp add: voting_signed_def)

lemma signed_task: "voting_signed s \<Longrightarrow> (\<forall>d. t \<noteq> VSign d) \<Longrightarrow> voting_signed (v_task t s)"
  by (auto simp: voting_signed_def v_task_def)

lemma signed_emit: "voting_signed s \<Longrightarrow> (\<forall>d x. e \<noteq> CreateVotingRegistration d x) \<Longrightarrow> voting_signed (v_emit e s)"
  by (auto simp: voting_signed_def v_emit_def)

lemma signed_remove: "voting_signed s \<Longrightarrow> voting_signed (s\<lparr>voting_tasks := remove_nth k (voting_tasks s)\<rparr>)"
  by (auto simp: voting_signed_def remove_nth_def dest: in_set_takeD in_set_dropD)

lemma signed_ops:
  assumes "voting_signed s"
  shows "voting_signed (nextRegistrationStep s)" "voting_signed (voting_failed b s)" "voting_signed (v_clear k s)"
    "voting_signed (v_set k s)" "voting_signed (s\<lparr>transactionId := i\<rparr>)" "voting_signed (s\<lparr>votingRegistrationKey := q\<rparr>)"
    "voting_signed (transactionChecked env n ok s)" "voting_signed (s\<lparr>isTransactionPending := p, isTransactionConfirmed := c\<rparr>)"
  by (rule signed_same [OF assms]; simp add: nextRegistrationStep_def voting_failed_def transactionChecked_def Let_def)+

lemma signed_answer:
  assumes "voting_signed s" and "t = VSign d \<Longrightarrow> SignMetadata d \<in> set (voting_effects s)"
    and "\<And>d. t = VSign d \<Longrightarrow> SignMetadata d \<in> set (voting_effects s)"
  shows "voting_signed (answer_voting env t a s)"
proof (cases t)
  case (VKeyHex d)
  have "voting_signed (v_task (VSign d') (v_emit (SignMetadata d') s))" for d'
    using assms(1) by (auto simp: voting_signed_def v_task_def v_emit_def)
  with VKeyHex assms(1) show ?thesis by (cases a) (simp_all add: answer_voting_def signed_ops)
next
  case (VSign d)
  with assms(3) have "SignMetadata d \<in> set (voting_effects s)" by simp
  with assms(1) have "voting_signed (signed d x s)" for x
    by (auto simp: signed_def signed_ops voting_signed_def v_task_def v_emit_def voting_failed_def nextRegistrationStep_def split: option.split)
  with VSign assms(1) show ?thesis by (cases a) (simp_all add: answer_voting_def signed_ops)
next
  case (VAddresses w n p)
  with assms(1) show ?thesis
    by (cases a) (simp_all add: answer_voting_def addressesKnown_def Let_def signed_ops signed_task signed_emit)
qed (use assms(1) in \<open>cases a; simp add: answer_voting_def signed_ops signed_task startTransactionPolling_def\<close>)+

lemma signed_step: "voting_signed s \<Longrightarrow> voting_signed (voting_step env s e)"
proof (cases e)
  case (VAnswer k a)
  assume ok: "voting_signed s"
  have "SignMetadata d \<in> set (voting_effects s)" if "k < length (voting_tasks s)" "voting_tasks s ! k = VSign d" for d
    using ok that nth_mem by (fastforce simp: voting_signed_def)
  with VAnswer ok signed_remove [OF ok, of k] show ?thesis
    by (auto simp: voting_step_def intro!: signed_answer)
next
  case (VTick i over)
  assume ok: "voting_signed s"
  have "voting_signed (checkVotingRegistrationEnd over s)"
    by (rule signed_same [OF ok]) (simp_all add: checkVotingRegistrationEnd_def)
  with VTick ok show ?thesis
    by (auto simp: voting_step_def checkVotingRegistrationTransaction_def intro!: signed_task signed_emit
        split: option.split voting_timer.split)
qed (auto simp: voting_step_def voting_signed_def showConfirmationDialog_def closeConfirmationDialog_def setSelectedWalletId_def
    nextRegistrationStep_def previousRegistrationStep_def resetRegistration_def sendTransaction_def generateQrCode_def v_task_def
    split: option.split)

interpretation voting: machine "voting_step env" voting_signed for env
  by unfold_locales (rule signed_step)


definition sample_voting_env :: voting_env where
  "sample_voting_env = \<lparr>publicHex = (\<lambda>k. ''ff'' @ k), stakeAddresses = [''w'' \<mapsto> ''stake1''], voting_isHardware = (\<lambda>w. False),
     absoluteSlotNumber = 7, minConfirmations = 10, symmetricEncrypt = (\<lambda>p k. k)\<rparr>"

definition sample_registration :: "voting_event list" where
  "sample_registration = [WalletChosen ''w'', SendRegistration 1 (Some ''pw''), VAnswer 0 (VTexts [''addr'']), VAnswer 0 (VText ''aa''),
     VAnswer 0 (VText ''k''), VAnswer 0 (VText ''pk''), VAnswer 0 (VText ''bb''), VAnswer 0 (VText ''sig'')]"


section \<open>Timers\<close>

definition voting_timers_ok :: "voting \<Rightarrow> bool" where
  "voting_timers_ok s \<longleftrightarrow> (\<forall>(i, k) \<in> set (voting_timers s). voting_field s k = Some i \<and> i < voting_next s)"

definition v_same :: "voting \<Rightarrow> voting \<Rightarrow> bool" where
  "v_same s s' \<longleftrightarrow> voting_timers s' = voting_timers s \<and> voting_field s' = voting_field s \<and> voting_next s' = voting_next s"

lemma v_timers_same: "v_same s s' \<Longrightarrow> voting_timers_ok s \<Longrightarrow> voting_timers_ok s'"
  by (simp add: v_same_def voting_timers_ok_def)

lemma v_same_ops [simp]:
  "v_same s (v_task t s') = v_same s s'" "v_same s (v_emit x s') = v_same s s'" "v_same s s"
  "v_same s (nextRegistrationStep s') = v_same s s'" "v_same s (voting_failed b s') = v_same s s'"
  by (simp_all add: v_same_def v_task_def v_emit_def nextRegistrationStep_def voting_failed_def)

lemma v_timers_clear: "voting_timers_ok s \<Longrightarrow> voting_timers_ok (v_clear k s)"
  by (auto simp: voting_timers_ok_def v_clear_def split: option.split)

lemma v_clear_kind: "voting_timers_ok s \<Longrightarrow> (i, k) \<notin> set (voting_timers (v_clear k s))"
  by (auto simp: voting_timers_ok_def v_clear_def split: option.split)

lemma v_timers_set: "voting_timers_ok s \<Longrightarrow> voting_timers_ok (v_set k (v_clear k s))"
  using v_timers_clear [of s k] v_clear_kind [of s _ k]
  by (fastforce simp: voting_timers_ok_def v_set_def)

lemma v_timers_answer: "voting_timers_ok s \<Longrightarrow> voting_timers_ok (answer_voting env t a s)"
proof -
  assume ok: "voting_timers_ok s"
  have keep: "v_same s s' \<Longrightarrow> voting_timers_ok s'" for s' using ok by (rule v_timers_same [rotated])
  have i: "voting_timers_ok (nextRegistrationStep (startTransactionPolling (s\<lparr>transactionId := Some x\<rparr>)))" for x
  proof -
    have "voting_timers_ok (s\<lparr>transactionId := Some x\<rparr>)" by (rule keep) (simp add: v_same_def)
    then have "voting_timers_ok (startTransactionPolling (s\<lparr>transactionId := Some x\<rparr>))"
      unfolding startTransactionPolling_def by (rule v_timers_set)
    then show ?thesis by (rule v_timers_same [rotated]) simp
  qed
  have c: "voting_timers_ok (transactionChecked env n b s)" for n b
  proof -
    have "voting_timers_ok (s\<lparr>transactionConfirmations := n\<rparr>)" "voting_timers_ok (s\<lparr>transactionConfirmations := n, isTransactionPending := q\<rparr>)"
      "voting_timers_ok (s\<lparr>transactionConfirmations := n, isTransactionConfirmed := r\<rparr>)"
      "voting_timers_ok (s\<lparr>transactionConfirmations := n, isTransactionPending := q, isTransactionConfirmed := r\<rparr>)" for q r
      by (intro keep; simp add: v_same_def)+
    then show ?thesis by (simp add: transactionChecked_def v_timers_clear Let_def)
  qed
  show ?thesis
  proof (cases t)
    case (VAddresses w n p)
    have "v_same s (s\<lparr>isTransactionPending := True, isTransactionConfirmed := False\<rparr>)" by (simp add: v_same_def)
    with VAddresses ok show ?thesis
      by (cases a) (auto simp: answer_voting_def addressesKnown_def Let_def intro!: keep)
  next
    case (VSign d)
    with ok show ?thesis by (cases a) (auto simp: answer_voting_def signed_def intro!: keep split: option.split)
  next
    case (VGenerate d)
    have "v_same s (s\<lparr>votingRegistrationKey := q\<rparr>)" for q by (simp add: v_same_def)
    with VGenerate ok show ?thesis by (cases a) (auto simp: answer_voting_def intro!: keep)
  next
    case (VHardware w)
    have "v_same s (s\<lparr>transactionId := q\<rparr>)" for q by (simp add: v_same_def)
    with VHardware ok show ?thesis by (cases a) (auto simp: answer_voting_def intro!: keep)
  qed (use ok i c in \<open>cases a; auto simp: answer_voting_def intro!: keep\<close>)+
qed

lemma v_timers_step: "voting_timers_ok s \<Longrightarrow> voting_timers_ok (voting_step env s e)"
proof -
  assume ok: "voting_timers_ok s"
  have keep: "v_same s s' \<Longrightarrow> voting_timers_ok s'" for s' using ok by (rule v_timers_same [rotated])
  show ?thesis
  proof (cases e)
    case (VAnswer k a)
    have "voting_timers_ok (s\<lparr>voting_tasks := ts\<rparr>)" for ts by (rule keep) (simp add: v_same_def)
    with VAnswer ok show ?thesis by (auto simp: voting_step_def intro!: v_timers_answer)
  next
    case ResetVoting
    have "voting_timers_ok (resetRegistration s)"
      unfolding resetRegistration_def by (intro v_timers_clear keep) (simp add: v_same_def)
    with ResetVoting show ?thesis by (simp add: voting_step_def)
  next
    case (VTick i over)
    have "v_same s (checkVotingRegistrationTransaction s)" "v_same s (checkVotingRegistrationEnd over s)"
      by (simp_all add: checkVotingRegistrationTransaction_def) (simp add: checkVotingRegistrationEnd_def v_same_def)
    with VTick ok show ?thesis by (auto simp: voting_step_def intro!: keep split: option.split voting_timer.split)
  qed (auto simp: voting_step_def v_same_def showConfirmationDialog_def closeConfirmationDialog_def setSelectedWalletId_def
      nextRegistrationStep_def previousRegistrationStep_def sendTransaction_def generateQrCode_def v_task_def intro!: keep
      split: option.split)
qed

interpretation voting_timers: machine "voting_step env" voting_timers_ok for env
  by unfold_locales (rule v_timers_step)

text \<open>No event sets the end check again once it is gone.\<close>

definition no_end_check :: "bool \<Rightarrow> voting \<Rightarrow> bool" where
  "no_end_check b s \<longleftrightarrow> voting_timers_ok s \<and> (\<forall>t \<in> set (voting_timers s). snd t \<noteq> EndCheck) \<and> isRegistrationEnded s = b"

lemma end_check_kept:
  "(\<forall>t \<in> set (voting_timers s). snd t \<noteq> EndCheck) \<Longrightarrow>
     (\<forall>t \<in> set (voting_timers (answer_voting env x a s)). snd t \<noteq> EndCheck)
   \<and> isRegistrationEnded (answer_voting env x a s) = isRegistrationEnded s"
  by (cases x; cases a)
    (auto simp: answer_voting_def addressesKnown_def signed_def voting_failed_def nextRegistrationStep_def v_task_def v_emit_def
      startTransactionPolling_def transactionChecked_def v_set_def v_clear_def Let_def split: option.splits if_splits)

lemma no_end_check_step: "no_end_check b s \<Longrightarrow> no_end_check b (voting_step env s e)"
proof (cases e)
  case (VAnswer k a)
  assume "no_end_check b s"
  with v_timers_step [of s env e] end_check_kept [of "s\<lparr>voting_tasks := remove_nth k (voting_tasks s)\<rparr>" env "voting_tasks s ! k" a] VAnswer
  show ?thesis by (simp add: no_end_check_def voting_step_def)
next
  case (VTick i over)
  assume ok: "no_end_check b s"
  show ?thesis
  proof (cases "map_of (voting_timers s) i")
    case (Some k)
    then have "k = TransactionPoll" using ok map_of_SomeD [OF Some] by (cases k) (auto simp: no_end_check_def)
    with Some ok VTick v_timers_step [of s env e] show ?thesis
      by (simp add: no_end_check_def voting_step_def checkVotingRegistrationTransaction_def v_task_def v_emit_def)
  qed (use ok VTick in \<open>simp add: voting_step_def\<close>)
next
  case ResetVoting
  assume "no_end_check b s"
  with v_timers_step [of s env e] ResetVoting show ?thesis
    by (auto simp: no_end_check_def voting_step_def resetRegistration_def v_clear_def split: option.splits)
qed (auto simp: no_end_check_def voting_timers_ok_def voting_step_def showConfirmationDialog_def closeConfirmationDialog_def
    setSelectedWalletId_def nextRegistrationStep_def previousRegistrationStep_def sendTransaction_def generateQrCode_def v_task_def
    split: option.split)

interpretation no_end: machine "voting_step env" "no_end_check b" for env b
  by unfold_locales (rule no_end_check_step)

lemma new_voting_timers: "voting_timers_ok (setup_voting new_VotingStore)"
  unfolding setup_voting_def initializeRegistrationEndCheckInterval_def
  by (rule v_timers_set) (simp add: voting_timers_ok_def new_VotingStore_def)

text \<open>
  A reset ends the check for the end of the registration period for good. Whatever happened before a reset of
  the registration, and whatever happens after it, the store never again notices whether the period is over.
\<close>

theorem reset_stops_the_end_check:
  shows "isRegistrationEnded (run (voting_step env) (setup_voting new_VotingStore) (es @ ResetVoting # es'))
    = isRegistrationEnded (run (voting_step env) (setup_voting new_VotingStore) es)"
proof -
  let ?s = "run (voting_step env) (setup_voting new_VotingStore) es"
  have ok: "voting_timers_ok ?s" by (rule voting_timers.run_inv [OF new_voting_timers])
  let ?t = "v_clear TransactionPoll (?s\<lparr>isConfirmationDialogOpen := False, registrationStep := 1, selectedWalletId := None,
     transactionId := None, transactionConfirmations := 0, isTransactionPending := False, isTransactionConfirmed := False,
     votingRegistrationKey := None, qrCode := None\<rparr>)"
  have t: "voting_timers_ok ?t"
    by (rule v_timers_clear, rule v_timers_same [OF _ ok]) (simp add: v_same_def)
  have "voting_step env ?s ResetVoting = v_clear EndCheck ?t"
    by (simp add: voting_step_def resetRegistration_def)
  with v_clear_kind [OF t, of _ EndCheck] v_timers_clear [OF t, of EndCheck]
  have "no_end_check (isRegistrationEnded ?s) (voting_step env ?s ResetVoting)"
    by (auto simp: no_end_check_def)
  from no_end.run_inv [OF this, of env es'] show ?thesis by (simp add: no_end_check_def)
qed
end
