(* ===== verification/HardwareWallets.thy ===== *)
theory HardwareWallets imports HardwareSigning begin

text \<open>
  The hardware wallets store, \<open>stores/HardwareWalletsStore.js\<close>: how devices are found and paired, the polling for the
  app on a Ledger, the export of the public key, the verification of addresses, and the transactions that are signed on a
  device. An asynchronous call is a stack of frames, the innermost first, that waits for an answer of the main process, the
  backend or the local storage. What a request keeps as its result is whatever its last answer says, so several
  executions of one request are simply several answers. Building a request for a device and the transaction that is
  submitted is the theory \<open>HardwareSigning\<close>.
\<close>

section \<open>State\<close>

datatype hw_status =
    CONNECTING | CONNECTING_FAILED | TREZOR_BRIDGE_FAILURE | LAUNCHING_BCC_APP | EXPORTING_PUBLIC_KEY
  | EXPORTING_PUBLIC_KEY_FAILED | WRONG_FIRMWARE | WRONG_BCC_APP_VERSION | UNSUPPORTED_DEVICE | READY
  | VERIFYING_TRANSACTION | VERIFYING_TRANSACTION_FAILED | VERIFYING_TRANSACTION_SUCCEEDED | VERIFYING_ADDRESS
  | VERIFYING_ADDRESS_CONFIRMATION | VERIFYING_ADDRESS_FAILED | VERIFYING_ADDRESS_ABORTED | VERIFYING_ADDRESS_SUCCEEDED

datatype device_type = LEDGER | TREZOR

definition deviceType :: "string \<Rightarrow> device_type option" where
  "deviceType deviceModel = (if deviceModel = ''nanoS'' \<or> deviceModel = ''nanoX'' then Some LEDGER
     else if deviceModel = ''1'' \<or> deviceModel = ''T'' then Some TREZOR else None)"

text \<open>What is known of a plugged device; the empty object of a reset store has no field.\<close>

record transport =
  t_deviceId :: "string option"
  t_deviceType :: "device_type option"
  t_deviceModel :: "string option"
  t_deviceName :: "string option"
  t_path :: "string option"
  t_firmwareVersion :: "string option"

definition empty_transport :: transport where
  "empty_transport = \<lparr>t_deviceId = None, t_deviceType = None, t_deviceModel = None, t_deviceName = None, t_path = None,
     t_firmwareVersion = None\<rparr>"

text \<open>A device of the local storage, and a hardware wallet with the device it was created on.\<close>

record hw_device = transport +
  dev_id :: string
  paired :: "string option"
  dev_disconnected :: bool
  isPending :: bool

record hw_connection =
  conn_id :: string
  conn_disconnected :: bool
  conn_path :: "string option"
  conn_device :: transport
  publicKeyHex :: string
  chainCodeHex :: string

record xpub_answer =
  x_publicKeyHex :: string
  x_chainCodeHex :: string
  x_deviceId :: "string option"

text \<open>The fields of an error that the store looks at.\<close>

record hw_error =
  e_statusCode :: "int option"
  e_code :: "string option"
  e_name :: "string option"
  e_error :: "string option"
  e_id :: "string option"
  e_path :: "string option"
  e_message :: string

definition plain_error :: "string \<Rightarrow> hw_error" where
  "plain_error m = \<lparr>e_statusCode = None, e_code = None, e_name = None, e_error = None, e_id = None, e_path = None, e_message = m\<rparr>"

definition type_error :: hw_error where "type_error = plain_error ''TypeError''"

text \<open>What is written to the local storage.\<close>

datatype local_patch =
    Disconnected                                        \<comment> \<open>{disconnected: true}\<close>
  | Unplugged transport                                 \<comment> \<open>the fields of the device and {disconnected: true}\<close>
  | Reconnected transport string                        \<comment> \<open>{disconnected: false, data: {..., paired}}\<close>
  | MovedTo string hw_connection

datatype hw_write =
    SetLocalData string local_patch
  | SetDevice string "hw_device option"                 \<comment> \<open>\<open>None\<close> is {paired: null}\<close>
  | UnsetLocalData string
  | UnsetDevice "string option"
  | OverrideDevices "hw_device list"

datatype hw_event_type = DeviceConnect | DeviceChanged | OtherDeviceEvent

record hw_change =
  ch_disconnected :: bool
  ch_deviceType :: "device_type option"                 \<comment> \<open>missing in the errors of the Trezor bridge\<close>
  ch_deviceId :: "string option"
  ch_deviceModel :: "string option"
  ch_deviceName :: "string option"
  ch_path :: "string option"
  ch_error :: "string option option"                    \<comment> \<open>an error, and the code of its payload\<close>
  ch_eventType :: "hw_event_type option"

text \<open>The parameters of a verification: the address, the path of the device and whether it is a Trezor.\<close>

type_synonym verification = "wallet_address \<times> string option \<times> bool"

datatype hw_timer =
    AppPoll "string option" "string option" "wallet_address option"     \<comment> \<open>path, wallet and address\<close>
  | TransactionCheck string string bool                                 \<comment> \<open>transaction, wallet, voting\<close>

datatype hw_answer =
    VUnit
  | VTransport "transport option"
  | VApp "(nat \<times> nat \<times> nat) option"
  | VKey xpub_answer
  | VText string
  | VSelection coin_selection
  | VSigned "string option" string                      \<comment> \<open>a serialized transaction, or the body prepared from the witnesses\<close>
  | VConnections "hw_connection list"
  | VDevices "hw_device list"

type_synonym hw_result = "hw_error + hw_answer"

text \<open>The points at which a function of the store waits, with the local variables that are used after it.\<close>

datatype hw_frame =
    Sending bool bool string                            \<comment> \<open>delegation, voting, wallet\<close>
  | Selecting
  | Writing hw_write
  | ReadingConnections | ReadingDevices
  | EstLast bool "string option"                        \<comment> \<open>Trezor, wallet\<close>
  | EstUnpaired | EstReturn "transport option" | EstCatch
  | AppOpened "string option" "string option" "wallet_address option"
  | AppCatch "string option" "string option" "wallet_address option"
  | AppMoved string "string option" "wallet_address option" hw_error
  | AppMovedWallet string "string option" "wallet_address option" hw_error
  | VerConnected wallet_address "string option" hw_connection
  | VerTransport wallet_address "string option" hw_connection
  | Deriving verification
  | Showing verification
  | KeyExported "string option" "string option" "wallet_address option" transport
  | KeyUnset string "string option" "string option" "wallet_address option" transport "string option"
      \<comment> \<open>the recognized wallet; path, wallet, address, device and its id\<close>
  | KeyCreated "string option" transport
  | KeyPendingUnset
  | KeyCatch transport
  | PreparingLedger string "string option"
  | SigningLedger
  | PreparingTrezor string "string option"
  | SigningTrezor
  | InitConnected "string option" hw_connection
  | InitTransport string
  | ChangeWrites "hw_write list" hw_change
  | ChangeRead1 hw_change | ChangeRead2 hw_change
  | TrezorStarted
  | LedgerStored | LedgerOverridden | LedgerRead1 | LedgerRead2 | LedgerStarted
  | Avail1 bool | Avail2 bool | Avail3 | Avail4
  | CheckingDevice

datatype hw_effect =
    SubmitTransaction "string option"
  | SelectCoins string | SelectDelegationCoins string
  | RefreshWallets | CloseDialog | GoToWallet string
  | StartVotingPolling | NextVotingStep
  | GetTransport "string option" bool
  | GetApp "string option"
  | ExportKey "string option" bool
  | DeriveAddress verification | ShowAddress verification
  | SignLedger "string option" "voting_data option"
  | SignTrezor "string option" "voting_data option"
  | CreateWallet string xpub_answer transport
  | Write hw_write
  | ResetTrezorAction
  | InitTrezor | InitLedger

record hw_store =
  hwDeviceStatus :: hw_status
  txSignRequest :: "coin_selection option"
  transportDevice :: "transport option"
  hw_txBody :: "string option"
  hw_isTransactionPending :: bool
  isTrezorBridgeInstalled :: bool
  isTransactionInitiated :: bool
  activeDevicePath :: "string option"
  unfinishedWalletTxSigning :: "string option"
  isListeningForDevice :: bool
  isAddressVerificationInitiated :: bool
  unfinishedWalletAddressVerification :: "wallet_address option"
  isAddressDerived :: bool
  isAddressChecked :: bool
  isAddressCorrect :: "bool option"
  tempAddressToVerify :: "verification option"
  isExportKeyAborted :: bool
  activeDelegationWalletId :: "string option"
  activeVotingWalletId :: "string option"
  hw_votingData :: "voting_data option"
  connections :: "hw_connection list"
  devices :: "hw_device list"
  appPoller :: "nat option"
  transactionPoller :: "nat option"
  hw_timers :: "(nat \<times> hw_timer) list"
  hw_next :: nat
  keyTimeouts :: "bool list"                            \<comment> \<open>after a rejected export on a Trezor: was it unplugged\<close>
  activeWallet :: "string option"
  knownWallets :: "string list"
  hw_tasks :: "hw_frame list list"
  hw_effects :: "hw_effect list"

definition new_HardwareWalletsStore :: hw_store where
  "new_HardwareWalletsStore = \<lparr>hwDeviceStatus = CONNECTING, txSignRequest = None, transportDevice = None, hw_txBody = None,
     hw_isTransactionPending = False, isTrezorBridgeInstalled = False, isTransactionInitiated = False, activeDevicePath = None,
     unfinishedWalletTxSigning = None, isListeningForDevice = False, isAddressVerificationInitiated = False,
     unfinishedWalletAddressVerification = None, isAddressDerived = False, isAddressChecked = False, isAddressCorrect = None,
     tempAddressToVerify = None, isExportKeyAborted = False, activeDelegationWalletId = None, activeVotingWalletId = None,
     hw_votingData = None, connections = [], devices = [], appPoller = None, transactionPoller = None, hw_timers = [],
     hw_next = 1, keyTimeouts = [], activeWallet = None, knownWallets = [], hw_tasks = [], hw_effects = []\<rparr>"

text \<open>The build's switches and the comparison of versions of the package \<open>semver\<close>.\<close>

record hw_env =
  supportEnabled :: bool
  trezorEnabled :: bool
  ledgerEnabled :: bool
  gte :: "string \<Rightarrow> string \<Rightarrow> bool"

text \<open>A call ends with a result, or waits: the frames it has pushed, the innermost first.\<close>

datatype hw_control = Finish hw_result | Await "hw_frame list"

type_synonym hw_call = "hw_store \<times> hw_control"

definition hw_emit :: "hw_effect \<Rightarrow> hw_store \<Rightarrow> hw_store" where
  "hw_emit x s = s\<lparr>hw_effects := hw_effects s @ [x]\<rparr>"

text \<open>A call that is not awaited: what it rejects with is lost.\<close>

definition spawn :: "hw_call \<Rightarrow> hw_store" where
  "spawn c = (case c of (s, Finish r) \<Rightarrow> s | (s, Await fs) \<Rightarrow> s\<lparr>hw_tasks := hw_tasks s @ [fs]\<rparr>)"

text \<open>A call that is awaited by the frames \<open>fs\<close>, of which \<open>h\<close> is the first.\<close>

definition awaited :: "hw_frame list \<Rightarrow> (hw_result \<Rightarrow> hw_store \<Rightarrow> hw_call) \<Rightarrow> hw_call \<Rightarrow> hw_call" where
  "awaited fs h c = (case c of (s, Finish r) \<Rightarrow> h r s | (s, Await gs) \<Rightarrow> (s, Await (gs @ fs)))"

definition throw :: "hw_error \<Rightarrow> hw_store \<Rightarrow> hw_call" where "throw e s = (s, Finish (Inl e))"
definition return :: "hw_answer \<Rightarrow> hw_store \<Rightarrow> hw_call" where "return v s = (s, Finish (Inr v))"

definition js_or :: "string option \<Rightarrow> string option \<Rightarrow> string option" where
  "js_or a b = (if a = None \<or> a = Some [] then b else a)"

definition findLast :: "('a \<Rightarrow> bool) \<Rightarrow> 'a list \<Rightarrow> 'a option" where
  "findLast P xs = find P (rev xs)"

definition connection_of :: "string option \<Rightarrow> hw_store \<Rightarrow> hw_connection option" where
  "connection_of w s = (case w of None \<Rightarrow> None | Some i \<Rightarrow> find (\<lambda>c. conn_id c = i) (connections s))"

definition getHardwareWalletDeviceInfoByWalletId :: "string \<Rightarrow> hw_store \<Rightarrow> hw_connection option" where
  "getHardwareWalletDeviceInfoByWalletId w s = find (\<lambda>c. conn_id c = w) (connections s)"

text \<open>\<open>None\<close> is the undefined value for a wallet that is not known.\<close>

definition checkIsTrezorByWalletId :: "string \<Rightarrow> hw_store \<Rightarrow> bool option" where
  "checkIsTrezorByWalletId w s = map_option (\<lambda>c. t_deviceType (conn_device c) = Some TREZOR) (find (\<lambda>c. conn_id c = w) (connections s))"

definition paired_device :: "string \<Rightarrow> hw_store \<Rightarrow> hw_device option" where
  "paired_device w s = find (\<lambda>d. paired d = Some w) (devices s)"

definition lastUnpairedDevice :: "hw_store \<Rightarrow> hw_device option" where
  "lastUnpairedDevice s = findLast (\<lambda>d. js_or (paired d) None = None \<and> \<not> dev_disconnected d) (devices s)"

section \<open>Timers\<close>

text \<open>\<open>stopBccBccAppFetchPoller\<close> keeps the field; a new poller overwrites it.\<close>

definition stopBccBccAppFetchPoller :: "hw_store \<Rightarrow> hw_store" where
  "stopBccBccAppFetchPoller s = (case appPoller s of None \<Rightarrow> s
     | Some i \<Rightarrow> s\<lparr>hw_timers := filter (\<lambda>t. fst t \<noteq> i) (hw_timers s)\<rparr>)"

definition poll_app :: "string option \<Rightarrow> string option \<Rightarrow> wallet_address option \<Rightarrow> hw_store \<Rightarrow> hw_store" where
  "poll_app p w a s = s\<lparr>appPoller := Some (hw_next s), hw_timers := hw_timers s @ [(hw_next s, AppPoll p w a)],
     hw_next := Suc (hw_next s)\<rparr>"

definition poll_transaction :: "string \<Rightarrow> string \<Rightarrow> bool \<Rightarrow> hw_store \<Rightarrow> hw_store" where
  "poll_transaction t w v s = s\<lparr>transactionPoller := Some (hw_next s), hw_timers := hw_timers s @ [(hw_next s, TransactionCheck t w v)],
     hw_next := Suc (hw_next s)\<rparr>"

definition stop_transaction_poller :: "hw_store \<Rightarrow> hw_store" where
  "stop_transaction_poller s = (case transactionPoller s of None \<Rightarrow> s
     | Some i \<Rightarrow> s\<lparr>hw_timers := filter (\<lambda>t. fst t \<noteq> i) (hw_timers s), transactionPoller := None\<rparr>)"

section \<open>The local storage\<close>

definition begin_read_connections :: "hw_store \<Rightarrow> hw_call" where
  "begin_read_connections s = (s, Await [ReadingConnections])"

definition begin_read_devices :: "hw_store \<Rightarrow> hw_call" where
  "begin_read_devices s = (s, Await [ReadingDevices])"

definition begin_write :: "hw_write \<Rightarrow> hw_store \<Rightarrow> hw_call" where
  "begin_write w s = (hw_emit (Write w) s, Await [Writing w])"

text \<open>After the write: the lists are read again, which nobody waits for.\<close>

definition written :: "hw_write \<Rightarrow> hw_result \<Rightarrow> hw_store \<Rightarrow> hw_call" where
  "written w r s = (case r of Inl e \<Rightarrow> throw e s
     | Inr v \<Rightarrow> return VUnit (case w of
         SetLocalData i p \<Rightarrow> hw_emit RefreshWallets (spawn (begin_read_connections s))
       | SetDevice i d \<Rightarrow> spawn (begin_read_devices s)
       | UnsetDevice i \<Rightarrow> spawn (begin_read_devices s)
       | OverrideDevices ds \<Rightarrow> s
       | UnsetLocalData i \<Rightarrow>
           (let s1 = (case paired_device i s of None \<Rightarrow> s
              | Some d \<Rightarrow> spawn (begin_read_devices (spawn (begin_write (SetDevice (dev_id d) None) s))))
            in hw_emit RefreshWallets (spawn (begin_read_connections s1)))))"

section \<open>Transactions\<close>

definition setTransactionPendingState :: "bool \<Rightarrow> hw_store \<Rightarrow> hw_store" where
  "setTransactionPendingState b s = s\<lparr>hw_isTransactionPending := b\<rparr>"

definition sendMoney :: "bool \<Rightarrow> bool \<Rightarrow> string option \<Rightarrow> hw_store \<Rightarrow> hw_call" where
  "sendMoney isDelegation isVoting selectedWalletId s = (case js_or selectedWalletId (activeWallet s) of
       None \<Rightarrow> throw (plain_error ''Active wallet required before sending.'') s
     | Some w \<Rightarrow> (let s1 = setTransactionPendingState True s
         in (hw_emit (SubmitTransaction (hw_txBody s1)) s1, Await [Sending isDelegation isVoting w])))"

definition moneySent :: "bool \<Rightarrow> bool \<Rightarrow> string \<Rightarrow> hw_result \<Rightarrow> hw_store \<Rightarrow> hw_call" where
  "moneySent isDelegation isVoting w r s = (case r of
       Inr (VText transactionId) \<Rightarrow> return (VText transactionId) (hw_emit RefreshWallets
         (if isDelegation then setTransactionPendingState False s else poll_transaction transactionId w isVoting s))
     | Inr v \<Rightarrow> return v s
     | Inl e \<Rightarrow> throw e ((setTransactionPendingState False s)\<lparr>hw_txBody := None, activeDevicePath := None,
         unfinishedWalletTxSigning := None, hw_votingData := None\<rparr>))"

definition resetTransaction :: "hw_env \<Rightarrow> bool \<Rightarrow> hw_store \<Rightarrow> hw_store" where
  "resetTransaction env cancelDeviceAction s =
     (if \<not> supportEnabled env then s else
      (let s1 = stopBccBccAppFetchPoller (s\<lparr>isTransactionInitiated := False\<rparr>);
           s2 = (if cancelDeviceAction then hw_emit ResetTrezorAction s1 else s1)
       in s2\<lparr>hwDeviceStatus := READY, hw_txBody := None, activeDevicePath := None, unfinishedWalletTxSigning := None,
            activeDelegationWalletId := None, activeVotingWalletId := None, hw_votingData := None\<rparr>))"

definition resetTransactionChecker :: "hw_env \<Rightarrow> string \<Rightarrow> hw_store \<Rightarrow> hw_store" where
  "resetTransactionChecker env w s =
     (let s1 = hw_emit RefreshWallets (stop_transaction_poller s);
          s2 = hw_emit CloseDialog (s1\<lparr>hw_isTransactionPending := False\<rparr>)
      in hw_emit (GoToWallet w) (resetTransaction env False s2))"

text \<open>\<open>recent\<close> are the recent transactions of the wallet, with whether each is in the ledger.\<close>

definition checkTransaction :: "hw_env \<Rightarrow> string \<Rightarrow> string \<Rightarrow> bool \<Rightarrow> (string \<times> bool) list \<Rightarrow> hw_store \<Rightarrow> hw_store" where
  "checkTransaction env t w isVoting recent s =
     (if isVoting
      then (if \<exists>x \<in> set recent. fst x = t
            then hw_emit NextVotingStep (hw_emit StartVotingPolling (setTransactionPendingState False (stop_transaction_poller s)))
            else s)
      else (if \<exists>x \<in> set recent. fst x = t \<and> snd x then resetTransactionChecker env w s else s))"

definition selectCoins :: "string \<Rightarrow> hw_store \<Rightarrow> hw_call" where
  "selectCoins w s =
     (if w \<notin> set (knownWallets s) then throw (plain_error ''Active wallet required before coins selections.'') s
      else (hw_emit (SelectCoins w) s, Await [Selecting]))"

definition selectDelegationCoins :: "string \<Rightarrow> hw_store \<Rightarrow> hw_call" where
  "selectDelegationCoins w s =
     (if w \<notin> set (knownWallets s) then throw (plain_error ''Active wallet required before coins selections.'') s
      else (hw_emit (SelectDelegationCoins w) s, Await [Selecting]))"

definition coinsSelected :: "hw_result \<Rightarrow> hw_store \<Rightarrow> hw_call" where
  "coinsSelected r s = (case r of
       Inr (VSelection c) \<Rightarrow> return (VSelection c) (s\<lparr>txSignRequest := Some c\<rparr>)
     | Inr v \<Rightarrow> return v s
     | Inl e \<Rightarrow> throw e (s\<lparr>hwDeviceStatus := VERIFYING_TRANSACTION_FAILED\<rparr>))"

definition resetTxSignRequestData :: "hw_store \<Rightarrow> hw_store" where
  "resetTxSignRequestData s = s\<lparr>txSignRequest := None\<rparr>"

section \<open>Signing\<close>

text \<open>
  The preparation asks the backend for the style of each address and for the reward accounts. Only the exchange with the
  device is inside the \<open>try\<close>.
\<close>

definition signTransactionLedger :: "string \<Rightarrow> string option \<Rightarrow> hw_store \<Rightarrow> hw_call" where
  "signTransactionLedger walletId devicePath s =
     (let s1 = s\<lparr>hwDeviceStatus := VERIFYING_TRANSACTION\<rparr>
      in if txSignRequest s1 = None then throw type_error s1
         else if connection_of (Some walletId) s1 = None
              then throw (plain_error ''Wallet not paired or Device not connected'') s1
         else (s1, Await [PreparingLedger walletId devicePath]))"

definition ledgerPrepared :: "string option \<Rightarrow> hw_result \<Rightarrow> hw_store \<Rightarrow> hw_call" where
  "ledgerPrepared devicePath r s = (case r of Inl e \<Rightarrow> throw e s
     | Inr _ \<Rightarrow> (hw_emit (SignLedger devicePath (hw_votingData s)) s, Await [SigningLedger]))"

definition ledgerSigned :: "hw_result \<Rightarrow> hw_store \<Rightarrow> hw_call" where
  "ledgerSigned r s = (case r of
       Inr (VSigned x b) \<Rightarrow> return VUnit (s\<lparr>hwDeviceStatus := VERIFYING_TRANSACTION_SUCCEEDED, hw_txBody := Some b, activeDevicePath := None\<rparr>)
     | Inr v \<Rightarrow> return v s
     | Inl e \<Rightarrow> throw e (s\<lparr>hwDeviceStatus := VERIFYING_TRANSACTION_FAILED\<rparr>))"

definition signTransactionTrezor :: "string \<Rightarrow> string option \<Rightarrow> hw_store \<Rightarrow> hw_call" where
  "signTransactionTrezor walletId deviceId s =
     (let s1 = s\<lparr>hwDeviceStatus := VERIFYING_TRANSACTION\<rparr>
      in if txSignRequest s1 = None
         then throw (plain_error (''Missing Coins Selection for wallet: '' @ walletId)) (s1\<lparr>hwDeviceStatus := VERIFYING_TRANSACTION_FAILED\<rparr>)
         else if connection_of (Some walletId) s1 = None
              then throw (plain_error ''Wallet not paired or Device not connected'') s1
         else (s1, Await [PreparingTrezor walletId deviceId]))"

definition trezorPrepared :: "string \<Rightarrow> string option \<Rightarrow> hw_result \<Rightarrow> hw_store \<Rightarrow> hw_call" where
  "trezorPrepared walletId deviceId r s = (case r of Inl e \<Rightarrow> throw e s
     | Inr _ \<Rightarrow>
        (let recognized = paired_device walletId s;
             other = (case recognized of None \<Rightarrow> True
               | Some d \<Rightarrow> (case js_or deviceId None of None \<Rightarrow> False | Some i \<Rightarrow> dev_id d \<noteq> i));
             p = (case recognized of None \<Rightarrow> None | Some d \<Rightarrow> t_path d)
         in if isTransactionInitiated s \<and> other
            then return VUnit (s\<lparr>hwDeviceStatus := CONNECTING_FAILED, activeDevicePath := None, unfinishedWalletTxSigning := Some walletId\<rparr>)
            else (let s1 = (if isTransactionInitiated s then s\<lparr>isTransactionInitiated := False, unfinishedWalletTxSigning := None\<rparr> else s)
                  in (hw_emit (SignTrezor p (hw_votingData s1)) s1, Await [SigningTrezor]))))"

definition trezorSigned :: "hw_result \<Rightarrow> hw_store \<Rightarrow> hw_call" where
  "trezorSigned r s = (case r of
       Inr (VSigned (Some serializedTx) b) \<Rightarrow> return VUnit (s\<lparr>hwDeviceStatus := VERIFYING_TRANSACTION_SUCCEEDED, hw_txBody := Some serializedTx\<rparr>)
     | Inr (VSigned None b) \<Rightarrow> return VUnit (s\<lparr>hwDeviceStatus := VERIFYING_TRANSACTION_SUCCEEDED, hw_txBody := Some b, activeDevicePath := None\<rparr>)
     | Inr v \<Rightarrow> return v s
     | Inl e \<Rightarrow> throw (if e_code e = Some ''Device_CallInProgress'' then plain_error ''Device is busy - reconnect device and try again'' else e)
         (s\<lparr>hwDeviceStatus := VERIFYING_TRANSACTION_FAILED, isTransactionInitiated := False\<rparr>))"

section \<open>Verification of an address\<close>

definition verifyAddress :: "verification option \<Rightarrow> hw_store \<Rightarrow> hw_call" where
  "verifyAddress params s =
     (let s1 = s\<lparr>hwDeviceStatus := VERIFYING_ADDRESS, tempAddressToVerify := params\<rparr>
      in case params of
           None \<Rightarrow> throw type_error (s1\<lparr>hwDeviceStatus := VERIFYING_ADDRESS_FAILED, isAddressDerived := False, isAddressChecked := False,
             isAddressCorrect := Some False\<rparr>)
         | Some v \<Rightarrow> (hw_emit (DeriveAddress v) s1, Await [Deriving v]))"

definition showAddress :: "verification \<Rightarrow> hw_store \<Rightarrow> hw_call" where
  "showAddress v s = (hw_emit (ShowAddress v) s, Await [Showing v])"

definition is_cancelled :: "hw_error \<Rightarrow> bool" where
  "is_cancelled e \<longleftrightarrow> e_statusCode e = Some 28169 \<or> e_code e = Some ''Failure_ActionCancelled''"

definition is_aborted :: "hw_error \<Rightarrow> bool" where
  "is_aborted e \<longleftrightarrow> e_name e = Some ''DisconnectedDevice'' \<or> e_error e = Some ''device disconnected during action''"

definition addressDerived :: "verification \<Rightarrow> hw_result \<Rightarrow> hw_store \<Rightarrow> hw_call" where
  "addressDerived v r s = (case v of (address, p, isTrezor) \<Rightarrow> (case r of
       Inr (VText derived) \<Rightarrow> return VUnit
         (if derived \<noteq> wa_id address
          then s\<lparr>isAddressDerived := False, isAddressChecked := False, isAddressCorrect := Some False,
                 hwDeviceStatus := VERIFYING_ADDRESS_FAILED\<rparr>
          else if isTrezor
          then s\<lparr>isAddressDerived := True, isAddressChecked := True, isListeningForDevice := False,
                 hwDeviceStatus := VERIFYING_ADDRESS_CONFIRMATION\<rparr>
          else spawn (showAddress v (s\<lparr>isAddressDerived := True\<rparr>)))
     | Inr _ \<Rightarrow> return VUnit s
     | Inl e \<Rightarrow> throw e
         (if is_cancelled e \<or> is_aborted e
          then (stopBccBccAppFetchPoller s)\<lparr>isAddressDerived := False, isAddressChecked := False, isAddressCorrect := Some False,
                 isListeningForDevice := True, hwDeviceStatus := VERIFYING_ADDRESS_ABORTED\<rparr>
          else s\<lparr>hwDeviceStatus := VERIFYING_ADDRESS_FAILED, isAddressDerived := False, isAddressChecked := False,
                 isAddressCorrect := Some False\<rparr>)))"

definition addressShown :: "hw_result \<Rightarrow> hw_store \<Rightarrow> hw_call" where
  "addressShown r s = (case r of
       Inr _ \<Rightarrow> return VUnit (s\<lparr>isAddressChecked := True, isListeningForDevice := True, hwDeviceStatus := VERIFYING_ADDRESS_CONFIRMATION\<rparr>)
     | Inl e \<Rightarrow> throw e (s\<lparr>isAddressChecked := False, isAddressCorrect := Some False, isListeningForDevice := True,
         hwDeviceStatus := VERIFYING_ADDRESS_FAILED\<rparr>))"

datatype check_status = Valid | Invalid | Reverify

definition setAddressVerificationCheckStatus :: "check_status \<Rightarrow> hw_store \<Rightarrow> hw_store" where
  "setAddressVerificationCheckStatus c s = (case c of
       Valid \<Rightarrow> s\<lparr>isAddressCorrect := Some True, isListeningForDevice := True, hwDeviceStatus := VERIFYING_ADDRESS_SUCCEEDED\<rparr>
     | Invalid \<Rightarrow> s\<lparr>isAddressCorrect := Some False, isListeningForDevice := True, hwDeviceStatus := VERIFYING_ADDRESS_ABORTED\<rparr>
     | Reverify \<Rightarrow> spawn (verifyAddress (tempAddressToVerify s)
         (s\<lparr>isAddressDerived := False, isAddressChecked := False, isAddressCorrect := None, isListeningForDevice := True\<rparr>)))"

section \<open>Resets\<close>

definition resetInitializedConnection :: "bool \<Rightarrow> hw_store \<Rightarrow> hw_store" where
  "resetInitializedConnection cancelDeviceAction s =
     (stopBccBccAppFetchPoller (if cancelDeviceAction then hw_emit ResetTrezorAction s else s))
       \<lparr>hwDeviceStatus := CONNECTING, transportDevice := Some empty_transport, isListeningForDevice := False, isExportKeyAborted := False\<rparr>"

definition resetInitializedAddressVerification :: "bool \<Rightarrow> hw_store \<Rightarrow> hw_store" where
  "resetInitializedAddressVerification cancelDeviceAction s =
     (stopBccBccAppFetchPoller (if cancelDeviceAction then hw_emit ResetTrezorAction s else s))
       \<lparr>hwDeviceStatus := CONNECTING, transportDevice := Some empty_transport, isListeningForDevice := False,
        isAddressVerificationInitiated := False, unfinishedWalletAddressVerification := None, isAddressDerived := False,
        isAddressChecked := False, isAddressCorrect := None, tempAddressToVerify := None, isExportKeyAborted := False,
        activeDevicePath := None\<rparr>"

section \<open>The public key\<close>

definition DEFAULT_HW_NAME :: string where "DEFAULT_HW_NAME = ''Hardware Wallet''"

definition getExtendedPublicKey :: "string option \<Rightarrow> string option \<Rightarrow> wallet_address option \<Rightarrow> hw_store \<Rightarrow> hw_call" where
  "getExtendedPublicKey forcedPath walletId address s =
     (let s1 = s\<lparr>hwDeviceStatus := EXPORTING_PUBLIC_KEY\<rparr>
      in case transportDevice s1 of
           None \<Rightarrow> throw (plain_error ''Can not export extended public key: Device not recognized!'') s1
         | Some t \<Rightarrow> (hw_emit (ExportKey (js_or forcedPath (t_path t)) (t_deviceType t = Some TREZOR)) s1,
             Await [KeyExported forcedPath walletId address t, KeyCatch t]))"

definition matching_connection :: "xpub_answer \<Rightarrow> hw_store \<Rightarrow> hw_connection option" where
  "matching_connection x s = find (\<lambda>c. x_chainCodeHex x = chainCodeHex c \<and> x_publicKeyHex x = publicKeyHex c) (connections s)"

definition recognizedWallet :: "xpub_answer \<Rightarrow> hw_store \<Rightarrow> string option" where
  "recognizedWallet x s = (case matching_connection x s of None \<Rightarrow> None
     | Some c \<Rightarrow> if conn_id c \<in> set (knownWallets s) then Some (conn_id c) else None)"

definition wrong_device :: "string option \<Rightarrow> hw_store \<Rightarrow> hw_store" where
  "wrong_device walletId s = s\<lparr>hwDeviceStatus := CONNECTING_FAILED, activeDevicePath := None,
     unfinishedWalletTxSigning := walletId, isExportKeyAborted := False\<rparr>"

text \<open>The device is the one of the wallet \<open>w\<close>; what was under way goes on with it.\<close>

definition keyUnset :: "string \<Rightarrow> string option \<Rightarrow> string option \<Rightarrow> wallet_address option \<Rightarrow> transport \<Rightarrow> string option \<Rightarrow>
    hw_result \<Rightarrow> hw_store \<Rightarrow> hw_call" where
  "keyUnset recognized forcedPath walletId address t deviceId r s = (case r of Inl e \<Rightarrow> throw e s
     | Inr _ \<Rightarrow>
        (let devicePath = js_or forcedPath (t_path t);
             s1 = (case js_or deviceId None of None \<Rightarrow> s
               | Some i \<Rightarrow> spawn (begin_write (SetDevice i (Some (transport.extend (t\<lparr>t_deviceId := deviceId, t_path := devicePath, t_firmwareVersion := None\<rparr>)
                   (hw_device.fields i (Some recognized) False False)))) s))
         in if isTransactionInitiated s1
            then (if js_or walletId None \<noteq> Some recognized then return VUnit (wrong_device walletId s1)
              else (let s2 = s1\<lparr>isTransactionInitiated := False, unfinishedWalletTxSigning := None, isExportKeyAborted := False\<rparr>
                in return VUnit (spawn (if t_deviceType t = Some TREZOR then signTransactionTrezor recognized deviceId s2
                     else signTransactionLedger recognized devicePath s2))))
            else case (if isAddressVerificationInitiated s1 then address else None) of
                Some a \<Rightarrow>
                  (if js_or walletId None \<noteq> Some recognized
                   then return VUnit (s1\<lparr>isAddressVerificationInitiated := False, hwDeviceStatus := CONNECTING_FAILED,
                     activeDevicePath := None, unfinishedWalletAddressVerification := address, isExportKeyAborted := False\<rparr>)
                   else return VUnit (spawn (verifyAddress (Some (a, devicePath, t_deviceType t = Some TREZOR))
                     (s1\<lparr>isAddressVerificationInitiated := False, unfinishedWalletAddressVerification := None, isExportKeyAborted := False\<rparr>))))
              | None \<Rightarrow> return VUnit (hw_emit CloseDialog (hw_emit (GoToWallet recognized) s1))))"

definition keyDone :: "hw_store \<Rightarrow> hw_call" where
  "keyDone s = return VUnit (spawn (begin_read_devices (spawn (begin_read_connections (resetInitializedConnection False s)))))"

definition keyPendingUnset :: "hw_result \<Rightarrow> hw_store \<Rightarrow> hw_call" where
  "keyPendingUnset r s = (case r of Inl e \<Rightarrow> throw e s | Inr _ \<Rightarrow> keyDone s)"

definition keyCreated :: "string option \<Rightarrow> transport \<Rightarrow> hw_result \<Rightarrow> hw_store \<Rightarrow> hw_call" where
  "keyCreated forcedPath t r s = (case r of Inl e \<Rightarrow> throw e s
     | Inr _ \<Rightarrow> (case find (\<lambda>d. t_path d = js_or forcedPath (t_path t)) (devices s) of
         Some d \<Rightarrow> if isPending d then awaited [KeyPendingUnset] keyPendingUnset (begin_write (UnsetDevice (Some (dev_id d))) s) else keyDone s
       | None \<Rightarrow> keyDone s))"

definition keyExported :: "string option \<Rightarrow> string option \<Rightarrow> wallet_address option \<Rightarrow> transport \<Rightarrow> hw_result \<Rightarrow> hw_store \<Rightarrow> hw_call" where
  "keyExported forcedPath walletId address t r s = (case r of
       Inr (VKey x) \<Rightarrow>
        (let devicePath = js_or forcedPath (t_path t);
             deviceId = js_or (x_deviceId x) (t_deviceId t)
         in case recognizedWallet x s of
              Some w \<Rightarrow>
                (let s1 = spawn (begin_write (SetLocalData w (Reconnected (t\<lparr>t_path := devicePath\<rparr>) w)) s)
                 in case find (\<lambda>d. t_path d = forcedPath) (devices s1) of
                      Some d \<Rightarrow> awaited [KeyUnset w forcedPath walletId address t deviceId] (keyUnset w forcedPath walletId address t deviceId)
                                  (begin_write (UnsetDevice (Some (dev_id d))) s1)
                    | None \<Rightarrow> keyUnset w forcedPath walletId address t deviceId (Inr VUnit) s1)
            | None \<Rightarrow>
                (if isTransactionInitiated s then return VUnit (wrong_device walletId s)
                 else (hw_emit (CreateWallet (case js_or (t_deviceName t) None of None \<Rightarrow> DEFAULT_HW_NAME | Some n \<Rightarrow> n) x
                          (t\<lparr>t_deviceId := deviceId, t_path := devicePath, t_firmwareVersion := None\<rparr>)) s,
                       Await [KeyCreated forcedPath t])))
     | Inr v \<Rightarrow> return v s
     | Inl e \<Rightarrow> throw e s)"

definition listen_again :: "bool \<Rightarrow> hw_store \<Rightarrow> hw_store" where
  "listen_again isAborted s = s\<lparr>hwDeviceStatus := (if isAborted then CONNECTING else EXPORTING_PUBLIC_KEY_FAILED),
     isListeningForDevice := True, isExportKeyAborted := True\<rparr>"

definition keyCatch :: "transport \<Rightarrow> hw_result \<Rightarrow> hw_store \<Rightarrow> hw_call" where
  "keyCatch t r s = (case r of Inr v \<Rightarrow> return v s
     | Inl e \<Rightarrow> throw e
        (if is_cancelled e \<or> is_aborted e
         then (if is_cancelled e \<and> t_deviceType t = Some TREZOR then s\<lparr>keyTimeouts := keyTimeouts s @ [is_aborted e]\<rparr>
               else listen_again (is_aborted e) (stopBccBccAppFetchPoller s))
         else s\<lparr>hwDeviceStatus := EXPORTING_PUBLIC_KEY_FAILED\<rparr>))"

section \<open>Establishing a connection\<close>

definition MINIMAL_TREZOR_FIRMWARE_VERSION :: string where "MINIMAL_TREZOR_FIRMWARE_VERSION = ''2.4.0''"
definition MINIMAL_BCC_APP_VERSION :: string where "MINIMAL_BCC_APP_VERSION = ''2.3.2''"

definition transport_of :: "hw_device \<Rightarrow> transport" where "transport_of d = transport.truncate d"

definition estReturn :: "transport option \<Rightarrow> hw_result \<Rightarrow> hw_store \<Rightarrow> hw_call" where
  "estReturn t r s = (case r of Inl e \<Rightarrow> throw e s | Inr _ \<Rightarrow> return (VTransport t) s)"

definition estCatch :: "hw_result \<Rightarrow> hw_store \<Rightarrow> hw_call" where
  "estCatch r s = (case r of Inr v \<Rightarrow> return v s
     | Inl e \<Rightarrow>
        (if e_statusCode e = Some 28177 then throw (plain_error ''Device is locked'') s
         else if e_id e = Some ''TransportLocked'' then throw (plain_error ''Transport Failure'') s
         else if e_code e = Some ''Transport_Missing'' \<and> \<not> isTrezorBridgeInstalled s
              then throw (plain_error ''Trezor Bridge not installed!'') (s\<lparr>hwDeviceStatus := TREZOR_BRIDGE_FAILURE\<rparr>)
         else throw e s))"

text \<open>The export of the key is asked for again when it was aborted before.\<close>

definition export_again :: "bool \<Rightarrow> string option \<Rightarrow> transport \<Rightarrow> hw_store \<Rightarrow> hw_call" where
  "export_again isTrezor walletId t s =
     (if \<not> isExportKeyAborted s then return (VTransport (Some t)) s
      else if isTrezor
        then awaited [EstReturn (Some t)] (estReturn (Some t))
               (getExtendedPublicKey (t_path t) walletId (unfinishedWalletAddressVerification s) s)
      else return (VTransport (Some t)) (poll_app (t_path t) walletId (unfinishedWalletAddressVerification s) s))"

definition estLast :: "bool \<Rightarrow> string option \<Rightarrow> hw_result \<Rightarrow> hw_store \<Rightarrow> hw_call" where
  "estLast isTrezor walletId r s = (case r of
       Inr (VTransport t) \<Rightarrow>
        (let s1 = s\<lparr>transportDevice := t\<rparr>
         in case t of None \<Rightarrow> if isExportKeyAborted s1 then throw type_error s1 else return (VTransport None) s1
            | Some x \<Rightarrow> export_again isTrezor walletId x s1)
     | Inr v \<Rightarrow> return v s
     | Inl e \<Rightarrow> throw e s)"

text \<open>The check of the model compares constants, so it never fails.\<close>

definition unsupported :: "transport \<Rightarrow> bool" where
  "unsupported t \<longleftrightarrow> (t_deviceType t = Some TREZOR \<and> ''T'' = []) \<or> (t_deviceType t = Some LEDGER \<and> ''nanoS'' = [] \<and> ''nanoX'' = [])"

definition connect_to :: "hw_env \<Rightarrow> transport option \<Rightarrow> hw_store \<Rightarrow> hw_call" where
  "connect_to env transport s = (case transport of
       None \<Rightarrow> throw (plain_error ''Device not found'') (s\<lparr>hwDeviceStatus := CONNECTING_FAILED\<rparr>)
     | Some t \<Rightarrow>
        (if unsupported t then throw (plain_error ''Device not Supported!'') (s\<lparr>hwDeviceStatus := UNSUPPORTED_DEVICE\<rparr>)
         else if t_deviceType t = Some TREZOR
           then (case t_firmwareVersion t of
               None \<Rightarrow> throw type_error s
             | Some v \<Rightarrow>
                 if \<not> gte env v MINIMAL_TREZOR_FIRMWARE_VERSION
                 then throw (plain_error (''Firmware must be '' @ MINIMAL_TREZOR_FIRMWARE_VERSION @ '' or greater!''))
                        (s\<lparr>hwDeviceStatus := WRONG_FIRMWARE\<rparr>)
                 else awaited [EstReturn (Some t)] (estReturn (Some t))
                        (getExtendedPublicKey (t_path t) None None (s\<lparr>transportDevice := Some t\<rparr>)))
         else return (VTransport (Some t)) (poll_app (t_path t) None None (stopBccBccAppFetchPoller (s\<lparr>transportDevice := Some t\<rparr>)))))"

definition estUnpaired :: "hw_env \<Rightarrow> hw_result \<Rightarrow> hw_store \<Rightarrow> hw_call" where
  "estUnpaired env r s = (case r of Inr (VTransport t) \<Rightarrow> connect_to env t s | Inr v \<Rightarrow> return v s | Inl e \<Rightarrow> throw e s)"

definition active_wallet :: "hw_store \<Rightarrow> string option" where
  "active_wallet s = js_or (if isTransactionInitiated s then js_or (activeVotingWalletId s) (js_or (activeDelegationWalletId s) (activeWallet s))
     else activeWallet s) None"

definition establish_paired :: "hw_store \<Rightarrow> hw_call" where
  "establish_paired s =
     (let w = active_wallet s;
          recognized = (case w of None \<Rightarrow> None | Some i \<Rightarrow> paired_device i s);
          related = (case connection_of w s of None \<Rightarrow> None | Some c \<Rightarrow> t_deviceType (conn_device c))
      in case (case recognized of None \<Rightarrow> None | Some d \<Rightarrow> if dev_disconnected d then None else Some d) of
           Some d \<Rightarrow> export_again (t_deviceType d = Some TREZOR) w (transport_of d) (s\<lparr>transportDevice := Some (transport_of d)\<rparr>)
         | None \<Rightarrow> (case related of
             None \<Rightarrow> return (VTransport None) s
           | Some ty \<Rightarrow> (hw_emit (GetTransport None (ty = TREZOR)) s, Await [EstLast (ty = TREZOR) w])))"

definition establish_new :: "hw_env \<Rightarrow> hw_store \<Rightarrow> hw_call" where
  "establish_new env s = (case lastUnpairedDevice s of
       Some d \<Rightarrow> (if t_deviceType d = Some TREZOR then (hw_emit (GetTransport (t_path d) True) s, Await [EstUnpaired])
                  else connect_to env (Some (transport_of d)) s)
     | None \<Rightarrow> return (VTransport None) (s\<lparr>isListeningForDevice := True\<rparr>))"

definition establishHardwareWalletConnection :: "hw_env \<Rightarrow> hw_store \<Rightarrow> hw_call" where
  "establishHardwareWalletConnection env s =
     (let s1 = s\<lparr>hwDeviceStatus := CONNECTING\<rparr>
      in awaited [EstCatch] estCatch
           (if isTransactionInitiated s1 \<or> isAddressVerificationInitiated s1 then establish_paired s1 else establish_new env s1))"

section \<open>The app on a Ledger\<close>

definition getBccBccApp :: "string option \<Rightarrow> string option \<Rightarrow> wallet_address option \<Rightarrow> hw_store \<Rightarrow> hw_call" where
  "getBccBccApp p w a s = (hw_emit (GetApp p) (s\<lparr>hwDeviceStatus := LAUNCHING_BCC_APP\<rparr>), Await [AppOpened p w a, AppCatch p w a])"

definition app_version :: "nat \<times> nat \<times> nat \<Rightarrow> string" where
  "app_version v = (case v of (major, minor, patch) \<Rightarrow> nat_text major @ ''.'' @ nat_text minor @ ''.'' @ nat_text patch)"

definition appOpened :: "hw_env \<Rightarrow> string option \<Rightarrow> string option \<Rightarrow> wallet_address option \<Rightarrow> hw_result \<Rightarrow> hw_store \<Rightarrow> hw_call" where
  "appOpened env p w a r s = (case r of
       Inr (VApp app) \<Rightarrow>
        (let s1 = stopBccBccAppFetchPoller s
         in case app of None \<Rightarrow> return VUnit s1
            | Some v \<Rightarrow> if \<not> gte env (app_version v) MINIMAL_BCC_APP_VERSION
                then throw (plain_error (''Bcc app must be '' @ MINIMAL_BCC_APP_VERSION @ '' or greater!''))
                       (s1\<lparr>hwDeviceStatus := WRONG_BCC_APP_VERSION\<rparr>)
                else getExtendedPublicKey p w a s1)
     | Inr v \<Rightarrow> return v s
     | Inl e \<Rightarrow> throw e s)"

definition app_resumed :: "string \<Rightarrow> string option \<Rightarrow> wallet_address option \<Rightarrow> hw_error \<Rightarrow> hw_store \<Rightarrow> hw_call" where
  "app_resumed new w a e s =
     (let s1 = (if isTransactionInitiated s \<or> isAddressVerificationInitiated s then s\<lparr>activeDevicePath := Some new\<rparr> else s)
      in throw e (poll_app (Some new) w a s1))"

definition appMovedWallet :: "string \<Rightarrow> string option \<Rightarrow> wallet_address option \<Rightarrow> hw_error \<Rightarrow> hw_result \<Rightarrow> hw_store \<Rightarrow> hw_call" where
  "appMovedWallet new w a e r s = (case r of Inl e' \<Rightarrow> throw e' s | Inr _ \<Rightarrow> app_resumed new w a e s)"

definition appMoved :: "string \<Rightarrow> string option \<Rightarrow> wallet_address option \<Rightarrow> hw_error \<Rightarrow> hw_result \<Rightarrow> hw_store \<Rightarrow> hw_call" where
  "appMoved new w a e r s = (case r of Inl e' \<Rightarrow> throw e' s
     | Inr _ \<Rightarrow> (case connection_of (js_or w None) s of
         Some c \<Rightarrow> awaited [AppMovedWallet new w a e] (appMovedWallet new w a e) (begin_write (SetLocalData (conn_id c) (MovedTo new c)) s)
       | None \<Rightarrow> app_resumed new w a e s))"

definition appCatch :: "string option \<Rightarrow> string option \<Rightarrow> wallet_address option \<Rightarrow> hw_result \<Rightarrow> hw_store \<Rightarrow> hw_call" where
  "appCatch p w a r s = (case r of Inr _ \<Rightarrow> return VUnit s
     | Inl e \<Rightarrow>
        (let s1 = (if sublist ''Ledger Device is busy'' (e_message e)
               then (stopBccBccAppFetchPoller s)\<lparr>hwDeviceStatus := CONNECTING_FAILED, activeDevicePath := None,
                      unfinishedWalletTxSigning := (if isTransactionInitiated s then w else None),
                      unfinishedWalletAddressVerification := (if isAddressVerificationInitiated s then a else None)\<rparr>
               else s)
         in if e_code e = Some ''DEVICE_NOT_CONNECTED''
            then throw e ((stopBccBccAppFetchPoller s1)\<lparr>hwDeviceStatus := CONNECTING, isListeningForDevice := True\<rparr>)
            else case (if e_code e = Some ''DEVICE_PATH_CHANGED'' then js_or (e_path e) None else None) of
                None \<Rightarrow> throw e s1
              | Some new \<Rightarrow>
                  (let s2 = stopBccBccAppFetchPoller s1
                   in case find (\<lambda>d. t_path d = p) (devices s2) of
                        None \<Rightarrow> throw type_error s2
                      | Some d \<Rightarrow> awaited [AppMoved new w a e] (appMoved new w a e)
                          (begin_write (SetDevice (dev_id d) (Some (d\<lparr>t_path := Some new, isPending := False\<rparr>))) s2))))"

section \<open>Starting the verification of an address\<close>

definition isAddressVerificationEnabled :: "string \<Rightarrow> hw_store \<Rightarrow> bool" where
  "isAddressVerificationEnabled w s = (case connection_of (Some w) s of None \<Rightarrow> False
     | Some c \<Rightarrow> t_deviceType (conn_device c) = Some LEDGER)"

definition verify_on_trezor :: "wallet_address \<Rightarrow> string option \<Rightarrow> hw_connection \<Rightarrow> transport option \<Rightarrow> hw_store \<Rightarrow> hw_call" where
  "verify_on_trezor address p c t s =
     (let s1 = s\<lparr>transportDevice := t\<rparr>;
          w = conn_id c;
          active = (case paired_device w s1 of None \<Rightarrow> None | Some d \<Rightarrow> t_path d)
      in case js_or (js_or active p) None of
           Some x \<Rightarrow> getExtendedPublicKey (Some x) (Some w) (Some address) s1
         | None \<Rightarrow> (case connection_of (Some w) s1 of
             None \<Rightarrow> throw type_error s1
           | Some n \<Rightarrow> getExtendedPublicKey (js_or (conn_path n) None) (Some w) (Some address) s1))"

definition verTransport :: "wallet_address \<Rightarrow> string option \<Rightarrow> hw_connection \<Rightarrow> hw_result \<Rightarrow> hw_store \<Rightarrow> hw_call" where
  "verTransport address p c r s = (case r of
       Inr (VTransport t) \<Rightarrow> verify_on_trezor address p c t s
     | Inr v \<Rightarrow> return v s
     | Inl e \<Rightarrow> throw e s)"

definition verify_on :: "hw_env \<Rightarrow> wallet_address \<Rightarrow> string option \<Rightarrow> hw_connection \<Rightarrow> transport option \<Rightarrow> string option \<Rightarrow> hw_store \<Rightarrow> hw_call" where
  "verify_on env address p c t devicePath s =
     (if t_deviceType (conn_device c) = Some TREZOR
      then (case t of None \<Rightarrow> awaited [VerTransport address p c] (verTransport address p c) (establishHardwareWalletConnection env s)
            | Some x \<Rightarrow> verify_on_trezor address p c (Some x) s)
      else return VUnit (poll_app devicePath (Some (conn_id c)) (Some address) (stopBccBccAppFetchPoller s)))"

definition path_to_verify :: "string option \<Rightarrow> hw_connection \<Rightarrow> string option" where
  "path_to_verify p c = js_or (js_or p (conn_path c)) (t_path (conn_device c))"

text \<open>The first connection is tried inside a \<open>try\<close> that drops its error.\<close>

definition verConnected :: "hw_env \<Rightarrow> wallet_address \<Rightarrow> string option \<Rightarrow> hw_connection \<Rightarrow> hw_result \<Rightarrow> hw_store \<Rightarrow> hw_call" where
  "verConnected env address p c r s = (case r of
       Inr (VTransport (Some t)) \<Rightarrow> verify_on env address p c (Some t) (t_path t) (s\<lparr>transportDevice := Some t\<rparr>)
     | _ \<Rightarrow> verify_on env address p c None (path_to_verify p c) s)"

definition initiateAddressVerification :: "hw_env \<Rightarrow> wallet_address \<Rightarrow> string option \<Rightarrow> hw_store \<Rightarrow> hw_call" where
  "initiateAddressVerification env address p s =
     (if isAddressVerificationInitiated s then return VUnit s
      else (let s1 = s\<lparr>isAddressVerificationInitiated := True, unfinishedWalletAddressVerification := Some address, hwDeviceStatus := CONNECTING\<rparr>
        in case connection_of (activeWallet s1) s1 of
             None \<Rightarrow> throw (plain_error ''Wallet not paired or Device not connected'') s1
           | Some c \<Rightarrow> if conn_disconnected c
               then awaited [VerConnected address p c] (verConnected env address p c) (establishHardwareWalletConnection env s1)
               else verify_on env address p c None (path_to_verify p c) s1))"

section \<open>Starting a transaction\<close>

definition initTransport :: "string \<Rightarrow> hw_result \<Rightarrow> hw_store \<Rightarrow> hw_call" where
  "initTransport w r s = (case r of
       Inr (VTransport (Some t)) \<Rightarrow> getExtendedPublicKey (t_path t) (Some w) None (s\<lparr>transportDevice := Some t\<rparr>)
     | Inr _ \<Rightarrow> return VUnit s
     | Inl e \<Rightarrow> throw e s)"

definition sign_on :: "hw_env \<Rightarrow> string option \<Rightarrow> hw_connection \<Rightarrow> string option \<Rightarrow> hw_store \<Rightarrow> hw_call" where
  "sign_on env walletId c devicePath s =
     (let s1 = s\<lparr>activeDevicePath := devicePath\<rparr>
      in case js_or walletId None of
           None \<Rightarrow> return VUnit s1
         | Some w \<Rightarrow>
             (if t_deviceType (conn_device c) = Some TREZOR
              then awaited [InitTransport w] (initTransport w) (establishHardwareWalletConnection env s1)
              else return VUnit (poll_app devicePath (Some w) None (stopBccBccAppFetchPoller s1))))"

definition initFailed :: "hw_error \<Rightarrow> hw_store \<Rightarrow> hw_call" where
  "initFailed e s = throw e (s\<lparr>isTransactionInitiated := False, hwDeviceStatus := VERIFYING_TRANSACTION_FAILED\<rparr>)"

definition initConnected :: "hw_env \<Rightarrow> string option \<Rightarrow> hw_connection \<Rightarrow> hw_result \<Rightarrow> hw_store \<Rightarrow> hw_call" where
  "initConnected env walletId c r s = (case r of
       Inr (VTransport (Some t)) \<Rightarrow> sign_on env walletId c (t_path t) s
     | Inr _ \<Rightarrow> initFailed (plain_error ''Signing device not recognized!'') s
     | Inl e \<Rightarrow> initFailed e s)"

definition initiateTransaction :: "hw_env \<Rightarrow> string option \<Rightarrow> voting_data option \<Rightarrow> hw_store \<Rightarrow> hw_call" where
  "initiateTransaction env walletId votingData s =
     (let s1 = s\<lparr>isTransactionInitiated := True, hwDeviceStatus := CONNECTING, activeDelegationWalletId := walletId,
            hw_votingData := votingData, activeVotingWalletId := walletId\<rparr>
      in case connection_of walletId s1 of
           None \<Rightarrow> throw (plain_error ''Wallet not paired or Device not connected'') s1
         | Some c \<Rightarrow>
            (if \<not> conn_disconnected c then sign_on env walletId c (t_path (conn_device c)) s1
             else if t_deviceType (conn_device c) = Some TREZOR
               then (case lastUnpairedDevice s1 of
                   Some d \<Rightarrow> initConnected env walletId c (Inr (VTransport (Some (transport_of d)))) s1
                 | None \<Rightarrow> (hw_emit (GetTransport None True) s1, Await [InitConnected walletId c]))
             else awaited [InitConnected walletId c] (initConnected env walletId c) (establishHardwareWalletConnection env s1)))"

section \<open>Devices that come and go\<close>

definition changed_transport :: "hw_change \<Rightarrow> transport" where
  "changed_transport ch = \<lparr>t_deviceId = None, t_deviceType = ch_deviceType ch, t_deviceModel = ch_deviceModel ch,
     t_deviceName = ch_deviceName ch, t_path = ch_path ch, t_firmwareVersion = None\<rparr>"

text \<open>A Trezor that a wallet was created on; a Ledger does not tell its id.\<close>

definition wallet_of_device :: "hw_change \<Rightarrow> hw_store \<Rightarrow> hw_connection option" where
  "wallet_of_device ch s = (case (if ch_deviceType ch = Some TREZOR then js_or (ch_deviceId ch) None else None) of
       None \<Rightarrow> None | Some i \<Rightarrow> find (\<lambda>c. t_deviceId (conn_device c) = Some i) (connections s))"

definition opt_list :: "'a option \<Rightarrow> 'a list" where
  "opt_list x = (case x of None \<Rightarrow> [] | Some y \<Rightarrow> [y])"

text \<open>The writes of one change, decided from the lists as they are when it arrives; \<open>now\<close> is the time stamp for a device without id.\<close>

definition change_writes :: "hw_change \<Rightarrow> nat \<Rightarrow> hw_store \<Rightarrow> hw_write list" where
  "change_writes ch now s =
     (let unplugged = ch_disconnected ch \<and> ch_deviceType ch = Some LEDGER;
          owner = wallet_of_device ch s;
          device = (if unplugged then find (\<lambda>d. t_path d = ch_path ch) (devices s) else None);
          wallet = (if unplugged then (case js_or (ch_path ch) None of None \<Rightarrow> None
            | Some p \<Rightarrow> find (\<lambda>c. t_path (conn_device c) = Some p) (connections s)) else None);
          pairedWallet = (case owner of None \<Rightarrow> None | Some c \<Rightarrow> if t_deviceType (conn_device c) = Some TREZOR then Some c else None);
          known = js_or (ch_deviceId ch) None \<noteq> None;
          pendingId = (case owner of Some c \<Rightarrow> if ch_deviceType ch = Some LEDGER then t_deviceId (conn_device c) else Some (nat_text now)
            | None \<Rightarrow> Some (nat_text now));
          new = (if known \<or> (ch_deviceType ch = Some LEDGER \<and> (\<not> ch_disconnected ch \<or> owner \<noteq> None))
            then js_or (js_or (ch_deviceId ch) pendingId) None else None)
      in map (\<lambda>d. UnsetDevice (Some (dev_id d))) (opt_list device)
       @ map (\<lambda>c. SetLocalData (conn_id c) (Unplugged (changed_transport ch))) (opt_list wallet)
       @ map (\<lambda>c. SetLocalData (conn_id c) (Unplugged (changed_transport ch))) (opt_list pairedWallet)
       @ map (\<lambda>i. SetDevice i (Some (transport.extend (changed_transport ch)
           (hw_device.fields i None (ch_disconnected ch) (\<not> known \<and> owner = None))))) (opt_list new))"

fun write_changes :: "hw_write list \<Rightarrow> hw_change \<Rightarrow> hw_store \<Rightarrow> hw_call" where
  "write_changes [] ch s = (s, Await [ReadingConnections, ChangeRead1 ch])"
| "write_changes (w # ws) ch s = (hw_emit (Write w) s, Await [Writing w, ChangeWrites ws ch])"

text \<open>What waits for a device goes on.\<close>

definition change_seen :: "hw_env \<Rightarrow> hw_change \<Rightarrow> hw_store \<Rightarrow> hw_store" where
  "change_seen env ch s =
     (let plugged = \<not> ch_disconnected ch;
          fresh = (ch_eventType ch = None \<or> ch_eventType ch = Some DeviceConnect);
          s1 = (if isListeningForDevice s \<and> plugged \<and> fresh
            then spawn (establishHardwareWalletConnection env (s\<lparr>isListeningForDevice := False\<rparr>)) else s);
          s2 = (case js_or (unfinishedWalletTxSigning s1) None of
              Some w \<Rightarrow> if plugged \<and> ch_eventType ch = Some DeviceConnect
                then spawn (initiateTransaction env (Some w) None (s1\<lparr>hwDeviceStatus := CONNECTING\<rparr>)) else s1
            | None \<Rightarrow> s1)
      in case unfinishedWalletAddressVerification s2 of
           Some a \<Rightarrow> if plugged \<and> fresh
             then spawn (initiateAddressVerification env a (ch_path ch) (s2\<lparr>hwDeviceStatus := CONNECTING\<rparr>)) else s2
         | None \<Rightarrow> s2)"

definition changeHardwareWalletConnectionStatus :: "hw_change \<Rightarrow> nat \<Rightarrow> hw_store \<Rightarrow> hw_call" where
  "changeHardwareWalletConnectionStatus ch now s =
     (case (if ch_deviceType ch = Some TREZOR then ch_error ch else None) of
        Some code \<Rightarrow> return VUnit (if code = Some ''ECONNREFUSED'' then s\<lparr>isTrezorBridgeInstalled := False\<rparr> else s)
      | None \<Rightarrow>
          (let s1 = (if ch_deviceType ch = Some TREZOR then s\<lparr>isTrezorBridgeInstalled := True\<rparr> else s)
           in write_changes (change_writes ch now s1) ch s1))"

section \<open>Setup\<close>

definition getAvailableDevices :: "bool \<Rightarrow> hw_store \<Rightarrow> hw_call" where
  "getAvailableDevices isTrezor s = (s, Await [ReadingConnections, Avail1 isTrezor])"

definition check_devices :: "bool \<Rightarrow> hw_store \<Rightarrow> hw_store" where
  "check_devices isTrezor s =
     (let s1 = foldl (\<lambda>s c. spawn (begin_write (SetLocalData (conn_id c) Disconnected) s)) s (connections s)
      in foldl (\<lambda>s d. if isTrezor \<and> t_deviceType d = Some TREZOR \<and> isTrezorBridgeInstalled s
            then spawn (hw_emit (GetTransport (t_path d) True) s, Await [CheckingDevice]) else s) s1 (devices s))"

definition initTrezor :: "hw_env \<Rightarrow> hw_store \<Rightarrow> hw_call" where
  "initTrezor env s = (if supportEnabled env \<and> trezorEnabled env then (hw_emit InitTrezor s, Await [TrezorStarted]) else return VUnit s)"

definition initLedger :: "hw_env \<Rightarrow> hw_store \<Rightarrow> hw_call" where
  "initLedger env s = (if supportEnabled env \<and> ledgerEnabled env then (s, Await [ReadingDevices, LedgerStored]) else return VUnit s)"

definition ledgerStored :: "hw_store \<Rightarrow> hw_call" where
  "ledgerStored s = (let w = OverrideDevices (filter (\<lambda>d. t_deviceType d = Some TREZOR) (devices s))
     in (hw_emit (Write w) s, Await [Writing w, LedgerOverridden]))"

definition setup_hardware :: "hw_env \<Rightarrow> hw_store \<Rightarrow> hw_store" where
  "setup_hardware env s = spawn (begin_read_devices (spawn (begin_read_connections (spawn (initLedger env (spawn (initTrezor env s)))))))"

section \<open>Events\<close>

text \<open>A frame goes on with the result it waited for; most pass a rejection on.\<close>

definition on_value :: "(hw_store \<Rightarrow> hw_call) \<Rightarrow> hw_result \<Rightarrow> hw_store \<Rightarrow> hw_call" where
  "on_value k r s = (case r of Inl e \<Rightarrow> throw e s | Inr v \<Rightarrow> k s)"

definition resume_hw :: "hw_env \<Rightarrow> hw_frame \<Rightarrow> hw_result \<Rightarrow> hw_store \<Rightarrow> hw_call" where
  "resume_hw env f r s = (case f of
       Sending d v w \<Rightarrow> moneySent d v w r s
     | Selecting \<Rightarrow> coinsSelected r s
     | Writing w \<Rightarrow> written w r s
     | ReadingConnections \<Rightarrow> (case r of Inr (VConnections cs) \<Rightarrow> return VUnit (s\<lparr>connections := cs\<rparr>) | Inr v \<Rightarrow> return v s | Inl e \<Rightarrow> throw e s)
     | ReadingDevices \<Rightarrow> (case r of Inr (VDevices ds) \<Rightarrow> return VUnit (s\<lparr>devices := ds\<rparr>) | Inr v \<Rightarrow> return v s | Inl e \<Rightarrow> throw e s)
     | EstLast b w \<Rightarrow> estLast b w r s
     | EstUnpaired \<Rightarrow> estUnpaired env r s
     | EstReturn t \<Rightarrow> estReturn t r s
     | EstCatch \<Rightarrow> estCatch r s
     | AppOpened p w a \<Rightarrow> appOpened env p w a r s
     | AppCatch p w a \<Rightarrow> appCatch p w a r s
     | AppMoved n w a e \<Rightarrow> appMoved n w a e r s
     | AppMovedWallet n w a e \<Rightarrow> appMovedWallet n w a e r s
     | VerConnected a p c \<Rightarrow> verConnected env a p c r s
     | VerTransport a p c \<Rightarrow> verTransport a p c r s
     | Deriving v \<Rightarrow> addressDerived v r s
     | Showing v \<Rightarrow> addressShown r s
     | KeyExported p w a t \<Rightarrow> keyExported p w a t r s
     | KeyUnset x p w a t i \<Rightarrow> keyUnset x p w a t i r s
     | KeyCreated p t \<Rightarrow> keyCreated p t r s
     | KeyPendingUnset \<Rightarrow> keyPendingUnset r s
     | KeyCatch t \<Rightarrow> keyCatch t r s
     | PreparingLedger w p \<Rightarrow> ledgerPrepared p r s
     | SigningLedger \<Rightarrow> ledgerSigned r s
     | PreparingTrezor w i \<Rightarrow> trezorPrepared w i r s
     | SigningTrezor \<Rightarrow> trezorSigned r s
     | InitConnected w c \<Rightarrow> initConnected env w c r s
     | InitTransport w \<Rightarrow> initTransport w r s
     | ChangeWrites ws ch \<Rightarrow> on_value (write_changes ws ch) r s
     | ChangeRead1 ch \<Rightarrow> on_value (\<lambda>s. (s, Await [ReadingDevices, ChangeRead2 ch])) r s
     | ChangeRead2 ch \<Rightarrow> on_value (\<lambda>s. return VUnit (change_seen env ch s)) r s
     | TrezorStarted \<Rightarrow> on_value (getAvailableDevices True) r s
     | LedgerStored \<Rightarrow> on_value ledgerStored r s
     | LedgerOverridden \<Rightarrow> on_value (\<lambda>s. (s, Await [ReadingConnections, LedgerRead1])) r s
     | LedgerRead1 \<Rightarrow> on_value (\<lambda>s. (s, Await [ReadingDevices, LedgerRead2])) r s
     | LedgerRead2 \<Rightarrow> on_value (\<lambda>s. (hw_emit InitLedger s, Await [LedgerStarted])) r s
     | LedgerStarted \<Rightarrow> on_value (getAvailableDevices False) r s
     | Avail1 b \<Rightarrow> on_value (\<lambda>s. (s, Await [ReadingDevices, Avail2 b])) r s
     | Avail2 b \<Rightarrow> on_value (\<lambda>s. (check_devices b s, Await [ReadingConnections, Avail3])) r s
     | Avail3 \<Rightarrow> on_value (\<lambda>s. (s, Await [ReadingDevices, Avail4])) r s
     | Avail4 \<Rightarrow> on_value (return VUnit) r s
     | CheckingDevice \<Rightarrow> return VUnit s)"

fun resume_frames :: "hw_env \<Rightarrow> hw_frame list \<Rightarrow> hw_result \<Rightarrow> hw_store \<Rightarrow> hw_store" where
  "resume_frames env [] r s = s"
| "resume_frames env (f # fs) r s = (case resume_hw env f r s of
       (s', Finish r') \<Rightarrow> resume_frames env fs r' s'
     | (s', Await gs) \<Rightarrow> s'\<lparr>hw_tasks := hw_tasks s' @ [gs @ fs]\<rparr>)"

datatype hw_event =
    HAnswer nat hw_result
  | HTick nat "(string \<times> bool) list"
  | KeyTimeout
  | SendMoneyRequested bool bool "string option"
  | SelectCoinsRequested string | SelectDelegationRequested string
  | EstablishRequested
  | VerificationRequested wallet_address "string option"
  | VerificationChecked check_status
  | TransactionInitiated "string option" "voting_data option"
  | ResetTransaction bool | ResetConnection bool | ResetVerification bool | ResetTxSignRequest
  | DeviceChange hw_change nat
  | RefreshLocalData
  | UnsetWalletRequested string
  | ActiveWalletChanged "string option"
  | WalletsChanged "string list"

definition hw_step :: "hw_env \<Rightarrow> hw_store \<Rightarrow> hw_event \<Rightarrow> hw_store" where
  "hw_step env s e = (case e of
       HAnswer k r \<Rightarrow> (if k < length (hw_tasks s)
         then resume_frames env (hw_tasks s ! k) r (s\<lparr>hw_tasks := remove_nth k (hw_tasks s)\<rparr>) else s)
     | HTick i recent \<Rightarrow> (case map_of (hw_timers s) i of None \<Rightarrow> s
         | Some (AppPoll p w a) \<Rightarrow> spawn (getBccBccApp p w a s)
         | Some (TransactionCheck t w v) \<Rightarrow> checkTransaction env t w v recent s)
     | KeyTimeout \<Rightarrow> (case keyTimeouts s of [] \<Rightarrow> s | b # bs \<Rightarrow> listen_again b (s\<lparr>keyTimeouts := bs\<rparr>))
     | SendMoneyRequested d v w \<Rightarrow> spawn (sendMoney d v w s)
     | SelectCoinsRequested w \<Rightarrow> spawn (selectCoins w s)
     | SelectDelegationRequested w \<Rightarrow> spawn (selectDelegationCoins w s)
     | EstablishRequested \<Rightarrow> spawn (establishHardwareWalletConnection env s)
     | VerificationRequested a p \<Rightarrow> spawn (initiateAddressVerification env a p s)
     | VerificationChecked c \<Rightarrow> setAddressVerificationCheckStatus c s
     | TransactionInitiated w v \<Rightarrow> spawn (initiateTransaction env w v s)
     | ResetTransaction b \<Rightarrow> resetTransaction env b s
     | ResetConnection b \<Rightarrow> resetInitializedConnection b s
     | ResetVerification b \<Rightarrow> resetInitializedAddressVerification b s
     | ResetTxSignRequest \<Rightarrow> resetTxSignRequestData s
     | DeviceChange ch now \<Rightarrow> spawn (changeHardwareWalletConnectionStatus ch now s)
     | RefreshLocalData \<Rightarrow> spawn (begin_read_connections s)
     | UnsetWalletRequested w \<Rightarrow> spawn (begin_write (UnsetLocalData w) s)
     | ActiveWalletChanged w \<Rightarrow> s\<lparr>activeWallet := w\<rparr>
     | WalletsChanged ws \<Rightarrow> s\<lparr>knownWallets := ws\<rparr>)"
end
