(* ===== verification/HardwareTrace.thy ===== *)
theory HardwareTrace imports HardwareWallets begin

text \<open>
  What the operations of the hardware wallets store rest on, in every order of events: signing starts only for a wallet the
  device was recognized for, a device shows only an address that it has derived; and what goes wrong: pollers, data
  of a voting registration and verifications that are lost.
\<close>

section \<open>What a run rests on\<close>

text \<open>
  Two facts are traced through every operation: which wallets a device was recognized for when something signs for them, and
  which addresses were derived by the device that shows them. A timer that no field holds is traced along with them.
\<close>

datatype mark = Signing string | Shown wallet_address

definition frame_ok :: "mark set \<Rightarrow> hw_frame \<Rightarrow> bool" where
  "frame_ok M f = (case f of
       KeyUnset x p w a t i \<Rightarrow> js_or w None = Some x \<longrightarrow> Signing x \<in> M
     | PreparingLedger w p \<Rightarrow> Signing w \<in> M
     | PreparingTrezor w i \<Rightarrow> Signing w \<in> M
     | Showing v \<Rightarrow> Shown (fst v) \<in> M
     | _ \<Rightarrow> True)"

definition entry :: "hw_frame \<Rightarrow> bool" where
  "entry f = (case f of KeyExported p w a t \<Rightarrow> True | Deriving v \<Rightarrow> True | _ \<Rightarrow> False)"

text \<open>The frames whose result is new to the store stand first.\<close>

definition stack_ok :: "mark set \<Rightarrow> hw_frame list \<Rightarrow> bool" where
  "stack_ok M fs \<longleftrightarrow> list_all (frame_ok M) fs \<and> list_all (\<lambda>f. \<not> entry f) (tl fs)"

definition inner_ok :: "mark set \<Rightarrow> hw_frame list \<Rightarrow> bool" where
  "inner_ok M fs \<longleftrightarrow> list_all (\<lambda>f. frame_ok M f \<and> \<not> entry f) fs"

definition shows_ok :: "mark set \<Rightarrow> hw_effect \<Rightarrow> bool" where
  "shows_ok M x = (case x of ShowAddress v \<Rightarrow> Shown (fst v) \<in> M | _ \<Rightarrow> True)"

definition lost_timer :: "(nat \<times> hw_timer) option \<Rightarrow> hw_store \<Rightarrow> bool" where
  "lost_timer t s \<longleftrightarrow> (\<forall>i x. t = Some (i, x) \<longrightarrow> (i, x) \<in> set (hw_timers s) \<and> i < hw_next s
     \<and> appPoller s \<noteq> Some i \<and> transactionPoller s \<noteq> Some i)"

definition hw_ok :: "(nat \<times> hw_timer) option \<Rightarrow> mark set \<Rightarrow> hw_store \<Rightarrow> bool" where
  "hw_ok t M s \<longleftrightarrow> list_all (stack_ok M) (hw_tasks s) \<and> list_all (shows_ok M) (hw_effects s) \<and> lost_timer t s"

definition call_ok :: "(nat \<times> hw_timer) option \<Rightarrow> mark set \<Rightarrow> hw_call \<Rightarrow> bool" where
  "call_ok t M c = (case c of (s, Finish r) \<Rightarrow> hw_ok t M s | (s, Await fs) \<Rightarrow> hw_ok t M s \<and> fs \<noteq> [] \<and> stack_ok M fs)"

lemma lost_fields [simp]:
  "lost_timer t (s\<lparr>hwDeviceStatus := x1\<rparr>) = lost_timer t s" "lost_timer t (s\<lparr>txSignRequest := x2\<rparr>) = lost_timer t s"
  "lost_timer t (s\<lparr>transportDevice := x3\<rparr>) = lost_timer t s" "lost_timer t (s\<lparr>hw_txBody := x4\<rparr>) = lost_timer t s"
  "lost_timer t (s\<lparr>hw_isTransactionPending := x5\<rparr>) = lost_timer t s" "lost_timer t (s\<lparr>isTrezorBridgeInstalled := x6\<rparr>) = lost_timer t s"
  "lost_timer t (s\<lparr>isTransactionInitiated := x7\<rparr>) = lost_timer t s" "lost_timer t (s\<lparr>activeDevicePath := x8\<rparr>) = lost_timer t s"
  "lost_timer t (s\<lparr>unfinishedWalletTxSigning := x9\<rparr>) = lost_timer t s" "lost_timer t (s\<lparr>isListeningForDevice := x10\<rparr>) = lost_timer t s"
  "lost_timer t (s\<lparr>isAddressVerificationInitiated := x11\<rparr>) = lost_timer t s"
  "lost_timer t (s\<lparr>unfinishedWalletAddressVerification := x12\<rparr>) = lost_timer t s"
  "lost_timer t (s\<lparr>isAddressDerived := x13\<rparr>) = lost_timer t s" "lost_timer t (s\<lparr>isAddressChecked := x14\<rparr>) = lost_timer t s"
  "lost_timer t (s\<lparr>isAddressCorrect := x15\<rparr>) = lost_timer t s" "lost_timer t (s\<lparr>tempAddressToVerify := x16\<rparr>) = lost_timer t s"
  "lost_timer t (s\<lparr>isExportKeyAborted := x17\<rparr>) = lost_timer t s" "lost_timer t (s\<lparr>activeDelegationWalletId := x18\<rparr>) = lost_timer t s"
  "lost_timer t (s\<lparr>activeVotingWalletId := x19\<rparr>) = lost_timer t s" "lost_timer t (s\<lparr>hw_votingData := x20\<rparr>) = lost_timer t s"
  "lost_timer t (s\<lparr>connections := x21\<rparr>) = lost_timer t s" "lost_timer t (s\<lparr>devices := x22\<rparr>) = lost_timer t s"
  "lost_timer t (s\<lparr>keyTimeouts := x23\<rparr>) = lost_timer t s" "lost_timer t (s\<lparr>activeWallet := x24\<rparr>) = lost_timer t s"
  "lost_timer t (s\<lparr>knownWallets := x25\<rparr>) = lost_timer t s" "lost_timer t (s\<lparr>hw_tasks := x26\<rparr>) = lost_timer t s"
  "lost_timer t (s\<lparr>hw_effects := x27\<rparr>) = lost_timer t s"
  by (simp_all add: lost_timer_def)

lemma hw_ok_fields [simp]:
  "hw_ok t M (s\<lparr>hwDeviceStatus := x1\<rparr>) = hw_ok t M s" "hw_ok t M (s\<lparr>txSignRequest := x2\<rparr>) = hw_ok t M s"
  "hw_ok t M (s\<lparr>transportDevice := x3\<rparr>) = hw_ok t M s" "hw_ok t M (s\<lparr>hw_txBody := x4\<rparr>) = hw_ok t M s"
  "hw_ok t M (s\<lparr>hw_isTransactionPending := x5\<rparr>) = hw_ok t M s" "hw_ok t M (s\<lparr>isTrezorBridgeInstalled := x6\<rparr>) = hw_ok t M s"
  "hw_ok t M (s\<lparr>isTransactionInitiated := x7\<rparr>) = hw_ok t M s" "hw_ok t M (s\<lparr>activeDevicePath := x8\<rparr>) = hw_ok t M s"
  "hw_ok t M (s\<lparr>unfinishedWalletTxSigning := x9\<rparr>) = hw_ok t M s" "hw_ok t M (s\<lparr>isListeningForDevice := x10\<rparr>) = hw_ok t M s"
  "hw_ok t M (s\<lparr>isAddressVerificationInitiated := x11\<rparr>) = hw_ok t M s"
  "hw_ok t M (s\<lparr>unfinishedWalletAddressVerification := x12\<rparr>) = hw_ok t M s"
  "hw_ok t M (s\<lparr>isAddressDerived := x13\<rparr>) = hw_ok t M s" "hw_ok t M (s\<lparr>isAddressChecked := x14\<rparr>) = hw_ok t M s"
  "hw_ok t M (s\<lparr>isAddressCorrect := x15\<rparr>) = hw_ok t M s" "hw_ok t M (s\<lparr>tempAddressToVerify := x16\<rparr>) = hw_ok t M s"
  "hw_ok t M (s\<lparr>isExportKeyAborted := x17\<rparr>) = hw_ok t M s" "hw_ok t M (s\<lparr>activeDelegationWalletId := x18\<rparr>) = hw_ok t M s"
  "hw_ok t M (s\<lparr>activeVotingWalletId := x19\<rparr>) = hw_ok t M s" "hw_ok t M (s\<lparr>hw_votingData := x20\<rparr>) = hw_ok t M s"
  "hw_ok t M (s\<lparr>connections := x21\<rparr>) = hw_ok t M s" "hw_ok t M (s\<lparr>devices := x22\<rparr>) = hw_ok t M s"
  "hw_ok t M (s\<lparr>keyTimeouts := x23\<rparr>) = hw_ok t M s" "hw_ok t M (s\<lparr>activeWallet := x24\<rparr>) = hw_ok t M s"
  "hw_ok t M (s\<lparr>knownWallets := x25\<rparr>) = hw_ok t M s"
  by (simp_all add: hw_ok_def)

lemma hw_ok_emit [simp]: "hw_ok t M (hw_emit x s) \<longleftrightarrow> hw_ok t M s \<and> shows_ok M x"
  by (auto simp: hw_ok_def hw_emit_def)

lemma hw_ok_tasks [simp]: "hw_ok t M (s\<lparr>hw_tasks := hw_tasks s @ [fs]\<rparr>) \<longleftrightarrow> hw_ok t M s \<and> stack_ok M fs"
  by (auto simp: hw_ok_def)

lemma call_ok_simps [simp]:
  "call_ok t M (throw e s) = hw_ok t M s"
  "call_ok t M (return v s) = hw_ok t M s"
  "call_ok t M (s, Finish r) = hw_ok t M s"
  "call_ok t M (s, Await (f # fs)) \<longleftrightarrow> hw_ok t M s \<and> frame_ok M f \<and> inner_ok M fs"
  by (auto simp: call_ok_def throw_def return_def stack_ok_def inner_ok_def list_all_iff)

lemma inner_ok_simps [simp]:
  "inner_ok M []" "inner_ok M (f # fs) \<longleftrightarrow> frame_ok M f \<and> \<not> entry f \<and> inner_ok M fs"
  by (simp_all add: inner_ok_def)

lemma hw_ok_spawn: "call_ok t M c \<Longrightarrow> hw_ok t M (spawn c)"
  by (auto simp: call_ok_def spawn_def split: prod.splits hw_control.splits)

lemma stack_ok_append: "stack_ok M gs \<Longrightarrow> gs \<noteq> [] \<Longrightarrow> inner_ok M fs \<Longrightarrow> stack_ok M (gs @ fs)"
  by (auto simp: stack_ok_def inner_ok_def list_all_iff)

lemma call_ok_awaited:
  assumes "call_ok t M c" and "inner_ok M fs" and "\<And>r s. hw_ok t M s \<Longrightarrow> call_ok t M (h r s)"
  shows "call_ok t M (awaited fs h c)"
proof -
  obtain s k where c: "c = (s, k)" by (cases c)
  show ?thesis
  proof (cases k)
    case (Finish r)
    with assms(1,3) c show ?thesis by (simp add: awaited_def)
  next
    case (Await gs)
    with assms(1,2) c show ?thesis by (simp add: awaited_def call_ok_def stack_ok_append)
  qed
qed

lemma frame_entry_simps [simp]:
  "frame_ok M (Sending d v w')" "frame_ok M Selecting" "frame_ok M (Writing wr)" "frame_ok M ReadingConnections"
  "frame_ok M ReadingDevices" "frame_ok M (EstLast b w)" "frame_ok M EstUnpaired" "frame_ok M (EstReturn t)" "frame_ok M EstCatch"
  "frame_ok M (AppOpened p w a)" "frame_ok M (AppCatch p w a)" "frame_ok M (AppMoved n w a e)" "frame_ok M (AppMovedWallet n w a e)"
  "frame_ok M (VerConnected a' p c)" "frame_ok M (VerTransport a' p c)" "frame_ok M (Deriving v')"
  "frame_ok M (Showing v') = (Shown (fst v') \<in> M)" "frame_ok M (KeyExported p w a t')"
  "frame_ok M (KeyUnset x p w a t' i) = (js_or w None = Some x \<longrightarrow> Signing x \<in> M)"
  "frame_ok M (KeyCreated p t')" "frame_ok M KeyPendingUnset" "frame_ok M (KeyCatch t')"
  "frame_ok M (PreparingLedger w' p) = (Signing w' \<in> M)" "frame_ok M SigningLedger"
  "frame_ok M (PreparingTrezor w' i) = (Signing w' \<in> M)" "frame_ok M SigningTrezor" "frame_ok M (InitConnected w c)"
  "frame_ok M (InitTransport w')" "frame_ok M (ChangeWrites ws ch)" "frame_ok M (ChangeRead1 ch)" "frame_ok M (ChangeRead2 ch)"
  "frame_ok M TrezorStarted" "frame_ok M LedgerStored" "frame_ok M LedgerOverridden" "frame_ok M LedgerRead1" "frame_ok M LedgerRead2"
  "frame_ok M LedgerStarted" "frame_ok M (Avail1 b)" "frame_ok M (Avail2 b)" "frame_ok M Avail3" "frame_ok M Avail4" "frame_ok M CheckingDevice"
  "entry f \<longleftrightarrow> (case f of KeyExported p w a t \<Rightarrow> True | Deriving v \<Rightarrow> True | _ \<Rightarrow> False)"
  by (simp_all add: frame_ok_def entry_def)

lemma shows_simps [simp]:
  "shows_ok M (ShowAddress v) = (Shown (fst v) \<in> M)" "(\<And>v. x \<noteq> ShowAddress v) \<Longrightarrow> shows_ok M x"
  by (auto simp: shows_ok_def split: hw_effect.split)

lemma hw_ok_timers:
  assumes "hw_ok t M s"
  shows "hw_ok t M (stopBccBccAppFetchPoller s)" and "hw_ok t M (poll_app p w a s)" and "hw_ok t M (poll_transaction x y v s)"
    and "hw_ok t M (stop_transaction_poller s)"
  using assms
  by (auto simp: hw_ok_def lost_timer_def stopBccBccAppFetchPoller_def poll_app_def poll_transaction_def stop_transaction_poller_def
      split: option.splits)

section \<open>The operations keep what they rest on\<close>

lemma hw_ok_stop_fields [simp]:
  "isTransactionInitiated (stopBccBccAppFetchPoller s) = isTransactionInitiated s"
  "devices (stopBccBccAppFetchPoller s) = devices s" "connections (stopBccBccAppFetchPoller s) = connections s"
  by (simp_all add: stopBccBccAppFetchPoller_def split: option.split)

lemma hw_ok_storage [intro]:
  assumes "hw_ok t M s"
  shows "call_ok t M (begin_read_connections s)" and "call_ok t M (begin_read_devices s)" and "call_ok t M (begin_write w s)"
  using assms by (simp_all add: begin_read_connections_def begin_read_devices_def begin_write_def)

lemmas hw_spawned = hw_ok_spawn [OF hw_ok_storage(1)] hw_ok_spawn [OF hw_ok_storage(2)] hw_ok_spawn [OF hw_ok_storage(3)]

lemma call_ok_written: "hw_ok t M s \<Longrightarrow> call_ok t M (written w r s)"
  by (auto simp: written_def Let_def intro!: hw_spawned split: sum.split hw_write.split option.split)

lemma hw_ok_resetTransaction: "hw_ok t M s \<Longrightarrow> hw_ok t M (resetTransaction env b s)"
  by (simp add: resetTransaction_def Let_def hw_ok_timers)

lemma hw_ok_checkTransaction: "hw_ok t M s \<Longrightarrow> hw_ok t M (checkTransaction env x w v recent s)"
  by (simp add: checkTransaction_def resetTransactionChecker_def Let_def setTransactionPendingState_def hw_ok_timers hw_ok_resetTransaction)

lemma call_ok_money:
  assumes "hw_ok t M s"
  shows "call_ok t M (sendMoney d v w s)" and "call_ok t M (moneySent d v w' r s)" and "call_ok t M (selectCoins w' s)"
    and "call_ok t M (coinsSelected r s)"
    and "call_ok t M (selectDelegationCoins w' s)"
  using assms
  by (auto simp: sendMoney_def moneySent_def selectCoins_def selectDelegationCoins_def coinsSelected_def Let_def setTransactionPendingState_def hw_ok_timers
      split: option.split sum.split hw_answer.split)

lemma call_ok_signing:
  assumes "hw_ok t M s"
  shows "Signing w \<in> M \<Longrightarrow> call_ok t M (signTransactionLedger w p s)" and "call_ok t M (ledgerPrepared p r s)"
    and "call_ok t M (ledgerSigned r s)" and "Signing w \<in> M \<Longrightarrow> call_ok t M (signTransactionTrezor w i s)"
    and "call_ok t M (trezorPrepared w i r s)" and "call_ok t M (trezorSigned r s)"
  using assms
  by (auto simp: signTransactionLedger_def ledgerPrepared_def ledgerSigned_def signTransactionTrezor_def trezorPrepared_def
      trezorSigned_def Let_def split: option.split sum.split hw_answer.split)

lemma call_ok_verifyAddress: "hw_ok t M s \<Longrightarrow> call_ok t M (verifyAddress v s)"
  by (simp add: verifyAddress_def Let_def split: option.split)

lemma call_ok_addressDerived:
  assumes "hw_ok t M s" and "\<And>d. r = Inr (VText d) \<Longrightarrow> d = wa_id (fst v) \<Longrightarrow> Shown (fst v) \<in> M"
  shows "call_ok t M (addressDerived v r s)"
  using assms
  by (auto simp: addressDerived_def showAddress_def hw_ok_timers intro!: hw_ok_spawn split: prod.split sum.split hw_answer.split)

lemma call_ok_addressShown: "hw_ok t M s \<Longrightarrow> call_ok t M (addressShown r s)"
  by (simp add: addressShown_def split: sum.split)

lemma hw_ok_checkStatus: "hw_ok t M s \<Longrightarrow> hw_ok t M (setAddressVerificationCheckStatus c s)"
  by (simp add: setAddressVerificationCheckStatus_def hw_ok_spawn call_ok_verifyAddress split: check_status.split)

lemma hw_ok_resets:
  assumes "hw_ok t M s"
  shows "hw_ok t M (resetInitializedConnection b s)" and "hw_ok t M (resetInitializedAddressVerification b s)"
  using assms by (simp_all add: resetInitializedConnection_def resetInitializedAddressVerification_def hw_ok_timers)

lemma call_ok_getExtendedPublicKey: "hw_ok t M s \<Longrightarrow> call_ok t M (getExtendedPublicKey p w a s)"
  by (simp add: getExtendedPublicKey_def Let_def split: option.split)

lemma hw_ok_wrong_device [simp]: "hw_ok t M (wrong_device w s) = hw_ok t M s"
  by (simp add: wrong_device_def)

lemma call_ok_keyUnset:
  assumes "hw_ok t M s" and "js_or w None = Some x \<longrightarrow> Signing x \<in> M"
  shows "call_ok t M (keyUnset x p w a d i r s)"
  using assms
  by (auto simp: keyUnset_def Let_def intro!: hw_ok_spawn call_ok_signing call_ok_verifyAddress hw_ok_storage
      split: sum.split option.split)

lemma call_ok_keyDone: "hw_ok t M s \<Longrightarrow> call_ok t M (keyDone s)"
  by (simp add: keyDone_def hw_spawned hw_ok_resets)

lemma call_ok_keyPendingUnset: "hw_ok t M s \<Longrightarrow> call_ok t M (keyPendingUnset r s)"
  by (simp add: keyPendingUnset_def call_ok_keyDone split: sum.split)

lemma call_ok_keyCreated: "hw_ok t M s \<Longrightarrow> call_ok t M (keyCreated p d r s)"
  by (auto simp: keyCreated_def intro!: call_ok_awaited call_ok_keyDone call_ok_keyPendingUnset hw_ok_storage
      split: sum.split option.split)

lemma call_ok_keyExported:
  assumes "hw_ok t M s" and "\<And>x y. r = Inr (VKey x) \<Longrightarrow> recognizedWallet x s = Some y \<Longrightarrow> js_or w None = Some y \<Longrightarrow> Signing y \<in> M"
  shows "call_ok t M (keyExported p w a d r s)"
  using assms
  by (auto simp: keyExported_def Let_def intro!: call_ok_awaited call_ok_keyUnset hw_ok_storage hw_spawned
      split: sum.split hw_answer.split option.split)

lemma hw_ok_listen_again [simp]: "hw_ok t M (listen_again b s) = hw_ok t M s"
  by (simp add: listen_again_def)

lemma call_ok_keyCatch: "hw_ok t M s \<Longrightarrow> call_ok t M (keyCatch d r s)"
  by (simp add: keyCatch_def hw_ok_timers split: sum.split)

lemma call_ok_connecting:
  assumes "hw_ok t M s"
  shows "call_ok t M (estReturn d r s)" and "call_ok t M (estCatch r s)" and "call_ok t M (export_again b w x s)"
  using assms
  by (auto simp: estReturn_def estCatch_def export_again_def hw_ok_timers
      intro!: call_ok_awaited call_ok_getExtendedPublicKey split: sum.split)

lemma call_ok_estLast: "hw_ok t M s \<Longrightarrow> call_ok t M (estLast b w r s)"
  by (auto simp: estLast_def Let_def intro!: call_ok_connecting split: sum.split hw_answer.split option.split)

lemma call_ok_connect_to: "hw_ok t M s \<Longrightarrow> call_ok t M (connect_to env d s)"
  by (auto simp: connect_to_def hw_ok_timers intro!: call_ok_awaited call_ok_getExtendedPublicKey call_ok_connecting
      split: option.split)

lemma call_ok_estUnpaired: "hw_ok t M s \<Longrightarrow> call_ok t M (estUnpaired env r s)"
  by (simp add: estUnpaired_def call_ok_connect_to split: sum.split hw_answer.split)

lemma call_ok_establish: "hw_ok t M s \<Longrightarrow> call_ok t M (establishHardwareWalletConnection env s)"
  by (auto simp: establishHardwareWalletConnection_def establish_paired_def establish_new_def Let_def
      intro!: call_ok_awaited call_ok_connecting call_ok_connect_to split: option.split)

lemma call_ok_getBccBccApp: "hw_ok t M s \<Longrightarrow> call_ok t M (getBccBccApp p w a s)"
  by (simp add: getBccBccApp_def)

lemma call_ok_appOpened: "hw_ok t M s \<Longrightarrow> call_ok t M (appOpened env p w a r s)"
  by (simp add: appOpened_def Let_def hw_ok_timers call_ok_getExtendedPublicKey split: sum.split hw_answer.split option.split)

lemma call_ok_appMoved:
  assumes "hw_ok t M s"
  shows "call_ok t M (appMovedWallet n w a e r s)" and "call_ok t M (appMoved n w a e r s)"
  using assms
  by (auto simp: appMovedWallet_def appMoved_def app_resumed_def Let_def hw_ok_timers intro!: call_ok_awaited hw_ok_storage
      split: sum.split option.split)

lemma call_ok_appCatch: "hw_ok t M s \<Longrightarrow> call_ok t M (appCatch p w a r s)"
  by (auto simp: appCatch_def Let_def hw_ok_timers intro!: call_ok_awaited hw_ok_storage call_ok_appMoved split: sum.split option.split)

lemma call_ok_verification:
  assumes "hw_ok t M s"
  shows "call_ok t M (verify_on_trezor a p c d s)" and "call_ok t M (verTransport a p c r s)" and "call_ok t M (verify_on env a p c d x s)"
  using assms
  by (auto simp: verify_on_trezor_def verTransport_def verify_on_def Let_def hw_ok_timers
      intro!: call_ok_awaited call_ok_getExtendedPublicKey call_ok_establish split: sum.split hw_answer.split option.split)

lemma call_ok_initiateVerification:
  assumes "hw_ok t M s"
  shows "call_ok t M (verConnected env a p c r s)" and "call_ok t M (initiateAddressVerification env a p s)"
  using assms
  by (auto simp: verConnected_def initiateAddressVerification_def Let_def intro!: call_ok_awaited call_ok_verification call_ok_establish
      split: sum.split hw_answer.split option.split)

lemma call_ok_sign_on:
  assumes "hw_ok t M s"
  shows "call_ok t M (initTransport w' r s)" and "call_ok t M (sign_on env w c p s)"
  using assms
  by (auto simp: initTransport_def sign_on_def Let_def hw_ok_timers intro!: call_ok_awaited call_ok_getExtendedPublicKey call_ok_establish
      split: sum.split hw_answer.split option.split)

lemma call_ok_initiateTransaction:
  assumes "hw_ok t M s"
  shows "call_ok t M (initConnected env w c r s)" and "call_ok t M (initiateTransaction env w v s)"
  using assms
  by (auto simp: initConnected_def initFailed_def initiateTransaction_def Let_def intro!: call_ok_awaited call_ok_sign_on call_ok_establish
      split: sum.split hw_answer.split option.split)

lemma call_ok_write_changes: "hw_ok t M s \<Longrightarrow> call_ok t M (write_changes ws ch s)"
  by (cases ws) simp_all

lemma hw_ok_change_seen: "hw_ok t M s \<Longrightarrow> hw_ok t M (change_seen env ch s)"
  by (auto simp: change_seen_def Let_def
      intro!: hw_ok_spawn call_ok_establish call_ok_initiateTransaction call_ok_initiateVerification split: option.split)

lemma call_ok_change: "hw_ok t M s \<Longrightarrow> call_ok t M (changeHardwareWalletConnectionStatus ch now s)"
  by (auto simp: changeHardwareWalletConnectionStatus_def Let_def intro!: call_ok_write_changes split: option.split)

lemma hw_ok_foldl: "hw_ok t M s \<Longrightarrow> (\<And>s x. hw_ok t M s \<Longrightarrow> hw_ok t M (f s x)) \<Longrightarrow> hw_ok t M (foldl f s xs)"
  by (induction xs arbitrary: s) simp_all

lemma hw_ok_check_devices: "hw_ok t M s \<Longrightarrow> hw_ok t M (check_devices b s)"
  by (auto simp: check_devices_def Let_def intro!: hw_ok_foldl hw_spawned hw_ok_spawn)

lemma call_ok_on_value: "hw_ok t M s \<Longrightarrow> (\<And>s. hw_ok t M s \<Longrightarrow> call_ok t M (k s)) \<Longrightarrow> call_ok t M (on_value k r s)"
  by (simp add: on_value_def split: sum.split)

lemma call_ok_setup_frames:
  assumes "hw_ok t M s"
  shows "call_ok t M (getAvailableDevices b s)" and "call_ok t M (ledgerStored s)" and "call_ok t M (initTrezor env s)"
    and "call_ok t M (initLedger env s)"
  using assms by (simp_all add: getAvailableDevices_def ledgerStored_def initTrezor_def initLedger_def Let_def)

lemma hw_ok_setup: "hw_ok t M s \<Longrightarrow> hw_ok t M (setup_hardware env s)"
  by (simp add: setup_hardware_def hw_spawned hw_ok_spawn call_ok_setup_frames)

section \<open>Runs\<close>

text \<open>An exported key makes the wallet it belongs to known; a derived address that is the one asked for makes that address known.\<close>

definition hw_fresh :: "hw_store \<Rightarrow> hw_event \<Rightarrow> mark set" where
  "hw_fresh s e = (case e of
       HAnswer k (Inr (VKey x)) \<Rightarrow> {Signing w | w. k < length (hw_tasks s) \<and> recognizedWallet x s = Some w
         \<and> (\<exists>p a t fs. hw_tasks s ! k = KeyExported p (Some w) a t # fs)}
     | HAnswer k (Inr (VText d)) \<Rightarrow> {Shown a | a. k < length (hw_tasks s) \<and> wa_id a = d
         \<and> (\<exists>p b fs. hw_tasks s ! k = Deriving (a, p, b) # fs)}
     | _ \<Rightarrow> {})"

lemma call_ok_resume:
  assumes "hw_ok t M s" and "frame_ok M f"
    and "\<And>p w a d x y. f = KeyExported p w a d \<Longrightarrow> r = Inr (VKey x) \<Longrightarrow> recognizedWallet x s = Some y \<Longrightarrow> js_or w None = Some y
      \<Longrightarrow> Signing y \<in> M"
    and "\<And>v d. f = Deriving v \<Longrightarrow> r = Inr (VText d) \<Longrightarrow> d = wa_id (fst v) \<Longrightarrow> Shown (fst v) \<in> M"
  shows "call_ok t M (resume_hw env f r s)"
proof (cases f)
  case (KeyExported p w a d)
  with assms show ?thesis by (auto simp: resume_hw_def intro!: call_ok_keyExported)
next
  case (Deriving v)
  have "call_ok t M (addressDerived v r s)"
    by (rule call_ok_addressDerived [OF assms(1)]) (use assms(4) Deriving in blast)
  with Deriving show ?thesis by (simp add: resume_hw_def)
qed (use assms(1,2) in \<open>auto simp: resume_hw_def on_value_def hw_ok_check_devices hw_ok_change_seen
    intro: call_ok_money call_ok_written call_ok_estLast call_ok_estUnpaired call_ok_connecting call_ok_appOpened call_ok_appCatch
      call_ok_appMoved call_ok_initiateVerification call_ok_verification call_ok_addressShown call_ok_keyUnset call_ok_keyCreated
      call_ok_keyPendingUnset call_ok_keyCatch call_ok_signing call_ok_initiateTransaction call_ok_sign_on call_ok_write_changes
      call_ok_setup_frames split: sum.split hw_answer.split\<close>)

lemma hw_ok_continue:
  assumes "call_ok t M (s', k)" and "inner_ok M fs" and "\<And>r s. hw_ok t M s \<Longrightarrow> hw_ok t M (resume_frames env fs r s)"
  shows "hw_ok t M (case (s', k) of (s', Finish r') \<Rightarrow> resume_frames env fs r' s'
     | (s', Await gs) \<Rightarrow> s'\<lparr>hw_tasks := hw_tasks s' @ [gs @ fs]\<rparr>)"
  using assms by (cases k) (auto simp: call_ok_def stack_ok_append)

lemma hw_ok_inner: "inner_ok M fs \<Longrightarrow> hw_ok t M s \<Longrightarrow> hw_ok t M (resume_frames env fs r s)"
proof (induction fs arbitrary: r s)
  case (Cons f fs)
  from Cons.prems have f: "frame_ok M f" "\<not> entry f" "inner_ok M fs" by simp_all
  have "call_ok t M (resume_hw env f r s)"
    by (rule call_ok_resume [OF Cons.prems(2) f(1)]) (use f(2) in auto)
  then obtain s' k where "resume_hw env f r s = (s', k)" "call_ok t M (s', k)" by (metis surj_pair)
  with hw_ok_continue [OF this(2) f(3) Cons.IH [OF f(3)]] show ?case by simp
qed simp

lemma hw_ok_stack:
  assumes "hw_ok t M s" and "stack_ok M fs"
    and "\<And>p w a d x y gs. fs = KeyExported p w a d # gs \<Longrightarrow> r = Inr (VKey x) \<Longrightarrow> recognizedWallet x s = Some y \<Longrightarrow> js_or w None = Some y
      \<Longrightarrow> Signing y \<in> M"
    and "\<And>v d gs. fs = Deriving v # gs \<Longrightarrow> r = Inr (VText d) \<Longrightarrow> d = wa_id (fst v) \<Longrightarrow> Shown (fst v) \<in> M"
  shows "hw_ok t M (resume_frames env fs r s)"
proof (cases fs)
  case (Cons f gs)
  with assms(2) have f: "frame_ok M f" "inner_ok M gs" by (auto simp: stack_ok_def inner_ok_def list_all_iff)
  have "call_ok t M (resume_hw env f r s)"
    by (rule call_ok_resume [OF assms(1) f(1)]) (use assms(3,4) Cons in blast)+
  then obtain s' k where "resume_hw env f r s = (s', k)" "call_ok t M (s', k)" by (metis surj_pair)
  with hw_ok_continue [OF this(2) f(2) hw_ok_inner [OF f(2)]] Cons show ?thesis by simp
qed (use assms(1) in simp)

lemma js_or_None [simp]: "js_or w None = Some y \<longleftrightarrow> w = Some y \<and> y \<noteq> []"
  by (auto simp: js_or_def)

lemma recognized_tasks [simp]: "recognizedWallet x (s\<lparr>hw_tasks := ts\<rparr>) = recognizedWallet x s"
  by (simp add: recognizedWallet_def matching_connection_def split: option.split)

lemma hw_ok_answer:
  assumes "hw_ok t M s" and "hw_fresh s (HAnswer k r) \<subseteq> M"
  shows "hw_ok t M (hw_step env s (HAnswer k r))"
proof (cases "k < length (hw_tasks s)")
  case True
  let ?s = "s\<lparr>hw_tasks := remove_nth k (hw_tasks s)\<rparr>"
  from assms(1) have "hw_ok t M ?s"
    by (auto simp: hw_ok_def remove_nth_def list_all_iff dest: in_set_takeD in_set_dropD)
  moreover from assms(1) True have "stack_ok M (hw_tasks s ! k)" by (auto simp: hw_ok_def list_all_iff)
  ultimately have "hw_ok t M (resume_frames env (hw_tasks s ! k) r ?s)"
    by (rule hw_ok_stack) (use assms(2) True in \<open>auto simp: hw_fresh_def subset_iff\<close>)
  with True show ?thesis by (simp add: hw_step_def)
qed (use assms(1) in \<open>simp add: hw_step_def\<close>)

lemma hw_ok_step:
  assumes "hw_ok t M s" and "hw_fresh s e \<subseteq> M"
  shows "hw_ok t M (hw_step env s e)"
proof (cases e)
  case (HAnswer k r)
  with hw_ok_answer assms show ?thesis by simp
next
  case (HTick i recent)
  with assms(1) show ?thesis
    by (auto simp: hw_step_def hw_ok_checkTransaction intro!: hw_ok_spawn call_ok_getBccBccApp split: option.split hw_timer.split)
qed (use assms(1) in \<open>auto simp: hw_step_def hw_ok_resetTransaction hw_ok_resets hw_ok_checkStatus resetTxSignRequestData_def
    intro!: hw_ok_spawn call_ok_money call_ok_establish call_ok_initiateVerification call_ok_initiateTransaction call_ok_change hw_ok_storage
    split: list.split\<close>)

lemma frame_ok_mono: "frame_ok M f \<Longrightarrow> M \<subseteq> N \<Longrightarrow> frame_ok N f"
  by (cases f) auto

lemma shows_ok_mono: "shows_ok M x \<Longrightarrow> M \<subseteq> N \<Longrightarrow> shows_ok N x"
  by (cases x) auto

lemma hw_ok_more: "hw_ok t M s \<Longrightarrow> M \<subseteq> N \<Longrightarrow> hw_ok t N s"
  by (auto simp: hw_ok_def list_all_iff stack_ok_def intro: frame_ok_mono shows_ok_mono)

interpretation hw_traced: traced_machine "hw_step env" hw_fresh "hw_ok t"
  by unfold_locales (simp_all add: hw_ok_step hw_ok_more)

interpretation hw_machine: machine "hw_step env" "hw_ok t UNIV"
  by unfold_locales (simp add: hw_ok_step)

section \<open>What is signed and shown\<close>

lemma hw_ok_new: "hw_ok None M new_HardwareWalletsStore"
  by (simp add: hw_ok_def new_HardwareWalletsStore_def lost_timer_def)

lemmas hw_run_ok = hw_traced.run_ok [OF hw_ok_setup [OF hw_ok_new [of "{}"]], unfolded Un_empty_left]

lemma marked_signing:
  assumes "hw_ok t M s" and "fs \<in> set (hw_tasks s)" and "PreparingLedger w p \<in> set fs \<or> PreparingTrezor w i \<in> set fs"
  shows "Signing w \<in> M"
  using assms by (fastforce simp: hw_ok_def stack_ok_def list_all_iff)

lemma fresh_signing:
  assumes "Signing w \<in> hw_fresh s e"
  obtains k x p a t fs where "e = HAnswer k (Inr (VKey x))" "recognizedWallet x s = Some w" "k < length (hw_tasks s)"
    "hw_tasks s ! k = KeyExported p (Some w) a t # fs"
  using assms by (auto simp: hw_fresh_def split: hw_event.splits sum.splits hw_answer.splits)

lemma fresh_shown:
  assumes "Shown a \<in> hw_fresh s e"
  obtains k p b fs where "e = HAnswer k (Inr (VText (wa_id a)))" "k < length (hw_tasks s)" "hw_tasks s ! k = Deriving (a, p, b) # fs"
  using assms by (auto simp: hw_fresh_def split: hw_event.splits sum.splits hw_answer.splits)

text \<open>
  C5. A transaction is signed for a wallet only with the device of that wallet. Whenever the signing for a wallet is under way,
  in any order of answers, device events and resets, a device had exported a public key that was, at that moment, the
  stored key of that very wallet, in answer to a request made for this wallet.
\<close>

theorem signing_wallet_was_recognized:
  assumes "fs \<in> set (hw_tasks (run (hw_step env) (setup_hardware env new_HardwareWalletsStore) es))"
    and "PreparingLedger w p \<in> set fs \<or> PreparingTrezor w i \<in> set fs"
  shows "\<exists>es1 k x es2. es = es1 @ HAnswer k (Inr (VKey x)) # es2
    \<and> (let s = run (hw_step env) (setup_hardware env new_HardwareWalletsStore) es1
        in recognizedWallet x s = Some w \<and> k < length (hw_tasks s)
         \<and> (\<exists>q a t gs. hw_tasks s ! k = KeyExported q (Some w) a t # gs))"
proof -
  from marked_signing [OF hw_run_ok assms]
  have "Signing w \<in> history (hw_step env) hw_fresh (setup_hardware env new_HardwareWalletsStore) es" .
  from history_split [OF this] obtain es1 e es2 where es: "es = es1 @ e # es2"
    and e: "Signing w \<in> hw_fresh (run (hw_step env) (setup_hardware env new_HardwareWalletsStore) es1) e" by blast
  from e obtain k x p' a t gs where "e = HAnswer k (Inr (VKey x))"
    and x: "recognizedWallet x (run (hw_step env) (setup_hardware env new_HardwareWalletsStore) es1) = Some w"
      "k < length (hw_tasks (run (hw_step env) (setup_hardware env new_HardwareWalletsStore) es1))"
      "hw_tasks (run (hw_step env) (setup_hardware env new_HardwareWalletsStore) es1) ! k = KeyExported p' (Some w) a t # gs"
    by (rule fresh_signing)
  with es have "es = es1 @ HAnswer k (Inr (VKey x)) # es2" by simp
  with x show ?thesis unfolding Let_def by blast
qed


section \<open>What is lost\<close>

lemma looked_up_status [simp]:
  "active_wallet (s\<lparr>hwDeviceStatus := x\<rparr>) = active_wallet s" "paired_device w (s\<lparr>hwDeviceStatus := x\<rparr>) = paired_device w s"
  "connection_of v (s\<lparr>hwDeviceStatus := x\<rparr>) = connection_of v s"
  by (simp_all add: active_wallet_def paired_device_def connection_of_def split: option.split)

text \<open>
  A rejected export leaks a poller. When the connection of a Ledger is established again after an aborted export, the
  poller under way is overwritten without being stopped: whatever happens afterwards, it is never stopped again.
\<close>

theorem aborted_export_leaks_a_poller:
  assumes s_def: "s = run (hw_step env) (setup_hardware env new_HardwareWalletsStore) es"
    and "isTransactionInitiated s" and "isExportKeyAborted s" and "active_wallet s = Some w" and "paired_device w s = Some d"
    and "\<not> dev_disconnected d" and "t_deviceType d = Some LEDGER"
    and "appPoller s = Some i" and "(i, AppPoll p v a) \<in> set (hw_timers s)" and "i < hw_next s" and "transactionPoller s \<noteq> Some i"
  shows "(i, AppPoll p v a) \<in> set (hw_timers (run (hw_step env) s (EstablishRequested # es')))"
proof -
  have "hw_ok None UNIV s" unfolding s_def by (rule hw_machine.run_inv [OF hw_ok_setup [OF hw_ok_new]])
  then have "hw_ok (Some (i, AppPoll p v a)) UNIV (hw_step env s EstablishRequested)"
    using assms(2-11)
    by (simp add: hw_step_def spawn_def establishHardwareWalletConnection_def establish_paired_def export_again_def awaited_def
        transport_of_def transport.defs estCatch_def return_def poll_app_def hw_ok_def lost_timer_def Let_def)
  then have "hw_ok (Some (i, AppPoll p v a)) UNIV (run (hw_step env) (hw_step env s EstablishRequested) es')"
    by (rule hw_machine.run_inv)
  then show ?thesis by (simp add: hw_ok_def lost_timer_def)
qed

text \<open>What a call that starts a transaction leaves of the registration and of the wallets it is for.\<close>

definition voting_state :: "hw_store \<Rightarrow> voting_data option \<times> string option \<times> wallet_address option" where
  "voting_state s = (hw_votingData s, activeVotingWalletId s, unfinishedWalletAddressVerification s)"

lemma voting_emit [simp]: "voting_state (hw_emit x s) = voting_state s"
  by (simp add: voting_state_def hw_emit_def)

lemma voting_timers [simp]: "voting_state (stopBccBccAppFetchPoller s) = voting_state s" "voting_state (poll_app p w a s) = voting_state s"
  by (simp_all add: voting_state_def stopBccBccAppFetchPoller_def poll_app_def split: option.split)

lemma voting_fields [simp]:
  "voting_state (s\<lparr>hwDeviceStatus := x1\<rparr>) = voting_state s" "voting_state (s\<lparr>transportDevice := x2\<rparr>) = voting_state s"
  "voting_state (s\<lparr>isListeningForDevice := x3\<rparr>) = voting_state s" "voting_state (s\<lparr>activeDevicePath := x4\<rparr>) = voting_state s"
  "voting_state (s\<lparr>isTransactionInitiated := x5\<rparr>) = voting_state s"
  by (simp_all add: voting_state_def)

lemma voting_ends [simp]: "fst (throw e s) = s" "fst (return v s) = s"
  by (simp_all add: throw_def return_def)

lemma voting_spawn: "voting_state (spawn c) = voting_state (fst c)"
  by (simp add: spawn_def voting_state_def split: prod.split hw_control.split)

lemma voting_awaited:
  assumes "\<And>r s. voting_state (fst (h r s)) = voting_state s"
  shows "voting_state (fst (awaited fs h c)) = voting_state (fst c)"
  using assms by (simp add: awaited_def split: prod.split hw_control.split)

lemma voting_key: "voting_state (fst (getExtendedPublicKey p w a s)) = voting_state s"
  by (simp add: getExtendedPublicKey_def Let_def split: option.split)

lemma voting_est: "voting_state (fst (estReturn t r s)) = voting_state s" "voting_state (fst (estCatch r s)) = voting_state s"
  by (simp_all add: estReturn_def estCatch_def split: sum.split)

lemma voting_establish: "voting_state (fst (establishHardwareWalletConnection env s)) = voting_state s"
  by (simp add: establishHardwareWalletConnection_def establish_paired_def establish_new_def export_again_def connect_to_def Let_def
      voting_awaited voting_est voting_key split: option.split)

lemma voting_sign_on: "voting_state (fst (sign_on env w c p s)) = voting_state s"
proof -
  have "voting_state (fst (initTransport x r s)) = voting_state s" for x r s
    by (simp add: initTransport_def voting_key split: sum.split hw_answer.split option.split)
  then show ?thesis by (simp add: sign_on_def Let_def voting_awaited voting_establish split: option.split)
qed

lemma voting_initConnected: "voting_state (fst (initConnected env w c r s)) = voting_state s"
  by (simp add: initConnected_def initFailed_def voting_sign_on split: sum.split hw_answer.split option.split)

lemma voting_initiateTransaction: "voting_state (fst (initiateTransaction env w v s)) = (v, w, unfinishedWalletAddressVerification s)"
proof -
  have "voting_state (s\<lparr>isTransactionInitiated := True, hwDeviceStatus := CONNECTING, activeDelegationWalletId := w,
      hw_votingData := v, activeVotingWalletId := w\<rparr>) = (v, w, unfinishedWalletAddressVerification s)"
    by (simp add: voting_state_def)
  then show ?thesis
    by (simp add: initiateTransaction_def Let_def voting_sign_on voting_initConnected voting_awaited voting_establish split: option.split)
qed


text \<open>
  A wallet appears after a transaction was cancelled. When the user cancels while a device that is not known yet exports its
  key, the answer that still comes creates a hardware wallet.
\<close>

theorem cancelled_transaction_creates_a_wallet:
  assumes "hw_tasks s = [KeyExported p w a t # fs]" and "supportEnabled env" and "recognizedWallet x s = None"
  shows "\<exists>n d. CreateWallet n x d \<in> set (hw_effects (run (hw_step env) s [ResetTransaction b, HAnswer 0 (Inr (VKey x))]))"
proof -
  let ?s = "resetTransaction env b s"
  have s: "hw_tasks ?s = hw_tasks s" "connections ?s = connections s" "knownWallets ?s = knownWallets s" "\<not> isTransactionInitiated ?s"
    using assms(2) by (simp_all add: resetTransaction_def stopBccBccAppFetchPoller_def hw_emit_def Let_def split: option.split)
  have "recognizedWallet x ?s = recognizedWallet x s" unfolding recognizedWallet_def matching_connection_def s by (rule refl)
  with assms(1,3) s show ?thesis
    by (auto simp: hw_step_def resume_hw_def keyExported_def remove_nth_def hw_emit_def Let_def)
qed

text \<open>
  A verification that could not start blocks the later ones. When the active wallet is not paired, the flag of the
  verification stays set, and every later request for a verification is ignored.
\<close>

theorem failed_verification_blocks:
  assumes "connection_of (activeWallet s) s = None"
  shows "let s' = hw_step env s (VerificationRequested a p)
    in hw_tasks s' = hw_tasks s \<and> hw_timers s' = hw_timers s
     \<and> run (hw_step env) s' (ActiveWalletChanged w # map (\<lambda>(a, p). VerificationRequested a p) later) = s'\<lparr>activeWallet := w\<rparr>"
proof -
  have blocked: "run (hw_step env) s (map (\<lambda>(a, p). VerificationRequested a p) later) = s"
    if "isAddressVerificationInitiated s" for s
    using that by (induction later) (auto simp: hw_step_def initiateAddressVerification_def spawn_def return_def)
  have "connection_of (activeWallet s) (s\<lparr>isAddressVerificationInitiated := True, unfinishedWalletAddressVerification := Some a, hwDeviceStatus := CONNECTING\<rparr>)
      = connection_of (activeWallet s) s"
    by (simp add: connection_of_def split: option.split)
  with assms have "\<exists>s'. hw_step env s (VerificationRequested a p) = s' \<and> (isAddressVerificationInitiated s \<or> isAddressVerificationInitiated s')
      \<and> isAddressVerificationInitiated s' \<and> hw_tasks s' = hw_tasks s \<and> hw_timers s' = hw_timers s"
    by (simp add: hw_step_def initiateAddressVerification_def spawn_def return_def throw_def Let_def)
  then show ?thesis using blocked by (simp add: Let_def hw_step_def)
qed


section \<open>Examples\<close>

definition sample_hw_env :: hw_env where
  "sample_hw_env = \<lparr>supportEnabled = True, trezorEnabled = False, ledgerEnabled = False, gte = (\<lambda>_ _. True)\<rparr>"

definition sample_transport :: "device_type \<Rightarrow> transport" where
  "sample_transport ty = \<lparr>t_deviceId = None, t_deviceType = Some ty, t_deviceModel = None, t_deviceName = None, t_path = Some ''usb'',
     t_firmwareVersion = None\<rparr>"

definition sample_device :: hw_device where
  "sample_device = transport.extend (sample_transport LEDGER) (hw_device.fields ''1'' None False False)"

definition sample_connection :: "device_type \<Rightarrow> hw_connection" where
  "sample_connection ty = \<lparr>conn_id = ''w'', conn_disconnected = False, conn_path = None, conn_device = (sample_transport ty)\<lparr>t_deviceId := Some ''t1''\<rparr>,
     publicKeyHex = ''aa'', chainCodeHex = ''bb''\<rparr>"

definition sample_key :: xpub_answer where
  "sample_key = \<lparr>x_publicKeyHex = ''aa'', x_chainCodeHex = ''bb'', x_deviceId = None\<rparr>"

definition sample_selection :: coin_selection where
  "sample_selection = \<lparr>cs_inputs = [], cs_outputs = [], cs_certificates = [], cs_withdrawals = [], cs_fee = 0, cs_deposits = 0,
     cs_depositsReclaimed = 0, cs_metadata = None\<rparr>"

definition sample_signing :: "hw_event list" where
  "sample_signing = [HAnswer 0 (Inr (VConnections [sample_connection LEDGER])), HAnswer 0 (Inr (VDevices [sample_device])),
     WalletsChanged [''w''], ActiveWalletChanged (Some ''w''), SelectCoinsRequested ''w'', HAnswer 0 (Inr (VSelection sample_selection)),
     EstablishRequested, TransactionInitiated (Some ''w'') None, HTick 2 [], HAnswer 0 (Inr (VApp (Some (5, 0, 0)))),
     HAnswer 0 (Inr (VKey sample_key)), HAnswer 1 (Inr VUnit)]"

lemmas sample_defs = sample_hw_env_def sample_transport_def sample_device_def sample_connection_def sample_key_def sample_selection_def

theorem signing_wallet_was_recognized_witness:
  "\<exists>es1 k x es2. sample_signing = es1 @ HAnswer k (Inr (VKey x)) # es2
    \<and> recognizedWallet x (run (hw_step sample_hw_env) (setup_hardware sample_hw_env new_HardwareWalletsStore) es1) = Some ''w''"
proof -
  have "[PreparingLedger ''w'' (Some ''usb'')] \<in> set (hw_tasks (run (hw_step sample_hw_env)
      (setup_hardware sample_hw_env new_HardwareWalletsStore) sample_signing))" by code_simp
  from signing_wallet_was_recognized [OF this, of "''w''" "Some ''usb''" None] show ?thesis by (simp add: Let_def) blast
qed

definition sample_address :: wallet_address where
  "sample_address = \<lparr>wa_id = ''addr'', used = False, spendingPath = ''p''\<rparr>"

definition sample_verification :: "hw_event list" where
  "sample_verification = take 4 sample_signing @ [EstablishRequested, VerificationRequested sample_address None, HTick 2 [],
     HAnswer 0 (Inr (VApp (Some (5, 0, 0)))), HAnswer 0 (Inr (VKey sample_key)), HAnswer 1 (Inr VUnit), HAnswer 2 (Inr (VText ''addr''))]"


definition sample_abort :: "hw_event list" where
  "sample_abort = [HAnswer 0 (Inr (VConnections [sample_connection LEDGER])), HAnswer 0 (Inr (VDevices [sample_device\<lparr>paired := Some ''w''\<rparr>])),
     ActiveWalletChanged (Some ''w''), TransactionInitiated (Some ''w'') None, EstablishRequested, HTick 1 [],
     HAnswer 0 (Inr (VApp (Some (5, 0, 0)))), HAnswer 0 (Inl ((plain_error ''rejected'')\<lparr>e_statusCode := Some 28169\<rparr>)), EstablishRequested]"

theorem aborted_export_leaks_a_poller_witness:
  "(2, AppPoll (Some ''usb'') (Some ''w'') None) \<in> set (hw_timers (run (hw_step sample_hw_env)
     (run (hw_step sample_hw_env) (setup_hardware sample_hw_env new_HardwareWalletsStore) sample_abort)
     [EstablishRequested, ResetTransaction True, ResetConnection True]))"
proof -
  let ?s = "run (hw_step sample_hw_env) (setup_hardware sample_hw_env new_HardwareWalletsStore) sample_abort"
  have "isTransactionInitiated ?s" "isExportKeyAborted ?s" "active_wallet ?s = Some ''w''" by code_simp+
  moreover have "appPoller ?s = Some 2" "hw_timers ?s = [(2, AppPoll (Some ''usb'') (Some ''w'') None)]" "hw_next ?s = 3" "transactionPoller ?s = None"
    by code_simp+
  moreover have "devices ?s = [sample_device\<lparr>paired := Some ''w''\<rparr>]" by code_simp
  then have "paired_device ''w'' ?s = Some (sample_device\<lparr>paired := Some ''w''\<rparr>)" by (simp add: paired_device_def)
  moreover have "\<not> dev_disconnected (sample_device\<lparr>paired := Some ''w''\<rparr>)" "t_deviceType (sample_device\<lparr>paired := Some ''w''\<rparr>) = Some LEDGER"
    by code_simp+
  ultimately show ?thesis by (intro aborted_export_leaks_a_poller [OF refl]) (assumption | simp)+
qed

definition sample_change :: hw_change where
  "sample_change = \<lparr>ch_disconnected = False, ch_deviceType = Some TREZOR, ch_deviceId = Some ''t1'', ch_deviceModel = None, ch_deviceName = None,
     ch_path = Some ''usb'', ch_error = None, ch_eventType = Some DeviceConnect\<rparr>"

definition sample_exporting :: "device_type \<Rightarrow> hw_store" where
  "sample_exporting ty = new_HardwareWalletsStore\<lparr>hw_tasks := [[KeyExported (Some ''usb'') (Some ''w'') None (sample_transport ty), KeyCatch (sample_transport ty)]],
     isTransactionInitiated := True, connections := [sample_connection ty],
     hw_votingData := Some \<lparr>vd_stakeAddress = ''a'', vd_stakeKey = ''k'', vd_votingKey = ''v'', vd_nonce = 7\<rparr>\<rparr>"


theorem cancelled_transaction_creates_a_wallet_witness:
  "\<exists>n d. CreateWallet n sample_key d \<in> set (hw_effects (run (hw_step sample_hw_env) (sample_exporting LEDGER)
     [ResetTransaction False, HAnswer 0 (Inr (VKey sample_key))]))"
  by (rule cancelled_transaction_creates_a_wallet)
    (simp_all add: sample_exporting_def sample_hw_env_def new_HardwareWalletsStore_def recognizedWallet_def split: option.split)

theorem failed_verification_blocks_witness:
  "hw_tasks (hw_step sample_hw_env new_HardwareWalletsStore (VerificationRequested sample_address None)) = []"
  using failed_verification_blocks [of new_HardwareWalletsStore sample_hw_env sample_address None None "[]"]
  by (simp add: new_HardwareWalletsStore_def connection_of_def Let_def)

definition sample_paired :: hw_store where
  "sample_paired = (sample_exporting LEDGER)\<lparr>hw_tasks := [[KeyExported (Some ''usb'') (Some ''w'') None (sample_transport LEDGER),
     KeyCatch (sample_transport LEDGER), AppCatch (Some ''usb'') (Some ''w'') None]], knownWallets := [''w''], txSignRequest := Some sample_selection\<rparr>"


text \<open>
  The main process reports an error of the Trezor bridge without a type of device: the store does not notice it and takes the
  report for a device that was plugged in.
\<close>

lemma bridge_error_is_taken_for_a_device:
  assumes "ch_deviceType ch = None" and "ch_deviceId ch = None"
  shows "hw_step env s (DeviceChange ch now) = s\<lparr>hw_tasks := hw_tasks s @ [[ReadingConnections, ChangeRead1 ch]]\<rparr>"
  using assms by (simp add: hw_step_def changeHardwareWalletConnectionStatus_def change_writes_def opt_list_def wallet_of_device_def
      js_or_def spawn_def Let_def)

text \<open>The show of an address that is no longer the one verified confirms the new one.\<close>

lemma late_show_confirms:
  assumes "hw_tasks s = [[Showing v]]"
  shows "let s' = run (hw_step env) s [ResetVerification b, HAnswer 0 (Inr VUnit)]
    in hwDeviceStatus s' = VERIFYING_ADDRESS_CONFIRMATION \<and> isAddressChecked s' \<and> \<not> isAddressDerived s'"
proof -
  have "hw_tasks (resetInitializedAddressVerification b s) = [[Showing v]]"
    using assms by (simp add: resetInitializedAddressVerification_def stopBccBccAppFetchPoller_def hw_emit_def split: option.split)
  moreover have "\<not> isAddressDerived (resetInitializedAddressVerification b s)"
    by (simp add: resetInitializedAddressVerification_def)
  ultimately show ?thesis by (simp add: hw_step_def resume_hw_def addressShown_def return_def remove_nth_def Let_def)
qed
end
