(* ===== verification/WalletRequests.thy ===== *)
theory WalletRequests imports Transactions Wallets Requests begin

text \<open>
  The data every wallet has requests of its own for: its addresses (\<open>stores/AddressesStore.js\<close>) and its transactions and
  withdrawals (\<open>stores/TransactionsStore.js\<close>). After a refresh of the wallets both stores get a list with one entry per
  wallet that answers; a request that was there is kept, with its cached result. Here the entries are the request objects of
  \<open>Requests\<close>, so that the answers of the backend, the timers and the refreshes interleave freely.
\<close>

section \<open>Requests kept by wallet\<close>

type_synonym 'b by_wallet = "(string \<times> 'b) list"

definition find_request :: "string \<Rightarrow> 'b by_wallet \<Rightarrow> 'b option" where
  "find_request walletId rs = map_option snd (find (\<lambda>p. fst p = walletId) rs)"

text \<open>\<open>find(requests, { walletId })\<close>, or a new request that nobody keeps.\<close>

definition request_for :: "request_class \<Rightarrow> string \<Rightarrow> ('a, 'r, 'e) request by_wallet \<Rightarrow> ('a, 'r, 'e) request" where
  "request_for c walletId rs = (case find_request walletId rs of Some r \<Rightarrow> r | None \<Rightarrow> new_request c)"

text \<open>A call on the wallet's request, which the list shares with everybody who found it there.\<close>

definition on_request :: "string \<Rightarrow> ('b \<Rightarrow> 'b) \<Rightarrow> 'b by_wallet \<Rightarrow> 'b by_wallet" where
  "on_request walletId f rs = map (\<lambda>p. if fst p = walletId then (fst p, f (snd p)) else p) rs"

lemma find_request_on_request [simp]:
  "find_request w (on_request v f rs) = (if w = v then map_option f (find_request w rs) else find_request w rs)"
  by (induction rs) (auto simp: find_request_def on_request_def)

lemma find_request_renewed [simp]:
  "find_request w (map (\<lambda>i. (i, g i)) ids) = (if w \<in> set ids then Some (g w) else None)"
  by (induction ids) (auto simp: find_request_def)

lemma find_request_simps [simp]:
  "find_request w [] = None" "find_request w ((v, r) # rs) = (if v = w then Some r else find_request w rs)"
  by (simp_all add: find_request_def)

subsection \<open>The interface of such a store\<close>

text \<open>What a store does to the request of a wallet: calls about this wallet, and the answers and timers of them.\<close>

fun own_use :: "('a \<Rightarrow> string) \<Rightarrow> string \<Rightarrow> ('a, 'r, 'e) request_event \<Rightarrow> bool" where
  "own_use about w (Execute a) \<longleftrightarrow> about a = w"
| "own_use about w (Respond n r) \<longleftrightarrow> True"
| "own_use about w Tick \<longleftrightarrow> True"
| "own_use about w (Invalidate now) \<longleftrightarrow> \<not> now"
| "own_use about w _ \<longleftrightarrow> False"

text \<open>The new request of a wallet is its old one, or a fresh one, after some such uses.\<close>

definition used_for :: "('a \<Rightarrow> string) \<Rightarrow> string \<Rightarrow> ('a, 'r, 'e) request option \<Rightarrow> ('a, 'r, 'e) request \<Rightarrow> bool" where
  "used_for about w old r' \<longleftrightarrow> (\<exists>r es. (old = Some r \<or> (\<exists>c. r = new_request c)) \<and> list_all (own_use about w) es
     \<and> r' = run request_step r es)"

lemma used_for_old [simp]: "used_for about w (Some r) r"
  unfolding used_for_def by (intro exI [of _ r] exI [of _ "[]"]) simp

lemma used_for_new [simp]: "used_for about w old (new_request c)"
  unfolding used_for_def by (intro exI [of _ "new_request c"] exI [of _ "[]"]) auto

lemma used_for_event:
  "used_for about w old r \<Longrightarrow> own_use about w e \<Longrightarrow> used_for about w old (request_step r e)"
proof -
  assume u: "own_use about w e"
  assume "used_for about w old r"
  then obtain r0 es where "old = Some r0 \<or> (\<exists>c. r0 = new_request c)" "list_all (own_use about w) es" "r = run request_step r0 es"
    by (auto simp: used_for_def)
  with u have "(old = Some r0 \<or> (\<exists>c. r0 = new_request c)) \<and> list_all (own_use about w) (es @ [e])
      \<and> request_step r e = run request_step r0 (es @ [e])" by simp
  then show ?thesis unfolding used_for_def by blast
qed

lemma used_for_events:
  "used_for about w old r \<Longrightarrow> list_all (own_use about w) es \<Longrightarrow> used_for about w old (run request_step r es)"
  by (induction es arbitrary: r) (simp_all add: used_for_event)

text \<open>A wallet's own request: it is coherent, and all that was asked with it is about the wallet.\<close>

definition owned :: "('a \<Rightarrow> string) \<Rightarrow> string \<Rightarrow> ('a, 'r, 'e) request \<Rightarrow> bool" where
  "owned about w r \<longleftrightarrow> coherent r \<and> (\<forall>a \<in> set (map fst (flights r)). about a = w)
     \<and> (isWaitingForResponse r \<longrightarrow> promise r \<noteq> None)"

lemma map_fst_update: "map fst (xs[n := (fst (xs ! n), y)]) = map fst xs"
  by (simp add: map_update) (metis list_update_id nth_map list_update_beyond length_map not_less)

lemma own_use_disciplined: "own_use about w e \<Longrightarrow> disciplined e"
  by (cases e) simp_all

lemma flights_args_execute: "set (map fst (flights (execute a r))) \<subseteq> insert a (set (map fst (flights r)))"
  by (auto simp: execute_def execute_plain_def execute_cached_def select_call_def addApiCall_def launch_def Let_def
      split: request_class.splits option.splits if_splits)

lemma flights_args_fire: "map fst (flights (fire t r)) = map fst (flights r)"
proof (cases t)
  case (Finish n x)
  then show ?thesis by (cases x) (simp_all add: settle_flight_def map_fst_update write_current_def split: option.split)
qed (simp_all add: write_current_def Let_def split: option.split)

lemma waiting_promise_step:
  assumes "isWaitingForResponse r \<longrightarrow> promise r \<noteq> None"
  shows "isWaitingForResponse (request_step r e) \<longrightarrow> promise (request_step r e) \<noteq> None"
proof -
  have fire: "isWaitingForResponse (fire t q) \<longrightarrow> promise (fire t q) \<noteq> None"
    if "isWaitingForResponse q \<longrightarrow> promise q \<noteq> None" for t and q :: "('a, 'b, 'c) request"
  proof (cases t)
    case (Finish n x)
    then show ?thesis by (cases x) (simp_all add: settle_flight_def write_current_def split: option.split)
  qed (use that in \<open>simp_all add: write_current_def Let_def split: option.split\<close>)
  have execute: "isWaitingForResponse (execute a q) \<longrightarrow> promise (execute a q) \<noteq> None"
    if "isWaitingForResponse q \<longrightarrow> promise q \<noteq> None" for a and q :: "('a, 'b, 'c) request"
    using that by (simp add: execute_def execute_plain_def execute_cached_def select_call_def addApiCall_def launch_def Let_def
        split: request_class.split option.split)
  show ?thesis
    using assms fire execute
    by (cases e) (simp_all add: reset_def invalidate_def removeCacheForCallWith_def patch_def Let_def split: option.split list.split)
qed

lemma owned_new [simp]: "owned about w (new_request c)"
  by (simp add: owned_def coherent_new)

lemma owned_step: "owned about w r \<Longrightarrow> own_use about w e \<Longrightarrow> owned about w (request_step r e)"
proof -
  assume o: "owned about w r" and u: "own_use about w e"
  have "coherent (request_step r e)" using o u own_use_disciplined by (auto simp: owned_def intro: coherent_step)
  moreover have "\<forall>a \<in> set (map fst (flights (request_step r e))). about a = w"
  proof (cases e)
    case (Execute a)
    then have "set (map fst (flights (request_step r e))) \<subseteq> insert a (set (map fst (flights r)))"
      using flights_args_execute by simp
    with o u Execute show ?thesis unfolding owned_def by (metis insert_iff own_use.simps(1) subsetD)
  next
    case Tick
    then show ?thesis using o by (cases "timers r") (simp_all add: owned_def flights_args_fire del: set_map)
  qed (use o u in \<open>auto simp: owned_def invalidate_def Let_def split: option.splits\<close>)
  ultimately show ?thesis using o waiting_promise_step [of r e] by (simp add: owned_def)
qed

lemma owned_used_for:
  assumes "used_for about w old r'" and "\<And>r. old = Some r \<Longrightarrow> owned about w r"
  shows "owned about w r'"
proof -
  from assms obtain r es where r: "owned about w r" and es: "list_all (own_use about w) es" "r' = run request_step r es"
    unfolding used_for_def using owned_new by blast
  have "owned about w (run request_step q es)" if "owned about w q" for q
    using that es(1) by (induction es arbitrary: q) (simp_all add: owned_step)
  with r es(2) show ?thesis by simp
qed

text \<open>What such a request shows is what a call about the wallet was answered with.\<close>

definition answered_for :: "('a \<Rightarrow> string) \<Rightarrow> string \<Rightarrow> 'r \<Rightarrow> ('a, 'r, 'e) request \<Rightarrow> bool" where
  "answered_for about w x r \<longleftrightarrow> (\<exists>a. about a = w \<and> (a, Resolved x) \<in> set (flights r))"

lemma owned_result: "owned about w r \<Longrightarrow> request.result r = Some x \<Longrightarrow> answered_for about w x r"
  by (fastforce simp: owned_def coherent_def results_ok_def answered_for_def)

locale wallet_requests =
  fixes step :: "'s \<Rightarrow> 'ev \<Rightarrow> 's"
    and lookup :: "'s \<Rightarrow> string \<Rightarrow> ('a, 'r, 'e) request option"
    and about :: "'a \<Rightarrow> string"
  assumes step_uses: "lookup (step s ev) w = Some r' \<Longrightarrow> used_for about w (lookup s w) r'"
begin

definition all_owned :: "'s \<Rightarrow> bool" where
  "all_owned s \<longleftrightarrow> (\<forall>w r. lookup s w = Some r \<longrightarrow> owned about w r)"

lemma all_owned_step: "all_owned s \<Longrightarrow> all_owned (step s ev)"
  by (auto simp: all_owned_def dest!: step_uses intro: owned_used_for)

lemma all_owned_run: "all_owned s \<Longrightarrow> all_owned (run step s es)"
  by (induction es arbitrary: s) (simp_all add: all_owned_step)

lemma shown_was_answered:
  assumes "\<And>w. lookup s w = None" and "lookup (run step s es) w = Some r" and "request.result r = Some x"
  shows "answered_for about w x r"
proof -
  have "all_owned s" using assms(1) by (simp add: all_owned_def)
  then have "all_owned (run step s es)" by (rule all_owned_run)
  with assms(2,3) show ?thesis by (auto simp: all_owned_def intro: owned_result)
qed

lemma at_most_one_call:
  assumes "\<And>w. lookup s w = None" and "lookup (run step s es) w = Some r"
  shows "length (outstanding r) \<le> 1"
proof -
  have "all_owned s" using assms(1) by (simp add: all_owned_def)
  then have "all_owned (run step s es)" by (rule all_owned_run)
  with assms(2) have "coherent r" by (auto simp: all_owned_def owned_def)
  then show ?thesis by (cases "isWaitingForResponse r") (auto simp: coherent_def flight_ok_def)
qed

end

section \<open>The addresses store\<close>

type_synonym address_request = "(string \<times> bool, wallet_address list, thrown) request"

datatype address_task =
    AccountIndex string string            \<comment> \<open>the addresses of the wallet, for an index; with the password\<close>
  | NewAddress nat                        \<comment> \<open>a call of \<open>createColeWalletAddressRequest\<close>\<close>
  | StakeKey string

record addresses_store =
  lastGeneratedAddress :: "wallet_address option"
  addressesRequests :: "address_request by_wallet"
  stakeAddresses :: "string \<rightharpoonup> string"
  address_error :: "thrown option"
  createColeWalletAddressRequest :: "(nat option \<times> string \<times> string, wallet_address option, thrown) request"
  inspectAddressRequest :: "(string, jsval, thrown) request"
  dropped_calls :: "(string \<times> bool) list"     \<comment> \<open>sent by requests that nobody keeps\<close>
  address_tasks :: "address_task list"
  shown_wallet :: "wallet option"             \<comment> \<open>\<open>stores.wallets.active\<close>\<close>
  known_wallets :: "wallet list"              \<comment> \<open>\<open>stores.wallets.all\<close>\<close>
  addr_connected :: bool

definition new_AddressesStore :: addresses_store where
  "new_AddressesStore = \<lparr>lastGeneratedAddress = None, addressesRequests = [], stakeAddresses = Map.empty, address_error = None,
     createColeWalletAddressRequest = new_request PlainRequest, inspectAddressRequest = new_request PlainRequest,
     dropped_calls = [], address_tasks = [], shown_wallet = None, known_wallets = [], addr_connected = False\<rparr>"

definition add_address_task :: "address_task \<Rightarrow> addresses_store \<Rightarrow> addresses_store" where
  "add_address_task t s = s\<lparr>address_tasks := address_tasks s @ [t]\<rparr>"

definition getAddressesAllRequest :: "string \<Rightarrow> addresses_store \<Rightarrow> address_request" where
  "getAddressesAllRequest walletId s = request_for CachedRequest walletId (addressesRequests s)"

subsection \<open>What the store shows\<close>

definition shown_addresses :: "addresses_store \<Rightarrow> wallet_address list" where
  "shown_addresses s = (case shown_wallet s of None \<Rightarrow> []
     | Some w \<Rightarrow> (case request.result (getAddressesAllRequest (wallet_id w) s) of None \<Rightarrow> [] | Some as \<Rightarrow> as))"

definition hasAnyAddress :: "addresses_store \<Rightarrow> bool" where
  "hasAnyAddress s \<longleftrightarrow> (case shown_wallet s of None \<Rightarrow> False
     | Some w \<Rightarrow> (case request.result (getAddressesAllRequest (wallet_id w) s) of None \<Rightarrow> False | Some as \<Rightarrow> length as > 0))"

text \<open>\<open>lodash.last\<close>.\<close>

definition last_of :: "'a list \<Rightarrow> 'a option" where
  "last_of xs = (if xs = [] then None else Some (last xs))"

definition activeAddress :: "addresses_store \<Rightarrow> wallet_address option" where
  "activeAddress s = (case shown_wallet s of None \<Rightarrow> None
     | Some w \<Rightarrow>
         (if (case lastGeneratedAddress s of None \<Rightarrow> False | Some a \<Rightarrow> \<not> used a) then lastGeneratedAddress s
          else (case request.result (getAddressesAllRequest (wallet_id w) s) of None \<Rightarrow> None
                | Some as \<Rightarrow> (let unused = filter (\<lambda>a. \<not> used a) as
                              in if length unused > 0 then last_of unused else last_of as))))"

definition totalAvailableAddresses :: "addresses_store \<Rightarrow> nat" where
  "totalAvailableAddresses s = (case shown_wallet s of None \<Rightarrow> 0
     | Some w \<Rightarrow> (case request.result (getAddressesAllRequest (wallet_id w) s) of None \<Rightarrow> 0 | Some as \<Rightarrow> length as))"

definition stakeAddress :: "addresses_store \<Rightarrow> string" where
  "stakeAddress s = (case shown_wallet s of None \<Rightarrow> []
     | Some w \<Rightarrow> (case stakeAddresses s (wallet_id w) of None \<Rightarrow> [] | Some a \<Rightarrow> a))"

text \<open>\<open>findIndex(this.all, { id: address })\<close>.\<close>

definition address_index :: "string \<Rightarrow> addresses_store \<Rightarrow> int" where
  "address_index address s = index_of address (map wa_id (shown_addresses s))"

definition isInternalAddress :: "string \<Rightarrow> addresses_store \<Rightarrow> bool" where
  "isInternalAddress address s \<longleftrightarrow> address_index address s > -1"

definition getAddressIndex :: "string \<Rightarrow> addresses_store \<Rightarrow> int" where
  "getAddressIndex address s = int (length (shown_addresses s)) - address_index address s - 1"

subsection \<open>Refreshing\<close>

text \<open>\<open>_getStakeAddress\<close> asks again while an answer is awaited: only an address that was stored counts.\<close>

definition getStakeAddress :: "string \<Rightarrow> bool \<Rightarrow> addresses_store \<Rightarrow> addresses_store" where
  "getStakeAddress walletId legacy s =
     (if stakeAddresses s walletId \<noteq> None then s
      else if legacy then s\<lparr>stakeAddresses := (stakeAddresses s)(walletId \<mapsto> [])\<rparr>
      else add_address_task (StakeKey walletId) s)"

text \<open>One wallet of \<open>_refreshAddresses\<close>.\<close>

definition refreshAddress :: "wallet \<Rightarrow> addresses_store \<Rightarrow> addresses_store" where
  "refreshAddress w s =
     (let walletId = wallet_id w;
          s1 = (case find_request walletId (addressesRequests s) of
              Some r \<Rightarrow> s\<lparr>addressesRequests := on_request walletId
                 (\<lambda>r. run request_step r [Invalidate False, Execute (walletId, isLegacy w)]) (addressesRequests s)\<rparr>
            | None \<Rightarrow> s\<lparr>dropped_calls := dropped_calls s @ [(walletId, isLegacy w)]\<rparr>)
      in getStakeAddress walletId (isLegacy w) s1)"

definition refreshAddresses :: "addresses_store \<Rightarrow> addresses_store" where
  "refreshAddresses s = (if addr_connected s then fold refreshAddress (known_wallets s) s else s)"

text \<open>What \<open>WalletsStore.refreshWalletsData\<close> and \<open>resetWalletsData\<close> do to the store.\<close>

definition setAddressRequests :: "string list \<Rightarrow> addresses_store \<Rightarrow> addresses_store" where
  "setAddressRequests walletIds s = refreshAddresses
     (s\<lparr>addressesRequests := map (\<lambda>i. (i, getAddressesAllRequest i s)) walletIds\<rparr>)"

definition resetAddressRequests :: "addresses_store \<Rightarrow> addresses_store" where
  "resetAddressRequests s = s\<lparr>addressesRequests := []\<rparr>"

text \<open>\<open>await\<close> of the request itself: its \<open>then\<close> throws when it was never executed.\<close>

definition getAddressesByWalletId :: "string \<Rightarrow> addresses_store \<Rightarrow> not_executed_yet + nat" where
  "getAddressesByWalletId walletId s = then_promise (getAddressesAllRequest walletId s)"

subsection \<open>A new address\<close>

text \<open>The answer is an array, which has no property \<open>accountIndex\<close>; it is an object, so never falsy.\<close>

definition getAccountIndex :: "wallet_address list \<Rightarrow> nat option" where
  "getAccountIndex addresses = None"

definition createColeWalletAddress :: "string \<Rightarrow> string \<Rightarrow> addresses_store \<Rightarrow> addresses_store" where
  "createColeWalletAddress walletId passphrase s = add_address_task (AccountIndex walletId passphrase) s"

definition accountIndexKnown :: "string \<Rightarrow> string \<Rightarrow> thrown + wallet_address list \<Rightarrow> addresses_store \<Rightarrow> addresses_store" where
  "accountIndexKnown walletId passphrase answer s = (case answer of
       Inl e \<Rightarrow> s\<lparr>address_error := Some e\<rparr>
     | Inr as \<Rightarrow>
         (let r = execute (getAccountIndex as, passphrase, walletId) (createColeWalletAddressRequest s)
          in add_address_task (NewAddress (flight_of r)) (s\<lparr>createColeWalletAddressRequest := r\<rparr>)))"

definition addressCreated :: "thrown + wallet_address option \<Rightarrow> addresses_store \<Rightarrow> addresses_store" where
  "addressCreated answer s = (case answer of
       Inl e \<Rightarrow> s\<lparr>address_error := Some e\<rparr>
     | Inr None \<Rightarrow> s
     | Inr (Some a) \<Rightarrow> (refreshAddresses s)\<lparr>lastGeneratedAddress := Some a, address_error := None\<rparr>)"

definition stakeKeyKnown :: "(string \<Rightarrow> string) \<Rightarrow> string \<Rightarrow> thrown + string \<Rightarrow> addresses_store \<Rightarrow> addresses_store" where
  "stakeKeyKnown address_of_key walletId answer s = (case answer of
       Inl e \<Rightarrow> s
     | Inr key \<Rightarrow> s\<lparr>stakeAddresses := (stakeAddresses s)(walletId \<mapsto> address_of_key key)\<rparr>)"

definition inspectAddress :: "string \<Rightarrow> addresses_store \<Rightarrow> addresses_store" where
  "inspectAddress addressId s = s\<lparr>inspectAddressRequest := execute addressId (reset (inspectAddressRequest s))\<rparr>"

definition resetAddressErrors :: "addresses_store \<Rightarrow> addresses_store" where
  "resetAddressErrors s = s\<lparr>address_error := None\<rparr>"

subsection \<open>The store as a machine\<close>

datatype address_answer =
    WalletAddresses "thrown + wallet_address list"
  | StakeKeyAnswer "thrown + string"
  | CreationSettled                     \<comment> \<open>the awaited call of the request has an outcome\<close>

datatype address_event =
    RefreshedWallets "string list" "wallet list"        \<comment> \<open>the wallets that answer, all wallets\<close>
  | ResetWallets
  | SelectWallet "wallet option"
  | AddressConnection bool
  | CreateAddress string string
  | InspectAddress string
  | ResetAddressErrors
  | AddressAnswer nat address_answer
  | AddressRequest string "(string \<times> bool, wallet_address list, thrown) request_event"    \<comment> \<open>its answers and timers\<close>
  | CreationRequest "(nat option \<times> string \<times> string, wallet_address option, thrown) request_event"

fun environment_event :: "('a, 'r, 'e) request_event \<Rightarrow> bool" where
  "environment_event (Respond n r) = True"
| "environment_event Tick = True"
| "environment_event _ = False"

definition answer_address :: "(string \<Rightarrow> string) \<Rightarrow> nat \<Rightarrow> address_answer \<Rightarrow> addresses_store \<Rightarrow> addresses_store" where
  "answer_address key k a s =
     (if k < length (address_tasks s) then
        (let s1 = s\<lparr>address_tasks := remove_nth k (address_tasks s)\<rparr>
         in case (address_tasks s ! k, a) of
              (AccountIndex w p, WalletAddresses as) \<Rightarrow> accountIndexKnown w p as s1
            | (StakeKey w, StakeKeyAnswer x) \<Rightarrow> stakeKeyKnown key w x s1
            | (NewAddress n, CreationSettled) \<Rightarrow>
                (case outcome_of n (createColeWalletAddressRequest s) of None \<Rightarrow> s | Some x \<Rightarrow> addressCreated x s1)
            | _ \<Rightarrow> s)
      else s)"

text \<open>
  The selection of another wallet clears the generated address (\<open>WalletsStore._setActiveWallet\<close>, \<open>_unsetActiveWallet\<close>).
\<close>

definition address_step :: "(string \<Rightarrow> string) \<Rightarrow> addresses_store \<Rightarrow> address_event \<Rightarrow> addresses_store" where
  "address_step key s ev = (case ev of
       RefreshedWallets ids ws \<Rightarrow> setAddressRequests ids (s\<lparr>known_wallets := ws\<rparr>)
     | ResetWallets \<Rightarrow> resetAddressRequests (s\<lparr>known_wallets := []\<rparr>)
     | SelectWallet w \<Rightarrow>
         (if map_option wallet_id (shown_wallet s) = map_option wallet_id w \<and> w \<noteq> None then s\<lparr>shown_wallet := w\<rparr>
          else s\<lparr>shown_wallet := w, lastGeneratedAddress := None\<rparr>)
     | AddressConnection b \<Rightarrow> s\<lparr>addr_connected := b\<rparr>
     | CreateAddress w p \<Rightarrow> createColeWalletAddress w p s
     | InspectAddress a \<Rightarrow> inspectAddress a s
     | ResetAddressErrors \<Rightarrow> resetAddressErrors s
     | AddressAnswer k a \<Rightarrow> answer_address key k a s
     | AddressRequest w e \<Rightarrow> (if environment_event e
         then s\<lparr>addressesRequests := on_request w (\<lambda>r. request_step r e) (addressesRequests s)\<rparr> else s)
     | CreationRequest e \<Rightarrow> (if environment_event e
         then s\<lparr>createColeWalletAddressRequest := request_step (createColeWalletAddressRequest s) e\<rparr> else s))"

subsection \<open>Every wallet's addresses are its own\<close>

lemma used_for_trans:
  assumes "used_for about w old r" and "used_for about w (Some r) r'"
  shows "used_for about w old r'"
proof -
  from assms(2) obtain q es where q: "r = q \<or> (\<exists>c. q = new_request c)" "list_all (own_use about w) es" "r' = run request_step q es"
    by (auto simp: used_for_def)
  have "used_for about w old q" using q(1) assms(1) by auto
  then show ?thesis using q(2,3) by (simp add: used_for_events)
qed

lemma address_frames [simp]:
  "addressesRequests (add_address_task t s) = addressesRequests s"
  "addressesRequests (getStakeAddress w l s) = addressesRequests s"
  "addressesRequests (stakeKeyKnown key w x s) = addressesRequests s"
  "addressesRequests (accountIndexKnown w p a s) = addressesRequests s"
  "shown_wallet (add_address_task t s) = shown_wallet s"
  "shown_wallet (getStakeAddress w l s) = shown_wallet s"
  by (simp_all add: add_address_task_def getStakeAddress_def stakeKeyKnown_def accountIndexKnown_def Let_def split: sum.split)

lemma used_for_run: "list_all (own_use about w) es \<Longrightarrow> used_for about w (Some r) (run request_step r es)"
  by (rule used_for_events [OF used_for_old])

lemma environment_own_use: "environment_event e \<Longrightarrow> own_use about w e"
  by (cases e) simp_all

lemma used_for_environment: "environment_event e \<Longrightarrow> used_for about w (Some r) (request_step r e)"
  by (intro used_for_event used_for_old environment_own_use)

lemma refreshAddress_lookup:
  "find_request w (addressesRequests (refreshAddress v s)) =
     (if w = wallet_id v
      then map_option (\<lambda>r. run request_step r [Invalidate False, Execute (w, isLegacy v)]) (find_request w (addressesRequests s))
      else find_request w (addressesRequests s))"
  by (auto simp: refreshAddress_def Let_def simp del: run.simps request_step.simps split: option.split)

lemma refresh_fold_uses:
  "find_request w (addressesRequests (fold refreshAddress ws s)) = Some r'
   \<Longrightarrow> \<exists>r. find_request w (addressesRequests s) = Some r \<and> used_for fst w (Some r) r'"
proof (induction ws arbitrary: s)
  case Nil
  then show ?case by simp
next
  case (Cons v ws)
  from Cons.IH [of "refreshAddress v s"] Cons.prems obtain r1
    where r1: "find_request w (addressesRequests (refreshAddress v s)) = Some r1" "used_for fst w (Some r1) r'"
    by auto
  show ?case
  proof (cases "w = wallet_id v")
    case True
    with r1(1) obtain r where r: "find_request w (addressesRequests s) = Some r"
        "r1 = run request_step r [Invalidate False, Execute (w, isLegacy v)]"
      by (auto simp: refreshAddress_lookup simp del: run.simps request_step.simps)
    have "used_for fst w (Some r) r1" unfolding r(2) by (rule used_for_run) simp
    from used_for_trans [OF this r1(2)] r(1) show ?thesis by blast
  next
    case False
    with r1 show ?thesis by (simp add: refreshAddress_lookup)
  qed
qed

lemma refreshAddresses_uses:
  assumes "find_request w (addressesRequests (refreshAddresses s)) = Some r'"
  obtains r where "find_request w (addressesRequests s) = Some r" and "used_for fst w (Some r) r'"
  using assms refresh_fold_uses used_for_old by (metis refreshAddresses_def)

lemma used_for_kept: "find_request w rs = Some r \<Longrightarrow> used_for about w (find_request w rs) r"
  by simp

lemma setAddressRequests_uses:
  assumes "find_request w (addressesRequests (setAddressRequests ids s)) = Some r'"
  shows "used_for fst w (find_request w (addressesRequests s)) r'"
proof -
  from assms obtain r where r: "find_request w (map (\<lambda>i. (i, getAddressesAllRequest i s)) ids) = Some r"
      "used_for fst w (Some r) r'"
    unfolding setAddressRequests_def by (elim refreshAddresses_uses) simp
  then have "used_for fst w (find_request w (addressesRequests s)) r"
    by (auto simp: getAddressesAllRequest_def request_for_def split: if_splits option.splits)
  then show ?thesis by (rule used_for_trans [OF _ r(2)])
qed

lemma addressCreated_uses:
  "find_request w (addressesRequests (addressCreated x s)) = Some r'
   \<Longrightarrow> used_for fst w (find_request w (addressesRequests s)) r'"
  by (auto simp: addressCreated_def split: sum.splits option.splits elim!: refreshAddresses_uses)

lemma answer_address_uses:
  "find_request w (addressesRequests (answer_address key k a s)) = Some r'
   \<Longrightarrow> used_for fst w (find_request w (addressesRequests s)) r'"
  by (auto simp: answer_address_def Let_def dest!: addressCreated_uses
      split: if_splits address_task.splits address_answer.splits option.splits)

lemma address_step_uses:
  assumes "find_request w (addressesRequests (address_step key s ev)) = Some r'"
  shows "used_for fst w (find_request w (addressesRequests s)) r'"
proof (cases ev)
  case (RefreshedWallets ids ws)
  with assms setAddressRequests_uses [of w ids "s\<lparr>known_wallets := ws\<rparr>"] show ?thesis
    by (simp add: address_step_def)
next
  case (AddressAnswer k a)
  with assms show ?thesis by (simp add: address_step_def answer_address_uses)
next
  case (AddressRequest v e)
  with assms show ?thesis
    by (auto simp: address_step_def used_for_environment split: if_splits)
qed (use assms in \<open>auto simp: address_step_def resetAddressRequests_def createColeWalletAddress_def inspectAddress_def
       resetAddressErrors_def split: if_splits\<close>)

interpretation addresses: wallet_requests "address_step key" "\<lambda>s w. find_request w (addressesRequests s)" fst
  for key
  by unfold_locales (rule address_step_uses)


subsection \<open>Waiting for the addresses of a wallet\<close>

lemma execute_promise:
  "isWaitingForResponse r \<longrightarrow> promise r \<noteq> None \<Longrightarrow> promise (run request_step r [Invalidate False, Execute a]) \<noteq> None"
  by (cases "cls r") (auto simp: execute_def execute_cached_def execute_plain_def select_call_def addApiCall_def launch_def
      invalidate_def Let_def split: option.splits)

lemma refresh_fold_promise:
  assumes "find_request i (addressesRequests s) = Some r" and "isWaitingForResponse r \<longrightarrow> promise r \<noteq> None"
  shows "\<exists>r'. find_request i (addressesRequests (fold refreshAddress ws s)) = Some r'
     \<and> (i \<in> wallet_id ` set ws \<or> promise r \<noteq> None \<longrightarrow> promise r' \<noteq> None)"
  using assms
proof (induction ws arbitrary: s r)
  case (Cons v ws)
  let ?r1 = "if i = wallet_id v then run request_step r [Invalidate False, Execute (i, isLegacy v)] else r"
  have f1: "find_request i (addressesRequests (refreshAddress v s)) = Some ?r1"
    using Cons.prems(1) by (auto simp: refreshAddress_lookup simp del: run.simps request_step.simps)
  have p1: "i = wallet_id v \<or> promise r \<noteq> None \<longrightarrow> promise ?r1 \<noteq> None"
    using execute_promise [OF Cons.prems(2)] by (simp del: run.simps request_step.simps)
  then have w1: "isWaitingForResponse ?r1 \<longrightarrow> promise ?r1 \<noteq> None"
    using Cons.prems(2) by (auto simp del: run.simps request_step.simps)
  from Cons.IH [OF f1 w1] p1 show ?case
    by (auto simp del: run.simps request_step.simps)
qed simp

lemma new_store_empty [simp]: "find_request w (addressesRequests new_AddressesStore) = None"
  by (simp add: new_AddressesStore_def)

lemma reachable_owned:
  "find_request w (addressesRequests (run (address_step key) new_AddressesStore es)) = Some r \<Longrightarrow> owned fst w r"
  using addresses.all_owned_run [of new_AddressesStore key es] by (auto simp: addresses.all_owned_def)

lemma setAddressRequests_lookup:
  assumes "isWaitingForResponse (getAddressesAllRequest i s) \<longrightarrow> promise (getAddressesAllRequest i s) \<noteq> None"
  shows "find_request i (addressesRequests (setAddressRequests ids s)) = None \<longleftrightarrow> i \<notin> set ids"
    and "addr_connected s \<Longrightarrow> i \<in> set ids \<Longrightarrow> i \<in> wallet_id ` set (known_wallets s)
      \<Longrightarrow> promise (getAddressesAllRequest i (setAddressRequests ids s)) \<noteq> None"
proof -
  let ?s = "s\<lparr>addressesRequests := map (\<lambda>i. (i, getAddressesAllRequest i s)) ids\<rparr>"
  have present: "find_request i (addressesRequests ?s) = (if i \<in> set ids then Some (getAddressesAllRequest i s) else None)"
    by simp
  have absent: "find_request i (addressesRequests (fold refreshAddress ws ?s)) = None" if "i \<notin> set ids" for ws
    using refresh_fold_uses [of i ws ?s] that present by (cases "find_request i (addressesRequests (fold refreshAddress ws ?s))") auto
  have found: "\<exists>r'. find_request i (addressesRequests (fold refreshAddress ws ?s)) = Some r'
       \<and> (i \<in> wallet_id ` set ws \<longrightarrow> promise r' \<noteq> None)" if "i \<in> set ids" for ws
    using refresh_fold_promise [of i ?s "getAddressesAllRequest i s" ws] that present assms by auto
  show "find_request i (addressesRequests (setAddressRequests ids s)) = None \<longleftrightarrow> i \<notin> set ids"
    using absent [of "known_wallets s"] found [of "known_wallets s"] present
    by (cases "i \<in> set ids") (auto simp: setAddressRequests_def refreshAddresses_def)
  show "promise (getAddressesAllRequest i (setAddressRequests ids s)) \<noteq> None"
    if "addr_connected s" "i \<in> set ids" "i \<in> wallet_id ` set (known_wallets s)"
    using found [OF that(2), of "known_wallets s"] that
    by (auto simp: setAddressRequests_def refreshAddresses_def getAddressesAllRequest_def request_for_def)
qed

text \<open>
  Who waits for the addresses of a wallet gets them, or an error at once. In every state the store can reach, after a refresh
  of the wallets while connected, waiting for the addresses of a listed wallet waits for a call to the backend; waiting for those
  of any other wallet is rejected with \<open>NotExecutedYetError\<close>, and so it is for every wallet after the wallets were reset.
\<close>

theorem addresses_awaited:
  assumes "s = run (address_step key) new_AddressesStore es" and "addr_connected s"
  shows "(\<forall>w. w \<in> wallet_id ` set ws \<longrightarrow> w \<in> set ids
           \<longrightarrow> (\<exists>n. getAddressesByWalletId w (address_step key s (RefreshedWallets ids ws)) = Inr n))
     \<and> (\<forall>w. w \<notin> set ids \<longrightarrow> getAddressesByWalletId w (address_step key s (RefreshedWallets ids ws)) = Inl NotExecutedYetError)
     \<and> (\<forall>w. getAddressesByWalletId w (address_step key s ResetWallets) = Inl NotExecutedYetError)"
proof -
  let ?s = "s\<lparr>known_wallets := ws\<rparr>"
  have ok: "isWaitingForResponse (getAddressesAllRequest w ?s) \<longrightarrow> promise (getAddressesAllRequest w ?s) \<noteq> None" for w
    using reachable_owned [of w key es] assms(1)
    by (cases "find_request w (addressesRequests s)") (auto simp: getAddressesAllRequest_def request_for_def owned_def)
  have listed: "\<exists>n. getAddressesByWalletId w (address_step key s (RefreshedWallets ids ws)) = Inr n"
    if "w \<in> wallet_id ` set ws" "w \<in> set ids" for w
    using setAddressRequests_lookup(2) [OF ok [of w], of ids] that assms(2)
    by (auto simp: getAddressesByWalletId_def then_promise_def address_step_def split: option.split)
  have others: "getAddressesByWalletId w (address_step key s (RefreshedWallets ids ws)) = Inl NotExecutedYetError"
    if "w \<notin> set ids" for w
    using setAddressRequests_lookup(1) [OF ok [of w], of ids] that
    by (simp add: getAddressesByWalletId_def then_promise_def address_step_def getAddressesAllRequest_def request_for_def
        new_request_def)
  have none: "getAddressesByWalletId w (address_step key s ResetWallets) = Inl NotExecutedYetError" for w
    by (simp add: getAddressesByWalletId_def then_promise_def address_step_def getAddressesAllRequest_def request_for_def
        new_request_def resetAddressRequests_def)
  from listed others none show ?thesis by blast
qed

subsection \<open>Addresses that arrive late\<close>

lemma shown_wallet_frames [simp]:
  "shown_wallet (refreshAddress w s) = shown_wallet s" "shown_wallet (refreshAddresses s) = shown_wallet s"
proof -
  show one: "shown_wallet (refreshAddress w s) = shown_wallet s" for w s
    by (simp add: refreshAddress_def Let_def split: option.split)
  have "shown_wallet (fold refreshAddress ws s) = shown_wallet s" for ws s
    by (induction ws arbitrary: s) (simp_all add: one)
  then show "shown_wallet (refreshAddresses s) = shown_wallet s" by (simp add: refreshAddresses_def)
qed

text \<open>
  A new address that arrives late is shown for the wrong wallet. Whatever wallet is selected while the creation of an address is
  under way, the address is shown as the active one of that wallet when it arrives; and a creation for another wallet that is
  started meanwhile is never sent: its caller is given the answer to the first.
\<close>

theorem late_address_is_shown_for_another_wallet:
  assumes "k < length (address_tasks s)" and "address_tasks s ! k = NewAddress n"
    and "outcome_of n (createColeWalletAddressRequest s) = Some (Inr (Some a))" and "\<not> used a"
    and "isWaitingForResponse r" and "createColeWalletAddressRequest t = r" and "cls r = PlainRequest"
  shows "activeAddress (run (address_step key) s [SelectWallet (Some b), AddressAnswer k CreationSettled]) = Some a
     \<and> createColeWalletAddressRequest (accountIndexKnown w p (Inr as) t) = r
     \<and> address_tasks (accountIndexKnown w p (Inr as) t) = address_tasks t @ [NewAddress (flight_of r)]"
proof -
  have "activeAddress (run (address_step key) s [SelectWallet (Some b), AddressAnswer k CreationSettled]) = Some a"
    using assms(1-4)
    by (simp add: address_step_def answer_address_def addressCreated_def activeAddress_def)
  moreover have "execute x r = r" for x
    using assms(5,7) by (simp add: execute_def execute_plain_def)
  ultimately show ?thesis using assms(6)
    by (simp add: accountIndexKnown_def add_address_task_def)
qed

text \<open>
  Every creation of an address is sent without an index: the array of addresses has no account index.
\<close>

lemma creation_has_no_index:
  "flights (createColeWalletAddressRequest (accountIndexKnown w p (Inr as) s)) = flights (createColeWalletAddressRequest s)
     \<or> (\<exists>fs. flights (createColeWalletAddressRequest (accountIndexKnown w p (Inr as) s)) = fs @ [((None, p, w), Pending)])"
  by (auto simp: accountIndexKnown_def getAccountIndex_def add_address_task_def execute_def execute_plain_def
      execute_cached_def select_call_def addApiCall_def launch_def Let_def split: request_class.split option.splits)

section \<open>The requests for transactions\<close>

text \<open>
  The entries of \<open>TransactionsStore.transactionsRequests\<close> as requests; \<open>Transactions\<close> has the views on their results. A wallet
  that does not answer has no entry, and what is asked for it is asked with requests that nobody keeps.
\<close>

record transaction_requests =
  recentRequest :: "(transactions_call, transactions_response, thrown) request"
  allRequest :: "(transactions_call, transactions_response, thrown) request"
  withdrawalsRequest :: "(transactions_call, rat, thrown) request"

record transactions_data =
  requestList :: "transaction_requests by_wallet"
  dropped_transaction_calls :: "transactions_call list"
  data_wallets :: "wallet list"
  data_active :: "wallet option"
  data_connected :: bool

definition new_transactions_data :: transactions_data where
  "new_transactions_data = \<lparr>requestList = [], dropped_transaction_calls = [], data_wallets = [], data_active = None,
     data_connected = False\<rparr>"

fun call_wallet :: "transactions_call \<Rightarrow> string" where
  "call_wallet (RecentCall w l) = w"
| "call_wallet (AllCall w l) = w"
| "call_wallet (WithdrawalsCall w) = w"

definition request_entry :: "string \<Rightarrow> transactions_data \<Rightarrow> transaction_requests" where
  "request_entry walletId s = (case find_request walletId (requestList s) of
       Some t \<Rightarrow> t
     | None \<Rightarrow> \<lparr>recentRequest = new_request PlainRequest, allRequest = new_request PlainRequest,
                withdrawalsRequest = new_request PlainRequest\<rparr>)"

definition withdrawals_of :: "wallet \<Rightarrow> transaction_requests \<Rightarrow> transaction_requests" where
  "withdrawals_of w t = (if \<not> isLegacy w
     then t\<lparr>withdrawalsRequest := execute (WithdrawalsCall (wallet_id w)) (withdrawalsRequest t)\<rparr> else t)"

definition refreshTransactionsOf :: "wallet \<Rightarrow> transactions_data \<Rightarrow> transactions_data" where
  "refreshTransactionsOf w s =
     (let walletId = wallet_id w;
          recentCall = RecentCall walletId (isLegacy w);
          allCall = AllCall walletId (isLegacy w)
      in case find_request walletId (requestList s) of
           Some t \<Rightarrow> s\<lparr>requestList := on_request walletId (\<lambda>t. withdrawals_of w
               (t\<lparr>recentRequest := execute recentCall (recentRequest t), allRequest := execute allCall (allRequest t)\<rparr>))
               (requestList s)\<rparr>
         | None \<Rightarrow> s\<lparr>dropped_transaction_calls := dropped_transaction_calls s
               @ [recentCall, allCall] @ (if \<not> isLegacy w then [WithdrawalsCall walletId] else [])\<rparr>)"

definition refreshTransactions :: "transactions_data \<Rightarrow> transactions_data" where
  "refreshTransactions s = (if data_connected s then fold refreshTransactionsOf (data_wallets s) s else s)"

definition setTransactionRequests :: "string list \<Rightarrow> transactions_data \<Rightarrow> transactions_data" where
  "setTransactionRequests walletIds s =
     refreshTransactions (s\<lparr>requestList := map (\<lambda>i. (i, request_entry i s)) walletIds\<rparr>)"

datatype transactions_data_event =
    TransactionsRefreshed "string list" "wallet list"
  | TransactionsReset
  | TransactionsOf "wallet option"
  | TransactionsConnection bool
  | RecentRequest string "(transactions_call, transactions_response, thrown) request_event"
  | AllRequest string "(transactions_call, transactions_response, thrown) request_event"
  | WithdrawalsRequest string "(transactions_call, rat, thrown) request_event"

definition transactions_data_step :: "transactions_data \<Rightarrow> transactions_data_event \<Rightarrow> transactions_data" where
  "transactions_data_step s ev = (case ev of
       TransactionsRefreshed ids ws \<Rightarrow> setTransactionRequests ids (s\<lparr>data_wallets := ws\<rparr>)
     | TransactionsReset \<Rightarrow> s\<lparr>requestList := [], data_wallets := []\<rparr>
     | TransactionsOf w \<Rightarrow> s\<lparr>data_active := w\<rparr>
     | TransactionsConnection b \<Rightarrow> s\<lparr>data_connected := b\<rparr>
     | RecentRequest w e \<Rightarrow> (if environment_event e then s\<lparr>requestList := on_request w
         (\<lambda>t. t\<lparr>recentRequest := request_step (recentRequest t) e\<rparr>) (requestList s)\<rparr> else s)
     | AllRequest w e \<Rightarrow> (if environment_event e then s\<lparr>requestList := on_request w
         (\<lambda>t. t\<lparr>allRequest := request_step (allRequest t) e\<rparr>) (requestList s)\<rparr> else s)
     | WithdrawalsRequest w e \<Rightarrow> (if environment_event e then s\<lparr>requestList := on_request w
         (\<lambda>t. t\<lparr>withdrawalsRequest := request_step (withdrawalsRequest t) e\<rparr>) (requestList s)\<rparr> else s))"

text \<open>What \<open>Transactions\<close> sees of it, with the filters of its own.\<close>

definition results_of :: "(string \<rightharpoonup> filter_options) \<Rightarrow> transactions_data \<Rightarrow> transactions_store" where
  "results_of filters s = \<lparr>transactionsRequests = map (\<lambda>(i, t). \<lparr>wr_walletId = i, recent_result = request.result (recentRequest t),
       all_result = request.result (allRequest t), withdrawals_result = request.result (withdrawalsRequest t)\<rparr>) (requestList s),
     filterOptionsForWallets = filters, active_wallet = data_active s, all_wallets = data_wallets s,
     store_connected = data_connected s\<rparr>"

subsection \<open>Every wallet's transactions are its own\<close>

lemma used_for_execute: "about a = w \<Longrightarrow> used_for about w (Some r) (execute a r)"
  using used_for_run [of about w "[Execute a]" r] by simp

text \<open>The three requests of an entry, after some operation: each was used for its wallet.\<close>

definition entry_used :: "string \<Rightarrow> transaction_requests option \<Rightarrow> transaction_requests \<Rightarrow> bool" where
  "entry_used w old t \<longleftrightarrow> used_for call_wallet w (map_option recentRequest old) (recentRequest t)
     \<and> used_for call_wallet w (map_option allRequest old) (allRequest t)
     \<and> used_for call_wallet w (map_option withdrawalsRequest old) (withdrawalsRequest t)"

lemma entry_used_refl [simp]: "entry_used w (Some t) t"
  by (simp add: entry_used_def)

lemma entry_used_trans: "entry_used w old t \<Longrightarrow> entry_used w (Some t) t' \<Longrightarrow> entry_used w old t'"
  unfolding entry_used_def by (simp; metis used_for_trans)

lemma refreshTransactionsOf_uses:
  "find_request w (requestList (refreshTransactionsOf v s)) = Some t'
   \<Longrightarrow> \<exists>t. find_request w (requestList s) = Some t \<and> entry_used w (Some t) t'"
  by (auto simp: refreshTransactionsOf_def Let_def entry_used_def withdrawals_of_def used_for_execute
      split: option.splits if_splits)

lemma refreshTransactions_uses:
  assumes "find_request w (requestList (refreshTransactions s)) = Some t'"
  shows "\<exists>t. find_request w (requestList s) = Some t \<and> entry_used w (Some t) t'"
proof -
  have "\<exists>t. find_request w (requestList s) = Some t \<and> entry_used w (Some t) t'"
    if "find_request w (requestList (fold refreshTransactionsOf ws s)) = Some t'" for ws
    using that
  proof (induction ws arbitrary: s)
    case (Cons v ws)
    then obtain t where t: "find_request w (requestList (refreshTransactionsOf v s)) = Some t" "entry_used w (Some t) t'"
      by (metis fold_simps(2))
    with refreshTransactionsOf_uses [OF t(1)] show ?case by (blast intro: entry_used_trans)
  qed simp
  with assms show ?thesis by (cases "data_connected s") (auto simp: refreshTransactions_def)
qed

lemma transactions_step_uses:
  assumes "find_request w (requestList (transactions_data_step s ev)) = Some t'"
  shows "entry_used w (find_request w (requestList s)) t'"
proof (cases ev)
  case (TransactionsRefreshed ids ws)
  with assms obtain t where t: "find_request w (map (\<lambda>i. (i, request_entry i (s\<lparr>data_wallets := ws\<rparr>))) ids) = Some t"
      "entry_used w (Some t) t'"
    using refreshTransactions_uses by (fastforce simp: transactions_data_step_def setTransactionRequests_def)
  then have "entry_used w (find_request w (requestList s)) t"
    by (auto simp: request_entry_def entry_used_def split: if_splits option.splits)
  then show ?thesis by (rule entry_used_trans [OF _ t(2)])
qed (use assms in \<open>auto simp: transactions_data_step_def entry_used_def used_for_environment split: if_splits\<close>)

interpretation recents: wallet_requests transactions_data_step
  "\<lambda>s w. map_option recentRequest (find_request w (requestList s))" call_wallet
  by unfold_locales (auto dest!: transactions_step_uses simp: entry_used_def)

interpretation alls: wallet_requests transactions_data_step
  "\<lambda>s w. map_option allRequest (find_request w (requestList s))" call_wallet
  by unfold_locales (auto dest!: transactions_step_uses simp: entry_used_def)

interpretation withdrawals: wallet_requests transactions_data_step
  "\<lambda>s w. map_option withdrawalsRequest (find_request w (requestList s))" call_wallet
  by unfold_locales (auto dest!: transactions_step_uses simp: entry_used_def)

lemma found_results:
  "found_requests (results_of f s) w = map_option (\<lambda>t. \<lparr>wr_walletId = w, recent_result = request.result (recentRequest t),
     all_result = request.result (allRequest t), withdrawals_result = request.result (withdrawalsRequest t)\<rparr>)
     (find_request w (requestList s))"
proof -
  have "find (\<lambda>r. wr_walletId r = w) (map (\<lambda>(i, t). \<lparr>wr_walletId = i, recent_result = request.result (recentRequest t),
       all_result = request.result (allRequest t), withdrawals_result = request.result (withdrawalsRequest t)\<rparr>) rs)
     = map_option (\<lambda>t. \<lparr>wr_walletId = w, recent_result = request.result (recentRequest t),
     all_result = request.result (allRequest t), withdrawals_result = request.result (withdrawalsRequest t)\<rparr>)
     (find_request w rs)" for rs
    by (induction rs) auto
  then show ?thesis by (simp add: found_requests_def results_of_def)
qed

lemma results_of_requests:
  "getTransactionsAllRequest (results_of f s) i = Option.bind (find_request i (requestList s)) (request.result \<circ> allRequest)"
  "getTransactionsRecentRequest (results_of f s) i = Option.bind (find_request i (requestList s)) (request.result \<circ> recentRequest)"
  "getWithdrawalsRequest (results_of f s) i = Option.bind (find_request i (requestList s)) (request.result \<circ> withdrawalsRequest)"
  by (cases "find_request i (requestList s)";
      simp add: getTransactionsAllRequest_def getTransactionsRecentRequest_def getWithdrawalsRequest_def found_results)+

text \<open>
  C16. Transactions stay with their wallet. However refreshes, resets, selections, answers and timers interleave, the transactions
  that the list of the selected wallet shows, all or the recent ones, are what a call about this wallet was answered with, and the
  withdrawals counted for a wallet are what a call about that wallet was answered with.
\<close>

theorem transactions_stay_with_their_wallet:
  assumes "active_wallet v = Some w" and "v = results_of f s" and "s = run transactions_data_step new_transactions_data es"
  shows "(all_transactions v \<noteq> [] \<longrightarrow> (\<exists>x. response_transactions x = all_transactions v
            \<and> answered_for call_wallet (wallet_id w) x (allRequest (request_entry (wallet_id w) s))))
     \<and> (recent v \<noteq> [] \<longrightarrow> (\<exists>x. response_transactions x = recent v
            \<and> answered_for call_wallet (wallet_id w) x (recentRequest (request_entry (wallet_id w) s))))
     \<and> (\<forall>i x. getWithdrawalsRequest v i = Some x
            \<longrightarrow> answered_for call_wallet i x (withdrawalsRequest (request_entry i s)))"
proof -
  have none: "map_option g (find_request i (requestList new_transactions_data)) = None" for g :: "transaction_requests \<Rightarrow> 'x" and i
    by (simp add: new_transactions_data_def)
  have entry: "request_entry i s = t" if "find_request i (requestList s) = Some t" for i t
    using that by (simp add: request_entry_def)
  have all: "answered_for call_wallet i x (allRequest t)"
    if "find_request i (requestList s) = Some t" "request.result (allRequest t) = Some x" for i t x
    using alls.shown_was_answered [OF none, of i es "allRequest t" x] that assms(3) by simp
  have recent: "answered_for call_wallet i x (recentRequest t)"
    if "find_request i (requestList s) = Some t" "request.result (recentRequest t) = Some x" for i t x
    using recents.shown_was_answered [OF none, of i es "recentRequest t" x] that assms(3) by simp
  have wd: "answered_for call_wallet i x (withdrawalsRequest t)"
    if "find_request i (requestList s) = Some t" "request.result (withdrawalsRequest t) = Some x" for i t x
    using withdrawals.shown_was_answered [OF none, of i es "withdrawalsRequest t" x] that assms(3) by simp
  have "\<forall>i x. getWithdrawalsRequest v i = Some x \<longrightarrow> answered_for call_wallet i x (withdrawalsRequest (request_entry i s))"
    using wd entry unfolding assms(2) by (auto simp: results_of_requests bind_eq_Some_conv)
  moreover have "all_transactions v \<noteq> [] \<longrightarrow> (\<exists>x. response_transactions x = all_transactions v
      \<and> answered_for call_wallet (wallet_id w) x (allRequest (request_entry (wallet_id w) s)))"
    using all entry assms(1) unfolding assms(2)
    by (auto simp: all_transactions_def of_active_def results_of_requests bind_eq_Some_conv split: option.splits)
  moreover have "recent v \<noteq> [] \<longrightarrow> (\<exists>x. response_transactions x = recent v
      \<and> answered_for call_wallet (wallet_id w) x (recentRequest (request_entry (wallet_id w) s)))"
    using recent entry assms(1) unfolding assms(2)
    by (auto simp: recent_def of_active_def results_of_requests bind_eq_Some_conv split: option.splits)
  ultimately show ?thesis by blast
qed

section \<open>Example runs\<close>

definition example_address :: "string \<Rightarrow> wallet_address" where
  "example_address a = \<lparr>wa_id = a, used = False, spendingPath = []\<rparr>"

definition example_address_events :: "address_event list" where
  "example_address_events = [AddressConnection True, SelectWallet (Some (example_wallet ''w'')),
     RefreshedWallets [''v'', ''w''] [example_wallet ''v'', example_wallet ''w''],
     AddressRequest ''v'' (Respond 0 (Inr [example_address ''av''])), AddressRequest ''w'' (Respond 0 (Inr [example_address ''aw''])),
     AddressRequest ''w'' Tick, AddressRequest ''w'' Tick, AddressRequest ''v'' Tick, AddressRequest ''v'' Tick]"

lemma example_addresses:
  "shown_wallet (run (address_step id) new_AddressesStore example_address_events) = Some (example_wallet ''w'')"
  "shown_addresses (run (address_step id) new_AddressesStore example_address_events) = [example_address ''aw'']"
  "addr_connected (run (address_step id) new_AddressesStore example_address_events)"
  by code_simp+


theorem addresses_awaited_witness:
  "\<exists>n. getAddressesByWalletId ''w'' (address_step id (run (address_step id) new_AddressesStore example_address_events)
     (RefreshedWallets [''w''] [example_wallet ''w''])) = Inr n"
  using addresses_awaited [OF refl example_addresses(3), of "[example_wallet ''w'']" "[''w'']"]
  by (simp add: example_wallet_def)

definition example_creation :: addresses_store where
  "example_creation = run (address_step id) new_AddressesStore [AddressConnection True, SelectWallet (Some (example_wallet ''v'')),
     CreateAddress ''v'' ''secret'', AddressAnswer 0 (WalletAddresses (Inr [])), CreationRequest Tick]"

definition example_created :: addresses_store where
  "example_created = run (address_step id) example_creation
     [CreationRequest (Respond 0 (Inr (Some (example_address ''new'')))), CreationRequest Tick]"

theorem late_address_is_shown_for_another_wallet_witness:
  "activeAddress (run (address_step id) example_created
     [SelectWallet (Some (example_wallet ''w'')), AddressAnswer 0 CreationSettled]) = Some (example_address ''new'')"
proof -
  have "0 < length (address_tasks example_created)" "address_tasks example_created ! 0 = NewAddress 0"
    "outcome_of 0 (createColeWalletAddressRequest example_created) = Some (Inr (Some (example_address ''new'')))"
    "\<not> used (example_address ''new'')" "isWaitingForResponse (createColeWalletAddressRequest example_creation)"
    "cls (createColeWalletAddressRequest example_creation) = PlainRequest"
    by code_simp+
  from late_address_is_shown_for_another_wallet [OF this(1-5) refl this(6)] show ?thesis by blast
qed

definition example_transactions_events :: "transactions_data_event list" where
  "example_transactions_events = [TransactionsConnection True, TransactionsOf (Some (example_wallet ''w'')),
     TransactionsRefreshed [''w''] [example_wallet ''w'', example_wallet ''v''],
     AllRequest ''w'' (Respond 0 (Inr \<lparr>response_transactions = [example_transaction None 1], response_total = 1\<rparr>)),
     AllRequest ''w'' Tick, AllRequest ''w'' Tick]"

lemma example_transactions:
  "data_active (run transactions_data_step new_transactions_data example_transactions_events) = Some (example_wallet ''w'')"
  "all_transactions (results_of Map.empty (run transactions_data_step new_transactions_data example_transactions_events))
     = [example_transaction None 1]"
  by code_simp+

theorem transactions_stay_with_their_wallet_witness:
  "\<exists>x. response_transactions x = [example_transaction None 1] \<and> answered_for call_wallet ''w'' x
     (allRequest (request_entry ''w'' (run transactions_data_step new_transactions_data example_transactions_events)))"
proof -
  have "active_wallet (results_of Map.empty (run transactions_data_step new_transactions_data example_transactions_events))
      = Some (example_wallet ''w'')"
    by (simp add: results_of_def example_transactions)
  from transactions_stay_with_their_wallet [OF this refl refl] show ?thesis
    by (simp add: example_transactions example_wallet_def)
qed

end
