(* ===== verification/Assets.thy ===== *)
theory Assets imports WalletRequests HardwareTx begin

text \<open>
  Native assets: the store of \<open>stores/AssetsStore.js\<close> with the domain objects of \<open>domains/Asset.js\<close>, which the settings dialog
  changes in place, the functions of \<open>utils/assets.js\<close> that combine tokens with assets, and the warnings of
  \<open>utils/walletUtils.js\<close> before a wallet is emptied.
\<close>

section \<open>Assets and tokens\<close>

text \<open>An object of the class \<open>Asset\<close>: its properties, apart from \<open>uniqueId\<close>, which may be undefined.\<close>

record asset_domain =
  domain_asset :: asset
  domain_uniqueId :: "string option"

definition domain_of :: "asset \<Rightarrow> asset_domain" where
  "domain_of a = \<lparr>domain_asset = a, domain_uniqueId = Some (asset_uniqueId a)\<rparr>"

text \<open>The argument of \<open>update\<close>: the properties it has, and its \<open>uniqueId\<close>, which is assigned whether it is there or not.\<close>

record asset_props =
  new_policyId :: "string option"
  new_assetName :: "string option"
  new_recommendedDecimals :: "jsval option"
  new_decimals :: "jsval option"
  new_metadata :: "fields option"
  new_fingerprint :: "string option"
  new_uniqueId :: "string option"

definition decimals_only :: "jsval \<Rightarrow> asset_props" where
  "decimals_only d = \<lparr>new_policyId = None, new_assetName = None, new_recommendedDecimals = None,
     new_decimals = Some d, new_metadata = None, new_fingerprint = None, new_uniqueId = None\<rparr>"

definition update_asset :: "asset_props \<Rightarrow> asset_domain \<Rightarrow> asset_domain" where
  "update_asset props d =
     (let a = domain_asset d
      in \<lparr>domain_asset = a\<lparr>asset_policyId := default (asset_policyId a) (new_policyId props),
             asset_assetName := default (asset_assetName a) (new_assetName props),
             recommendedDecimals := or_old (new_recommendedDecimals props) (recommendedDecimals a),
             asset_decimals := or_old (new_decimals props) (asset_decimals a),
             asset_metadata := or_old (new_metadata props) (asset_metadata a),
             asset_fingerprint := default (asset_fingerprint a) (new_fingerprint props)\<rparr>,
          domain_uniqueId = new_uniqueId props\<rparr>)"

record asset_token =
  at_policyId :: string
  at_assetName :: string
  at_quantity :: rat
  at_address :: string
  at_fingerprint :: "string option"
  at_metadata :: "fields option"
  at_decimals :: "jsval option"
  at_recommendedDecimals :: "jsval option"
  at_uniqueId :: "string option"

type_synonym asset_getter = "string \<Rightarrow> string \<Rightarrow> asset_domain option"

definition getAssetToken :: "transaction_token \<Rightarrow> asset_getter \<Rightarrow> asset_token" where
  "getAssetToken t getAsset =
     (let d = getAsset (tt_policyId t) (tt_assetName t); a = map_option domain_asset d
      in \<lparr>at_policyId = tt_policyId t, at_assetName = tt_assetName t, at_quantity = tt_quantity t, at_address = tt_address t,
          at_fingerprint = map_option asset_fingerprint a, at_metadata = Option.bind a asset_metadata,
          at_decimals = Option.bind a asset_decimals, at_recommendedDecimals = Option.bind a recommendedDecimals,
          at_uniqueId = Option.bind d domain_uniqueId\<rparr>)"

text \<open>Comparisons with an undefined fingerprint are false both ways.\<close>

definition sortAssets :: "asset_token \<Rightarrow> asset_token \<Rightarrow> int" where
  "sortAssets asset1 asset2 = (case (at_fingerprint asset1, at_fingerprint asset2) of
       (Some f, Some g) \<Rightarrow> code_compare f g | _ \<Rightarrow> 0)"

definition truthy_id :: "string option \<Rightarrow> bool" where
  "truthy_id i \<longleftrightarrow> i \<noteq> None \<and> i \<noteq> Some []"

definition getAssetTokens :: "transaction_token list \<Rightarrow> asset_getter \<Rightarrow> asset_token list" where
  "getAssetTokens tokens getAsset = sort_by sortAssets
     (filter (\<lambda>token. truthy_id (at_uniqueId token)) (map (\<lambda>t. getAssetToken t getAsset) tokens))"

definition filterAssets :: "transaction_token list \<Rightarrow> transaction_type \<Rightarrow> (string \<Rightarrow> bool) \<Rightarrow> transaction_token list" where
  "filterAssets assets transactionType isInternal = filter (\<lambda>a.
     transactionType = TypeIncome \<and> isInternal (tt_address a)
     \<or> transactionType = TypeExpend \<and> \<not> isInternal (tt_address a)) assets"

section \<open>Before a wallet is emptied\<close>

text \<open>
  The selected amounts are texts; \<open>isEqualTo\<close> of the \<open>BigNumber\<close> library, a parameter, reads them. An amount without an asset at
  its index counts as different, and \<open>!!\<close> of the text that was found is false for the empty one.
\<close>

definition hasTokensLeftAfterTransaction ::
  "(rat \<Rightarrow> string \<Rightarrow> bool) \<Rightarrow> 'a list \<Rightarrow> rat list \<Rightarrow> string list option \<Rightarrow> bool" where
  "hasTokensLeftAfterTransaction isEqualTo allAvailableTokens initialSelected selectedAssets = (case selectedAssets of
       None \<Rightarrow> False
     | Some selected \<Rightarrow>
         if length selected > 0 \<and> length initialSelected > 0
         then if length initialSelected < length allAvailableTokens \<or> length selected < length initialSelected then True
              else (case find (\<lambda>(i, x). \<not> (i < length initialSelected \<and> isEqualTo (initialSelected ! i) x)) (enumerate 0 selected) of
                      None \<Rightarrow> False | Some (i, x) \<Rightarrow> x \<noteq> [])
         else False)"

definition isTokenMissingInWallet :: "wallet option \<Rightarrow> wallet_token option \<Rightarrow> bool" where
  "isTokenMissingInWallet w token = (case (w, token) of
       (Some w, Some t) \<Rightarrow> uniqueId t \<noteq> [] \<and> find (\<lambda>a. uniqueId a = uniqueId t) (availableAssets w) = None
     | _ \<Rightarrow> False)"

definition tokenHasBalance :: "wallet_token \<Rightarrow> rat \<Rightarrow> bool" where
  "tokenHasBalance token amount \<longleftrightarrow> amount \<le> assetQuantity token"

definition MINIMUM_BCC_BALANCE_FOR_WITHDRAWING_REWARDS :: rat where "MINIMUM_BCC_BALANCE_FOR_WITHDRAWING_REWARDS = 10"

text \<open>A \<open>BigNumber\<close> is an object, so \<open>!!\<close> of it holds, zero included.\<close>

definition isWalletRewardsWithdrawalPossible :: "rat \<Rightarrow> rat \<Rightarrow> bool" where
  "isWalletRewardsWithdrawalPossible transactionAmount walletBalance \<longleftrightarrow>
     transactionAmount + MINIMUM_BCC_BALANCE_FOR_WITHDRAWING_REWARDS \<le> walletBalance"

definition shouldShowEmptyWalletWarning :: "rat \<Rightarrow> wallet \<Rightarrow> bool \<Rightarrow> bool" where
  "shouldShowEmptyWalletWarning totalAmountToSpend w tokensLeft =
     (let nothingLeft = \<not> isDelegating w \<and> wallet_amount w - totalAmountToSpend = 0 \<and> \<not> tokensLeft
      in if nothingLeft then False
         else \<not> isLegacy w \<and> \<not> isWalletRewardsWithdrawalPossible totalAmountToSpend (wallet_amount w))"

section \<open>The store\<close>

type_synonym assets_response = "asset_domain list \<times> nat"

record assets_store =
  activeAsset :: "string option"
  editingsAsset :: "(string \<times> string) option"              \<comment> \<open>policy and name of the asset in the dialog\<close>
  assetsRequests :: "(string, assets_response, thrown) request by_wallet"
  dialogWasOpenedRequest :: "(unit, bool, thrown) request"
  assets_active :: "wallet option"
  assets_wallets :: "wallet list"
  assets_connected :: bool
  stored_decimals :: "string \<Rightarrow> jsval option"               \<comment> \<open>the local storage\<close>
  storage_writes :: "(string \<times> jsval) list"                 \<comment> \<open>on their way to it\<close>
  seen_metadata :: stored_metadata

definition new_AssetsStore :: assets_store where
  "new_AssetsStore = \<lparr>activeAsset = None, editingsAsset = None, assetsRequests = [],
     dialogWasOpenedRequest = new_request PlainRequest, assets_active = None, assets_wallets = [], assets_connected = False,
     stored_decimals = (\<lambda>_. None), storage_writes = [], seen_metadata = []\<rparr>"

text \<open>\<open>_retrieveAssetsRequest\<close> adds a request that is not there, also when only a getter asks for it.\<close>

definition retrieveAssetsRequest :: "string \<Rightarrow> assets_store \<Rightarrow> assets_store" where
  "retrieveAssetsRequest walletId s = (case find_request walletId (assetsRequests s) of
       Some r \<Rightarrow> s
     | None \<Rightarrow> s\<lparr>assetsRequests := assetsRequests s @ [(walletId, new_request PlainRequest)]\<rparr>)"

definition all_assets :: "assets_store \<Rightarrow> asset_domain list" where
  "all_assets s = (case assets_active s of None \<Rightarrow> []
     | Some w \<Rightarrow> (case Option.bind (find_request (wallet_id w) (assetsRequests s)) request.result of
         None \<Rightarrow> [] | Some (as, n) \<Rightarrow> as))"

definition asset_key :: "asset_domain \<Rightarrow> string" where
  "asset_key d = asset_policyId (domain_asset d) @ asset_assetName (domain_asset d)"

text \<open>The object \<open>details\<close>: of two assets with one key the later is kept.\<close>

definition asset_details :: "assets_store \<Rightarrow> (string \<times> asset_domain) list" where
  "asset_details s = foldl (\<lambda>details d. AList.update (asset_key d) d details) [] (all_assets s)"

definition getAsset :: "assets_store \<Rightarrow> asset_getter" where
  "getAsset s policy name = map_of (asset_details s) (policy @ name)"

text \<open>A change of the object that \<open>getAsset\<close> finds, where it lies: in the result of the active wallet's request.\<close>

fun change_last :: "('a \<Rightarrow> bool) \<Rightarrow> ('a \<Rightarrow> 'a) \<Rightarrow> 'a list \<Rightarrow> 'a list" where
  "change_last p f [] = []"
| "change_last p f (x # xs) = (if p x \<and> \<not> list_ex p xs then f x # xs else x # change_last p f xs)"

definition change_asset :: "string \<Rightarrow> (asset_domain \<Rightarrow> asset_domain) \<Rightarrow> assets_store \<Rightarrow> assets_store" where
  "change_asset key f s = (case assets_active s of None \<Rightarrow> s
     | Some w \<Rightarrow> s\<lparr>assetsRequests := on_request (wallet_id w)
         (\<lambda>r. r\<lparr>result := map_option (\<lambda>(as, n). (change_last (\<lambda>d. asset_key d = key) f as, n)) (request.result r)\<rparr>)
         (assetsRequests s)\<rparr>)"

definition refreshAssetsOf :: "wallet \<Rightarrow> assets_store \<Rightarrow> assets_store" where
  "refreshAssetsOf w s = (let s1 = retrieveAssetsRequest (wallet_id w) s
     in s1\<lparr>assetsRequests := on_request (wallet_id w) (execute (wallet_id w)) (assetsRequests s1)\<rparr>)"

definition refreshAssetsData :: "assets_store \<Rightarrow> assets_store" where
  "refreshAssetsData s = (if assets_connected s then fold refreshAssetsOf (assets_wallets s) s else s)"

definition onAssetSettingsOpen :: "string \<Rightarrow> string \<Rightarrow> assets_store \<Rightarrow> assets_store" where
  "onAssetSettingsOpen policy name s = s\<lparr>editingsAsset := Some (policy, name),
     dialogWasOpenedRequest := execute () (dialogWasOpenedRequest s)\<rparr>"

definition onAssetSettingsSubmit :: "string \<Rightarrow> string \<Rightarrow> jsval \<Rightarrow> assets_store \<Rightarrow> assets_store" where
  "onAssetSettingsSubmit policy name decimals s =
     (let s1 = s\<lparr>editingsAsset := None\<rparr>;
          s2 = (if getAsset s1 policy name \<noteq> None
                then change_asset (policy @ name) (update_asset (decimals_only decimals)) s1 else s1);
          s3 = refreshAssetsData s2
      in s3\<lparr>storage_writes := storage_writes s3 @ [(policy @ name, decimals)]\<rparr>)"

definition onAssetSettingsCancel :: "assets_store \<Rightarrow> assets_store" where
  "onAssetSettingsCancel s = s\<lparr>editingsAsset := None\<rparr>"

definition setActiveAsset :: "string \<Rightarrow> assets_store \<Rightarrow> assets_store" where
  "setActiveAsset i s = s\<lparr>activeAsset := Some i\<rparr>"

definition unsetActiveAsset :: "assets_store \<Rightarrow> assets_store" where
  "unsetActiveAsset s = s\<lparr>activeAsset := None\<rparr>"

text \<open>
  An answer of the backend: the API method then reads the local storage as it is at that moment (\<open>BccApi\<close>), and the request is
  given the assets with their decimals.
\<close>

definition assetsArrived :: "cases \<Rightarrow> string \<Rightarrow> nat \<Rightarrow> js_object + server_asset list \<Rightarrow> assets_store \<Rightarrow> assets_store" where
  "assetsArrived camel walletId n answer s =
     (let (res, seen) = getAssets camel (\<lambda>_. answer) (Inr (stored_decimals s)) walletId (seen_metadata s);
          outcome = (case res of Inl e \<Rightarrow> Inl e | Inr (as, m) \<Rightarrow> Inr (map domain_of as, m))
      in s\<lparr>seen_metadata := seen,
           assetsRequests := on_request walletId (\<lambda>r. request_step r (Respond n outcome)) (assetsRequests s)\<rparr>)"

datatype assets_event =
    AssetsTimer                          \<comment> \<open>every minute, and once after the first refresh of the wallets\<close>
  | AssetsShown                          \<comment> \<open>a getter runs\<close>
  | AssetsWallets "wallet option" "wallet list"
  | AssetsConnection bool
  | SettingsOpen string string
  | SettingsSubmit string string jsval
  | SettingsCancel
  | SetActiveAsset string
  | UnsetActiveAsset
  | AssetsArrive string nat "js_object + server_asset list"
  | AssetsTick string
  | DialogAnswer "(unit, bool, thrown) request_event"
  | StorageWritten

definition assets_step :: "cases \<Rightarrow> assets_store \<Rightarrow> assets_event \<Rightarrow> assets_store" where
  "assets_step camel s ev = (case ev of
       AssetsTimer \<Rightarrow> refreshAssetsData s
     | AssetsShown \<Rightarrow> (case assets_active s of None \<Rightarrow> s | Some w \<Rightarrow> retrieveAssetsRequest (wallet_id w) s)
     | AssetsWallets a ws \<Rightarrow> s\<lparr>assets_active := a, assets_wallets := ws\<rparr>
     | AssetsConnection b \<Rightarrow> s\<lparr>assets_connected := b\<rparr>
     | SettingsOpen p n \<Rightarrow> onAssetSettingsOpen p n s
     | SettingsSubmit p n d \<Rightarrow> onAssetSettingsSubmit p n d s
     | SettingsCancel \<Rightarrow> onAssetSettingsCancel s
     | SetActiveAsset i \<Rightarrow> setActiveAsset i s
     | UnsetActiveAsset \<Rightarrow> unsetActiveAsset s
     | AssetsArrive w n a \<Rightarrow> assetsArrived camel w n a s
     | AssetsTick w \<Rightarrow> s\<lparr>assetsRequests := on_request w (\<lambda>r. request_step r Tick) (assetsRequests s)\<rparr>
     | DialogAnswer e \<Rightarrow> (if environment_event e
         then s\<lparr>dialogWasOpenedRequest := request_step (dialogWasOpenedRequest s) e\<rparr> else s)
     | StorageWritten \<Rightarrow> (case storage_writes s of [] \<Rightarrow> s
         | (k, d) # rest \<Rightarrow> s\<lparr>stored_decimals := (stored_decimals s)(k := Some d), storage_writes := rest\<rparr>))"

section \<open>Sorting by the fingerprint\<close>

lemma code_compare_Cons:
  "code_compare (c # s) (d # t) \<le> 0
   \<longleftrightarrow> (of_char c :: nat) < of_char d \<or> (of_char c :: nat) = of_char d \<and> code_compare s t \<le> 0"
  by auto

lemma code_compare_Nil: "code_compare [] t \<le> 0" "code_compare (c # s) [] \<le> 0 \<longleftrightarrow> False"
  by (cases t; simp)+

lemma code_compare_total: "code_compare a b \<le> 0 \<or> code_compare b a \<le> 0"
proof (induction a arbitrary: b)
  case (Cons c s)
  then show ?case
    by (cases b) (simp_all only: code_compare_Cons code_compare_Nil simp_thms, metis linorder_neqE_nat)
qed (simp only: code_compare_Nil simp_thms)

lemma code_compare_le_trans: "code_compare a b \<le> 0 \<Longrightarrow> code_compare b c \<le> 0 \<Longrightarrow> code_compare a c \<le> 0"
proof (induction a arbitrary: b c)
  case (Cons x s)
  then obtain y t where b: "b = y # t" by (cases b) (simp_all only: code_compare_Nil simp_thms)
  with Cons.prems(2) obtain z u where c: "c = z # u" by (cases c) (simp_all only: code_compare_Nil simp_thms)
  from Cons.prems Cons.IH [of t u] show ?case unfolding b c code_compare_Cons by (metis less_trans)
qed (simp only: code_compare_Nil simp_thms)

lemma comparison_code_compare: "comparison code_compare"
  unfolding comparison_def using code_compare_total code_compare_le_trans by blast

lemma filter_insert_by:
  assumes "comparison cmp" and "sorted_wrt (\<lambda>a b. cmp a b \<le> 0) ys"
  shows "filter P (insert_by cmp x ys) = (if P x then insert_by cmp x (filter P ys) else filter P ys)"
  using assms(2)
proof (induction ys)
  case (Cons y ys)
  have front: "insert_by cmp x zs = x # zs" if "\<forall>z \<in> set zs. cmp x z \<le> 0" for zs
    using that by (cases zs) auto
  show ?case
  proof (cases "cmp x y \<le> 0")
    case True
    have "\<forall>z \<in> set (filter P ys). cmp x z \<le> 0"
    proof
      fix z assume "z \<in> set (filter P ys)"
      with Cons.prems have "cmp y z \<le> 0" by auto
      with True assms(1) show "cmp x z \<le> 0" unfolding comparison_def by blast
    qed
    then show ?thesis using True front by auto
  qed (use Cons in auto)
qed simp

lemma filter_sort_by: "comparison cmp \<Longrightarrow> filter P (sort_by cmp xs) = sort_by cmp (filter P xs)"
proof (induction xs)
  case (Cons x xs)
  have s: "sort_by cmp (x # xs) = insert_by cmp x (sort_by cmp xs)" for x xs by (simp add: sort_by_def)
  show ?case using Cons filter_insert_by [OF Cons.prems sorted_sort_by [OF Cons.prems]] by (simp add: s)
qed (simp add: sort_by_def)

lemma insert_by_cong: "(\<And>y. y \<in> set ys \<Longrightarrow> cmp x y = cmp' x y) \<Longrightarrow> insert_by cmp x ys = insert_by cmp' x ys"
  by (induction ys) auto

lemma sort_by_cong:
  "(\<And>x y. x \<in> set xs \<Longrightarrow> y \<in> set xs \<Longrightarrow> cmp x y = cmp' x y) \<Longrightarrow> sort_by cmp xs = sort_by cmp' xs"
proof (induction xs)
  case (Cons x xs)
  have s: "sort_by c (x # xs) = insert_by c x (sort_by c xs)" for c and x :: 'a and xs by (simp add: sort_by_def)
  from Cons have "sort_by cmp xs = sort_by cmp' xs" by simp
  then show ?case using Cons.prems by (simp add: s) (rule insert_by_cong, simp)
qed (simp add: sort_by_def)

definition fingerprint_order :: "asset_token \<Rightarrow> asset_token \<Rightarrow> int" where
  "fingerprint_order a b = code_compare (default [] (at_fingerprint a)) (default [] (at_fingerprint b))"

lemma comparison_fingerprint: "comparison fingerprint_order"
  unfolding fingerprint_order_def by (rule comparison_pullback) (rule comparison_code_compare)

lemma shown_has_fingerprint:
  "truthy_id (at_uniqueId (getAssetToken t g)) \<Longrightarrow> \<exists>f. at_fingerprint (getAssetToken t g) = Some f"
  by (cases "g (tt_policyId t) (tt_assetName t)") (auto simp: getAssetToken_def truthy_id_def Let_def)

lemma getAssetTokens_sorted:
  "getAssetTokens tokens g = sort_by fingerprint_order (filter (\<lambda>t. truthy_id (at_uniqueId t)) (map (\<lambda>t. getAssetToken t g) tokens))"
  unfolding getAssetTokens_def
  by (rule sort_by_cong) (auto dest!: shown_has_fingerprint simp: sortAssets_def fingerprint_order_def default_def)

text \<open>
  The tokens shown are those of known assets, in the order of their fingerprints. \<open>getAssetTokens\<close> loses and adds none: as a
  multiset its result is the tokens whose asset is known with an id, each with the data of its asset.
\<close>

theorem shown_tokens_are_sorted:
  "mset (getAssetTokens tokens g) = mset (filter (\<lambda>t. truthy_id (at_uniqueId t)) (map (\<lambda>t. getAssetToken t g) tokens))
   \<and> sorted_wrt (\<lambda>a b. \<exists>f f'. at_fingerprint a = Some f \<and> at_fingerprint b = Some f' \<and> code_compare f f' \<le> 0) (getAssetTokens tokens g)"
proof -
  let ?ts = "getAssetTokens tokens g"
  have m: "mset ?ts = mset (filter (\<lambda>t. truthy_id (at_uniqueId t)) (map (\<lambda>t. getAssetToken t g) tokens))"
    by (simp add: getAssetTokens_def)
  then have e: "set ?ts = set (filter (\<lambda>t. truthy_id (at_uniqueId t)) (map (\<lambda>t. getAssetToken t g) tokens))"
    by (metis set_mset_mset)
  have s: "sorted_wrt (\<lambda>a b. fingerprint_order a b \<le> 0) ?ts"
    unfolding getAssetTokens_sorted by (rule sorted_sort_by [OF comparison_fingerprint])
  have "sorted_wrt (\<lambda>a b. \<exists>f f'. at_fingerprint a = Some f \<and> at_fingerprint b = Some f' \<and> code_compare f f' \<le> 0) ?ts"
    using s by (rule sorted_wrt_mono_rel [rotated])
      (use e in \<open>auto dest!: shown_has_fingerprint simp: fingerprint_order_def default_def\<close>)
  with m show ?thesis by blast
qed

section \<open>The settings of an asset\<close>

lemma details_lookup:
  "map_of (foldl (\<lambda>details d. AList.update (asset_key d) d details) acc ds) k
     = (case find (\<lambda>d. asset_key d = k) (rev ds) of Some d \<Rightarrow> Some d | None \<Rightarrow> map_of acc k)"
proof (induction ds arbitrary: acc)
  case (Cons d ds)
  have "find p (xs @ [y]) = (case find p xs of Some z \<Rightarrow> Some z | None \<Rightarrow> if p y then Some y else None)" for p xs and y :: asset_domain
    by (induction xs) auto
  then show ?case by (simp add: Cons.IH update_conv split: option.split)
qed simp

lemma getAsset_last: "getAsset s p n = find (\<lambda>d. asset_key d = p @ n) (rev (all_assets s))"
  by (simp add: getAsset_def asset_details_def details_lookup split: option.split)

lemma find_rev_change_last:
  assumes "\<And>d. asset_key (f d) = asset_key d"
  shows "find (\<lambda>d. asset_key d = k) (rev (change_last (\<lambda>d. asset_key d = key) f ds))
     = (if k = key then map_option f (find (\<lambda>d. asset_key d = k) (rev ds)) else find (\<lambda>d. asset_key d = k) (rev ds))"
proof (induction ds)
  case (Cons d ds)
  have app: "find p (xs @ [y]) = (case find p xs of Some z \<Rightarrow> Some z | None \<Rightarrow> if p y then Some y else None)" for p xs and y :: asset_domain
    by (induction xs) auto
  have none: "find (\<lambda>d. asset_key d = key) (rev ds) = None \<longleftrightarrow> \<not> list_ex (\<lambda>d. asset_key d = key) ds"
    by (auto simp: find_None_iff list_ex_iff)
  show ?case using Cons none assms
    by (cases "find (\<lambda>d. asset_key d = k) (rev ds)") (auto simp: app split: option.splits)
qed simp

lemma find_request_append:
  "find_request w (rs @ [(v, r)]) = (case find_request w rs of Some q \<Rightarrow> Some q | None \<Rightarrow> if v = w then Some r else None)"
  by (induction rs) auto

lemma result_execute [simp]: "request.result (execute a r) = request.result r"
  by (auto simp: execute_def execute_plain_def execute_cached_def select_call_def addApiCall_def launch_def Let_def
      split: request_class.split option.splits)

lemma refreshAssetsOf_result:
  "Option.bind (find_request w (assetsRequests (refreshAssetsOf v s))) request.result
     = Option.bind (find_request w (assetsRequests s)) request.result"
  by (auto simp: refreshAssetsOf_def retrieveAssetsRequest_def find_request_append new_request_def Let_def
      split: option.splits)

lemma refresh_keeps_assets [simp]:
  "all_assets (refreshAssetsData s) = all_assets s" "assets_active (refreshAssetsData s) = assets_active s"
proof -
  have a: "assets_active (refreshAssetsOf v s) = assets_active s" for v s
    by (simp add: refreshAssetsOf_def retrieveAssetsRequest_def Let_def split: option.split)
  have one: "all_assets (refreshAssetsOf v s) = all_assets s" for v s
    by (cases "assets_active s") (simp_all add: all_assets_def a refreshAssetsOf_result)
  have "all_assets (fold refreshAssetsOf ws s) = all_assets s \<and> assets_active (fold refreshAssetsOf ws s) = assets_active s" for ws s
    by (induction ws arbitrary: s) (simp_all add: one a)
  then show "all_assets (refreshAssetsData s) = all_assets s" "assets_active (refreshAssetsData s) = assets_active s"
    by (simp_all add: refreshAssetsData_def)
qed

lemma all_assets_change:
  "all_assets (change_asset key f s) = change_last (\<lambda>d. asset_key d = key) f (all_assets s)"
proof (cases "assets_active s")
  case (Some w)
  then show ?thesis
    by (cases "Option.bind (find_request (wallet_id w) (assetsRequests s)) request.result")
      (auto simp: all_assets_def change_asset_def bind_eq_Some_conv split: option.splits prod.splits)
qed (simp add: all_assets_def change_asset_def)

lemma asset_key_decimals [simp]: "asset_key (update_asset (decimals_only d) a) = asset_key a"
  by (simp add: asset_key_def default_def update_asset_def decimals_only_def Let_def)

lemma submitted_assets:
  "all_assets (onAssetSettingsSubmit p n d s)
     = (if getAsset s p n \<noteq> None then change_last (\<lambda>a. asset_key a = p @ n) (update_asset (decimals_only d)) (all_assets s)
        else all_assets s)"
proof -
  have e: "all_assets (s\<lparr>editingsAsset := None\<rparr>) = all_assets s"
    by (cases "assets_active s") (simp_all add: all_assets_def)
  moreover from e have "getAsset (s\<lparr>editingsAsset := None\<rparr>) = getAsset s"
    by (intro ext) (simp add: getAsset_last)
  moreover have "all_assets (s'\<lparr>storage_writes := x\<rparr>) = all_assets s'" for s' x
    by (cases "assets_active s'") (simp_all add: all_assets_def)
  ultimately show ?thesis by (simp add: onAssetSettingsSubmit_def Let_def all_assets_change)
qed

lemma submitted_lookup:
  "getAsset (onAssetSettingsSubmit p n d s) q m
     = (if q @ m = p @ n then map_option (update_asset (decimals_only d)) (getAsset s q m) else getAsset s q m)"
  by (auto simp: getAsset_last submitted_assets find_rev_change_last)

text \<open>
  Changing the decimals of an asset hides its tokens. Right after the settings of an asset are submitted every list of tokens
  is what it was without the tokens of that asset: the update of the object clears its \<open>uniqueId\<close>, and only assets with an
  id are shown.
\<close>

theorem edited_asset_disappears:
  assumes "getAsset s p n \<noteq> None"
  shows "getAssetTokens tokens (getAsset (assets_step camel s (SettingsSubmit p n d)))
     = filter (\<lambda>t. at_policyId t @ at_assetName t \<noteq> p @ n) (getAssetTokens tokens (getAsset s))"
proof -
  let ?g = "getAsset (assets_step camel s (SettingsSubmit p n d))"
  have g: "?g q m = (if q @ m = p @ n then map_option (update_asset (decimals_only d)) (getAsset s q m) else getAsset s q m)" for q m
    by (simp add: assets_step_def submitted_lookup)
  have key: "at_policyId (getAssetToken t h) @ at_assetName (getAssetToken t h) = tt_policyId t @ tt_assetName t" for t h
    by (simp add: getAssetToken_def Let_def)
  have gone: "\<not> truthy_id (at_uniqueId (getAssetToken t ?g))" if "tt_policyId t @ tt_assetName t = p @ n" for t
    using that g by (auto simp: getAssetToken_def truthy_id_def update_asset_def decimals_only_def Let_def bind_eq_Some_conv)
  have same: "getAssetToken t ?g = getAssetToken t (getAsset s)" if "tt_policyId t @ tt_assetName t \<noteq> p @ n" for t
    using that g by (simp add: getAssetToken_def)
  have "filter (\<lambda>t. truthy_id (at_uniqueId t)) (map (\<lambda>t. getAssetToken t ?g) tokens)
      = filter (\<lambda>t. at_policyId t @ at_assetName t \<noteq> p @ n)
          (filter (\<lambda>t. truthy_id (at_uniqueId t)) (map (\<lambda>t. getAssetToken t (getAsset s)) tokens))"
    using gone same key by (induction tokens) auto
  then show ?thesis
    unfolding getAssetTokens_sorted by (simp add: filter_sort_by [OF comparison_fingerprint])
qed

section \<open>The warnings before a wallet is emptied\<close>

lemma find_Some_set: "find P xs = Some x \<Longrightarrow> x \<in> set xs"
  by (induction xs) (auto split: if_splits)

lemma find_enumerate_None:
  "find (\<lambda>(i, x). P i x) (enumerate k xs) = None \<longleftrightarrow> (\<forall>i < length xs. \<not> P (k + i) (xs ! i))"
proof (induction xs arbitrary: k)
  case (Cons x xs)
  then show ?case by (simp add: All_less_Suc2)
qed simp

text \<open>
  The tokens that stay in the wallet: with the amounts entered for all selected tokens, \<open>hasTokensLeftAfterTransaction\<close> says
  whether a token of the wallet was not selected or an entered amount is not the whole of its token. Without selected tokens it
  says that none are left.
\<close>

theorem tokens_left_iff:
  assumes "length selected = length initial" and "length initial \<le> length available" and "[] \<notin> set selected"
  shows "hasTokensLeftAfterTransaction eq available initial (Some selected)
     \<longleftrightarrow> initial \<noteq> [] \<and> (length initial < length available \<or> (\<exists>i < length initial. \<not> eq (initial ! i) (selected ! i)))"
proof -
  let ?P = "\<lambda>i x. \<not> (i < length initial \<and> eq (initial ! i) x)"
  let ?f = "find (\<lambda>(i, x). ?P i x) (enumerate 0 selected)"
  have found: "(case ?f of None \<Rightarrow> False | Some (i, x) \<Rightarrow> x \<noteq> []) \<longleftrightarrow> ?f \<noteq> None"
  proof (cases ?f)
    case (Some ix)
    then have "ix \<in> set (enumerate 0 selected)" by (rule find_Some_set)
    then have "fst ix < length selected" "snd ix = selected ! fst ix" by (auto simp: in_set_enumerate_eq)
    then have "snd ix \<in> set selected" by simp
    with assms(3) Some show ?thesis by (auto split: prod.split)
  qed simp
  have "?f = None \<longleftrightarrow> (\<forall>i < length initial. eq (initial ! i) (selected ! i))"
    using find_enumerate_None [of ?P 0 selected] assms(1) by auto
  then show ?thesis using found assms(1,2)
    by (auto simp: hasTokensLeftAfterTransaction_def)
qed

text \<open>The warning is shown exactly for a Sophie wallet that keeps less than ten coins, unless nothing at all is left.\<close>

lemma empty_wallet_warning:
  "shouldShowEmptyWalletWarning spent w tokensLeft \<longleftrightarrow>
     \<not> isLegacy w \<and> wallet_amount w - spent < 10 \<and> (isDelegating w \<or> wallet_amount w \<noteq> spent \<or> tokensLeft)"
  by (auto simp: shouldShowEmptyWalletWarning_def isWalletRewardsWithdrawalPossible_def Let_def
      MINIMUM_BCC_BALANCE_FOR_WITHDRAWING_REWARDS_def)

section \<open>Examples\<close>

definition example_server_asset :: "string \<Rightarrow> string \<Rightarrow> server_asset" where
  "example_server_asset n f = \<lparr>sa_policy_id = ''p'', sa_asset_name = n, sa_fingerprint = f, sa_metadata = None\<rparr>"

definition example_assets :: assets_store where
  "example_assets = run (assets_step id) new_AssetsStore [AssetsConnection True,
     AssetsWallets (Some (example_wallet ''w'')) [example_wallet ''w''], AssetsTimer,
     AssetsArrive ''w'' 0 (Inr [example_server_asset ''gold'' ''f2'', example_server_asset ''silver'' ''f1'']),
     AssetsTick ''w'', AssetsTick ''w'']"

definition example_tokens :: "transaction_token list" where
  "example_tokens = map (\<lambda>n. \<lparr>tt_policyId = ''p'', tt_assetName = n, tt_quantity = 1, tt_address = ''a''\<rparr>) [''gold'', ''silver'', ''tin'']"

lemma example_assets_known: "getAsset example_assets ''p'' ''gold'' \<noteq> None"
  by code_simp

lemma example_tokens_shown: "map at_assetName (getAssetTokens example_tokens (getAsset example_assets)) = [''silver'', ''gold'']"
  by code_simp

theorem edited_asset_disappears_witness:
  "map at_assetName (getAssetTokens example_tokens
     (getAsset (assets_step id example_assets (SettingsSubmit ''p'' ''gold'' (JNum 2))))) = [''silver'']"
proof -
  have "map at_assetName (filter (\<lambda>t. at_policyId t @ at_assetName t \<noteq> ''p'' @ ''gold'')
      (getAssetTokens example_tokens (getAsset example_assets))) = [''silver'']" by code_simp
  then show ?thesis by (simp only: edited_asset_disappears [OF example_assets_known])
qed

theorem tokens_left_iff_witness:
  "hasTokensLeftAfterTransaction (\<lambda>q x. q = of_nat (length x)) [(), ()] [3, 1] (Some [''abc'', ''de''])"
  using tokens_left_iff [of "[''abc'', ''de'']" "[3, 1 :: rat]" "[(), ()]" "\<lambda>q x. q = of_nat (length x)"]
  by (auto simp: less_Suc_eq numeral_2_eq_2)

text \<open>
  The decimals are stored only after the refresh has started: when the backend answers before the write is done, the asset is
  shown with its old decimals until the next refresh.
\<close>

definition shown_decimals :: "assets_store \<Rightarrow> jsval option option" where
  "shown_decimals s = map_option (\<lambda>a. asset_decimals (domain_asset a)) (getAsset s ''p'' ''gold'')"

lemma late_storage_write:
  "map (\<lambda>order. shown_decimals (run (assets_step id) example_assets
       (SettingsSubmit ''p'' ''gold'' (JNum 2) # AssetsTick ''w'' # order @ [AssetsTick ''w''])))
     [[StorageWritten, AssetsArrive ''w'' 1 (Inr [example_server_asset ''gold'' ''f2''])],
      [AssetsArrive ''w'' 1 (Inr [example_server_asset ''gold'' ''f2'']), StorageWritten]]
   = [Some (Some (JNum 2)), Some None]"
  by code_simp

end
