(* ===== verification/Currency.thy ===== *)
theory Currency imports ApiCalls begin

text \<open>
  The external currency in which amounts are shown: the requests to the service and what is read from its answers
  (\<open>config/currencyConfig.js\<close>, \<open>config/currencyConfig.coingecko.js\<close>), and the store \<open>stores/CurrencyStore.js\<close>, which asks for the
  rate of the selected currency every minute. The list of known currencies (\<open>config/currenciesList.json\<close>) is a parameter.
\<close>

section \<open>The service\<close>

type_synonym currency = fields
type_synonym known_currencies = "string \<Rightarrow> currency option"

definition COINGECKO :: string where "COINGECKO = ''api.coingecko.com''"

definition currency_get :: "string \<Rightarrow> external_options" where
  "currency_get p = \<lparr>hostname = COINGECKO, external_path = ''/api/v3'' @ p, external_method = ''GET''\<rparr>"

definition list_requests :: "external_options list" where
  "list_requests = [currency_get ''/coins/list'', currency_get ''/simple/supported_vs_currencies'']"

definition rate_request :: "string \<Rightarrow> external_options" where
  "rate_request code = currency_get (''/coins/markets?ids=bcc&vs_currency='' @ code)"

text \<open>\<open>genericCurrencyRequest\<close>: the requests one after the other; the first that fails ends it.\<close>

fun all_requests :: "(string \<Rightarrow> jsval option) \<Rightarrow> internet \<Rightarrow> external_options list \<Rightarrow> js_object + jsval list" where
  "all_requests parse net [] = Inr []"
| "all_requests parse net (r # rs) = (case externalRequest COINGECKO parse net False r of
       Inl e \<Rightarrow> Inl e
     | Inr v \<Rightarrow> (case all_requests parse net rs of Inl e \<Rightarrow> Inl e | Inr vs \<Rightarrow> Inr (v # vs)))"

definition type_error :: js_object where "type_error = js_error ''TypeError''"

text \<open>The known currency of a code, or the coin with this symbol, which is an object without a code.\<close>

definition coin_with_symbol :: "jsval list \<Rightarrow> string \<Rightarrow> currency option" where
  "coin_with_symbol completeList code =
     (case find (\<lambda>c. case c of JObj fs \<Rightarrow> map_of fs ''symbol'' = Some (JStr code) | _ \<Rightarrow> False) completeList of
        Some (JObj fs) \<Rightarrow> Some fs | _ \<Rightarrow> None)"

definition currency_entry :: "known_currencies \<Rightarrow> jsval list \<Rightarrow> jsval \<Rightarrow> currency option" where
  "currency_entry known completeList code = (case code of
       JStr c \<Rightarrow> (case known c of Some cur \<Rightarrow> Some cur | None \<Rightarrow> coin_with_symbol completeList c)
     | _ \<Rightarrow> None)"

definition list_response :: "known_currencies \<Rightarrow> jsval list \<Rightarrow> js_object + currency list" where
  "list_response known apiResponse =
     (if length apiResponse < 2 then Inl (js_error ''unexpected API response'')
      else case (apiResponse ! 0, apiResponse ! 1) of
        (JArr completeList, JArr vsCurrencies) \<Rightarrow> Inr (List.map_filter (currency_entry known completeList) vsCurrencies)
      | _ \<Rightarrow> Inl type_error)"

text \<open>\<open>get(apiResponse, '[0].current_price', 0)\<close>.\<close>

definition rate_response :: "jsval \<Rightarrow> jsval" where
  "rate_response apiResponse = (case apiResponse of
       JArr (JObj fs # rest) \<Rightarrow> (case map_of fs ''current_price'' of Some p \<Rightarrow> p | None \<Rightarrow> JNum 0)
     | _ \<Rightarrow> JNum 0)"

definition fetch_list :: "known_currencies \<Rightarrow> (string \<Rightarrow> jsval option) \<Rightarrow> internet \<Rightarrow> js_object + currency list" where
  "fetch_list known parse net = (case all_requests parse net list_requests of
       Inl e \<Rightarrow> Inl e | Inr vs \<Rightarrow> list_response known vs)"

definition fetch_rate :: "(string \<Rightarrow> jsval option) \<Rightarrow> internet \<Rightarrow> string \<Rightarrow> js_object + jsval" where
  "fetch_rate parse net code = (case externalRequest COINGECKO parse net False (rate_request code) of
       Inl e \<Rightarrow> Inl e | Inr v \<Rightarrow> Inr (rate_response v))"

definition code_of :: "currency \<Rightarrow> jsval option" where
  "code_of c = map_of c ''code''"

text \<open>
  The name in the locale of the user. The name of a coin that is not known is a text, which has no locales: its name becomes
  undefined. Without a name the access throws (\<open>None\<close>).
\<close>

definition ENGLISH :: string where "ENGLISH = ''en-US''"

fun name_in :: "string \<Rightarrow> jsval \<Rightarrow> jsval option" where
  "name_in l (JObj names) = (case map_of names l of
       Some n \<Rightarrow> if js_truthy n then Some n else map_of names ENGLISH
     | None \<Rightarrow> map_of names ENGLISH)"
| "name_in l _ = None"

definition getLocalizedCurrency :: "string \<Rightarrow> currency \<Rightarrow> currency option" where
  "getLocalizedCurrency l c = (case map_of c ''name'' of
       None \<Rightarrow> None
     | Some JNull \<Rightarrow> None
     | Some v \<Rightarrow> Some (filter (\<lambda>kv. fst kv \<noteq> ''name'') c
                       @ (case name_in l v of None \<Rightarrow> [] | Some n \<Rightarrow> [(''name'', n)])))"

section \<open>The store\<close>

datatype currency_task =
    ActiveRead                             \<comment> \<open>the settings in the local storage\<close>
  | SelectedRead bool
  | ListCall
  | RateCall string

datatype currency_effect =
    RequestList
  | RequestRate string
  | StoreSelected string
  | StoreActive bool

record currency_store =
  isFetchingList :: bool
  isFetchingRate :: bool
  currencyActive :: bool
  currencyList :: "currency list"
  selectedCurrency :: "currency option"
  currencyRate :: "jsval option"
  lastFetched :: "int option"
  rate_interval :: "nat option"
  rate_timers :: "nat list"
  next_timer :: nat
  locale_shown :: string
  currency_tasks :: "currency_task list"
  currency_effects :: "currency_effect list"

definition new_CurrencyStore :: currency_store where
  "new_CurrencyStore = \<lparr>isFetchingList = False, isFetchingRate = False, currencyActive = False, currencyList = [],
     selectedCurrency = None, currencyRate = None, lastFetched = None, rate_interval = None, rate_timers = [], next_timer = 0,
     locale_shown = ENGLISH, currency_tasks = [], currency_effects = []\<rparr>"

definition cu_task :: "currency_task \<Rightarrow> currency_store \<Rightarrow> currency_store" where
  "cu_task t s = s\<lparr>currency_tasks := currency_tasks s @ [t]\<rparr>"

definition cu_emit :: "currency_effect \<Rightarrow> currency_store \<Rightarrow> currency_store" where
  "cu_emit x s = s\<lparr>currency_effects := currency_effects s @ [x]\<rparr>"

definition getCurrencyList :: "currency_store \<Rightarrow> currency_store" where
  "getCurrencyList s = cu_task ListCall (cu_emit RequestList (s\<lparr>isFetchingList := True\<rparr>))"

definition listAnswered :: "js_object + currency list \<Rightarrow> currency_store \<Rightarrow> currency_store" where
  "listAnswered answer s = (case answer of
       Inl e \<Rightarrow> s
     | Inr cs \<Rightarrow> s\<lparr>currencyList := cs, isFetchingList := False\<rparr>)"

text \<open>The getter, which throws (\<open>Inl ()\<close>) when the selected currency has no name.\<close>

definition localizedCurrency :: "currency_store \<Rightarrow> unit + currency option" where
  "localizedCurrency s = (case selectedCurrency s of None \<Rightarrow> Inr None
     | Some c \<Rightarrow> (case getLocalizedCurrency (locale_shown s) c of None \<Rightarrow> Inl () | Some l \<Rightarrow> Inr (Some l)))"

fun text_code :: "jsval option \<Rightarrow> string option" where
  "text_code (Some (JStr c)) = (if c \<noteq> [] then Some c else None)"
| "text_code _ = None"

definition getCurrencyRate :: "currency_store \<Rightarrow> currency_store" where
  "getCurrencyRate s = (case localizedCurrency s of
       Inl () \<Rightarrow> s
     | Inr localized \<Rightarrow>
         (let s1 = (if currencyList s = [] then getCurrencyList s else s)
          in case Option.bind localized (\<lambda>l. text_code (code_of l)) of
               None \<Rightarrow> s1
             | Some code \<Rightarrow> cu_task (RateCall code) (cu_emit (RequestRate code) (s1\<lparr>isFetchingRate := True\<rparr>))))"

definition rateFailed :: "currency_store \<Rightarrow> currency_store" where
  "rateFailed s = (if currencyRate s \<noteq> None then s\<lparr>isFetchingRate := False\<rparr> else s)"

definition rateAnswered :: "int \<Rightarrow> js_object + jsval \<Rightarrow> currency_store \<Rightarrow> currency_store" where
  "rateAnswered now answer s = (case answer of
       Inl e \<Rightarrow> rateFailed s
     | Inr r \<Rightarrow> if \<not> js_truthy r then rateFailed s
               else s\<lparr>lastFetched := Some now, currencyRate := Some r, isFetchingRate := False\<rparr>)"

definition setupCurrency :: "currency_store \<Rightarrow> currency_store" where
  "setupCurrency s = cu_task ActiveRead s"

definition setupSelected :: "known_currencies \<Rightarrow> bool \<Rightarrow> string option \<Rightarrow> currency_store \<Rightarrow> currency_store" where
  "setupSelected known active localCurrencyCode s =
     (let s1 = s\<lparr>currencyActive := active, selectedCurrency := Option.bind localCurrencyCode known\<rparr>;
          s2 = (case rate_interval s1 of None \<Rightarrow> s1 | Some i \<Rightarrow> s1\<lparr>rate_timers := filter (\<lambda>t. t \<noteq> i) (rate_timers s1)\<rparr>);
          s3 = s2\<lparr>rate_interval := Some (next_timer s2), rate_timers := rate_timers s2 @ [next_timer s2],
                  next_timer := Suc (next_timer s2)\<rparr>
      in getCurrencyRate (getCurrencyList s3))"

definition setCurrencySelected :: "string \<Rightarrow> currency_store \<Rightarrow> currency_store" where
  "setCurrencySelected code s = (case find (\<lambda>c. code_of c = Some (JStr code)) (currencyList s) of
       None \<Rightarrow> s
     | Some c \<Rightarrow> cu_emit (StoreSelected code) (getCurrencyRate (s\<lparr>selectedCurrency := Some c\<rparr>)))"

definition toggleCurrencyIsActive :: "currency_store \<Rightarrow> currency_store" where
  "toggleCurrencyIsActive s = (let b = \<not> currencyActive s in cu_emit (StoreActive b) (s\<lparr>currencyActive := b\<rparr>))"

datatype currency_answer =
    ActiveIs bool
  | SelectedIs "string option"
  | ListIs "js_object + currency list"
  | RateIs int "js_object + jsval"
  | StorageFailed

datatype currency_event =
    SetupCurrency
  | SelectCurrency string
  | ToggleCurrency
  | LocaleChanged string
  | RateTimer
  | CurrencyAnswer nat currency_answer

definition answer_currency :: "known_currencies \<Rightarrow> nat \<Rightarrow> currency_answer \<Rightarrow> currency_store \<Rightarrow> currency_store" where
  "answer_currency known k a s =
     (if k < length (currency_tasks s) then
        (let s1 = s\<lparr>currency_tasks := remove_nth k (currency_tasks s)\<rparr>
         in case (currency_tasks s ! k, a) of
              (ActiveRead, ActiveIs b) \<Rightarrow> cu_task (SelectedRead b) s1
            | (SelectedRead b, SelectedIs c) \<Rightarrow> setupSelected known b c s1
            | (ListCall, ListIs x) \<Rightarrow> listAnswered x s1
            | (RateCall code, RateIs now x) \<Rightarrow> rateAnswered now x s1
            | (ActiveRead, StorageFailed) \<Rightarrow> s1
            | (SelectedRead b, StorageFailed) \<Rightarrow> s1
            | _ \<Rightarrow> s)
      else s)"

definition currency_step :: "known_currencies \<Rightarrow> currency_store \<Rightarrow> currency_event \<Rightarrow> currency_store" where
  "currency_step known s ev = (case ev of
       SetupCurrency \<Rightarrow> setupCurrency s
     | SelectCurrency c \<Rightarrow> setCurrencySelected c s
     | ToggleCurrency \<Rightarrow> toggleCurrencyIsActive s
     | LocaleChanged l \<Rightarrow> s\<lparr>locale_shown := l\<rparr>
     | RateTimer \<Rightarrow> if rate_timers s \<noteq> [] then getCurrencyRate s else s
     | CurrencyAnswer k a \<Rightarrow> answer_currency known k a s)"

lemmas currency_defs [model_defs] = getCurrencyList_def listAnswered_def getCurrencyRate_def rateFailed_def rateAnswered_def
  setupCurrency_def setupSelected_def setCurrencySelected_def toggleCurrencyIsActive_def cu_task_def cu_emit_def

section \<open>The rate and its currency\<close>

text \<open>Everything but a rate that arrives: no answer of the service, or one without a rate.\<close>

fun no_rate :: "currency_event \<Rightarrow> bool" where
  "no_rate (CurrencyAnswer k (RateIs now (Inr r))) \<longleftrightarrow> \<not> js_truthy r"
| "no_rate _ \<longleftrightarrow> True"

fun reselects :: "currency_event \<Rightarrow> bool" where
  "reselects (SelectCurrency c) \<longleftrightarrow> True"
| "reselects (CurrencyAnswer k (SelectedIs c)) \<longleftrightarrow> True"
| "reselects _ \<longleftrightarrow> False"

lemma getCurrencyRate_frame [simp]:
  "currencyRate (getCurrencyRate s) = currencyRate s" "selectedCurrency (getCurrencyRate s) = selectedCurrency s"
  "lastFetched (getCurrencyRate s) = lastFetched s" "rate_timers (getCurrencyRate s) = rate_timers s"
  "rate_interval (getCurrencyRate s) = rate_interval s" "next_timer (getCurrencyRate s) = next_timer s"
  by (simp_all add: currency_defs Let_def split: sum.split option.split unit.split)

lemma currency_frames [simp]:
  "currencyRate (cu_task t s) = currencyRate s" "selectedCurrency (cu_task t s) = selectedCurrency s"
  "currencyRate (cu_emit x s) = currencyRate s" "selectedCurrency (cu_emit x s) = selectedCurrency s"
  "currencyRate (getCurrencyList s) = currencyRate s" "selectedCurrency (getCurrencyList s) = selectedCurrency s"
  "currencyRate (listAnswered l s) = currencyRate s" "selectedCurrency (listAnswered l s) = selectedCurrency s"
  "currencyRate (setupSelected known b c s) = currencyRate s"
  "currencyRate (rateFailed s) = currencyRate s" "selectedCurrency (rateFailed s) = selectedCurrency s"
  "selectedCurrency (rateAnswered now a s) = selectedCurrency s"
  by (simp_all add: cu_task_def cu_emit_def getCurrencyList_def listAnswered_def setupSelected_def rateFailed_def
      rateAnswered_def Let_def split: sum.split option.split)

lemma no_rate_answer:
  assumes "no_rate (CurrencyAnswer k a)"
  shows "currencyRate (answer_currency known k a s) = currencyRate s"
proof -
  have "currencyRate (rateAnswered now x t) = currencyRate t" if "a = RateIs now x" for now x t
    using that assms by (cases x) (simp_all add: rateAnswered_def)
  then show ?thesis
    by (cases "currency_tasks s ! k"; cases a) (simp_all add: answer_currency_def)
qed

lemma no_rate_step: "no_rate ev \<Longrightarrow> currencyRate (currency_step known s ev) = currencyRate s"
  by (cases ev) (simp_all add: currency_step_def no_rate_answer setupCurrency_def setCurrencySelected_def
      toggleCurrencyIsActive_def Let_def split: option.split)

lemma same_selected_answer:
  "\<not> reselects (CurrencyAnswer k a) \<Longrightarrow> selectedCurrency (answer_currency known k a s) = selectedCurrency s"
  by (cases "currency_tasks s ! k"; cases a) (simp_all add: answer_currency_def)

lemma same_selected_step: "\<not> reselects ev \<Longrightarrow> selectedCurrency (currency_step known s ev) = selectedCurrency s"
  by (cases ev) (simp_all add: currency_step_def same_selected_answer setupCurrency_def toggleCurrencyIsActive_def Let_def)

lemma currency_tasks_grow: "\<exists>ts. currency_tasks (getCurrencyRate t) = currency_tasks t @ ts"
  by (auto simp: getCurrencyRate_def getCurrencyList_def cu_task_def cu_emit_def Let_def split: sum.split option.split unit.split)

text \<open>
  A rate outlives its currency. When another currency is selected the rate of the previous one stays, and it is shown as the rate
  of the new one for as long as no rate arrives; and a rate that was still on its way for the previous currency is taken for the
  rate of the new one when it arrives.
\<close>

theorem rate_outlives_its_currency:
  assumes "find (\<lambda>c. code_of c = Some (JStr code)) (currencyList s) = Some cur"
    and "list_all (\<lambda>ev. no_rate ev \<and> \<not> reselects ev) es"
    and "k < length (currency_tasks s)" and "currency_tasks s ! k = RateCall old" and "js_truthy r"
  shows "selectedCurrency (run (currency_step known) s (SelectCurrency code # es)) = Some cur
     \<and> currencyRate (run (currency_step known) s (SelectCurrency code # es)) = currencyRate s
     \<and> selectedCurrency (run (currency_step known) s [SelectCurrency code, CurrencyAnswer k (RateIs now (Inr r))]) = Some cur
     \<and> currencyRate (run (currency_step known) s [SelectCurrency code, CurrencyAnswer k (RateIs now (Inr r))]) = Some r"
proof -
  let ?s = "currency_step known s (SelectCurrency code)"
  have sel: "selectedCurrency ?s = Some cur" "currencyRate ?s = currencyRate s"
    using assms(1) by (simp_all add: currency_step_def setCurrencySelected_def)
  have keep: "selectedCurrency (run (currency_step known) t es) = selectedCurrency t
      \<and> currencyRate (run (currency_step known) t es) = currencyRate t" for t
    using assms(2) by (induction es arbitrary: t) (simp_all add: no_rate_step same_selected_step)
  obtain ts where ts: "currency_tasks ?s = currency_tasks s @ ts"
    using assms(1) currency_tasks_grow [of "s\<lparr>selectedCurrency := Some cur\<rparr>"]
    by (auto simp: currency_step_def setCurrencySelected_def cu_emit_def)
  have late: "currency_step known ?s (CurrencyAnswer k (RateIs now (Inr r)))
      = rateAnswered now (Inr r) (?s\<lparr>currency_tasks := remove_nth k (currency_tasks ?s)\<rparr>)"
    using ts assms(3,4) by (simp add: currency_step_def [of known ?s] answer_currency_def nth_append)
  have "currencyRate (rateAnswered now (Inr r) t) = Some r" for t
    using assms(5) by (simp add: rateAnswered_def)
  with late sel keep [of ?s] show ?thesis by simp
qed

section \<open>What can be selected\<close>

text \<open>A coin that is not known has no code, so no code selects it.\<close>

lemma selected_has_the_code:
  "selectedCurrency (setCurrencySelected code s) \<noteq> selectedCurrency s
   \<Longrightarrow> \<exists>c \<in> set (currencyList s). selectedCurrency (setCurrencySelected code s) = Some c \<and> code_of c = Some (JStr code)"
proof (cases "find (\<lambda>c. code_of c = Some (JStr code)) (currencyList s)")
  case (Some c)
  then have "c \<in> set (currencyList s)" "code_of c = Some (JStr code)" by (auto simp: find_Some_iff)
  with Some show ?thesis by (auto simp: setCurrencySelected_def)
qed (simp add: setCurrencySelected_def)

text \<open>A list that could not be fetched leaves \<open>isFetchingList\<close> set; only a list that arrives clears it.\<close>

lemma failed_list_keeps_fetching:
  "isFetchingList (listAnswered (Inl e) s) = isFetchingList s" "\<not> isFetchingList (listAnswered (Inr cs) s)"
  by (simp_all add: listAnswered_def)

text \<open>The currencies of the list: for every supported code one entry, known or a coin, in the order of the service.\<close>

lemma map_filter_known:
  "(\<And>x. x \<in> set xs \<Longrightarrow> f x = Some (g x)) \<Longrightarrow> List.map_filter f xs = map g xs"
  by (induction xs) (simp_all add: List.map_filter_simps)

text \<open>
  When the service supports only known codes, the list has their currencies in its order, each can be selected by its code,
  and selecting it asks for its rate.
\<close>

theorem known_codes_can_be_selected:
  assumes "fetch_list known parse net = Inr cs" and "all_requests parse net list_requests = Inr [JArr coins, JArr (map JStr codes)]"
    and "\<forall>c \<in> set codes. \<exists>cur. known c = Some cur \<and> code_of cur = Some (JStr c) \<and> getLocalizedCurrency l cur \<noteq> None \<and> c \<noteq> []"
    and "code \<in> set codes" and "currencyList s = cs" and "locale_shown s = l"
  shows "map code_of cs = map (\<lambda>c. Some (JStr c)) codes
     \<and> selectedCurrency (setCurrencySelected code s) = known code
     \<and> RateCall code \<in> set (currency_tasks (setCurrencySelected code s))"
proof -
  have cs: "cs = map (\<lambda>c. the (known c)) codes"
  proof -
    have "cs = List.map_filter (currency_entry known coins) (map JStr codes)"
      using assms(1,2) by (simp add: fetch_list_def list_response_def)
    also have "\<dots> = map (\<lambda>v. case v of JStr c \<Rightarrow> the (known c) | _ \<Rightarrow> []) (map JStr codes)"
      by (rule map_filter_known) (use assms(3) in \<open>auto simp: currency_entry_def\<close>)
    finally show ?thesis by simp
  qed
  then have codes: "map code_of cs = map (\<lambda>c. Some (JStr c)) codes" using assms(3) by auto
  have find: "find (\<lambda>c. code_of c = Some (JStr code)) cs = known code"
    unfolding cs using assms(3,4)
  proof (induction codes)
    case (Cons c codes)
    then obtain cur where "known c = Some cur" "code_of cur = Some (JStr c)" by auto
    with Cons show ?case by auto
  qed simp
  from assms(3,4) obtain cur where cur: "known code = Some cur" "code_of cur = Some (JStr code)"
      "getLocalizedCurrency l cur \<noteq> None" "code \<noteq> []" by blast
  from cur(3) obtain loc where loc: "getLocalizedCurrency l cur = Some loc" by blast
  have kept: "map_of (filter (\<lambda>kv. fst kv \<noteq> ''name'') cur) ''code'' = map_of cur ''code''"
    by (rule map_of_filter_fst) simp
  obtain extra where "loc = filter (\<lambda>kv. fst kv \<noteq> ''name'') cur @ extra" "map_of extra ''code'' = None"
    using loc by (auto simp: getLocalizedCurrency_def split: option.splits jsval.splits)
  then have "code_of loc = code_of cur" by (cases "map_of cur ''code''") (simp_all add: code_of_def kept map_add_def)
  with cur loc find assms(5,6) codes show ?thesis
    by (simp add: setCurrencySelected_def getCurrencyRate_def localizedCurrency_def cu_emit_def cu_task_def Let_def)
qed

section \<open>Examples\<close>

definition example_currency :: "string \<Rightarrow> currency" where
  "example_currency c = [(''code'', JStr c), (''name'', JObj [(''en-US'', JStr (c @ '' coin''))])]"

definition example_known :: known_currencies where
  "example_known c = (if c = ''usd'' \<or> c = ''eur'' then Some (example_currency c) else None)"

definition example_currency_store :: currency_store where
  "example_currency_store = run (currency_step example_known) new_CurrencyStore [SetupCurrency, CurrencyAnswer 0 (ActiveIs True),
     CurrencyAnswer 0 (SelectedIs (Some ''usd'')), CurrencyAnswer 0 (ListIs (Inr [example_currency ''usd'', example_currency ''eur''])),
     CurrencyAnswer 1 (RateIs 1 (Inr (JNum 2))), RateTimer]"

theorem rate_outlives_its_currency_witness:
  "selectedCurrency (run (currency_step example_known) example_currency_store [SelectCurrency ''eur'', RateTimer])
     = Some (example_currency ''eur'')
   \<and> currencyRate (run (currency_step example_known) example_currency_store [SelectCurrency ''eur'', RateTimer]) = Some (JNum 2)"
proof -
  have "find (\<lambda>c. code_of c = Some (JStr ''eur'')) (currencyList example_currency_store) = Some (example_currency ''eur'')"
    "1 < length (currency_tasks example_currency_store)" "currency_tasks example_currency_store ! 1 = RateCall ''usd''"
    "currencyRate example_currency_store = Some (JNum 2)"
    by code_simp+
  with rate_outlives_its_currency [OF this(1) _ this(2,3), of "[RateTimer]" "JNum 3" example_known 5] show ?thesis by simp
qed

theorem known_codes_can_be_selected_witness:
  "selectedCurrency (setCurrencySelected ''eur'' (new_CurrencyStore\<lparr>currencyList := [example_currency ''usd'', example_currency ''eur'']\<rparr>))
     = Some (example_currency ''eur'')"
proof -
  define net :: internet where "net = (\<lambda>r. ExternalEnd (if external_path r = ''/api/v3/coins/list'' then ''coins'' else ''codes''))"
  define parse :: "string \<Rightarrow> jsval option" where
    "parse = (\<lambda>s. Some (JArr (if s = ''coins'' then [] else map JStr [''usd'', ''eur''])))"
  have "all_requests parse net list_requests = Inr [JArr [], JArr (map JStr [''usd'', ''eur''])]"
    by (simp add: list_requests_def currency_get_def externalRequest_def net_def parse_def ALLOWED_EXTERNAL_HOSTNAMES_def)
  moreover from this have "fetch_list example_known parse net = Inr [example_currency ''usd'', example_currency ''eur'']"
    by (simp add: fetch_list_def list_response_def currency_entry_def example_known_def List.map_filter_simps)
  moreover have "\<forall>c \<in> set [''usd'', ''eur'']. \<exists>cur. example_known c = Some cur \<and> code_of cur = Some (JStr c)
      \<and> getLocalizedCurrency ENGLISH cur \<noteq> None \<and> c \<noteq> []"
    by (simp add: example_known_def example_currency_def code_of_def getLocalizedCurrency_def)
  ultimately have "selectedCurrency (setCurrencySelected ''eur''
      (new_CurrencyStore\<lparr>currencyList := [example_currency ''usd'', example_currency ''eur'']\<rparr>)) = example_known ''eur''"
    using known_codes_can_be_selected [of example_known parse net "[example_currency ''usd'', example_currency ''eur'']" "[]"
        "[''usd'', ''eur'']" ENGLISH "''eur''" "new_CurrencyStore\<lparr>currencyList := [example_currency ''usd'', example_currency ''eur'']\<rparr>"]
    by (simp add: new_CurrencyStore_def)
  then show ?thesis by (simp add: example_known_def)
qed

end
