(* ===== verification/WalletSettings.thy ===== *)
theory WalletSettings imports WalletRequests begin

text \<open>
  The settings of a wallet, \<open>stores/WalletSettingsStore.js\<close>: the editing of its fields, the polling of its unspent outputs, the
  verification of its recovery phrase with the status that
  \<open>utils/walletRecoveryPhraseVerificationUtils.js\<close> derives from the dates; and the data kept for a wallet on this computer,
  \<open>stores/WalletsLocalStore.js\<close>, which the requests of \<open>Requests\<close> read and write.
\<close>

section \<open>The status of the recovery phrase\<close>

datatype verification_status =
    StatusOk | OkTimeUntil | OkFewMonths | OkFewWeeks | OkFewDays | StatusWarning | StatusNotification

datatype verification_type = NeverVerified | AlreadyVerified

definition okFewMonths :: int where "okFewMonths = 91"
definition okFewWeeks :: int where "okFewWeeks = 153"
definition okFewDays :: int where "okFewDays = 176"
definition warning_days :: int where "warning_days = 183"
definition notification_days :: int where "notification_days = 365"

text \<open>The library's difference of two moments in days is a parameter.\<close>

definition getStatusFromWalletData ::
  "(int \<Rightarrow> int \<Rightarrow> int) \<Rightarrow> int \<Rightarrow> int option \<Rightarrow> int option \<Rightarrow> verification_status \<times> verification_type" where
  "getStatusFromWalletData days now creation verified =
     (let dateToCheck = (case verified of Some d \<Rightarrow> d | None \<Rightarrow> (case creation of Some d \<Rightarrow> d | None \<Rightarrow> now));
          daysSinceDate = days now dateToCheck;
          type = (if verified \<noteq> None then AlreadyVerified else NeverVerified);
          status = (if daysSinceDate > notification_days then StatusNotification
                    else if daysSinceDate > warning_days then StatusWarning
                    else if type = AlreadyVerified then StatusOk
                    else if daysSinceDate > okFewDays then OkFewDays
                    else if daysSinceDate > okFewWeeks then OkFewWeeks
                    else if daysSinceDate > okFewMonths then OkFewMonths
                    else OkTimeUntil)
      in (status, type))"

section \<open>Local data of the wallets\<close>

record local_data =
  ld_id :: string
  creationDate :: "int option"
  recoveryPhraseVerificationDate :: "int option"
  showUsedAddresses :: "bool option"

record local_update =
  new_verificationDate :: "int option"
  new_showUsedAddresses :: "bool option"

definition no_update :: local_update where
  "no_update = \<lparr>new_verificationDate = None, new_showUsedAddresses = None\<rparr>"

text \<open>\<open>api.localStorage.setWalletLocalData\<close> (see \<open>Storage\<close>): the creation date is a default, the id always the wallet's.\<close>

definition merge_local :: "int \<Rightarrow> string \<Rightarrow> local_update \<Rightarrow> local_data option \<Rightarrow> local_data" where
  "merge_local now walletId u old =
     (let d = (case old of Some d \<Rightarrow> d
                 | None \<Rightarrow> \<lparr>ld_id = walletId, creationDate = None, recoveryPhraseVerificationDate = None, showUsedAddresses = None\<rparr>)
      in d\<lparr>ld_id := walletId,
           creationDate := (case creationDate d of Some c \<Rightarrow> Some c | None \<Rightarrow> Some now),
           recoveryPhraseVerificationDate := or_old (new_verificationDate u) (recoveryPhraseVerificationDate d),
           showUsedAddresses := or_old (new_showUsedAddresses u) (showUsedAddresses d)\<rparr>)"

type_synonym locals = "(string \<times> local_data) list"

datatype local_task =
    SetWait nat bool                        \<comment> \<open>a call of the set request; whether a refresh follows\<close>
  | LoopWait nat locals "string list"       \<comment> \<open>the loop of a refresh: the call, the data it looks at, the wallets left\<close>
  | UnsetWait nat

record locals_store =
  localWalletsRequest :: "(unit, locals, thrown) request"
  setWalletLocalDataRequest :: "(string \<times> local_update, unit, thrown) request"
  unsetWalletLocalDataRequest :: "(string, unit, thrown) request"
  local_wallets :: "string list"            \<comment> \<open>\<open>stores.wallets.all\<close>\<close>
  local_tasks :: "local_task list"
  stored_locals :: locals                   \<comment> \<open>the storage\<close>

definition all_locals :: "locals_store \<Rightarrow> locals" where
  "all_locals s = (case request.result (localWalletsRequest s) of None \<Rightarrow> [] | Some d \<Rightarrow> d)"

definition readLocals :: "locals_store \<Rightarrow> locals_store" where
  "readLocals s = s\<lparr>localWalletsRequest := execute () (localWalletsRequest s)\<rparr>"

definition add_local_task :: "local_task \<Rightarrow> locals_store \<Rightarrow> locals_store" where
  "add_local_task t s = s\<lparr>local_tasks := local_tasks s @ [t]\<rparr>"

definition call_set :: "string \<Rightarrow> local_update \<Rightarrow> (nat \<Rightarrow> local_task) \<Rightarrow> locals_store \<Rightarrow> locals_store" where
  "call_set walletId u t s =
     (let r = execute (walletId, u) (setWalletLocalDataRequest s)
      in add_local_task (t (flight_of r)) (s\<lparr>setWalletLocalDataRequest := r\<rparr>))"

definition needs_data :: "locals \<Rightarrow> string \<Rightarrow> bool" where
  "needs_data current walletId = (case map_of current walletId of None \<Rightarrow> True | Some d \<Rightarrow> creationDate d = None)"

text \<open>The sequential loop of \<open>asyncForEach\<close>: on to the next wallet without data, or to the read at its end.\<close>

fun refreshLoop :: "locals \<Rightarrow> string list \<Rightarrow> locals_store \<Rightarrow> locals_store" where
  "refreshLoop current [] s = readLocals s"
| "refreshLoop current (w # ws) s =
     (if needs_data current w then call_set w no_update (\<lambda>n. LoopWait n current ws) s else refreshLoop current ws s)"

definition refreshWalletsLocalData :: "locals_store \<Rightarrow> locals_store" where
  "refreshWalletsLocalData s = refreshLoop (all_locals s) (local_wallets s) s"

definition store_setWalletLocalData :: "string \<Rightarrow> local_update \<Rightarrow> bool \<Rightarrow> locals_store \<Rightarrow> locals_store" where
  "store_setWalletLocalData walletId u skipRefresh s = call_set walletId u (\<lambda>n. SetWait n (\<not> skipRefresh)) s"

definition store_unsetWalletLocalData :: "string \<Rightarrow> locals_store \<Rightarrow> locals_store" where
  "store_unsetWalletLocalData walletId s =
     (let r = execute walletId (unsetWalletLocalDataRequest s)
      in add_local_task (UnsetWait (flight_of r)) (s\<lparr>unsetWalletLocalDataRequest := r\<rparr>))"

definition setup_locals :: "string list \<Rightarrow> locals \<Rightarrow> locals_store" where
  "setup_locals ws stored = readLocals \<lparr>localWalletsRequest = new_request PlainRequest,
     setWalletLocalDataRequest = new_request PlainRequest, unsetWalletLocalDataRequest = new_request PlainRequest,
     local_wallets = ws, local_tasks = [], stored_locals = stored\<rparr>"

text \<open>What a task waits for, and what follows; after a failure nothing does.\<close>

definition local_outcome :: "local_task \<Rightarrow> locals_store \<Rightarrow> (thrown + unit) option" where
  "local_outcome t s = (case t of
       SetWait n b \<Rightarrow> outcome_of n (setWalletLocalDataRequest s)
     | LoopWait n c ws \<Rightarrow> outcome_of n (setWalletLocalDataRequest s)
     | UnsetWait n \<Rightarrow> outcome_of n (unsetWalletLocalDataRequest s))"

fun local_continue :: "local_task \<Rightarrow> locals_store \<Rightarrow> locals_store" where
  "local_continue (SetWait n b) s = (if b then refreshWalletsLocalData s else s)"
| "local_continue (LoopWait n c ws) s = refreshLoop c ws s"
| "local_continue (UnsetWait n) s = refreshWalletsLocalData s"

datatype local_event =
    LocalWallets "string list"
  | RefreshLocals
  | SetLocal string local_update bool
  | UnsetLocal string
  | SetPerformed nat int                     \<comment> \<open>the storage performs the write of a call, at a time\<close>
  | UnsetPerformed nat
  | ReadPerformed nat
  | LocalFailed "(string \<times> local_update, unit, thrown) request_event"
  | SetTick
  | UnsetTick
  | ReadTick
  | LocalTask nat

definition perform_set :: "nat \<Rightarrow> int \<Rightarrow> locals_store \<Rightarrow> locals_store" where
  "perform_set n now s =
     (if n \<in> set (in_flight (setWalletLocalDataRequest s)) then
        (let (walletId, u) = fst (flights (setWalletLocalDataRequest s) ! n)
         in s\<lparr>stored_locals := AList.update walletId (merge_local now walletId u (map_of (stored_locals s) walletId)) (stored_locals s),
              setWalletLocalDataRequest := request_step (setWalletLocalDataRequest s) (Respond n (Inr ()))\<rparr>)
      else s)"

definition perform_unset :: "nat \<Rightarrow> locals_store \<Rightarrow> locals_store" where
  "perform_unset n s =
     (if n \<in> set (in_flight (unsetWalletLocalDataRequest s)) then
        s\<lparr>stored_locals := AList.delete (fst (flights (unsetWalletLocalDataRequest s) ! n)) (stored_locals s),
          unsetWalletLocalDataRequest := request_step (unsetWalletLocalDataRequest s) (Respond n (Inr ()))\<rparr>
      else s)"

definition local_step :: "locals_store \<Rightarrow> local_event \<Rightarrow> locals_store" where
  "local_step s ev = (case ev of
       LocalWallets ws \<Rightarrow> s\<lparr>local_wallets := ws\<rparr>
     | RefreshLocals \<Rightarrow> refreshWalletsLocalData s
     | SetLocal w u skip \<Rightarrow> store_setWalletLocalData w u skip s
     | UnsetLocal w \<Rightarrow> store_unsetWalletLocalData w s
     | SetPerformed n now \<Rightarrow> perform_set n now s
     | UnsetPerformed n \<Rightarrow> perform_unset n s
     | ReadPerformed n \<Rightarrow> s\<lparr>localWalletsRequest := request_step (localWalletsRequest s) (Respond n (Inr (stored_locals s)))\<rparr>
     | LocalFailed e \<Rightarrow> (case e of
           Respond n (Inl x) \<Rightarrow> s\<lparr>setWalletLocalDataRequest := request_step (setWalletLocalDataRequest s) e\<rparr> | _ \<Rightarrow> s)
     | SetTick \<Rightarrow> s\<lparr>setWalletLocalDataRequest := request_step (setWalletLocalDataRequest s) Tick\<rparr>
     | UnsetTick \<Rightarrow> s\<lparr>unsetWalletLocalDataRequest := request_step (unsetWalletLocalDataRequest s) Tick\<rparr>
     | ReadTick \<Rightarrow> s\<lparr>localWalletsRequest := request_step (localWalletsRequest s) Tick\<rparr>
     | LocalTask k \<Rightarrow>
         (if k < length (local_tasks s) then
            (case local_outcome (local_tasks s ! k) s of
               None \<Rightarrow> s
             | Some (Inl e) \<Rightarrow> s\<lparr>local_tasks := remove_nth k (local_tasks s)\<rparr>
             | Some (Inr u) \<Rightarrow> local_continue (local_tasks s ! k) (s\<lparr>local_tasks := remove_nth k (local_tasks s)\<rparr>))
          else s))"

subsection \<open>What the storage keeps\<close>

lemma stored_frames [simp]:
  "stored_locals (readLocals s) = stored_locals s" "stored_locals (add_local_task t s) = stored_locals s"
  "stored_locals (call_set w u t' s) = stored_locals s" "stored_locals (store_setWalletLocalData w u b s) = stored_locals s"
  "stored_locals (store_unsetWalletLocalData w s) = stored_locals s"
  by (simp_all add: readLocals_def add_local_task_def call_set_def store_setWalletLocalData_def store_unsetWalletLocalData_def Let_def)

lemma stored_refreshLoop [simp]: "stored_locals (refreshLoop c ws s) = stored_locals s"
  by (induction c ws s rule: refreshLoop.induct) simp_all

lemma stored_refresh [simp]: "stored_locals (refreshWalletsLocalData s) = stored_locals s"
  by (simp add: refreshWalletsLocalData_def)

lemma stored_continue [simp]: "stored_locals (local_continue t s) = stored_locals s"
  by (cases t) simp_all

text \<open>The wallets whose data a call under way would delete.\<close>

definition unsetting :: "string \<Rightarrow> locals_store \<Rightarrow> bool" where
  "unsetting w s \<longleftrightarrow> w \<in> fst ` set (flights (unsetWalletLocalDataRequest s))"

definition created_on :: "string \<Rightarrow> int \<Rightarrow> locals_store \<Rightarrow> bool" where
  "created_on w c s \<longleftrightarrow> Option.bind (map_of (stored_locals s) w) creationDate = Some c"

lemma created_on_merge:
  "created_on w c s \<Longrightarrow> Option.bind (map_of (AList.update v (merge_local now v u (map_of (stored_locals s) v)) (stored_locals s)) w)
     creationDate = Some c"
  by (cases "v = w") (auto simp: created_on_def update_conv merge_local_def Let_def bind_eq_Some_conv)

lemma unset_flights_kept:
  "set (map fst (flights (request_step r Tick))) = set (map fst (flights r))"
  "set (map fst (flights (request_step r (Respond n x)))) = set (map fst (flights r))"
  by (cases "timers r"; simp add: flights_args_fire del: set_map) simp

lemma unset_request_frames [simp]:
  "unsetWalletLocalDataRequest (readLocals s) = unsetWalletLocalDataRequest s"
  "unsetWalletLocalDataRequest (call_set w u t' s) = unsetWalletLocalDataRequest s"
  "unsetWalletLocalDataRequest (perform_set n now s) = unsetWalletLocalDataRequest s"
  by (simp_all add: readLocals_def call_set_def add_local_task_def perform_set_def Let_def split: prod.split)

lemma unset_request_refresh [simp]:
  "unsetWalletLocalDataRequest (refreshLoop c ws s) = unsetWalletLocalDataRequest s"
  "unsetWalletLocalDataRequest (refreshWalletsLocalData s) = unsetWalletLocalDataRequest s"
  "unsetWalletLocalDataRequest (local_continue t s) = unsetWalletLocalDataRequest s"
proof -
  show loop: "unsetWalletLocalDataRequest (refreshLoop c ws s) = unsetWalletLocalDataRequest s" for c ws s
    by (induction c ws s rule: refreshLoop.induct) simp_all
  then show r: "unsetWalletLocalDataRequest (refreshWalletsLocalData s) = unsetWalletLocalDataRequest s" for s
    by (simp add: refreshWalletsLocalData_def)
  show "unsetWalletLocalDataRequest (local_continue t s) = unsetWalletLocalDataRequest s"
    by (cases t) (simp_all add: r loop)
qed

definition date_kept :: "string \<Rightarrow> int \<Rightarrow> locals_store \<Rightarrow> bool" where
  "date_kept w c s \<longleftrightarrow> created_on w c s \<and> w \<notin> set (map fst (flights (unsetWalletLocalDataRequest s)))
     \<and> (\<forall>n \<in> set (in_flight (unsetWalletLocalDataRequest s)). n < length (flights (unsetWalletLocalDataRequest s)))"

fun not_unset :: "string \<Rightarrow> local_event \<Rightarrow> bool" where
  "not_unset w (UnsetLocal v) \<longleftrightarrow> v \<noteq> w"
| "not_unset w _ \<longleftrightarrow> True"

lemma in_flight_bound:
  assumes "\<forall>n \<in> set (in_flight r). n < length (flights r)"
  shows "\<forall>n \<in> set (in_flight (execute a r)). n < length (flights (execute a r))"
    and "\<forall>n \<in> set (in_flight (request_step r Tick)). n < length (flights (request_step r Tick))"
    and "\<forall>n \<in> set (in_flight (request_step r (Respond k x))). n < length (flights (request_step r (Respond k x)))"
proof -
  show "\<forall>n \<in> set (in_flight (execute a r)). n < length (flights (execute a r))"
    using assms by (auto simp: execute_def execute_plain_def execute_cached_def select_call_def addApiCall_def launch_def Let_def
        less_Suc_eq split: request_class.split option.splits)
  have "in_flight (fire t q) = in_flight q \<and> length (flights (fire t q)) = length (flights q)" for t and q :: "('a, 'b, 'c) request"
  proof (cases t)
    case (Finish n x)
    then show ?thesis by (cases x) (simp_all add: settle_flight_def write_current_def split: option.split)
  qed (simp_all add: write_current_def Let_def split: option.split)
  then show "\<forall>n \<in> set (in_flight (request_step r Tick)). n < length (flights (request_step r Tick))"
    using assms by (cases "timers r") simp_all
  show "\<forall>n \<in> set (in_flight (request_step r (Respond k x))). n < length (flights (request_step r (Respond k x)))"
    using assms by (auto dest: in_set_remove1)
qed

lemma date_kept_step: "date_kept w c s \<Longrightarrow> not_unset w ev \<Longrightarrow> date_kept w c (local_step s ev)"
proof -
  assume d: "date_kept w c s" and ok: "not_unset w ev"
  show ?thesis
  proof (cases ev)
    case (UnsetLocal v)
    have "set (map fst (flights (execute v (unsetWalletLocalDataRequest s)))) \<subseteq> insert v (set (map fst (flights (unsetWalletLocalDataRequest s))))"
      by (rule flights_args_execute)
    moreover have "\<forall>n \<in> set (in_flight (execute v (unsetWalletLocalDataRequest s))).
        n < length (flights (execute v (unsetWalletLocalDataRequest s)))"
      using d by (intro in_flight_bound(1)) (simp add: date_kept_def)
    ultimately show ?thesis using d ok UnsetLocal
      by (auto simp: local_step_def date_kept_def created_on_def store_unsetWalletLocalData_def add_local_task_def Let_def)
  next
    case (SetPerformed n now)
    with d show ?thesis
      by (auto simp: local_step_def date_kept_def perform_set_def created_on_def Let_def
          intro: created_on_merge [unfolded created_on_def] split: prod.split)
  next
    case (UnsetPerformed n)
    show ?thesis
    proof (cases "n \<in> set (in_flight (unsetWalletLocalDataRequest s))")
      case True
      let ?v = "fst (flights (unsetWalletLocalDataRequest s) ! n)"
      from True d have "?v \<in> set (map fst (flights (unsetWalletLocalDataRequest s)))" by (auto simp: date_kept_def)
      with d have "?v \<noteq> w" by (auto simp: date_kept_def)
      with d UnsetPerformed True in_flight_bound(3) [of "unsetWalletLocalDataRequest s"] show ?thesis
        by (auto simp: local_step_def date_kept_def perform_unset_def created_on_def delete_conv' dest: in_set_remove1)
    qed (use d UnsetPerformed in \<open>simp add: local_step_def perform_unset_def\<close>)
  next
    case UnsetTick
    with d in_flight_bound(2) [of "unsetWalletLocalDataRequest s"] unset_flights_kept(1) [of "unsetWalletLocalDataRequest s"] show ?thesis
      by (auto simp: local_step_def date_kept_def created_on_def simp del: request_step.simps set_map)
  next
    case (LocalTask k)
    with d show ?thesis
      by (auto simp: local_step_def date_kept_def created_on_def split: option.split sum.split)
  qed (use d in \<open>auto simp: local_step_def date_kept_def created_on_def store_setWalletLocalData_def split: request_event.split sum.split\<close>)
qed

interpretation creation_dates: guarded_machine local_step "date_kept w c" "not_unset w" for w c
  by unfold_locales (rule date_kept_step)

text \<open>
  The date of creation of a wallet's data never changes. Once the storage has one, no refresh, write or failure changes it,
  whatever happens in between, as long as nobody asks to delete the wallet's data.
\<close>

theorem creation_date_is_kept:
  assumes "created_on w c s" and "list_all (not_unset w) es" and "unsetWalletLocalDataRequest s = new_request PlainRequest"
  shows "created_on w c (run local_step s es)"
proof -
  have "date_kept w c s" using assms(1,3) by (simp add: date_kept_def new_request_def)
  then have "date_kept w c (run local_step s es)" using assms(2) by (rule creation_dates.run_inv)
  then show ?thesis by (simp add: date_kept_def)
qed

subsection \<open>A write while another is under way\<close>

definition core :: "locals_store \<Rightarrow> locals_store" where
  "core s = s\<lparr>local_tasks := []\<rparr>"

lemma core_calls:
  "core (readLocals s) = core (readLocals (core s))" "core (call_set w u f s) = core (call_set w u f (core s))"
  by (simp_all add: core_def readLocals_def call_set_def add_local_task_def Let_def)

lemma core_stored [simp]: "stored_locals (core s) = stored_locals s"
  by (simp add: core_def)

lemma core_all_locals [simp]: "all_locals (core s) = all_locals s" "local_wallets (core s) = local_wallets s"
  by (simp_all add: core_def all_locals_def)

lemma core_refreshLoop: "core (refreshLoop c ws s) = core (refreshLoop c ws (core s))"
proof (induction c ws s rule: refreshLoop.induct)
  case (1 c s)
  then show ?case using core_calls(1) by simp
next
  case (2 c w ws s)
  then show ?case using core_calls(2) by simp
qed

fun task_free :: "local_event \<Rightarrow> bool" where
  "task_free (LocalTask k) \<longleftrightarrow> False"
| "task_free _ \<longleftrightarrow> True"

lemma core_step: "task_free ev \<Longrightarrow> core (local_step s ev) = core (local_step (core s) ev)"
proof (cases ev)
  case RefreshLocals
  then show ?thesis using core_refreshLoop by (simp add: local_step_def refreshWalletsLocalData_def)
next
  case (SetLocal w u skip)
  then show ?thesis using core_calls(2) by (simp add: local_step_def store_setWalletLocalData_def)
qed (auto simp: local_step_def core_def store_unsetWalletLocalData_def add_local_task_def perform_set_def perform_unset_def Let_def
       split: prod.split request_event.split sum.split)

lemma core_run: "list_all task_free es \<Longrightarrow> core s = core s' \<Longrightarrow> core (run local_step s es) = core (run local_step s' es)"
proof (induction es arbitrary: s s')
  case (Cons e es)
  then have t: "task_free e" by simp
  have "core (local_step s e) = core (local_step (core s) e)" by (rule core_step [OF t])
  also have "\<dots> = core (local_step (core s') e)" by (simp only: Cons.prems(2))
  also have "\<dots> = core (local_step s' e)" by (rule core_step [OF t, symmetric])
  finally have "core (local_step s e) = core (local_step s' e)" .
  then have "core (run local_step (local_step s e) es) = core (run local_step (local_step s' e) es)"
    using Cons.prems(1) by (intro Cons.IH) simp_all
  then show ?case by (simp only: run.simps)
qed simp

text \<open>
  C23. A write is lost while another is under way. When data of a wallet are to be stored while an earlier write has no answer yet, the
  request calls nothing: whatever the storage and the requests do next, what is stored is as if the write had never been
  asked for; and the one who asked waits for the earlier write, and is told of its success.
\<close>

theorem concurrent_write_is_lost:
  assumes "isWaitingForResponse (setWalletLocalDataRequest s)" and "cls (setWalletLocalDataRequest s) = PlainRequest"
    and "list_all task_free es"
  shows "stored_locals (run local_step s (SetLocal w u skip # es)) = stored_locals (run local_step s es)
     \<and> local_tasks (local_step s (SetLocal w u skip))
         = local_tasks s @ [SetWait (flight_of (setWalletLocalDataRequest s)) (\<not> skip)]"
proof -
  have same: "execute (w, u) (setWalletLocalDataRequest s) = setWalletLocalDataRequest s"
    using assms(1,2) by (simp add: execute_def execute_plain_def)
  then have "core (local_step s (SetLocal w u skip)) = core s"
    by (simp add: core_def local_step_def store_setWalletLocalData_def call_set_def add_local_task_def)
  from core_run [OF assms(3) this] have "core (run local_step s (SetLocal w u skip # es)) = core (run local_step s es)" by simp
  then have "stored_locals (run local_step s (SetLocal w u skip # es)) = stored_locals (run local_step s es)"
    by (metis core_stored)
  with same show ?thesis
    by (simp add: local_step_def store_setWalletLocalData_def call_set_def add_local_task_def)
qed

section \<open>The settings store\<close>

record wallet_utxos =
  utxo_total :: int
  distribution :: "(string \<times> int) list"

datatype settings_task =
    UtxosAwait nat
  | PhraseCheck "string list"              \<comment> \<open>the id of the wallet of a recovery phrase\<close>
  | FieldUpdate string                     \<comment> \<open>the backend changes a wallet\<close>
  | FieldPatched
  | PasswordUpdate
  | FileExport

datatype settings_effect =
    ChangePassword string string string bool
  | ChangeWallet string string bool        \<comment> \<open>id, name, legacy\<close>
  | ExportFile string string
  | CloseDialog
  | RefreshTheWallets
  | PatchWallet string wallet
  | StoreVerification string int "string list"     \<comment> \<open>the wallet, the date, and the phrase that was entered\<close>
  | StoreShowUsed string bool

record wallet_settings =
  walletFieldBeingEdited :: "string option"
  lastUpdatedWalletField :: "string option"
  walletUtxos :: "wallet_utxos option"
  recoveryPhraseStep :: nat
  pollingApiInterval :: "nat option"
  utxo_timers :: "nat list"
  utxo_next :: nat
  getWalletUtxosRequest :: "(string \<times> bool, wallet_utxos, thrown) request"
  settings_active :: "wallet option"
  settings_locals :: locals
  settings_tasks :: "settings_task list"
  settings_effects :: "settings_effect list"

definition new_WalletSettingsStore :: wallet_settings where
  "new_WalletSettingsStore = \<lparr>walletFieldBeingEdited = None, lastUpdatedWalletField = None, walletUtxos = None,
     recoveryPhraseStep = 0, pollingApiInterval = None, utxo_timers = [], utxo_next = 0,
     getWalletUtxosRequest = new_request PlainRequest, settings_active = None, settings_locals = [],
     settings_tasks = [], settings_effects = []\<rparr>"

definition se_task :: "settings_task \<Rightarrow> wallet_settings \<Rightarrow> wallet_settings" where
  "se_task t s = s\<lparr>settings_tasks := settings_tasks s @ [t]\<rparr>"

definition se_emit :: "settings_effect \<Rightarrow> wallet_settings \<Rightarrow> wallet_settings" where
  "se_emit x s = s\<lparr>settings_effects := settings_effects s @ [x]\<rparr>"

text \<open>Editing a field; an empty name of a field counts as none.\<close>

definition startEditingWalletField :: "string \<Rightarrow> wallet_settings \<Rightarrow> wallet_settings" where
  "startEditingWalletField name s = s\<lparr>walletFieldBeingEdited := Some name\<rparr>"

definition is_field :: "string option \<Rightarrow> bool" where
  "is_field f \<longleftrightarrow> f \<noteq> None \<and> f \<noteq> Some []"

definition stopEditingWalletField :: "wallet_settings \<Rightarrow> wallet_settings" where
  "stopEditingWalletField s =
     (let s1 = (if is_field (walletFieldBeingEdited s) then s\<lparr>lastUpdatedWalletField := walletFieldBeingEdited s\<rparr> else s)
      in s1\<lparr>walletFieldBeingEdited := None\<rparr>)"

definition cancelEditingWalletField :: "wallet_settings \<Rightarrow> wallet_settings" where
  "cancelEditingWalletField s = s\<lparr>lastUpdatedWalletField := None, walletFieldBeingEdited := None\<rparr>"

definition updateSpendingPassword :: "string \<Rightarrow> string \<Rightarrow> string \<Rightarrow> bool \<Rightarrow> wallet_settings \<Rightarrow> wallet_settings" where
  "updateSpendingPassword walletId old new legacy s = se_task PasswordUpdate (se_emit (ChangePassword walletId old new legacy) s)"

text \<open>Any field can be given; only the id, the name and whether the wallet is old are sent.\<close>

definition updateWalletField :: "string \<Rightarrow> string \<Rightarrow> wallet_settings \<Rightarrow> wallet_settings" where
  "updateWalletField property v s = (case settings_active s of None \<Rightarrow> s
     | Some w \<Rightarrow>
         (let walletId = (if property = ''walletId'' then v else wallet_id w);
              name = (if property = ''name'' then v else wallet_name w);
              legacy = (if property = ''isLegacy'' then v \<noteq> [] else isLegacy w)
          in se_task (FieldUpdate (wallet_id w)) (se_emit (ChangeWallet walletId name legacy) s)))"

definition exportToFile :: "string \<Rightarrow> string \<Rightarrow> wallet_settings \<Rightarrow> wallet_settings" where
  "exportToFile walletId filePath s = se_task FileExport (se_emit (ExportFile walletId filePath) s)"

text \<open>
  The polling of the unspent outputs. A tick that finds the request waiting sends nothing, and waits for the answer to the call
  under way.
\<close>

definition clearWalletUtxoPollingInterval :: "wallet_settings \<Rightarrow> wallet_settings" where
  "clearWalletUtxoPollingInterval s = (case pollingApiInterval s of None \<Rightarrow> s
     | Some i \<Rightarrow> s\<lparr>utxo_timers := filter (\<lambda>t. t \<noteq> i) (utxo_timers s), pollingApiInterval := None\<rparr>)"

definition getWalletUtxoApiData :: "wallet_settings \<Rightarrow> wallet_settings" where
  "getWalletUtxoApiData s = (case settings_active s of None \<Rightarrow> s
     | Some w \<Rightarrow>
         (let r = execute (wallet_id w, isLegacy w) (getWalletUtxosRequest s)
          in se_task (UtxosAwait (flight_of r)) (s\<lparr>getWalletUtxosRequest := r\<rparr>)))"

definition startWalletUtxoPolling :: "wallet_settings \<Rightarrow> wallet_settings" where
  "startWalletUtxoPolling s =
     (let s1 = getWalletUtxoApiData (clearWalletUtxoPollingInterval s)
      in s1\<lparr>pollingApiInterval := Some (utxo_next s1), utxo_timers := utxo_timers s1 @ [utxo_next s1],
            utxo_next := Suc (utxo_next s1)\<rparr>)"

definition stopWalletUtxoPolling :: "wallet_settings \<Rightarrow> wallet_settings" where
  "stopWalletUtxoPolling s = (let s1 = clearWalletUtxoPollingInterval s
     in s1\<lparr>getWalletUtxosRequest := reset (getWalletUtxosRequest s1)\<rparr>)"

definition updateWalletUtxos :: "wallet_utxos option \<Rightarrow> wallet_settings \<Rightarrow> wallet_settings" where
  "updateWalletUtxos u s = s\<lparr>walletUtxos := u\<rparr>"

text \<open>The dialog of the recovery phrase.\<close>

definition recoveryPhraseVerificationContinue :: "wallet_settings \<Rightarrow> wallet_settings" where
  "recoveryPhraseVerificationContinue s =
     (if recoveryPhraseStep s = 4 then s\<lparr>recoveryPhraseStep := 2\<rparr> else s\<lparr>recoveryPhraseStep := recoveryPhraseStep s + 1\<rparr>)"

definition recoveryPhraseVerificationClose :: "wallet_settings \<Rightarrow> wallet_settings" where
  "recoveryPhraseVerificationClose s = s\<lparr>recoveryPhraseStep := 0\<rparr>"

text \<open>
  The main process derives the id of the wallet of a phrase with the libraries for the two kinds of wallets, parameters here; an
  error gives the empty text.
\<close>

definition getRecoveryWalletId :: "(string list \<Rightarrow> string option) \<Rightarrow> (string list \<Rightarrow> string option) \<Rightarrow> string list \<Rightarrow> string" where
  "getRecoveryWalletId cole icarus recoveryPhrase =
     (case (if length recoveryPhrase = 12 then cole recoveryPhrase else icarus recoveryPhrase) of
        None \<Rightarrow> [] | Some i \<Rightarrow> i)"

definition recoveryPhraseVerificationCheck :: "string list \<Rightarrow> wallet_settings \<Rightarrow> wallet_settings" where
  "recoveryPhraseVerificationCheck phrase s = se_task (PhraseCheck phrase) s"

text \<open>The id has arrived; an empty one, which also an error in the main process gives, throws.\<close>

definition phraseChecked :: "string list \<Rightarrow> int \<Rightarrow> string \<Rightarrow> wallet_settings \<Rightarrow> wallet_settings" where
  "phraseChecked phrase now walletId s =
     (if walletId = [] then s
      else case settings_active s of None \<Rightarrow> s
      | Some w \<Rightarrow>
          if walletId = getRawWalletId (wallet_id w)
          then (se_emit (StoreVerification (wallet_id w) now phrase) s)\<lparr>recoveryPhraseStep := 3\<rparr>
          else s\<lparr>recoveryPhraseStep := 4\<rparr>)"

definition toggleShowUsedAddresses :: "wallet_settings \<Rightarrow> wallet_settings" where
  "toggleShowUsedAddresses s = (case settings_active s of None \<Rightarrow> s
     | Some w \<Rightarrow>
         (let shown = Option.bind (map_of (settings_locals s) (wallet_id w)) showUsedAddresses
          in se_emit (StoreShowUsed (wallet_id w) (shown \<noteq> Some True)) s))"

datatype settings_answer =
    UtxosSettled
  | PhraseId int
  | UpdatedWallet "wallet option"
  | PatchDone
  | SettingsDone
  | SettingsFailed

datatype settings_event =
    StartEditing string | StopEditing | CancelEditing
  | UpdateField string string
  | UpdatePassword string string string bool
  | ExportToFile string string
  | StartUtxoPolling | StopUtxoPolling | UtxoTimer
  | UtxosRequestEvent "(string \<times> bool, wallet_utxos, thrown) request_event"
  | PhraseContinue | PhraseClose | PhraseEntered "string list"
  | ToggleShowUsed
  | WalletSelected "wallet option"
  | LocalsRead locals
  | SettingsAnswer nat settings_answer

definition answer_settings :: "(string list \<Rightarrow> string) \<Rightarrow> nat \<Rightarrow> settings_answer \<Rightarrow> wallet_settings \<Rightarrow> wallet_settings" where
  "answer_settings wallet_id_of k a s =
     (if k < length (settings_tasks s) then
        (let s1 = s\<lparr>settings_tasks := remove_nth k (settings_tasks s)\<rparr>
         in case (settings_tasks s ! k, a) of
              (UtxosAwait n, UtxosSettled) \<Rightarrow>
                (case outcome_of n (getWalletUtxosRequest s) of
                   None \<Rightarrow> s | Some (Inl e) \<Rightarrow> s1 | Some (Inr u) \<Rightarrow> updateWalletUtxos (Some u) s1)
            | (PhraseCheck p, PhraseId now) \<Rightarrow> phraseChecked p now (wallet_id_of p) s1
            | (PhraseCheck p, SettingsFailed) \<Rightarrow> s1
            | (FieldUpdate w, UpdatedWallet None) \<Rightarrow> s1
            | (FieldUpdate w, UpdatedWallet (Some x)) \<Rightarrow> se_task FieldPatched (se_emit (PatchWallet w x) s1)
            | (FieldUpdate w, SettingsFailed) \<Rightarrow> s1
            | (FieldPatched, PatchDone) \<Rightarrow> se_emit RefreshTheWallets s1
            | (PasswordUpdate, SettingsDone) \<Rightarrow> se_emit RefreshTheWallets (se_emit CloseDialog s1)
            | (PasswordUpdate, SettingsFailed) \<Rightarrow> s1
            | (FileExport, SettingsDone) \<Rightarrow> se_emit CloseDialog s1
            | (FileExport, SettingsFailed) \<Rightarrow> s1
            | _ \<Rightarrow> s)
      else s)"

text \<open>\<open>WalletSelected\<close> is the action of the sidebar, after which the selected wallet is another.\<close>

definition settings_step :: "(string list \<Rightarrow> string) \<Rightarrow> wallet_settings \<Rightarrow> settings_event \<Rightarrow> wallet_settings" where
  "settings_step wallet_id_of s ev = (case ev of
       StartEditing f \<Rightarrow> startEditingWalletField f s
     | StopEditing \<Rightarrow> stopEditingWalletField s
     | CancelEditing \<Rightarrow> cancelEditingWalletField s
     | UpdateField f v \<Rightarrow> updateWalletField f v s
     | UpdatePassword w p q l \<Rightarrow> updateSpendingPassword w p q l s
     | ExportToFile w f \<Rightarrow> exportToFile w f s
     | StartUtxoPolling \<Rightarrow> startWalletUtxoPolling s
     | StopUtxoPolling \<Rightarrow> stopWalletUtxoPolling s
     | UtxoTimer \<Rightarrow> if utxo_timers s \<noteq> [] then getWalletUtxoApiData s else s
     | UtxosRequestEvent e \<Rightarrow> (if environment_event e
         then s\<lparr>getWalletUtxosRequest := request_step (getWalletUtxosRequest s) e\<rparr> else s)
     | PhraseContinue \<Rightarrow> recoveryPhraseVerificationContinue s
     | PhraseClose \<Rightarrow> recoveryPhraseVerificationClose s
     | PhraseEntered p \<Rightarrow> recoveryPhraseVerificationCheck p s
     | ToggleShowUsed \<Rightarrow> toggleShowUsedAddresses s
     | WalletSelected w \<Rightarrow> (updateWalletUtxos None s)\<lparr>settings_active := w\<rparr>
     | LocalsRead d \<Rightarrow> s\<lparr>settings_locals := d\<rparr>
     | SettingsAnswer k a \<Rightarrow> answer_settings wallet_id_of k a s)"

definition walletsRecoveryPhraseVerificationData ::
  "(int \<Rightarrow> int \<Rightarrow> int) \<Rightarrow> int \<Rightarrow> locals \<Rightarrow> (string \<times> verification_status \<times> verification_type \<times> bool) list" where
  "walletsRecoveryPhraseVerificationData days now ls = foldl (\<lambda>obj (key, d).
     let (status, type) = getStatusFromWalletData days now (creationDate d) (recoveryPhraseVerificationDate d)
     in AList.update (ld_id d) (status, type, status = StatusNotification) obj) [] ls"

subsection \<open>One poller of the outputs\<close>

definition utxo_poller_ok :: "wallet_settings \<Rightarrow> bool" where
  "utxo_poller_ok s \<longleftrightarrow> utxo_timers s = (case pollingApiInterval s of None \<Rightarrow> [] | Some i \<Rightarrow> [i])"

definition same_poller :: "wallet_settings \<Rightarrow> wallet_settings \<Rightarrow> bool" where
  "same_poller s s' \<longleftrightarrow> utxo_timers s' = utxo_timers s \<and> pollingApiInterval s' = pollingApiInterval s"

lemma same_poller_ops [simp]:
  "same_poller s s" "same_poller s (startEditingWalletField f s)" "same_poller s (stopEditingWalletField s)"
  "same_poller s (cancelEditingWalletField s)" "same_poller s (updateWalletField f v s)"
  "same_poller s (updateSpendingPassword w p q l s)" "same_poller s (exportToFile w f s)"
  "same_poller s (getWalletUtxoApiData s)" "same_poller s (recoveryPhraseVerificationContinue s)"
  "same_poller s (recoveryPhraseVerificationClose s)" "same_poller s (recoveryPhraseVerificationCheck ph s)"
  "same_poller s (toggleShowUsedAddresses s)" "same_poller s (phraseChecked ph now i s)"
  by (simp_all add: same_poller_def startEditingWalletField_def stopEditingWalletField_def cancelEditingWalletField_def
      updateWalletField_def updateSpendingPassword_def exportToFile_def getWalletUtxoApiData_def
      recoveryPhraseVerificationContinue_def recoveryPhraseVerificationClose_def recoveryPhraseVerificationCheck_def
      toggleShowUsedAddresses_def phraseChecked_def se_task_def se_emit_def Let_def split: option.split)

lemma same_poller_ok: "same_poller s s' \<Longrightarrow> utxo_poller_ok s \<Longrightarrow> utxo_poller_ok s'"
  by (simp add: same_poller_def utxo_poller_ok_def)

lemma same_poller_answer: "same_poller s (answer_settings wid k a s)"
proof (cases "k < length (settings_tasks s)")
  case True
  show ?thesis
    by (cases "settings_tasks s ! k"; cases a)
      (auto simp: answer_settings_def phraseChecked_def Let_def same_poller_def updateWalletUtxos_def se_task_def se_emit_def
        split: option.split sum.split)
qed (simp add: answer_settings_def)

lemma utxo_poller_step: "utxo_poller_ok s \<Longrightarrow> utxo_poller_ok (settings_step wid s ev)"
proof (cases ev)
  case StartUtxoPolling
  have "utxo_timers (getWalletUtxoApiData t) = utxo_timers t" "pollingApiInterval (getWalletUtxoApiData t) = pollingApiInterval t" for t
    using same_poller_ops(8) [of t] by (simp_all add: same_poller_def)
  then show "utxo_poller_ok s \<Longrightarrow> ?thesis" using StartUtxoPolling
    by (auto simp: settings_step_def startWalletUtxoPolling_def clearWalletUtxoPollingInterval_def utxo_poller_ok_def Let_def
        split: option.splits)
next
  case StopUtxoPolling
  then show "utxo_poller_ok s \<Longrightarrow> ?thesis"
    by (auto simp: settings_step_def stopWalletUtxoPolling_def clearWalletUtxoPollingInterval_def utxo_poller_ok_def Let_def
        split: option.splits)
next
  case (SettingsAnswer k a)
  then show "utxo_poller_ok s \<Longrightarrow> ?thesis" using same_poller_ok [OF same_poller_answer] by (simp add: settings_step_def)
qed (use same_poller_ops same_poller_ok in \<open>auto simp: settings_step_def utxo_poller_ok_def same_poller_def updateWalletUtxos_def\<close>)

interpretation utxo_poller: machine "settings_step wid" utxo_poller_ok for wid
  by unfold_locales (rule utxo_poller_step)

text \<open>
  The unspent outputs are polled by at most one timer, which the store can clear: however often the polling is started, a stop
  ends it.
\<close>

theorem one_utxo_poller:
  "length (utxo_timers (run (settings_step wid) new_WalletSettingsStore es)) \<le> 1
   \<and> utxo_timers (run (settings_step wid) new_WalletSettingsStore (es @ [StopUtxoPolling])) = []"
proof -
  have "utxo_poller_ok new_WalletSettingsStore" by (simp add: utxo_poller_ok_def new_WalletSettingsStore_def)
  then have ok: "utxo_poller_ok (run (settings_step wid) new_WalletSettingsStore es)" for es by (rule utxo_poller.run_inv)
  from ok [of es] show ?thesis
    by (auto simp: utxo_poller_ok_def settings_step_def stopWalletUtxoPolling_def clearWalletUtxoPollingInterval_def Let_def
        split: option.splits)
qed

text \<open>
  Outputs that arrive late are shown for the wrong wallet. Whatever wallet is selected while an answer is awaited, the outputs it
  brings are shown as those of that wallet; also after the polling was stopped.
\<close>

theorem late_utxos_are_shown_for_another_wallet:
  assumes "k < length (settings_tasks s)" and "settings_tasks s ! k = UtxosAwait n"
    and "outcome_of n (getWalletUtxosRequest s) = Some (Inr u)"
  shows "walletUtxos (run (settings_step wid) s [WalletSelected w, SettingsAnswer k UtxosSettled]) = Some u
     \<and> settings_active (run (settings_step wid) s [WalletSelected w, SettingsAnswer k UtxosSettled]) = w
     \<and> walletUtxos (run (settings_step wid) s [StopUtxoPolling, WalletSelected w, SettingsAnswer k UtxosSettled]) = Some u"
proof -
  have "outcome_of n (reset r) = outcome_of n r" for r :: "(string \<times> bool, wallet_utxos, thrown) request"
    by (simp add: outcome_of_def reset_def)
  then show ?thesis using assms
    by (simp add: settings_step_def answer_settings_def updateWalletUtxos_def stopWalletUtxoPolling_def
        clearWalletUtxoPollingInterval_def Let_def split: option.split)
qed

subsection \<open>The verification of the recovery phrase\<close>

fun verified_with :: "(string list \<Rightarrow> string) \<Rightarrow> settings_effect \<Rightarrow> bool" where
  "verified_with wid (StoreVerification w now p) \<longleftrightarrow> wid p \<noteq> [] \<and> wid p = getRawWalletId w"
| "verified_with wid _ \<longleftrightarrow> True"

definition verifications_ok :: "(string list \<Rightarrow> string) \<Rightarrow> wallet_settings \<Rightarrow> bool" where
  "verifications_ok wid s \<longleftrightarrow> (\<forall>x \<in> set (settings_effects s). verified_with wid x)"

lemma verifications_step: "verifications_ok wid s \<Longrightarrow> verifications_ok wid (settings_step wid s ev)"
proof (cases ev)
  case (SettingsAnswer k a)
  then show "verifications_ok wid s \<Longrightarrow> ?thesis"
    by (cases "settings_tasks s ! k"; cases a)
      (auto simp: settings_step_def answer_settings_def verifications_ok_def Let_def updateWalletUtxos_def se_task_def se_emit_def
        phraseChecked_def split: option.split sum.split)
qed (auto simp: settings_step_def verifications_ok_def startEditingWalletField_def stopEditingWalletField_def
       cancelEditingWalletField_def updateWalletField_def updateSpendingPassword_def exportToFile_def getWalletUtxoApiData_def
       recoveryPhraseVerificationContinue_def recoveryPhraseVerificationClose_def recoveryPhraseVerificationCheck_def
       toggleShowUsedAddresses_def startWalletUtxoPolling_def stopWalletUtxoPolling_def clearWalletUtxoPollingInterval_def
       updateWalletUtxos_def se_task_def se_emit_def Let_def split: option.splits)

interpretation verifications: machine "settings_step wid" "verifications_ok wid" for wid
  by unfold_locales (rule verifications_step)

text \<open>
  C21. A wallet's phrase counts as verified only if it is the wallet's. In every run, whenever the date of a verification is stored for a
  wallet, a phrase was entered whose wallet is this very wallet, also when another wallet was selected meanwhile.
\<close>

theorem verified_with_the_right_phrase:
  assumes "StoreVerification w now p \<in> set (settings_effects (run (settings_step wid) new_WalletSettingsStore es))"
  shows "wid p \<noteq> [] \<and> wid p = getRawWalletId w"
proof -
  have "verifications_ok wid new_WalletSettingsStore" by (simp add: verifications_ok_def new_WalletSettingsStore_def)
  then have "verifications_ok wid (run (settings_step wid) new_WalletSettingsStore es)" by (rule verifications.run_inv)
  with assms have "verified_with wid (StoreVerification w now p)" unfolding verifications_ok_def by blast
  then show ?thesis by auto
qed

text \<open>A check that is answered after the dialog was closed opens it again; one whose id cannot be derived leaves it as it is.\<close>

lemma late_check_reopens_the_dialog:
  assumes "settings_tasks s = [PhraseCheck p]" and "settings_active s = Some w" and "wid p \<noteq> []"
  shows "recoveryPhraseStep (run (settings_step wid) s [PhraseClose, SettingsAnswer 0 (PhraseId now)]) \<in> {3, 4}"
  using assms by (simp add: settings_step_def recoveryPhraseVerificationClose_def answer_settings_def phraseChecked_def
      remove_nth_def se_emit_def Let_def)

lemma underivable_phrase_shows_nothing: "phraseChecked p now [] s = s"
  by (simp add: phraseChecked_def)

text \<open>How urgent a status is. For wallets of one kind it only grows with the days.\<close>

fun urgency :: "verification_status \<Rightarrow> nat" where
  "urgency StatusOk = 0" | "urgency OkTimeUntil = 0" | "urgency OkFewMonths = 1" | "urgency OkFewWeeks = 2"
| "urgency OkFewDays = 3" | "urgency StatusWarning = 4" | "urgency StatusNotification = 5"

definition days_since :: "(int \<Rightarrow> int \<Rightarrow> int) \<Rightarrow> int \<Rightarrow> int option \<Rightarrow> int option \<Rightarrow> int" where
  "days_since days now creation verified = days now (default (default now creation) verified)"

theorem status_grows_with_the_days:
  assumes "(verified = None) = (verified' = None)" and "days_since days now creation verified \<le> days_since days now' creation' verified'"
  shows "urgency (fst (getStatusFromWalletData days now creation verified))
       \<le> urgency (fst (getStatusFromWalletData days now' creation' verified'))
     \<and> (fst (getStatusFromWalletData days now creation verified) = StatusNotification
         \<longleftrightarrow> days_since days now creation verified > 365)
     \<and> (snd (getStatusFromWalletData days now creation verified) = AlreadyVerified \<longleftrightarrow> verified \<noteq> None)"
proof -
  have s: "getStatusFromWalletData days now creation verified =
      (let n = days_since days now creation verified in
       (if n > 365 then StatusNotification else if n > 183 then StatusWarning else if verified \<noteq> None then StatusOk
        else if n > 176 then OkFewDays else if n > 153 then OkFewWeeks else if n > 91 then OkFewMonths else OkTimeUntil,
        if verified \<noteq> None then AlreadyVerified else NeverVerified))" for now creation verified
    by (simp add: getStatusFromWalletData_def days_since_def default_def Let_def notification_days_def warning_days_def
        okFewDays_def okFewWeeks_def okFewMonths_def split: option.split)
  show ?thesis using assms unfolding s Let_def by auto
qed

section \<open>Examples\<close>

theorem status_grows_with_the_days_witness:
  "urgency (fst (getStatusFromWalletData (-) 200 (Some 0) None)) \<le> urgency (fst (getStatusFromWalletData (-) 400 (Some 0) None))"
  using status_grows_with_the_days [of None None "(-)" 200 "Some 0" 400 "Some 0"] by (simp add: days_since_def default_def)

definition example_locals :: locals_store where
  "example_locals = run local_step (setup_locals [''v'', ''w''] [(''v'', \<lparr>ld_id = ''v'', creationDate = Some 7,
     recoveryPhraseVerificationDate = None, showUsedAddresses = None\<rparr>)]) [ReadTick, ReadPerformed 0, ReadTick]"

definition shown_used :: local_update where
  "shown_used = no_update\<lparr>new_showUsedAddresses := Some True\<rparr>"

theorem creation_date_is_kept_witness:
  "created_on ''v'' 7 (run local_step example_locals
     [RefreshLocals, SetPerformed 0 9, SetTick, SetTick, LocalTask 0, SetLocal ''v'' shown_used True, SetPerformed 1 10])"
proof -
  have "created_on ''v'' 7 example_locals" by code_simp
  moreover have "unsetWalletLocalDataRequest example_locals = new_request PlainRequest"
    by (simp add: example_locals_def setup_locals_def readLocals_def local_step_def)
  ultimately show ?thesis by (intro creation_date_is_kept) simp_all
qed

lemma example_writing:
  "isWaitingForResponse (setWalletLocalDataRequest (local_step example_locals RefreshLocals))"
  "cls (setWalletLocalDataRequest (local_step example_locals RefreshLocals)) = PlainRequest"
  by code_simp+

theorem concurrent_write_is_lost_witness:
  "map_of (stored_locals (run local_step (local_step example_locals RefreshLocals)
     [SetLocal ''v'' shown_used False, SetPerformed 0 9, SetTick, SetTick, SetPerformed 1 9])) ''v''
   = Some \<lparr>ld_id = ''v'', creationDate = Some 7, recoveryPhraseVerificationDate = None, showUsedAddresses = None\<rparr>"
proof -
  have "map_of (stored_locals (run local_step (local_step example_locals RefreshLocals)
      [SetPerformed 0 9, SetTick, SetTick, SetPerformed 1 9])) ''v''
    = Some \<lparr>ld_id = ''v'', creationDate = Some 7, recoveryPhraseVerificationDate = None, showUsedAddresses = None\<rparr>"
    by code_simp
  with concurrent_write_is_lost [OF example_writing, of "[SetPerformed 0 9, SetTick, SetTick, SetPerformed 1 9]"]
  show ?thesis by simp
qed

definition example_polling :: wallet_settings where
  "example_polling = run (settings_step concat) new_WalletSettingsStore [WalletSelected (Some (example_wallet ''v'')), StartUtxoPolling,
     UtxosRequestEvent (Respond 0 (Inr \<lparr>utxo_total = 5, distribution = []\<rparr>)), UtxosRequestEvent Tick, UtxosRequestEvent Tick]"

theorem late_utxos_are_shown_for_another_wallet_witness:
  "walletUtxos (run (settings_step concat) example_polling [WalletSelected (Some (example_wallet ''w'')), SettingsAnswer 0 UtxosSettled])
     = Some \<lparr>utxo_total = 5, distribution = []\<rparr>"
proof -
  have "0 < length (settings_tasks example_polling)" "settings_tasks example_polling ! 0 = UtxosAwait 0"
    "outcome_of 0 (getWalletUtxosRequest example_polling) = Some (Inr \<lparr>utxo_total = 5, distribution = []\<rparr>)"
    by code_simp+
  from late_utxos_are_shown_for_another_wallet [OF this] show ?thesis by blast
qed

theorem verified_with_the_right_phrase_witness:
  "concat [''ab'', ''c''] = getRawWalletId ''abc''"
proof -
  have "StoreVerification ''abc'' 3 [''ab'', ''c''] \<in> set (settings_effects (run (settings_step concat) new_WalletSettingsStore
      [WalletSelected (Some (example_wallet ''abc'')), PhraseContinue, PhraseContinue, PhraseEntered [''ab'', ''c''],
       SettingsAnswer 0 (PhraseId 3)]))"
    by code_simp
  from verified_with_the_right_phrase [OF this] show ?thesis by blast
qed

end
