(* ===== verification/HardwareChannel.thy ===== *)
theory HardwareChannel imports Prelude begin

text \<open>
  The side of the hardware wallets in the main process, \<open>main/ipc/getHardwareWalletChannel.js\<close>: the memo of the connected Ledgers,
  kept by the observer of the USB devices and by the handlers of the requests, each handler split at its awaits. The handlers share
  one variable, \<open>deviceConnection\<close>, which is looked at again after an await. The USB and device libraries are outside: their
  answers are events.
\<close>

section \<open>Devices and connections\<close>

record usb_device =
  device_path :: string
  productId :: nat

record device_model =
  model_id :: string
  productName :: string

text \<open>
  An open connection, with the path of the device it really leads to; \<open>TransportNodeHid.create\<close> picks a device itself, \<open>open\<close> is
  given the path.
\<close>

record connection =
  leads_to :: string
  picked :: bool
  connection_model :: "device_model option"

record memo_entry =
  entry_device :: "usb_device option"
  entry_connection :: nat

record chan_error =
  err_code :: string
  err_name :: string
  err_message :: string
  err_path :: "string option"

definition thrown_error :: "string \<Rightarrow> chan_error" where
  "thrown_error m = \<lparr>err_code = [], err_name = ''Error'', err_message = m, err_path = None\<rparr>"

definition thrown_code :: "string \<Rightarrow> string option \<Rightarrow> chan_error" where
  "thrown_code c p = \<lparr>err_code = c, err_name = [], err_message = [], err_path = p\<rparr>"

definition type_error :: chan_error where
  "type_error = \<lparr>err_code = [], err_name = ''TypeError'', err_message = [], err_path = None\<rparr>"

section \<open>State\<close>

record address_request =
  ar_path :: "string option"
  ar_isTrezor :: bool
  ar_spendingPath :: string
  ar_stakingPath :: "string option"

datatype ledger_call =
    GetVersion
  | GetSerial
  | GetExtendedPublicKey string
  | DeriveAddress string "string option"
  | ShowAddress string "string option"
  | SignTransaction string

datatype trezor_call =
    GetFeatures
  | BccGetPublicKey string
  | BccGetAddress string "string option"
  | BccSignTransaction string
  | TrezorInit
  | TrezorCancel

text \<open>What is awaited; requests of the renderer have numbers.\<close>

datatype chan_task =
    NextListed bool usb_device device_model          \<comment> \<open>the observer: whether the device was added\<close>
  | NextOpened usb_device device_model
  | TransportFeatures nat "string option"            \<comment> \<open>a Trezor's features\<close>
  | TransportListed nat "string option"
  | TransportCreated nat "string option"
  | CreatedListed nat "string option" nat
  | VersionAsked nat string
  | SerialAsked nat string "nat \<times> nat \<times> nat"
  | RecoverListed nat string chan_error "memo_entry option"
  | RecoverOpened nat string string chan_error "memo_entry option"
  | KeyAsked nat
  | KeySerialAsked nat "string \<times> string"
  | TrezorKeyFeatures nat string "string option"
  | TrezorKeyAsked nat
  | TrezorAddressAsked nat
  | LedgerAddressAsked nat
  | ShowAsked nat
  | SignAsked nat
  | TrezorSignAsked nat

record device_info =
  info_deviceId :: "string option"
  info_deviceType :: string
  info_deviceModel :: "string option"
  info_deviceName :: "string option"
  info_path :: "string option"
  info_firmware :: "string option"

datatype response =
    TransportResponse device_info
  | AppResponse "nat \<times> nat \<times> nat" string
  | KeyResponse string string "string option"
  | AddressResponse "string option"
  | ShownResponse
  | SignedResponse string

record connection_message =
  msg_disconnected :: bool
  msg_deviceType :: string
  msg_deviceId :: "string option"
  msg_model :: "string option"
  msg_name :: "string option"
  msg_path :: "string option"
  msg_eventType :: "string option"

datatype chan_effect =
    Responded nat "chan_error + response"
  | SentConnection connection_message
  | SentError string                                \<comment> \<open>the payload of a transport error, without a type of device\<close>
  | AskLedger nat nat ledger_call                   \<comment> \<open>request, connection\<close>
  | AskTrezor "string option" trezor_call
  | ListenToDevices

record hw_channel =
  devicesMemo :: "string \<rightharpoonup> memo_entry"
  deviceConnection :: "nat option"
  connections :: "connection list"
  observing :: bool
  trezor_listening :: bool
  chan_tasks :: "chan_task list"
  chan_effects :: "chan_effect list"

definition new_channel :: hw_channel where
  "new_channel = \<lparr>devicesMemo = Map.empty, deviceConnection = None, connections = [], observing = False,
     trezor_listening = False, chan_tasks = [], chan_effects = []\<rparr>"

definition ch_task :: "chan_task \<Rightarrow> hw_channel \<Rightarrow> hw_channel" where
  "ch_task t s = s\<lparr>chan_tasks := chan_tasks s @ [t]\<rparr>"

definition ch_emit :: "chan_effect \<Rightarrow> hw_channel \<Rightarrow> hw_channel" where
  "ch_emit x s = s\<lparr>chan_effects := chan_effects s @ [x]\<rparr>"

definition respond :: "nat \<Rightarrow> chan_error + response \<Rightarrow> hw_channel \<Rightarrow> hw_channel" where
  "respond n r s = ch_emit (Responded n r) s"

definition add_connection :: "connection \<Rightarrow> hw_channel \<Rightarrow> nat \<times> hw_channel" where
  "add_connection c s = (length (connections s), s\<lparr>connections := connections s @ [c]\<rparr>)"

text \<open>\<open>get(devicesMemo, [devicePath, 'BccConnection'])\<close>.\<close>

definition memo_connection :: "string option \<Rightarrow> hw_channel \<Rightarrow> nat option" where
  "memo_connection p s = map_option entry_connection (Option.bind p (devicesMemo s))"

text \<open>A call of the shared connection; a property of \<open>null\<close> throws.\<close>

definition ask_shared :: "nat \<Rightarrow> ledger_call \<Rightarrow> chan_task \<Rightarrow> chan_error \<Rightarrow> hw_channel \<Rightarrow> hw_channel" where
  "ask_shared n call t e s = (case deviceConnection s of
       None \<Rightarrow> respond n (Inl e) s
     | Some c \<Rightarrow> ch_task t (ch_emit (AskLedger n c call) s))"

section \<open>The observer of the USB devices\<close>

datatype usb_event = DeviceAdded | DeviceRemoved | DeviceOther

definition ledger_message :: "bool \<Rightarrow> usb_device \<Rightarrow> device_model \<Rightarrow> connection_message" where
  "ledger_message disconnected d m = \<lparr>msg_disconnected = disconnected, msg_deviceType = ''ledger'', msg_deviceId = None,
     msg_model = Some (model_id m), msg_name = Some (productName m), msg_path = Some (device_path d), msg_eventType = None\<rparr>"

text \<open>\<open>next\<close> lists the devices before anything else; only devices that come or go count.\<close>

definition observer_next :: "usb_event \<Rightarrow> usb_device \<Rightarrow> device_model \<Rightarrow> hw_channel \<Rightarrow> hw_channel" where
  "observer_next ev d m s = (case ev of
       DeviceOther \<Rightarrow> s
     | DeviceAdded \<Rightarrow> ch_task (NextListed True d m) s
     | DeviceRemoved \<Rightarrow> ch_task (NextListed False d m) s)"

definition next_listed :: "bool \<Rightarrow> usb_device \<Rightarrow> device_model \<Rightarrow> hw_channel \<Rightarrow> hw_channel" where
  "next_listed added d m s =
     (if added then (if devicesMemo s (device_path d) = None then ch_task (NextOpened d m) s else s)
      else ch_emit (SentConnection (ledger_message True d m)) (s\<lparr>devicesMemo := (devicesMemo s)(device_path d := None)\<rparr>))"

definition next_opened :: "usb_device \<Rightarrow> device_model \<Rightarrow> device_model option \<Rightarrow> hw_channel \<Rightarrow> hw_channel" where
  "next_opened d m cm s =
     (let (c, s1) = add_connection \<lparr>leads_to = device_path d, picked = False, connection_model = cm\<rparr> s
      in ch_emit (SentConnection (ledger_message False d m))
           (s1\<lparr>devicesMemo := (devicesMemo s1)(device_path d \<mapsto> \<lparr>entry_device = Some d, entry_connection = c\<rparr>)\<rparr>))"

section \<open>The handlers\<close>

definition trezor_info :: "string option \<Rightarrow> string option \<Rightarrow> string option \<Rightarrow> string option \<Rightarrow> string \<Rightarrow> device_info" where
  "trezor_info i model label p firmware = \<lparr>info_deviceId = i, info_deviceType = ''trezor'', info_deviceModel = model,
     info_deviceName = label, info_path = p, info_firmware = Some firmware\<rparr>"

definition getTransport :: "nat \<Rightarrow> bool \<Rightarrow> string option \<Rightarrow> hw_channel \<Rightarrow> hw_channel" where
  "getTransport n isTrezor devicePath s =
     (if isTrezor then ch_task (TransportFeatures n devicePath) (ch_emit (AskTrezor devicePath GetFeatures) s)
      else ch_task (TransportListed n devicePath) s)"

text \<open>The end of the Ledger's case: the model of the connection that was found.\<close>

definition transport_found :: "nat \<Rightarrow> nat \<Rightarrow> string option \<Rightarrow> hw_channel \<Rightarrow> hw_channel" where
  "transport_found n c p s = (case connection_model (connections s ! c) of
       None \<Rightarrow> respond n (Inl (thrown_error ''Missing device info'')) s
     | Some m \<Rightarrow> respond n (Inr (TransportResponse \<lparr>info_deviceId = None, info_deviceType = ''ledger'',
         info_deviceModel = Some (model_id m), info_deviceName = Some (productName m), info_path = p, info_firmware = None\<rparr>)) s)"

definition or_path :: "string option \<Rightarrow> string option \<Rightarrow> string option" where
  "or_path p q = (if p \<noteq> None \<and> p \<noteq> Some [] then p else q)"

definition use_entry :: "memo_entry \<Rightarrow> hw_channel \<Rightarrow> hw_channel" where
  "use_entry e s = s\<lparr>deviceConnection := Some (entry_connection e)\<rparr>"

definition transport_listed :: "nat \<Rightarrow> string option \<Rightarrow> string list \<Rightarrow> hw_channel \<Rightarrow> hw_channel" where
  "transport_listed n devicePath paths s =
     (if paths = [] then ch_task (TransportCreated n devicePath) s
      else case (if devicePath \<noteq> Some [] then Option.bind devicePath (devicesMemo s) else None) of
             Some e \<Rightarrow> transport_found n (entry_connection e) devicePath (use_entry e s)
           | None \<Rightarrow>
               (case devicesMemo s (hd paths) of
                  None \<Rightarrow> respond n (Inl (thrown_error ''Device not connected!'')) s
                | Some e \<Rightarrow> transport_found n (entry_connection e) (or_path (Some (hd paths)) devicePath) (use_entry e s)))"

definition transport_created :: "nat \<Rightarrow> string option \<Rightarrow> string \<Rightarrow> device_model option \<Rightarrow> hw_channel \<Rightarrow> hw_channel" where
  "transport_created n devicePath path cm s =
     (let (c, s1) = add_connection \<lparr>leads_to = path, picked = True, connection_model = cm\<rparr> s
      in ch_task (CreatedListed n devicePath c) s1)"

text \<open>The new connection is filed under the last of the paths; without paths the key is the text \<open>undefined\<close>.\<close>

definition created_listed :: "nat \<Rightarrow> string option \<Rightarrow> nat \<Rightarrow> string list \<Rightarrow> usb_device list \<Rightarrow> hw_channel \<Rightarrow> hw_channel" where
  "created_listed n devicePath c paths devices s =
     (let lastConnectedPath = (if paths = [] then None else Some (last paths));
          key = (case lastConnectedPath of None \<Rightarrow> ''undefined'' | Some p \<Rightarrow> p);
          device = find (\<lambda>d. Some (device_path d) = lastConnectedPath) devices;
          s1 = s\<lparr>deviceConnection := Some c,
                 devicesMemo := (devicesMemo s)(key \<mapsto> \<lparr>entry_device = device, entry_connection = c\<rparr>)\<rparr>
      in transport_found n c (or_path lastConnectedPath devicePath) s1)"

definition resetTrezorListeners :: "hw_channel \<Rightarrow> hw_channel" where
  "resetTrezorListeners s = s\<lparr>trezor_listening := True\<rparr>"

definition initTrezorConnect :: "hw_channel \<Rightarrow> hw_channel" where
  "initTrezorConnect s = ch_emit (AskTrezor None TrezorInit) (resetTrezorListeners s)"

definition initLedgerConnect :: "hw_channel \<Rightarrow> hw_channel" where
  "initLedgerConnect s = ch_emit ListenToDevices (s\<lparr>observing := True\<rparr>)"

text \<open>The listeners of the Trezor library.\<close>

datatype trezor_event = TrezorConnected | TrezorDisconnected | TrezorChanged | TrezorOther

fun event_text :: "trezor_event \<Rightarrow> string" where
  "event_text TrezorConnected = ''device-connect''"
| "event_text TrezorDisconnected = ''device-disconnect''"
| "event_text TrezorChanged = ''device-changed''"
| "event_text TrezorOther = []"

definition trezor_device_event ::
  "trezor_event \<Rightarrow> bool \<Rightarrow> bool \<Rightarrow> string option \<Rightarrow> string option \<Rightarrow> string option \<Rightarrow> string option \<Rightarrow> hw_channel \<Rightarrow> hw_channel" where
  "trezor_device_event ev isAcquired failed i model label p s =
     (if \<not> trezor_listening s \<or> failed \<or> ev = TrezorOther \<or> \<not> isAcquired then s
      else ch_emit (SentConnection \<lparr>msg_disconnected = (ev = TrezorDisconnected), msg_deviceType = ''trezor'', msg_deviceId = i,
             msg_model = model, msg_name = label, msg_path = p, msg_eventType = Some (event_text ev)\<rparr>) s)"

definition trezor_transport_error :: "string \<Rightarrow> hw_channel \<Rightarrow> hw_channel" where
  "trezor_transport_error payload s = (if trezor_listening s then ch_emit (SentError payload) s else s)"

definition NOT_CONNECTED :: chan_error where "NOT_CONNECTED = thrown_error ''Ledger device not connected''"

definition deriveAddress :: "nat \<Rightarrow> address_request \<Rightarrow> hw_channel \<Rightarrow> hw_channel" where
  "deriveAddress n r s =
     (let s1 = s\<lparr>deviceConnection := memo_connection (ar_path r) s\<rparr>
      in if ar_isTrezor r
         then ch_task (TrezorAddressAsked n) (ch_emit (AskTrezor (ar_path r) (BccGetAddress (ar_spendingPath r) (ar_stakingPath r))) s1)
         else ask_shared n (DeriveAddress (ar_spendingPath r) (ar_stakingPath r)) (LedgerAddressAsked n) NOT_CONNECTED s1)"

definition showAddressOn :: "nat \<Rightarrow> address_request \<Rightarrow> hw_channel \<Rightarrow> hw_channel" where
  "showAddressOn n r s =
     (let s1 = s\<lparr>deviceConnection := memo_connection (ar_path r) s\<rparr>
      in if ar_isTrezor r
         then respond n (Inl (thrown_error ''Address verification not supported on Trezor devices'')) s1
         else ask_shared n (ShowAddress (ar_spendingPath r) (ar_stakingPath r)) (ShowAsked n) NOT_CONNECTED s1)"

definition getBccApp :: "nat \<Rightarrow> string option \<Rightarrow> hw_channel \<Rightarrow> hw_channel" where
  "getBccApp n path s = (case (if path \<noteq> Some [] then Option.bind path (devicesMemo s) else None) of
       None \<Rightarrow> respond n (Inl (thrown_code ''DEVICE_NOT_CONNECTED'' None)) s
     | Some e \<Rightarrow> ask_shared n GetVersion (VersionAsked n (the path)) type_error (use_entry e s))"

text \<open>The \<open>catch\<close> of this handler: only a device that got lost is looked for again, with the entry it had then.\<close>

definition app_failed :: "nat \<Rightarrow> string \<Rightarrow> chan_error \<Rightarrow> hw_channel \<Rightarrow> hw_channel" where
  "app_failed n path e s =
     (if err_code e \<noteq> ''DEVICE_NOT_CONNECTED'' \<and> err_name e = ''DisconnectedDevice''
      then ch_task (RecoverListed n path e (devicesMemo s path)) s
      else respond n (Inl e) s)"

definition recover_listed :: "nat \<Rightarrow> string \<Rightarrow> chan_error \<Rightarrow> memo_entry option \<Rightarrow> string list \<Rightarrow> hw_channel \<Rightarrow> hw_channel" where
  "recover_listed n oldPath e old paths s =
     (let hasPathChanged = (oldPath \<notin> set paths);
          newPath = (if hasPathChanged then (if paths = [] then None else Some (last paths)) else Some oldPath)
      in case newPath of
           None \<Rightarrow> respond n (Inl (thrown_code ''NO_DEVICE_PATHS'' None)) s
         | Some p \<Rightarrow> if p = [] then respond n (Inl (thrown_code ''NO_DEVICE_PATHS'' None)) s
             else if old = None then respond n (Inl type_error) s
             else ch_task (RecoverOpened n oldPath p e old) s)"

definition recover_opened ::
  "nat \<Rightarrow> string \<Rightarrow> string \<Rightarrow> chan_error \<Rightarrow> memo_entry option \<Rightarrow> usb_device list \<Rightarrow> device_model option \<Rightarrow> hw_channel \<Rightarrow> hw_channel" where
  "recover_opened n oldPath newPath e old devices cm s =
     (let (c, s1) = add_connection \<lparr>leads_to = newPath, picked = False, connection_model = cm\<rparr> s;
          newDevice = find (\<lambda>d. device_path d = newPath) devices
      in if newDevice = None \<or> Option.bind old entry_device = None then respond n (Inl type_error) s1
         else let s2 = s1\<lparr>deviceConnection := Some c,
                      devicesMemo := (devicesMemo s1)(oldPath := None, newPath \<mapsto> \<lparr>entry_device = newDevice, entry_connection = c\<rparr>)\<rparr>
              in respond n (Inl (if newPath \<noteq> oldPath then thrown_code ''DEVICE_PATH_CHANGED'' (Some newPath) else e)) s2)"

definition getExtendedPublicKeyOf :: "nat \<Rightarrow> string \<Rightarrow> bool \<Rightarrow> string option \<Rightarrow> hw_channel \<Rightarrow> hw_channel" where
  "getExtendedPublicKeyOf n path isTrezor devicePath s =
     (if isTrezor then ch_task (TrezorKeyFeatures n path devicePath) (ch_emit (AskTrezor devicePath GetFeatures) s)
      else ask_shared n (GetExtendedPublicKey path) (KeyAsked n) NOT_CONNECTED
             (s\<lparr>deviceConnection := memo_connection devicePath s\<rparr>))"

text \<open>Outside the \<open>try\<close>: a path that is not in the memo is a type error.\<close>

definition signLedger :: "nat \<Rightarrow> string option \<Rightarrow> string \<Rightarrow> hw_channel \<Rightarrow> hw_channel" where
  "signLedger n devicePath tx s = (case or_path devicePath None of
       None \<Rightarrow> respond n (Inl (thrown_error ''Device not connected!'')) (s\<lparr>deviceConnection := None\<rparr>)
     | Some p \<Rightarrow> (case devicesMemo s p of
         None \<Rightarrow> respond n (Inl type_error) s
       | Some e \<Rightarrow> ask_shared n (SignTransaction tx) (SignAsked n) (thrown_error ''Device not connected!'') (use_entry e s)))"

definition signTrezor :: "nat \<Rightarrow> string option \<Rightarrow> string \<Rightarrow> hw_channel \<Rightarrow> hw_channel" where
  "signTrezor n devicePath tx s = ch_task (TrezorSignAsked n) (ch_emit (AskTrezor devicePath (BccSignTransaction tx)) s)"

definition resetTrezorAction :: "hw_channel \<Rightarrow> hw_channel" where
  "resetTrezorAction s = ch_emit (AskTrezor None TrezorCancel) s"

section \<open>The channel as a machine\<close>

datatype chan_answer =
    Paths "string list" "usb_device list"              \<comment> \<open>the paths of the USB devices, and the devices\<close>
  | Opened "device_model option" "usb_device list"
  | Created string "device_model option"
  | VersionIs "nat \<times> nat \<times> nat"
  | TextIs string                                      \<comment> \<open>a serial number, an address, a signed transaction\<close>
  | KeyIs string string
  | Features "string option" "string option" "string option" string   \<comment> \<open>id, model, label, firmware\<close>
  | TrezorAddressIs "string option"
  | DoneIs
  | FailedWith chan_error

text \<open>A failure of an await is the handler's failure, but in the observer, which does nothing then.\<close>

definition fail_task :: "chan_task \<Rightarrow> chan_error \<Rightarrow> hw_channel \<Rightarrow> hw_channel" where
  "fail_task t e s = (case t of
       NextListed b d m \<Rightarrow> s | NextOpened d m \<Rightarrow> s
     | TransportFeatures n p \<Rightarrow> respond n (Inl e) s | TransportListed n p \<Rightarrow> respond n (Inl e) s
     | TransportCreated n p \<Rightarrow> respond n (Inl e) s | CreatedListed n p c \<Rightarrow> respond n (Inl e) s
     | VersionAsked n p \<Rightarrow> app_failed n p e s | SerialAsked n p v \<Rightarrow> app_failed n p e s
     | RecoverListed n p e' old \<Rightarrow> respond n (Inl e) s | RecoverOpened n p q e' old \<Rightarrow> respond n (Inl e) s
     | KeyAsked n \<Rightarrow> respond n (Inl e) s | KeySerialAsked n k \<Rightarrow> respond n (Inl e) s
     | TrezorKeyFeatures n p q \<Rightarrow> respond n (Inl e) s | TrezorKeyAsked n \<Rightarrow> respond n (Inl e) s
     | TrezorAddressAsked n \<Rightarrow> respond n (Inl e) s | LedgerAddressAsked n \<Rightarrow> respond n (Inl e) s
     | ShowAsked n \<Rightarrow> respond n (Inl e) s | SignAsked n \<Rightarrow> respond n (Inl e) s | TrezorSignAsked n \<Rightarrow> respond n (Inl e) s)"

text \<open>
  \<open>encode\<close> is the library's text of an address. After the version, and after the key, the serial number is asked of whatever
  connection is the shared one by then.
\<close>

definition continue_task :: "(string \<Rightarrow> string) \<Rightarrow> chan_task \<Rightarrow> chan_answer \<Rightarrow> hw_channel \<Rightarrow> hw_channel option" where
  "continue_task encode t a s = (case (t, a) of
       (NextListed added d m, Paths ps ds) \<Rightarrow> Some (next_listed added d m s)
     | (NextOpened d m, Opened cm ds) \<Rightarrow> Some (next_opened d m cm s)
     | (TransportFeatures n p, Features i model label fw) \<Rightarrow> Some (respond n (Inr (TransportResponse (trezor_info i model label p fw))) s)
     | (TransportListed n p, Paths ps ds) \<Rightarrow> Some (transport_listed n p ps s)
     | (TransportCreated n p, Created q cm) \<Rightarrow> Some (transport_created n p q cm s)
     | (CreatedListed n p c, Paths ps ds) \<Rightarrow> Some (created_listed n p c ps ds s)
     | (VersionAsked n p, VersionIs v) \<Rightarrow> Some (case deviceConnection s of
           None \<Rightarrow> app_failed n p type_error s
         | Some c \<Rightarrow> ch_task (SerialAsked n p v) (ch_emit (AskLedger n c GetSerial) s))
     | (SerialAsked n p v, TextIs serial) \<Rightarrow> Some (respond n (Inr (AppResponse v serial)) s)
     | (RecoverListed n p e old, Paths ps ds) \<Rightarrow> Some (recover_listed n p e old ps s)
     | (RecoverOpened n p q e old, Opened cm ds) \<Rightarrow> Some (recover_opened n p q e old ds cm s)
     | (KeyAsked n, KeyIs pub chain) \<Rightarrow> Some (ask_shared n GetSerial (KeySerialAsked n (pub, chain)) type_error s)
     | (KeySerialAsked n (pub, chain), TextIs serial) \<Rightarrow> Some (respond n (Inr (KeyResponse pub chain (Some serial))) s)
     | (TrezorKeyFeatures n path p, Features i model label fw) \<Rightarrow>
         Some (ch_task (TrezorKeyAsked n) (ch_emit (AskTrezor None (BccGetPublicKey path)) s))
     | (TrezorKeyFeatures n path p, DoneIs) \<Rightarrow> Some (respond n (Inl (thrown_error ''Trezor device not connected'')) s)
     | (TrezorKeyAsked n, KeyIs pub chain) \<Rightarrow> Some (respond n (Inr (KeyResponse pub chain None)) s)
     | (TrezorAddressAsked n, TrezorAddressIs a) \<Rightarrow> Some (respond n (Inr (AddressResponse a)) s)
     | (LedgerAddressAsked n, TextIs hex) \<Rightarrow> Some (respond n (Inr (AddressResponse (Some (encode hex)))) s)
     | (ShowAsked n, DoneIs) \<Rightarrow> Some (respond n (Inr ShownResponse) s)
     | (SignAsked n, TextIs x) \<Rightarrow> Some (respond n (Inr (SignedResponse x)) s)
     | (TrezorSignAsked n, TextIs x) \<Rightarrow> Some (respond n (Inr (SignedResponse x)) s)
     | _ \<Rightarrow> None)"

datatype chan_request =
    GetTransport bool "string option"
  | InitTrezor
  | InitLedger
  | DeriveAddressOf address_request
  | ShowAddressOf address_request
  | GetBccApp "string option"
  | GetKey string bool "string option"
  | SignLedger "string option" string
  | SignTrezor "string option" string
  | ResetTrezor

datatype chan_event =
    Request nat chan_request
  | Usb usb_event usb_device device_model
  | TrezorDevice trezor_event bool bool "string option" "string option" "string option" "string option"
  | TrezorTransportError string
  | Answered nat chan_answer

definition handle_request :: "nat \<Rightarrow> chan_request \<Rightarrow> hw_channel \<Rightarrow> hw_channel" where
  "handle_request n r s = (case r of
       GetTransport trezor p \<Rightarrow> getTransport n trezor p s
     | InitTrezor \<Rightarrow> initTrezorConnect s
     | InitLedger \<Rightarrow> initLedgerConnect s
     | DeriveAddressOf a \<Rightarrow> deriveAddress n a s
     | ShowAddressOf a \<Rightarrow> showAddressOn n a s
     | GetBccApp p \<Rightarrow> getBccApp n p s
     | GetKey path trezor p \<Rightarrow> getExtendedPublicKeyOf n path trezor p s
     | SignLedger p tx \<Rightarrow> signLedger n p tx s
     | SignTrezor p tx \<Rightarrow> signTrezor n p tx s
     | ResetTrezor \<Rightarrow> resetTrezorAction s)"

definition channel_step :: "(string \<Rightarrow> string) \<Rightarrow> hw_channel \<Rightarrow> chan_event \<Rightarrow> hw_channel" where
  "channel_step encode s ev = (case ev of
       Request n r \<Rightarrow> handle_request n r s
     | Usb e d m \<Rightarrow> if observing s then observer_next e d m s else s
     | TrezorDevice e acquired failed i model label p \<Rightarrow> trezor_device_event e acquired failed i model label p s
     | TrezorTransportError x \<Rightarrow> trezor_transport_error x s
     | Answered k a \<Rightarrow>
         (if k < length (chan_tasks s) then
            (let s1 = s\<lparr>chan_tasks := remove_nth k (chan_tasks s)\<rparr>
             in case a of
                  FailedWith e \<Rightarrow> fail_task (chan_tasks s ! k) e s1
                | _ \<Rightarrow> (case continue_task encode (chan_tasks s ! k) a s1 of None \<Rightarrow> s | Some s' \<Rightarrow> s'))
          else s))"

section \<open>The memo leads to the devices\<close>

text \<open>
  Every connection that is filed under a path leads there, or is one the library picked itself; every connection that is
  mentioned exists.
\<close>

definition entry_ok :: "connection list \<Rightarrow> string \<Rightarrow> memo_entry \<Rightarrow> bool" where
  "entry_ok cs p e \<longleftrightarrow> entry_connection e < length cs
     \<and> (leads_to (cs ! entry_connection e) = p \<or> picked (cs ! entry_connection e))"

fun task_ok :: "connection list \<Rightarrow> chan_task \<Rightarrow> bool" where
  "task_ok cs (CreatedListed n p c) \<longleftrightarrow> c < length cs \<and> picked (cs ! c)"
| "task_ok cs _ \<longleftrightarrow> True"

definition memo_ok :: "hw_channel \<Rightarrow> bool" where
  "memo_ok s \<longleftrightarrow> (\<forall>p e. devicesMemo s p = Some e \<longrightarrow> entry_ok (connections s) p e)
     \<and> (\<forall>t \<in> set (chan_tasks s). task_ok (connections s) t)"

lemma entry_ok_grow: "entry_ok cs p e \<Longrightarrow> entry_ok (cs @ [c]) p e"
  by (auto simp: entry_ok_def nth_append)

lemma task_ok_grow: "task_ok cs t \<Longrightarrow> task_ok (cs @ [c]) t"
  by (cases t) (auto simp: nth_append)

lemma memo_okD: "memo_ok s \<Longrightarrow> devicesMemo s p = Some e \<Longrightarrow> entry_ok (connections s) p e"
  by (simp add: memo_ok_def)

definition memo_frame :: "hw_channel \<Rightarrow> hw_channel \<Rightarrow> bool" where
  "memo_frame s s' \<longleftrightarrow> devicesMemo s' = devicesMemo s \<and> connections s' = connections s
     \<and> (\<forall>t \<in> set (chan_tasks s'). t \<in> set (chan_tasks s) \<or> (\<forall>cs. task_ok cs t))"

lemma memo_frame_ok: "memo_frame s s' \<Longrightarrow> memo_ok s \<Longrightarrow> memo_ok s'"
  by (auto simp: memo_frame_def memo_ok_def)

lemmas frame_defs = memo_frame_def ch_task_def ch_emit_def respond_def ask_shared_def use_entry_def

lemma memo_frames [simp]:
  "memo_frame s s" "memo_frame s (respond n r s)" "memo_frame s (ch_emit x s)"
  "memo_frame s (observer_next ev d m s)" "memo_frame s (getTransport n b q s)" "memo_frame s (transport_found n c q s)"
  "memo_frame s (transport_listed n q ps s)" "memo_frame s (initTrezorConnect s)" "memo_frame s (initLedgerConnect s)"
  "memo_frame s (trezor_device_event te b b' i mo la q s)" "memo_frame s (trezor_transport_error e s)"
  "memo_frame s (deriveAddress n ar s)" "memo_frame s (showAddressOn n ar s)" "memo_frame s (getBccApp n q s)"
  "memo_frame s (app_failed n pa ce s)" "memo_frame s (recover_listed n pa ce old ps s)"
  "memo_frame s (getExtendedPublicKeyOf n pa b q s)" "memo_frame s (signLedger n q tx s)" "memo_frame s (signTrezor n q tx s)"
  "memo_frame s (resetTrezorAction s)" "memo_frame s (fail_task t ce s)"
  by (simp_all add: frame_defs observer_next_def getTransport_def transport_found_def transport_listed_def initTrezorConnect_def
      resetTrezorListeners_def initLedgerConnect_def trezor_device_event_def trezor_transport_error_def deriveAddress_def
      showAddressOn_def getBccApp_def app_failed_def recover_listed_def getExtendedPublicKeyOf_def signLedger_def signTrezor_def
      resetTrezorAction_def fail_task_def Let_def split: usb_event.split option.split chan_task.split)

lemma memo_ok_remove: "memo_ok s \<Longrightarrow> memo_ok (s\<lparr>chan_tasks := remove_nth k (chan_tasks s)\<rparr>)"
  by (auto simp: memo_ok_def remove_nth_def dest: in_set_takeD in_set_dropD)

lemma memo_ok_next_listed: "memo_ok s \<Longrightarrow> memo_ok (next_listed b d m s)"
  by (auto simp: next_listed_def memo_ok_def ch_task_def ch_emit_def)

lemma memo_ok_grow: "memo_ok s \<Longrightarrow> memo_ok (s\<lparr>connections := connections s @ [c]\<rparr>)"
  by (auto simp: memo_ok_def entry_ok_grow task_ok_grow)

lemma memo_ok_file:
  assumes "memo_ok s" and "entry_ok (connections s) p e" and "\<And>q e. m q = Some e \<Longrightarrow> devicesMemo s q = Some e"
  shows "memo_ok (s\<lparr>devicesMemo := m(p \<mapsto> e)\<rparr>)"
  using assms by (auto simp: memo_ok_def)

lemma new_entry_ok: "leads_to c = p \<or> picked c \<Longrightarrow> entry_ok (cs @ [c]) p \<lparr>entry_device = d, entry_connection = length cs\<rparr>"
  by (simp add: entry_ok_def)

lemma memo_ok_next_opened: "memo_ok s \<Longrightarrow> memo_ok (next_opened d m cm s)"
  unfolding next_opened_def add_connection_def Let_def prod.case
  by (rule memo_frame_ok [OF memo_frames(3)], rule memo_ok_file) (simp_all add: memo_ok_grow new_entry_ok)

lemma memo_ok_transport_created: "memo_ok s \<Longrightarrow> memo_ok (transport_created n q path cm s)"
  using memo_ok_grow [of s "\<lparr>leads_to = path, picked = True, connection_model = cm\<rparr>"]
  by (auto simp: transport_created_def add_connection_def ch_task_def memo_ok_def)

lemma memo_ok_created_listed:
  "memo_ok s \<Longrightarrow> c < length (connections s) \<Longrightarrow> picked (connections s ! c) \<Longrightarrow> memo_ok (created_listed n q c ps ds s)"
  unfolding created_listed_def Let_def
  by (rule memo_frame_ok [OF memo_frames(6)])
    (use memo_ok_file [of s _ "\<lparr>entry_device = _, entry_connection = c\<rparr>" "devicesMemo s"] in \<open>auto simp: memo_ok_def entry_ok_def\<close>)

lemma memo_ok_recover_opened: "memo_ok s \<Longrightarrow> memo_ok (recover_opened n pa q e old ds cm s)"
proof -
  assume ok: "memo_ok s"
  let ?c = "\<lparr>leads_to = q, picked = False, connection_model = cm\<rparr>"
  let ?s1 = "s\<lparr>connections := connections s @ [?c]\<rparr>"
  let ?e = "\<lparr>entry_device = find (\<lambda>d. device_path d = q) ds, entry_connection = length (connections s)\<rparr>"
  have s1: "memo_ok ?s1" using ok by (rule memo_ok_grow)
  have "memo_ok (?s1\<lparr>devicesMemo := (devicesMemo ?s1)(pa := None, q \<mapsto> ?e)\<rparr>)"
    by (rule memo_ok_file [OF s1]) (auto simp: entry_ok_def split: if_splits)
  moreover have "memo_frame (?s1\<lparr>devicesMemo := (devicesMemo ?s1)(pa := None, q \<mapsto> ?e)\<rparr>)
      (respond n r (?s1\<lparr>deviceConnection := Some (length (connections s)), devicesMemo := (devicesMemo ?s1)(pa := None, q \<mapsto> ?e)\<rparr>))" for r
    by (simp add: frame_defs)
  ultimately have "memo_ok (respond n r (?s1\<lparr>deviceConnection := Some (length (connections s)),
      devicesMemo := (devicesMemo ?s1)(pa := None, q \<mapsto> ?e)\<rparr>))" for r
    by (blast intro: memo_frame_ok)
  moreover have "memo_ok (respond n r ?s1)" for r by (rule memo_frame_ok [OF memo_frames(2) s1])
  ultimately show ?thesis by (simp add: recover_opened_def add_connection_def Let_def)
qed

fun files_connection :: "chan_task \<Rightarrow> bool" where
  "files_connection (NextListed b d m) = True"
| "files_connection (NextOpened d m) = True"
| "files_connection (TransportCreated n p) = True"
| "files_connection (CreatedListed n p c) = True"
| "files_connection (RecoverOpened n p q e old) = True"
| "files_connection _ = False"

lemma memo_frame_ask: "(\<And>cs. task_ok cs u) \<Longrightarrow> memo_frame s (ask_shared n call u e s)"
  by (simp add: frame_defs split: option.split)

lemma memo_frame_serial: "memo_frame s (ch_task (SerialAsked n p v) (ch_emit x s))" "memo_frame s (ch_task (TrezorKeyAsked n) (ch_emit x s))"
  by (simp_all add: frame_defs)

lemma continue_frame:
  "\<not> files_connection t \<Longrightarrow> continue_task encode t a s = Some s' \<Longrightarrow> memo_frame s s'"
  by (cases t; cases a)
    (auto simp: continue_task_def memo_frame_ask memo_frame_serial split: prod.splits option.splits)

lemma memo_ok_continue:
  assumes "memo_ok s" and "task_ok (connections s) t" and "continue_task encode t a s = Some s'"
  shows "memo_ok s'"
proof (cases "files_connection t")
  case True
  with assms show ?thesis
    by (cases t; cases a) (auto simp: continue_task_def memo_ok_next_listed memo_ok_next_opened memo_ok_transport_created
        memo_ok_created_listed memo_ok_recover_opened)
next
  case False
  with assms(1,3) show ?thesis using continue_frame memo_frame_ok by blast
qed

lemma memo_frame_request: "memo_frame s (handle_request n r s)"
  by (simp add: handle_request_def split: chan_request.split)

lemma memo_ok_answered: "memo_ok s \<Longrightarrow> memo_ok (channel_step encode s (Answered k a))"
proof -
  assume ok: "memo_ok s"
  let ?s1 = "s\<lparr>chan_tasks := remove_nth k (chan_tasks s)\<rparr>"
  show ?thesis
  proof (cases "k < length (chan_tasks s)")
    case True
    then have t: "task_ok (connections ?s1) (chan_tasks s ! k)" using ok by (simp add: memo_ok_def)
    have s1: "memo_ok ?s1" using ok by (rule memo_ok_remove)
    have fail: "memo_ok (fail_task u e ?s1)" for u e by (rule memo_frame_ok [OF memo_frames(21) s1])
    have go: "memo_ok (case continue_task encode (chan_tasks s ! k) a ?s1 of None \<Rightarrow> s | Some s' \<Rightarrow> s')"
      using memo_ok_continue [OF s1 t] ok by (auto split: option.split)
    show ?thesis
      by (cases a) (use True fail go in \<open>simp_all add: channel_step_def Let_def\<close>)
  qed (simp add: channel_step_def ok)
qed

lemma memo_ok_step: "memo_ok s \<Longrightarrow> memo_ok (channel_step encode s ev)"
proof (cases ev)
  case (Answered k a)
  then show "memo_ok s \<Longrightarrow> ?thesis" using memo_ok_answered by simp
qed (auto simp: channel_step_def intro: memo_frame_ok [OF memo_frame_request] memo_frame_ok [OF memo_frames(4)]
       memo_frame_ok [OF memo_frames(10)] memo_frame_ok [OF memo_frames(11)])

interpretation channel: machine "channel_step encode" memo_ok for encode
  by unfold_locales (rule memo_ok_step)

section \<open>Which device is asked\<close>

fun requested_path :: "chan_request \<Rightarrow> string option" where
  "requested_path (GetBccApp p) = p"
| "requested_path (GetKey path trezor p) = p"
| "requested_path (DeriveAddressOf r) = ar_path r"
| "requested_path (ShowAddressOf r) = ar_path r"
| "requested_path (SignLedger p tx) = p"
| "requested_path _ = None"

lemma ask_shared_effects:
  "chan_effects (ask_shared n call t e s)
     = chan_effects s @ [case deviceConnection s of None \<Rightarrow> Responded n (Inl e) | Some c \<Rightarrow> AskLedger n c call]"
  by (simp add: ask_shared_def ch_task_def ch_emit_def respond_def split: option.split)

lemma bcc_app_asks:
  "chan_effects (getBccApp n q s) = chan_effects s @ [AskLedger m c call]
     \<Longrightarrow> m = n \<and> (\<exists>p e. q = Some p \<and> devicesMemo s p = Some e \<and> entry_connection e = c)"
  by (cases q) (auto simp: getBccApp_def respond_def ch_emit_def ask_shared_effects use_entry_def
      split: if_splits option.splits)

lemma sign_ledger_asks:
  "chan_effects (signLedger n q tx s) = chan_effects s @ [AskLedger m c call]
     \<Longrightarrow> m = n \<and> (\<exists>p e. q = Some p \<and> devicesMemo s p = Some e \<and> entry_connection e = c)"
  by (cases q) (auto simp: signLedger_def or_path_def respond_def ch_emit_def ask_shared_effects use_entry_def
      split: if_splits option.splits)

lemma key_asks:
  "chan_effects (getExtendedPublicKeyOf n path trezor q s) = chan_effects s @ [AskLedger m c call]
     \<Longrightarrow> m = n \<and> (\<exists>p e. q = Some p \<and> devicesMemo s p = Some e \<and> entry_connection e = c)"
  by (auto simp: getExtendedPublicKeyOf_def memo_connection_def ch_emit_def ch_task_def ask_shared_effects
      bind_eq_Some_conv split: if_splits option.splits)

lemma address_asks:
  "chan_effects (deriveAddress n a s) = chan_effects s @ [AskLedger m c call]
     \<Longrightarrow> m = n \<and> (\<exists>p e. ar_path a = Some p \<and> devicesMemo s p = Some e \<and> entry_connection e = c)"
  "chan_effects (showAddressOn n a s) = chan_effects s @ [AskLedger m c call]
     \<Longrightarrow> m = n \<and> (\<exists>p e. ar_path a = Some p \<and> devicesMemo s p = Some e \<and> entry_connection e = c)"
  by (auto simp: deriveAddress_def showAddressOn_def memo_connection_def respond_def ch_emit_def ch_task_def ask_shared_effects
      Let_def bind_eq_Some_conv split: if_splits option.splits)



definition plugged :: "string \<Rightarrow> nat \<Rightarrow> chan_event list" where
  "plugged p n = [Usb DeviceAdded \<lparr>device_path = p, productId = n\<rparr> \<lparr>model_id = ''nanoS'', productName = ''Nano S''\<rparr>,
     Answered 0 (Paths [p] []), Answered 0 (Opened None [])]"

definition two_devices :: "chan_event list" where
  "two_devices = Request 0 InitLedger # plugged ''a'' 1 @ plugged ''b'' 2"

lemma continue_simps:
  "continue_task encode (NextListed added d m) (Paths ps ds) s = Some (next_listed added d m s)"
  "continue_task encode (NextOpened d m) (Opened cm ds) s = Some (next_opened d m cm s)"
  "continue_task encode (KeyAsked n) (KeyIs pub chain) s = Some (ask_shared n GetSerial (KeySerialAsked n (pub, chain)) type_error s)"
  "continue_task encode (RecoverListed n p e old) (Paths ps ds) s = Some (recover_listed n p e old ps s)"
  "continue_task encode (RecoverOpened n p q e old) (Opened cm ds) s = Some (recover_opened n p q e old ds cm s)"
  by (simp_all add: continue_task_def)

lemmas channel_defs = two_devices_def plugged_def new_channel_def channel_step_def handle_request_def initLedgerConnect_def
  observer_next_def continue_simps next_listed_def next_opened_def add_connection_def ch_emit_def ch_task_def respond_def remove_nth_def


section \<open>Two requests at a time\<close>

text \<open>
  C24. The serial number of a key may be another device's. The key of one Ledger is awaited when the app of a second one is asked for: the
  handlers share the connection, and the serial number that goes with the key is then asked of the second device.
\<close>

theorem serial_is_asked_of_another_device:
  assumes "k < length (chan_tasks s)" and "chan_tasks s ! k = KeyAsked n"
    and "q \<noteq> []" and "devicesMemo s q = Some e"
  shows "chan_effects (run (channel_step encode) s [Request m (GetBccApp (Some q)), Answered k (KeyIs pub chain)])
    = chan_effects s @ [AskLedger m (entry_connection e) GetVersion, AskLedger n (entry_connection e) GetSerial]"
  using assms by (simp add: channel_step_def handle_request_def getBccApp_def ask_shared_def use_entry_def ch_task_def
      ch_emit_def continue_simps remove_nth_def nth_append Let_def)

lemma serial_is_asked_of_another_device_witness:
  "chan_effects (run (channel_step id)
      (run (channel_step id) new_channel (two_devices @ [Request 1 (GetKey ''0'' False (Some ''a''))]))
      [Request 2 (GetBccApp (Some ''b'')), Answered 0 (KeyIs ''key'' ''code'')])
    = chan_effects (run (channel_step id) new_channel (two_devices @ [Request 1 (GetKey ''0'' False (Some ''a''))]))
      @ [AskLedger 2 1 GetVersion, AskLedger 1 1 GetSerial]"
  using serial_is_asked_of_another_device [of 0 "run (channel_step id) new_channel (two_devices @ [Request 1 (GetKey ''0'' False (Some ''a''))])"
      1 "''b''" "\<lparr>entry_device = Some \<lparr>device_path = ''b'', productId = 2\<rparr>, entry_connection = 1\<rparr>" id 2 "''key''" "''code''"]
  by (simp add: channel_defs Let_def getExtendedPublicKeyOf_def ask_shared_def memo_connection_def)

text \<open>
  A lost device is found again. When the app of a Ledger is asked for, the device is gone, and another path is listed, the memo
  moves to the last path that is listed, with a connection that leads there, and the renderer is told the new path.
\<close>

theorem lost_device_is_found_again:
  assumes "chan_tasks s = [VersionAsked n p]" and "devicesMemo s p = Some old" and "entry_device old = Some d"
    and "err_name e = ''DisconnectedDevice''" and "err_code e \<noteq> ''DEVICE_NOT_CONNECTED''"
    and "ps \<noteq> []" and "p \<notin> set ps" and "last ps \<noteq> []" and "find (\<lambda>d. device_path d = last ps) ds = Some d'"
    and "s' = run (channel_step encode) s [Answered 0 (FailedWith e), Answered 0 (Paths ps ds), Answered 0 (Opened cm ds)]"
  shows "devicesMemo s' p = None"
    and "devicesMemo s' (last ps) = Some \<lparr>entry_device = Some d', entry_connection = length (connections s)\<rparr>"
    and "connections s' = connections s @ [\<lparr>leads_to = last ps, picked = False, connection_model = cm\<rparr>]"
    and "chan_effects s' = chan_effects s @ [Responded n (Inl (thrown_code ''DEVICE_PATH_CHANGED'' (Some (last ps))))]"
proof -
  have "last ps \<noteq> p" using assms(6,7) by auto
  then have "s' = s\<lparr>chan_tasks := [], connections := connections s @ [\<lparr>leads_to = last ps, picked = False, connection_model = cm\<rparr>],
      deviceConnection := Some (length (connections s)),
      devicesMemo := (devicesMemo s)(p := None, last ps \<mapsto> \<lparr>entry_device = Some d', entry_connection = length (connections s)\<rparr>),
      chan_effects := chan_effects s @ [Responded n (Inl (thrown_code ''DEVICE_PATH_CHANGED'' (Some (last ps))))]\<rparr>"
    using assms by (simp add: channel_step_def fail_task_def app_failed_def ch_task_def continue_simps remove_nth_def recover_listed_def
        recover_opened_def add_connection_def respond_def ch_emit_def Let_def)
  then show "devicesMemo s' p = None"
    and "devicesMemo s' (last ps) = Some \<lparr>entry_device = Some d', entry_connection = length (connections s)\<rparr>"
    and "connections s' = connections s @ [\<lparr>leads_to = last ps, picked = False, connection_model = cm\<rparr>]"
    and "chan_effects s' = chan_effects s @ [Responded n (Inl (thrown_code ''DEVICE_PATH_CHANGED'' (Some (last ps))))]"
    using \<open>last ps \<noteq> p\<close> by simp_all
qed

text \<open>
  A device that is removed while it is opened stays in the memo: the connection is filed, and announced, after the removal was.
\<close>

lemma removed_device_stays:
  assumes "chan_tasks s = [NextOpened d m]" and "observing s"
  shows "devicesMemo (run (channel_step encode) s [Usb DeviceRemoved d m, Answered 1 (Paths ps ds), Answered 0 (Opened cm ds)])
      (device_path d) = Some \<lparr>entry_device = Some d, entry_connection = length (connections s)\<rparr>"
    and "chan_effects (run (channel_step encode) s [Usb DeviceRemoved d m, Answered 1 (Paths ps ds), Answered 0 (Opened cm ds)])
      = chan_effects s @ [SentConnection (ledger_message True d m), SentConnection (ledger_message False d m)]"
  using assms by (simp_all add: channel_step_def observer_next_def ch_task_def continue_simps remove_nth_def next_listed_def next_opened_def
      add_connection_def ch_emit_def Let_def)

text \<open>A signature for a path that is not in the memo fails outside the \<open>try\<close>, with a type error instead of the handler's own one.\<close>

lemma signature_for_an_unknown_path:
  "p \<noteq> [] \<Longrightarrow> devicesMemo s p = None \<Longrightarrow> chan_effects (channel_step encode s (Request n (SignLedger (Some p) tx)))
     = chan_effects s @ [Responded n (Inl type_error)]"
  by (simp add: channel_step_def handle_request_def signLedger_def or_path_def respond_def ch_emit_def)

end
