(* ===== verification/DiskSpace.thy ===== *)
theory DiskSpace imports BccNode Complex_Main begin

text \<open>
  The watch over the disk, \<open>main/utils/handleDiskSpace.js\<close>, with the node manager it stops and restarts
  (\<open>onCheckDiskSpace\<close> of \<open>main/index.js\<close>, see \<open>BccNode\<close>). A check is split at its await; what the library answers about the disk
  is an event, and \<open>pretty\<close> is the text the library \<open>prettysize\<close> gives for a size.
\<close>

section \<open>State\<close>

definition DISK_SPACE_REQUIRED :: int where "DISK_SPACE_REQUIRED = 2 * 1073741274"
definition DISK_SPACE_REQUIRED_MARGIN_PERCENTAGE :: rat where "DISK_SPACE_REQUIRED_MARGIN_PERCENTAGE = 10"
definition DISK_SPACE_RECOMMENDED_PERCENTAGE :: rat where "DISK_SPACE_RECOMMENDED_PERCENTAGE = 15"
definition DISK_SPACE_CHECK_LONG_INTERVAL :: nat where "DISK_SPACE_CHECK_LONG_INTERVAL = 10 * 60 * 1000"
definition DISK_SPACE_CHECK_MEDIUM_INTERVAL :: nat where "DISK_SPACE_CHECK_MEDIUM_INTERVAL = 60 * 1000"
definition DISK_SPACE_CHECK_SHORT_INTERVAL :: "bool \<Rightarrow> nat" where
  "DISK_SPACE_CHECK_SHORT_INTERVAL isTest = (if isTest then 2000 else 10 * 1000)"

record disk_response =
  dr_notEnough :: bool
  dr_required :: string
  dr_missing :: string
  dr_recommended :: string
  dr_available :: string

record disk_watch =
  diskSpaceCheckInterval :: "nat option"
  diskSpaceCheckIntervalLength :: nat
  isNotEnoughDiskSpace :: bool
  disk_timers :: "(nat \<times> nat) list"        \<comment> \<open>the live intervals with their lengths\<close>
  next_disk_timer :: nat
  disk_checks :: "int list"                  \<comment> \<open>the checks under way, with the space they require\<close>
  disk_responses :: "disk_response list"     \<comment> \<open>sent to the renderer\<close>
  main_node :: "bcc_node option"

definition setDiskSpaceIntervalChecking :: "nat \<Rightarrow> disk_watch \<Rightarrow> disk_watch" where
  "setDiskSpaceIntervalChecking interval s =
     s\<lparr>disk_timers := filter (\<lambda>t. Some (fst t) \<noteq> diskSpaceCheckInterval s) (disk_timers s) @ [(next_disk_timer s, interval)],
       diskSpaceCheckInterval := Some (next_disk_timer s), next_disk_timer := Suc (next_disk_timer s),
       diskSpaceCheckIntervalLength := interval\<rparr>"

definition handleDiskSpace :: disk_watch where
  "handleDiskSpace = setDiskSpaceIntervalChecking DISK_SPACE_CHECK_LONG_INTERVAL
     \<lparr>diskSpaceCheckInterval = None, diskSpaceCheckIntervalLength = DISK_SPACE_CHECK_LONG_INTERVAL, isNotEnoughDiskSpace = False,
      disk_timers = [], next_disk_timer = 0, disk_checks = [], disk_responses = [], main_node = None\<rparr>"

section \<open>Checks\<close>

definition handleCheckDiskSpace :: "int option \<Rightarrow> disk_watch \<Rightarrow> disk_watch" where
  "handleCheckDiskSpace force s =
     (let diskSpaceRequired = (case force of None \<Rightarrow> DISK_SPACE_REQUIRED | Some n \<Rightarrow> if n \<noteq> 0 then n else DISK_SPACE_REQUIRED)
      in s\<lparr>disk_checks := disk_checks s @ [diskSpaceRequired]\<rparr>)"

definition diskSpaceRequiredMargin :: "int \<Rightarrow> rat" where
  "diskSpaceRequiredMargin required = of_int required - of_int required * DISK_SPACE_REQUIRED_MARGIN_PERCENTAGE / 100"

text \<open>The change of the state and of the interval after an answer.\<close>

definition space_found :: "bool \<Rightarrow> int \<Rightarrow> int \<Rightarrow> disk_watch \<Rightarrow> disk_watch" where
  "space_found isTest required available s =
     (if of_int available \<le> diskSpaceRequiredMargin required
      then (if \<not> isNotEnoughDiskSpace s
            then (setDiskSpaceIntervalChecking (DISK_SPACE_CHECK_SHORT_INTERVAL isTest) s)\<lparr>isNotEnoughDiskSpace := True\<rparr> else s)
      else if available \<ge> required
      then (let interval = (if available \<ge> required * 2 then DISK_SPACE_CHECK_LONG_INTERVAL else DISK_SPACE_CHECK_MEDIUM_INTERVAL)
            in if isNotEnoughDiskSpace s then (setDiskSpaceIntervalChecking interval s)\<lparr>isNotEnoughDiskSpace := False\<rparr>
               else if interval \<noteq> diskSpaceCheckIntervalLength s then setDiskSpaceIntervalChecking interval s
               else s)
      else s)"

definition disk_response_of :: "(rat \<Rightarrow> string) \<Rightarrow> int \<Rightarrow> int \<Rightarrow> int \<Rightarrow> bool \<Rightarrow> disk_response" where
  "disk_response_of pretty required available size_total b =
     \<lparr>dr_notEnough = b, dr_required = pretty (of_int required), dr_missing = pretty (of_int (max (required - available) 0)),
      dr_recommended = pretty (of_int size_total * DISK_SPACE_RECOMMENDED_PERCENTAGE / 100), dr_available = pretty (of_int available)\<rparr>"

text \<open>After the state, the callback looks at the node, then the response is sent.\<close>

definition checkAnswered :: "bool \<Rightarrow> (rat \<Rightarrow> string) \<Rightarrow> int \<Rightarrow> int \<times> int \<Rightarrow> disk_watch \<Rightarrow> disk_watch" where
  "checkAnswered isTest pretty required answer s =
     (let s1 = space_found isTest required (fst answer) s;
          b = isNotEnoughDiskSpace s1
      in s1\<lparr>main_node := map_option (onCheckDiskSpace b) (main_node s1),
            disk_responses := disk_responses s1 @ [disk_response_of pretty required (fst answer) (snd answer) b]\<rparr>)"

text \<open>The interval is cleared, but the variable keeps it, and the flag of the state stays.\<close>

definition checkFailed :: "disk_watch \<Rightarrow> disk_watch" where
  "checkFailed s =
     (let s1 = (case diskSpaceCheckInterval s of None \<Rightarrow> s
                | Some i \<Rightarrow> s\<lparr>disk_timers := filter (\<lambda>t. fst t \<noteq> i) (disk_timers s),
                              diskSpaceCheckIntervalLength := DISK_SPACE_CHECK_LONG_INTERVAL\<rparr>)
      in s1\<lparr>disk_responses := disk_responses s1
              @ [\<lparr>dr_notEnough = False, dr_required = [], dr_missing = [], dr_recommended = [], dr_available = []\<rparr>]\<rparr>)"

datatype disk_event =
    DiskRequest "int option"             \<comment> \<open>the renderer, or an error \<open>ENOSPC\<close> in the main process\<close>
  | DiskTimer nat
  | DiskAnswer nat "(int \<times> int) option"  \<comment> \<open>a check is answered with the free and the total space, or fails\<close>
  | NodeSetUp bcc_node
  | NodeEvent BccNode.event

definition disk_step :: "bool \<Rightarrow> (rat \<Rightarrow> string) \<Rightarrow> disk_watch \<Rightarrow> disk_event \<Rightarrow> disk_watch" where
  "disk_step isTest pretty s ev = (case ev of
       DiskRequest force \<Rightarrow> handleCheckDiskSpace force s
     | DiskTimer i \<Rightarrow> (if i \<in> fst ` set (disk_timers s) then handleCheckDiskSpace None s else s)
     | DiskAnswer k a \<Rightarrow>
         (if k < length (disk_checks s) then
            (let s1 = s\<lparr>disk_checks := remove_nth k (disk_checks s)\<rparr>
             in case a of None \<Rightarrow> checkFailed s1 | Some x \<Rightarrow> checkAnswered isTest pretty (disk_checks s ! k) x s1)
          else s)
     | NodeSetUp n \<Rightarrow> s\<lparr>main_node := Some n\<rparr>
     | NodeEvent e \<Rightarrow> s\<lparr>main_node := map_option (\<lambda>n. node_step n e) (main_node s)\<rparr>)"

lemmas disk_defs [model_defs] = handleCheckDiskSpace_def space_found_def checkAnswered_def checkFailed_def
  setDiskSpaceIntervalChecking_def Let_def

section \<open>One interval\<close>

definition disk_timer_ok :: "disk_watch \<Rightarrow> bool" where
  "disk_timer_ok s \<longleftrightarrow> (disk_timers s = [] \<or> (\<exists>i. diskSpaceCheckInterval s = Some i
     \<and> disk_timers s = [(i, diskSpaceCheckIntervalLength s)]))"

lemma disk_timer_ok_set: "disk_timer_ok s \<Longrightarrow> disk_timer_ok (setDiskSpaceIntervalChecking n s)"
  by (auto simp: disk_timer_ok_def setDiskSpaceIntervalChecking_def)

lemma disk_timer_ok_fields [simp]:
  "disk_timer_ok (s\<lparr>isNotEnoughDiskSpace := b\<rparr>) = disk_timer_ok s" "disk_timer_ok (s\<lparr>disk_checks := cs\<rparr>) = disk_timer_ok s"
  "disk_timer_ok (s\<lparr>disk_responses := rs\<rparr>) = disk_timer_ok s" "disk_timer_ok (s\<lparr>main_node := n\<rparr>) = disk_timer_ok s"
  by (simp_all add: disk_timer_ok_def)

lemma disk_timer_ok_found: "disk_timer_ok s \<Longrightarrow> disk_timer_ok (space_found t r a s)"
  by (simp add: space_found_def Let_def disk_timer_ok_set)

lemma disk_timer_ok_failed: "disk_timer_ok s \<Longrightarrow> disk_timer_ok (checkFailed s) \<and> disk_timers (checkFailed s) = []"
  by (auto simp: checkFailed_def disk_timer_ok_def Let_def split: option.split)

lemma disk_timer_ok_step: "disk_timer_ok s \<Longrightarrow> disk_timer_ok (disk_step t pretty s ev)"
  by (cases ev) (auto simp: disk_step_def handleCheckDiskSpace_def checkAnswered_def Let_def disk_timer_ok_found disk_timer_ok_failed
      split: option.split)

interpretation disk: machine "disk_step isTest pretty" disk_timer_ok for isTest pretty
  by unfold_locales (rule disk_timer_ok_step)

lemma disk_timer_ok_started [simp]: "disk_timer_ok handleDiskSpace"
  by (simp add: handleDiskSpace_def disk_timer_ok_def setDiskSpaceIntervalChecking_def)

text \<open>
  At most one interval watches the disk, the one the code can clear, and its length is the one the code believes, however checks,
  failures and events of the node interleave.
\<close>

theorem one_disk_interval:
  assumes "s = run (disk_step isTest pretty) handleDiskSpace es"
  shows "disk_timers s = [] \<or> (\<exists>i. diskSpaceCheckInterval s = Some i \<and> disk_timers s = [(i, diskSpaceCheckIntervalLength s)])"
  using disk.run_inv [OF disk_timer_ok_started, of isTest pretty es] assms by (simp add: disk_timer_ok_def)

section \<open>What a check finds\<close>

text \<open>
  The state follows the free space with a margin. A check that finds at most nine tenths of the required space sets the state, one
  that finds all of it clears it, and between the two it stays; the response says so, and the node is told.
\<close>

theorem disk_state_has_a_margin:
  assumes "disk_checks s = [required]" and "required > 0"
  shows "let s' = disk_step isTest pretty s (DiskAnswer 0 (Some (available, size_total)))
    in isNotEnoughDiskSpace s' = (if 10 * available \<le> 9 * required then True else if available \<ge> required then False
         else isNotEnoughDiskSpace s)
     \<and> main_node s' = map_option (onCheckDiskSpace (isNotEnoughDiskSpace s')) (main_node s)
     \<and> (disk_responses s' \<noteq> [] \<and> dr_notEnough (last (disk_responses s')) = isNotEnoughDiskSpace s')"
proof -
  have "of_int available \<le> diskSpaceRequiredMargin required \<longleftrightarrow> (of_int (10 * available) :: rat) \<le> of_int (9 * required)"
    by (simp add: diskSpaceRequiredMargin_def DISK_SPACE_REQUIRED_MARGIN_PERCENTAGE_def field_simps)
  then have m: "of_int available \<le> diskSpaceRequiredMargin required \<longleftrightarrow> 10 * available \<le> 9 * required"
    by (simp only: of_int_le_iff)
  show ?thesis using assms
    by (simp add: disk_step_def checkAnswered_def space_found_def m disk_response_of_def remove_nth_def
        setDiskSpaceIntervalChecking_def Let_def)
qed

section \<open>After a failed check\<close>

text \<open>Events that ask, fail, or find plenty of space; the node may do anything.\<close>

fun plenty :: "disk_event \<Rightarrow> bool" where
  "plenty (DiskRequest force) \<longleftrightarrow> (case force of None \<Rightarrow> True | Some n \<Rightarrow> n \<le> DISK_SPACE_REQUIRED)"
| "plenty (DiskAnswer k (Some (available, size_total))) \<longleftrightarrow> available \<ge> DISK_SPACE_REQUIRED * 2"
| "plenty _ \<longleftrightarrow> True"

definition unwatched :: "disk_watch \<Rightarrow> bool" where
  "unwatched s \<longleftrightarrow> disk_timers s = [] \<and> \<not> isNotEnoughDiskSpace s \<and> diskSpaceCheckIntervalLength s = DISK_SPACE_CHECK_LONG_INTERVAL
     \<and> (\<forall>n \<in> set (disk_checks s). n \<le> DISK_SPACE_REQUIRED)"

lemma enough_space:
  "required \<le> DISK_SPACE_REQUIRED \<Longrightarrow> available \<ge> DISK_SPACE_REQUIRED * 2
     \<Longrightarrow> \<not> of_int available \<le> diskSpaceRequiredMargin required \<and> available \<ge> required * 2 \<and> available \<ge> required"
proof -
  assume a: "required \<le> DISK_SPACE_REQUIRED" "available \<ge> DISK_SPACE_REQUIRED * 2"
  then have "9 * required < 10 * available" by (simp add: DISK_SPACE_REQUIRED_def)
  then have "(of_int (9 * required) :: rat) < of_int (10 * available)" by (simp only: of_int_less_iff)
  then have "\<not> of_int available \<le> diskSpaceRequiredMargin required"
    by (simp add: diskSpaceRequiredMargin_def DISK_SPACE_REQUIRED_MARGIN_PERCENTAGE_def field_simps)
  with a show ?thesis by (simp add: DISK_SPACE_REQUIRED_def)
qed

lemma found_plenty:
  "required \<le> DISK_SPACE_REQUIRED \<Longrightarrow> available \<ge> DISK_SPACE_REQUIRED * 2 \<Longrightarrow> unwatched s
     \<Longrightarrow> space_found t required available s = s"
  using enough_space [of required available] by (simp add: space_found_def unwatched_def)

lemma unwatched_fields [simp]:
  "unwatched (s\<lparr>disk_responses := rs\<rparr>) = unwatched s" "unwatched (s\<lparr>main_node := n\<rparr>) = unwatched s"
  by (simp_all add: unwatched_def)

lemma unwatched_remove: "unwatched s \<Longrightarrow> unwatched (s\<lparr>disk_checks := remove_nth k (disk_checks s)\<rparr>)"
  using set_remove_nth [of k "disk_checks s"] by (auto simp: unwatched_def)

lemma unwatched_request: "plenty (DiskRequest force) \<Longrightarrow> unwatched s \<Longrightarrow> unwatched (handleCheckDiskSpace force s)"
  by (auto simp: unwatched_def handleCheckDiskSpace_def Let_def split: option.splits)

lemma unwatched_failed: "unwatched s \<Longrightarrow> unwatched (checkFailed s)"
  by (simp add: unwatched_def checkFailed_def Let_def split: option.split)

lemma unwatched_step:
  assumes "unwatched s" and "plenty ev"
  shows "unwatched (disk_step t pretty s ev)"
proof (cases ev)
  case (DiskAnswer k a)
  show ?thesis
  proof (cases a)
    case None
    with assms DiskAnswer show ?thesis by (simp add: disk_step_def unwatched_failed unwatched_remove)
  next
    case (Some x)
    obtain available size_total where x: "x = (available, size_total)" by (cases x)
    show ?thesis
    proof (cases "k < length (disk_checks s)")
      case True
      then have "disk_checks s ! k \<le> DISK_SPACE_REQUIRED" using assms(1) by (auto simp: unwatched_def)
      moreover have "available \<ge> DISK_SPACE_REQUIRED * 2" using assms(2) DiskAnswer Some x by simp
      ultimately show ?thesis using DiskAnswer Some x True unwatched_remove [OF assms(1), of k]
        by (simp add: disk_step_def checkAnswered_def found_plenty Let_def)
    qed (use assms(1) DiskAnswer in \<open>simp add: disk_step_def\<close>)
  qed
qed (use assms in \<open>auto simp: disk_step_def unwatched_request [of None] unwatched_request\<close>)

interpretation unwatched_disk: guarded_machine "disk_step isTest pretty" unwatched plenty for isTest pretty
  by unfold_locales (rule unwatched_step)

text \<open>
  C22. One failed check ends the watch. When a check fails while there is enough space, the interval is stopped, and as long as the
  checks that are asked for later find plenty of space it is never started again: no check runs by itself any more.
\<close>

theorem failed_check_ends_the_watch:
  assumes "s = run (disk_step isTest pretty) handleDiskSpace es" and "\<not> isNotEnoughDiskSpace s"
    and "k < length (disk_checks s)" and "\<forall>n \<in> set (disk_checks s). n \<le> DISK_SPACE_REQUIRED"
    and "diskSpaceCheckInterval s \<noteq> None"
    and "list_all plenty es'"
  shows "disk_timers (run (disk_step isTest pretty) s (DiskAnswer k None # es')) = []
     \<and> disk_step isTest pretty (run (disk_step isTest pretty) s (DiskAnswer k None # es')) (DiskTimer i)
         = run (disk_step isTest pretty) s (DiskAnswer k None # es')"
proof -
  have "disk_timer_ok s" using disk.run_inv [OF disk_timer_ok_started, of isTest pretty es] assms(1) by simp
  then have "unwatched (checkFailed (s\<lparr>disk_checks := remove_nth k (disk_checks s)\<rparr>))"
    using assms(2,4,5) set_remove_nth [of k "disk_checks s"] disk_timer_ok_failed [of "s\<lparr>disk_checks := remove_nth k (disk_checks s)\<rparr>"]
    by (auto simp: unwatched_def checkFailed_def Let_def)
  then have "unwatched (disk_step isTest pretty s (DiskAnswer k None))"
    using assms(3) by (simp add: disk_step_def)
  then have "unwatched (run (disk_step isTest pretty) s (DiskAnswer k None # es'))"
    using unwatched_disk.run_inv assms(6) by simp
  then show ?thesis by (simp add: unwatched_def disk_step_def)
qed

section \<open>The node behind the watch\<close>

text \<open>
  A check restarts a node that is meant to stop. When a check finds enough space while the node is stopping, exiting, updating,
  updated or crashed, a restart of it is begun, whoever stopped it: the user who quits, or an update that waits for it to exit.
\<close>

theorem check_restarts_a_stopping_node:
  assumes "disk_checks s = [required]" and "0 < required" and "available \<ge> required" and "main_node s = Some n"
    and "st n \<notin> {STARTING, RUNNING}"
  shows "main_node (disk_step isTest pretty s (DiskAnswer 0 (Some (available, size_total))))
    = Some (spawn_task (begin_restart False n) n)"
proof -
  have "\<not> 10 * available \<le> 9 * required" using assms(2,3) by linarith
  with disk_state_has_a_margin [OF assms(1,2), of isTest pretty available size_total] assms(3,4,5) show ?thesis
    by (simp add: Let_def onCheckDiskSpace_def)
qed

section \<open>Examples\<close>

definition example_watch :: disk_watch where
  "example_watch = run (disk_step False (\<lambda>_. [])) handleDiskSpace [NodeSetUp new_BccNode, DiskRequest None]"

lemma example_watch_simps [simp]:
  "disk_checks example_watch = [DISK_SPACE_REQUIRED]" "main_node example_watch = Some new_BccNode"
  "\<not> isNotEnoughDiskSpace example_watch" "diskSpaceCheckInterval example_watch \<noteq> None"
  by (simp_all add: example_watch_def handleDiskSpace_def disk_step_def handleCheckDiskSpace_def setDiskSpaceIntervalChecking_def)

theorem one_disk_interval_witness:
  "disk_timers example_watch = [] \<or> (\<exists>i. diskSpaceCheckInterval example_watch = Some i
     \<and> disk_timers example_watch = [(i, diskSpaceCheckIntervalLength example_watch)])"
  by (rule one_disk_interval [OF example_watch_def])

theorem disk_state_has_a_margin_witness:
  "isNotEnoughDiskSpace (disk_step False (\<lambda>_. []) example_watch (DiskAnswer 0 (Some (1000, 5000))))"
  using disk_state_has_a_margin [of example_watch DISK_SPACE_REQUIRED False "\<lambda>_. []" 1000 5000]
  by (simp add: Let_def DISK_SPACE_REQUIRED_def)

theorem failed_check_ends_the_watch_witness:
  "disk_timers (run (disk_step False (\<lambda>_. [])) example_watch [DiskAnswer 0 None, DiskRequest None, DiskAnswer 0 (Some (5000000000, 9000000000))]) = []"
  using failed_check_ends_the_watch [OF example_watch_def, of 0 "[DiskRequest None, DiskAnswer 0 (Some (5000000000, 9000000000))]" 1]
  by (simp add: DISK_SPACE_REQUIRED_def)

theorem check_restarts_a_stopping_node_witness:
  "main_node (disk_step False (\<lambda>_. []) example_watch (DiskAnswer 0 (Some (5000000000, 9000000000))))
     = Some (spawn_task (begin_restart False new_BccNode) new_BccNode)"
  by (rule check_restarts_a_stopping_node [where required = DISK_SPACE_REQUIRED])
     (simp_all add: DISK_SPACE_REQUIRED_def new_BccNode_def)

end
