(* ===== verification/NodeLaunch.thy ===== *)
theory NodeLaunch imports NodeUtils JsValues begin

text \<open>
  What is prepared for the node and the backend before they run, and the wallets of an old installation: the file work of
  \<open>main/bcc/utils.js\<close> with \<open>main/utils/restoreKeystore.js\<close>, and the launchers \<open>main/bcc/BccWalletLauncher.js\<close> and
  \<open>main/bcc/BccSelfnodeLauncher.js\<close>. The files are a list of paths with contents; any operation on them may fail, as an oracle
  says. JSON, hashing, CBOR and the launcher library are parameters.
\<close>

section \<open>Paths\<close>

text \<open>\<open>path.join\<close> with slashes.\<close>

fun join_slash :: "string list \<Rightarrow> string" where
  "join_slash [] = []"
| "join_slash [p] = p"
| "join_slash (p # ps) = p @ ''/'' @ join_slash ps"

fun normal_parts :: "bool \<Rightarrow> string list \<Rightarrow> string list \<Rightarrow> string list" where
  "normal_parts absolute acc [] = rev acc"
| "normal_parts absolute acc (p # ps) =
     (if p = [] \<or> p = ''.'' then normal_parts absolute acc ps
      else if p = ''..'' then
        (case acc of
           [] \<Rightarrow> normal_parts absolute (if absolute then [] else [''..'']) ps
         | a # as \<Rightarrow> normal_parts absolute (if a = ''..'' then ''..'' # acc else as) ps)
      else normal_parts absolute (p # acc) ps)"

definition normalized :: "string \<Rightarrow> string" where
  "normalized j =
     (let absolute = (j \<noteq> [] \<and> hd j = CHR ''/'');
          t = join_slash (normal_parts absolute [] (split_on (CHR ''/'') j));
          t' = (if t = [] \<and> \<not> absolute then ''.'' else t) @ (if t \<noteq> [] \<and> last j = CHR ''/'' then ''/'' else [])
      in if absolute then CHR ''/'' # t' else t')"

definition path_join :: "string list \<Rightarrow> string" where
  "path_join ps = normalized (join_slash (filter (\<lambda>p. p \<noteq> []) ps))"

fun starts_with :: "string \<Rightarrow> string \<Rightarrow> bool" where
  "starts_with [] s = True"
| "starts_with (p # ps) [] = False"
| "starts_with (p # ps) (c # s) = (p = c \<and> starts_with ps s)"

definition ends_with :: "string \<Rightarrow> string \<Rightarrow> bool" where
  "ends_with s t \<longleftrightarrow> starts_with (rev s) (rev t)"

section \<open>Files\<close>

text \<open>A directory has no content; what is in it has a longer path.\<close>

type_synonym files = "(string \<times> string option) list"

definition in_dir :: "string \<Rightarrow> string \<Rightarrow> bool" where
  "in_dir d p \<longleftrightarrow> p = d \<or> starts_with (d @ ''/'') p"

record file_error =
  fe_code :: string
  fe_text :: string

definition new_error :: "string \<Rightarrow> file_error" where
  "new_error m = \<lparr>fe_code = [], fe_text = m\<rparr>"

definition not_found :: file_error where
  "not_found = \<lparr>fe_code = ''ENOENT'', fe_text = ''Error: ENOENT''\<rparr>"

type_synonym faults = "nat \<Rightarrow> file_error option"
type_synonym 'a io = "faults \<Rightarrow> files \<times> nat \<Rightarrow> (file_error + 'a) \<times> files \<times> nat"

definition return_io :: "'a \<Rightarrow> 'a io" where
  "return_io x fl s = (Inr x, s)"

definition throw_io :: "file_error \<Rightarrow> 'a io" where
  "throw_io e fl s = (Inl e, s)"

definition bind_io :: "'a io \<Rightarrow> ('a \<Rightarrow> 'b io) \<Rightarrow> 'b io" where
  "bind_io m f fl s = (case m fl s of (Inl e, s') \<Rightarrow> (Inl e, s') | (Inr x, s') \<Rightarrow> f x fl s')"

definition catch_io :: "'a io \<Rightarrow> (file_error \<Rightarrow> 'a io) \<Rightarrow> 'a io" where
  "catch_io m h fl s = (case m fl s of (Inl e, s') \<Rightarrow> h e fl s' | (Inr x, s') \<Rightarrow> (Inr x, s'))"

text \<open>An operation that may fail, the \<open>n\<close>th, and one that never does.\<close>

definition op_io :: "(files \<Rightarrow> (file_error + 'a) \<times> files) \<Rightarrow> 'a io" where
  "op_io f fl s = (case fl (snd s) of
       Some e \<Rightarrow> (Inl e, fst s, Suc (snd s))
     | None \<Rightarrow> (let (r, fs) = f (fst s) in (r, fs, Suc (snd s))))"

definition pathExists :: "string \<Rightarrow> bool io" where
  "pathExists p fl s = (Inr (list_ex (\<lambda>f. in_dir p (fst f)) (fst s)), s)"

definition readFile :: "string \<Rightarrow> string io" where
  "readFile p = op_io (\<lambda>fs. (case map_of fs p of Some (Some c) \<Rightarrow> Inr c | _ \<Rightarrow> Inl not_found, fs))"

definition writeFile :: "string \<Rightarrow> string \<Rightarrow> unit io" where
  "writeFile p c = op_io (\<lambda>fs. (Inr (), AList.update p (Some c) fs))"

definition removed :: "string \<Rightarrow> files \<Rightarrow> files" where
  "removed p fs = filter (\<lambda>f. \<not> in_dir p (fst f)) fs"

definition remove_file :: "string \<Rightarrow> unit io" where
  "remove_file p = op_io (\<lambda>fs. (Inr (), removed p fs))"

definition copied :: "string \<Rightarrow> string \<Rightarrow> files \<Rightarrow> files" where
  "copied a b fs = foldr (\<lambda>f. AList.update (b @ drop (length a) (fst f)) (snd f)) (filter (\<lambda>f. in_dir a (fst f)) fs) fs"

definition copy_file :: "string \<Rightarrow> string \<Rightarrow> unit io" where
  "copy_file a b = op_io (\<lambda>fs. (Inr (), copied a b fs))"

text \<open>\<open>main/utils/ensureDirectoryExists.js\<close>, where a failure ends the process.\<close>

definition ensured :: "string \<Rightarrow> files \<Rightarrow> files" where
  "ensured p fs = (if map_of fs p = None then AList.update p None fs else fs)"

definition ensureDirectoryExists :: "string \<Rightarrow> unit io" where
  "ensureDirectoryExists p fl s = (Inr (), ensured p (fst s), snd s)"

section \<open>The configuration of a local cluster\<close>

record selfnode_config =
  configPath :: string
  genesisPath :: string
  genesisHash :: string

text \<open>\<open>replace\<close> of the first carriage return and the first line feed of the hash.\<close>

definition stripped_hash :: "string \<Rightarrow> string" where
  "stripped_hash s = remove1 (CHR 0x0A) (remove1 (CHR 0x0D) s)"

definition createSelfnodeConfig ::
  "(string \<Rightarrow> fields option) \<Rightarrow> (fields \<Rightarrow> string) \<Rightarrow> (string \<Rightarrow> string) \<Rightarrow> int \<Rightarrow> string \<Rightarrow> string \<Rightarrow> string \<Rightarrow> selfnode_config io" where
  "createSelfnodeConfig parse print hash now configFilePath genesisFilePath stateDirectory =
     bind_io (pathExists genesisFilePath) (\<lambda>genesisFileExists.
     if \<not> genesisFileExists then throw_io (new_error ''No genesis file found'') else
     bind_io (readFile genesisFilePath) (\<lambda>g. case parse g of None \<Rightarrow> throw_io (new_error ''SyntaxError'') | Some genesisFileContent \<Rightarrow>
     (let startTime = (now + 3000) div 1000;
          genesisFile = print (spread genesisFileContent [(''startTime'', JNum (of_int startTime))]);
          genesis = path_join [stateDirectory, ''genesis.json''];
          config = path_join [stateDirectory, ''config.yaml'']
      in bind_io (remove_file genesis) (\<lambda>_.
         bind_io (writeFile genesis genesisFile) (\<lambda>_.
         (let genesis_hash = stripped_hash (hash genesisFile)
          in bind_io (pathExists configFilePath) (\<lambda>configFileExists.
             if \<not> configFileExists then throw_io (new_error ''No config file found'') else
             bind_io (readFile configFilePath) (\<lambda>c. case parse c of None \<Rightarrow> throw_io (new_error ''SyntaxError'') | Some configFileContent \<Rightarrow>
             bind_io (remove_file config) (\<lambda>_.
             bind_io (writeFile config (print (spread configFileContent [(''GenesisFile'', JStr genesis)]))) (\<lambda>_.
             bind_io (remove_file (path_join [stateDirectory, ''chain''])) (\<lambda>_.
             bind_io (remove_file (path_join [stateDirectory, ''wallets''])) (\<lambda>_.
             return_io \<lparr>configPath = config, genesisPath = genesis, genesisHash = genesis_hash\<rparr>))))))))))))"

section \<open>The key store of an old installation\<close>

record secret_key =
  encryptedPayload :: string
  passphraseHash :: string
  isEmptyPassphrase :: bool
  walletId :: string

text \<open>
  The library's \<open>blake2b\<close> as a text, and \<open>scrypt\<close> of the empty bytes in CBOR with the salt and the parameters \<open>N\<close>, \<open>r\<close>, \<open>p\<close>. A
  hash with fewer than four parts has no salt, which throws.
\<close>

definition mkWalletId :: "(string \<Rightarrow> string) \<Rightarrow> string \<Rightarrow> string" where
  "mkWalletId blake2b xprv = blake2b (drop 64 xprv)"

definition is_empty_passphrase :: "(string \<Rightarrow> string \<Rightarrow> string \<Rightarrow> string \<Rightarrow> string) \<Rightarrow> string \<Rightarrow> bool option" where
  "is_empty_passphrase scrypt pwd = (case split_on (CHR ''|'') pwd of
       logN # r # p # salt # rest \<Rightarrow> Some (case rest of [] \<Rightarrow> False | hashA # _ \<Rightarrow> hashA = scrypt logN r p salt)
     | _ \<Rightarrow> None)"

definition toEncryptedSecretKey ::
  "(string \<Rightarrow> string) \<Rightarrow> (string \<Rightarrow> string \<Rightarrow> string \<Rightarrow> string \<Rightarrow> string) \<Rightarrow> string \<times> string \<Rightarrow> secret_key option" where
  "toEncryptedSecretKey blake2b scrypt k = map_option (\<lambda>e. \<lparr>encryptedPayload = fst k, passphraseHash = snd k,
     isEmptyPassphrase = e, walletId = mkWalletId blake2b (fst k)\<rparr>) (is_empty_passphrase scrypt (snd k))"

text \<open>\<open>cbor\<close> gives the keys and the keys of the wallet sets, \<open>None\<close> when it cannot read them.\<close>

definition decodeKeystore ::
  "(string \<Rightarrow> ((string \<times> string) list \<times> (string \<times> string) list) option) \<Rightarrow> (string \<Rightarrow> string)
     \<Rightarrow> (string \<Rightarrow> string \<Rightarrow> string \<Rightarrow> string \<Rightarrow> string) \<Rightarrow> string \<Rightarrow> secret_key list option" where
  "decodeKeystore cbor blake2b scrypt bytes = (case cbor bytes of
       None \<Rightarrow> None
     | Some (usKeys, usWalletSet) \<Rightarrow>
         (let ks = map (toEncryptedSecretKey blake2b scrypt) (usKeys @ usWalletSet)
          in if None \<in> set ks then None else Some (map the ks)))"

section \<open>Export of the wallets\<close>

definition migration_dir :: "string \<Rightarrow> string" where
  "migration_dir stateDirectory = path_join [stateDirectory, ''migration-data'']"

fun replace_first :: "string \<Rightarrow> string \<Rightarrow> string" where
  "replace_first p [] = []"
| "replace_first p (c # s) = (if starts_with p (c # s) then drop (length p) (c # s) else c # replace_first p s)"

text \<open>The body of \<open>prepareMigrationData\<close> in its \<open>try\<close>.\<close>

definition copy_migration_data :: "string \<Rightarrow> string \<Rightarrow> string \<Rightarrow> (string \<times> string) io" where
  "copy_migration_data stateDirectory legacySecretKey legacyWalletDB =
     bind_io (remove_file (migration_dir stateDirectory)) (\<lambda>_.
     bind_io (ensureDirectoryExists (migration_dir stateDirectory)) (\<lambda>_.
     bind_io (pathExists legacySecretKey) (\<lambda>legacySecretKeyExists.
     bind_io (if legacySecretKeyExists
              then (let legacySecretKeyPath = path_join [stateDirectory, ''migration-data/secret.key'']
                    in bind_io (copy_file legacySecretKey legacySecretKeyPath) (\<lambda>_. return_io legacySecretKeyPath))
              else return_io []) (\<lambda>legacySecretKeyPath.
     bind_io (pathExists (legacyWalletDB @ ''-acid'')) (\<lambda>legacyWalletDBPathExists.
     bind_io (if legacyWalletDBPathExists
              then (let legacyWalletDBPath = path_join [stateDirectory, ''migration-data/wallet-db-acid'']
                    in bind_io (copy_file (legacyWalletDB @ ''-acid'') legacyWalletDBPath)
                         (\<lambda>_. return_io (replace_first ''-acid'' legacyWalletDBPath)))
              else return_io []) (\<lambda>legacyWalletDBPath.
     return_io (legacySecretKeyPath, legacyWalletDBPath)))))))"

text \<open>
  A busy file asks the user, whose answers are given in order; 0 tries again. \<open>None\<close>: the dialog is still open.
\<close>

fun prepareMigrationData :: "nat list \<Rightarrow> string \<Rightarrow> string \<Rightarrow> string \<Rightarrow> (string \<times> string) option io" where
  "prepareMigrationData [] stateDirectory key db =
     catch_io (bind_io (copy_migration_data stateDirectory key db) (\<lambda>r. return_io (Some r)))
       (\<lambda>e. if fe_code e = ''EBUSY'' then return_io None else throw_io e)"
| "prepareMigrationData (response # responses) stateDirectory key db =
     catch_io (bind_io (copy_migration_data stateDirectory key db) (\<lambda>r. return_io (Some r)))
       (\<lambda>e. if fe_code e = ''EBUSY''
            then (if response = 0 then prepareMigrationData responses stateDirectory key db else throw_io e)
            else throw_io e)"

definition removeMigrationData :: "string \<Rightarrow> unit io" where
  "removeMigrationData stateDirectory = catch_io (remove_file (migration_dir stateDirectory)) (\<lambda>_. return_io ())"

record exported_wallet =
  ew_id :: string
  ew_isEmptyPassphrase :: bool
  ew_passphrase_hash :: string
  ew_encrypted_root_private_key :: string

record wallets_export =
  exported_wallets :: "exported_wallet list"
  export_errors :: string

definition export_paths :: "string \<Rightarrow> string \<Rightarrow> string \<Rightarrow> string \<times> string" where
  "export_paths exportSourcePath legacySecretKey legacyWalletDB =
     (if ends_with ''secret.key'' exportSourcePath
      then (exportSourcePath, path_join [exportSourcePath, ''../..'', legacyWalletDB])
      else (path_join [exportSourcePath, legacySecretKey], path_join [exportSourcePath, legacyWalletDB]))"

text \<open>Buffers in hexadecimal.\<close>

definition hex_digit :: "nat \<Rightarrow> char" where
  "hex_digit n = (if n < 10 then char_of (48 + n) else char_of (87 + n))"

definition hex_string :: "string \<Rightarrow> string" where
  "hex_string bs = concat (map (\<lambda>c. [hex_digit (of_char c div 16), hex_digit (of_char c mod 16)]) bs)"

definition exported :: "secret_key \<Rightarrow> exported_wallet" where
  "exported w = \<lparr>ew_id = walletId w, ew_isEmptyPassphrase = isEmptyPassphrase w,
     ew_passphrase_hash = hex_string (passphraseHash w), ew_encrypted_root_private_key = hex_string (encryptedPayload w)\<rparr>"

definition read_wallets :: "(string \<Rightarrow> secret_key list option) \<Rightarrow> string \<Rightarrow> wallets_export io" where
  "read_wallets decode path = catch_io
     (bind_io (readFile path) (\<lambda>bytes. case decode bytes of
          None \<Rightarrow> throw_io (new_error ''Error'')
        | Some ws \<Rightarrow> return_io \<lparr>exported_wallets = map exported ws, export_errors = []\<rparr>))
     (\<lambda>e. return_io \<lparr>exported_wallets = [], export_errors = fe_text e\<rparr>)"

text \<open>A failure of the preparation other than a busy file is passed over, and the original files are read.\<close>

definition exportWallets ::
  "(string \<Rightarrow> secret_key list option) \<Rightarrow> nat list \<Rightarrow> string \<Rightarrow> string \<Rightarrow> string \<Rightarrow> string \<Rightarrow> wallets_export option io" where
  "exportWallets decode responses exportSourcePath legacySecretKey legacyWalletDB stateDirectory =
     (let (keyPath, dbPath) = export_paths exportSourcePath legacySecretKey legacyWalletDB
      in bind_io
           (catch_io (bind_io (prepareMigrationData responses stateDirectory keyPath dbPath) (\<lambda>r. return_io (Inr r)))
              (\<lambda>e. if fe_code e = ''EBUSY'' then return_io (Inl (fe_text e)) else return_io (Inr (Some (keyPath, dbPath)))))
           (\<lambda>r. case r of
              Inl e \<Rightarrow> return_io (Some \<lparr>exported_wallets = [], export_errors = e\<rparr>)
            | Inr None \<Rightarrow> return_io None
            | Inr (Some (key, db)) \<Rightarrow>
                bind_io (pathExists (db @ ''-acid'')) (\<lambda>_.
                bind_io (read_wallets decode key) (\<lambda>result.
                bind_io (removeMigrationData stateDirectory) (\<lambda>_. return_io (Some result))))))"

section \<open>Only the directory of the migration is written\<close>

definition outside :: "string \<Rightarrow> files \<Rightarrow> files" where
  "outside d fs = filter (\<lambda>f. \<not> in_dir d (fst f)) fs"

definition confined :: "string \<Rightarrow> 'a io \<Rightarrow> bool" where
  "confined d m \<longleftrightarrow> (\<forall>fl s. outside d (fst (snd (m fl s))) = outside d (fst s))"

lemma confinedD: "confined d m \<Longrightarrow> m fl s = (r, fs, n) \<Longrightarrow> outside d fs = outside d (fst s)"
  unfolding confined_def by (metis fst_conv snd_conv)

named_theorems confined_rules

lemma confined_return [confined_rules]: "confined d (return_io x)" "confined d (throw_io e)" "confined d (pathExists p)"
  by (simp_all add: confined_def return_io_def throw_io_def pathExists_def)

lemma confined_bind [confined_rules]: "confined d m \<Longrightarrow> (\<And>x. confined d (f x)) \<Longrightarrow> confined d (bind_io m f)"
  by (auto simp: confined_def bind_io_def split: prod.split sum.split) (metis fst_conv snd_conv)+

lemma confined_catch [confined_rules]: "confined d m \<Longrightarrow> (\<And>e. confined d (h e)) \<Longrightarrow> confined d (catch_io m h)"
  by (auto simp: confined_def catch_io_def split: prod.split sum.split) (metis fst_conv snd_conv)+

lemma confined_op: "(\<And>fs. outside d (snd (f fs)) = outside d fs) \<Longrightarrow> confined d (op_io f)"
  by (auto simp: confined_def op_io_def Let_def split: option.split prod.split) (metis snd_conv)

lemma confined_read [confined_rules]: "confined d (readFile p)"
  unfolding readFile_def by (rule confined_op) simp

lemma starts_with_append: "starts_with (p @ q) s \<Longrightarrow> starts_with p s"
  by (induction p s rule: starts_with.induct) simp_all

lemma starts_with_iff: "starts_with p s \<longleftrightarrow> (\<exists>t. s = p @ t)"
  by (induction p s rule: starts_with.induct) auto

lemma in_dir_trans: "in_dir d p \<Longrightarrow> in_dir p q \<Longrightarrow> in_dir d q"
  by (auto simp: in_dir_def starts_with_iff)

lemma in_dir_extended: "in_dir d b \<Longrightarrow> in_dir a p \<Longrightarrow> in_dir d (b @ drop (length a) p)"
  by (auto simp: in_dir_def starts_with_iff)

lemma outside_update: "in_dir d p \<Longrightarrow> outside d (AList.update p c fs) = outside d fs"
  by (induction fs) (auto simp: outside_def)

lemma outside_removed: "in_dir d p \<Longrightarrow> outside d (removed p fs) = outside d fs"
  unfolding outside_def removed_def filter_filter by (rule filter_cong) (auto dest: in_dir_trans)

lemma outside_copied: "in_dir d b \<Longrightarrow> outside d (copied a b fs) = outside d fs"
proof -
  assume b: "in_dir d b"
  have "outside d (foldr (\<lambda>f. AList.update (b @ drop (length a) (fst f)) (snd f)) gs fs0) = outside d fs0"
    if "\<forall>f \<in> set gs. in_dir a (fst f)" for gs fs0
    using that by (induction gs) (simp_all add: outside_update in_dir_extended [OF b])
  then show ?thesis unfolding copied_def by simp
qed

lemma confined_remove: "in_dir d p \<Longrightarrow> confined d (remove_file p)"
  unfolding remove_file_def by (rule confined_op) (simp add: outside_removed)

lemma confined_copy: "in_dir d b \<Longrightarrow> confined d (copy_file a b)"
  unfolding copy_file_def by (rule confined_op) (simp add: outside_copied)

lemma confined_ensure: "in_dir d p \<Longrightarrow> confined d (ensureDirectoryExists p)"
  by (simp add: confined_def ensureDirectoryExists_def ensured_def outside_update)

subsection \<open>Paths below the directory of the state\<close>

lemma split_on_at: "split_on c (a @ c # b) = split_on c a @ split_on c b"
proof (induction a)
  case (Cons x a)
  then show ?case using split_on_nonempty [of c a] by (auto split: list.split)
qed simp

definition name_part :: "string \<Rightarrow> bool" where
  "name_part p \<longleftrightarrow> p \<noteq> [] \<and> p \<noteq> ''.'' \<and> p \<noteq> ''..''"

lemma normal_parts_names: "list_all name_part ys \<Longrightarrow> normal_parts absolute acc ys = rev acc @ ys"
  by (induction ys arbitrary: acc) (simp_all add: name_part_def)

lemma normal_parts_append:
  "list_all name_part ys \<Longrightarrow> normal_parts absolute acc (xs @ ys) = normal_parts absolute acc xs @ ys"
proof (induction absolute acc xs rule: normal_parts.induct)
  case (1 absolute acc)
  then show ?case by (simp add: normal_parts_names)
next
  case (2 absolute acc p ps)
  then show ?case by (auto split: list.split)
qed

lemma join_slash_snoc: "join_slash (ps @ [p]) = (if ps = [] then p else join_slash ps @ ''/'' @ p)"
  by (induction ps rule: join_slash.induct) auto

lemma join_slash_nonempty: "list_ex name_part ps \<Longrightarrow> join_slash ps \<noteq> []"
  by (induction ps rule: join_slash.induct) (auto simp: name_part_def)

lemma normalized_names:
  assumes "(j \<noteq> [] \<and> hd j = CHR ''/'') = absolute" and "normal_parts absolute [] (split_on (CHR ''/'') j) = ns"
    and "join_slash ns \<noteq> []" and "last j \<noteq> CHR ''/''"
  shows "normalized j = (if absolute then CHR ''/'' # join_slash ns else join_slash ns)"
  unfolding normalized_def Let_def assms(1,2) using assms(3,4) by simp

text \<open>Two paths that end in names, one below the other.\<close>

lemma path_join_below:
  assumes "split_on (CHR ''/'') q = ps @ [p]" and "list_all name_part ps" and "name_part p" and "ps \<noteq> []"
    and "split_on (CHR ''/'') q' = ps" and "last q \<noteq> CHR ''/''" and "last q' \<noteq> CHR ''/''"
    and "q \<noteq> []" and "q' \<noteq> []" and "hd q \<noteq> CHR ''/''" and "hd q' \<noteq> CHR ''/''"
  shows "path_join [d, q] = path_join [d, q'] @ ''/'' @ p"
proof -
  let ?j = "\<lambda>q. if d = [] then q else d @ ''/'' @ q"
  have parts: "split_on (CHR ''/'') (?j q) = (if d = [] then [] else split_on (CHR ''/'') d) @ split_on (CHR ''/'') q" for q
    using split_on_at [of "CHR ''/''" d q] by simp
  let ?abs = "d \<noteq> [] \<and> hd d = CHR ''/''"
  let ?n = "normal_parts ?abs [] (if d = [] then [] else split_on (CHR ''/'') d) @ ps"
  have n': "normal_parts ?abs [] (split_on (CHR ''/'') (?j q')) = ?n"
    unfolding parts assms(5) using normal_parts_append [OF assms(2)] by blast
  have "list_all name_part (ps @ [p])" using assms(2,3) by simp
  then have n: "normal_parts ?abs [] (split_on (CHR ''/'') (?j q)) = ?n @ [p]"
    unfolding parts assms(1) using normal_parts_append [of "ps @ [p]"] by simp
  have "list_ex name_part ?n" using assms(2,4) by (cases ps) simp_all
  then have t: "join_slash ?n \<noteq> []" "join_slash (?n @ [p]) = join_slash ?n @ ''/'' @ p"
    using join_slash_nonempty join_slash_snoc [of ?n p] by auto
  have j: "join_slash (filter (\<lambda>p. p \<noteq> []) [d, q]) = ?j q" "join_slash (filter (\<lambda>p. p \<noteq> []) [d, q']) = ?j q'"
    using assms(8,9) by simp_all
  have abs: "(?j q \<noteq> [] \<and> hd (?j q) = CHR ''/'') = ?abs" "(?j q' \<noteq> [] \<and> hd (?j q') = CHR ''/'') = ?abs"
    using assms(8-11) by auto
  have last: "last (?j q) \<noteq> CHR ''/''" "last (?j q') \<noteq> CHR ''/''" using assms(6-9) by simp_all
  have "path_join [d, q] = (if ?abs then CHR ''/'' # join_slash (?n @ [p]) else join_slash (?n @ [p]))"
    unfolding path_join_def j by (rule normalized_names [OF abs(1) n _ last(1)]) (use t in simp)
  moreover have "path_join [d, q'] = (if ?abs then CHR ''/'' # join_slash ?n else join_slash ?n)"
    unfolding path_join_def j by (rule normalized_names [OF abs(2) n' t(1) last(2)])
  ultimately show ?thesis unfolding t(2) by (cases ?abs) simp_all
qed

lemma migration_paths:
  "path_join [d, ''migration-data/secret.key''] = migration_dir d @ ''/secret.key''"
  "path_join [d, ''migration-data/wallet-db-acid''] = migration_dir d @ ''/wallet-db-acid''"
  unfolding migration_dir_def
  by (rule trans [OF path_join_below [where ps = "[''migration-data'']" and p = "''secret.key''"]]; simp add: name_part_def)
     (rule trans [OF path_join_below [where ps = "[''migration-data'']" and p = "''wallet-db-acid''"]]; simp add: name_part_def)

lemma in_dir_self [simp]: "in_dir d d" and in_dir_child [simp]: "in_dir d (d @ CHR ''/'' # p)"
  by (simp_all add: in_dir_def starts_with_iff)

lemma confined_copy_migration: "confined (migration_dir d) (copy_migration_data d key db)"
  unfolding copy_migration_data_def Let_def migration_paths
  by (intro confined_rules confined_remove confined_ensure; (intro confined_rules confined_copy | simp)?)
     (auto intro!: confined_rules confined_copy)

lemma confined_prepare: "confined (migration_dir d) (prepareMigrationData responses d key db)"
  by (induction responses) (auto intro!: confined_rules confined_copy_migration)

lemma confined_export: "confined (migration_dir d) (exportWallets decode responses src key db d)"
  unfolding exportWallets_def read_wallets_def removeMigrationData_def
  by (cases "export_paths src key db")
     (auto intro!: confined_rules confined_prepare confined_remove split: sum.split option.split)

text \<open>
  The export of an old installation only writes where it may. Whatever operations fail, whatever the user answers and wherever the
  old files are, every file outside the directory \<open>migration-data\<close> of the state keeps its content, the old key store included.
\<close>

theorem export_keeps_the_files:
  "outside (migration_dir d) (fst (snd (exportWallets decode responses src key db d fl s))) = outside (migration_dir d) (fst s)"
  using confined_export [of d decode responses src key db] unfolding confined_def by blast

section \<open>What an export finds\<close>

definition no_faults :: faults where "no_faults n = None"

lemma op_io_ok [simp]: "op_io f no_faults s = (let (r, fs) = f (fst s) in (r, fs, Suc (snd s)))"
  by (simp add: op_io_def no_faults_def)

lemmas io_defs = bind_io_def catch_io_def return_io_def throw_io_def pathExists_def readFile_def writeFile_def remove_file_def
  copy_file_def ensureDirectoryExists_def Let_def

lemma map_of_removed: "map_of (removed d fs) p = (if in_dir d p then None else map_of fs p)"
  unfolding removed_def by (induction fs) auto

lemma removed_none: "\<not> list_ex (\<lambda>f. in_dir d (fst f)) (removed d fs)"
  by (auto simp: removed_def list_ex_iff)

lemma in_dir_listed: "map_of fs p = Some c \<Longrightarrow> in_dir d p \<Longrightarrow> list_ex (\<lambda>f. in_dir d (fst f)) fs"
  by (force simp: list_ex_iff dest: map_of_SomeD)

lemma copied_lookup: "map_of fs a = Some c \<Longrightarrow> map_of (copied a b fs) b = Some c"
proof -
  assume c: "map_of fs a = Some c"
  have fold: "map_of (foldr (\<lambda>f. AList.update (b @ drop (length a) (fst f)) (snd f)) gs fs0) b
      = (case map_of gs a of Some c \<Rightarrow> Some c | None \<Rightarrow> map_of fs0 b)" if "\<forall>f \<in> set gs. in_dir a (fst f)" for gs fs0 :: files
    using that by (induction gs) (auto simp: update_conv in_dir_def starts_with_iff)
  have "map_of (filter (\<lambda>f. in_dir a (fst f)) fs) a = map_of fs a"
    by (induction fs) auto
  with c fold [of "filter (\<lambda>f. in_dir a (fst f)) fs" fs] show ?thesis unfolding copied_def by simp
qed

lemma copied_other: "\<not> in_dir b p \<Longrightarrow> map_of (copied a b fs) p = map_of fs p"
proof -
  assume p: "\<not> in_dir b p"
  have "map_of (foldr (\<lambda>f. AList.update (b @ drop (length a) (fst f)) (snd f)) gs fs0) p = map_of fs0 p"
    if "\<forall>f \<in> set gs. in_dir a (fst f)" for gs fs0 :: files
    using that p by (induction gs) (auto simp: update_conv dest: in_dir_extended [OF in_dir_self])
  from this [of "filter (\<lambda>f. in_dir a (fst f)) fs" fs] show ?thesis unfolding copied_def by simp
qed

lemma migration_children [simp]:
  "\<not> in_dir (migration_dir d @ ''/wallet-db-acid'') (migration_dir d @ ''/secret.key'')"
  "\<not> in_dir (migration_dir d @ CHR ''/'' # ''wallet-db-acid'') (migration_dir d @ CHR ''/'' # ''secret.key'')"
  by (simp_all add: in_dir_def starts_with_iff)

text \<open>The copy without a failure.\<close>

lemma copied_without_failure:
  assumes "map_of fs key = Some (Some c)" and "\<not> in_dir (migration_dir d) key"
  obtains db' fs' n' where "copy_migration_data d key db no_faults (fs, n) = (Inr (migration_dir d @ ''/secret.key'', db'), fs', n')"
    and "map_of fs' (migration_dir d @ ''/secret.key'') = Some (Some c)"
proof -
  let ?d = "migration_dir d" and ?k = "migration_dir d @ ''/secret.key''" and ?w = "migration_dir d @ ''/wallet-db-acid''"
  let ?fs1 = "removed ?d fs"
  let ?fs2 = "ensured ?d ?fs1"
  let ?fs3 = "copied key ?k ?fs2"
  have "key \<noteq> ?d" using assms(2) by auto
  then have key2: "map_of ?fs2 key = Some (Some c)" using assms by (auto simp: ensured_def map_of_removed update_conv)
  then have found: "list_ex (\<lambda>f. in_dir key (fst f)) ?fs2" by (rule in_dir_listed) simp
  have k3: "map_of ?fs3 ?k = Some (Some c)" by (rule copied_lookup [OF key2])
  show thesis
  proof (cases "list_ex (\<lambda>f. in_dir (db @ ''-acid'') (fst f)) ?fs3")
    case True
    have "copy_migration_data d key db no_faults (fs, n)
        = (Inr (?k, replace_first ''-acid'' ?w), copied (db @ ''-acid'') ?w ?fs3, Suc (Suc (Suc n)))"
      using found True unfolding copy_migration_data_def migration_paths by (simp add: io_defs)
    moreover have "map_of (copied (db @ ''-acid'') ?w ?fs3) ?k = Some (Some c)"
      using k3 by (simp only: copied_other migration_children not_False_eq_True)
    ultimately show thesis by (rule that)
  next
    case False
    have "copy_migration_data d key db no_faults (fs, n) = (Inr (?k, []), ?fs3, Suc (Suc n))"
      using found False unfolding copy_migration_data_def migration_paths by (simp add: io_defs)
    then show thesis using k3 by (rule that)
  qed
qed

text \<open>
  The export returns the wallets of the old key store. Without failures, when the key store that the source names can be read and
  decoded, exactly its keys are exported, in order, and afterwards nothing is left in the directory of the migration.
\<close>

theorem export_finds_the_wallets:
  assumes "key = fst (export_paths src legacySecretKey legacyWalletDB)"
    and "map_of fs key = Some (Some bytes)" and "\<not> in_dir (migration_dir d) key" and "decode bytes = Some ws"
  shows "\<exists>fs' n. exportWallets decode responses src legacySecretKey legacyWalletDB d no_faults (fs, 0)
      = (Inr (Some \<lparr>exported_wallets = map exported ws, export_errors = []\<rparr>), fs', n)
     \<and> \<not> list_ex (\<lambda>f. in_dir (migration_dir d) (fst f)) fs'"
proof -
  obtain db where paths: "export_paths src legacySecretKey legacyWalletDB = (key, db)" using assms(1) by (metis prod.collapse)
  obtain db' fs1 n1 where c: "copy_migration_data d key db no_faults (fs, 0) = (Inr (migration_dir d @ ''/secret.key'', db'), fs1, n1)"
    and k: "map_of fs1 (migration_dir d @ ''/secret.key'') = Some (Some bytes)"
    using copied_without_failure [OF assms(2,3)] .
  have "prepareMigrationData responses d key db no_faults (fs, 0) = (Inr (Some (migration_dir d @ ''/secret.key'', db')), fs1, n1)"
    using c by (cases responses) (simp_all add: bind_io_def catch_io_def return_io_def)
  then have "exportWallets decode responses src legacySecretKey legacyWalletDB d no_faults (fs, 0)
      = (Inr (Some \<lparr>exported_wallets = map exported ws, export_errors = []\<rparr>), removed (migration_dir d) fs1, Suc (Suc n1))"
    using k assms(4) unfolding exportWallets_def read_wallets_def removeMigrationData_def paths by (simp add: io_defs)
  then show ?thesis using removed_none by blast
qed

text \<open>
  A cancelled export leaves a copy of the keys. When the data base of the old wallets is busy and the user gives up, the key store
  that was copied before stays in the directory of the migration.
\<close>

theorem cancelled_export_leaves_the_keys:
  assumes "(key, db) = export_paths src legacySecretKey legacyWalletDB"
    and "map_of fs key = Some (Some bytes)" and "\<not> in_dir (migration_dir d) key"
    and "map_of fs (db @ ''-acid'') = Some c" and "\<not> in_dir (migration_dir d) (db @ ''-acid'')"
    and "fl 0 = None" and "fl 1 = None" and "fl 2 = Some e" and "fe_code e = ''EBUSY''" and "response \<noteq> 0"
  shows "\<exists>fs'. exportWallets decode [response] src legacySecretKey legacyWalletDB d fl (fs, 0)
      = (Inr (Some \<lparr>exported_wallets = [], export_errors = fe_text e\<rparr>), fs', 3)
     \<and> map_of fs' (migration_dir d @ ''/secret.key'') = Some (Some bytes)"
proof -
  let ?d = "migration_dir d" and ?k = "migration_dir d @ ''/secret.key''"
  let ?fs1 = "removed ?d fs"
  let ?fs2 = "ensured ?d ?fs1"
  let ?fs3 = "copied key ?k ?fs2"
  have ne: "key \<noteq> ?d" "db @ ''-acid'' \<noteq> ?d" using assms(3,5) by auto
  then have key2: "map_of ?fs2 key = Some (Some bytes)" and db2: "map_of ?fs2 (db @ ''-acid'') = Some c"
    using assms(2-5) by (auto simp: ensured_def map_of_removed update_conv)
  have found: "list_ex (\<lambda>f. in_dir key (fst f)) ?fs2" using in_dir_listed [OF key2 in_dir_self] .
  have "\<not> in_dir ?k (db @ ''-acid'')" using assms(5) in_dir_trans [of ?d ?k] by auto
  then have "map_of ?fs3 (db @ ''-acid'') = Some c" using db2 by (simp add: copied_other)
  then have found3: "list_ex (\<lambda>f. in_dir (db @ ''-acid'') (fst f)) ?fs3" by (rule in_dir_listed) simp
  have n3: "fl (Suc 0) = None" "fl (Suc (Suc 0)) = Some e" using assms(7,8) by (simp_all add: numeral_2_eq_2)
  have "copy_migration_data d key db fl (fs, 0) = (Inl e, ?fs3, 3)"
    using found found3 assms(6) n3 unfolding copy_migration_data_def migration_paths by (simp add: io_defs op_io_def)
  then have "prepareMigrationData [response] d key db fl (fs, 0) = (Inl e, ?fs3, 3)"
    using assms(9,10) by (simp add: bind_io_def catch_io_def throw_io_def)
  then have "exportWallets decode [response] src legacySecretKey legacyWalletDB d fl (fs, 0)
      = (Inr (Some \<lparr>exported_wallets = [], export_errors = fe_text e\<rparr>), ?fs3, 3)"
    using assms(1,9) unfolding exportWallets_def by (simp add: bind_io_def catch_io_def return_io_def flip: assms(1))
  then show ?thesis using copied_lookup [OF key2] by blast
qed

section \<open>What the local cluster is given\<close>

definition state_base :: "string \<Rightarrow> string" where
  "state_base d =
     (let absolute = (d \<noteq> [] \<and> hd d = CHR ''/'');
          ps = normal_parts absolute [] (if d = [] then [] else split_on (CHR ''/'') d)
      in (if absolute then ''/'' else []) @ (if ps = [] then [] else join_slash ps @ ''/''))"

lemma split_on_name: "CHR ''/'' \<notin> set n \<Longrightarrow> split_on (CHR ''/'') n = [n]"
  by (induction n) auto

lemma state_path:
  assumes "name_part n" and "CHR ''/'' \<notin> set n"
  shows "path_join [d, n] = state_base d @ n"
proof -
  let ?j = "if d = [] then n else d @ ''/'' @ n" and ?abs = "d \<noteq> [] \<and> hd d = CHR ''/''"
  let ?ps = "normal_parts ?abs [] (if d = [] then [] else split_on (CHR ''/'') d)"
  have "n \<noteq> []" using assms(1) by (simp add: name_part_def)
  then have n: "n \<noteq> []" "last n \<noteq> CHR ''/''" "hd n \<noteq> CHR ''/''" using assms(2) last_in_set hd_in_set by metis+
  have "split_on (CHR ''/'') ?j = (if d = [] then [] else split_on (CHR ''/'') d) @ [n]"
    using split_on_at [of "CHR ''/''" d n] split_on_name [OF assms(2)] by simp
  then have parts: "normal_parts ?abs [] (split_on (CHR ''/'') ?j) = ?ps @ [n]"
    using normal_parts_append [of "[n]"] assms(1) by simp
  have "path_join [d, n] = (if ?abs then CHR ''/'' # join_slash (?ps @ [n]) else join_slash (?ps @ [n]))"
    unfolding path_join_def using n
    by (intro trans [OF _ normalized_names [OF _ parts]]) (auto simp: join_slash_snoc)
  then show ?thesis by (simp add: state_base_def join_slash_snoc Let_def)
qed

lemma state_paths:
  "path_join [d, ''genesis.json''] = state_base d @ ''genesis.json''" "path_join [d, ''config.yaml''] = state_base d @ ''config.yaml''"
  "path_join [d, ''chain''] = state_base d @ ''chain''" "path_join [d, ''wallets''] = state_base d @ ''wallets''"
  by (rule state_path; simp add: name_part_def)+

lemma in_dir_base: "in_dir (b @ n) (b @ m) \<longleftrightarrow> in_dir n m"
  by (simp add: in_dir_def starts_with_iff)

lemma read_step: "map_of fs p = Some (Some c) \<Longrightarrow> readFile p no_faults (fs, n) = (Inr c, fs, Suc n)"
  by (simp add: readFile_def)

lemma file_steps:
  "pathExists p fl (fs, n) = (Inr (list_ex (\<lambda>f. in_dir p (fst f)) fs), fs, n)"
  "writeFile p c no_faults (fs, n) = (Inr (), AList.update p (Some c) fs, Suc n)"
  "remove_file p no_faults (fs, n) = (Inr (), removed p fs, Suc n)"
  by (simp_all add: pathExists_def writeFile_def remove_file_def)

definition selfnode_path :: "string \<Rightarrow> string \<Rightarrow> bool" where
  "selfnode_path d p \<longleftrightarrow> list_ex (\<lambda>n. in_dir (path_join [d, n]) p) [''genesis.json'', ''config.yaml'', ''chain'', ''wallets'']"

text \<open>
  A local cluster starts afresh. Without failures the cluster is given the genesis file with a start three seconds from now, its
  hash, and the configuration that names it; the chain and the wallets of the last run are gone, and no other file has changed.
\<close>

theorem local_cluster_starts_afresh:
  assumes "map_of fs genesisFile = Some (Some g)" and "parse g = Some G"
    and "map_of fs configFile = Some (Some c)" and "parse c = Some C" and "\<not> in_dir (path_join [d, ''genesis.json'']) configFile"
    and "G' = spread G [(''startTime'', JNum (of_int ((now + 3000) div 1000)))]" and "parse (print G') = Some G'"
    and "C' = spread C [(''GenesisFile'', JStr (path_join [d, ''genesis.json'']))]" and "parse (print C') = Some C'"
  shows "\<exists>r fs' n. createSelfnodeConfig parse print hash now configFile genesisFile d no_faults (fs, 0) = (Inr r, fs', n)
     \<and> genesisPath r = path_join [d, ''genesis.json''] \<and> configPath r = path_join [d, ''config.yaml'']
     \<and> (\<exists>content. map_of fs' (genesisPath r) = Some (Some content)
          \<and> parse content = Some G' \<and> genesisHash r = stripped_hash (hash content))
     \<and> (\<exists>content. map_of fs' (configPath r) = Some (Some content) \<and> parse content = Some C')
     \<and> (\<forall>p. in_dir (path_join [d, ''chain'']) p \<or> in_dir (path_join [d, ''wallets'']) p \<longrightarrow> map_of fs' p = None)
     \<and> (\<forall>p. \<not> selfnode_path d p \<longrightarrow> map_of fs' p = map_of fs p)"
proof -
  let ?genesis = "state_base d @ ''genesis.json''" and ?config = "state_base d @ ''config.yaml''"
  let ?chain = "state_base d @ ''chain''" and ?wallets = "state_base d @ ''wallets''"
  let ?g = "print (spread G [(''startTime'', JNum (of_int ((now + 3000) div 1000)))])"
  let ?c = "print (spread C [(''GenesisFile'', JStr ?genesis)])"
  define fs1 where "fs1 = AList.update ?genesis (Some ?g) (removed ?genesis fs)"
  define fs2 where "fs2 = AList.update ?config (Some ?c) (removed ?config fs1)"
  define fs' where "fs' = removed ?wallets (removed ?chain fs2)"
  have ng: "\<not> in_dir ?genesis configFile" using assms(5) by (simp only: state_paths not_False_eq_True)
  then have "configFile \<noteq> ?genesis" by auto
  with ng have c: "map_of fs1 configFile = Some (Some c)" using assms(3) by (simp add: fs1_def update_conv map_of_removed)
  note found = in_dir_listed [OF assms(1) in_dir_self] in_dir_listed [OF c in_dir_self]
  have run: "createSelfnodeConfig parse print hash now configFile genesisFile d no_faults (fs, 0)
      = (Inr \<lparr>configPath = ?config, genesisPath = ?genesis, genesisHash = stripped_hash (hash ?g)\<rparr>, fs', 8)"
    unfolding createSelfnodeConfig_def state_paths bind_io_def
    by (simp only: file_steps found read_step [OF assms(1)] read_step [OF c] assms(2,4) Let_def option.case prod.case sum.case
        not_True_eq_False if_False return_io_def throw_io_def fs1_def [symmetric] fs2_def [symmetric] fs'_def [symmetric])
       (simp add: eval_nat_numeral)
  have apart: "\<not> in_dir ?config ?genesis" "\<not> in_dir ?chain ?genesis" "\<not> in_dir ?wallets ?genesis"
      "\<not> in_dir ?chain ?config" "\<not> in_dir ?wallets ?config" "?config \<noteq> ?genesis"
    unfolding in_dir_base by (simp_all add: in_dir_def)
  have g': "map_of fs' ?genesis = Some (Some ?g)" and c': "map_of fs' ?config = Some (Some ?c)"
    using apart by (simp_all add: fs'_def fs2_def fs1_def map_of_removed update_conv del: update.simps append_assoc)
  have gone: "\<forall>p. in_dir ?chain p \<or> in_dir ?wallets p \<longrightarrow> map_of fs' p = None"
    by (auto simp: fs'_def map_of_removed)
  have kept: "\<forall>p. \<not> selfnode_path d p \<longrightarrow> map_of fs' p = map_of fs p"
  proof (intro allI impI)
    fix p assume "\<not> selfnode_path d p"
    then have "\<not> in_dir ?genesis p" "\<not> in_dir ?config p" "\<not> in_dir ?chain p" "\<not> in_dir ?wallets p"
      by (simp_all add: selfnode_path_def state_paths)
    moreover from this have "p \<noteq> ?genesis" "p \<noteq> ?config" by (metis in_dir_self)+
    ultimately show "map_of fs' p = map_of fs p"
      by (simp add: fs'_def fs2_def fs1_def map_of_removed update_conv del: update.simps append_assoc)
  qed
  let ?r = "\<lparr>configPath = ?config, genesisPath = ?genesis, genesisHash = stripped_hash (hash ?g)\<rparr>"
  have "genesisPath ?r = ?genesis \<and> configPath ?r = ?config" by simp
  moreover have "\<exists>content. map_of fs' (genesisPath ?r) = Some (Some content)
      \<and> parse content = Some G' \<and> genesisHash ?r = stripped_hash (hash content)"
    using g' assms(6,7) by (intro exI [of _ ?g]) (simp del: spread.simps)
  moreover have "\<exists>content. map_of fs' (configPath ?r) = Some (Some content) \<and> parse content = Some C'"
    using c' assms(8,9) unfolding state_paths by (intro exI [of _ ?c]) (simp del: spread.simps)
  ultimately show ?thesis using gone kept unfolding state_paths
    by (intro exI [of _ ?r] exI [of _ fs'] exI [of _ 8] conjI run) (elim conjE, assumption)+
qed

section \<open>The launcher of the backend\<close>

record wallet_options =
  wo_isBcc :: bool                 \<comment> \<open>the implementation is \<open>bcc\<close>\<close>
  wo_cluster :: string
  wo_stateDir :: string
  wo_tlsPath :: string
  wo_configPath :: string
  wo_configFile :: string          \<comment> \<open>of \<open>nodeConfig.network\<close>\<close>
  wo_genesisFile :: string
  wo_syncTolerance :: string
  wo_isStaging :: bool
  wo_metadataUrl :: "string option"

record launcher_config =
  lc_networkName :: string
  lc_stateDir :: string
  lc_configFile :: string
  lc_genesis :: "(string \<times> string) option"     \<comment> \<open>path and hash of a local cluster's genesis file\<close>
  lc_apiPort :: "nat option"
  lc_syncToleranceSeconds :: "nat option"       \<comment> \<open>\<open>None\<close>: not a number\<close>
  lc_tls :: "(string \<times> string \<times> string) option"
  lc_tokenMetadataServer :: "string option"

text \<open>\<open>parseInt(s.replace('s', ''), 10)\<close> of a text without blanks or signs before its digits.\<close>

fun leading_digits :: "string \<Rightarrow> string" where
  "leading_digits [] = []"
| "leading_digits (c # s) = (if 48 \<le> (of_char c :: nat) \<and> (of_char c :: nat) \<le> 57 then c # leading_digits s else [])"

definition parse_tolerance :: "string \<Rightarrow> nat option" where
  "parse_tolerance s = (let ds = leading_digits (remove1 (CHR ''s'') s)
     in if ds = [] then None else Some (foldl (\<lambda>n c. 10 * n + (of_char c - 48)) 0 ds))"

definition FALLBACK_TOKEN_METADATA_SERVER_URL :: string where
  "FALLBACK_TOKEN_METADATA_SERVER_URL = ''https://metadata.bcc-testnet.tbcodev.io''"

text \<open>\<open>mock\<close>: the port of the mock server, a text, 0 and the empty text being none.\<close>

definition tokenMetadataServer :: "string option \<Rightarrow> string option \<Rightarrow> string" where
  "tokenMetadataServer mock metadataUrl = (case mock of
       Some (c # port) \<Rightarrow> ''http://localhost:'' @ c # port
     | _ \<Rightarrow> (case metadataUrl of Some (c # u) \<Rightarrow> c # u | _ \<Rightarrow> FALLBACK_TOKEN_METADATA_SERVER_URL))"

definition network_name :: "string \<Rightarrow> bool \<Rightarrow> string" where
  "network_name cluster staging = (if cluster = ''mainnet'' then ''mainnet'' else if staging then ''staging'' else ''testnet'')"

definition BccWalletLauncher ::
  "(string \<Rightarrow> fields option) \<Rightarrow> (fields \<Rightarrow> string) \<Rightarrow> (string \<Rightarrow> string) \<Rightarrow> int \<Rightarrow> bool \<Rightarrow> string option \<Rightarrow> wallet_options \<Rightarrow> launcher_config io" where
  "BccWalletLauncher parse print hash now isProduction mock w =
     (let config = \<lparr>lc_networkName = wo_cluster w, lc_stateDir = wo_stateDir w, lc_configFile = wo_configPath w, lc_genesis = None,
            lc_apiPort = None, lc_syncToleranceSeconds = parse_tolerance (wo_syncTolerance w), lc_tls = None,
            lc_tokenMetadataServer = None\<rparr>
      in bind_io (if \<not> isProduction \<and> wo_isBcc w then copy_file ''tls'' (wo_tlsPath w) else return_io ()) (\<lambda>_.
         if \<not> wo_isBcc w then return_io config
         else bind_io
           (if wo_cluster w = ''selfnode''
            then bind_io (createSelfnodeConfig parse print hash now (wo_configFile w) (wo_genesisFile w) (wo_stateDir w)) (\<lambda>r.
                 return_io (config\<lparr>lc_configFile := configPath r, lc_genesis := Some (genesisPath r, genesisHash r),
                                  lc_apiPort := Some 8088\<rparr>))
            else return_io (config\<lparr>lc_configFile := wo_configFile w\<rparr>)) (\<lambda>config.
           return_io (config\<lparr>lc_networkName := network_name (wo_cluster w) (wo_isStaging w),
             lc_tls := Some (path_join [wo_tlsPath w, ''server/ca.crt''], path_join [wo_tlsPath w, ''server/server.crt''],
                             path_join [wo_tlsPath w, ''server/server.key'']),
             lc_tokenMetadataServer := Some (tokenMetadataServer mock (wo_metadataUrl w))\<rparr>))))"

text \<open>The launcher's configuration: the network, the port and the files of a local cluster.\<close>

lemma launched_backend:
  assumes "wo_isBcc w" and "isProduction"
    and "wo_cluster w = ''selfnode'' \<Longrightarrow> createSelfnodeConfig parse print hash now (wo_configFile w) (wo_genesisFile w) (wo_stateDir w) fl s
           = (Inr r, s')"
  shows "\<exists>config. fst (BccWalletLauncher parse print hash now isProduction mock w fl s) = Inr config
     \<and> lc_networkName config = network_name (wo_cluster w) (wo_isStaging w)
     \<and> (if wo_cluster w = ''selfnode'' then lc_apiPort config = Some 8088 \<and> lc_configFile config = configPath r
          \<and> lc_genesis config = Some (genesisPath r, genesisHash r)
        else lc_apiPort config = None \<and> lc_configFile config = wo_configFile w)"
  using assms by (simp add: BccWalletLauncher_def bind_io_def return_io_def Let_def)

section \<open>The launcher of a local cluster\<close>

record process_found =
  pf_pid :: nat
  pf_name :: string

record selfnode =
  sn_pid :: nat
  sn_processName :: string
  sn_connected :: bool

datatype launch_effect =
    SpawnCluster nat                 \<comment> \<open>the process that was started\<close>
  | SpawnMock nat
  | StopProcess nat string           \<comment> \<open>a call of \<open>onStop\<close>\<close>
  | LaunchResolved nat nat           \<comment> \<open>the node and the port\<close>
  | LaunchRejected

datatype launch_task =
    MockPortFound
  | ClusterPortFound string
  | PortAwaited nat
  | MockStopped nat

record cluster_launcher =
  mockTokenMetadataServer :: "nat option"
  selfnodes :: "selfnode list"
  launch_tasks :: "launch_task list"
  launch_effects :: "launch_effect list"

definition BCC_WALLET_PORT :: nat where "BCC_WALLET_PORT = 8088"

definition TOKEN_METADATA_SERVER_PROCESS_NAME :: "string \<Rightarrow> string" where
  "TOKEN_METADATA_SERVER_PROCESS_NAME platform =
     (if platform = ''win32'' then ''mock-token-metadata-server.exe'' else ''mock-token-metadata-server'')"

definition cl_task :: "launch_task \<Rightarrow> cluster_launcher \<Rightarrow> cluster_launcher" where
  "cl_task t s = s\<lparr>launch_tasks := launch_tasks s @ [t]\<rparr>"

definition cl_emit :: "launch_effect \<Rightarrow> cluster_launcher \<Rightarrow> cluster_launcher" where
  "cl_emit x s = s\<lparr>launch_effects := launch_effects s @ [x]\<rparr>"

definition new_cluster_launcher :: cluster_launcher where
  "new_cluster_launcher = \<lparr>mockTokenMetadataServer = None, selfnodes = [], launch_tasks = [], launch_effects = []\<rparr>"

text \<open>Both ports are looked up, the first without waiting for it.\<close>

definition BccSelfnodeLauncher :: "string \<Rightarrow> cluster_launcher \<Rightarrow> cluster_launcher" where
  "BccSelfnodeLauncher processName s = cl_task (ClusterPortFound processName) (cl_task MockPortFound s)"

definition setupSelfnode :: "nat \<Rightarrow> string \<Rightarrow> bool \<Rightarrow> cluster_launcher \<Rightarrow> cluster_launcher" where
  "setupSelfnode pid processName is_connected s =
     s\<lparr>selfnodes := selfnodes s @ [\<lparr>sn_pid = pid, sn_processName = processName, sn_connected = is_connected\<rparr>]\<rparr>"

text \<open>The processes that use the port, and the process a spawn would start.\<close>

definition cluster_port :: "string \<Rightarrow> process_found list \<Rightarrow> nat \<Rightarrow> cluster_launcher \<Rightarrow> cluster_launcher" where
  "cluster_port processName processes spawned s =
     (let n = length (selfnodes s)
      in if processes \<noteq> [] \<and> pf_name (hd processes) = processName
         then cl_emit (LaunchResolved n BCC_WALLET_PORT) (setupSelfnode (pf_pid (hd processes)) processName True s)
         else cl_task (PortAwaited n) (setupSelfnode spawned processName False (cl_emit (SpawnCluster spawned) s)))"

definition setupMockTokenMetadataServer :: "string \<Rightarrow> process_found list \<Rightarrow> nat \<Rightarrow> cluster_launcher \<Rightarrow> cluster_launcher" where
  "setupMockTokenMetadataServer platform processes spawned s =
     (if processes \<noteq> [] \<and> pf_name (hd processes) = TOKEN_METADATA_SERVER_PROCESS_NAME platform
      then s\<lparr>mockTokenMetadataServer := Some (pf_pid (hd processes))\<rparr>
      else (cl_emit (SpawnMock spawned) s)\<lparr>mockTokenMetadataServer := Some spawned\<rparr>)"

definition port_awaited :: "nat \<Rightarrow> bool \<Rightarrow> cluster_launcher \<Rightarrow> cluster_launcher" where
  "port_awaited n is_used s =
     (if is_used then cl_emit (LaunchResolved n BCC_WALLET_PORT) (s\<lparr>selfnodes := (selfnodes s)[n := (selfnodes s ! n)\<lparr>sn_connected := True\<rparr>]\<rparr>)
      else cl_emit LaunchRejected s)"

definition stop_node :: "nat \<Rightarrow> cluster_launcher \<Rightarrow> cluster_launcher" where
  "stop_node n s = (if n < length (selfnodes s)
     then cl_emit (StopProcess (sn_pid (selfnodes s ! n)) (sn_processName (selfnodes s ! n))) s else s)"

definition stop_selfnode :: "string \<Rightarrow> nat \<Rightarrow> cluster_launcher \<Rightarrow> cluster_launcher" where
  "stop_selfnode platform n s = (case mockTokenMetadataServer s of
       Some m \<Rightarrow> cl_task (MockStopped n) (cl_emit (StopProcess m (TOKEN_METADATA_SERVER_PROCESS_NAME platform)) s)
     | None \<Rightarrow> stop_node n s)"

datatype launch_answer =
    ProcessesFound "process_found list" nat
  | PortUsed bool
  | StopDone

datatype launch_event =
    LaunchCluster string
  | StopCluster nat
  | LaunchAnswer nat launch_answer

definition launcher_step :: "string \<Rightarrow> cluster_launcher \<Rightarrow> launch_event \<Rightarrow> cluster_launcher" where
  "launcher_step platform s ev = (case ev of
       LaunchCluster name \<Rightarrow> BccSelfnodeLauncher name s
     | StopCluster n \<Rightarrow> (if n < length (selfnodes s) then stop_selfnode platform n s else s)
     | LaunchAnswer k a \<Rightarrow>
         (if k < length (launch_tasks s) then
            (let s1 = s\<lparr>launch_tasks := remove_nth k (launch_tasks s)\<rparr>
             in case (launch_tasks s ! k, a) of
                  (MockPortFound, ProcessesFound ps p) \<Rightarrow> setupMockTokenMetadataServer platform ps p s1
                | (ClusterPortFound name, ProcessesFound ps p) \<Rightarrow> cluster_port name ps p s1
                | (PortAwaited n, PortUsed b) \<Rightarrow> port_awaited n b s1
                | (MockStopped n, StopDone) \<Rightarrow> stop_node n s1
                | _ \<Rightarrow> s)
          else s))"

text \<open>
  A cluster that does not answer in time keeps running. The launch is rejected, nothing stops the process that was started, and it is
  not connected.
\<close>

lemma late_cluster_keeps_running:
  assumes "launch_tasks s = [ClusterPortFound name]" and "processes = [] \<or> pf_name (hd processes) \<noteq> name"
  shows "launch_effects (run (launcher_step platform) s [LaunchAnswer 0 (ProcessesFound processes p), LaunchAnswer 0 (PortUsed False)])
      = launch_effects s @ [SpawnCluster p, LaunchRejected]"
    and "last (selfnodes (run (launcher_step platform) s [LaunchAnswer 0 (ProcessesFound processes p), LaunchAnswer 0 (PortUsed False)]))
      = \<lparr>sn_pid = p, sn_processName = name, sn_connected = False\<rparr>"
  using assms by (auto simp: launcher_step_def cluster_port_def cl_task_def cl_emit_def setupSelfnode_def port_awaited_def
      remove_nth_def Let_def)

text \<open>Every process that is stopped was found or started by the launcher.\<close>

definition own_processes :: "cluster_launcher \<Rightarrow> (nat \<times> string) list" where
  "own_processes s = map (\<lambda>n. (sn_pid n, sn_processName n)) (selfnodes s)"

definition stops_own :: "string \<Rightarrow> cluster_launcher \<Rightarrow> bool" where
  "stops_own platform s \<longleftrightarrow> (\<forall>p name. StopProcess p name \<in> set (launch_effects s) \<longrightarrow>
     name = TOKEN_METADATA_SERVER_PROCESS_NAME platform \<or> (p, name) \<in> set (own_processes s))"

lemma stops_own_ops:
  "stops_own platform (cl_task t s) = stops_own platform s"
  "(\<forall>p name. x \<noteq> StopProcess p name) \<Longrightarrow> stops_own platform (cl_emit x s) = stops_own platform s"
  "stops_own platform (s\<lparr>launch_tasks := ts\<rparr>) = stops_own platform s"
  "stops_own platform (s\<lparr>mockTokenMetadataServer := m\<rparr>) = stops_own platform s"
  "stops_own platform s \<Longrightarrow> stops_own platform (cl_emit (StopProcess p (TOKEN_METADATA_SERVER_PROCESS_NAME platform)) s)"
  "stops_own platform s \<Longrightarrow> stops_own platform (stop_node n s)"
  by (auto simp: stops_own_def own_processes_def cl_task_def cl_emit_def stop_node_def)

lemma stops_own_setup: "stops_own platform s \<Longrightarrow> stops_own platform (setupSelfnode p name c s)"
  by (auto simp: stops_own_def setupSelfnode_def own_processes_def)

lemma stops_own_connected:
  "stops_own platform (s\<lparr>selfnodes := (selfnodes s)[n := (selfnodes s ! n)\<lparr>sn_connected := True\<rparr>]\<rparr>) = stops_own platform s"
proof -
  have "map (\<lambda>n. (sn_pid n, sn_processName n)) ((selfnodes s)[n := (selfnodes s ! n)\<lparr>sn_connected := True\<rparr>])
      = map (\<lambda>n. (sn_pid n, sn_processName n)) (selfnodes s)"
    by (cases "n < length (selfnodes s)") (simp_all add: map_update list_update_same_conv list_update_beyond)
  then show ?thesis unfolding stops_own_def own_processes_def by simp
qed

lemma stops_own_answer:
  assumes "stops_own platform s"
  shows "stops_own platform (setupMockTokenMetadataServer platform ps p s)" "stops_own platform (cluster_port name ps p s)"
    "stops_own platform (port_awaited n b s)" "stops_own platform (stop_selfnode platform n s)"
    "stops_own platform (BccSelfnodeLauncher name s)"
  using assms by (simp_all add: setupMockTokenMetadataServer_def cluster_port_def port_awaited_def stop_selfnode_def
      BccSelfnodeLauncher_def Let_def stops_own_ops stops_own_setup stops_own_connected split: option.split)

lemma stops_own_step: "stops_own platform s \<Longrightarrow> stops_own platform (launcher_step platform s ev)"
  by (cases ev) (simp_all add: launcher_step_def Let_def stops_own_ops stops_own_answer split: launch_task.split launch_answer.split)

interpretation cluster: machine "launcher_step platform" "stops_own platform" for platform
  by unfold_locales (rule stops_own_step)

lemma stopped_processes_are_own: "stops_own platform (run (launcher_step platform) new_cluster_launcher es)"
  by (rule cluster.run_inv) (simp add: stops_own_def own_processes_def new_cluster_launcher_def)

section \<open>Examples\<close>

definition example_keystore :: "string \<Rightarrow> secret_key list option" where
  "example_keystore bytes = decodeKeystore (\<lambda>b. if b = ''cbor'' then Some ([(''payload'', ''14|8|1|salt|hash'')], []) else None)
     (\<lambda>xpub. ''id'') (\<lambda>n r p salt. ''hash'') bytes"

definition example_old_files :: files where
  "example_old_files = [(''/old/Secrets-1.0/secret.key'', Some ''cbor''), (''/old/Wallet-1.0-acid/events'', Some ''e''),
     (''/old/Wallet-1.0-acid'', None), (''/state/keep'', Some ''k'')]"

theorem export_finds_the_wallets_witness:
  "fst (exportWallets example_keystore [] ''/old'' ''Secrets-1.0/secret.key'' ''Wallet-1.0'' ''/state'' no_faults (example_old_files, 0))
     = Inr (Some \<lparr>exported_wallets = [exported \<lparr>encryptedPayload = ''payload'', passphraseHash = ''14|8|1|salt|hash'',
         isEmptyPassphrase = True, walletId = ''id''\<rparr>], export_errors = []\<rparr>)"
proof -
  have "fst (export_paths ''/old'' ''Secrets-1.0/secret.key'' ''Wallet-1.0'') = ''/old/Secrets-1.0/secret.key''"
    "map_of example_old_files ''/old/Secrets-1.0/secret.key'' = Some (Some ''cbor'')"
    "\<not> in_dir (migration_dir ''/state'') ''/old/Secrets-1.0/secret.key''"
    "example_keystore ''cbor'' = Some [\<lparr>encryptedPayload = ''payload'', passphraseHash = ''14|8|1|salt|hash'',
         isEmptyPassphrase = True, walletId = ''id''\<rparr>]"
    by code_simp+
  from export_finds_the_wallets [where responses = "[]" and decode = example_keystore, OF this(1) [symmetric] this(2,3,4)]
  show ?thesis by auto
qed

theorem cancelled_export_leaves_the_keys_witness:
  "\<exists>fs'. exportWallets example_keystore [1] ''/old'' ''Secrets-1.0/secret.key'' ''Wallet-1.0'' ''/state''
       (\<lambda>n. if n = 2 then Some \<lparr>fe_code = ''EBUSY'', fe_text = ''busy''\<rparr> else None) (example_old_files, 0)
     = (Inr (Some \<lparr>exported_wallets = [], export_errors = ''busy''\<rparr>), fs', 3)
   \<and> map_of fs' (migration_dir ''/state'' @ ''/secret.key'') = Some (Some ''cbor'')"
proof -
  have "(''/old/Secrets-1.0/secret.key'', ''/old/Wallet-1.0'') = export_paths ''/old'' ''Secrets-1.0/secret.key'' ''Wallet-1.0''"
    "map_of example_old_files ''/old/Secrets-1.0/secret.key'' = Some (Some ''cbor'')"
    "\<not> in_dir (migration_dir ''/state'') ''/old/Secrets-1.0/secret.key''"
    "map_of example_old_files (''/old/Wallet-1.0'' @ ''-acid'') = Some None"
    "\<not> in_dir (migration_dir ''/state'') (''/old/Wallet-1.0'' @ ''-acid'')"
    by code_simp+
  from cancelled_export_leaves_the_keys [OF this, where fl = "\<lambda>n. if n = 2 then Some \<lparr>fe_code = ''EBUSY'', fe_text = ''busy''\<rparr> else None"
      and e = "\<lparr>fe_code = ''EBUSY'', fe_text = ''busy''\<rparr>" and response = 1 and decode = example_keystore] show ?thesis by simp
qed

definition example_parse :: "string \<Rightarrow> fields option" where
  "example_parse s = (if s = ''genesis'' then Some [] else if s = ''config'' then Some []
     else if s = ''genesis at 3'' then Some [(''startTime'', JNum 3)]
     else if s = ''config of /state'' then Some [(''GenesisFile'', JStr ''/state/genesis.json'')] else None)"

definition example_print :: "fields \<Rightarrow> string" where
  "example_print fs = (if map_of fs ''startTime'' \<noteq> None then ''genesis at 3'' else ''config of /state'')"

theorem local_cluster_starts_afresh_witness:
  "\<exists>r fs' n. createSelfnodeConfig example_parse example_print (\<lambda>c. ''hash'') 0 ''c'' ''g'' ''/state'' no_faults
       ([(''g'', Some ''genesis''), (''c'', Some ''config'')], 0) = (Inr r, fs', n)
     \<and> genesisPath r = path_join [''/state'', ''genesis.json'']"
proof -
  have "map_of [(''g'', Some ''genesis''), (''c'', Some ''config'')] ''g'' = Some (Some ''genesis'')" "example_parse ''genesis'' = Some []"
    "map_of [(''g'', Some ''genesis''), (''c'', Some ''config'')] ''c'' = Some (Some ''config'')" "example_parse ''config'' = Some []"
    "\<not> in_dir (path_join [''/state'', ''genesis.json'']) ''c''"
    "[(''startTime'', JNum 3)] = spread [] [(''startTime'', JNum (of_int ((0 + 3000) div 1000)))]"
    "example_parse (example_print [(''startTime'', JNum 3)]) = Some [(''startTime'', JNum 3)]"
    "[(''GenesisFile'', JStr ''/state/genesis.json'')] = spread [] [(''GenesisFile'', JStr (path_join [''/state'', ''genesis.json'']))]"
    "example_parse (example_print [(''GenesisFile'', JStr ''/state/genesis.json'')]) = Some [(''GenesisFile'', JStr ''/state/genesis.json'')]"
    by code_simp+
  from local_cluster_starts_afresh [OF this, where hash = "\<lambda>c. ''hash''"] show ?thesis by blast
qed

end
