(* ===== verification/Spec2Isabelle.thy ===== *)
theory Spec2Isabelle imports Prelude Actions Ipc Requests NodeUtils BccNode Network Broadcasts Storage News
  Downloads JsValues ApiErrors ApiCalls ApiData BccApi Migration
  Texts Transactions HardwareTx HardwareSigning
  Wallets WalletDialogs AppUpdate Staking Voting
  HardwareWallets HardwareTrace
  WalletRequests Assets Currency WalletSettings HardwareChannel
  DiskSpace NodeLaunch begin

text \<open>
  A verification development for Klarity, the desktop wallet under \<^verbatim>\<open>src/source\<close>.

  \<^bold>\<open>The program.\<close> An Electron application in two processes. The main process (\<^verbatim>\<open>source/main\<close>) starts, watches and
  restarts the node (\<^verbatim>\<open>bcc/BccNode.js\<close>), keeps the settings, downloads and installs updates and talks to hardware wallets. The
  renderer (\<^verbatim>\<open>source/renderer/app\<close>) is a set of MobX stores: containers trigger actions, stores listen to them, call the
  backend of the node through \<^verbatim>\<open>api/api.js\<close>, and ask the main process over IPC channels (\<^verbatim>\<open>common/ipc\<close>). The node's
  state is broadcast to the renderer, whose \<^verbatim>\<open>NetworkStatusStore\<close> decides whether the application is connected; every other
  store acts only then.

  \<^bold>\<open>How it is modelled.\<close> Pure code is translated to functions over records and datatypes that keep the names of the source.
  A class or store with state is a record, each method a function on it, and an asynchronous method is cut at its \<open>await\<close>s: what
  it still has to do is a task in the state (a stack of frames in \<open>BccNode\<close> and \<open>HardwareWallets\<close>), which an event resumes
  with the answer that the environment chooses. A component is then a step function over an event datatype, and \<open>run\<close> of
  \<open>Prelude\<close> folds it over a list of events: a statement about every list is a statement about every interleaving of user
  actions, answers and timers. Errors are values: a rejection is \<open>Inl\<close>, a missing value \<open>None\<close>, and every throw and early
  return of the source is a branch. \<open>setInterval\<close> is a list of live timers beside the field that holds the id, so that
  a timer nobody can clear any more is visible. Requests to other processes, dialogs and navigations are effects, appended to a list.
  Packages that are not in the repository (semver, lodash's case conversions and collation, CBOR encoders, JSON, the file system,
  \<^verbatim>\<open>find-process\<close>, the downloader, the device libraries) are parameters; a theorem that needs a law of one of them has
  the law as a hypothesis and a witness that meets it.

  \<^bold>\<open>The theories\<close>, by the code they model:
  \<^item> \<open>Prelude\<close>: promises, arrays and objects of JavaScript, interval timers, runs, and the interfaces of machines:
    \<open>machine\<close> and \<open>guarded_machine\<close> (an invariant, for all events or for disciplined ones), \<open>counted_machine\<close> (a weight bounded by
    the cost of the events) and \<open>traced_machine\<close> (states that rest on what earlier events established). \<open>Texts\<close> and \<open>JsValues\<close>:
    numbers as texts, splitting and joining, JSON values and lodash's accessors.
  \<^item> \<open>Actions\<close>: \<^verbatim>\<open>actions/lib/Action.js\<close>. \<open>Ipc\<close>: \<^verbatim>\<open>common/ipc/lib/IpcChannel.js, IpcConversation.js\<close>.
    \<open>Requests\<close>: \<^verbatim>\<open>stores/lib/Request.js, CachedRequest.js\<close>.
  \<^item> \<open>NodeUtils\<close> and \<open>BccNode\<close>: \<^verbatim>\<open>main/bcc/utils.js, main/utils/processes.js, main/bcc/BccNode.js, setup.js\<close>.
    The abstract life cycle \<open>lifecycle_step\<close> says what the manager promises; the manager refines it. \<open>Network\<close>:
    \<^verbatim>\<open>stores/NetworkStatusStore.js\<close>; \<open>Broadcasts\<close> composes the two.
  \<^item> \<open>Storage\<close>: \<^verbatim>\<open>main/ipc/electronStoreConversation.js, api/utils/localStorage.js\<close> over a store with the laws of
    \<^verbatim>\<open>electron-store\<close>, which nested objects meet. \<open>News\<close>: \<^verbatim>\<open>domains/News.js, stores/NewsFeedStore.js\<close>.
    \<open>Downloads\<close>: \<^verbatim>\<open>main/utils/downloadManager.js, mainLocalStorage.js, main/ipc/downloadManagerChannel.js\<close>.
    \<open>AppUpdate\<close>: \<^verbatim>\<open>stores/AppUpdateStore.js, main/ipc/manageAppUpdateChannel.js\<close>.
  \<^item> \<open>ApiErrors\<close>, \<open>ApiCalls\<close>, \<open>ApiData\<close>, \<open>BccApi\<close>: the backend interface, from \<^verbatim>\<open>domains/ApiError.js\<close> and the
    requests under \<^verbatim>\<open>api/*/requests\<close> to the methods of \<^verbatim>\<open>api/api.js\<close>.
  \<^item> \<open>Wallets\<close> and \<open>WalletDialogs\<close>: \<^verbatim>\<open>stores/WalletsStore.js, WalletBackupStore.js\<close>. \<open>Migration\<close>:
    \<^verbatim>\<open>stores/WalletMigrationStore.js\<close>. \<open>Transactions\<close>: \<^verbatim>\<open>stores/TransactionsStore.js, utils/transaction.js\<close>. \<open>Staking\<close>:
    \<^verbatim>\<open>stores/StakingStore.js\<close>. \<open>Voting\<close>: \<^verbatim>\<open>stores/VotingStore.js\<close>.
  \<^item> \<open>HardwareTx\<close> (\<^verbatim>\<open>utils/hardwareWalletUtils.js, sophieLedger.js, sophieTrezor.js\<close>), \<open>HardwareSigning\<close>,
    \<open>HardwareWallets\<close> and \<open>HardwareTrace\<close>: \<^verbatim>\<open>stores/HardwareWalletsStore.js\<close>, from the request for a device to the
    transaction that is submitted, and the connection of devices around it.
  \<^item> \<open>WalletRequests\<close>: \<^verbatim>\<open>stores/AddressesStore.js\<close> and the requests of \<^verbatim>\<open>stores/TransactionsStore.js\<close>, both tables of
    cached requests with one entry for each wallet. \<open>Assets\<close>: \<^verbatim>\<open>domains/Asset.js, stores/AssetsStore.js, utils/assets.js,
    utils/walletUtils.js\<close>. \<open>Currency\<close>: \<^verbatim>\<open>config/currencyConfig.coingecko.js, stores/CurrencyStore.js\<close>.
    \<open>WalletSettings\<close>: \<^verbatim>\<open>stores/WalletSettingsStore.js, stores/WalletsLocalStore.js,
    utils/walletRecoveryPhraseVerificationUtils.js\<close>.
  \<^item> \<open>HardwareChannel\<close>: \<^verbatim>\<open>main/ipc/getHardwareWalletChannel.js\<close>, the memo of connected Ledgers in the main process, its observer
    and the handlers of the requests that \<open>HardwareWallets\<close> sends.
  \<^item> \<open>DiskSpace\<close>: \<^verbatim>\<open>main/utils/handleDiskSpace.js\<close>, which stops and restarts the node of \<open>BccNode\<close>. \<open>NodeLaunch\<close>: the file
    work of \<^verbatim>\<open>main/bcc/utils.js, main/utils/restoreKeystore.js\<close> over a list of files, where every operation may fail, and
    \<^verbatim>\<open>main/bcc/BccWalletLauncher.js, BccSelfnodeLauncher.js\<close>.
  \<^bold>\<open>What the lemmas show.\<close> Each component has an invariant of its state with a lemma for every operation, collected in
  the interpretation of its machine; the properties are read off the runs. Optimised or stateful code is compared with a reference:
  the chain of an API error with the first alternative that matches, the ranking of stake pools with one filter, the
  transaction form with the transactions that can pass it, the body a device signs with the body that is submitted. Some theorems state
  what the code does wrong, so that it stays visible: a failed deletion that blocks the refresh of wallets, a registration
  that is retried without its data, a poller that leaks, a promise that never settles.

  \<^bold>\<open>Bounds.\<close> Functions are total: recursion is structural, and key derivation recurses on the length of the path with a measure. The one
  loop that need not end, the poll \<open>checkCondition\<close>, is a partial function into options, and \<open>NodeUtils\<close> proves that it
  returns for every positive interval, at most one interval after the timeout. Runs are lists of any length, so no fuel is chosen
  anywhere. Amounts are rationals (exact for \<open>BigNumber\<close>), counters naturals or integers, bytes \<open>8 word\<close>.

  \<^bold>\<open>Not modelled.\<close> React components, containers, routes, themes and style sheets, translations and their texts, the windows
  and menus, logging, and the files the application writes for the user (PDF, CSV, QR code, logs): they render or export what the
  stores hold. The tests, the storybook, the installers and build scripts. The launchers of the node and wallet
  processes and the creation of the self node's configuration: they build command lines and files. The stores that
  only hold flags for the interface (dialogs, notifications, window). The word lists and the wrappers around the cryptographic packages.
  The \<open>Store\<close> base class only hands reactions to MobX; where a reaction matters it is an event of the store's machine.
\<close>

end
